(* ===== verification/Fleet_Prelude.thy ===== *)
theory Fleet_Prelude
  imports Main "HOL-Library.Char_ord" "HOL-Library.List_Lexorder"
begin

text \<open>
  Shared vocabulary of the development: time, SQL tables as lists of rows in insertion
  order, the row operations that stand for the SQL statements of the program
  (\<open>UPDATE ... WHERE\<close>, \<open>DELETE ... WHERE\<close>, \<open>SELECT COUNT(*)\<close>, \<open>ORDER BY ... LIMIT\<close>), the
  sort keys of those queries, and the lemmas about them that every component uses.
\<close>

section \<open>Collections of facts\<close>

named_theorems row_simps "effects of the row operations on one row or one table"
named_theorems effects "what a store operation does to one table"

section \<open>Time\<close>

text \<open>
  \<open>time.Time\<close> and \<open>time.Duration\<close> are integers: nanoseconds since the Unix epoch and
  nanoseconds. \<open>time.Time{}\<close>, the zero time, lies before every time the program uses.
\<close>

type_synonym timestamp = int
type_synonym duration = int

definition seconds :: "int \<Rightarrow> duration" where
  "seconds n = n * 1000000000"

definition minutes :: "int \<Rightarrow> duration" where
  "minutes n = seconds (60 * n)"

definition zero_time :: timestamp where
  "zero_time = - 62135596800000000000"

text \<open>Comparisons with a nullable column: a comparison with \<open>NULL\<close> is not true.\<close>

fun null_lt :: "timestamp option \<Rightarrow> timestamp \<Rightarrow> bool" where
  "null_lt None t = False"
| "null_lt (Some x) t = (x < t)"

fun null_ge :: "timestamp option \<Rightarrow> timestamp \<Rightarrow> bool" where
  "null_ge None t = False"
| "null_ge (Some x) t = (t \<le> x)"

fun null_gt :: "timestamp option \<Rightarrow> timestamp \<Rightarrow> bool" where
  "null_gt None t = False"
| "null_gt (Some x) t = (t < x)"

lemma null_lt_not_ge [simp]: "null_lt l t \<Longrightarrow> \<not> null_ge l t"
  by (cases l) auto

lemma null_lt_not_gt [simp]: "null_lt l t \<Longrightarrow> \<not> null_gt l t"
  by (cases l) auto

section \<open>Rows and statements\<close>

definition update_where :: "('r \<Rightarrow> bool) \<Rightarrow> ('r \<Rightarrow> 'r) \<Rightarrow> 'r list \<Rightarrow> 'r list" where
  "update_where P f rows = map (\<lambda>r. if P r then f r else r) rows"

definition delete_where :: "('r \<Rightarrow> bool) \<Rightarrow> 'r list \<Rightarrow> 'r list" where
  "delete_where P rows = filter (\<lambda>r. \<not> P r) rows"

definition count_where :: "('r \<Rightarrow> bool) \<Rightarrow> 'r list \<Rightarrow> nat" where
  "count_where P rows = length (filter P rows)"

text \<open>\<open>ORDER BY k LIMIT 1\<close> and \<open>ORDER BY k LIMIT n\<close>.\<close>

definition first_by :: "('r \<Rightarrow> 'k::linorder) \<Rightarrow> 'r list \<Rightarrow> 'r option" where
  "first_by k rows = (case sort_key k rows of [] \<Rightarrow> None | r # _ \<Rightarrow> Some r)"

lemma update_where_Nil [row_simps, simp]: "update_where P f [] = []"
  by (simp add: update_where_def)

lemma update_where_Cons [row_simps, simp]:
  "update_where P f (r # rs) = (if P r then f r else r) # update_where P f rs"
  by (simp add: update_where_def)

lemma update_where_append [row_simps, simp]:
  "update_where P f (xs @ ys) = update_where P f xs @ update_where P f ys"
  by (simp add: update_where_def)

lemma length_update_where [simp]: "length (update_where P f rows) = length rows"
  by (simp add: update_where_def)

lemma set_update_where:
  "set (update_where P f rows) = {r \<in> set rows. \<not> P r} \<union> f ` {r \<in> set rows. P r}"
  by (auto simp: update_where_def)

lemma in_update_whereE:
  assumes "r \<in> set (update_where P f rows)"
  obtains (kept) "r \<in> set rows" "\<not> P r" | (changed) q where "q \<in> set rows" "P q" "r = f q"
  using assms by (auto simp: set_update_where)

lemma map_update_where [row_simps]:
  assumes "\<And>r. P r \<Longrightarrow> key (f r) = key r"
  shows "map key (update_where P f rows) = map key rows"
  using assms by (induction rows) auto

lemma update_where_none: "count_where P rows = 0 \<Longrightarrow> update_where P f rows = rows"
  by (induction rows) (auto simp: count_where_def split: if_splits)

lemma count_where_Nil [row_simps, simp]: "count_where P [] = 0"
  by (simp add: count_where_def)

lemma count_where_Cons [row_simps, simp]:
  "count_where P (r # rs) = (if P r then Suc (count_where P rs) else count_where P rs)"
  by (simp add: count_where_def)

lemma count_where_append [row_simps, simp]:
  "count_where P (xs @ ys) = count_where P xs + count_where P ys"
  by (simp add: count_where_def)

lemma count_where_zero: "count_where P rows = 0 \<longleftrightarrow> (\<forall>r \<in> set rows. \<not> P r)"
  by (auto simp: count_where_def filter_empty_conv)

lemma count_where_le_update:
  assumes "\<And>r. P r \<Longrightarrow> Q (f r) \<Longrightarrow> Q r"
  shows "count_where Q (update_where P f rows) \<le> count_where Q rows"
  using assms by (induction rows) auto

lemma count_where_update_same:
  assumes "\<And>r. r \<in> set rows \<Longrightarrow> P r \<Longrightarrow> Q (f r) = Q r"
  shows "count_where Q (update_where P f rows) = count_where Q rows"
  using assms by (induction rows) auto

lemma count_where_update_less:
  assumes "count_where P rows > 0"
    and "\<And>r. P r \<Longrightarrow> Q r \<and> \<not> Q (f r)"
  shows "count_where Q (update_where P f rows) < count_where Q rows"
  using assms(1)
proof (induction rows)
  case (Cons r rows)
  have le: "count_where Q (update_where P f rows) \<le> count_where Q rows"
    by (rule count_where_le_update) (use assms(2) in blast)
  show ?case
    using Cons le assms(2)[of r] by auto
qed simp

lemma count_where_delete_le: "count_where Q (delete_where P rows) \<le> count_where Q rows"
  by (induction rows) (auto simp: delete_where_def)

lemma count_where_mono:
  "(\<And>r. r \<in> set rows \<Longrightarrow> P r \<Longrightarrow> Q r) \<Longrightarrow> count_where P rows \<le> count_where Q rows"
  by (induction rows) auto

lemma delete_where_subset: "set (delete_where P rows) = {r \<in> set rows. \<not> P r}"
  by (auto simp: delete_where_def)

lemma distinct_map_delete_where:
  "distinct (map key rows) \<Longrightarrow> distinct (map key (delete_where P rows))"
  by (simp add: delete_where_def distinct_map_filter)

lemma count_one_unique:
  "count_where P rows = 1 \<Longrightarrow> r \<in> set rows \<Longrightarrow> q \<in> set rows \<Longrightarrow> P r \<Longrightarrow> P q \<Longrightarrow> r = q"
proof (induction rows)
  case (Cons x rows)
  then show ?case
    using count_where_zero[of P rows] by (cases "P x") auto
qed simp

section \<open>Tables with a primary key\<close>

text \<open>
  A table is a list of rows; its primary key is a function of the row. \<open>find_row\<close> is the
  lookup by key. The locale below states what a keyed table promises to the code that
  reads it after a statement has run: every table of the store interprets it.
\<close>

definition find_row :: "('r \<Rightarrow> 'k) \<Rightarrow> 'k \<Rightarrow> 'r list \<Rightarrow> 'r option" where
  "find_row key k rows = find (\<lambda>r. key r = k) rows"

lemma find_row_Nil [row_simps, simp]: "find_row key k [] = None"
  by (simp add: find_row_def)

lemma find_row_Cons [row_simps, simp]:
  "find_row key k (r # rs) = (if key r = k then Some r else find_row key k rs)"
  by (simp add: find_row_def)

lemma find_row_Some: "find_row key k rows = Some r \<Longrightarrow> r \<in> set rows \<and> key r = k"
  by (induction rows) (auto split: if_splits)

lemma find_row_None: "find_row key k rows = None \<longleftrightarrow> k \<notin> key ` set rows"
  by (induction rows) auto

lemma find_row_unique:
  "distinct (map key rows) \<Longrightarrow> r \<in> set rows \<Longrightarrow> find_row key (key r) rows = Some r"
  by (induction rows) (auto simp: rev_image_eqI)

lemma find_row_append:
  "find_row key k (xs @ ys) =
     (case find_row key k xs of None \<Rightarrow> find_row key k ys | Some r \<Rightarrow> Some r)"
  by (induction xs) auto

lemma find_row_update_where:
  assumes "\<And>r. P r \<Longrightarrow> key (f r) = key r"
  shows "find_row key k (update_where P f rows) =
     map_option (\<lambda>r. if P r then f r else r) (find_row key k rows)"
  using assms by (induction rows) auto

lemma list_ex_update_where:
  "(\<And>r. Q (f r) = Q r) \<Longrightarrow> list_ex Q (update_where P f rows) = list_ex Q rows"
  by (induction rows) auto

lemma unique_row:
  "distinct (map key rows) \<Longrightarrow> r \<in> set rows \<Longrightarrow> q \<in> set rows \<Longrightarrow> key r = key q \<Longrightarrow> r = q"
  by (metis find_row_unique option.inject)

lemma count_key_le_one:
  "distinct (map key rows) \<Longrightarrow> (\<And>r. P r \<Longrightarrow> key r = k) \<Longrightarrow> count_where P rows \<le> 1"
proof (induction rows)
  case (Cons r rows)
  show ?case
  proof (cases "P r")
    case True
    have "count_where P rows = 0"
      unfolding count_where_zero
    proof
      fix q assume "q \<in> set rows"
      then have "key q \<noteq> key r" using Cons.prems(1) by (metis distinct.simps(2) image_eqI list.simps(9) set_map)
      then show "\<not> P q" using Cons.prems(2) True by metis
    qed
    with True show ?thesis by simp
  next
    case False
    with Cons show ?thesis by simp
  qed
qed simp

lemma count_key_one:
  "distinct (map key rows) \<Longrightarrow> r \<in> set rows \<Longrightarrow> P r \<Longrightarrow> (\<And>r. P r \<Longrightarrow> key r = k) \<Longrightarrow>
   count_where P rows = 1"
  using count_key_le_one[of key rows P k] count_where_zero[of P rows] by fastforce

section \<open>Sort keys of the queries\<close>

text \<open>
  \<open>ORDER BY priority, time, id\<close>: SQLite compares the expressions from left to right, text
  by its bytes. The key is a type of its own with a linear order, so that the sorting
  functions of the library apply.
\<close>

datatype order_key = Order_Key (ok_rank: int) (ok_time: timestamp) (ok_id: string)

instantiation order_key :: linorder
begin

definition less_eq_order_key :: "order_key \<Rightarrow> order_key \<Rightarrow> bool" where
  "less_eq_order_key a b \<longleftrightarrow>
     ok_rank a < ok_rank b \<or> ok_rank a = ok_rank b \<and>
       (ok_time a < ok_time b \<or> ok_time a = ok_time b \<and> ok_id a \<le> ok_id b)"

definition less_order_key :: "order_key \<Rightarrow> order_key \<Rightarrow> bool" where
  "less_order_key a b \<longleftrightarrow>
     ok_rank a < ok_rank b \<or> ok_rank a = ok_rank b \<and>
       (ok_time a < ok_time b \<or> ok_time a = ok_time b \<and> ok_id a < ok_id b)"

instance
proof
  fix x y z :: order_key
  show "(x < y) = (x \<le> y \<and> \<not> y \<le> x)"
    by (auto simp: less_eq_order_key_def less_order_key_def)
  show "x \<le> x"
    by (simp add: less_eq_order_key_def)
  show "x \<le> y \<Longrightarrow> y \<le> z \<Longrightarrow> x \<le> z"
    by (auto simp: less_eq_order_key_def)
  show "x \<le> y \<Longrightarrow> y \<le> x \<Longrightarrow> x = y"
    by (cases x; cases y) (auto simp: less_eq_order_key_def)
  show "x \<le> y \<or> y \<le> x"
    by (auto simp: less_eq_order_key_def)
qed

end

lemmas order_key_defs = less_eq_order_key_def less_order_key_def

lemma first_by_Nil [simp]: "first_by k [] = None"
  by (simp add: first_by_def)

lemma first_by_None [simp]: "first_by k rows = None \<longleftrightarrow> rows = []"
  by (auto simp: first_by_def split: list.splits dest: arg_cong[where f = set])

lemma first_by_SomeD:
  assumes "first_by k rows = Some r"
  shows "r \<in> set rows" and "\<And>q. q \<in> set rows \<Longrightarrow> k r \<le> k q"
proof -
  from assms obtain rs where s: "sort_key k rows = r # rs"
    by (auto simp: first_by_def split: list.splits)
  have set: "set (r # rs) = set rows"
    using s set_sort[of k rows] by metis
  then show "r \<in> set rows" by auto
  have "sorted (map k (r # rs))"
    using s sorted_sort_key[of k rows] by metis
  then show "\<And>q. q \<in> set rows \<Longrightarrow> k r \<le> k q"
    using set by auto
qed

end
