(* ===== verification/Go_Std.thy ===== *)
theory Go_Std
  imports Fleet_Prelude "HOL-Library.Word" "HOL-Library.Monad_Syntax"
begin

text \<open>
  The parts of the Go standard library that the modelled code calls, as executable
  functions: \<open>strings\<close>, \<open>strconv.Itoa\<close>, \<open>encoding/hex\<close>, \<open>path/filepath\<close>,
  \<open>time.Format(time.RFC3339Nano)\<close>, \<open>crypto/sha256\<close> and the decoding rules of
  \<open>encoding/json\<close>. A Go string is a list of bytes, as \<open>char\<close> is one byte here.
\<close>

section \<open>Bytes\<close>

definition byte_of :: "char \<Rightarrow> nat" where
  "byte_of c = of_char c"

definition is_digit :: "char \<Rightarrow> bool" where
  "is_digit c \<longleftrightarrow> 48 \<le> byte_of c \<and> byte_of c \<le> 57"

definition is_lower :: "char \<Rightarrow> bool" where
  "is_lower c \<longleftrightarrow> 97 \<le> byte_of c \<and> byte_of c \<le> 122"

definition is_upper :: "char \<Rightarrow> bool" where
  "is_upper c \<longleftrightarrow> 65 \<le> byte_of c \<and> byte_of c \<le> 90"

definition is_lower_hex :: "char \<Rightarrow> bool" where
  "is_lower_hex c \<longleftrightarrow> is_digit c \<or> 97 \<le> byte_of c \<and> byte_of c \<le> 102"

definition is_hex :: "char \<Rightarrow> bool" where
  "is_hex c \<longleftrightarrow> is_lower_hex c \<or> 65 \<le> byte_of c \<and> byte_of c \<le> 70"

lemmas char_classes = byte_of_def is_digit_def is_lower_def is_upper_def is_lower_hex_def is_hex_def

section \<open>strings\<close>

fun has_prefix :: "string \<Rightarrow> string \<Rightarrow> bool" where
  "has_prefix s [] = True"
| "has_prefix [] (p # ps) = False"
| "has_prefix (c # s) (p # ps) = (c = p \<and> has_prefix s ps)"

definition has_suffix :: "string \<Rightarrow> string \<Rightarrow> bool" where
  "has_suffix s p = has_prefix (rev s) (rev p)"

fun contains :: "string \<Rightarrow> string \<Rightarrow> bool" where
  "contains [] p = (p = [])"
| "contains (c # s) p = (has_prefix (c # s) p \<or> contains s p)"

text \<open>The UTF-8 encodings of the white space runes of \<open>unicode.IsSpace\<close>.\<close>

definition space_runes :: "string list" where
  "space_runes =
     map (\<lambda>b. [char_of (b :: nat)]) [9, 10, 11, 12, 13, 32]
     @ map (\<lambda>b. [char_of (194 :: nat), char_of (b :: nat)]) [133, 160]
     @ [[char_of (225 :: nat), char_of (154 :: nat), char_of (128 :: nat)]]
     @ map (\<lambda>b. [char_of (226 :: nat), char_of (128 :: nat), char_of (b :: nat)])
         [128, 129, 130, 131, 132, 133, 134, 135, 136, 137, 138, 168, 169, 175]
     @ [[char_of (226 :: nat), char_of (129 :: nat), char_of (159 :: nat)],
        [char_of (227 :: nat), char_of (128 :: nat), char_of (128 :: nat)]]"

fun trim_runes :: "nat \<Rightarrow> string list \<Rightarrow> string \<Rightarrow> string" where
  "trim_runes 0 runes s = s"
| "trim_runes (Suc n) runes s =
     (case find (\<lambda>r. has_prefix s r) runes of
        None \<Rightarrow> s
      | Some r \<Rightarrow> trim_runes n runes (drop (length r) s))"

text \<open>\<open>strings.TrimSpace\<close>: the fuel is the length, one step removes at least one byte.\<close>

definition trim_space :: "string \<Rightarrow> string" where
  "trim_space s =
     (let l = trim_runes (length s) space_runes s
      in rev (trim_runes (length l) (map rev space_runes) (rev l)))"

fun split_on :: "char \<Rightarrow> string \<Rightarrow> string list" where
  "split_on c [] = [[]]"
| "split_on c (x # xs) =
     (if x = c then [] # split_on c xs
      else (case split_on c xs of [] \<Rightarrow> [[x]] | p # ps \<Rightarrow> (x # p) # ps))"

fun join :: "string \<Rightarrow> string list \<Rightarrow> string" where
  "join sep [] = []"
| "join sep [p] = p"
| "join sep (p # q # ps) = p @ sep @ join sep (q # ps)"

lemma split_on_nonempty [simp]: "split_on c s \<noteq> []"
  by (cases s) (auto split: list.splits)

lemma join_split_on: "join [c] (split_on c s) = s"
proof (induction s)
  case (Cons x xs)
  obtain p ps where "split_on c xs = p # ps"
    by (cases "split_on c xs") auto
  with Cons show ?case
    by (cases ps) auto
qed simp

text \<open>
  \<open>strings.ToLower\<close>: ASCII letters, and the two other runes whose lower case is an ASCII
  letter (U+0130 and U+212A). The remaining runes map to runes outside ASCII, which no
  comparison of the program tells apart; their bytes are kept.
\<close>

definition lower_char :: "char \<Rightarrow> char" where
  "lower_char c = (if is_upper c then char_of (byte_of c + 32) else c)"

fun to_lower :: "string \<Rightarrow> string" where
  "to_lower [] = []"
| "to_lower [c] = [lower_char c]"
| "to_lower [c, d] =
     (if byte_of c = 196 \<and> byte_of d = 176 then ''i'' else [lower_char c, lower_char d])"
| "to_lower (c # d # e # s) =
     (if byte_of c = 196 \<and> byte_of d = 176 then CHR ''i'' # to_lower (e # s)
      else if byte_of c = 226 \<and> byte_of d = 132 \<and> byte_of e = 170 then CHR ''k'' # to_lower s
      else lower_char c # to_lower (d # e # s))"

definition replace_char :: "char \<Rightarrow> char \<Rightarrow> string \<Rightarrow> string" where
  "replace_char a b s = map (\<lambda>c. if c = a then b else c) s"

text \<open>A pattern \<open>^[first][rest]{lo,hi}$\<close> of \<open>regexp\<close>, which matches the whole string.\<close>

definition matches :: "(char \<Rightarrow> bool) \<Rightarrow> (char \<Rightarrow> bool) \<Rightarrow> nat \<Rightarrow> nat \<Rightarrow> string \<Rightarrow> bool" where
  "matches first rest lo hi s =
     (case s of [] \<Rightarrow> False
      | c # cs \<Rightarrow> first c \<and> list_all rest cs \<and> lo \<le> length cs \<and> length cs \<le> hi)"

section \<open>unicode/utf8\<close>

definition continuation :: "nat \<Rightarrow> bool" where
  "continuation b \<longleftrightarrow> 128 \<le> b \<and> b \<le> 191"

fun utf8_valid :: "nat list \<Rightarrow> bool" where
  "utf8_valid [] = True"
| "utf8_valid (a # s) =
     (if a < 128 then utf8_valid s
      else case s of
        b # s1 \<Rightarrow>
          (if 194 \<le> a \<and> a \<le> 223 then continuation b \<and> utf8_valid s1
           else case s1 of
             c # s2 \<Rightarrow>
               (if 224 \<le> a \<and> a \<le> 239 then
                  continuation b \<and> (a = 224 \<longrightarrow> 160 \<le> b) \<and> (a = 237 \<longrightarrow> b \<le> 159)
                  \<and> continuation c \<and> utf8_valid s2
                else case s2 of
                  d # s3 \<Rightarrow>
                    240 \<le> a \<and> a \<le> 244 \<and> continuation b \<and> (a = 240 \<longrightarrow> 144 \<le> b)
                    \<and> (a = 244 \<longrightarrow> b \<le> 143) \<and> continuation c \<and> continuation d \<and> utf8_valid s3
                | [] \<Rightarrow> False)
           | [] \<Rightarrow> False)
      | [] \<Rightarrow> False)"

definition valid_string :: "string \<Rightarrow> bool" where
  "valid_string s = utf8_valid (map byte_of s)"

section \<open>strconv and encoding/hex\<close>

fun digits_of :: "nat \<Rightarrow> nat \<Rightarrow> string" where
  "digits_of 0 n = []"
| "digits_of (Suc fuel) n =
     (if n < 10 then [char_of (48 + n)]
      else digits_of fuel (n div 10) @ [char_of (48 + n mod 10)])"

definition nat_to_dec :: "nat \<Rightarrow> string" where
  "nat_to_dec n = digits_of (Suc n) n"

lemma digit_chars [simp]:
  "char_of (48 :: nat) = CHR ''0''" "char_of (49 :: nat) = CHR ''1''" "char_of (50 :: nat) = CHR ''2''"
  "char_of (51 :: nat) = CHR ''3''" "char_of (52 :: nat) = CHR ''4''" "char_of (53 :: nat) = CHR ''5''"
  "char_of (54 :: nat) = CHR ''6''" "char_of (55 :: nat) = CHR ''7''" "char_of (56 :: nat) = CHR ''8''"
  "char_of (57 :: nat) = CHR ''9''"
  by code_simp+

lemma digits_of_fuel: "n < a \<Longrightarrow> n < b \<Longrightarrow> digits_of a n = digits_of b n"
proof (induction a n arbitrary: b rule: digits_of.induct)
  case (2 fuel n)
  then obtain b' where b: "b = Suc b'" by (cases b) auto
  show ?case
  proof (cases "n < 10")
    case False
    then have "n div 10 < fuel" "n div 10 < b'" using 2(2,3) b by auto
    then show ?thesis using 2(1)[OF False, of b'] False b by simp
  qed (simp add: b)
qed simp

lemma nat_to_dec_step:
  "nat_to_dec n = (if n < 10 then [char_of (48 + n)] else nat_to_dec (n div 10) @ [char_of (48 + n mod 10)])"
proof (cases "n < 10")
  case False
  then have "digits_of n (n div 10) = digits_of (Suc (n div 10)) (n div 10)"
    by (intro digits_of_fuel) auto
  with False show ?thesis unfolding nat_to_dec_def by (subst digits_of.simps) (simp only: if_False)
qed (simp add: nat_to_dec_def)

lemma nat_to_dec_numeral [simp]:
  "nat_to_dec (numeral k) = (if numeral k < (10 :: nat) then [char_of (48 + numeral k :: nat)]
     else nat_to_dec (numeral k div 10) @ [char_of (48 + numeral k mod 10 :: nat)])"
  "nat_to_dec 0 = ''0''" "nat_to_dec 1 = ''1''" "nat_to_dec (Suc 0) = ''1''"
  by (rule nat_to_dec_step) code_simp+

definition itoa :: "int \<Rightarrow> string" where
  "itoa i = (if i < 0 then CHR ''-'' # nat_to_dec (nat (- i)) else nat_to_dec (nat i))"

definition pad_left :: "nat \<Rightarrow> string \<Rightarrow> string" where
  "pad_left w s = replicate (w - length s) (CHR ''0'') @ s"

definition hex_digit :: "nat \<Rightarrow> char" where
  "hex_digit n = (if n < 10 then char_of (48 + n) else char_of (87 + n))"

definition hex_encode :: "nat list \<Rightarrow> string" where
  "hex_encode bs = concat (map (\<lambda>b. [hex_digit (b div 16), hex_digit (b mod 16)]) bs)"

text \<open>\<open>hex.DecodeString s\<close> returns no error; the decoded length is half of the length.\<close>

definition hex_decodes :: "string \<Rightarrow> bool" where
  "hex_decodes s \<longleftrightarrow> even (length s) \<and> list_all is_hex s"

lemma length_hex_encode [simp]: "length (hex_encode bs) = 2 * length bs"
  by (induction bs) (auto simp: hex_encode_def)

lemma hex_digit_lower_hex: "n < 16 \<Longrightarrow> is_lower_hex (hex_digit n)"
  by (auto simp: hex_digit_def char_classes)

lemma hex_encode_lower_hex:
  "\<forall>b \<in> set bs. b < 256 \<Longrightarrow> list_all is_lower_hex (hex_encode bs)"
  by (induction bs) (auto simp: hex_encode_def intro!: hex_digit_lower_hex)

section \<open>path/filepath on Unix\<close>

definition is_abs :: "string \<Rightarrow> bool" where
  "is_abs p = has_prefix p ''/''"

definition clean_step :: "bool \<Rightarrow> string list \<Rightarrow> string \<Rightarrow> string list" where
  "clean_step rooted stack e =
     (if e = [] \<or> e = ''.'' then stack
      else if e = ''..'' then
        (case stack of
           [] \<Rightarrow> (if rooted then [] else [e])
         | t # ts \<Rightarrow> (if t = ''..'' then e # stack else ts))
      else e # stack)"

definition path_clean :: "string \<Rightarrow> string" where
  "path_clean p =
     (let rooted = is_abs p;
          parts = rev (foldl (clean_step rooted) [] (split_on (CHR ''/'') p));
          body = join ''/'' parts
      in if rooted then CHR ''/'' # body else if body = [] then ''.'' else body)"

definition path_base :: "string \<Rightarrow> string" where
  "path_base p =
     (if p = [] then ''.''
      else (case dropWhile (\<lambda>c. c = CHR ''/'') (rev p) of
              [] \<Rightarrow> ''/''
            | q \<Rightarrow> rev (takeWhile (\<lambda>c. c \<noteq> CHR ''/'') q)))"

section \<open>time: UTC and RFC 3339 with nanoseconds\<close>

definition civil_from_days :: "int \<Rightarrow> int \<times> int \<times> int" where
  "civil_from_days z =
     (let z' = z + 719468; era = z' div 146097; doe = z' mod 146097;
          yoe = (doe - doe div 1460 + doe div 36524 - doe div 146096) div 365;
          doy = doe - (365 * yoe + yoe div 4 - yoe div 100);
          mp = (5 * doy + 2) div 153;
          d = doy - (153 * mp + 2) div 5 + 1;
          m = (if mp < 10 then mp + 3 else mp - 9);
          y = yoe + era * 400 + (if m \<le> 2 then 1 else 0)
      in (y, m, d))"

definition two_digits :: "int \<Rightarrow> string" where
  "two_digits i = pad_left 2 (itoa i)"

definition fraction :: "int \<Rightarrow> string" where
  "fraction ns =
     (if ns = 0 then []
      else CHR ''.'' # rev (dropWhile (\<lambda>c. c = CHR ''0'') (rev (pad_left 9 (itoa ns)))))"

definition format_rfc3339_nano :: "timestamp \<Rightarrow> string" where
  "format_rfc3339_nano t =
     (let secs = t div 1000000000; ns = t mod 1000000000;
          days = secs div 86400; sod = secs mod 86400; (y, m, d) = civil_from_days days
      in pad_left 4 (itoa y) @ ''-'' @ two_digits m @ ''-'' @ two_digits d @ ''T''
         @ two_digits (sod div 3600) @ '':'' @ two_digits (sod div 60 mod 60) @ '':''
         @ two_digits (sod mod 60) @ fraction ns @ ''Z'')"

end
