(* ===== verification/Go_Sha256.thy ===== *)
theory Go_Sha256
  imports Go_Std
begin

text \<open>
  \<open>crypto/sha256\<close>: \<open>sha256.Sum256\<close> over bytes, with 32-bit words, and the lower-case
  hexadecimal digest that the program stores as a revision.
\<close>

unbundle bit_operations_syntax

type_synonym w32 = "32 word"

definition rotr :: "nat \<Rightarrow> w32 \<Rightarrow> w32" where
  "rotr n x = (drop_bit n x OR push_bit (32 - n) x)"

definition sha_k :: "w32 list" where
  "sha_k =
    [0x428a2f98,0x71374491,0xb5c0fbcf,0xe9b5dba5,0x3956c25b,0x59f111f1,0x923f82a4,0xab1c5ed5,
     0xd807aa98,0x12835b01,0x243185be,0x550c7dc3,0x72be5d74,0x80deb1fe,0x9bdc06a7,0xc19bf174,
     0xe49b69c1,0xefbe4786,0x0fc19dc6,0x240ca1cc,0x2de92c6f,0x4a7484aa,0x5cb0a9dc,0x76f988da,
     0x983e5152,0xa831c66d,0xb00327c8,0xbf597fc7,0xc6e00bf3,0xd5a79147,0x06ca6351,0x14292967,
     0x27b70a85,0x2e1b2138,0x4d2c6dfc,0x53380d13,0x650a7354,0x766a0abb,0x81c2c92e,0x92722c85,
     0xa2bfe8a1,0xa81a664b,0xc24b8b70,0xc76c51a3,0xd192e819,0xd6990624,0xf40e3585,0x106aa070,
     0x19a4c116,0x1e376c08,0x2748774c,0x34b0bcb5,0x391c0cb3,0x4ed8aa4a,0x5b9cca4f,0x682e6ff3,
     0x748f82ee,0x78a5636f,0x84c87814,0x8cc70208,0x90befffa,0xa4506ceb,0xbef9a3f7,0xc67178f2]"

definition sha_init :: "w32 list" where
  "sha_init =
    [0x6a09e667,0xbb67ae85,0x3c6ef372,0xa54ff53a,0x510e527f,0x9b05688c,0x1f83d9ab,0x5be0cd19]"

definition bytes_be :: "nat \<Rightarrow> int \<Rightarrow> nat list" where
  "bytes_be n x = map (\<lambda>i. nat (x div 256 ^ (n - 1 - i) mod 256)) [0..<n]"

definition word_of_bytes :: "nat list \<Rightarrow> w32" where
  "word_of_bytes bs = foldl (\<lambda>a b. 256 * a + word_of_nat b) 0 bs"

definition sha_pad :: "nat list \<Rightarrow> nat list" where
  "sha_pad m = m @ [128] @ replicate ((119 - length m mod 64) mod 64) 0 @ bytes_be 8 (8 * int (length m))"

fun chunks_of :: "nat \<Rightarrow> nat \<Rightarrow> 'a list \<Rightarrow> 'a list list" where
  "chunks_of 0 n xs = []"
| "chunks_of (Suc k) n xs = take n xs # chunks_of k n (drop n xs)"

fun sha_extend :: "nat \<Rightarrow> w32 list \<Rightarrow> w32 list" where
  "sha_extend 0 w = w"
| "sha_extend (Suc k) w =
     (let i = length w; x = w ! (i - 15); y = w ! (i - 2);
          s0 = (rotr 7 x) XOR (rotr 18 x) XOR (drop_bit 3 x);
          s1 = (rotr 17 y) XOR (rotr 19 y) XOR (drop_bit 10 y)
      in sha_extend k (w @ [w ! (i - 16) + s0 + w ! (i - 7) + s1]))"

fun sha_round :: "w32 list \<Rightarrow> w32 \<times> w32 \<Rightarrow> w32 list" where
  "sha_round [a, b, c, d, e, f, g, h] (k, w) =
     (let s1 = (rotr 6 e) XOR (rotr 11 e) XOR (rotr 25 e);
          ch = (e AND f) XOR ((NOT e) AND g);
          t1 = h + s1 + ch + k + w;
          s0 = (rotr 2 a) XOR (rotr 13 a) XOR (rotr 22 a);
          maj = (a AND b) XOR (a AND c) XOR (b AND c)
      in [t1 + s0 + maj, a, b, c, d + t1, e, f, g])"
| "sha_round st kw = st"

definition sha_block :: "w32 list \<Rightarrow> nat list \<Rightarrow> w32 list" where
  "sha_block st blk =
     (let w = sha_extend 48 (map word_of_bytes (chunks_of 16 4 blk))
      in map2 (+) st (foldl sha_round st (zip sha_k w)))"

definition sha256 :: "nat list \<Rightarrow> nat list" where
  "sha256 m =
     (let p = sha_pad m
      in concat (map (\<lambda>x. bytes_be 4 (uint x))
           (foldl sha_block sha_init (chunks_of (length p div 64) 64 p))))"

definition sha256_hex :: "string \<Rightarrow> string" where
  "sha256_hex s = hex_encode (sha256 (map byte_of s))"

lemma length_bytes_be [simp]: "length (bytes_be n x) = n"
  by (simp add: bytes_be_def)

lemma bytes_be_lt: "b \<in> set (bytes_be n x) \<Longrightarrow> b < 256"
  by (auto simp: bytes_be_def)

lemma length_sha_round [simp]: "length (sha_round st kw) = length st"
  by (induction st kw rule: sha_round.induct) (simp_all add: Let_def)

lemma length_foldl_sha_round: "length (foldl sha_round st kws) = length st"
  by (induction kws arbitrary: st) simp_all

lemma length_sha_block [simp]: "length (sha_block st b) = length st"
  by (simp add: sha_block_def length_foldl_sha_round Let_def)

lemma length_foldl_sha_block: "length (foldl sha_block st bs) = length st"
  by (induction bs arbitrary: st) simp_all

lemma length_concat_const: "(\<And>x. length (f x) = n) \<Longrightarrow> length (concat (map f xs)) = n * length xs"
  by (induction xs) auto

lemma length_sha256: "length (sha256 m) = 32"
  by (simp add: sha256_def Let_def length_concat_const[where n = 4] length_foldl_sha_block sha_init_def)

lemma sha256_byte: "b \<in> set (sha256 m) \<Longrightarrow> b < 256"
  by (auto simp: sha256_def Let_def intro: bytes_be_lt)

lemma length_sha256_hex [simp]: "length (sha256_hex s) = 64"
  by (simp add: sha256_hex_def length_sha256)

lemma sha256_hex_digits: "list_all is_lower_hex (sha256_hex s)"
  unfolding sha256_hex_def by (rule hex_encode_lower_hex) (auto intro: sha256_byte)

lemma sha256_hex_nonempty [simp]: "sha256_hex s \<noteq> []"
  using length_sha256_hex[of s] by fastforce

end
