(* ===== verification/Go_Json.thy ===== *)
theory Go_Json
  imports Go_Std
begin

text \<open>
  \<open>encoding/json\<close> as the store uses it. A stored payload is bytes; \<open>raw_json\<close> is their
  parse, \<open>None\<close> for bytes that are not JSON. \<open>json.Unmarshal\<close> into a struct reads each
  field by its name: a missing field or \<open>null\<close> leaves the zero value, a value of another
  kind is an error. Keys are compared exactly: all payloads are written by
  \<open>json.Marshal\<close> from the same structs. Timestamps inside payloads are not decoded.
\<close>

datatype json =
    JNull
  | JBool bool
  | JInt int
  | JReal string
  | JString string
  | JArray "json list"
  | JObject "(string \<times> json) list"

type_synonym raw_json = "json option"
type_synonym json_fields = "(string \<times> json) list"

text \<open>The last occurrence of a key wins.\<close>

definition jfield :: "string \<Rightarrow> json_fields \<Rightarrow> json" where
  "jfield k kvs = (case map_of (rev kvs) k of None \<Rightarrow> JNull | Some v \<Rightarrow> v)"

fun jstring :: "json \<Rightarrow> string option" where
  "jstring JNull = Some ''''"
| "jstring (JString s) = Some s"
| "jstring _ = None"

fun jbool :: "json \<Rightarrow> bool option" where
  "jbool JNull = Some False"
| "jbool (JBool b) = Some b"
| "jbool _ = None"

text \<open>\<open>int\<close> and \<open>int64\<close> are 64 bits wide; a number out of range is an error.\<close>

fun jint :: "json \<Rightarrow> int option" where
  "jint JNull = Some 0"
| "jint (JInt i) = (if - (2 ^ 63) \<le> i \<and> i < 2 ^ 63 then Some i else None)"
| "jint _ = None"

fun jobject :: "json \<Rightarrow> json_fields option" where
  "jobject JNull = Some []"
| "jobject (JObject kvs) = Some kvs"
| "jobject _ = None"

definition get_string :: "string \<Rightarrow> json_fields \<Rightarrow> string option" where
  "get_string k kvs = jstring (jfield k kvs)"

definition get_bool :: "string \<Rightarrow> json_fields \<Rightarrow> bool option" where
  "get_bool k kvs = jbool (jfield k kvs)"

definition get_int :: "string \<Rightarrow> json_fields \<Rightarrow> int option" where
  "get_int k kvs = jint (jfield k kvs)"

definition get_object :: "string \<Rightarrow> json_fields \<Rightarrow> json_fields option" where
  "get_object k kvs = jobject (jfield k kvs)"

text \<open>\<open>json.Unmarshal\<close> into a struct whose fields \<open>dec\<close> reads.\<close>

definition unmarshal :: "(json_fields \<Rightarrow> 'a option) \<Rightarrow> raw_json \<Rightarrow> 'a option" where
  "unmarshal dec raw = Option.bind raw (\<lambda>j. Option.bind (jobject j) dec)"

lemmas json_decode = unmarshal_def get_string_def get_bool_def get_int_def get_object_def jfield_def

text \<open>
  A \<open>map[string]any\<close> (operation metadata): decoding gives the object's entries, or the nil
  map for \<open>null\<close>; assignment to a key replaces its value.
\<close>

fun jset :: "string \<Rightarrow> json \<Rightarrow> json_fields \<Rightarrow> json_fields" where
  "jset k v [] = [(k, v)]"
| "jset k v ((k', v') # kvs) = (if k' = k then (k, v) # kvs else (k', v') # jset k v kvs)"

lemma map_of_jset: "map_of (jset k v kvs) = (map_of kvs)(k \<mapsto> v)"
  by (induction kvs) auto

lemma jset_keys: "fst ` set (jset k v kvs) = insert k (fst ` set kvs)"
  by (induction k v kvs rule: jset.induct) auto

lemma distinct_jset: "distinct (map fst kvs) \<Longrightarrow> distinct (map fst (jset k v kvs))"
proof (induction kvs)
  case (Cons kv kvs)
  have "fst kv \<notin> set (map fst kvs)" using Cons.prems by simp
  moreover have "set (map fst (jset k v kvs)) = insert k (set (map fst kvs))"
    using jset_keys[of k v kvs] by simp
  ultimately show ?case using Cons by (cases kv) auto
qed simp

end
