(* ===== verification/Domain_Types.thy ===== *)
theory Domain_Types
  imports Go_Sha256 Go_Json
begin

text \<open>
  \<open>internal/domain\<close>: the status and job-type constants, the records of the resource model
  (\<open>models.go\<close>), the job payloads with their decoding from stored JSON, the result a Host
  Agent reports, and the managed identity of an instance (\<open>managed_identity.go\<close>). A status
  string of the code is a constructor; a string that is none of the constants is
  \<open>OtherStatus\<close> or \<open>JobOther\<close>, and the empty status is \<open>NoStatus\<close>.
\<close>

section \<open>Constants\<close>

datatype instance_status =
    NoStatus
  | InstanceProvisioning
  | InstanceRunning
  | InstanceRestarting
  | InstanceUpdating
  | InstanceStopped
  | InstanceReconciling
  | InstanceBackingUp
  | InstanceRestoring
  | InstanceDeleting
  | InstanceDeleted
  | InstanceFailed
  | OtherStatus string

definition instance_status_of :: "string \<Rightarrow> instance_status" where
  "instance_status_of s =
     (if s = '''' then NoStatus
      else if s = ''PROVISIONING'' then InstanceProvisioning
      else if s = ''RUNNING'' then InstanceRunning
      else if s = ''RESTARTING'' then InstanceRestarting
      else if s = ''UPDATING'' then InstanceUpdating
      else if s = ''STOPPED'' then InstanceStopped
      else if s = ''RECONCILING'' then InstanceReconciling
      else if s = ''BACKING_UP'' then InstanceBackingUp
      else if s = ''RESTORING'' then InstanceRestoring
      else if s = ''DELETING'' then InstanceDeleting
      else if s = ''DELETED'' then InstanceDeleted
      else if s = ''FAILED'' then InstanceFailed
      else OtherStatus s)"

datatype job_status = JobPending | JobLeased | JobRunning | JobSucceeded | JobFailed | JobExpired

datatype operation_status = OperationPending | OperationRunning | OperationSucceeded | OperationFailed

datatype check_status = CheckOK | CheckDrift | CheckMissing | CheckUnknown | CheckOther string

datatype job_type =
    JobProvision
  | JobStart
  | JobStop
  | JobRestart
  | JobDelete
  | JobInspectCredentials
  | JobRecoveryCreate
  | JobRecoveryRestore
  | JobAuthCodex
  | JobImageReconcile
  | JobImageRepair
  | JobRuntimeSync
  | JobRuntimeConfigure
  | JobRuntimeRepair
  | JobConfigureMessaging
  | JobConfigureMcp
  | JobHermesPrepare
  | JobHermesUpgrade
  | JobHermesUpdate
  | JobChatSend
  | JobInspectHermesProfiles
  | JobCreateHermesProfile
  | JobRepairHermesProfiles
  | JobActivateHermesProfile
  | JobDeleteHermesProfile
  | JobInspectHermesCapabilities
  | JobInspectHermesSkillContent
  | JobSyncHermesSkill
  | JobRemoveHermesSkill
  | JobSetHermesToolset
  | JobOther string

datatype operation_type =
    OpCodexAuth
  | OpChatMessage
  | OpPublishDashboard
  | OpDelete
  | OpRolloutPolicy
  | OpCampaign
  | OpOther string

fun is_hermes_profile_job :: "job_type \<Rightarrow> bool" where
  "is_hermes_profile_job JobInspectHermesProfiles = True"
| "is_hermes_profile_job JobCreateHermesProfile = True"
| "is_hermes_profile_job JobRepairHermesProfiles = True"
| "is_hermes_profile_job JobActivateHermesProfile = True"
| "is_hermes_profile_job JobDeleteHermesProfile = True"
| "is_hermes_profile_job _ = False"

section \<open>Hosts, operations and jobs\<close>

record host =
  h_id :: string
  h_name :: string
  h_hostname :: string
  h_os :: string
  h_arch :: string
  h_agent_version :: string
  h_last_seen_at :: timestamp
  h_created_at :: timestamp

record operation_step =
  os_stage :: string
  os_status :: string
  os_detail :: string

record job_progress =
  jp_stage :: string
  jp_detail :: string
  jp_action_code :: string
  jp_steps :: "operation_step list"
  jp_verification_uri :: string
  jp_user_code :: string
  jp_expires_at :: timestamp

record operation =
  op_id :: string
  op_instance_id :: string
  op_workflow_id :: string
  op_actor :: string
  op_type :: operation_type
  op_status :: operation_status
  op_summary :: string
  op_metadata :: "raw_json option"
  op_progress :: "job_progress option"
  op_error :: string
  op_created_at :: timestamp
  op_updated_at :: timestamp

record job =
  j_id :: string
  j_operation_id :: string
  j_host_id :: string
  j_instance_id :: string
  j_type :: job_type
  j_status :: job_status
  j_payload :: raw_json
  j_attempts :: nat
  j_lease_token :: string
  j_lease_expires_at :: "timestamp option"
  j_created_at :: timestamp
  j_updated_at :: timestamp

record observation_check =
  oc_name :: string
  oc_status :: check_status
  oc_detail :: string

record instance_observation =
  io_instance_id :: string
  io_host_id :: string
  io_target_generation :: string
  io_refresh_request_id :: string
  io_hermes_version :: string
  io_hermes_source :: string
  io_model_catalog :: "string list"
  io_recommended_model :: string
  io_provider_catalogs :: "(string \<times> string list \<times> string) list"
  io_status :: string
  io_summary :: string
  io_checks :: "observation_check list"
  io_observed_at :: timestamp
  io_received_at :: timestamp

record observation_request =
  or_id :: string
  or_instance_id :: string
  or_requested_at :: timestamp

text \<open>
  The statuses of \<open>RuntimeRemediation\<close> are string literals of \<open>internal/store/store.go\<close>.
\<close>

datatype remediation_status =
    RemMonitoring
  | RemReady
  | RemQueued
  | RemWaiting
  | RemCooldown
  | RemVerifying
  | RemCanceled
  | RemExhausted

record runtime_remediation =
  rr_instance_id :: string
  rr_workflow_id :: string
  rr_status :: remediation_status
  rr_phase :: nat
  rr_attempt_in_phase :: nat
  rr_total_attempts :: nat
  rr_max_phases :: nat
  rr_max_attempts :: nat
  rr_consecutive_drift :: nat
  rr_last_attempt_at :: "timestamp option"
  rr_next_attempt_at :: "timestamp option"
  rr_last_error :: string
  rr_updated_at :: timestamp

section \<open>Managed identity\<close>

definition managed_identity :: "string \<Rightarrow> string \<Rightarrow> string \<times> string \<times> string" where
  "managed_identity instance_id name =
     (let short_id = filter (\<lambda>c. c \<noteq> CHR ''-'') instance_id;
          short_id = (if length short_id > 8 then take 8 short_id else short_id);
          directory_name = name @ ''-'' @ short_id;
          project_name = ''hermes-fleet-'' @ directory_name;
          data_volume = project_name @ ''-data''
      in (project_name, data_volume, directory_name))"

end
