(* ===== verification/Domain_Payloads.thy ===== *)
theory Domain_Payloads
  imports Domain_Types
begin

text \<open>
  The job payloads of \<open>internal/domain/models.go\<close>, \<open>chat.go\<close> and the \<open>hermes_*.go\<close> files, each
  with the decoder \<open>json.Unmarshal\<close> runs on the stored bytes (\<open>None\<close> is its error).
\<close>

record chat_send_payload =
  cs_instance_id :: string
  cs_instance_name :: string
  cs_session_id :: string
  cs_message_id :: string
  cs_project_name :: string
  cs_managed_path :: string
  cs_api_port :: int
  cs_provider :: string
  cs_model :: string
  cs_reasoning :: string
  cs_service_tier :: string

definition decode_chat_send :: "raw_json \<Rightarrow> chat_send_payload option" where
  "decode_chat_send = unmarshal (\<lambda>o'. do {
     a \<leftarrow> get_string ''instance_id'' o'; b \<leftarrow> get_string ''instance_name'' o';
     c \<leftarrow> get_string ''session_id'' o'; d \<leftarrow> get_string ''message_id'' o';
     e \<leftarrow> get_string ''project_name'' o'; f \<leftarrow> get_string ''managed_path'' o';
     g \<leftarrow> get_int ''api_port'' o'; h \<leftarrow> get_string ''provider'' o';
     i \<leftarrow> get_string ''model'' o'; j \<leftarrow> get_string ''reasoning'' o';
     k \<leftarrow> get_string ''service_tier'' o';
     Some \<lparr>cs_instance_id = a, cs_instance_name = b, cs_session_id = c, cs_message_id = d,
       cs_project_name = e, cs_managed_path = f, cs_api_port = g, cs_provider = h,
       cs_model = i, cs_reasoning = j, cs_service_tier = k\<rparr>})"

record provision_payload =
  pv_instance_id :: string
  pv_name :: string
  pv_image :: string
  pv_hermes_version :: string
  pv_hermes_source :: string
  pv_provider :: string
  pv_model :: string
  pv_reasoning :: string
  pv_service_tier :: string
  pv_api_port :: int
  pv_dashboard_port :: int

definition decode_provision :: "raw_json \<Rightarrow> provision_payload option" where
  "decode_provision = unmarshal (\<lambda>o'. do {
     a \<leftarrow> get_string ''instance_id'' o'; b \<leftarrow> get_string ''name'' o';
     c \<leftarrow> get_string ''image'' o'; d \<leftarrow> get_string ''hermes_version'' o';
     e \<leftarrow> get_string ''hermes_source'' o'; f \<leftarrow> get_string ''provider'' o';
     g \<leftarrow> get_string ''model'' o'; h \<leftarrow> get_string ''reasoning'' o';
     i \<leftarrow> get_string ''service_tier'' o'; j \<leftarrow> get_int ''api_port'' o';
     k \<leftarrow> get_int ''dashboard_port'' o';
     Some \<lparr>pv_instance_id = a, pv_name = b, pv_image = c, pv_hermes_version = d,
       pv_hermes_source = e, pv_provider = f, pv_model = g, pv_reasoning = h,
       pv_service_tier = i, pv_api_port = j, pv_dashboard_port = k\<rparr>})"

record image_repair_payload =
  ir_instance_id :: string
  ir_name :: string
  ir_image :: string
  ir_previous_image_id :: string
  ir_project_name :: string
  ir_data_volume :: string
  ir_managed_path :: string
  ir_api_port :: int
  ir_restart :: bool

definition decode_image_repair :: "raw_json \<Rightarrow> image_repair_payload option" where
  "decode_image_repair = unmarshal (\<lambda>o'. do {
     a \<leftarrow> get_string ''instance_id'' o'; b \<leftarrow> get_string ''name'' o';
     c \<leftarrow> get_string ''image'' o'; d \<leftarrow> get_string ''previous_image_id'' o';
     e \<leftarrow> get_string ''project_name'' o'; f \<leftarrow> get_string ''data_volume'' o';
     g \<leftarrow> get_string ''managed_path'' o'; h \<leftarrow> get_int ''api_port'' o';
     i \<leftarrow> get_bool ''restart'' o';
     Some \<lparr>ir_instance_id = a, ir_name = b, ir_image = c, ir_previous_image_id = d,
       ir_project_name = e, ir_data_volume = f, ir_managed_path = g, ir_api_port = h,
       ir_restart = i\<rparr>})"

record runtime_sync_payload =
  rs_instance_id :: string
  rs_name :: string
  rs_image :: string
  rs_image_id :: string
  rs_provider :: string
  rs_model :: string
  rs_reasoning :: string
  rs_service_tier :: string
  rs_project_name :: string
  rs_data_volume :: string
  rs_managed_path :: string
  rs_desired_status :: instance_status
  rs_dashboard_port :: int

definition decode_runtime_sync :: "raw_json \<Rightarrow> runtime_sync_payload option" where
  "decode_runtime_sync = unmarshal (\<lambda>o'. do {
     a \<leftarrow> get_string ''instance_id'' o'; b \<leftarrow> get_string ''name'' o';
     c \<leftarrow> get_string ''image'' o'; d \<leftarrow> get_string ''image_id'' o';
     e \<leftarrow> get_string ''provider'' o'; f \<leftarrow> get_string ''model'' o';
     g \<leftarrow> get_string ''reasoning'' o'; h \<leftarrow> get_string ''service_tier'' o';
     i \<leftarrow> get_string ''project_name'' o'; j \<leftarrow> get_string ''data_volume'' o';
     k \<leftarrow> get_string ''managed_path'' o'; l \<leftarrow> get_string ''desired_status'' o';
     m \<leftarrow> get_int ''dashboard_port'' o';
     Some \<lparr>rs_instance_id = a, rs_name = b, rs_image = c, rs_image_id = d, rs_provider = e,
       rs_model = f, rs_reasoning = g, rs_service_tier = h, rs_project_name = i,
       rs_data_volume = j, rs_managed_path = k, rs_desired_status = instance_status_of l,
       rs_dashboard_port = m\<rparr>})"

text \<open>\<open>MessagingApplyPayload\<close> and \<open>MCPApplyPayload\<close> have the same fields.\<close>

record config_apply_payload =
  ca_instance_id :: string
  ca_name :: string
  ca_image :: string
  ca_image_id :: string
  ca_provider :: string
  ca_model :: string
  ca_reasoning :: string
  ca_service_tier :: string
  ca_project_name :: string
  ca_data_volume :: string
  ca_managed_path :: string
  ca_desired_status :: instance_status
  ca_api_port :: int
  ca_dashboard_port :: int
  ca_revision :: string

definition decode_config_apply :: "raw_json \<Rightarrow> config_apply_payload option" where
  "decode_config_apply = unmarshal (\<lambda>o'. do {
     a \<leftarrow> get_string ''instance_id'' o'; b \<leftarrow> get_string ''name'' o';
     c \<leftarrow> get_string ''image'' o'; d \<leftarrow> get_string ''image_id'' o';
     e \<leftarrow> get_string ''provider'' o'; f \<leftarrow> get_string ''model'' o';
     g \<leftarrow> get_string ''reasoning'' o'; h \<leftarrow> get_string ''service_tier'' o';
     i \<leftarrow> get_string ''project_name'' o'; j \<leftarrow> get_string ''data_volume'' o';
     k \<leftarrow> get_string ''managed_path'' o'; l \<leftarrow> get_string ''desired_status'' o';
     m \<leftarrow> get_int ''api_port'' o'; n \<leftarrow> get_int ''dashboard_port'' o';
     p \<leftarrow> get_string ''revision'' o';
     Some \<lparr>ca_instance_id = a, ca_name = b, ca_image = c, ca_image_id = d, ca_provider = e,
       ca_model = f, ca_reasoning = g, ca_service_tier = h, ca_project_name = i,
       ca_data_volume = j, ca_managed_path = k, ca_desired_status = instance_status_of l,
       ca_api_port = m, ca_dashboard_port = n, ca_revision = p\<rparr>})"

record recovery_point_payload =
  rp_recovery_point_id :: string
  rp_instance_id :: string
  rp_name :: string
  rp_image :: string
  rp_image_id :: string
  rp_provider :: string
  rp_model :: string
  rp_reasoning :: string
  rp_service_tier :: string
  rp_codex_configured :: bool
  rp_project_name :: string
  rp_data_volume :: string
  rp_managed_path :: string
  rp_agent_version :: string
  rp_max_bytes :: int

definition read_recovery_point :: "json_fields \<Rightarrow> recovery_point_payload option" where
  "read_recovery_point o' = do {
     a \<leftarrow> get_string ''recovery_point_id'' o'; b \<leftarrow> get_string ''instance_id'' o';
     c \<leftarrow> get_string ''name'' o'; d \<leftarrow> get_string ''image'' o';
     e \<leftarrow> get_string ''image_id'' o'; f \<leftarrow> get_string ''provider'' o';
     g \<leftarrow> get_string ''model'' o'; h \<leftarrow> get_string ''reasoning'' o';
     i \<leftarrow> get_string ''service_tier'' o'; j \<leftarrow> get_bool ''codex_configured'' o';
     k \<leftarrow> get_string ''project_name'' o'; l \<leftarrow> get_string ''data_volume'' o';
     m \<leftarrow> get_string ''managed_path'' o'; n \<leftarrow> get_string ''agent_version'' o';
     p \<leftarrow> get_int ''max_bytes'' o';
     Some \<lparr>rp_recovery_point_id = a, rp_instance_id = b, rp_name = c, rp_image = d,
       rp_image_id = e, rp_provider = f, rp_model = g, rp_reasoning = h, rp_service_tier = i,
       rp_codex_configured = j, rp_project_name = k, rp_data_volume = l, rp_managed_path = m,
       rp_agent_version = n, rp_max_bytes = p\<rparr>}"

record recovery_restore_payload =
  rt_recovery_point_id :: string
  rt_instance_id :: string
  rt_name :: string
  rt_image :: string
  rt_image_id :: string
  rt_require_image_id :: bool
  rt_provider :: string
  rt_model :: string
  rt_reasoning :: string
  rt_service_tier :: string
  rt_codex_configured :: bool
  rt_project_name :: string
  rt_data_volume :: string
  rt_managed_path :: string
  rt_agent_version :: string
  rt_recovery_sha256 :: string
  rt_recovery_size_bytes :: int
  rt_max_bytes :: int

definition read_recovery_restore :: "json_fields \<Rightarrow> recovery_restore_payload option" where
  "read_recovery_restore o' = do {
     a \<leftarrow> get_string ''recovery_point_id'' o'; b \<leftarrow> get_string ''instance_id'' o';
     c \<leftarrow> get_string ''name'' o'; d \<leftarrow> get_string ''image'' o';
     e \<leftarrow> get_string ''image_id'' o'; f \<leftarrow> get_bool ''require_image_id'' o';
     g \<leftarrow> get_string ''provider'' o'; h \<leftarrow> get_string ''model'' o';
     i \<leftarrow> get_string ''reasoning'' o'; j \<leftarrow> get_string ''service_tier'' o';
     k \<leftarrow> get_bool ''codex_configured'' o'; l \<leftarrow> get_string ''project_name'' o';
     m \<leftarrow> get_string ''data_volume'' o'; n \<leftarrow> get_string ''managed_path'' o';
     p \<leftarrow> get_string ''agent_version'' o'; q \<leftarrow> get_string ''recovery_sha256'' o';
     r \<leftarrow> get_int ''recovery_size_bytes'' o'; s \<leftarrow> get_int ''max_bytes'' o';
     Some \<lparr>rt_recovery_point_id = a, rt_instance_id = b, rt_name = c, rt_image = d,
       rt_image_id = e, rt_require_image_id = f, rt_provider = g, rt_model = h,
       rt_reasoning = i, rt_service_tier = j, rt_codex_configured = k, rt_project_name = l,
       rt_data_volume = m, rt_managed_path = n, rt_agent_version = p,
       rt_recovery_sha256 = q, rt_recovery_size_bytes = r, rt_max_bytes = s\<rparr>}"

definition decode_recovery_restore :: "raw_json \<Rightarrow> recovery_restore_payload option" where
  "decode_recovery_restore = unmarshal read_recovery_restore"

record hermes_upgrade_payload =
  hu_instance_id :: string
  hu_name :: string
  hu_current_image :: string
  hu_current_image_id :: string
  hu_target_image :: string
  hu_target_version :: string
  hu_target_source :: string
  hu_recovery_point_id :: string
  hu_provider :: string
  hu_model :: string
  hu_reasoning :: string
  hu_service_tier :: string
  hu_codex_configured :: bool
  hu_project_name :: string
  hu_data_volume :: string
  hu_managed_path :: string
  hu_api_port :: int
  hu_dashboard_port :: int
  hu_rollback :: recovery_restore_payload

definition read_hermes_upgrade :: "json_fields \<Rightarrow> hermes_upgrade_payload option" where
  "read_hermes_upgrade o' = do {
     a \<leftarrow> get_string ''instance_id'' o'; b \<leftarrow> get_string ''name'' o';
     c \<leftarrow> get_string ''current_image'' o'; d \<leftarrow> get_string ''current_image_id'' o';
     e \<leftarrow> get_string ''target_image'' o'; f \<leftarrow> get_string ''target_version'' o';
     g \<leftarrow> get_string ''target_source'' o'; h \<leftarrow> get_string ''recovery_point_id'' o';
     i \<leftarrow> get_string ''provider'' o'; j \<leftarrow> get_string ''model'' o';
     k \<leftarrow> get_string ''reasoning'' o'; l \<leftarrow> get_string ''service_tier'' o';
     m \<leftarrow> get_bool ''codex_configured'' o'; n \<leftarrow> get_string ''project_name'' o';
     p \<leftarrow> get_string ''data_volume'' o'; q \<leftarrow> get_string ''managed_path'' o';
     r \<leftarrow> get_int ''api_port'' o'; s \<leftarrow> get_int ''dashboard_port'' o';
     tf \<leftarrow> get_object ''rollback'' o'; t \<leftarrow> read_recovery_restore tf;
     Some \<lparr>hu_instance_id = a, hu_name = b, hu_current_image = c, hu_current_image_id = d,
       hu_target_image = e, hu_target_version = f, hu_target_source = g,
       hu_recovery_point_id = h, hu_provider = i, hu_model = j, hu_reasoning = k,
       hu_service_tier = l, hu_codex_configured = m, hu_project_name = n, hu_data_volume = p,
       hu_managed_path = q, hu_api_port = r, hu_dashboard_port = s, hu_rollback = t\<rparr>}"

definition decode_hermes_upgrade :: "raw_json \<Rightarrow> hermes_upgrade_payload option" where
  "decode_hermes_upgrade = unmarshal read_hermes_upgrade"

record hermes_update_payload =
  hp_upgrade :: hermes_upgrade_payload
  hp_backup :: recovery_point_payload
  hp_original_status :: instance_status

definition decode_hermes_update :: "raw_json \<Rightarrow> hermes_update_payload option" where
  "decode_hermes_update = unmarshal (\<lambda>o'. do {
     uf \<leftarrow> get_object ''upgrade'' o'; u \<leftarrow> read_hermes_upgrade uf;
     bf \<leftarrow> get_object ''backup'' o'; b \<leftarrow> read_recovery_point bf;
     s \<leftarrow> get_string ''original_status'' o';
     Some \<lparr>hp_upgrade = u, hp_backup = b, hp_original_status = instance_status_of s\<rparr>})"

record codex_auth_payload =
  cx_instance_id :: string
  cx_name :: string
  cx_project_name :: string
  cx_managed_path :: string
  cx_provider :: string

definition decode_codex_auth :: "raw_json \<Rightarrow> codex_auth_payload option" where
  "decode_codex_auth = unmarshal (\<lambda>o'. do {
     a \<leftarrow> get_string ''instance_id'' o'; b \<leftarrow> get_string ''name'' o';
     c \<leftarrow> get_string ''project_name'' o'; d \<leftarrow> get_string ''managed_path'' o';
     e \<leftarrow> get_string ''provider'' o';
     Some \<lparr>cx_instance_id = a, cx_name = b, cx_project_name = c, cx_managed_path = d,
       cx_provider = e\<rparr>})"

end
