(* ===== verification/Providers.thy ===== *)
theory Providers
  imports Domain_Types
begin

text \<open>
  \<open>internal/providers/catalog.go\<close>: the provider catalog, the runtime settings it admits and
  the Grok capability rules. The functions that call \<open>net/url\<close> are not modelled.
\<close>

datatype auth_type = AuthInstanceOAuth | AuthAPIKey | AuthAPIKeyOptional

record provider_entry =
  pe_slug :: string
  pe_label :: string
  pe_auth_type :: auth_type
  pe_credential_env :: string
  pe_base_url_env :: string
  pe_base_url_required :: bool
  pe_device_url :: string

definition catalog :: "provider_entry list" where
  "catalog =
    [\<lparr>pe_slug = ''openai-codex'', pe_label = ''OpenAI Codex'', pe_auth_type = AuthInstanceOAuth,
      pe_credential_env = '''', pe_base_url_env = '''', pe_base_url_required = False,
      pe_device_url = ''https://auth.openai.com/codex/device''\<rparr>,
     \<lparr>pe_slug = ''xai-oauth'', pe_label = ''xAI Grok'', pe_auth_type = AuthInstanceOAuth,
      pe_credential_env = '''', pe_base_url_env = '''', pe_base_url_required = False,
      pe_device_url = ''''\<rparr>,
     \<lparr>pe_slug = ''openrouter'', pe_label = ''OpenRouter'', pe_auth_type = AuthAPIKey,
      pe_credential_env = ''OPENROUTER_API_KEY'', pe_base_url_env = ''OPENROUTER_BASE_URL'',
      pe_base_url_required = False, pe_device_url = ''''\<rparr>,
     \<lparr>pe_slug = ''openai-api'', pe_label = ''OpenAI API'', pe_auth_type = AuthAPIKey,
      pe_credential_env = ''OPENAI_API_KEY'', pe_base_url_env = ''OPENAI_BASE_URL'',
      pe_base_url_required = False, pe_device_url = ''''\<rparr>,
     \<lparr>pe_slug = ''lmstudio'', pe_label = ''LM Studio'', pe_auth_type = AuthAPIKeyOptional,
      pe_credential_env = ''LM_API_KEY'', pe_base_url_env = ''LM_BASE_URL'',
      pe_base_url_required = True, pe_device_url = ''''\<rparr>,
     \<lparr>pe_slug = ''gemini'', pe_label = ''Google AI Studio'', pe_auth_type = AuthAPIKey,
      pe_credential_env = ''GOOGLE_API_KEY'', pe_base_url_env = ''GEMINI_BASE_URL'',
      pe_base_url_required = False, pe_device_url = ''''\<rparr>,
     \<lparr>pe_slug = ''deepseek'', pe_label = ''DeepSeek'', pe_auth_type = AuthAPIKey,
      pe_credential_env = ''DEEPSEEK_API_KEY'', pe_base_url_env = ''DEEPSEEK_BASE_URL'',
      pe_base_url_required = False, pe_device_url = ''''\<rparr>]"

definition lookup_provider :: "string \<Rightarrow> provider_entry option" where
  "lookup_provider slug = find (\<lambda>e. pe_slug e = slug) catalog"

definition is_instance_oauth :: "string \<Rightarrow> bool" where
  "is_instance_oauth slug =
     (case lookup_provider slug of None \<Rightarrow> False | Some e \<Rightarrow> pe_auth_type e = AuthInstanceOAuth)"

definition instance_oauth_slugs :: "string list" where
  "instance_oauth_slugs = map pe_slug (filter (\<lambda>e. pe_auth_type e = AuthInstanceOAuth) catalog)"

definition device_url :: "string \<Rightarrow> string option" where
  "device_url slug =
     (case lookup_provider slug of
        None \<Rightarrow> None
      | Some e \<Rightarrow> if pe_device_url e = '''' then None else Some (pe_device_url e))"

definition observation_auth_check_name :: "string \<Rightarrow> string" where
  "observation_auth_check_name slug =
     (if slug = ''openai-codex'' then ''codex_auth'' else ''provider_auth'')"

definition add_env_key :: "string list \<Rightarrow> string \<Rightarrow> string list" where
  "add_env_key keys key = (if key \<noteq> '''' \<and> key \<notin> set keys then keys @ [key] else keys)"

definition managed_environment_keys :: "string list" where
  "managed_environment_keys =
     foldl (\<lambda>keys e. foldl add_env_key keys [pe_credential_env e, pe_base_url_env e])
       [''HERMES_INFERENCE_PROVIDER'', ''HERMES_INFERENCE_MODEL'',
        ''HERMES_REASONING_EFFORT'', ''HERMES_SERVICE_TIER''] catalog"

definition is_alnum :: "char \<Rightarrow> bool" where
  "is_alnum c \<longleftrightarrow> is_digit c \<or> is_lower c \<or> is_upper c"

definition model_pattern :: "string \<Rightarrow> bool" where
  "model_pattern = matches is_alnum (\<lambda>c. is_alnum c \<or> c \<in> set ''._:/+@-'') 0 127"

definition image_pattern :: "string \<Rightarrow> bool" where
  "image_pattern = matches is_alnum (\<lambda>c. is_alnum c \<or> c \<in> set ''._/:@-'') 0 254"

definition valid_reasoning :: "string \<Rightarrow> bool" where
  "valid_reasoning v \<longleftrightarrow>
     v \<in> set [''none'', ''minimal'', ''low'', ''medium'', ''high'', ''xhigh'', ''max'']"

text \<open>A validator returns the error message, or \<open>None\<close> for no error.\<close>

definition validate_runtime :: "string \<Rightarrow> string \<Rightarrow> string \<Rightarrow> string \<Rightarrow> string option" where
  "validate_runtime provider model reasoning service_tier =
     (if lookup_provider provider = None then
        Some ''provider is not supported by this Fleet version''
      else if \<not> model_pattern model then
        Some ''model contains unsupported characters or length''
      else if \<not> valid_reasoning reasoning then Some ''invalid reasoning effort''
      else if service_tier \<noteq> ''normal'' \<and> service_tier \<noteq> ''priority'' then
        Some ''invalid service tier''
      else None)"

definition is_runtime_pending :: "string \<Rightarrow> string \<Rightarrow> string \<Rightarrow> string \<Rightarrow> bool" where
  "is_runtime_pending provider model reasoning service_tier \<longleftrightarrow>
     is_instance_oauth provider \<and> model = '''' \<and> reasoning = '''' \<and> service_tier = ''''"

definition validate_runtime_or_pending ::
    "string \<Rightarrow> string \<Rightarrow> string \<Rightarrow> string \<Rightarrow> string option" where
  "validate_runtime_or_pending provider model reasoning service_tier =
     (if is_runtime_pending provider model reasoning service_tier then None
      else validate_runtime provider model reasoning service_tier)"

definition validate_image_reference :: "string \<Rightarrow> string option" where
  "validate_image_reference ref =
     (if \<not> image_pattern ref then
        Some ''image must be a single safe Docker image reference of at most 255 characters''
      else None)"

text \<open>The last path element of the model name, with \<open>_\<close> for \<open>-\<close>.\<close>

definition grok_model_name :: "string \<Rightarrow> string" where
  "grok_model_name model =
     (let name = to_lower (trim_space model)
      in replace_char (CHR ''_'') (CHR ''-'') (last (split_on (CHR ''/'') name)))"

definition is_grok46_family :: "string \<Rightarrow> bool" where
  "is_grok46_family model =
     (let name = grok_model_name model in name = ''grok-4.6'' \<or> has_prefix name ''grok-4.6-'')"

definition grok_supports_reasoning_effort :: "string \<Rightarrow> bool" where
  "grok_supports_reasoning_effort model =
     list_ex (has_prefix (grok_model_name model))
       [''grok-3-mini'', ''grok-4.20-multi-agent'', ''grok-4.3'', ''grok-4.5'', ''grok-4.6'']"

definition validate_runtime_capabilities ::
    "string \<Rightarrow> string \<Rightarrow> string \<Rightarrow> string \<Rightarrow> string option" where
  "validate_runtime_capabilities provider model reasoning service_tier =
     (if provider \<noteq> ''xai-oauth'' then None
      else if service_tier = ''priority'' \<and> \<not> is_grok46_family model then
        Some ''priority service tier requires a Grok 4.6 model''
      else if reasoning = ''none'' then None
      else if \<not> grok_supports_reasoning_effort model then
        Some ''this Grok model manages reasoning automatically; use reasoning none''
      else if reasoning \<noteq> ''low'' \<and> reasoning \<noteq> ''medium'' \<and> reasoning \<noteq> ''high''
              \<and> \<not> (reasoning = ''xhigh'' \<and> is_grok46_family model) then
        Some ''this Grok model does not support the selected reasoning effort''
      else None)"

lemma lookup_provider_slug: "lookup_provider slug = Some e \<Longrightarrow> pe_slug e = slug"
  unfolding lookup_provider_def by (metis (mono_tags, lifting) find_Some_iff)

lemma oauth_supported: "is_instance_oauth p \<Longrightarrow> lookup_provider p \<noteq> None"
  by (auto simp: is_instance_oauth_def split: option.splits)

lemma validate_runtime_None:
  "validate_runtime p m r t = None \<longleftrightarrow>
     lookup_provider p \<noteq> None \<and> model_pattern m \<and> valid_reasoning r
     \<and> (t = ''normal'' \<or> t = ''priority'')"
  by (auto simp: validate_runtime_def)

lemma model_pattern_nonempty: "model_pattern m \<Longrightarrow> m \<noteq> ''''"
  by (auto simp: model_pattern_def matches_def)

lemma distinct_managed_environment_keys: "distinct managed_environment_keys"
  by (simp add: managed_environment_keys_def catalog_def add_env_key_def)

end
