(* ===== verification/Domain_Hermes.thy ===== *)
theory Domain_Hermes
  imports Domain_Payloads Providers
begin

text \<open>
  \<open>internal/domain/hermes_profile.go\<close>, \<open>hermes_capability.go\<close>, \<open>hermes_toolset.go\<close> and
  \<open>hermes_skill.go\<close>: the inventories a Host Agent reports and the payloads of the jobs that
  read or change them, with their validation. A validator that also normalises its
  argument returns the normalised value; \<open>None\<close> is its error.
\<close>

section \<open>Names\<close>

definition profile_reference_pattern :: "string \<Rightarrow> bool" where
  "profile_reference_pattern =
     matches (\<lambda>c. is_lower c \<or> is_digit c)
       (\<lambda>c. is_lower c \<or> is_digit c \<or> c = CHR ''_'' \<or> c = CHR ''-'') 0 63"

definition reserved_profile_names :: "string list" where
  "reserved_profile_names = [''hermes'', ''root'', ''sudo'', ''test'', ''tmp'']"

definition validate_profile_name :: "string \<Rightarrow> string option" where
  "validate_profile_name name =
     (if \<not> profile_reference_pattern name then
        Some ''profile name must use 1-64 lowercase letters, numbers, underscores, or hyphens''
      else if name \<in> set reserved_profile_names then
        Some ''profile name is reserved by Hermes''
      else None)"

definition valid_profile_reference :: "string \<Rightarrow> bool" where
  "valid_profile_reference name = profile_reference_pattern name"

definition skill_name_pattern :: "string \<Rightarrow> bool" where
  "skill_name_pattern =
     matches (\<lambda>c. is_lower c \<or> is_digit c) (\<lambda>c. is_lower c \<or> is_digit c \<or> c = CHR ''-'') 0 63"

definition is_sha256 :: "string \<Rightarrow> bool" where
  "is_sha256 v \<longleftrightarrow> length v = 64 \<and> hex_decodes v"

section \<open>Profiles\<close>

record hermes_profile =
  hf_name :: string
  hf_description :: string
  hf_provider :: string
  hf_model :: string
  hf_active :: bool
  hf_default :: bool
  hf_gateway_running :: bool

record profile_inventory =
  pi_instance_id :: string
  pi_profiles :: "hermes_profile list"
  pi_observed_at :: timestamp

definition trim_profile :: "hermes_profile \<Rightarrow> hermes_profile" where
  "trim_profile p = p\<lparr>hf_name := trim_space (hf_name p),
     hf_description := trim_space (hf_description p), hf_provider := trim_space (hf_provider p),
     hf_model := trim_space (hf_model p)\<rparr>"

definition valid_profile :: "hermes_profile \<Rightarrow> bool" where
  "valid_profile p \<longleftrightarrow> valid_profile_reference (hf_name p) \<and> length (hf_description p) \<le> 1000
     \<and> length (hf_provider p) \<le> 128 \<and> length (hf_model p) \<le> 128"

definition validate_profile_inventory :: "profile_inventory \<Rightarrow> profile_inventory option" where
  "validate_profile_inventory rep =
     (if trim_space (pi_instance_id rep) = '''' \<or> length (pi_profiles rep) > 128 then None
      else
        let ps = map trim_profile (pi_profiles rep)
        in if \<not> list_all valid_profile ps then None
           else if \<not> distinct (map hf_name ps) then None
           else Some (rep\<lparr>pi_profiles := sort_key hf_name ps\<rparr>))"

record profile_inspect_payload =
  pp_instance_id :: string
  pp_name :: string
  pp_project_name :: string
  pp_managed_path :: string
  pp_dashboard_port :: int

definition read_profile_inspect :: "json_fields \<Rightarrow> profile_inspect_payload option" where
  "read_profile_inspect o' = do {
     a \<leftarrow> get_string ''instance_id'' o'; b \<leftarrow> get_string ''name'' o';
     c \<leftarrow> get_string ''project_name'' o'; d \<leftarrow> get_string ''managed_path'' o';
     e \<leftarrow> get_int ''dashboard_port'' o';
     Some \<lparr>pp_instance_id = a, pp_name = b, pp_project_name = c, pp_managed_path = d,
       pp_dashboard_port = e\<rparr>}"

definition decode_profile_inspect :: "raw_json \<Rightarrow> profile_inspect_payload option" where
  "decode_profile_inspect = unmarshal read_profile_inspect"

text \<open>The checks that every mutation payload repeats on its embedded inspect payload.\<close>

definition valid_inspect_target :: "profile_inspect_payload \<Rightarrow> bool" where
  "valid_inspect_target p \<longleftrightarrow> pp_instance_id p \<noteq> '''' \<and> pp_name p \<noteq> '''' \<and> pp_project_name p \<noteq> ''''
     \<and> pp_managed_path p \<noteq> '''' \<and> 1 \<le> pp_dashboard_port p \<and> pp_dashboard_port p \<le> 65535"

section \<open>Capabilities\<close>

record skill_capability =
  sk_name :: string
  sk_description :: string
  sk_category :: string

record toolset_capability =
  ts_name :: string
  ts_label :: string
  ts_description :: string
  ts_enabled :: bool
  ts_configured :: bool
  ts_tools :: "string list"

record capability_inventory =
  ci_instance_id :: string
  ci_platform :: string
  ci_model :: string
  ci_runtime_mode :: string
  ci_tool_execution :: string
  ci_split_runtime :: bool
  ci_features :: "(string \<times> bool) list"
  ci_skills :: "skill_capability list"
  ci_toolsets :: "toolset_capability list"
  ci_browser_available :: bool
  ci_browser_implementation :: string
  ci_observed_at :: timestamp

definition trim_skill :: "skill_capability \<Rightarrow> skill_capability" where
  "trim_skill s = s\<lparr>sk_name := trim_space (sk_name s),
     sk_description := trim_space (sk_description s), sk_category := trim_space (sk_category s)\<rparr>"

definition valid_skill :: "skill_capability \<Rightarrow> bool" where
  "valid_skill s \<longleftrightarrow> sk_name s \<noteq> '''' \<and> length (sk_name s) \<le> 128
     \<and> length (sk_description s) \<le> 4096 \<and> length (sk_category s) \<le> 128"

definition trim_toolset :: "toolset_capability \<Rightarrow> toolset_capability" where
  "trim_toolset t = t\<lparr>ts_name := trim_space (ts_name t), ts_label := trim_space (ts_label t),
     ts_description := trim_space (ts_description t),
     ts_tools := sort (map trim_space (ts_tools t))\<rparr>"

definition valid_toolset :: "toolset_capability \<Rightarrow> bool" where
  "valid_toolset t \<longleftrightarrow> ts_name t \<noteq> '''' \<and> length (ts_name t) \<le> 128 \<and> length (ts_label t) \<le> 256
     \<and> length (ts_description t) \<le> 4096 \<and> length (ts_tools t) \<le> 512
     \<and> list_all (\<lambda>x. x \<noteq> '''' \<and> length x \<le> 128) (ts_tools t) \<and> distinct (ts_tools t)"

definition validate_capability_inventory ::
    "capability_inventory \<Rightarrow> capability_inventory option" where
  "validate_capability_inventory rep =
     (if trim_space (ci_instance_id rep) = '''' \<or> length (ci_platform rep) > 128
         \<or> length (ci_model rep) > 256 \<or> length (ci_runtime_mode rep) > 128
         \<or> length (ci_tool_execution rep) > 128 \<or> length (ci_features rep) > 128
         \<or> length (ci_skills rep) > 1024 \<or> length (ci_toolsets rep) > 256
         \<or> length (ci_browser_implementation rep) > 128 then None
      else if \<not> list_all (\<lambda>(n, b). trim_space n \<noteq> '''' \<and> length n \<le> 128) (ci_features rep)
      then None
      else
        let skills = map trim_skill (ci_skills rep);
            toolsets = map trim_toolset (ci_toolsets rep)
        in if \<not> list_all valid_skill skills \<or> \<not> distinct (map sk_name skills) then None
           else if \<not> list_all valid_toolset toolsets \<or> \<not> distinct (map ts_name toolsets) then None
           else Some (rep\<lparr>ci_skills := sort_key sk_name skills,
                          ci_toolsets := sort_key ts_name toolsets\<rparr>))"

record capability_inspect_payload =
  cp_instance_id :: string
  cp_name :: string
  cp_project_name :: string
  cp_managed_path :: string
  cp_api_port :: int

definition decode_capability_inspect :: "raw_json \<Rightarrow> capability_inspect_payload option" where
  "decode_capability_inspect = unmarshal (\<lambda>o'. do {
     a \<leftarrow> get_string ''instance_id'' o'; b \<leftarrow> get_string ''name'' o';
     c \<leftarrow> get_string ''project_name'' o'; d \<leftarrow> get_string ''managed_path'' o';
     e \<leftarrow> get_int ''api_port'' o';
     Some \<lparr>cp_instance_id = a, cp_name = b, cp_project_name = c, cp_managed_path = d,
       cp_api_port = e\<rparr>})"

section \<open>Toolsets and skills\<close>

record toolset_mutation_payload =
  tm_target :: profile_inspect_payload
  tm_toolset_name :: string
  tm_profile :: string
  tm_enabled :: bool

definition decode_toolset_mutation :: "raw_json \<Rightarrow> toolset_mutation_payload option" where
  "decode_toolset_mutation = unmarshal (\<lambda>o'. do {
     t \<leftarrow> read_profile_inspect o'; a \<leftarrow> get_string ''toolset_name'' o';
     b \<leftarrow> get_string ''profile'' o'; c \<leftarrow> get_bool ''enabled'' o';
     Some \<lparr>tm_target = t, tm_toolset_name = a, tm_profile = b, tm_enabled = c\<rparr>})"

definition valid_toolset_mutation :: "toolset_mutation_payload \<Rightarrow> bool" where
  "valid_toolset_mutation p \<longleftrightarrow> valid_inspect_target (tm_target p)
     \<and> profile_reference_pattern (tm_toolset_name p) \<and> valid_profile_reference (tm_profile p)"

definition fleet_skill_ownership_mark :: string where
  "fleet_skill_ownership_mark = ''<!-- managed-by: hermes-fleet -->''"

definition maximum_fleet_skill_bytes :: nat where
  "maximum_fleet_skill_bytes = 100000"

record skill_sync_payload =
  ss_target :: profile_inspect_payload
  ss_skill_name :: string
  ss_category :: string
  ss_profile :: string
  ss_content :: string
  ss_revision :: string

definition decode_skill_sync :: "raw_json \<Rightarrow> skill_sync_payload option" where
  "decode_skill_sync = unmarshal (\<lambda>o'. do {
     t \<leftarrow> read_profile_inspect o'; a \<leftarrow> get_string ''skill_name'' o';
     b \<leftarrow> get_string ''category'' o'; c \<leftarrow> get_string ''profile'' o';
     d \<leftarrow> get_string ''content'' o'; e \<leftarrow> get_string ''revision'' o';
     Some \<lparr>ss_target = t, ss_skill_name = a, ss_category = b, ss_profile = c, ss_content = d,
       ss_revision = e\<rparr>})"

definition valid_skill_sync :: "skill_sync_payload \<Rightarrow> bool" where
  "valid_skill_sync p \<longleftrightarrow> valid_inspect_target (ss_target p) \<and> skill_name_pattern (ss_skill_name p)
     \<and> (ss_category p \<noteq> '''' \<longrightarrow> skill_name_pattern (ss_category p))
     \<and> valid_profile_reference (ss_profile p) \<and> length (ss_content p) \<le> maximum_fleet_skill_bytes
     \<and> valid_string (ss_content p) \<and> contains (ss_content p) fleet_skill_ownership_mark
     \<and> ss_revision p = sha256_hex (ss_content p)"

text \<open>\<open>HermesSkillRemovePayload\<close> and \<open>HermesSkillContentInspectPayload\<close> have the same fields.\<close>

record skill_target_payload =
  st_target :: profile_inspect_payload
  st_skill_name :: string
  st_profile :: string

definition decode_skill_target :: "raw_json \<Rightarrow> skill_target_payload option" where
  "decode_skill_target = unmarshal (\<lambda>o'. do {
     t \<leftarrow> read_profile_inspect o'; a \<leftarrow> get_string ''skill_name'' o';
     b \<leftarrow> get_string ''profile'' o';
     Some \<lparr>st_target = t, st_skill_name = a, st_profile = b\<rparr>})"

definition valid_skill_target :: "skill_target_payload \<Rightarrow> bool" where
  "valid_skill_target p \<longleftrightarrow> valid_inspect_target (st_target p) \<and> skill_name_pattern (st_skill_name p)
     \<and> valid_profile_reference (st_profile p)"

record skill_content_snapshot =
  sc_instance_id :: string
  sc_skill_name :: string
  sc_profile :: string
  sc_provenance :: string
  sc_content :: string
  sc_revision :: string
  sc_observed_at :: timestamp

definition valid_skill_content_snapshot :: "skill_content_snapshot \<Rightarrow> bool" where
  "valid_skill_content_snapshot s \<longleftrightarrow> sc_instance_id s \<noteq> '''' \<and> skill_name_pattern (sc_skill_name s)
     \<and> valid_profile_reference (sc_profile s) \<and> length (sc_provenance s) \<le> 64
     \<and> sc_content s \<noteq> '''' \<and> length (sc_content s) \<le> maximum_fleet_skill_bytes
     \<and> valid_string (sc_content s) \<and> char_of (0 :: nat) \<notin> set (sc_content s)
     \<and> sc_revision s = sha256_hex (sc_content s)"

section \<open>Results of the validation\<close>

lemma distinct_sort_key: "distinct (map k (sort_key k xs)) \<longleftrightarrow> distinct (map k xs)"
  by (simp add: distinct_map)

lemma validate_profile_inventory_SomeD:
  assumes "validate_profile_inventory rep = Some rep'"
  shows "pi_instance_id rep' = pi_instance_id rep"
    and "pi_observed_at rep' = pi_observed_at rep"
    and "sorted (map hf_name (pi_profiles rep'))"
    and "distinct (map hf_name (pi_profiles rep'))"
    and "length (pi_profiles rep') = length (pi_profiles rep)"
    and "list_all valid_profile (pi_profiles rep')"
proof -
  define ps where "ps = map trim_profile (pi_profiles rep)"
  show "pi_instance_id rep' = pi_instance_id rep"
    and "pi_observed_at rep' = pi_observed_at rep"
    and "sorted (map hf_name (pi_profiles rep'))"
    and "distinct (map hf_name (pi_profiles rep'))"
    and "length (pi_profiles rep') = length (pi_profiles rep)"
    and "list_all valid_profile (pi_profiles rep')"
    using assms
    by (auto simp: validate_profile_inventory_def Let_def list_all_iff distinct_sort_key
        ps_def[symmetric] simp del: map_map split: if_splits) (simp add: ps_def)
qed

end
