(* ===== verification/Store_Tables.thy ===== *)
theory Store_Tables
  imports Domain_Hermes
begin

text \<open>
  The schema of \<open>internal/store/store.go\<close> (\<open>migrate\<close>, \<open>createAllocationConstraints\<close>): one record
  per table row, the database as the record of all tables, and the \<open>INSERT\<close> statements with
  the constraints SQLite checks for them (primary keys, unique indexes, foreign keys and the
  port trigger). A nullable text column that no row fills with the empty string has the
  empty string for \<open>NULL\<close>; a nullable time column is an option. Errors of the store are the
  constructors of \<open>store_error\<close>; a function that returns \<open>Inl\<close> has rolled its transaction back.
\<close>

section \<open>Errors\<close>

datatype store_error =
    ErrNotFound
  | ErrLeaseLost
  | ErrInvalidJobResult string
  | ErrStateChanged
  | ErrInstanceBusy
  | ErrHostBusy
  | ErrHostIdentityMismatch
  | ErrObservationOwnership
  | ErrObservationNotReady
  | ErrObservationBusy
  | ErrQueueCapacity
  | ErrMessage string
  | ErrUnique string
  | ErrForeignKey string
  | ErrCheck string
  | ErrAbort string
  | Panic string

type_synonym 'a result = "store_error + 'a"

text \<open>\<open>if err != nil { return err }\<close>, and the early return on a failed guard.\<close>

fun and_then :: "'a result \<Rightarrow> ('a \<Rightarrow> 'b result) \<Rightarrow> 'b result" where
  "and_then (Inl e) f = Inl e"
| "and_then (Inr x) f = f x"

definition guard :: "bool \<Rightarrow> store_error \<Rightarrow> 'a result \<Rightarrow> 'a result" where
  "guard c e r = (if c then r else Inl e)"

lemma and_then_Inr [simp]: "and_then r f = Inr y \<longleftrightarrow> (\<exists>x. r = Inr x \<and> f x = Inr y)"
  by (cases r) auto

lemma and_then_Inl: "and_then r f = Inl e \<longleftrightarrow> r = Inl e \<or> (\<exists>x. r = Inr x \<and> f x = Inl e)"
  by (cases r) auto

lemma guard_Inr [simp]: "guard c e r = Inr y \<longleftrightarrow> c \<and> r = Inr y"
  by (simp add: guard_def)

lemma guard_Inl: "guard c e r = Inl e' \<longleftrightarrow> (\<not> c \<and> e' = e) \<or> (c \<and> r = Inl e')"
  by (auto simp: guard_def)

lemma guard_eval [simp]: "guard True e r = r" "guard False e r = Inl e"
  by (simp_all add: guard_def)

section \<open>Rows\<close>

record host_row = host +
  hr_token_hash :: string

record instance_row =
  in_id :: string
  in_name :: string
  in_host_id :: string
  in_status :: instance_status
  in_image :: string
  in_image_id :: string
  in_provider :: string
  in_model :: string
  in_reasoning :: string
  in_service_tier :: string
  in_codex_configured :: bool
  in_api_port :: int
  in_dashboard_port :: int
  in_public_hostname :: string
  in_project_name :: string
  in_data_volume :: string
  in_managed_path :: string
  in_last_error :: string
  in_created_at :: timestamp
  in_updated_at :: timestamp

record job_row = job +
  jr_progress :: "job_progress option"
  jr_completion_hash :: string

record reveal_row =
  cr_operation_id :: string
  cr_ciphertext :: string
  cr_expires_at :: timestamp
  cr_created_at :: timestamp

record request_row =
  rq_instance_id :: string
  rq_host_id :: string
  rq_request_id :: string
  rq_requested_at :: timestamp

record reconcile_row =
  rc_instance_id :: string
  rc_desired_revision :: string
  rc_consecutive_drift :: nat
  rc_attempts :: nat
  rc_last_observed_at :: timestamp
  rc_last_attempt_at :: "timestamp option"

record remediation_row =
  rm_instance_id :: string
  rm_desired_revision :: string
  rm_workflow_id :: string
  rm_status :: remediation_status
  rm_phase :: nat
  rm_attempt_in_phase :: nat
  rm_total_attempts :: nat
  rm_consecutive_drift :: nat
  rm_last_observed_at :: timestamp
  rm_last_attempt_at :: "timestamp option"
  rm_next_attempt_at :: "timestamp option"
  rm_last_error :: string
  rm_updated_at :: timestamp

text \<open>\<open>instance_messaging_configs\<close> and \<open>instance_mcp_configs\<close> have the same columns.\<close>

datatype config_status = ConfigPending | ConfigApplied | ConfigFailed

record config_row =
  cf_instance_id :: string
  cf_ciphertext :: string
  cf_desired_revision :: string
  cf_applied_revision :: string
  cf_status :: config_status
  cf_last_error :: string
  cf_updated_at :: timestamp
  cf_applied_at :: "timestamp option"

record resource_row =
  ra_instance_id :: string
  ra_kind :: string
  ra_resource_id :: string
  ra_hostname :: string
  ra_tunnel_id :: string
  ra_zone_id :: string
  ra_origin_service :: string
  ra_created_at :: timestamp
  ra_updated_at :: timestamp

datatype chat_role = RoleUser | RoleAssistant
datatype message_status = MessagePending | MessageSucceeded | MessageFailed

datatype chat_event_type =
    EventQueued
  | EventStarted
  | EventDelta
  | EventActivity
  | EventArtifact
  | EventCompleted
  | EventFailed
  | EventCanceled
  | EventOther string

record session_row =
  se_id :: string
  se_instance_id :: string
  se_title :: string
  se_model :: string
  se_reasoning :: string
  se_service_tier :: string
  se_last_error :: string
  se_created_at :: timestamp
  se_updated_at :: timestamp

record message_row =
  me_id :: string
  me_session_id :: string
  me_operation_id :: string
  me_role :: chat_role
  me_ciphertext :: string
  me_status :: message_status
  me_error :: string
  me_created_at :: timestamp
  me_updated_at :: timestamp

record event_row =
  ev_id :: nat
  ev_session_id :: string
  ev_operation_id :: string
  ev_sequence :: int
  ev_type :: chat_event_type
  ev_ciphertext :: string
  ev_content_hash :: string
  ev_created_at :: timestamp

datatype target_status = TargetPending | TargetRunning | TargetSucceeded | TargetFailed | TargetBlocked

record policy_row =
  po_id :: string
  po_name :: string
  po_description :: string
  po_status :: string
  po_desired_hermes :: string
  po_strategy :: string
  po_created_at :: timestamp
  po_updated_at :: timestamp

record rollout_row =
  ro_rollout_id :: string
  ro_policy_id :: string
  ro_instance_id :: string
  ro_child_operation_id :: string
  ro_status :: target_status
  ro_detail :: string
  ro_created_at :: timestamp
  ro_updated_at :: timestamp

record campaign_row =
  cm_campaign_id :: string
  cm_instance_id :: string
  cm_request_id :: string
  cm_status :: target_status
  cm_detail :: string
  cm_requested_at :: "timestamp option"
  cm_completed_at :: "timestamp option"
  cm_created_at :: timestamp
  cm_updated_at :: timestamp

record health_row =
  he_component :: string
  he_status :: string
  he_detail :: string
  he_updated_at :: timestamp
  he_last_success_at :: "timestamp option"

record incident_row =
  ic_id :: nat
  ic_component :: string
  ic_previous_status :: string
  ic_status :: string
  ic_detail :: string
  ic_occurred_at :: timestamp

text \<open>
  The skill catalog and the inventories keep the domain records; an inventory row is keyed
  by its instance.
\<close>

record db =
  db_hosts :: "host_row list"
  db_instances :: "instance_row list"
  db_operations :: "operation list"
  db_jobs :: "job_row list"
  db_reveals :: "reveal_row list"
  db_observations :: "instance_observation list"
  db_requests :: "request_row list"
  db_reconcile :: "reconcile_row list"
  db_remediation :: "remediation_row list"
  db_messaging :: "config_row list"
  db_mcp :: "config_row list"
  db_resources :: "resource_row list"
  db_sessions :: "session_row list"
  db_messages :: "message_row list"
  db_events :: "event_row list"
  db_event_seq :: nat
  db_policies :: "policy_row list"
  db_scope :: "(string \<times> string) list"
  db_rollouts :: "rollout_row list"
  db_campaigns :: "campaign_row list"
  db_health :: "health_row list"
  db_incidents :: "incident_row list"
  db_incident_seq :: nat
  db_profiles :: "profile_inventory list"
  db_capabilities :: "capability_inventory list"
  db_skill_content :: "skill_content_snapshot list"

definition empty_db :: db where
  "empty_db = \<lparr>db_hosts = [], db_instances = [], db_operations = [], db_jobs = [], db_reveals = [],
     db_observations = [], db_requests = [], db_reconcile = [], db_remediation = [],
     db_messaging = [], db_mcp = [], db_resources = [], db_sessions = [], db_messages = [],
     db_events = [], db_event_seq = 0, db_policies = [], db_scope = [], db_rollouts = [],
     db_campaigns = [], db_health = [], db_incidents = [], db_incident_seq = 0,
     db_profiles = [], db_capabilities = [], db_skill_content = []\<rparr>"

end
