(* ===== verification/Store_Sql.thy ===== *)
theory Store_Sql
  imports Store_Tables
begin

text \<open>
  The statements that several store functions share: existence tests, \<open>INSERT\<close>s with their
  constraints, updates of \<open>instances\<close> under the allocation constraints
  (\<open>createAllocationConstraints\<close>) and the appending of a closing chat event.
\<close>

section \<open>Existence\<close>

lemma list_ex_key: "list_ex (\<lambda>r. key r = k) rows \<longleftrightarrow> k \<in> key ` set rows"
  by (auto simp: list_ex_iff)

definition host_exists :: "db \<Rightarrow> string \<Rightarrow> bool" where
  "host_exists d h \<longleftrightarrow> list_ex (\<lambda>r. h_id r = h) (db_hosts d)"

definition instance_exists :: "db \<Rightarrow> string \<Rightarrow> bool" where
  "instance_exists d i \<longleftrightarrow> list_ex (\<lambda>r. in_id r = i) (db_instances d)"

definition operation_exists :: "db \<Rightarrow> string \<Rightarrow> bool" where
  "operation_exists d i \<longleftrightarrow> list_ex (\<lambda>r. op_id r = i) (db_operations d)"

definition session_exists :: "db \<Rightarrow> string \<Rightarrow> bool" where
  "session_exists d i \<longleftrightarrow> list_ex (\<lambda>r. se_id r = i) (db_sessions d)"

definition find_instance :: "db \<Rightarrow> string \<Rightarrow> instance_row option" where
  "find_instance d i = find_row in_id i (db_instances d)"

definition find_operation :: "db \<Rightarrow> string \<Rightarrow> operation option" where
  "find_operation d i = find_row op_id i (db_operations d)"

lemma instance_exists_find: "instance_exists d i \<longleftrightarrow> find_instance d i \<noteq> None"
  by (auto simp: instance_exists_def find_instance_def find_row_None list_ex_iff)

section \<open>Instances and the allocation constraints\<close>

definition live_instance :: "instance_row \<Rightarrow> bool" where
  "live_instance r \<longleftrightarrow> in_status r \<noteq> InstanceDeleted"

definition ports_clash :: "instance_row \<Rightarrow> instance_row \<Rightarrow> bool" where
  "ports_clash new current \<longleftrightarrow> in_host_id current = in_host_id new \<and>
     (in_api_port current = in_api_port new \<or> in_dashboard_port current = in_api_port new \<or>
      in_api_port current = in_dashboard_port new \<or>
      in_dashboard_port current = in_dashboard_port new)"

text \<open>What the indexes and the triggers let two live rows have.\<close>

definition compatible_rows :: "instance_row \<Rightarrow> instance_row \<Rightarrow> bool" where
  "compatible_rows r s \<longleftrightarrow> in_name r \<noteq> in_name s \<and> \<not> ports_clash r s
     \<and> (in_public_hostname r = '''' \<or> in_public_hostname r \<noteq> in_public_hostname s)"

fun allocation_ok :: "instance_row list \<Rightarrow> bool" where
  "allocation_ok [] = True"
| "allocation_ok (r # rs) =
     ((live_instance r \<longrightarrow> list_all (\<lambda>s. live_instance s \<longrightarrow> compatible_rows r s) rs)
      \<and> allocation_ok rs)"

text \<open>
  \<open>INSERT INTO instances\<close>: the trigger runs before the insertion, the primary key and the
  partial unique indexes are checked with it, the foreign key at the end of the statement.
\<close>

definition insert_instance :: "instance_row \<Rightarrow> db \<Rightarrow> db result" where
  "insert_instance r d =
     (if live_instance r
         \<and> list_ex (\<lambda>c. live_instance c \<and> ports_clash r c) (db_instances d)
      then Inl (ErrAbort ''host port is already allocated'')
      else if instance_exists d (in_id r) then Inl (ErrUnique ''instances.id'')
      else if live_instance r
         \<and> list_ex (\<lambda>c. live_instance c \<and> in_name c = in_name r) (db_instances d)
      then Inl (ErrUnique ''instances.name'')
      else if live_instance r \<and> in_public_hostname r \<noteq> ''''
         \<and> list_ex (\<lambda>c. live_instance c \<and> in_public_hostname c = in_public_hostname r)
              (db_instances d)
      then Inl (ErrUnique ''instances.public_hostname'')
      else if \<not> host_exists d (in_host_id r) then Inl (ErrForeignKey ''instances.host_id'')
      else Inr (d\<lparr>db_instances := db_instances d @ [r]\<rparr>))"

text \<open>
  \<open>UPDATE instances\<close>: the statement fails when the rows it leaves violate an index or the
  update trigger.
\<close>

definition update_instances ::
    "(instance_row \<Rightarrow> bool) \<Rightarrow> (instance_row \<Rightarrow> instance_row) \<Rightarrow> db \<Rightarrow> db result" where
  "update_instances P f d =
     (let rows = update_where P f (db_instances d)
      in if allocation_ok rows then Inr (d\<lparr>db_instances := rows\<rparr>)
         else Inl (ErrUnique ''instances''))"

lemma ports_clash_sym: "ports_clash r s \<longleftrightarrow> ports_clash s r"
  by (auto simp: ports_clash_def)

lemma compatible_rows_sym: "compatible_rows r s \<longleftrightarrow> compatible_rows s r"
  by (auto simp: compatible_rows_def ports_clash_sym)

lemma allocation_ok_append:
  "allocation_ok (xs @ ys) \<longleftrightarrow> allocation_ok xs \<and> allocation_ok ys
     \<and> (\<forall>r \<in> set xs. \<forall>s \<in> set ys. live_instance r \<longrightarrow> live_instance s \<longrightarrow> compatible_rows r s)"
  by (induction xs) (auto simp: list_all_iff)

lemma insert_instance_Inr:
  "insert_instance r d = Inr d' \<longleftrightarrow>
     \<not> instance_exists d (in_id r) \<and> host_exists d (in_host_id r)
     \<and> (live_instance r \<longrightarrow>
          list_all (\<lambda>c. live_instance c \<longrightarrow> compatible_rows c r) (db_instances d))
     \<and> d' = d\<lparr>db_instances := db_instances d @ [r]\<rparr>"
  by (auto simp: insert_instance_def list_all_iff list_ex_iff compatible_rows_def
      ports_clash_sym[of r])

lemma insert_instance_allocation:
  "insert_instance r d = Inr d' \<Longrightarrow> allocation_ok (db_instances d) \<Longrightarrow> allocation_ok (db_instances d')"
  by (auto simp: insert_instance_Inr allocation_ok_append list_all_iff)

lemma update_instances_Inr:
  "update_instances P f d = Inr d' \<longleftrightarrow>
     allocation_ok (update_where P f (db_instances d))
     \<and> d' = d\<lparr>db_instances := update_where P f (db_instances d)\<rparr>"
  by (auto simp: update_instances_def Let_def)

text \<open>
  An update that keeps the allocated columns and revives no deleted row cannot violate the
  constraints.
\<close>

definition keeps_allocation :: "(instance_row \<Rightarrow> instance_row) \<Rightarrow> instance_row \<Rightarrow> bool" where
  "keeps_allocation f r \<longleftrightarrow> in_name (f r) = in_name r \<and> in_host_id (f r) = in_host_id r
     \<and> in_api_port (f r) = in_api_port r \<and> in_dashboard_port (f r) = in_dashboard_port r
     \<and> in_public_hostname (f r) = in_public_hostname r
     \<and> (live_instance (f r) \<longrightarrow> live_instance r)"

lemma keeps_allocation_compatible:
  "keeps_allocation f r \<Longrightarrow> compatible_rows (f r) s = compatible_rows r s"
  "keeps_allocation f r \<Longrightarrow> compatible_rows s (f r) = compatible_rows s r"
  by (auto simp: keeps_allocation_def compatible_rows_def ports_clash_def)

lemma allocation_ok_update:
  assumes "\<And>r. r \<in> set rows \<Longrightarrow> P r \<Longrightarrow> keeps_allocation f r" and "allocation_ok rows"
  shows "allocation_ok (update_where P f rows)"
  using assms
proof (induction rows)
  case (Cons r rows)
  let ?g = "\<lambda>q. if P q then f q else q"
  have g: "keeps_allocation ?g q" if "q \<in> set (r # rows)" for q
    using Cons.prems(1)[OF that] by (auto simp: keeps_allocation_def)
  have "live_instance (?g r) \<longrightarrow>
      (\<forall>s \<in> set (update_where P f rows). live_instance s \<longrightarrow> compatible_rows (?g r) s)"
  proof (intro impI ballI)
    fix s assume "live_instance (?g r)" "s \<in> set (update_where P f rows)" "live_instance s"
    then obtain q where q: "q \<in> set rows" "s = ?g q" by (auto simp: update_where_def)
    then have "live_instance q" "live_instance r"
      using g \<open>live_instance s\<close> \<open>live_instance (?g r)\<close> by (auto simp: keeps_allocation_def)
    then show "compatible_rows (?g r) s"
      using Cons.prems(2) q g[of q] g[of r] keeps_allocation_compatible[of ?g]
      by (simp add: list_all_iff)
  qed
  then show ?case using Cons by (simp add: list_all_iff)
qed simp

section \<open>Operations and jobs\<close>

definition insert_operation :: "operation \<Rightarrow> db \<Rightarrow> db result" where
  "insert_operation op d =
     (if operation_exists d (op_id op) then Inl (ErrUnique ''operations.id'')
      else if op_instance_id op \<noteq> '''' \<and> \<not> instance_exists d (op_instance_id op)
      then Inl (ErrForeignKey ''operations.instance_id'')
      else Inr (d\<lparr>db_operations := db_operations d @ [op]\<rparr>))"

definition insert_job :: "job_row \<Rightarrow> db \<Rightarrow> db result" where
  "insert_job j d =
     (if list_ex (\<lambda>r. j_id r = j_id j) (db_jobs d) then Inl (ErrUnique ''jobs.id'')
      else if \<not> operation_exists d (j_operation_id j) then Inl (ErrForeignKey ''jobs.operation_id'')
      else if \<not> host_exists d (j_host_id j) then Inl (ErrForeignKey ''jobs.host_id'')
      else if \<not> instance_exists d (j_instance_id j) then Inl (ErrForeignKey ''jobs.instance_id'')
      else Inr (d\<lparr>db_jobs := db_jobs d @ [j]\<rparr>))"

lemma insert_operation_Inr:
  "insert_operation op d = Inr d' \<longleftrightarrow> \<not> operation_exists d (op_id op)
     \<and> (op_instance_id op = '''' \<or> instance_exists d (op_instance_id op))
     \<and> d' = d\<lparr>db_operations := db_operations d @ [op]\<rparr>"
  by (auto simp: insert_operation_def)

lemma insert_job_Inr:
  "insert_job j d = Inr d' \<longleftrightarrow> j_id j \<notin> j_id ` set (db_jobs d)
     \<and> operation_exists d (j_operation_id j) \<and> host_exists d (j_host_id j)
     \<and> instance_exists d (j_instance_id j) \<and> d' = d\<lparr>db_jobs := db_jobs d @ [j]\<rparr>"
  by (auto simp: insert_job_def list_ex_key)

section \<open>Messages and events\<close>

definition insert_message :: "message_row \<Rightarrow> db \<Rightarrow> db result" where
  "insert_message m d =
     (if list_ex (\<lambda>r. me_id r = me_id m) (db_messages d) then Inl (ErrUnique ''chat_messages.id'')
      else if me_operation_id m \<noteq> ''''
         \<and> list_ex (\<lambda>r. me_operation_id r = me_operation_id m) (db_messages d)
      then Inl (ErrUnique ''chat_messages.operation_id'')
      else if \<not> session_exists d (me_session_id m) then Inl (ErrForeignKey ''chat_messages.session_id'')
      else if me_operation_id m \<noteq> '''' \<and> \<not> operation_exists d (me_operation_id m)
      then Inl (ErrForeignKey ''chat_messages.operation_id'')
      else Inr (d\<lparr>db_messages := db_messages d @ [m]\<rparr>))"

text \<open>
  \<open>chat_events.id\<close> is \<open>AUTOINCREMENT\<close>: the next id is one more than the largest ever used.
\<close>

definition checked_event_type :: "chat_event_type \<Rightarrow> bool" where
  "checked_event_type t \<longleftrightarrow> (case t of EventOther _ \<Rightarrow> False | _ \<Rightarrow> True)"

definition insert_event ::
    "string \<Rightarrow> string \<Rightarrow> int \<Rightarrow> chat_event_type \<Rightarrow> string \<Rightarrow> string \<Rightarrow> timestamp \<Rightarrow> db \<Rightarrow> db result" where
  "insert_event session op sequence typ ciphertext hash at d =
     (if sequence < 0 \<or> \<not> checked_event_type typ then Inl (ErrCheck ''chat_events'')
      else if list_ex (\<lambda>e. ev_operation_id e = op \<and> ev_sequence e = sequence) (db_events d)
      then Inl (ErrUnique ''chat_events.operation_id, chat_events.sequence'')
      else if \<not> session_exists d session then Inl (ErrForeignKey ''chat_events.session_id'')
      else if \<not> operation_exists d op then Inl (ErrForeignKey ''chat_events.operation_id'')
      else Inr (d\<lparr>db_events := db_events d @
                 [\<lparr>ev_id = Suc (db_event_seq d), ev_session_id = session, ev_operation_id = op,
                   ev_sequence = sequence, ev_type = typ, ev_ciphertext = ciphertext,
                   ev_content_hash = hash, ev_created_at = at\<rparr>],
               db_event_seq := Suc (db_event_seq d)\<rparr>))"

text \<open>
  \<open>INSERT ... SELECT ?, ?, COALESCE(MAX(sequence), 0)+1, ?, ? FROM chat_events WHERE operation_id=?\<close>,
  the closing event of a run.
\<close>

definition max_sequence :: "string \<Rightarrow> event_row list \<Rightarrow> int" where
  "max_sequence op rows =
     (case map ev_sequence (filter (\<lambda>e. ev_operation_id e = op) rows) of
        [] \<Rightarrow> 0 | x # xs \<Rightarrow> fold max xs x)"

definition append_closing_event ::
    "string \<Rightarrow> string \<Rightarrow> chat_event_type \<Rightarrow> timestamp \<Rightarrow> db \<Rightarrow> db result" where
  "append_closing_event session op typ at d =
     insert_event session op (max_sequence op (db_events d) + 1) typ '''' '''' at d"

lemma insert_message_Inr:
  "insert_message m d = Inr d' \<longleftrightarrow> me_id m \<notin> me_id ` set (db_messages d)
     \<and> (me_operation_id m = '''' \<or>
          me_operation_id m \<notin> me_operation_id ` set (db_messages d)
          \<and> operation_exists d (me_operation_id m))
     \<and> session_exists d (me_session_id m)
     \<and> d' = d\<lparr>db_messages := db_messages d @ [m]\<rparr>"
  by (auto simp: insert_message_def list_ex_key)

lemma insert_event_frame:
  assumes "insert_event session op sequence typ ciphertext hash at d = Inr d'"
  shows "db_jobs d' = db_jobs d" "db_instances d' = db_instances d"
    "db_operations d' = db_operations d" "db_messages d' = db_messages d"
    "db_sessions d' = db_sessions d" "db_hosts d' = db_hosts d"
    "db_remediation d' = db_remediation d" "db_event_seq d' = Suc (db_event_seq d)"
    "db_observations d' = db_observations d"
  using assms by (auto simp: insert_event_def split: if_splits)

lemma insert_event_rows:
  assumes "insert_event session op sequence typ ciphertext hash at d = Inr d'"
  shows "\<exists>e. db_events d' = db_events d @ [e] \<and> ev_id e = Suc (db_event_seq d)
     \<and> ev_session_id e = session \<and> ev_operation_id e = op \<and> ev_sequence e = sequence
     \<and> ev_type e = typ \<and> ev_content_hash e = hash
     \<and> (op, sequence) \<notin> (\<lambda>e. (ev_operation_id e, ev_sequence e)) ` set (db_events d)"
  using assms by (auto simp: insert_event_def list_ex_iff split: if_splits)

lemma le_fold_max: "x \<le> fold max xs (x :: int)" "y \<in> set xs \<Longrightarrow> y \<le> fold max xs (x :: int)"
proof (induction xs arbitrary: x)
  case (Cons z xs)
  { case 1 then show ?case using Cons(1)[of "max z x"] by simp }
  { case 2 then show ?case using Cons(1)[of "max z x"] Cons(2)[of "max z x"] by auto }
qed auto

lemma max_sequence_upper:
  assumes "e \<in> set rows" "ev_operation_id e = op"
  shows "ev_sequence e \<le> max_sequence op rows"
proof -
  define xs where "xs = map ev_sequence (filter (\<lambda>e. ev_operation_id e = op) rows)"
  have "ev_sequence e \<in> set xs"
    using assms by (auto simp: xs_def)
  then have "ev_sequence e \<le> (case xs of [] \<Rightarrow> 0 | x # xs \<Rightarrow> fold max xs x)"
    by (cases xs) (auto simp: le_fold_max)
  then show ?thesis by (simp add: max_sequence_def xs_def)
qed

lemma max_sequence_fresh:
  "(op, max_sequence op rows + 1) \<notin> (\<lambda>e. (ev_operation_id e, ev_sequence e)) ` set rows"
  using max_sequence_upper by fastforce

lemmas closing_event_frame = insert_event_frame[where sequence = "max_sequence op (db_events d) + 1"
    and op = op and d = d and ciphertext = "''''" and hash = "''''", folded append_closing_event_def]
  for op d

section \<open>Facts shared by the operations on messages and sessions\<close>

definition update_messages :: "(message_row \<Rightarrow> bool) \<Rightarrow> (message_row \<Rightarrow> message_row) \<Rightarrow> db \<Rightarrow> db" where
  "update_messages P f d = d\<lparr>db_messages := update_where P f (db_messages d)\<rparr>"

definition touch_session :: "string \<Rightarrow> string \<Rightarrow> timestamp \<Rightarrow> db \<Rightarrow> db" where
  "touch_session session err at d =
     d\<lparr>db_sessions := update_where (\<lambda>r. se_id r = session)
         (\<lambda>r. r\<lparr>se_last_error := err, se_updated_at := at\<rparr>) (db_sessions d)\<rparr>"

lemma update_messages_frame [simp]:
  "db_jobs (update_messages P f d) = db_jobs d"
  "db_instances (update_messages P f d) = db_instances d"
  "db_operations (update_messages P f d) = db_operations d"
  "db_events (update_messages P f d) = db_events d"
  "db_sessions (update_messages P f d) = db_sessions d"
  "db_hosts (update_messages P f d) = db_hosts d"
  "db_remediation (update_messages P f d) = db_remediation d"
  "db_observations (update_messages P f d) = db_observations d"
  "db_messages (update_messages P f d) = update_where P f (db_messages d)"
  by (simp_all add: update_messages_def)

lemma touch_session_frame [simp]:
  "db_jobs (touch_session s e t d) = db_jobs d"
  "db_instances (touch_session s e t d) = db_instances d"
  "db_operations (touch_session s e t d) = db_operations d"
  "db_events (touch_session s e t d) = db_events d"
  "db_messages (touch_session s e t d) = db_messages d"
  "db_hosts (touch_session s e t d) = db_hosts d"
  "db_remediation (touch_session s e t d) = db_remediation d"
  "db_observations (touch_session s e t d) = db_observations d"
  by (simp_all add: touch_session_def)

end
