(* ===== verification/Store_Hosts.thy ===== *)
theory Store_Hosts
  imports Store_Sql
begin

text \<open>
  Hosts and port allocation of \<open>internal/store/store.go\<close>: \<open>EnrollHost\<close>, \<open>RotateHostCredential\<close>,
  \<open>HostTokenHash\<close>, \<open>Heartbeat\<close>, \<open>GetHost\<close>, \<open>ListHosts\<close>, \<open>NextAvailablePorts\<close> and the publishing
  columns of an instance. \<open>time.Since\<close> is the difference to the current time, an argument.
\<close>

section \<open>The operations\<close>

definition active_job :: "job_status \<Rightarrow> bool" where
  "active_job s \<longleftrightarrow> s = JobPending \<or> s = JobLeased \<or> s = JobRunning"

definition enroll_host :: "host \<Rightarrow> string \<Rightarrow> db \<Rightarrow> db result" where
  "enroll_host h token_hash d =
     (if host_exists d (h_id h) then Inl (ErrUnique ''hosts.id'')
      else if list_ex (\<lambda>r. h_name r = h_name h) (db_hosts d) then Inl (ErrUnique ''hosts.name'')
      else Inr (d\<lparr>db_hosts := db_hosts d @ [host.extend h \<lparr>hr_token_hash = token_hash\<rparr>]\<rparr>))"

definition rotate_host_credential ::
    "string \<Rightarrow> string \<Rightarrow> string \<Rightarrow> string \<Rightarrow> string \<Rightarrow> string \<Rightarrow> db \<Rightarrow> db result" where
  "rotate_host_credential host_id confirm_name hostname os_name arch token_hash d =
     (case find_row h_id host_id (db_hosts d) of
        None \<Rightarrow> Inl ErrNotFound
      | Some r \<Rightarrow>
          guard (confirm_name = h_name r \<and> hostname = h_hostname r \<and> os_name = h_os r
              \<and> arch = h_arch r) ErrHostIdentityMismatch
          (guard (count_where (\<lambda>j. j_host_id j = host_id \<and> active_job (j_status j)) (db_jobs d) = 0)
              ErrHostBusy
          (let hit = (\<lambda>r. h_id r = host_id \<and> h_name r = confirm_name \<and> h_hostname r = hostname
                 \<and> h_os r = os_name \<and> h_arch r = arch
                 \<and> \<not> list_ex (\<lambda>j. j_host_id j = host_id \<and> active_job (j_status j)) (db_jobs d))
           in guard (count_where hit (db_hosts d) = 1) ErrStateChanged
                (Inr (d\<lparr>db_hosts := update_where hit (\<lambda>r. r\<lparr>hr_token_hash := token_hash\<rparr>)
                     (db_hosts d)\<rparr>)))))"

definition host_token_hash :: "string \<Rightarrow> db \<Rightarrow> string result" where
  "host_token_hash host_id d =
     (case find_row h_id host_id (db_hosts d) of
        None \<Rightarrow> Inl ErrNotFound | Some r \<Rightarrow> Inr (hr_token_hash r))"

definition heartbeat ::
    "string \<Rightarrow> string \<Rightarrow> string \<Rightarrow> string \<Rightarrow> string \<Rightarrow> timestamp \<Rightarrow> db \<Rightarrow> db result" where
  "heartbeat host_id hostname os_name arch version at d =
     guard (count_where (\<lambda>r. h_id r = host_id) (db_hosts d) \<noteq> 0) ErrNotFound
       (Inr (d\<lparr>db_hosts := update_where (\<lambda>r. h_id r = host_id)
           (\<lambda>r. r\<lparr>h_hostname := hostname, h_os := os_name, h_arch := arch,
                  h_agent_version := version, h_last_seen_at := at\<rparr>) (db_hosts d)\<rparr>))"

definition get_host :: "string \<Rightarrow> db \<Rightarrow> host result" where
  "get_host i d =
     (case find_row h_id i (db_hosts d) of
        None \<Rightarrow> Inl ErrNotFound | Some r \<Rightarrow> Inr (host.truncate r))"

text \<open>Each host with its \<open>ONLINE\<close> flag.\<close>

definition list_hosts :: "duration \<Rightarrow> timestamp \<Rightarrow> db \<Rightarrow> (host \<times> bool) list" where
  "list_hosts offline_after now d =
     map (\<lambda>r. (host.truncate r, \<not> now - h_last_seen_at r > offline_after))
       (sort_key h_name (db_hosts d))"

section \<open>Ports\<close>

definition used_ports :: "string \<Rightarrow> db \<Rightarrow> int list" where
  "used_ports host_id d =
     concat (map (\<lambda>r. [in_api_port r, in_dashboard_port r])
       (filter (\<lambda>r. in_host_id r = host_id \<and> in_status r \<noteq> InstanceDeleted) (db_instances d)))"

text \<open>The loop \<open>for blocked(port) && port <= 65535 { port++ }\<close>.\<close>

function port_scan :: "(int \<Rightarrow> bool) \<Rightarrow> int \<Rightarrow> int" where
  "port_scan blocked port =
     (if blocked port \<and> port \<le> 65535 then port_scan blocked (port + 1) else port)"
  by pat_completeness auto
termination
  by (relation "measure (\<lambda>(_, port). nat (65536 - port))") auto

declare port_scan.simps [simp del]

definition next_available_ports :: "string \<Rightarrow> db \<Rightarrow> (int \<times> int) result" where
  "next_available_ports host_id d =
     (let used = used_ports host_id d;
          api_port = port_scan (\<lambda>p. p \<in> set used) 8650;
          dashboard_port = port_scan (\<lambda>p. p \<in> set used \<or> p = api_port) 9130
      in if api_port > 65535 \<or> dashboard_port > 65535
         then Inl (ErrMessage ''no unallocated Fleet ports remain on the selected host'')
         else Inr (api_port, dashboard_port))"

section \<open>Publishing\<close>

definition update_instance_public_hostname :: "string \<Rightarrow> string \<Rightarrow> db \<Rightarrow> db result" where
  "update_instance_public_hostname i hostname d =
     and_then (update_instances (\<lambda>r. in_id r = i \<and> in_status r \<noteq> InstanceDeleted)
         (\<lambda>r. r\<lparr>in_public_hostname := hostname\<rparr>) d)
       (\<lambda>d'. guard (count_where (\<lambda>r. in_id r = i \<and> in_status r \<noteq> InstanceDeleted)
                 (db_instances d) = 1) ErrNotFound (Inr d'))"

section \<open>Ports: the scan returns the least free port\<close>

lemma port_scan_range: "p \<le> 65536 \<Longrightarrow> p \<le> port_scan blocked p \<and> port_scan blocked p \<le> 65536"
proof (induction blocked p rule: port_scan.induct)
  case (1 blocked p)
  then show ?case by (subst (1 2) port_scan.simps) auto
qed

lemma port_scan_free: "port_scan blocked p \<le> 65535 \<Longrightarrow> \<not> blocked (port_scan blocked p)"
proof (induction blocked p rule: port_scan.induct)
  case (1 blocked p)
  then show ?case
    by (cases "blocked p \<and> p \<le> 65535") (simp_all add: port_scan.simps[of blocked p])
qed

lemma port_scan_least: "p \<le> q \<Longrightarrow> q < port_scan blocked p \<Longrightarrow> blocked q"
proof (induction blocked p rule: port_scan.induct)
  case (1 blocked p)
  then show ?case
    by (cases "blocked p \<and> p \<le> 65535"; cases "q = p") (simp_all add: port_scan.simps[of blocked p])
qed

lemma next_available_ports_Inr:
  assumes "next_available_ports host_id d = Inr (a, b)"
  shows "8650 \<le> a" "a \<le> 65535" "9130 \<le> b" "b \<le> 65535" "a \<noteq> b"
    "a \<notin> set (used_ports host_id d)" "b \<notin> set (used_ports host_id d)"
    "\<And>p. 8650 \<le> p \<Longrightarrow> p < a \<Longrightarrow> p \<in> set (used_ports host_id d)"
    "\<And>p. 9130 \<le> p \<Longrightarrow> p < b \<Longrightarrow> p \<noteq> a \<Longrightarrow> p \<in> set (used_ports host_id d)"
proof -
  let ?used = "\<lambda>p. p \<in> set (used_ports host_id d)"
  have a: "a = port_scan ?used 8650" and b: "b = port_scan (\<lambda>p. ?used p \<or> p = a) 9130"
    and le: "a \<le> 65535" "b \<le> 65535"
    using assms by (auto simp: next_available_ports_def Let_def split: if_splits)
  show "8650 \<le> a" "a \<le> 65535" using a le port_scan_range[of 8650 ?used] by auto
  show "9130 \<le> b" "b \<le> 65535"
    using b le port_scan_range[of 9130 "\<lambda>p. ?used p \<or> p = a"] by auto
  show "\<not> ?used a" using a le port_scan_free[of ?used 8650] by simp
  show "\<not> ?used b" "a \<noteq> b"
    using b le port_scan_free[of "\<lambda>p. ?used p \<or> p = a" 9130] by auto
  show "?used p" if "8650 \<le> p" "p < a" for p
    using that port_scan_least[of 8650 p ?used] a by simp
  show "?used p" if "9130 \<le> p" "p < b" "p \<noteq> a" for p
    using that port_scan_least[of 9130 p "\<lambda>p. ?used p \<or> p = a"] b by simp
qed

lemma next_available_ports_no_clash:
  assumes "next_available_ports (in_host_id r) d = Inr (in_api_port r, in_dashboard_port r)"
  shows "\<not> list_ex (\<lambda>c. live_instance c \<and> ports_clash r c) (db_instances d)"
proof
  assume "list_ex (\<lambda>c. live_instance c \<and> ports_clash r c) (db_instances d)"
  then obtain c where c: "c \<in> set (db_instances d)" "live_instance c" "ports_clash r c"
    by (auto simp: list_ex_iff)
  then have "set [in_api_port c, in_dashboard_port c] \<subseteq> set (used_ports (in_host_id r) d)"
    by (auto simp: used_ports_def live_instance_def ports_clash_def)
  then show False
    using c(3) next_available_ports_Inr(6,7)[OF assms] by (auto simp: ports_clash_def)
qed

section \<open>Credential rotation is fenced\<close>

lemma rotate_host_credential_Inr:
  assumes "rotate_host_credential h n hn os ar t d = Inr d'"
  shows "\<exists>r. find_row h_id h (db_hosts d) = Some r \<and> n = h_name r \<and> hn = h_hostname r
      \<and> os = h_os r \<and> ar = h_arch r"
    and "\<forall>j \<in> set (db_jobs d). j_host_id j = h \<longrightarrow> \<not> active_job (j_status j)"
    and "db_jobs d' = db_jobs d"
  using assms
  by (auto simp: rotate_host_credential_def Let_def count_where_zero split: option.splits)

end
