(* ===== verification/Store_Queue.thy ===== *)
theory Store_Queue
  imports Store_Hosts
begin

text \<open>
  Admission of work: \<open>insertOperationAndJob\<close> with the per-host limit, \<open>CreateInstance\<close>, the
  \<open>Queue...\<close> functions of \<open>internal/store/store.go\<close> and the recovery-point fence. Every one of
  them either appends one pending job with its operation or returns an error.
\<close>

section \<open>Inserting an operation with its job\<close>

definition job_queue_max_per_host :: nat where
  "job_queue_max_per_host = 100"

definition host_active :: "string \<Rightarrow> job_row list \<Rightarrow> nat" where
  "host_active h jobs = count_where (\<lambda>j. j_host_id j = h \<and> active_job (j_status j)) jobs"

definition active_instance_jobs :: "string \<Rightarrow> job_row list \<Rightarrow> nat" where
  "active_instance_jobs i jobs =
     count_where (\<lambda>j. j_instance_id j = i \<and> active_job (j_status j)) jobs"

definition default_actor :: "string \<Rightarrow> string" where
  "default_actor actor = (if actor = '''' then ''FLEET_ADMIN'' else actor)"

definition default_metadata :: "raw_json option \<Rightarrow> raw_json option" where
  "default_metadata m = (case m of None \<Rightarrow> Some (Some (JObject [])) | Some x \<Rightarrow> Some x)"

text \<open>The row of a new job: the columns that are not listed take their defaults.\<close>

definition new_job_row :: "job \<Rightarrow> job_row" where
  "new_job_row j = job.extend
     (j\<lparr>j_attempts := 0, j_lease_token := '''', j_lease_expires_at := None\<rparr>)
     \<lparr>jr_progress = None, jr_completion_hash = ''''\<rparr>"

definition job_operation_row :: "operation \<Rightarrow> operation" where
  "job_operation_row op = op\<lparr>op_actor := default_actor (op_actor op),
     op_metadata := default_metadata (op_metadata op), op_progress := None, op_error := ''''\<rparr>"

definition insert_operation_and_job :: "operation \<Rightarrow> job \<Rightarrow> db \<Rightarrow> db result" where
  "insert_operation_and_job op j d =
     guard (host_active (j_host_id j) (db_jobs d) < job_queue_max_per_host) ErrQueueCapacity
     (guard (op_instance_id op \<noteq> '''' \<or> instance_exists d '''')
        (ErrForeignKey ''operations.instance_id'')
     (and_then (insert_operation (job_operation_row op) d)
        (\<lambda>d. insert_job (new_job_row j) d)))"

section \<open>Instances\<close>

definition create_instance :: "instance_row \<Rightarrow> operation \<Rightarrow> job \<Rightarrow> db \<Rightarrow> db result" where
  "create_instance inst op j d =
     and_then (insert_instance
         (inst\<lparr>in_image_id := '''', in_project_name := '''', in_data_volume := '''',
               in_managed_path := '''', in_last_error := ''''\<rparr>) d)
       (insert_operation_and_job op j)"

text \<open>\<open>UPDATE instances SET status=?, last_error='', updated_at=? WHERE id=? AND status=?\<close>.\<close>

definition move_instance ::
    "string \<Rightarrow> instance_status \<Rightarrow> instance_status \<Rightarrow> timestamp \<Rightarrow> db \<Rightarrow> db result" where
  "move_instance i expected status at d =
     and_then (update_instances (\<lambda>r. in_id r = i \<and> in_status r = expected)
         (\<lambda>r. r\<lparr>in_status := status, in_last_error := '''', in_updated_at := at\<rparr>) d)
       (\<lambda>d'. guard (count_where (\<lambda>r. in_id r = i \<and> in_status r = expected) (db_instances d) = 1)
          ErrStateChanged (Inr d'))"

definition require_idle :: "string \<Rightarrow> db \<Rightarrow> db result" where
  "require_idle i d = guard (active_instance_jobs i (db_jobs d) = 0) ErrInstanceBusy (Inr d)"

definition queue_action ::
    "instance_status \<Rightarrow> instance_status \<Rightarrow> operation \<Rightarrow> job \<Rightarrow> db \<Rightarrow> db result" where
  "queue_action expected status op j d =
     and_then (move_instance (op_instance_id op) expected status (op_created_at op) d) (\<lambda>d.
     and_then (Inr (if status \<noteq> InstanceRestarting
         then d\<lparr>db_remediation :=
                  delete_where (\<lambda>r. rm_instance_id r = op_instance_id op) (db_remediation d)\<rparr>
         else d)) (\<lambda>d.
     and_then (require_idle (op_instance_id op) d) (insert_operation_and_job op j)))"

section \<open>Configuration\<close>

text \<open>The \<open>INSERT ... ON CONFLICT(instance_id) DO UPDATE\<close> of both configuration tables.\<close>

definition upsert_config :: "config_row \<Rightarrow> config_row list \<Rightarrow> config_row list" where
  "upsert_config rec rows =
     (if list_ex (\<lambda>r. cf_instance_id r = cf_instance_id rec) rows
      then update_where (\<lambda>r. cf_instance_id r = cf_instance_id rec)
         (\<lambda>r. r\<lparr>cf_ciphertext := cf_ciphertext rec, cf_desired_revision := cf_desired_revision rec,
                cf_status := ConfigPending, cf_last_error := '''',
                cf_updated_at := cf_updated_at rec\<rparr>) rows
      else rows @ [rec\<lparr>cf_applied_revision := '''', cf_status := ConfigPending,
                       cf_last_error := '''', cf_applied_at := None\<rparr>])"

definition queue_messaging_configuration ::
    "instance_status \<Rightarrow> config_row \<Rightarrow> operation \<Rightarrow> job \<Rightarrow> db \<Rightarrow> db result" where
  "queue_messaging_configuration expected rec op j d =
     and_then (move_instance (op_instance_id op) expected InstanceUpdating (op_created_at op) d) (\<lambda>d.
     and_then (require_idle (op_instance_id op) d) (\<lambda>d.
     guard (instance_exists d (cf_instance_id rec)) (ErrForeignKey ''instance_messaging_configs'')
     (insert_operation_and_job op j (d\<lparr>db_messaging := upsert_config rec (db_messaging d)\<rparr>))))"

definition queue_mcp_configuration ::
    "instance_status \<Rightarrow> config_row \<Rightarrow> operation \<Rightarrow> job \<Rightarrow> db \<Rightarrow> db result" where
  "queue_mcp_configuration expected rec op j d =
     and_then (move_instance (op_instance_id op) expected InstanceUpdating (op_created_at op) d) (\<lambda>d.
     and_then (require_idle (op_instance_id op) d) (\<lambda>d.
     guard (instance_exists d (cf_instance_id rec)) (ErrForeignKey ''instance_mcp_configs'')
     (insert_operation_and_job op j (d\<lparr>db_mcp := upsert_config rec (db_mcp d)\<rparr>))))"

section \<open>Repair and inspection\<close>

definition queue_runtime_repair ::
    "instance_status \<Rightarrow> operation \<Rightarrow> job \<Rightarrow> runtime_remediation \<Rightarrow> db \<Rightarrow> db result" where
  "queue_runtime_repair expected op j rem d =
     and_then (move_instance (op_instance_id op) expected InstanceRestarting (op_created_at op) d) (\<lambda>d.
     and_then (require_idle (op_instance_id op) d) (\<lambda>d.
     let hit = (\<lambda>r. rm_instance_id r = op_instance_id op \<and> rm_workflow_id r = rr_workflow_id rem
           \<and> rm_status r = RemReady)
     in guard (count_where hit (db_remediation d) = 1) ErrStateChanged
        (insert_operation_and_job op j
          (d\<lparr>db_remediation := update_where hit
              (\<lambda>r. r\<lparr>rm_status := RemQueued, rm_phase := rr_phase rem,
                     rm_attempt_in_phase := rr_attempt_in_phase rem,
                     rm_total_attempts := rr_total_attempts rem,
                     rm_last_attempt_at := rr_last_attempt_at rem,
                     rm_next_attempt_at := rr_next_attempt_at rem,
                     rm_last_error := '''', rm_updated_at := op_created_at op\<rparr>)
              (db_remediation d)\<rparr>))))"

definition queue_inspection :: "instance_status option \<Rightarrow> operation \<Rightarrow> job \<Rightarrow> db \<Rightarrow> db result" where
  "queue_inspection required op j d =
     and_then (case required of
         None \<Rightarrow> Inr d
       | Some s \<Rightarrow> (case find_instance d (j_instance_id j) of
             None \<Rightarrow> Inl ErrNotFound
           | Some r \<Rightarrow> guard (in_status r = s) ErrStateChanged (Inr d)))
     (\<lambda>d. and_then (require_idle (j_instance_id j) d) (insert_operation_and_job op j))"

definition queue_codex_auth :: "operation \<Rightarrow> job \<Rightarrow> db \<Rightarrow> db result" where
  "queue_codex_auth op j d =
     and_then (case find_instance d (j_instance_id j) of
         None \<Rightarrow> Inl ErrNotFound
       | Some r \<Rightarrow> guard (in_status r = InstanceRunning) ErrStateChanged (Inr d))
     (\<lambda>d. and_then (require_idle (j_instance_id j) d) (insert_operation_and_job op j))"

section \<open>Recovery points in use\<close>

definition recovery_point_referenced_by_job ::
    "job_type \<Rightarrow> raw_json \<Rightarrow> string \<Rightarrow> bool option" where
  "recovery_point_referenced_by_job t payload rp =
     (case t of
        JobRecoveryRestore \<Rightarrow>
          map_option (\<lambda>p. rt_recovery_point_id p = rp) (decode_recovery_restore payload)
      | JobHermesUpgrade \<Rightarrow>
          map_option (\<lambda>p. hu_recovery_point_id p = rp \<or> rt_recovery_point_id (hu_rollback p) = rp)
            (decode_hermes_upgrade payload)
      | JobHermesUpdate \<Rightarrow>
          map_option (\<lambda>p. rp_recovery_point_id (hp_backup p) = rp
              \<or> hu_recovery_point_id (hp_upgrade p) = rp
              \<or> rt_recovery_point_id (hu_rollback (hp_upgrade p)) = rp)
            (decode_hermes_update payload)
      | _ \<Rightarrow> Some False)"

fun any_recovery_reference :: "string \<Rightarrow> job_row list \<Rightarrow> bool result" where
  "any_recovery_reference rp [] = Inr False"
| "any_recovery_reference rp (j # js) =
     (case recovery_point_referenced_by_job (j_type j) (j_payload j) rp of
        None \<Rightarrow> Inl (ErrMessage ''decode active job payload'')
      | Some True \<Rightarrow> Inr True
      | Some False \<Rightarrow> any_recovery_reference rp js)"

definition has_active_recovery_point_reference :: "string \<Rightarrow> db \<Rightarrow> bool result" where
  "has_active_recovery_point_reference rp d =
     any_recovery_reference rp
       (filter (\<lambda>j. active_job (j_status j)
          \<and> j_type j \<in> {JobRecoveryRestore, JobHermesUpdate, JobHermesUpgrade}) (db_jobs d))"

section \<open>What admission does to the job table\<close>

lemma insert_operation_and_job_Inr:
  assumes "insert_operation_and_job op j d = Inr d'"
  shows "db_jobs d' = db_jobs d @ [new_job_row j]"
    and "db_operations d' = db_operations d @ [job_operation_row op]"
    and "j_id j \<notin> j_id ` set (db_jobs d)" and "op_id op \<notin> op_id ` set (db_operations d)"
    and "host_active (j_host_id j) (db_jobs d) < job_queue_max_per_host"
    and "db_instances d' = db_instances d" "db_messages d' = db_messages d"
    "db_events d' = db_events d" "db_sessions d' = db_sessions d" "db_hosts d' = db_hosts d"
    "db_remediation d' = db_remediation d" "db_event_seq d' = db_event_seq d"
    "db_observations d' = db_observations d"
    and "operation_exists d' (j_operation_id j)" and "instance_exists d (j_instance_id j)"
    and "host_exists d (j_host_id j)"
  using assms
  by (auto simp: insert_operation_and_job_def insert_operation_Inr insert_job_Inr new_job_row_def
      job.defs job_operation_row_def operation_exists_def list_ex_key instance_exists_def
      host_exists_def)

lemma new_job_row_sel [simp]:
  "j_id (new_job_row j) = j_id j" "j_host_id (new_job_row j) = j_host_id j"
  "j_instance_id (new_job_row j) = j_instance_id j" "j_type (new_job_row j) = j_type j"
  "j_status (new_job_row j) = j_status j" "j_attempts (new_job_row j) = 0"
  "j_lease_token (new_job_row j) = ''''" "j_lease_expires_at (new_job_row j) = None"
  "j_operation_id (new_job_row j) = j_operation_id j" "j_payload (new_job_row j) = j_payload j"
  "jr_completion_hash (new_job_row j) = ''''" "j_created_at (new_job_row j) = j_created_at j"
  by (simp_all add: new_job_row_def job.defs)

lemma move_instance_Inr:
  "move_instance i expected status at d = Inr d' \<longleftrightarrow>
     allocation_ok (db_instances d') \<and>
     count_where (\<lambda>r. in_id r = i \<and> in_status r = expected) (db_instances d) = 1 \<and>
     d' = d\<lparr>db_instances := update_where (\<lambda>r. in_id r = i \<and> in_status r = expected)
         (\<lambda>r. r\<lparr>in_status := status, in_last_error := '''', in_updated_at := at\<rparr>)
         (db_instances d)\<rparr>"
  by (auto simp: move_instance_def update_instances_Inr)

lemma require_idle_Inr [simp]:
  "require_idle i d = Inr d' \<longleftrightarrow> active_instance_jobs i (db_jobs d) = 0 \<and> d' = d"
  by (auto simp: require_idle_def)

text \<open>
  The shape of an admission: a job appended to the table, fresh, under the limit, and either
  the instance was idle or nothing is said about it.
\<close>

definition admits :: "job \<Rightarrow> db \<Rightarrow> db \<Rightarrow> bool" where
  "admits j d d' \<longleftrightarrow> db_jobs d' = db_jobs d @ [new_job_row j]
     \<and> j_id j \<notin> j_id ` set (db_jobs d)
     \<and> host_active (j_host_id j) (db_jobs d) < job_queue_max_per_host"

lemma insert_operation_and_job_admits:
  "insert_operation_and_job op j d = Inr d' \<Longrightarrow> admits j d d'"
  using insert_operation_and_job_Inr[of op j d d'] by (simp add: admits_def)

lemma create_instance_admits:
  assumes "create_instance inst op j d = Inr d'"
  shows "admits j d d'"
  using assms
  by (auto simp: create_instance_def insert_instance_Inr admits_def
      dest: insert_operation_and_job_Inr)

lemma queue_action_admits:
  assumes "queue_action expected status op j d = Inr d'"
  shows "admits j d d'" and "active_instance_jobs (op_instance_id op) (db_jobs d) = 0"
  using assms
  by (auto simp: queue_action_def move_instance_Inr admits_def split: if_splits
      dest: insert_operation_and_job_Inr)

lemma queue_messaging_admits:
  assumes "queue_messaging_configuration expected rec op j d = Inr d'"
  shows "admits j d d'" and "active_instance_jobs (op_instance_id op) (db_jobs d) = 0"
  using assms
  by (auto simp: queue_messaging_configuration_def move_instance_Inr admits_def
      dest: insert_operation_and_job_Inr)

lemma queue_mcp_admits:
  assumes "queue_mcp_configuration expected rec op j d = Inr d'"
  shows "admits j d d'" and "active_instance_jobs (op_instance_id op) (db_jobs d) = 0"
  using assms
  by (auto simp: queue_mcp_configuration_def move_instance_Inr admits_def
      dest: insert_operation_and_job_Inr)

lemma queue_runtime_repair_admits:
  assumes "queue_runtime_repair expected op j rem d = Inr d'"
  shows "admits j d d'" and "active_instance_jobs (op_instance_id op) (db_jobs d) = 0"
  using assms
  by (auto simp: queue_runtime_repair_def Let_def move_instance_Inr admits_def
      dest: insert_operation_and_job_Inr)

lemma queue_inspection_admits:
  assumes "queue_inspection required op j d = Inr d'"
  shows "admits j d d'" and "active_instance_jobs (j_instance_id j) (db_jobs d) = 0"
  using assms
  by (auto simp: queue_inspection_def admits_def split: option.splits
      dest: insert_operation_and_job_Inr)

lemma queue_codex_auth_admits:
  assumes "queue_codex_auth op j d = Inr d'"
  shows "admits j d d'" and "active_instance_jobs (j_instance_id j) (db_jobs d) = 0"
  using assms
  by (auto simp: queue_codex_auth_def admits_def split: option.splits
      dest: insert_operation_and_job_Inr)

end
