(* ===== verification/Job_Lifecycle.thy ===== *)
theory Job_Lifecycle
  imports Store_Queue
begin

text \<open>
  The abstract life cycle of a job, the contract between the control plane and the Host
  Agents: pending, leased with a token and a deadline, running, then succeeded or failed.
  \<open>job_step\<close> says how one row of the job table may change, \<open>table_step\<close> how the table may
  change, and the invariants of the queue are proved once, by rule induction over
  \<open>table_step\<close>. The store functions of the next theories are shown to refine it.
\<close>

section \<open>Leases\<close>

definition leased_status :: "job_status \<Rightarrow> bool" where
  "leased_status s \<longleftrightarrow> s = JobLeased \<or> s = JobRunning"

definition lease_live :: "timestamp \<Rightarrow> job_row \<Rightarrow> bool" where
  "lease_live now j \<longleftrightarrow> leased_status (j_status j) \<and> null_ge (j_lease_expires_at j) now"

definition lease_expired :: "timestamp \<Rightarrow> job_row \<Rightarrow> bool" where
  "lease_expired now j \<longleftrightarrow> leased_status (j_status j) \<and> null_lt (j_lease_expires_at j) now"

definition claimable :: "timestamp \<Rightarrow> job_row \<Rightarrow> bool" where
  "claimable now j \<longleftrightarrow> j_status j = JobPending \<or> lease_expired now j"

definition job_lease_max_claims :: nat where
  "job_lease_max_claims = 3"

text \<open>An expired lease that may not be claimed again: chat work is never replayed.\<close>

definition retries_exhausted :: "job_row \<Rightarrow> bool" where
  "retries_exhausted j \<longleftrightarrow> j_type j = JobChatSend \<or> j_attempts j \<ge> job_lease_max_claims"

definition terminal_status :: "job_status \<Rightarrow> bool" where
  "terminal_status s \<longleftrightarrow> s = JobSucceeded \<or> s = JobFailed"

section \<open>The rows the statements write\<close>

definition claim_row :: "timestamp \<Rightarrow> timestamp \<Rightarrow> string \<Rightarrow> job_row \<Rightarrow> job_row" where
  "claim_row now expires token j =
     j\<lparr>j_status := JobLeased, j_attempts := j_attempts j + 1, j_lease_token := token,
       j_lease_expires_at := Some expires, jr_progress := None, j_updated_at := now\<rparr>"

definition acknowledge_row :: "timestamp \<Rightarrow> timestamp \<Rightarrow> job_row \<Rightarrow> job_row" where
  "acknowledge_row now expires j =
     j\<lparr>j_status := JobRunning, j_lease_expires_at := Some expires, j_updated_at := now\<rparr>"

definition renew_row :: "timestamp \<Rightarrow> timestamp \<Rightarrow> job_row \<Rightarrow> job_row" where
  "renew_row now expires j = j\<lparr>j_lease_expires_at := Some expires, j_updated_at := now\<rparr>"

definition progress_row :: "timestamp \<Rightarrow> job_progress \<Rightarrow> job_row \<Rightarrow> job_row" where
  "progress_row now p j = j\<lparr>jr_progress := Some p, j_updated_at := now\<rparr>"

definition finish_row :: "timestamp \<Rightarrow> job_status \<Rightarrow> string \<Rightarrow> job_row \<Rightarrow> job_row" where
  "finish_row now s hash j = j\<lparr>j_status := s, jr_completion_hash := hash, j_updated_at := now\<rparr>"

definition abort_row :: "timestamp \<Rightarrow> job_row \<Rightarrow> job_row" where
  "abort_row now j =
     j\<lparr>j_status := JobFailed, j_lease_token := '''', j_lease_expires_at := None, j_updated_at := now\<rparr>"

lemmas row_defs = claim_row_def acknowledge_row_def renew_row_def progress_row_def finish_row_def
  abort_row_def

lemmas lease_defs = leased_status_def lease_live_def lease_expired_def claimable_def
  terminal_status_def active_job_def

section \<open>One row\<close>

inductive job_step :: "string set \<Rightarrow> timestamp \<Rightarrow> job_row \<Rightarrow> job_row \<Rightarrow> bool" for T now where
  Claim: "claimable now j \<Longrightarrow> lease_expired now j \<longrightarrow> \<not> retries_exhausted j \<Longrightarrow> token \<in> T \<Longrightarrow>
    job_step T now j (claim_row now expires token j)"
| Acknowledge: "j_status j = JobLeased \<Longrightarrow> null_gt (j_lease_expires_at j) now \<Longrightarrow>
    job_step T now j (acknowledge_row now expires j)"
| Renew: "j_status j = JobRunning \<Longrightarrow> null_gt (j_lease_expires_at j) now \<Longrightarrow>
    job_step T now j (renew_row now expires j)"
| Report: "j_status j = JobRunning \<Longrightarrow> null_gt (j_lease_expires_at j) now \<Longrightarrow>
    job_step T now j (progress_row now p j)"
| Finish: "j_status j = JobRunning \<Longrightarrow> null_gt (j_lease_expires_at j) now \<Longrightarrow>
    terminal_status s \<Longrightarrow> length hash = 64 \<Longrightarrow> job_step T now j (finish_row now s hash j)"
| Abort: "active_job (j_status j) \<Longrightarrow> job_step T now j (abort_row now j)"

inductive_cases job_stepE: "job_step T now j j'"

lemma null_gt_ge: "null_gt l t \<Longrightarrow> null_ge l t"
  by (cases l) auto

text \<open>What never changes, and what a step does to the status.\<close>

lemma job_step_identity:
  "job_step T now j j' \<Longrightarrow> j_id j' = j_id j \<and> j_host_id j' = j_host_id j
     \<and> j_instance_id j' = j_instance_id j \<and> j_type j' = j_type j
     \<and> j_operation_id j' = j_operation_id j \<and> j_payload j' = j_payload j
     \<and> j_created_at j' = j_created_at j"
  by (erule job_stepE) (simp_all add: row_defs)

lemma job_step_from_active: "job_step T now j j' \<Longrightarrow> active_job (j_status j)"
  by (erule job_stepE) (auto simp: lease_defs)

lemma job_step_to: "job_step T now j j' \<Longrightarrow> active_job (j_status j') \<or> terminal_status (j_status j')"
  by (erule job_stepE) (auto simp: lease_defs row_defs)

lemma job_step_not_pending: "job_step T now j j' \<Longrightarrow> j_status j' \<noteq> JobPending"
  by (erule job_stepE) (auto simp: lease_defs row_defs)

lemma job_step_attempts: "job_step T now j j' \<Longrightarrow> j_attempts j \<le> j_attempts j'"
  by (erule job_stepE) (auto simp: row_defs)

lemma job_step_token: "job_step T now j j' \<Longrightarrow> j_lease_token j' \<in> {j_lease_token j, ''''} \<union> T"
  by (erule job_stepE) (auto simp: row_defs)

lemma job_step_keeps_live:
  "job_step T now j j' \<Longrightarrow> lease_live now j' \<Longrightarrow> lease_live now j \<or> claimable now j"
  by (erule job_stepE) (auto simp: lease_defs row_defs null_gt_ge)

text \<open>The row invariant.\<close>

definition job_ok :: "job_row \<Rightarrow> bool" where
  "job_ok j \<longleftrightarrow>
     (j_status j = JobPending \<longrightarrow> j_attempts j = 0 \<and> j_lease_token j = '''' \<and> j_lease_expires_at j = None)
   \<and> (leased_status (j_status j) \<longrightarrow>
        j_attempts j \<ge> 1 \<and> j_lease_token j \<noteq> '''' \<and> j_lease_expires_at j \<noteq> None)
   \<and> (terminal_status (j_status j) \<longrightarrow> (j_lease_token j = '''') \<noteq> (length (jr_completion_hash j) = 64))
   \<and> (active_job (j_status j) \<longrightarrow> jr_completion_hash j = '''')
   \<and> (active_job (j_status j) \<or> terminal_status (j_status j))
   \<and> j_attempts j \<le> job_lease_max_claims
   \<and> (j_type j = JobChatSend \<longrightarrow> j_attempts j \<le> 1)"

lemma claim_row_ok:
  assumes "job_ok j" and "claimable now j" and "lease_expired now j \<longrightarrow> \<not> retries_exhausted j"
    and "token \<noteq> ''''"
  shows "job_ok (claim_row now expires token j)"
proof (cases "j_status j = JobPending")
  case True
  then have "j_attempts j = 0" "jr_completion_hash j = ''''"
    using assms(1) by (simp_all add: job_ok_def active_job_def)
  then show ?thesis
    using assms(4) by (simp add: job_ok_def claim_row_def lease_defs job_lease_max_claims_def)
next
  case False
  then have "lease_expired now j" using assms(2) by (simp add: claimable_def)
  then have "\<not> retries_exhausted j" "active_job (j_status j)"
    using assms(3) by (auto simp: lease_defs)
  then have "j_type j \<noteq> JobChatSend" "j_attempts j < job_lease_max_claims" "jr_completion_hash j = ''''"
    using assms(1) by (simp_all add: retries_exhausted_def job_ok_def)
  then show ?thesis
    using assms(4) by (simp add: job_ok_def claim_row_def lease_defs)
qed

lemma job_step_ok:
  assumes "job_step T now j j'" and "job_ok j" and "'''' \<notin> T"
  shows "job_ok j'"
  using assms(1)
proof cases
  case (Claim token expires)
  then show ?thesis using claim_row_ok[of j now token expires] assms(2,3) by metis
next
  case (Finish s hash)
  then have "job_ok (finish_row now JobSucceeded hash j)" "job_ok (finish_row now JobFailed hash j)"
    using assms(2) by (simp_all add: job_ok_def finish_row_def lease_defs)
  then show ?thesis using Finish by (auto simp: terminal_status_def)
qed (use assms(2) in \<open>simp_all add: job_ok_def row_defs lease_defs\<close>)

lemma new_job_ok: "j_status j = JobPending \<Longrightarrow> job_ok (new_job_row j)"
  by (simp add: job_ok_def lease_defs job_lease_max_claims_def)

section \<open>The table\<close>

definition chat_job :: "job_row \<Rightarrow> bool" where
  "chat_job j \<longleftrightarrow> j_type j = JobChatSend"

definition other_lease_live :: "timestamp \<Rightarrow> job_row \<Rightarrow> job_row list \<Rightarrow> bool" where
  "other_lease_live now j jobs \<longleftrightarrow>
     list_ex (\<lambda>a. j_host_id a = j_host_id j \<and> j_instance_id a = j_instance_id j
        \<and> j_id a \<noteq> j_id j \<and> lease_live now a) jobs"

text \<open>
  A claim of work other than chat is admitted only when no other lease of the instance is
  live; a new job of such a type only when the instance has no active job.
\<close>

inductive table_step ::
    "string set \<Rightarrow> timestamp \<Rightarrow> job_row list \<Rightarrow> job_row list \<Rightarrow> bool" for T now where
  Admit: "j_id j \<notin> j_id ` set jobs \<Longrightarrow> host_active (j_host_id j) jobs < job_queue_max_per_host \<Longrightarrow>
    j_status j = JobPending \<Longrightarrow>
    j_type j \<noteq> JobChatSend \<longrightarrow> active_instance_jobs (j_instance_id j) jobs = 0 \<Longrightarrow>
    table_step T now jobs (jobs @ [new_job_row j])"
| Move: "(\<And>r. r \<in> set jobs \<Longrightarrow> P r \<Longrightarrow> job_step T now r (f r)) \<Longrightarrow>
    (\<And>r. r \<in> set jobs \<Longrightarrow> P r \<Longrightarrow> lease_live now (f r) \<Longrightarrow> \<not> lease_live now r \<Longrightarrow>
       \<not> chat_job r \<Longrightarrow> count_where P jobs = 1 \<and> \<not> other_lease_live now r jobs) \<Longrightarrow>
    table_step T now jobs (update_where P f jobs)"
| Remove: "table_step T now jobs (delete_where P jobs)"

abbreviation table_steps :: "string set \<Rightarrow> timestamp \<Rightarrow> job_row list \<Rightarrow> job_row list \<Rightarrow> bool" where
  "table_steps T now \<equiv> (table_step T now)\<^sup>*\<^sup>*"

lemma table_step_same: "table_step T now jobs jobs"
  using Remove[of T now jobs "\<lambda>_. False"] by (simp add: delete_where_def)

text \<open>Failing any set of active jobs is a step.\<close>

lemma table_step_abort:
  assumes "\<And>r. r \<in> set jobs \<Longrightarrow> P r \<Longrightarrow> active_job (j_status r)"
  shows "table_step T now jobs (update_where P (abort_row now) jobs)"
proof (rule Move)
  show "job_step T now r (abort_row now r)" if "r \<in> set jobs" "P r" for r
    using assms[OF that] by (rule Abort)
qed (simp add: abort_row_def lease_live_def leased_status_def)

definition at_most_one :: "(job_row \<Rightarrow> bool) \<Rightarrow> job_row list \<Rightarrow> bool" where
  "at_most_one P jobs \<longleftrightarrow> count_where P jobs \<le> 1"

definition exclusive_work :: "string \<Rightarrow> job_row \<Rightarrow> bool" where
  "exclusive_work i j \<longleftrightarrow> j_instance_id j = i \<and> \<not> chat_job j \<and> active_job (j_status j)"

definition leases_exclusive :: "timestamp \<Rightarrow> job_row list \<Rightarrow> bool" where
  "leases_exclusive now jobs \<longleftrightarrow>
     (\<forall>a \<in> set jobs. \<forall>b \<in> set jobs. j_id a \<noteq> j_id b \<longrightarrow> j_host_id a = j_host_id b \<longrightarrow>
        j_instance_id a = j_instance_id b \<longrightarrow> \<not> chat_job a \<longrightarrow> \<not> chat_job b \<longrightarrow>
        \<not> (lease_live now a \<and> lease_live now b))"

definition queue_ok :: "timestamp \<Rightarrow> job_row list \<Rightarrow> bool" where
  "queue_ok now jobs \<longleftrightarrow> distinct (map j_id jobs) \<and> (\<forall>j \<in> set jobs. job_ok j)
     \<and> (\<forall>h. host_active h jobs \<le> job_queue_max_per_host)
     \<and> (\<forall>i. at_most_one (exclusive_work i) jobs)
     \<and> leases_exclusive now jobs"

lemma queue_ok_Nil [simp]: "queue_ok now []"
  by (simp add: queue_ok_def host_active_def at_most_one_def leases_exclusive_def)

text \<open>Time alone keeps the invariant: leases only run out.\<close>

lemma lease_live_antimono: "lease_live t j \<Longrightarrow> now \<le> t \<Longrightarrow> lease_live now j"
  by (cases "j_lease_expires_at j") (auto simp: lease_live_def)

lemma queue_ok_later: "queue_ok now jobs \<Longrightarrow> now \<le> t \<Longrightarrow> queue_ok t jobs"
  by (auto simp: queue_ok_def leases_exclusive_def) (meson lease_live_antimono)

text \<open>Each component of the invariant under one step.\<close>

lemma identity_update:
  assumes "\<And>r. r \<in> set jobs \<Longrightarrow> P r \<Longrightarrow> job_step T now r (f r)"
  shows "map j_id (update_where P f jobs) = map j_id jobs"
  using assms
proof (induction jobs)
  case (Cons r jobs)
  then have "map j_id (update_where P f jobs) = map j_id jobs" by simp
  then show ?case using Cons.prems[of r] job_step_identity[of T now r "f r"] by auto
qed simp

lemma job_step_host:
  "job_step T now r s \<Longrightarrow> j_host_id s = h \<and> active_job (j_status s) \<Longrightarrow>
   j_host_id r = h \<and> active_job (j_status r)"
  using job_step_identity[of T now r s] job_step_from_active[of T now r s] by simp

lemma job_step_work: "job_step T now r s \<Longrightarrow> exclusive_work i s \<Longrightarrow> exclusive_work i r"
  using job_step_identity[of T now r s] job_step_from_active[of T now r s]
  by (simp add: exclusive_work_def chat_job_def)

lemma count_move_le:
  assumes "\<And>r. r \<in> set jobs \<Longrightarrow> P r \<Longrightarrow> job_step T now r (f r)"
    and "\<And>r s. job_step T now r s \<Longrightarrow> Q s \<Longrightarrow> Q r"
  shows "count_where Q (update_where P f jobs) \<le> count_where Q jobs"
  using assms(1)
proof (induction jobs)
  case (Cons r jobs)
  then have "count_where Q (update_where P f jobs) \<le> count_where Q jobs" by simp
  then show ?case using Cons.prems[of r] assms(2) by auto
qed simp

lemma step_keeps_capacity:
  assumes "table_step T now jobs jobs'" and "host_active h jobs \<le> job_queue_max_per_host"
  shows "host_active h jobs' \<le> job_queue_max_per_host"
  using assms(1)
proof cases
  case (Admit j)
  then show ?thesis using assms(2) by (auto simp: host_active_def)
next
  case (Move P f)
  have "host_active h jobs' \<le> host_active h jobs"
    unfolding Move(1) host_active_def
    by (rule count_move_le) (use Move(2) job_step_host in blast)+
  then show ?thesis using assms(2) by simp
next
  case (Remove P)
  show ?thesis
    using assms(2) unfolding Remove(1) host_active_def by (rule order_trans[OF count_where_delete_le])
qed

lemma exclusive_work_le_active:
  "count_where (exclusive_work i) jobs \<le> active_instance_jobs i jobs"
  unfolding active_instance_jobs_def by (rule count_where_mono) (simp add: exclusive_work_def)

lemma step_keeps_at_most_one:
  assumes "table_step T now jobs jobs'" and "at_most_one (exclusive_work i) jobs"
  shows "at_most_one (exclusive_work i) jobs'"
  using assms(1)
proof cases
  case (Admit j)
  then have "exclusive_work i (new_job_row j) \<Longrightarrow> count_where (exclusive_work i) jobs = 0"
    using exclusive_work_le_active[of i jobs] by (auto simp: exclusive_work_def chat_job_def)
  then show ?thesis using assms(2) Admit(1) by (auto simp: at_most_one_def)
next
  case (Move P f)
  have "count_where (exclusive_work i) jobs' \<le> count_where (exclusive_work i) jobs"
    unfolding Move(1)
    by (rule count_move_le) (use Move(2) job_step_work in blast)+
  then show ?thesis using assms(2) by (simp add: at_most_one_def)
next
  case (Remove P)
  show ?thesis
    using assms(2) unfolding Remove(1) at_most_one_def by (rule order_trans[OF count_where_delete_le])
qed

lemma step_keeps_rows:
  assumes "table_step T now jobs jobs'" and "'''' \<notin> T" and "\<forall>j \<in> set jobs. job_ok j"
  shows "\<forall>j \<in> set jobs'. job_ok j"
  using assms(1)
proof cases
  case (Admit j)
  then show ?thesis using assms(3) new_job_ok by auto
next
  case (Move P f)
  then show ?thesis
    using assms job_step_ok by (fastforce elim!: in_update_whereE)
next
  case (Remove P)
  then show ?thesis using assms(3) by (simp add: delete_where_subset)
qed

lemma step_keeps_ids:
  assumes "table_step T now jobs jobs'" and "distinct (map j_id jobs)"
  shows "distinct (map j_id jobs')"
  using assms(1)
proof cases
  case (Move P f)
  then show ?thesis using assms(2) identity_update[of jobs P T now f] by simp
qed (use assms(2) in \<open>auto simp: distinct_map_delete_where\<close>)

lemma step_keeps_leases:
  assumes "table_step T now jobs jobs'" and "leases_exclusive now jobs"
  shows "leases_exclusive now jobs'"
  using assms(1)
proof cases
  case (Admit j)
  then have "\<not> lease_live now (new_job_row j)" by (simp add: lease_defs)
  then show ?thesis using assms(2) Admit(1) by (auto simp: leases_exclusive_def)
next
  case (Move P f)
  let ?g = "\<lambda>r. if P r then f r else r"
  have id: "j_id (?g r) = j_id r \<and> j_host_id (?g r) = j_host_id r
      \<and> j_instance_id (?g r) = j_instance_id r \<and> j_type (?g r) = j_type r" if "r \<in> set jobs" for r
    using Move(2)[OF that] job_step_identity[of T now r "f r"] by auto
  have alone: False
    if "a \<in> set jobs" "b \<in> set jobs" "j_id a \<noteq> j_id b" "j_host_id a = j_host_id b"
      "j_instance_id a = j_instance_id b" "\<not> chat_job a" "lease_live now (?g a)"
      "\<not> lease_live now a" "lease_live now (?g b)" for a b
  proof -
    have Pa: "P a" using that(7,8) by (auto split: if_splits)
    then have one: "count_where P jobs = 1" and none: "\<not> other_lease_live now a jobs"
      using Move(3)[OF that(1)] that(6-8) by auto
    have "\<not> P b" using count_one_unique[OF one that(1,2) Pa] that(3) by auto
    then show False
      using none that by (auto simp: other_lease_live_def list_ex_iff)
  qed
  have "\<not> (lease_live now (?g a) \<and> lease_live now (?g b))"
    if h: "a \<in> set jobs" "b \<in> set jobs" "j_id a \<noteq> j_id b" "j_host_id a = j_host_id b"
      "j_instance_id a = j_instance_id b" "\<not> chat_job a" "\<not> chat_job b" for a b
  proof
    assume live: "lease_live now (?g a) \<and> lease_live now (?g b)"
    have "lease_live now a" using alone[of a b] h live by metis
    moreover have "lease_live now b" using alone[of b a] h live by metis
    ultimately show False using assms(2) h unfolding leases_exclusive_def by blast
  qed
  then have "\<forall>a \<in> set jobs. \<forall>b \<in> set jobs. j_id (?g a) \<noteq> j_id (?g b) \<longrightarrow>
      j_host_id (?g a) = j_host_id (?g b) \<longrightarrow> j_instance_id (?g a) = j_instance_id (?g b) \<longrightarrow>
      \<not> chat_job (?g a) \<longrightarrow> \<not> chat_job (?g b) \<longrightarrow> \<not> (lease_live now (?g a) \<and> lease_live now (?g b))"
    using id unfolding chat_job_def by metis
  then show ?thesis
    unfolding Move(1) leases_exclusive_def update_where_def set_map ball_simps by blast
next
  case (Remove P)
  then show ?thesis using assms(2) by (auto simp: leases_exclusive_def delete_where_subset)
qed

lemma table_step_ok:
  assumes "table_step T now jobs jobs'" and "'''' \<notin> T" and "queue_ok now jobs"
  shows "queue_ok now jobs'"
  using assms(3)
  by (simp add: queue_ok_def step_keeps_ids[OF assms(1)] step_keeps_rows[OF assms(1,2)]
      step_keeps_capacity[OF assms(1)] step_keeps_at_most_one[OF assms(1)]
      step_keeps_leases[OF assms(1)])

lemma table_steps_ok:
  "table_steps T now jobs jobs' \<Longrightarrow> '''' \<notin> T \<Longrightarrow> queue_ok now jobs \<Longrightarrow> queue_ok now jobs'"
  by (induction rule: rtranclp_induct) (auto intro: table_step_ok)

section \<open>Terminal jobs and retired tokens\<close>

text \<open>A job that has ended stays as it is or is removed.\<close>

lemma table_step_terminal:
  assumes "table_step T now jobs jobs'" and "r \<in> set jobs'" and "terminal_status (j_status r)"
    and "q \<in> set jobs" and "j_id q = j_id r" and "terminal_status (j_status q)"
    and "distinct (map j_id jobs)"
  shows "r = q"
  using assms(1)
proof cases
  case (Admit j)
  have "r \<noteq> new_job_row j" using Admit(2) assms(4,5) by (metis image_eqI new_job_row_sel(1))
  then have "r \<in> set jobs" using assms(2) Admit(1) by simp
  then show ?thesis using unique_row[of j_id jobs r q] assms(4,5,7) by simp
next
  case (Move P f)
  have q: "\<not> P q"
    using Move(2)[OF assms(4)] job_step_from_active[of T now q "f q"] assms(6)
    by (auto simp: lease_defs)
  show ?thesis
    using assms(2) unfolding Move(1)
  proof (cases rule: in_update_whereE)
    case kept
    then show ?thesis using unique_row[of j_id jobs r q] assms(4,5,7) by simp
  next
    case (changed p)
    then have "j_id p = j_id q"
      using Move(2)[of p] job_step_identity[of T now p "f p"] assms(5) by simp
    then have "p = q" using unique_row[of j_id jobs p q] changed(1) assms(4,7) by simp
    then show ?thesis using changed(2) q by simp
  qed
next
  case (Remove P)
  then have "r \<in> set jobs" using assms(2) by (simp add: delete_where_subset)
  then show ?thesis using unique_row[of j_id jobs r q] assms(4,5,7) by simp
qed

text \<open>A token that no claim issues and no job holds is never held again.\<close>

lemma table_step_token:
  assumes "table_step T now jobs jobs'" and "t \<notin> T" and "t \<noteq> ''''"
    and "\<forall>j \<in> set jobs. j_id j = i \<longrightarrow> j_lease_token j \<noteq> t"
  shows "\<forall>j \<in> set jobs'. j_id j = i \<longrightarrow> j_lease_token j \<noteq> t"
  using assms(1)
proof cases
  case (Move P f)
  show ?thesis
  proof (intro ballI impI)
    fix j assume "j \<in> set jobs'" and i: "j_id j = i"
    then show "j_lease_token j \<noteq> t"
      unfolding Move(1)
    proof (cases rule: in_update_whereE)
      case kept
      then show ?thesis using assms(4) i by simp
    next
      case (changed q)
      then have "j_lease_token j \<in> {j_lease_token q, ''''} \<union> T" "j_id q = i"
        using Move(2)[of q] job_step_token[of T now q "f q"] job_step_identity[of T now q "f q"] i
        by auto
      then show ?thesis using assms(2-4) changed(1) by auto
    qed
  qed
qed (use assms in \<open>auto simp: delete_where_subset\<close>)

end
