(* ===== verification/Store_Leases.thy ===== *)
theory Store_Leases
  imports Job_Lifecycle
begin

text \<open>
  Claiming work and retiring lost leases: \<open>ClaimJob\<close>, \<open>failExpiredJobLease\<close>,
  \<open>hermesUpdateOriginalStatus\<close>, \<open>ReconcileExpiredJobs\<close> and \<open>QueueHealth\<close> of
  \<open>internal/store/store.go\<close>. The current time and the random lease token are arguments. The
  loop of \<open>ClaimJob\<close> ends because every turn fails one leased job.
\<close>

section \<open>Metadata\<close>

text \<open>
  \<open>json.Unmarshal\<close> of operation metadata into a \<open>map[string]any\<close>; \<open>null\<close> and no bytes give
  the empty map of this function.
\<close>

definition metadata_map :: "raw_json option \<Rightarrow> json_fields option" where
  "metadata_map m = (case m of None \<Rightarrow> Some [] | Some raw \<Rightarrow> Option.bind raw jobject)"

definition operation_metadata :: "db \<Rightarrow> string \<Rightarrow> raw_json option" where
  "operation_metadata d i = (case find_operation d i of None \<Rightarrow> None | Some o' \<Rightarrow> op_metadata o')"

section \<open>Selecting a job\<close>

fun job_priority :: "job_type \<Rightarrow> int" where
  "job_priority JobStop = 0"
| "job_priority JobRuntimeRepair = 0"
| "job_priority JobRecoveryRestore = 0"
| "job_priority JobImageRepair = 0"
| "job_priority JobInspectCredentials = 20"
| "job_priority _ = 10"

definition job_order :: "job_row \<Rightarrow> order_key" where
  "job_order j = Order_Key (job_priority (j_type j)) (j_created_at j) (j_id j)"

definition user_message_of :: "db \<Rightarrow> job_row \<Rightarrow> message_row list" where
  "user_message_of d j =
     filter (\<lambda>m. me_operation_id m = j_operation_id j \<and> me_role m = RoleUser) (db_messages d)"

definition same_session :: "db \<Rightarrow> job_row \<Rightarrow> job_row \<Rightarrow> bool" where
  "same_session d a b \<longleftrightarrow>
     list_ex (\<lambda>m. list_ex (\<lambda>n. me_session_id m = me_session_id n) (user_message_of d b))
       (user_message_of d a)"

definition created_before :: "job_row \<Rightarrow> job_row \<Rightarrow> bool" where
  "created_before a b \<longleftrightarrow> j_created_at a < j_created_at b
     \<or> j_created_at a = j_created_at b \<and> j_id a < j_id b"

definition chat_turn_blocked :: "timestamp \<Rightarrow> db \<Rightarrow> job_row \<Rightarrow> bool" where
  "chat_turn_blocked now d c \<longleftrightarrow>
     list_ex (\<lambda>e. j_id e \<noteq> j_id c \<and> j_type e = JobChatSend \<and> same_session d e c
        \<and> (lease_live now e \<or> j_status e = JobPending \<and> created_before e c)) (db_jobs d)"

definition claim_candidate :: "timestamp \<Rightarrow> string \<Rightarrow> db \<Rightarrow> job_row \<Rightarrow> bool" where
  "claim_candidate now host_id d c \<longleftrightarrow> j_host_id c = host_id \<and> claimable now c
     \<and> operation_exists d (j_operation_id c)
     \<and> (if j_type c = JobChatSend then \<not> chat_turn_blocked now d c
        else \<not> other_lease_live now c (db_jobs d))"

definition next_claim :: "timestamp \<Rightarrow> string \<Rightarrow> db \<Rightarrow> job_row option" where
  "next_claim now host_id d = first_by job_order (filter (claim_candidate now host_id d) (db_jobs d))"

section \<open>Failing a lost lease\<close>

definition hermes_update_original_status :: "job_row \<Rightarrow> json_fields \<Rightarrow> instance_status" where
  "hermes_update_original_status j m =
     (if j_type j \<noteq> JobHermesUpdate then NoStatus
      else let from_metadata =
             (case jfield ''original_status'' m of
                JString s \<Rightarrow>
                  (if instance_status_of s \<in> {InstanceRunning, InstanceStopped}
                   then instance_status_of s else NoStatus)
              | _ \<Rightarrow> NoStatus)
           in case decode_hermes_update (j_payload j) of
                Some p \<Rightarrow> (if hp_original_status p \<in> {InstanceRunning, InstanceStopped}
                          then hp_original_status p else from_metadata)
              | None \<Rightarrow> from_metadata)"

definition lost_lease_reason :: "job_row \<Rightarrow> string" where
  "lost_lease_reason j =
     (if j_type j = JobChatSend
      then ''Host Agent lost the chat job lease; automatic retry is disabled to prevent duplicate Hermes tool execution''
      else ''Host Agent lost this job lease 3 times; manual retry is required'')"

definition lost_lease_failure :: "job_row \<Rightarrow> string" where
  "lost_lease_failure j =
     (if j_type j = JobChatSend then ''chat-lease-lost'' else ''lease-retry-exhausted'')"

definition lost_lease_instance_status :: "job_row \<Rightarrow> json_fields \<Rightarrow> instance_status" where
  "lost_lease_instance_status j m =
     (case j_type j of
        JobRuntimeRepair \<Rightarrow> InstanceRunning
      | JobRecoveryCreate \<Rightarrow> InstanceStopped
      | JobHermesUpdate \<Rightarrow>
          (if hermes_update_original_status j m \<noteq> NoStatus
           then hermes_update_original_status j m else InstanceFailed)
      | _ \<Rightarrow> InstanceFailed)"

definition fail_chat_lease :: "job_row \<Rightarrow> string \<Rightarrow> timestamp \<Rightarrow> db \<Rightarrow> db result" where
  "fail_chat_lease j reason at d =
     (case decode_chat_send (j_payload j) of
        None \<Rightarrow> Inl (ErrMessage ''decode chat payload'')
      | Some p \<Rightarrow>
          append_closing_event (cs_session_id p) (j_operation_id j) EventFailed at
            (touch_session (cs_session_id p) reason at
              (update_messages
                (\<lambda>m. me_id m = cs_message_id p \<and> me_operation_id m = j_operation_id j)
                (\<lambda>m. m\<lparr>me_status := MessageFailed, me_error := reason, me_updated_at := at\<rparr>) d)))"

text \<open>The closing of a remediation attempt that failed, shared with \<open>CompleteJobWithHash\<close>.\<close>

definition runtime_remediation_attempts_per_phase :: nat where
  "runtime_remediation_attempts_per_phase = 3"

definition runtime_remediation_max_phases :: nat where
  "runtime_remediation_max_phases = 3"

definition after_failed_attempt :: "remediation_row \<Rightarrow> remediation_status" where
  "after_failed_attempt r =
     (if rm_total_attempts r \<ge> runtime_remediation_attempts_per_phase * runtime_remediation_max_phases
      then RemExhausted
      else if rm_attempt_in_phase r \<ge> runtime_remediation_attempts_per_phase then RemCooldown
      else RemWaiting)"

definition fail_remediation_attempt :: "string \<Rightarrow> string \<Rightarrow> timestamp \<Rightarrow> db \<Rightarrow> db" where
  "fail_remediation_attempt i err at d =
     d\<lparr>db_remediation := update_where (\<lambda>r. rm_instance_id r = i \<and> rm_status r = RemQueued)
         (\<lambda>r. r\<lparr>rm_status := after_failed_attempt r, rm_last_error := err, rm_updated_at := at\<rparr>)
         (db_remediation d)\<rparr>"

definition fail_pending_config :: "string \<Rightarrow> string \<Rightarrow> timestamp \<Rightarrow> config_row list \<Rightarrow> config_row list" where
  "fail_pending_config i err at =
     update_where (\<lambda>r. cf_instance_id r = i \<and> cf_status r = ConfigPending)
       (\<lambda>r. r\<lparr>cf_status := ConfigFailed, cf_last_error := err, cf_updated_at := at\<rparr>)"

definition lost_lease_closing :: "job_row \<Rightarrow> string \<Rightarrow> timestamp \<Rightarrow> db \<Rightarrow> db" where
  "lost_lease_closing j reason at d =
     (if j_type j = JobRuntimeRepair then fail_remediation_attempt (j_instance_id j) reason at d
      else if j_type j = JobConfigureMessaging then
        d\<lparr>db_messaging := fail_pending_config (j_instance_id j) reason at (db_messaging d)\<rparr>
      else if j_type j = JobConfigureMcp then
        d\<lparr>db_mcp := fail_pending_config (j_instance_id j) reason at (db_mcp d)\<rparr>
      else d)"

definition fail_lease_effects :: "job_row \<Rightarrow> json_fields \<Rightarrow> timestamp \<Rightarrow> db \<Rightarrow> db result" where
  "fail_lease_effects j m at d =
     (let reason = lost_lease_reason j in
      and_then
        (if j_type j = JobInspectCredentials \<or> j_type j = JobAuthCodex then Inr d
         else if j_type j \<noteq> JobChatSend then
           update_instances (\<lambda>r. in_id r = j_instance_id j)
             (\<lambda>r. r\<lparr>in_status := lost_lease_instance_status j m, in_last_error := reason,
                    in_updated_at := at\<rparr>) d
         else fail_chat_lease j reason at d)
      (\<lambda>d. Inr (lost_lease_closing j reason at d)))"

definition lost_lease :: "job_row \<Rightarrow> timestamp \<Rightarrow> job_row \<Rightarrow> bool" where
  "lost_lease j at r \<longleftrightarrow> j_id r = j_id j \<and> lease_expired at r"

definition fail_expired_job_lease ::
    "job_row \<Rightarrow> raw_json option \<Rightarrow> timestamp \<Rightarrow> db \<Rightarrow> db result" where
  "fail_expired_job_lease j metadata at d =
     guard (count_where (lost_lease j at) (db_jobs d) = 1) ErrStateChanged
     (case metadata_map metadata of
        None \<Rightarrow> Inl (ErrMessage ''decode exhausted job operation metadata'')
      | Some m \<Rightarrow>
          let m' = jset ''lease_claims'' (JInt (int (j_attempts j)))
                     (jset ''failure'' (JString (lost_lease_failure j)) m)
          in fail_lease_effects j m' at
               (d\<lparr>db_jobs := update_where (lost_lease j at) (abort_row at) (db_jobs d),
                  db_operations := update_where (\<lambda>o'. op_id o' = j_operation_id j)
                    (\<lambda>o'. o'\<lparr>op_status := OperationFailed, op_error := lost_lease_reason j,
                            op_metadata := Some (Some (JObject m')), op_updated_at := at\<rparr>)
                    (db_operations d)\<rparr>))"

section \<open>What failing a lease does to the tables\<close>

lemma append_closing_event_frame:
  assumes "append_closing_event s op t at d = Inr d'"
  shows "db_jobs d' = db_jobs d" "db_instances d' = db_instances d"
    "db_operations d' = db_operations d" "db_messages d' = db_messages d"
    "db_sessions d' = db_sessions d" "db_hosts d' = db_hosts d"
    "db_remediation d' = db_remediation d" "db_observations d' = db_observations d"
  using insert_event_frame[OF assms[unfolded append_closing_event_def]] by simp_all

lemma fail_chat_lease_frame:
  assumes "fail_chat_lease j reason at d = Inr d'"
  shows "db_jobs d' = db_jobs d" "db_instances d' = db_instances d" "db_hosts d' = db_hosts d"
    "db_operations d' = db_operations d" "db_remediation d' = db_remediation d"
  using assms
  by (auto simp: fail_chat_lease_def split: option.splits dest: append_closing_event_frame)

lemma lost_lease_closing_frame [simp]:
  "db_jobs (lost_lease_closing j reason at d) = db_jobs d"
  "db_instances (lost_lease_closing j reason at d) = db_instances d"
  "db_operations (lost_lease_closing j reason at d) = db_operations d"
  by (simp_all add: lost_lease_closing_def fail_remediation_attempt_def)

lemma fail_lease_effects_jobs:
  "fail_lease_effects j m at d = Inr d' \<Longrightarrow> db_jobs d' = db_jobs d"
  by (auto simp: fail_lease_effects_def Let_def update_instances_Inr split: if_splits
      dest: fail_chat_lease_frame)

lemma fail_expired_jobs:
  assumes "fail_expired_job_lease j metadata at d = Inr d'"
  shows "db_jobs d' = update_where (lost_lease j at) (abort_row at) (db_jobs d)"
    and "count_where (lost_lease j at) (db_jobs d) = 1"
  using assms
  by (auto simp: fail_expired_job_lease_def Let_def split: option.splits
      dest!: fail_lease_effects_jobs)

lemma fail_expired_decreases:
  assumes "fail_expired_job_lease j metadata at d = Inr d'"
  shows "count_where (\<lambda>r. leased_status (j_status r)) (db_jobs d')
       < count_where (\<lambda>r. leased_status (j_status r)) (db_jobs d)"
proof -
  have "count_where (lost_lease j at) (db_jobs d) > 0" using fail_expired_jobs(2)[OF assms] by simp
  then show ?thesis
    unfolding fail_expired_jobs(1)[OF assms]
    by (rule count_where_update_less) (auto simp: lost_lease_def lease_defs abort_row_def)
qed

lemma lost_lease_moves:
  "table_step T at jobs (update_where (lost_lease j at) (abort_row at) jobs)"
  by (rule table_step_abort) (auto simp: lost_lease_def lease_defs)

lemma fail_expired_steps:
  "fail_expired_job_lease j metadata at d = Inr d' \<Longrightarrow> table_steps T at (db_jobs d) (db_jobs d')"
  using lost_lease_moves[of T at "db_jobs d" j] by (simp add: fail_expired_jobs(1) r_into_rtranclp)

section \<open>Claiming\<close>

text \<open>\<open>d0\<close> is the database before the transaction, kept when it is abandoned.\<close>

definition take_claim ::
    "duration \<Rightarrow> timestamp \<Rightarrow> string \<Rightarrow> job_row \<Rightarrow> db \<Rightarrow> db \<Rightarrow> job option \<times> db" where
  "take_claim lease now token j d0 d =
     (let hit = (\<lambda>r. j_id r = j_id j \<and> claimable now r)
      in if count_where hit (db_jobs d) \<noteq> 1 then (None, d0)
         else (Some (job.truncate (claim_row now (now + lease) token j)),
               d\<lparr>db_jobs := update_where hit (claim_row now (now + lease) token) (db_jobs d),
                 db_operations := update_where (\<lambda>o'. op_id o' = j_operation_id j)
                   (\<lambda>o'. o'\<lparr>op_status := OperationRunning, op_updated_at := now\<rparr>)
                   (db_operations d)\<rparr>))"

function claim_loop ::
    "string \<Rightarrow> duration \<Rightarrow> timestamp \<Rightarrow> string \<Rightarrow> db \<Rightarrow> db \<Rightarrow> (job option \<times> db) result" where
  "claim_loop host_id lease now token d0 d =
     (case next_claim now host_id d of
        None \<Rightarrow> Inr (None, d)
      | Some j \<Rightarrow>
          if lease_expired now j \<and> retries_exhausted j then
            (case fail_expired_job_lease j (operation_metadata d (j_operation_id j)) now d of
               Inl e \<Rightarrow> Inl e
             | Inr d' \<Rightarrow> claim_loop host_id lease now token d0 d')
          else Inr (take_claim lease now token j d0 d))"
  by pat_completeness auto
termination
  by (relation "measure (\<lambda>(_, _, _, _, _, d). count_where (\<lambda>r. leased_status (j_status r)) (db_jobs d))")
    (auto dest: fail_expired_decreases)

declare claim_loop.simps [simp del]

definition claim_job ::
    "string \<Rightarrow> duration \<Rightarrow> timestamp \<Rightarrow> string \<Rightarrow> db \<Rightarrow> (job option \<times> db) result" where
  "claim_job host_id lease now token d = claim_loop host_id lease now token d d"

section \<open>Reconciliation\<close>

fun fail_all :: "(job_row \<times> raw_json option) list \<Rightarrow> timestamp \<Rightarrow> db \<Rightarrow> db result" where
  "fail_all [] at d = Inr d"
| "fail_all ((j, m) # js) at d = and_then (fail_expired_job_lease j m at d) (fail_all js at)"

definition unrecoverable :: "timestamp \<Rightarrow> job_row \<Rightarrow> bool" where
  "unrecoverable now j \<longleftrightarrow> lease_expired now j
     \<and> (j_attempts j \<ge> job_lease_max_claims \<or> j_type j = JobChatSend \<and> j_attempts j \<ge> 1)"

definition lease_time :: "job_row \<Rightarrow> timestamp" where
  "lease_time j = (case j_lease_expires_at j of None \<Rightarrow> zero_time | Some t \<Rightarrow> t)"

definition reconcile_expired_jobs :: "timestamp \<Rightarrow> db \<Rightarrow> (nat \<times> db) result" where
  "reconcile_expired_jobs now d =
     (let expired = map (\<lambda>j. (j, operation_metadata d (j_operation_id j)))
            (sort_key (\<lambda>j. Order_Key 0 (lease_time j) (j_id j))
              (filter (\<lambda>j. unrecoverable now j \<and> operation_exists d (j_operation_id j)) (db_jobs d)))
      in and_then (fail_all expired now d) (\<lambda>d'. Inr (length expired, d')))"

section \<open>Queue health\<close>

record host_queue_health =
  qh_host_id :: string
  qh_host_name :: string
  qh_pending :: nat
  qh_active :: nat
  qh_expired_leases :: nat
  qh_oldest_pending_at :: "timestamp option"
  qh_admission_open :: bool

record queue_health =
  qt_pending :: nat
  qt_active :: nat
  qt_expired_leases :: nat
  qt_admission_rejected :: bool
  qt_hosts :: "host_queue_health list"

definition oldest_pending :: "string \<Rightarrow> job_row list \<Rightarrow> timestamp option" where
  "oldest_pending h jobs =
     (case map j_created_at (filter (\<lambda>j. j_host_id j = h \<and> j_status j = JobPending) jobs) of
        [] \<Rightarrow> None | t # ts \<Rightarrow> Some (fold min ts t))"

definition host_queue :: "timestamp \<Rightarrow> db \<Rightarrow> host_row \<Rightarrow> host_queue_health" where
  "host_queue now d h =
     \<lparr>qh_host_id = h_id h, qh_host_name = h_name h,
      qh_pending = count_where (\<lambda>j. j_host_id j = h_id h \<and> j_status j = JobPending) (db_jobs d),
      qh_active = host_active (h_id h) (db_jobs d),
      qh_expired_leases = count_where (\<lambda>j. j_host_id j = h_id h \<and> lease_expired now j) (db_jobs d),
      qh_oldest_pending_at = oldest_pending (h_id h) (db_jobs d),
      qh_admission_open = (host_active (h_id h) (db_jobs d) < job_queue_max_per_host)\<rparr>"

definition get_queue_health :: "timestamp \<Rightarrow> db \<Rightarrow> queue_health" where
  "get_queue_health now d =
     (let hosts = map (host_queue now d) (sort_key h_name (db_hosts d))
      in \<lparr>qt_pending = sum_list (map qh_pending hosts), qt_active = sum_list (map qh_active hosts),
          qt_expired_leases = sum_list (map qh_expired_leases hosts),
          qt_admission_rejected = list_ex (\<lambda>h. \<not> qh_admission_open h) hosts,
          qt_hosts = hosts\<rparr>)"

section \<open>What a claim returns\<close>

definition fails_lease :: "timestamp \<Rightarrow> db \<Rightarrow> db \<Rightarrow> bool" where
  "fails_lease now d d' \<longleftrightarrow>
     (\<exists>j. j \<in> set (db_jobs d) \<and> lease_expired now j \<and> retries_exhausted j
        \<and> fail_expired_job_lease j (operation_metadata d (j_operation_id j)) now d = Inr d')"

lemma next_claim_Some:
  assumes "next_claim now h d = Some j"
  shows "j \<in> set (db_jobs d)" "claim_candidate now h d j"
    and "\<And>c. c \<in> set (db_jobs d) \<Longrightarrow> claim_candidate now h d c \<Longrightarrow> job_order j \<le> job_order c"
  using first_by_SomeD[OF assms[unfolded next_claim_def]] by auto

lemma next_claim_None:
  "next_claim now h d = None \<longleftrightarrow> (\<forall>c \<in> set (db_jobs d). \<not> claim_candidate now h d c)"
  by (auto simp: next_claim_def filter_empty_conv)

text \<open>
  The transaction first fails the exhausted leases that come up, and then either finds no
  candidate or takes the first one.
\<close>

lemma claim_loop_cases:
  assumes "claim_loop h lease now token d0 d = Inr (r, d')"
  shows "\<exists>d1. (fails_lease now)\<^sup>*\<^sup>* d d1 \<and>
     (next_claim now h d1 = None \<and> r = None \<and> d' = d1 \<or>
      (\<exists>j. next_claim now h d1 = Some j \<and> \<not> (lease_expired now j \<and> retries_exhausted j)
         \<and> take_claim lease now token j d0 d1 = (r, d')))"
  using assms
proof (induction h lease now token d0 d rule: claim_loop.induct)
  case (1 h lease now token d0 d)
  show ?case
  proof (cases "next_claim now h d")
    case None
    then show ?thesis using "1.prems" by (auto simp: claim_loop.simps[of h lease now token d0 d])
  next
    case (Some j)
    show ?thesis
    proof (cases "lease_expired now j \<and> retries_exhausted j")
      case False
      then show ?thesis
        using "1.prems" Some by (auto simp: claim_loop.simps[of h lease now token d0 d])
    next
      case True
      then obtain d2 where f: "fail_expired_job_lease j (operation_metadata d (j_operation_id j)) now d = Inr d2"
        and rest: "claim_loop h lease now token d0 d2 = Inr (r, d')"
        using "1.prems" Some by (auto simp: claim_loop.simps[of h lease now token d0 d] split: sum.splits)
      have "fails_lease now d d2"
        using f True next_claim_Some(1)[OF Some] by (auto simp: fails_lease_def)
      then have "(fails_lease now)\<^sup>*\<^sup>* d d1" if "(fails_lease now)\<^sup>*\<^sup>* d2 d1" for d1
        using that by (rule converse_rtranclp_into_rtranclp)
      then show ?thesis
        using "1.IH"[OF Some True f rest] by blast
    qed
  qed
qed

lemma fails_leases_steps: "(fails_lease now)\<^sup>*\<^sup>* d d' \<Longrightarrow> table_steps T now (db_jobs d) (db_jobs d')"
proof (induction rule: rtranclp_induct)
  case (step d1 d2)
  then have "table_steps T now (db_jobs d1) (db_jobs d2)"
    by (auto simp: fails_lease_def intro: fail_expired_steps)
  then show ?case using step.IH by simp
qed simp

lemma take_claim_steps:
  assumes "next_claim now h d = Some j" and "\<not> (lease_expired now j \<and> retries_exhausted j)"
    and "take_claim lease now token j d0 d = (Some q, d')" and "token \<in> T"
  shows "table_step T now (db_jobs d) (db_jobs d')"
proof -
  let ?hit = "\<lambda>r. j_id r = j_id j \<and> claimable now r"
  have one: "count_where ?hit (db_jobs d) = 1"
    and d': "db_jobs d' = update_where ?hit (claim_row now (now + lease) token) (db_jobs d)"
    using assms(3) by (auto simp: take_claim_def Let_def split: if_splits)
  have j: "j \<in> set (db_jobs d)" "claim_candidate now h d j"
    using next_claim_Some(1,2)[OF assms(1)] by auto
  then have "?hit j" by (simp add: claim_candidate_def)
  then have eq: "r = j" if "r \<in> set (db_jobs d)" "?hit r" for r
    using count_one_unique[OF one that(1) j(1) that(2)] by simp
  show ?thesis
    unfolding d'
  proof (rule Move)
    fix r assume "r \<in> set (db_jobs d)" "?hit r"
    then show "job_step T now r (claim_row now (now + lease) token r)"
      using eq[of r] assms(2,4) by (intro Claim) auto
  next
    fix r assume "r \<in> set (db_jobs d)" "?hit r" "\<not> chat_job r"
    then show "count_where ?hit (db_jobs d) = 1 \<and> \<not> other_lease_live now r (db_jobs d)"
      using eq[of r] one j(2) by (simp add: claim_candidate_def chat_job_def)
  qed
qed

lemma claim_job_steps:
  assumes "claim_job h lease now token d = Inr (r, d')" and "token \<in> T"
  shows "table_steps T now (db_jobs d) (db_jobs d')"
proof -
  obtain d1 where d1: "(fails_lease now)\<^sup>*\<^sup>* d d1"
    and c: "next_claim now h d1 = None \<and> r = None \<and> d' = d1 \<or>
      (\<exists>j. next_claim now h d1 = Some j \<and> \<not> (lease_expired now j \<and> retries_exhausted j)
         \<and> take_claim lease now token j d d1 = (r, d'))"
    using claim_loop_cases[OF assms(1)[unfolded claim_job_def]] by blast
  note steps = fails_leases_steps[OF d1, of T]
  show ?thesis
  proof (cases r)
    case None
    then show ?thesis
      using c steps by (auto simp: take_claim_def Let_def split: if_splits)
  next
    case (Some q)
    then obtain j where "next_claim now h d1 = Some j" "\<not> (lease_expired now j \<and> retries_exhausted j)"
      "take_claim lease now token j d d1 = (Some q, d')" using c by blast
    from take_claim_steps[OF this assms(2)] show ?thesis
      using steps by (meson rtranclp.rtrancl_into_rtrancl)
  qed
qed

text \<open>
  A claimed job: it was a candidate when it was taken, and the row is leased to the caller.
\<close>

lemma claim_job_Some:
  assumes "claim_job h lease now token d = Inr (Some q, d')"
  obtains d1 j where "(fails_lease now)\<^sup>*\<^sup>* d d1" "j \<in> set (db_jobs d1)"
    "claim_candidate now h d1 j" "\<not> (lease_expired now j \<and> retries_exhausted j)"
    "\<And>c. c \<in> set (db_jobs d1) \<Longrightarrow> claim_candidate now h d1 c \<Longrightarrow> job_order j \<le> job_order c"
    "q = job.truncate (claim_row now (now + lease) token j)"
    "db_jobs d' = update_where (\<lambda>r. j_id r = j_id j \<and> claimable now r)
       (claim_row now (now + lease) token) (db_jobs d1)"
proof -
  obtain d1 j where d1: "(fails_lease now)\<^sup>*\<^sup>* d d1" "next_claim now h d1 = Some j"
    "\<not> (lease_expired now j \<and> retries_exhausted j)" "take_claim lease now token j d d1 = (Some q, d')"
    using claim_loop_cases[OF assms[unfolded claim_job_def]] by blast
  have "q = job.truncate (claim_row now (now + lease) token j)"
    "db_jobs d' = update_where (\<lambda>r. j_id r = j_id j \<and> claimable now r)
       (claim_row now (now + lease) token) (db_jobs d1)"
    using d1(4) by (auto simp: take_claim_def Let_def split: if_splits)
  then show thesis using d1 next_claim_Some[OF d1(2)] that by blast
qed

lemma fail_all_steps: "fail_all js at d = Inr d' \<Longrightarrow> table_steps T at (db_jobs d) (db_jobs d')"
proof (induction js at d arbitrary: d' rule: fail_all.induct)
  case (2 j m js at d)
  then obtain d1 where "fail_expired_job_lease j m at d = Inr d1" "fail_all js at d1 = Inr d'" by auto
  then show ?case
    using "2.IH" fail_expired_steps[of j m at d d1 T] by (meson rtranclp_trans)
qed simp

lemma reconcile_expired_steps:
  "reconcile_expired_jobs now d = Inr (n, d') \<Longrightarrow> table_steps T now (db_jobs d) (db_jobs d')"
  by (auto simp: reconcile_expired_jobs_def Let_def dest: fail_all_steps)

end
