(* ===== verification/Store_Agents.thy ===== *)
theory Store_Agents
  imports Store_Leases
begin

text \<open>
  The calls a Host Agent makes while it holds a job, in \<open>internal/store/store.go\<close>:
  \<open>AcknowledgeJob\<close>, \<open>RenewJob\<close>, \<open>UpdateJobProgress\<close>, \<open>JobMetadata\<close>, \<open>CompletionJobMetadata\<close>,
  \<open>ActiveJobPayload\<close>; and the provider sign-in of an instance, \<open>CancelCodexAuth\<close> and
  \<open>getCodexAuthSession\<close>. The locale \<open>lease_fenced\<close> is the contract all of the agent's calls
  share: they are accepted only from the holder of the job's current token.
\<close>

section \<open>The contract\<close>

definition holds_token :: "string \<Rightarrow> string \<Rightarrow> string \<Rightarrow> job_row \<Rightarrow> bool" where
  "holds_token h i t j \<longleftrightarrow> j_id j = i \<and> j_host_id j = h \<and> j_lease_token j = t"

locale lease_fenced =
  fixes run :: "string \<Rightarrow> string \<Rightarrow> string \<Rightarrow> timestamp \<Rightarrow> db \<Rightarrow> 'a result"
  assumes holder: "run h i t now d = Inr x \<Longrightarrow> \<exists>j \<in> set (db_jobs d). holds_token h i t j"
begin

lemma stale_token:
  assumes "\<And>j. j \<in> set (db_jobs d) \<Longrightarrow> j_id j = i \<Longrightarrow> j_lease_token j \<noteq> t"
  shows "\<exists>e. run h i t now d = Inl e"
  using assms holder[of h i t now d] by (cases "run h i t now d") (auto simp: holds_token_def)

lemma other_host:
  assumes "\<And>j. j \<in> set (db_jobs d) \<Longrightarrow> j_id j = i \<Longrightarrow> j_host_id j \<noteq> h"
  shows "\<exists>e. run h i t now d = Inl e"
  using assms holder[of h i t now d] by (cases "run h i t now d") (auto simp: holds_token_def)

end

text \<open>
  Calls that also need the lease to be running out later than now: the holder of an expired
  lease is refused even before the job is claimed again.
\<close>

locale live_lease_fenced = lease_fenced run
  for run :: "string \<Rightarrow> string \<Rightarrow> string \<Rightarrow> timestamp \<Rightarrow> db \<Rightarrow> 'a result" +
  assumes live: "run h i t now d = Inr x \<Longrightarrow>
    \<exists>j \<in> set (db_jobs d). holds_token h i t j \<and> leased_status (j_status j)
      \<and> null_gt (j_lease_expires_at j) now"
begin

lemma expired_lease:
  assumes "\<And>j. j \<in> set (db_jobs d) \<Longrightarrow> j_id j = i \<Longrightarrow> \<not> null_gt (j_lease_expires_at j) now"
  shows "\<exists>e. run h i t now d = Inl e"
  using assms live[of h i t now d] by (cases "run h i t now d") (auto simp: holds_token_def)

lemma finished_job:
  assumes "\<And>j. j \<in> set (db_jobs d) \<Longrightarrow> j_id j = i \<Longrightarrow> \<not> leased_status (j_status j)"
  shows "\<exists>e. run h i t now d = Inl e"
  using assms live[of h i t now d] by (cases "run h i t now d") (auto simp: holds_token_def)

end

section \<open>Keeping the lease\<close>

text \<open>The \<open>WHERE\<close> clause of the agent's statements, for a job in status \<open>s\<close>.\<close>

definition held_in :: "job_status \<Rightarrow> string \<Rightarrow> string \<Rightarrow> string \<Rightarrow> timestamp \<Rightarrow> job_row \<Rightarrow> bool" where
  "held_in s h i t now j \<longleftrightarrow> j_id j = i \<and> j_host_id j = h \<and> j_status j = s
     \<and> j_lease_token j = t \<and> null_gt (j_lease_expires_at j) now"

definition acknowledge_job ::
    "duration \<Rightarrow> string \<Rightarrow> string \<Rightarrow> string \<Rightarrow> timestamp \<Rightarrow> db \<Rightarrow> db result" where
  "acknowledge_job lease host_id job_id token now d =
     guard (token \<noteq> '''') ErrLeaseLost
     (let hit = held_in JobLeased host_id job_id token now
      in guard (count_where hit (db_jobs d) = 1) ErrLeaseLost
           (Inr (d\<lparr>db_jobs := update_where hit (acknowledge_row now (now + lease)) (db_jobs d)\<rparr>)))"

definition renew_job ::
    "duration \<Rightarrow> string \<Rightarrow> string \<Rightarrow> string \<Rightarrow> timestamp \<Rightarrow> db \<Rightarrow> db result" where
  "renew_job lease host_id job_id token now d =
     guard (token \<noteq> '''') ErrLeaseLost
     (let hit = held_in JobRunning host_id job_id token now;
          d' = d\<lparr>db_jobs := update_where hit (renew_row now (now + lease)) (db_jobs d)\<rparr>
      in if count_where hit (db_jobs d) \<noteq> 1
         then guard (list_ex (\<lambda>j. holds_token host_id job_id token j \<and> terminal_status (j_status j))
                (db_jobs d')) ErrLeaseLost (Inr d')
         else Inr d')"

definition reports_progress :: "job_type \<Rightarrow> bool" where
  "reports_progress t \<longleftrightarrow> t \<in> {JobAuthCodex, JobHermesUpdate, JobConfigureMcp}"

definition update_job_progress ::
    "job_progress \<Rightarrow> string \<Rightarrow> string \<Rightarrow> string \<Rightarrow> timestamp \<Rightarrow> db \<Rightarrow> db result" where
  "update_job_progress p host_id job_id token now d =
     guard (token \<noteq> '''') ErrLeaseLost
     (let hit = (\<lambda>j. held_in JobRunning host_id job_id token now j \<and> reports_progress (j_type j))
      in guard (count_where hit (db_jobs d) = 1) ErrLeaseLost
           (Inr (d\<lparr>db_jobs := update_where hit (progress_row now p) (db_jobs d)\<rparr>)))"

section \<open>Reading a held job\<close>

definition job_metadata ::
    "string \<Rightarrow> string \<Rightarrow> string \<Rightarrow> timestamp \<Rightarrow> db \<Rightarrow> (string \<times> job_type) result" where
  "job_metadata host_id job_id token now d =
     (case find (held_in JobRunning host_id job_id token now) (db_jobs d) of
        None \<Rightarrow> Inl ErrLeaseLost
      | Some j \<Rightarrow> Inr (j_operation_id j, j_type j))"

text \<open>A job that may be completed, or whose completion may be repeated.\<close>

definition completable :: "string \<Rightarrow> string \<Rightarrow> string \<Rightarrow> timestamp \<Rightarrow> job_row \<Rightarrow> bool" where
  "completable h i t now j \<longleftrightarrow> holds_token h i t j
     \<and> (j_status j = JobRunning \<and> null_gt (j_lease_expires_at j) now \<or> terminal_status (j_status j))"

definition completion_job_metadata ::
    "string \<Rightarrow> string \<Rightarrow> string \<Rightarrow> timestamp \<Rightarrow> db \<Rightarrow> (string \<times> job_type \<times> job_status) result" where
  "completion_job_metadata host_id job_id token now d =
     guard (token \<noteq> '''') ErrLeaseLost
     (case find (completable host_id job_id token now) (db_jobs d) of
        None \<Rightarrow> Inl ErrLeaseLost
      | Some j \<Rightarrow> Inr (j_operation_id j, j_type j, j_status j))"

definition active_job_payload ::
    "job_type \<Rightarrow> string \<Rightarrow> string \<Rightarrow> string \<Rightarrow> timestamp \<Rightarrow> db \<Rightarrow> raw_json result" where
  "active_job_payload expected host_id job_id token now d =
     guard (token \<noteq> '''') ErrLeaseLost
     (case find (\<lambda>j. held_in JobRunning host_id job_id token now j \<and> j_type j = expected)
         (db_jobs d) of
        None \<Rightarrow> Inl ErrLeaseLost
      | Some j \<Rightarrow> Inr (j_payload j))"

section \<open>Provider sign-in\<close>

definition auth_job_of :: "string \<Rightarrow> string \<Rightarrow> db \<Rightarrow> job_row \<Rightarrow> bool" where
  "auth_job_of i op d j \<longleftrightarrow> j_operation_id j = op \<and> j_type j = JobAuthCodex
     \<and> list_ex (\<lambda>o'. op_id o' = op \<and> op_instance_id o' = i \<and> op_type o' = OpCodexAuth) (db_operations d)"

definition cancel_codex_auth ::
    "string \<Rightarrow> string \<Rightarrow> string \<Rightarrow> timestamp \<Rightarrow> db \<Rightarrow> db result" where
  "cancel_codex_auth i op reason now d =
     guard (list_ex (auth_job_of i op d) (db_jobs d)) ErrNotFound
     (let hit = (\<lambda>j. j_operation_id j = op \<and> j_instance_id j = i \<and> j_type j = JobAuthCodex
            \<and> active_job (j_status j))
      in guard (count_where hit (db_jobs d) = 1) ErrStateChanged
         (Inr (d\<lparr>db_jobs := update_where hit (abort_row now) (db_jobs d),
                 db_operations := update_where
                   (\<lambda>o'. op_id o' = op \<and> op_instance_id o' = i \<and> op_type o' = OpCodexAuth)
                   (\<lambda>o'. o'\<lparr>op_status := OperationFailed, op_error := reason, op_updated_at := now\<rparr>)
                   (db_operations d)\<rparr>)))"

record codex_auth_session =
  ca_operation_id :: string
  ca_session_instance_id :: string
  ca_session_provider :: string
  ca_session_status :: operation_status
  ca_stage :: string
  ca_verification_uri :: string
  ca_user_code :: string
  ca_expires_at :: "timestamp option"
  ca_error :: string
  ca_created_at :: timestamp
  ca_updated_at :: timestamp

definition codex_session :: "operation \<Rightarrow> job_row \<Rightarrow> codex_auth_session result" where
  "codex_session o' j =
     (case decode_codex_auth (j_payload j) of
        None \<Rightarrow> Inl (ErrMessage ''decode provider authentication payload'')
      | Some p \<Rightarrow>
          let provider = trim_space (cx_provider p);
              finished = op_status o' = OperationSucceeded \<or> op_status o' = OperationFailed;
              shown = (\<lambda>f. if finished then '''' else case jr_progress j of None \<Rightarrow> '''' | Some q \<Rightarrow> f q)
          in Inr \<lparr>ca_operation_id = op_id o', ca_session_instance_id = op_instance_id o',
               ca_session_provider = (if provider = '''' then ''openai-codex'' else provider),
               ca_session_status = op_status o',
               ca_stage = (if op_status o' = OperationSucceeded then ''COMPLETED'' else shown jp_stage),
               ca_verification_uri = shown jp_verification_uri, ca_user_code = shown jp_user_code,
               ca_expires_at = (if finished then None else case jr_progress j of
                   None \<Rightarrow> None
                 | Some q \<Rightarrow> if jp_expires_at q = zero_time then None else Some (jp_expires_at q)),
               ca_error = op_error o', ca_created_at = op_created_at o',
               ca_updated_at = op_updated_at o'\<rparr>)"

text \<open>\<open>ORDER BY o.created_at DESC LIMIT 1\<close> over the operations joined with their jobs.\<close>

definition auth_rows :: "string \<Rightarrow> db \<Rightarrow> (operation \<times> job_row) list" where
  "auth_rows i d =
     concat (map (\<lambda>o'. map (Pair o')
         (filter (\<lambda>j. j_operation_id j = op_id o' \<and> j_type j = JobAuthCodex) (db_jobs d)))
       (filter (\<lambda>o'. op_instance_id o' = i \<and> op_type o' = OpCodexAuth) (db_operations d)))"

definition latest_auth_session :: "(operation \<times> job_row) list \<Rightarrow> codex_auth_session result" where
  "latest_auth_session rows =
     (case first_by (\<lambda>(o', j). - op_created_at o') rows of
        None \<Rightarrow> Inl ErrNotFound | Some (o', j) \<Rightarrow> codex_session o' j)"

definition get_codex_auth_session :: "string \<Rightarrow> string \<Rightarrow> db \<Rightarrow> codex_auth_session result" where
  "get_codex_auth_session i op d =
     latest_auth_session (filter (\<lambda>(o', j). op_id o' = op) (auth_rows i d))"

text \<open>\<open>COALESCE(NULLIF(json_extract(j.payload, '$.provider'), ''), 'openai-codex')\<close>.\<close>

definition payload_provider :: "raw_json \<Rightarrow> string" where
  "payload_provider payload =
     (case payload of
        Some (JObject kvs) \<Rightarrow>
          (case jfield ''provider'' kvs of
             JString s \<Rightarrow> if s = '''' then ''openai-codex'' else s
           | _ \<Rightarrow> ''openai-codex'')
      | _ \<Rightarrow> ''openai-codex'')"

definition get_active_codex_auth_session :: "string \<Rightarrow> string \<Rightarrow> db \<Rightarrow> codex_auth_session result" where
  "get_active_codex_auth_session i provider d =
     latest_auth_session (filter (\<lambda>(o', j). active_job (j_status j) \<and> payload_provider (j_payload j)
         = (if provider = '''' then ''openai-codex'' else provider)) (auth_rows i d))"

section \<open>Every call honours the contract\<close>

lemma held_in_token: "held_in s h i t now j \<Longrightarrow> holds_token h i t j"
  by (simp add: held_in_def holds_token_def)

lemma find_SomeD: "find P xs = Some x \<Longrightarrow> x \<in> set xs \<and> P x"
  by (induction xs) (auto split: if_splits)

lemma count_one_exists: "count_where P rows = 1 \<Longrightarrow> \<exists>r \<in> set rows. P r"
  using count_where_zero[of P rows] by auto

lemma acknowledge_job_Inr:
  assumes "acknowledge_job lease h i t now d = Inr d'"
  shows "\<exists>j \<in> set (db_jobs d). held_in JobLeased h i t now j"
    and "db_jobs d' = update_where (held_in JobLeased h i t now) (acknowledge_row now (now + lease)) (db_jobs d)"
    and "d' = d\<lparr>db_jobs := db_jobs d'\<rparr>"
  using assms by (auto simp: acknowledge_job_def Let_def intro: count_one_exists)

lemma renew_job_Inr:
  assumes "renew_job lease h i t now d = Inr d'"
  shows "(\<exists>j \<in> set (db_jobs d). held_in JobRunning h i t now j)
      \<or> (\<exists>j \<in> set (db_jobs d'). holds_token h i t j \<and> terminal_status (j_status j))"
    and "db_jobs d' = update_where (held_in JobRunning h i t now) (renew_row now (now + lease)) (db_jobs d)"
    and "d' = d\<lparr>db_jobs := db_jobs d'\<rparr>"
  using assms
  by (auto simp: renew_job_def Let_def list_ex_iff split: if_splits intro: count_one_exists)

lemma update_job_progress_Inr:
  assumes "update_job_progress p h i t now d = Inr d'"
  shows "\<exists>j \<in> set (db_jobs d). held_in JobRunning h i t now j \<and> reports_progress (j_type j)"
    and "db_jobs d' = update_where (\<lambda>j. held_in JobRunning h i t now j \<and> reports_progress (j_type j))
        (progress_row now p) (db_jobs d)"
    and "d' = d\<lparr>db_jobs := db_jobs d'\<rparr>"
  using assms by (auto simp: update_job_progress_def Let_def intro: count_one_exists)

lemma update_where_holder:
  assumes "\<exists>j \<in> set (update_where P f rows). holds_token h i t j"
    and "\<And>j. holds_token h i t (f j) = holds_token h i t j"
  shows "\<exists>j \<in> set rows. holds_token h i t j"
  using assms by (auto elim!: in_update_whereE)

interpretation acknowledge: live_lease_fenced "acknowledge_job lease"
proof
  fix h i t now d d'
  assume a: "acknowledge_job lease h i t now d = Inr d'"
  show "\<exists>j \<in> set (db_jobs d). holds_token h i t j \<and> leased_status (j_status j)
      \<and> null_gt (j_lease_expires_at j) now"
    using acknowledge_job_Inr(1)[OF a] by (auto simp: held_in_def holds_token_def lease_defs)
  then show "\<exists>j \<in> set (db_jobs d). holds_token h i t j" by blast
qed

interpretation renewal: lease_fenced "renew_job lease"
proof
  fix h i t now d d'
  assume a: "renew_job lease h i t now d = Inr d'"
  show "\<exists>j \<in> set (db_jobs d). holds_token h i t j"
    using renew_job_Inr(1)[OF a]
  proof
    assume "\<exists>j \<in> set (db_jobs d'). holds_token h i t j \<and> terminal_status (j_status j)"
    then have "\<exists>j \<in> set (db_jobs d'). holds_token h i t j" by blast
    then show ?thesis
      unfolding renew_job_Inr(2)[OF a]
      by (rule update_where_holder) (simp add: renew_row_def holds_token_def)
  qed (auto intro: held_in_token)
qed

interpretation progress: live_lease_fenced "update_job_progress p"
proof
  fix h i t now d d'
  assume a: "update_job_progress p h i t now d = Inr d'"
  show "\<exists>j \<in> set (db_jobs d). holds_token h i t j \<and> leased_status (j_status j)
      \<and> null_gt (j_lease_expires_at j) now"
    using update_job_progress_Inr(1)[OF a] by (auto simp: held_in_def holds_token_def lease_defs)
  then show "\<exists>j \<in> set (db_jobs d). holds_token h i t j" by blast
qed

interpretation metadata: live_lease_fenced job_metadata
proof
  fix h i t now d x
  assume a: "job_metadata h i t now d = Inr x"
  show "\<exists>j \<in> set (db_jobs d). holds_token h i t j \<and> leased_status (j_status j)
      \<and> null_gt (j_lease_expires_at j) now"
    using a by (auto simp: job_metadata_def held_in_def holds_token_def lease_defs
        split: option.splits dest!: find_SomeD)
  then show "\<exists>j \<in> set (db_jobs d). holds_token h i t j" by blast
qed

interpretation payload: live_lease_fenced "active_job_payload typ"
proof
  fix h i t now d x
  assume a: "active_job_payload typ h i t now d = Inr x"
  show "\<exists>j \<in> set (db_jobs d). holds_token h i t j \<and> leased_status (j_status j)
      \<and> null_gt (j_lease_expires_at j) now"
    using a by (auto simp: active_job_payload_def held_in_def holds_token_def lease_defs
        split: option.splits dest!: find_SomeD)
  then show "\<exists>j \<in> set (db_jobs d). holds_token h i t j" by blast
qed

interpretation completion_metadata: lease_fenced completion_job_metadata
proof
  fix h i t now d x
  assume "completion_job_metadata h i t now d = Inr x"
  then show "\<exists>j \<in> set (db_jobs d). holds_token h i t j"
    by (auto simp: completion_job_metadata_def completable_def split: option.splits
        dest!: find_SomeD)
qed

section \<open>Refinement of the life cycle\<close>

lemma acknowledge_step:
  assumes "acknowledge_job lease h i t now d = Inr d'"
  shows "table_step T now (db_jobs d) (db_jobs d')"
  unfolding acknowledge_job_Inr(2)[OF assms]
proof (rule Move)
  show "job_step T now r (acknowledge_row now (now + lease) r)" if "held_in JobLeased h i t now r" for r
    using that by (intro Acknowledge) (auto simp: held_in_def)
qed (auto simp: held_in_def lease_defs null_gt_ge)

lemma renew_step:
  assumes "renew_job lease h i t now d = Inr d'"
  shows "table_step T now (db_jobs d) (db_jobs d')"
  unfolding renew_job_Inr(2)[OF assms]
proof (rule Move)
  show "job_step T now r (renew_row now (now + lease) r)" if "held_in JobRunning h i t now r" for r
    using that by (intro Renew) (auto simp: held_in_def)
qed (auto simp: held_in_def lease_defs null_gt_ge)

lemma progress_step:
  assumes "update_job_progress p h i t now d = Inr d'"
  shows "table_step T now (db_jobs d) (db_jobs d')"
  unfolding update_job_progress_Inr(2)[OF assms]
proof (rule Move)
  show "job_step T now r (progress_row now p r)"
    if "held_in JobRunning h i t now r \<and> reports_progress (j_type r)" for r
    using that by (intro Report) (auto simp: held_in_def)
qed (auto simp: held_in_def lease_defs null_gt_ge)

lemma cancel_codex_auth_step:
  assumes "cancel_codex_auth i op reason now d = Inr d'"
  shows "table_step T now (db_jobs d) (db_jobs d')"
proof -
  let ?hit = "\<lambda>j. j_operation_id j = op \<and> j_instance_id j = i \<and> j_type j = JobAuthCodex
            \<and> active_job (j_status j)"
  have "db_jobs d' = update_where ?hit (abort_row now) (db_jobs d)"
    using assms by (auto simp: cancel_codex_auth_def Let_def)
  moreover have "table_step T now (db_jobs d) (update_where ?hit (abort_row now) (db_jobs d))"
    by (rule table_step_abort) simp
  ultimately show ?thesis by simp
qed

end
