(* ===== verification/Store_Completion.thy ===== *)
theory Store_Completion
  imports Store_Agents
begin

text \<open>
  \<open>CompleteJobWithHash\<close>, \<open>statusAfterSuccess\<close>, \<open>finishChatMessage\<close> (\<open>chat.go\<close>) and
  \<open>GetCredentialReveal\<close> of \<open>internal/store\<close>. The checks of a result are grouped as the code
  groups them: the common guards, one definition per arm of the \<open>switch\<close> on the job type, the
  guards after it; then \<open>apply_completion\<close> is the sequence of statements that write.
\<close>

section \<open>The result of a Host Agent\<close>

record job_result =
  jx_success :: bool
  jx_message :: string
  jx_error :: string
  jx_project_name :: string
  jx_data_volume :: string
  jx_managed_path :: string
  jx_image_id :: string
  jx_credentials :: "(string \<times> string \<times> string) option"
  jx_instance_status :: instance_status
  jx_recovery_point_id :: string
  jx_recovery_sha256 :: string
  jx_recovery_size :: int
  jx_chat_message :: string
  jx_chat_ciphertext :: string
  jx_chat_artifacts :: "string list"
  jx_profiles :: "profile_inventory option"
  jx_capabilities :: "capability_inventory option"
  jx_skill_content :: "skill_content_snapshot option"

record encrypted_reveal =
  er_ciphertext :: string
  er_expires_at :: timestamp

text \<open>The local variables that the checks fill for the statements.\<close>

record completion =
  pl_instance_status :: instance_status
  pl_project_name :: string
  pl_data_volume :: string
  pl_managed_path :: string
  pl_image_id :: string
  pl_restore :: "recovery_restore_payload option"
  pl_upgrade :: "hermes_upgrade_payload option"
  pl_update :: "hermes_update_payload option"
  pl_profiles :: "profile_inventory option"
  pl_capabilities :: "capability_inventory option"
  pl_skill_content :: "skill_content_snapshot option"

fun status_after_success :: "job_type \<Rightarrow> instance_status" where
  "status_after_success JobStop = InstanceStopped"
| "status_after_success JobRecoveryCreate = InstanceStopped"
| "status_after_success JobRecoveryRestore = InstanceStopped"
| "status_after_success JobImageReconcile = InstanceStopped"
| "status_after_success JobHermesUpgrade = InstanceStopped"
| "status_after_success JobImageRepair = InstanceReconciling"
| "status_after_success _ = InstanceRunning"

definition initial_instance_status :: "job_type \<Rightarrow> job_result \<Rightarrow> instance_status" where
  "initial_instance_status t r =
     (if t = JobChatSend then NoStatus
      else if t = JobDelete \<and> jx_success r then InstanceDeleting
      else if t = JobRuntimeRepair \<and> \<not> jx_success r then InstanceRunning
      else if t = JobRecoveryCreate then InstanceStopped
      else if jx_success r then status_after_success t
      else InstanceFailed)"

definition initial_completion :: "job_type \<Rightarrow> job_result \<Rightarrow> completion" where
  "initial_completion t r =
     \<lparr>pl_instance_status = initial_instance_status t r, pl_project_name = '''', pl_data_volume = '''',
      pl_managed_path = '''', pl_image_id = '''', pl_restore = None, pl_upgrade = None,
      pl_update = None, pl_profiles = None, pl_capabilities = None, pl_skill_content = None\<rparr>"

definition job_result_status :: "job_result \<Rightarrow> job_status" where
  "job_result_status r = (if jx_success r then JobSucceeded else JobFailed)"

definition operation_result_status :: "job_type \<Rightarrow> job_result \<Rightarrow> operation_status" where
  "operation_result_status t r =
     (if t = JobDelete \<and> jx_success r then OperationRunning
      else if jx_success r then OperationSucceeded else OperationFailed)"

definition result_error_text :: "job_result \<Rightarrow> string" where
  "result_error_text r = (if jx_success r then '''' else jx_error r)"

section \<open>Checks\<close>

definition require :: "bool \<Rightarrow> string \<Rightarrow> 'a result \<Rightarrow> 'a result" where
  "require c msg r = guard c (ErrInvalidJobResult msg) r"

definition immutable_image_id :: "string \<Rightarrow> bool" where
  "immutable_image_id s \<longleftrightarrow> length s = 71 \<and> has_prefix s ''sha256:'' \<and> list_all is_lower_hex (drop 7 s)"

definition no_paths :: "job_result \<Rightarrow> bool" where
  "no_paths r \<longleftrightarrow> jx_project_name r = '''' \<and> jx_data_volume r = '''' \<and> jx_managed_path r = ''''"

definition no_runtime_metadata :: "job_result \<Rightarrow> bool" where
  "no_runtime_metadata r \<longleftrightarrow> no_paths r \<and> jx_image_id r = ''''"

text \<open>What every Hermes result must leave empty.\<close>

definition hermes_result_clean :: "job_result \<Rightarrow> encrypted_reveal option \<Rightarrow> bool" where
  "hermes_result_clean r reveal \<longleftrightarrow> no_runtime_metadata r \<and> jx_instance_status r = NoStatus
     \<and> jx_credentials r = None \<and> jx_chat_message r = '''' \<and> jx_chat_ciphertext r = ''''
     \<and> jx_chat_artifacts r = [] \<and> reveal = None"

definition check_recovery_identity :: "job_type \<Rightarrow> job_result \<Rightarrow> unit result" where
  "check_recovery_identity t r =
     (if t = JobRecoveryCreate \<or> t = JobHermesUpdate then
        require (jx_recovery_point_id r \<noteq> '''') ''recovery point result is missing its identity''
        (require (\<not> (jx_success r \<and> (length (jx_recovery_sha256 r) \<noteq> 64 \<or> jx_recovery_size r < 1)))
          ''successful recovery point result is missing artifact metadata'' (Inr ()))
      else require (jx_recovery_point_id r = '''' \<and> jx_recovery_sha256 r = '''' \<and> jx_recovery_size r = 0)
        ''recovery point result does not match the active job'' (Inr ()))"

definition check_common :: "job_type \<Rightarrow> job_result \<Rightarrow> unit result" where
  "check_common t r =
     require (is_hermes_profile_job t \<or> jx_profiles r = None)
       ''Hermes profile result does not match the active job''
     (require (t = JobInspectHermesCapabilities \<or> jx_capabilities r = None)
       ''Hermes capability result does not match the active job''
     (require (t = JobInspectHermesSkillContent \<or> jx_skill_content r = None)
       ''Hermes skill content result does not match the active job''
     (check_recovery_identity t r)))"

definition check_profiles ::
    "timestamp \<Rightarrow> job_row \<Rightarrow> job_result \<Rightarrow> encrypted_reveal option \<Rightarrow> completion \<Rightarrow> completion result" where
  "check_profiles now j r reveal p =
     require (hermes_result_clean r reveal) ''Hermes profile result returned unrelated metadata''
     (case decode_profile_inspect (j_payload j) of
        None \<Rightarrow> Inl (ErrMessage ''Hermes profile job payload is invalid'')
      | Some q \<Rightarrow>
          guard (pp_instance_id q = j_instance_id j \<and> pp_name q \<noteq> '''' \<and> pp_project_name q \<noteq> ''''
              \<and> pp_managed_path q \<noteq> '''' \<and> 1 \<le> pp_dashboard_port q \<and> pp_dashboard_port q \<le> 65535)
            (ErrMessage ''Hermes profile job payload is invalid'')
          (if jx_success r then
             (case jx_profiles r of
                None \<Rightarrow> Inl (ErrInvalidJobResult ''successful Hermes profile result is incomplete or mismatched'')
              | Some rep \<Rightarrow>
                  (case validate_profile_inventory rep of
                     None \<Rightarrow> Inl (ErrInvalidJobResult ''successful Hermes profile result is incomplete or mismatched'')
                   | Some rep' \<Rightarrow>
                       require (pi_instance_id rep = pp_instance_id q \<and> pi_observed_at rep = zero_time)
                         ''successful Hermes profile result is incomplete or mismatched''
                       (Inr (p\<lparr>pl_instance_status := NoStatus,
                               pl_profiles := Some (rep'\<lparr>pi_observed_at := now\<rparr>)\<rparr>))))
           else require (jx_profiles r = None) ''failed Hermes profile result returned an inventory''
             (Inr (p\<lparr>pl_instance_status := NoStatus\<rparr>))))"

definition check_capabilities ::
    "timestamp \<Rightarrow> job_row \<Rightarrow> job_result \<Rightarrow> encrypted_reveal option \<Rightarrow> completion \<Rightarrow> completion result" where
  "check_capabilities now j r reveal p =
     require (hermes_result_clean r reveal \<and> jx_profiles r = None)
       ''Hermes capability result returned unrelated metadata''
     (case decode_capability_inspect (j_payload j) of
        None \<Rightarrow> Inl (ErrMessage ''Hermes capability job payload is invalid'')
      | Some q \<Rightarrow>
          guard (cp_instance_id q = j_instance_id j \<and> cp_name q \<noteq> '''' \<and> cp_project_name q \<noteq> ''''
              \<and> cp_managed_path q \<noteq> '''' \<and> 1 \<le> cp_api_port q \<and> cp_api_port q \<le> 65535)
            (ErrMessage ''Hermes capability job payload is invalid'')
          (if jx_success r then
             (case jx_capabilities r of
                None \<Rightarrow> Inl (ErrInvalidJobResult ''successful Hermes capability result is incomplete or mismatched'')
              | Some rep \<Rightarrow>
                  (case validate_capability_inventory rep of
                     None \<Rightarrow> Inl (ErrInvalidJobResult ''successful Hermes capability result is incomplete or mismatched'')
                   | Some rep' \<Rightarrow>
                       require (ci_instance_id rep = cp_instance_id q \<and> ci_observed_at rep = zero_time)
                         ''successful Hermes capability result is incomplete or mismatched''
                       (Inr (p\<lparr>pl_instance_status := NoStatus,
                               pl_capabilities := Some (rep'\<lparr>ci_observed_at := now\<rparr>)\<rparr>))))
           else require (jx_capabilities r = None) ''failed Hermes capability result returned an inventory''
             (Inr (p\<lparr>pl_instance_status := NoStatus\<rparr>))))"

definition check_skill_content ::
    "timestamp \<Rightarrow> job_row \<Rightarrow> job_result \<Rightarrow> encrypted_reveal option \<Rightarrow> completion \<Rightarrow> completion result" where
  "check_skill_content now j r reveal p =
     require (hermes_result_clean r reveal \<and> jx_profiles r = None \<and> jx_capabilities r = None)
       ''Hermes skill content result returned unrelated metadata''
     (case decode_skill_target (j_payload j) of
        None \<Rightarrow> Inl (ErrMessage ''Hermes skill content inspection job payload is invalid'')
      | Some q \<Rightarrow>
          guard (pp_instance_id (st_target q) = j_instance_id j \<and> valid_skill_target q)
            (ErrMessage ''Hermes skill content inspection job payload is invalid'')
          (if jx_success r then
             (case jx_skill_content r of
                None \<Rightarrow> Inl (ErrInvalidJobResult ''successful Hermes skill content result is incomplete or mismatched'')
              | Some s \<Rightarrow>
                  require (sc_instance_id s = pp_instance_id (st_target q)
                      \<and> sc_skill_name s = st_skill_name q \<and> sc_profile s = st_profile q
                      \<and> sc_observed_at s = zero_time \<and> valid_skill_content_snapshot s)
                    ''successful Hermes skill content result is incomplete or mismatched''
                  (Inr (p\<lparr>pl_instance_status := NoStatus,
                          pl_skill_content := Some (s\<lparr>sc_observed_at := now\<rparr>)\<rparr>)))
           else require (jx_skill_content r = None) ''failed Hermes skill content result returned a snapshot''
             (Inr (p\<lparr>pl_instance_status := NoStatus\<rparr>))))"

definition check_skill_sync ::
    "job_row \<Rightarrow> job_result \<Rightarrow> encrypted_reveal option \<Rightarrow> completion \<Rightarrow> completion result" where
  "check_skill_sync j r reveal p =
     require (hermes_result_clean r reveal \<and> jx_profiles r = None \<and> jx_capabilities r = None)
       ''Hermes skill synchronization result returned unrelated metadata''
     (case decode_skill_sync (j_payload j) of
        None \<Rightarrow> Inl (ErrMessage ''Hermes skill synchronization job payload is invalid'')
      | Some q \<Rightarrow>
          guard (pp_instance_id (ss_target q) = j_instance_id j \<and> valid_skill_sync q)
            (ErrMessage ''Hermes skill synchronization job payload is invalid'')
            (Inr (p\<lparr>pl_instance_status := NoStatus\<rparr>)))"

definition check_skill_remove ::
    "job_row \<Rightarrow> job_result \<Rightarrow> encrypted_reveal option \<Rightarrow> completion \<Rightarrow> completion result" where
  "check_skill_remove j r reveal p =
     require (hermes_result_clean r reveal \<and> jx_profiles r = None \<and> jx_capabilities r = None
         \<and> jx_skill_content r = None)
       ''Hermes skill removal result returned unrelated metadata''
     (case decode_skill_target (j_payload j) of
        None \<Rightarrow> Inl (ErrMessage ''Hermes skill removal job payload is invalid'')
      | Some q \<Rightarrow>
          guard (pp_instance_id (st_target q) = j_instance_id j \<and> valid_skill_target q)
            (ErrMessage ''Hermes skill removal job payload is invalid'')
            (Inr (p\<lparr>pl_instance_status := NoStatus\<rparr>)))"

definition check_toolset ::
    "job_row \<Rightarrow> job_result \<Rightarrow> encrypted_reveal option \<Rightarrow> completion \<Rightarrow> completion result" where
  "check_toolset j r reveal p =
     require (hermes_result_clean r reveal \<and> jx_profiles r = None \<and> jx_capabilities r = None)
       ''Hermes toolset mutation result returned unrelated metadata''
     (case decode_toolset_mutation (j_payload j) of
        None \<Rightarrow> Inl (ErrMessage ''Hermes toolset mutation job payload is invalid'')
      | Some q \<Rightarrow>
          guard (pp_instance_id (tm_target q) = j_instance_id j \<and> valid_toolset_mutation q)
            (ErrMessage ''Hermes toolset mutation job payload is invalid'')
            (Inr (p\<lparr>pl_instance_status := NoStatus\<rparr>)))"

definition check_chat :: "job_row \<Rightarrow> job_result \<Rightarrow> completion \<Rightarrow> completion result" where
  "check_chat j r p =
     require (no_runtime_metadata r \<and> jx_instance_status r = NoStatus \<and> jx_credentials r = None)
       ''chat result returned unrelated runtime metadata''
     (case decode_chat_send (j_payload j) of
        None \<Rightarrow> Inl (ErrMessage ''chat job payload is invalid'')
      | Some q \<Rightarrow>
          guard (cs_instance_id q = j_instance_id j \<and> cs_session_id q \<noteq> '''' \<and> cs_message_id q \<noteq> ''''
              \<and> cs_managed_path q \<noteq> '''' \<and> 1 \<le> cs_api_port q)
            (ErrMessage ''chat job payload is invalid'')
          (require (\<not> (jx_success r \<and> (jx_chat_message r = '''' \<or> jx_chat_ciphertext r = '''')))
             ''successful chat result is missing assistant content''
          (require (jx_success r \<or> (jx_chat_message r = '''' \<and> jx_chat_ciphertext r = ''''))
             ''failed chat result returned assistant content'' (Inr p))))"

definition check_provision :: "job_row \<Rightarrow> job_result \<Rightarrow> completion \<Rightarrow> completion result" where
  "check_provision j r p =
     (case decode_provision (j_payload j) of
        None \<Rightarrow> Inl (ErrMessage ''provision job payload is invalid'')
      | Some q \<Rightarrow>
          guard (pv_instance_id q = j_instance_id j \<and> pv_name q \<noteq> '''')
            (ErrMessage ''provision job payload is invalid'')
          (let (project, volume, directory) = managed_identity (pv_instance_id q) (pv_name q)
           in require (\<not> (jx_success r \<or> \<not> no_runtime_metadata r)
                 \<or> jx_project_name r = project \<and> jx_data_volume r = volume
                   \<and> is_abs (jx_managed_path r) \<and> path_clean (jx_managed_path r) = jx_managed_path r
                   \<and> path_base (jx_managed_path r) = directory)
                ''provision result does not match the reserved managed identity''
              (require (jx_success r \<longrightarrow> immutable_image_id (jx_image_id r))
                ''provision result returned an invalid immutable image ID''
              (require (\<not> jx_success r \<longrightarrow> jx_image_id r = '''')
                ''failed provision result returned image metadata''
              (Inr (p\<lparr>pl_project_name := jx_project_name r, pl_data_volume := jx_data_volume r,
                      pl_managed_path := jx_managed_path r, pl_image_id := jx_image_id r\<rparr>))))))"

definition check_image_reconcile :: "job_result \<Rightarrow> completion \<Rightarrow> completion result" where
  "check_image_reconcile r p =
     require (no_paths r) ''image reconciliation returned unrelated runtime metadata''
     (require (jx_instance_status r = InstanceStopped)
        ''image reconciliation did not preserve the stopped instance state''
     (if jx_success r then
        require (immutable_image_id (jx_image_id r))
          ''image reconciliation returned an invalid immutable image ID''
          (Inr (p\<lparr>pl_instance_status := InstanceStopped, pl_image_id := jx_image_id r\<rparr>))
      else require (jx_image_id r = '''') ''failed image reconciliation returned image metadata''
          (Inr (p\<lparr>pl_instance_status := InstanceStopped\<rparr>))))"

definition check_image_repair :: "job_row \<Rightarrow> job_result \<Rightarrow> completion \<Rightarrow> completion result" where
  "check_image_repair j r p =
     require (no_paths r) ''image repair returned unrelated runtime metadata''
     (case decode_image_repair (j_payload j) of
        None \<Rightarrow> Inl (ErrMessage ''image repair job payload is invalid'')
      | Some q \<Rightarrow>
          guard (ir_instance_id q = j_instance_id j) (ErrMessage ''image repair job payload is invalid'')
          (require (jx_instance_status r \<in> {InstanceRunning, InstanceStopped, InstanceFailed})
             ''image repair returned an invalid instance status''
          (if jx_success r then
             require (jx_instance_status r = (if ir_restart q then InstanceRunning else InstanceStopped))
               ''image repair did not restore the requested runtime state''
             (require (immutable_image_id (jx_image_id r))
               ''image repair returned an invalid immutable image ID''
             (Inr (p\<lparr>pl_instance_status := jx_instance_status r, pl_image_id := jx_image_id r\<rparr>)))
           else require (jx_image_id r = '''') ''failed image repair returned image metadata''
             (Inr (p\<lparr>pl_instance_status := jx_instance_status r\<rparr>)))))"

definition check_runtime_sync :: "job_row \<Rightarrow> job_result \<Rightarrow> completion \<Rightarrow> completion result" where
  "check_runtime_sync j r p =
     require (no_runtime_metadata r) ''runtime synchronization returned unrelated runtime metadata''
     (case decode_runtime_sync (j_payload j) of
        None \<Rightarrow> Inl (ErrMessage ''runtime synchronization job payload is invalid'')
      | Some q \<Rightarrow>
          guard (rs_instance_id q = j_instance_id j)
            (ErrMessage ''runtime synchronization job payload is invalid'')
          (require (jx_success r \<longrightarrow> jx_instance_status r = rs_desired_status q)
             ''runtime synchronization did not preserve the requested runtime state''
          (require (jx_success r \<or> jx_instance_status r \<in> {NoStatus, rs_desired_status q, InstanceFailed})
             ''failed runtime synchronization returned an invalid instance status''
          (require (jx_instance_status r \<in> {NoStatus, InstanceRunning, InstanceStopped, InstanceFailed})
             ''runtime synchronization returned an invalid instance status''
          (Inr (if jx_instance_status r \<noteq> NoStatus
                then p\<lparr>pl_instance_status := jx_instance_status r\<rparr> else p))))))"

text \<open>Messaging and MCP configuration have the same checks, with other messages.\<close>

definition check_config :: "string \<Rightarrow> job_row \<Rightarrow> job_result \<Rightarrow> completion \<Rightarrow> completion result" where
  "check_config what j r p =
     require (no_runtime_metadata r) (what @ '' configuration returned unrelated runtime metadata'')
     (case decode_config_apply (j_payload j) of
        None \<Rightarrow> Inl (ErrMessage (what @ '' configuration job payload is invalid''))
      | Some q \<Rightarrow>
          guard (ca_instance_id q = j_instance_id j \<and> ca_revision q \<noteq> '''')
            (ErrMessage (what @ '' configuration job payload is invalid''))
          (require (jx_success r \<longrightarrow> jx_instance_status r = ca_desired_status q)
             (what @ '' configuration did not preserve the requested runtime state'')
          (require (jx_success r \<longrightarrow> jx_instance_status r \<in> {InstanceRunning, InstanceStopped})
             (what @ '' configuration returned an invalid instance status'')
          (require (jx_success r \<or> jx_instance_status r \<in> {ca_desired_status q, InstanceFailed})
             (''failed '' @ what @ '' configuration returned an invalid instance status'')
          (Inr (p\<lparr>pl_instance_status := jx_instance_status r\<rparr>))))))"

definition upgrade_payload_ok :: "string \<Rightarrow> hermes_upgrade_payload \<Rightarrow> bool" where
  "upgrade_payload_ok i q \<longleftrightarrow> hu_instance_id q = i \<and> hu_target_image q \<noteq> ''''
     \<and> validate_image_reference (hu_target_image q) = None
     \<and> rt_instance_id (hu_rollback q) = i \<and> rt_image (hu_rollback q) = hu_current_image q
     \<and> rt_image_id (hu_rollback q) = hu_current_image_id q \<and> rt_require_image_id (hu_rollback q)"

definition check_hermes_upgrade :: "job_row \<Rightarrow> job_result \<Rightarrow> completion \<Rightarrow> completion result" where
  "check_hermes_upgrade j r p =
     require (no_paths r) ''Hermes update returned unrelated runtime metadata''
     (case decode_hermes_upgrade (j_payload j) of
        None \<Rightarrow> Inl (ErrMessage ''Hermes update job payload is invalid'')
      | Some q \<Rightarrow>
          guard (upgrade_payload_ok (j_instance_id j) q)
            (ErrMessage ''Hermes update job payload is invalid'')
          (require (jx_instance_status r \<in> {InstanceStopped, InstanceFailed})
             ''Hermes update returned an invalid instance status''
          (if jx_success r then
             require (jx_instance_status r = InstanceStopped \<and> immutable_image_id (jx_image_id r))
               ''Hermes update did not return a verified stopped target image''
             (Inr (p\<lparr>pl_instance_status := jx_instance_status r, pl_image_id := jx_image_id r,
                     pl_upgrade := Some q\<rparr>))
           else require (jx_image_id r = '''') ''failed Hermes update returned target image metadata''
             (Inr (p\<lparr>pl_instance_status := jx_instance_status r, pl_upgrade := Some q\<rparr>)))))"

definition check_hermes_update :: "job_row \<Rightarrow> job_result \<Rightarrow> completion \<Rightarrow> completion result" where
  "check_hermes_update j r p =
     require (no_paths r) ''Hermes update workflow returned unrelated runtime metadata''
     (case decode_hermes_update (j_payload j) of
        None \<Rightarrow> Inl (ErrMessage ''Hermes update workflow payload is invalid'')
      | Some q \<Rightarrow>
          guard (upgrade_payload_ok (j_instance_id j) (hp_upgrade q)
              \<and> rp_instance_id (hp_backup q) = j_instance_id j
              \<and> hp_original_status q \<in> {InstanceRunning, InstanceStopped})
            (ErrMessage ''Hermes update workflow payload is invalid'')
          (require (jx_instance_status r \<in> {InstanceRunning, InstanceStopped, InstanceFailed})
             ''Hermes update workflow returned an invalid instance status''
          (let p = p\<lparr>pl_instance_status := jx_instance_status r, pl_update := Some q\<rparr>
           in if jx_success r then
                require (jx_instance_status r = hp_original_status q \<and> immutable_image_id (jx_image_id r))
                  ''Hermes update workflow did not restore the requested runtime state''
                (Inr (p\<lparr>pl_image_id := jx_image_id r\<rparr>))
              else if jx_image_id r \<noteq> '''' then
                require (immutable_image_id (jx_image_id r))
                  ''failed Hermes update workflow returned invalid target image metadata''
                (require (jx_instance_status r \<in> {InstanceStopped, InstanceFailed})
                  ''failed Hermes update workflow with target image returned an invalid instance status''
                (Inr (p\<lparr>pl_image_id := jx_image_id r\<rparr>)))
              else Inr p)))"

definition check_recovery_restore :: "job_row \<Rightarrow> job_result \<Rightarrow> completion \<Rightarrow> completion result" where
  "check_recovery_restore j r p =
     require (no_paths r) ''recovery restore returned unrelated runtime metadata''
     (require (jx_instance_status r \<in> {InstanceStopped, InstanceFailed})
        ''recovery restore returned an invalid instance status''
     (require (jx_success r \<longrightarrow> jx_instance_status r = InstanceStopped)
        ''successful recovery restore did not preserve the stopped state''
     (require (jx_success r \<longrightarrow> immutable_image_id (jx_image_id r))
        ''successful recovery restore did not return the resolved runtime image''
     (require (\<not> jx_success r \<longrightarrow> jx_image_id r = '''')
        ''failed recovery restore returned runtime image metadata''
     (case decode_recovery_restore (j_payload j) of
        None \<Rightarrow> Inl (ErrMessage ''recovery restore job payload is invalid'')
      | Some q \<Rightarrow>
          guard (rt_instance_id q = j_instance_id j \<and> immutable_image_id (rt_image_id q)
              \<and> rt_image q \<noteq> ''''
              \<and> validate_runtime_or_pending (rt_provider q) (rt_model q) (rt_reasoning q)
                  (rt_service_tier q) = None)
            (ErrMessage ''recovery restore job payload is invalid'')
          (Inr (p\<lparr>pl_restore := Some q, pl_instance_status := jx_instance_status r,
                  pl_image_id := jx_image_id r\<rparr>)))))))"

end
