(* ===== verification/Store_Complete.thy ===== *)
theory Store_Complete
  imports Store_Completion
begin

text \<open>
  The second half of \<open>CompleteJobWithHash\<close>: the dispatch on the job type, the guards after it
  and the statements of the transaction, in the order of the code; the credential reveal of
  \<open>GetCredentialReveal\<close>; and the facts about a completion.
\<close>

section \<open>The switch on the job type\<close>

definition check_by_type ::
    "timestamp \<Rightarrow> job_row \<Rightarrow> job_result \<Rightarrow> encrypted_reveal option \<Rightarrow> completion \<Rightarrow> completion result" where
  "check_by_type now j r reveal p =
     (if is_hermes_profile_job (j_type j) then check_profiles now j r reveal p
      else if j_type j = JobInspectHermesCapabilities then check_capabilities now j r reveal p
      else if j_type j = JobInspectHermesSkillContent then check_skill_content now j r reveal p
      else if j_type j = JobSyncHermesSkill then check_skill_sync j r reveal p
      else if j_type j = JobRemoveHermesSkill then check_skill_remove j r reveal p
      else if j_type j = JobSetHermesToolset then check_toolset j r reveal p
      else if j_type j = JobChatSend then check_chat j r p
      else if j_type j = JobProvision then check_provision j r p
      else if j_type j = JobImageReconcile then check_image_reconcile r p
      else if j_type j = JobImageRepair then check_image_repair j r p
      else if j_type j = JobRuntimeSync \<or> j_type j = JobRuntimeConfigure then check_runtime_sync j r p
      else if j_type j = JobConfigureMessaging then check_config ''messaging'' j r p
      else if j_type j = JobConfigureMcp then check_config ''MCP'' j r p
      else if j_type j = JobHermesUpgrade then check_hermes_upgrade j r p
      else if j_type j = JobHermesUpdate then check_hermes_update j r p
      else if j_type j = JobRecoveryRestore then check_recovery_restore j r p
      else require (no_runtime_metadata r) ''runtime metadata result does not match the active job'' (Inr p))"

text \<open>Job types whose completion leaves the instance row alone.\<close>

definition spares_instance :: "job_type \<Rightarrow> bool" where
  "spares_instance t \<longleftrightarrow> t = JobInspectCredentials \<or> t = JobAuthCodex \<or> t = JobChatSend
     \<or> is_hermes_profile_job t"

definition reports_instance_status :: "job_type \<Rightarrow> bool" where
  "reports_instance_status t \<longleftrightarrow> t \<in> {JobImageReconcile, JobImageRepair, JobRuntimeSync,
     JobRuntimeConfigure, JobConfigureMessaging, JobConfigureMcp, JobRecoveryRestore,
     JobHermesUpgrade, JobHermesUpdate}"

definition check_after ::
    "job_type \<Rightarrow> job_result \<Rightarrow> encrypted_reveal option \<Rightarrow> completion \<Rightarrow> completion result" where
  "check_after t r reveal p =
     and_then
       (if spares_instance t then
          require (\<not> (t = JobInspectCredentials \<and> reveal \<noteq> None \<and> \<not> jx_success r))
            ''failed credential inspection cannot contain a reveal''
          (require (\<not> (t = JobAuthCodex \<and> (jx_credentials r \<noteq> None \<or> jx_instance_status r \<noteq> NoStatus
              \<or> \<not> no_runtime_metadata r)))
            ''Codex authentication returned unrelated instance metadata''
          (Inr (p\<lparr>pl_instance_status := NoStatus\<rparr>)))
        else require (reveal = None) ''credential reveal is only valid for an inspection job'' (Inr p))
     (\<lambda>p. require (reports_instance_status t \<or> jx_instance_status r = NoStatus)
        ''instance status result does not match the active job'' (Inr p))"

definition check_completion ::
    "timestamp \<Rightarrow> job_row \<Rightarrow> job_result \<Rightarrow> encrypted_reveal option \<Rightarrow> completion result" where
  "check_completion now j r reveal =
     and_then (check_common (j_type j) r) (\<lambda>_.
     and_then (check_by_type now j r reveal (initial_completion (j_type j) r))
       (check_after (j_type j) r reveal))"

section \<open>The statements\<close>

text \<open>An inventory row is replaced or inserted when its instance exists.\<close>

definition upsert_by :: "('r \<Rightarrow> 'k) \<Rightarrow> 'r \<Rightarrow> 'r list \<Rightarrow> 'r list" where
  "upsert_by key r rows =
     (if list_ex (\<lambda>q. key q = key r) rows then update_where (\<lambda>q. key q = key r) (\<lambda>_. r) rows
      else rows @ [r])"

definition record_inventories :: "completion \<Rightarrow> db \<Rightarrow> db result" where
  "record_inventories p d =
     and_then (case pl_profiles p of
         None \<Rightarrow> Inr d
       | Some v \<Rightarrow> guard (instance_exists d (pi_instance_id v)) ErrStateChanged
           (Inr (d\<lparr>db_profiles := upsert_by pi_instance_id v (db_profiles d)\<rparr>))) (\<lambda>d.
     and_then (case pl_capabilities p of
         None \<Rightarrow> Inr d
       | Some v \<Rightarrow> guard (instance_exists d (ci_instance_id v)) ErrStateChanged
           (Inr (d\<lparr>db_capabilities := upsert_by ci_instance_id v (db_capabilities d)\<rparr>))) (\<lambda>d.
     case pl_skill_content p of
         None \<Rightarrow> Inr d
       | Some v \<Rightarrow> guard (instance_exists d (sc_instance_id v)) ErrStateChanged
           (Inr (d\<lparr>db_skill_content :=
              upsert_by (\<lambda>s. (sc_instance_id s, sc_profile s, sc_skill_name s)) v (db_skill_content d)\<rparr>))))"

text \<open>
  The stored metadata; an error of \<open>json.Unmarshal\<close> is ignored, and \<open>null\<close> leaves the nil map,
  to which the code then assigns.
\<close>

definition stored_metadata :: "raw_json option \<Rightarrow> json_fields result" where
  "stored_metadata m =
     (case m of
        Some (Some JNull) \<Rightarrow> Inl (Panic ''assignment to entry in nil map'')
      | Some (Some (JObject kvs)) \<Rightarrow> Inr kvs
      | _ \<Rightarrow> Inr [])"

definition jset_if :: "bool \<Rightarrow> string \<Rightarrow> json \<Rightarrow> json_fields \<Rightarrow> json_fields" where
  "jset_if c k v m = (if c then jset k v m else m)"

definition completion_metadata :: "nat \<Rightarrow> job_result \<Rightarrow> completion \<Rightarrow> json_fields \<Rightarrow> json_fields" where
  "completion_metadata attempts r p m =
     (let m = jset ''attempt'' (JInt (int attempts)) m;
          m = jset_if (jx_image_id r \<noteq> '''') ''image_digest'' (JString (jx_image_id r)) m;
          m = jset_if (jx_recovery_point_id r \<noteq> '''') ''backup_id'' (JString (jx_recovery_point_id r)) m;
          m = jset_if (jx_recovery_sha256 r \<noteq> '''') ''backup_sha256'' (JString (jx_recovery_sha256 r)) m;
          m = (case pl_profiles p of None \<Rightarrow> m
               | Some v \<Rightarrow> jset ''profile_count'' (JInt (int (length (pi_profiles v)))) m)
      in (case pl_capabilities p of None \<Rightarrow> m
          | Some v \<Rightarrow> jset ''browser_available'' (JBool (ci_browser_available v))
              (jset ''toolset_count'' (JInt (int (length (ci_toolsets v))))
                (jset ''skill_count'' (JInt (int (length (ci_skills v)))) m))))"

definition or_keep :: "string \<Rightarrow> string \<Rightarrow> string" where
  "or_keep new old = (if new = '''' then old else new)"

definition record_instance_result ::
    "job_row \<Rightarrow> completion \<Rightarrow> string \<Rightarrow> timestamp \<Rightarrow> db \<Rightarrow> db result" where
  "record_instance_result j p err now d =
     (if spares_instance (j_type j) then Inr d
      else update_instances (\<lambda>i. in_id i = j_instance_id j)
        (\<lambda>i. i\<lparr>in_status := (if pl_instance_status p = NoStatus then in_status i else pl_instance_status p),
               in_project_name := or_keep (pl_project_name p) (in_project_name i),
               in_data_volume := or_keep (pl_data_volume p) (in_data_volume i),
               in_managed_path := or_keep (pl_managed_path p) (in_managed_path i),
               in_image_id := or_keep (pl_image_id p) (in_image_id i),
               in_last_error := err, in_updated_at := now\<rparr>) d)"

definition finish_chat_message ::
    "string \<Rightarrow> chat_send_payload \<Rightarrow> job_result \<Rightarrow> timestamp \<Rightarrow> db \<Rightarrow> db result" where
  "finish_chat_message op q r now d =
     (let err = (if jx_success r then ''''
                 else if jx_error r = '''' then ''Hermes did not complete this message'' else jx_error r);
          hit = (\<lambda>m. me_id m = cs_message_id q \<and> me_session_id m = cs_session_id q
             \<and> me_operation_id m = op \<and> me_role m = RoleUser \<and> me_status m = MessagePending)
      in and_then
        (if jx_success r then
           require (jx_chat_ciphertext r \<noteq> '''' \<and> jx_chat_message r \<noteq> '''')
             ''successful chat result is missing assistant content''
             (insert_message \<lparr>me_id = cs_message_id q @ ''-assistant'', me_session_id = cs_session_id q,
                me_operation_id = '''', me_role = RoleAssistant, me_ciphertext = jx_chat_ciphertext r,
                me_status = MessageSucceeded, me_error = '''', me_created_at = now, me_updated_at = now\<rparr> d)
         else require (jx_chat_message r = '''' \<and> jx_chat_ciphertext r = '''')
             ''failed chat result cannot contain assistant content'' (Inr d))
      (\<lambda>d. guard (count_where hit (db_messages d) = 1) ErrStateChanged
         (append_closing_event (cs_session_id q) op
            (if jx_success r then EventCompleted else EventFailed) now
            (touch_session (cs_session_id q) err now
              (update_messages hit
                (\<lambda>m. m\<lparr>me_status := (if jx_success r then MessageSucceeded else MessageFailed),
                       me_error := err, me_updated_at := now\<rparr>) d)))))"

definition complete_remediation :: "job_row \<Rightarrow> job_result \<Rightarrow> timestamp \<Rightarrow> db \<Rightarrow> db" where
  "complete_remediation j r now d =
     (if j_type j \<noteq> JobRuntimeRepair then d
      else if jx_success r then
        d\<lparr>db_remediation := update_where
            (\<lambda>q. rm_instance_id q = j_instance_id j \<and> rm_status q = RemQueued)
            (\<lambda>q. q\<lparr>rm_status := RemVerifying, rm_last_error := '''', rm_updated_at := now\<rparr>)
            (db_remediation d)\<rparr>
      else fail_remediation_attempt (j_instance_id j) (result_error_text r) now d)"

text \<open>The updates of the desired configuration that a job carries over to its instance.\<close>

definition restore_desired_state ::
    "job_row \<Rightarrow> job_result \<Rightarrow> completion \<Rightarrow> timestamp \<Rightarrow> db \<Rightarrow> db result" where
  "restore_desired_state j r p now d =
     (case pl_restore p of
        None \<Rightarrow> Inr d
      | Some q \<Rightarrow>
          if j_type j = JobRecoveryRestore \<and> jx_success r then
            update_instances (\<lambda>i. in_id i = j_instance_id j)
              (\<lambda>i. i\<lparr>in_image := rt_image q, in_image_id := jx_image_id r,
                     in_provider := rt_provider q,
                     in_model := (if rt_codex_configured q then rt_model q else ''''),
                     in_reasoning := (if rt_codex_configured q then rt_reasoning q else ''''),
                     in_service_tier := (if rt_codex_configured q then rt_service_tier q else ''''),
                     in_codex_configured := rt_codex_configured q, in_updated_at := now\<rparr>) d
          else Inr d)"

definition upgrade_desired_state ::
    "job_row \<Rightarrow> job_result \<Rightarrow> completion \<Rightarrow> timestamp \<Rightarrow> db \<Rightarrow> db result" where
  "upgrade_desired_state j r p now d =
     (case pl_upgrade p of
        None \<Rightarrow> Inr d
      | Some q \<Rightarrow>
          if j_type j = JobHermesUpgrade \<and> jx_success r then
            update_instances (\<lambda>i. in_id i = j_instance_id j)
              (\<lambda>i. i\<lparr>in_image := hu_target_image q, in_updated_at := now\<rparr>) d
          else Inr d)"

definition update_desired_state ::
    "job_row \<Rightarrow> job_result \<Rightarrow> completion \<Rightarrow> timestamp \<Rightarrow> db \<Rightarrow> db result" where
  "update_desired_state j r p now d =
     (case pl_update p of
        None \<Rightarrow> Inr d
      | Some q \<Rightarrow>
          if j_type j = JobHermesUpdate \<and> jx_image_id r \<noteq> '''' then
            update_instances (\<lambda>i. in_id i = j_instance_id j)
              (\<lambda>i. i\<lparr>in_image := hu_target_image (hp_upgrade q), in_updated_at := now\<rparr>) d
          else Inr d)"

definition configure_desired_state ::
    "job_row \<Rightarrow> job_result \<Rightarrow> timestamp \<Rightarrow> db \<Rightarrow> db result" where
  "configure_desired_state j r now d =
     (if j_type j = JobRuntimeConfigure \<and> jx_success r then
        (case decode_runtime_sync (j_payload j) of
           None \<Rightarrow> Inl (ErrMessage ''Codex configuration job payload is invalid'')
         | Some q \<Rightarrow>
             guard (rs_instance_id q = j_instance_id j)
               (ErrMessage ''Codex configuration job payload is invalid'')
             (update_instances (\<lambda>i. in_id i = j_instance_id j)
               (\<lambda>i. i\<lparr>in_provider := rs_provider q, in_model := rs_model q,
                      in_reasoning := rs_reasoning q, in_service_tier := rs_service_tier q,
                      in_codex_configured := True, in_updated_at := now\<rparr>) d))
      else Inr d)"

definition record_desired_state ::
    "job_row \<Rightarrow> job_result \<Rightarrow> completion \<Rightarrow> timestamp \<Rightarrow> db \<Rightarrow> db result" where
  "record_desired_state j r p now d =
     and_then (restore_desired_state j r p now d) (\<lambda>d.
     and_then (upgrade_desired_state j r p now d) (\<lambda>d.
     and_then (update_desired_state j r p now d) (configure_desired_state j r now)))"

text \<open>The row of a configuration that was applied or failed; \<open>None\<close> when none has the revision.\<close>

definition finish_config ::
    "string \<Rightarrow> string \<Rightarrow> job_result \<Rightarrow> timestamp \<Rightarrow> config_row list \<Rightarrow> config_row list option" where
  "finish_config i revision r now rows =
     (let hit = (\<lambda>c. cf_instance_id c = i \<and> cf_desired_revision c = revision) in
      if count_where hit rows \<noteq> 1 then None
      else Some (update_where hit
        (\<lambda>c. c\<lparr>cf_status := (if jx_success r then ConfigApplied else ConfigFailed),
               cf_applied_revision :=
                 (if jx_success r \<and> revision \<noteq> '''' then revision else cf_applied_revision c),
               cf_last_error := result_error_text r, cf_updated_at := now,
               cf_applied_at := (if jx_success r then Some now else cf_applied_at c)\<rparr>) rows))"

definition complete_config :: "job_row \<Rightarrow> job_result \<Rightarrow> timestamp \<Rightarrow> db \<Rightarrow> db result" where
  "complete_config j r now d =
     (if j_type j = JobConfigureMessaging \<or> j_type j = JobConfigureMcp then
        (case decode_config_apply (j_payload j) of
           None \<Rightarrow> Inl (ErrMessage ''configuration job payload is invalid'')
         | Some q \<Rightarrow>
             guard (ca_instance_id q = j_instance_id j)
               (ErrMessage ''configuration job payload is invalid'')
             (if j_type j = JobConfigureMessaging then
                (case finish_config (j_instance_id j) (ca_revision q) r now (db_messaging d) of
                   None \<Rightarrow> Inl ErrStateChanged | Some rows \<Rightarrow> Inr (d\<lparr>db_messaging := rows\<rparr>))
              else
                (case finish_config (j_instance_id j) (ca_revision q) r now (db_mcp d) of
                   None \<Rightarrow> Inl ErrStateChanged | Some rows \<Rightarrow> Inr (d\<lparr>db_mcp := rows\<rparr>))))
      else Inr d)"

definition purge_reveals :: "timestamp \<Rightarrow> db \<Rightarrow> db" where
  "purge_reveals now d = d\<lparr>db_reveals := delete_where (\<lambda>c. cr_expires_at c \<le> now) (db_reveals d)\<rparr>"

definition store_reveal :: "string \<Rightarrow> encrypted_reveal option \<Rightarrow> timestamp \<Rightarrow> db \<Rightarrow> db" where
  "store_reveal op reveal now d =
     (case reveal of
        None \<Rightarrow> d
      | Some e \<Rightarrow>
          let d = purge_reveals now d
          in d\<lparr>db_reveals :=
               (if list_ex (\<lambda>c. cr_operation_id c = op) (db_reveals d)
                then update_where (\<lambda>c. cr_operation_id c = op)
                  (\<lambda>c. c\<lparr>cr_ciphertext := er_ciphertext e, cr_expires_at := er_expires_at e\<rparr>) (db_reveals d)
                else db_reveals d @ [\<lparr>cr_operation_id = op, cr_ciphertext = er_ciphertext e,
                  cr_expires_at = er_expires_at e, cr_created_at = now\<rparr>])\<rparr>)"

definition complete_chat :: "job_row \<Rightarrow> job_result \<Rightarrow> timestamp \<Rightarrow> db \<Rightarrow> db result" where
  "complete_chat j r now d =
     (if j_type j = JobChatSend then
        (case decode_chat_send (j_payload j) of
           None \<Rightarrow> Inl (ErrMessage ''chat job payload is invalid'')
         | Some q \<Rightarrow> finish_chat_message (j_operation_id j) q r now d)
      else Inr d)"

definition clear_deleted_requests :: "job_row \<Rightarrow> job_result \<Rightarrow> db \<Rightarrow> db" where
  "clear_deleted_requests j r d =
     (if j_type j = JobDelete \<and> jx_success r then
        d\<lparr>db_requests := delete_where (\<lambda>q. rq_instance_id q = j_instance_id j) (db_requests d)\<rparr>
      else d)"

definition record_operation_result ::
    "job_row \<Rightarrow> job_result \<Rightarrow> completion \<Rightarrow> timestamp \<Rightarrow> json_fields \<Rightarrow> db \<Rightarrow> db" where
  "record_operation_result j r p now m d =
     d\<lparr>db_operations := update_where (\<lambda>o'. op_id o' = j_operation_id j)
         (\<lambda>o'. o'\<lparr>op_status := operation_result_status (j_type j) r, op_error := result_error_text r,
                 op_metadata := Some (Some (JObject (completion_metadata (j_attempts j) r p m))),
                 op_updated_at := now\<rparr>) (db_operations d)\<rparr>"

definition apply_effects ::
    "job_row \<Rightarrow> job_result \<Rightarrow> completion \<Rightarrow> encrypted_reveal option \<Rightarrow> timestamp \<Rightarrow> raw_json option
      \<Rightarrow> db \<Rightarrow> db result" where
  "apply_effects j r p reveal now metadata d =
     and_then (record_inventories p d) (\<lambda>d.
     and_then (stored_metadata metadata) (\<lambda>m.
     and_then (Inr (record_operation_result j r p now m d)) (\<lambda>d.
     and_then (record_instance_result j p (result_error_text r) now d) (\<lambda>d.
     and_then (complete_chat j r now d) (\<lambda>d.
     and_then (record_desired_state j r p now (complete_remediation j r now d)) (\<lambda>d.
     and_then (complete_config j r now d) (\<lambda>d.
     Inr (store_reveal (j_operation_id j) reveal now (clear_deleted_requests j r d)))))))))"

definition apply_completion ::
    "string \<Rightarrow> string \<Rightarrow> string \<Rightarrow> string \<Rightarrow> job_row \<Rightarrow> job_result \<Rightarrow> completion \<Rightarrow> encrypted_reveal option
      \<Rightarrow> timestamp \<Rightarrow> db \<Rightarrow> db result" where
  "apply_completion host_id job_id token hash j r p reveal now d =
     (let hit = held_in JobRunning host_id job_id token now in
      guard (count_where hit (db_jobs d) = 1) ErrLeaseLost
      (apply_effects j r p reveal now (operation_metadata d (j_operation_id j))
        (d\<lparr>db_jobs := update_where hit (finish_row now (job_result_status r) hash) (db_jobs d)\<rparr>)))"

text \<open>A completion hash is the hexadecimal form of 32 bytes.\<close>

definition complete_job_with_hash ::
    "string \<Rightarrow> job_result \<Rightarrow> encrypted_reveal option \<Rightarrow> string \<Rightarrow> string \<Rightarrow> string \<Rightarrow> timestamp \<Rightarrow> db
      \<Rightarrow> db result" where
  "complete_job_with_hash hash r reveal host_id job_id token now d =
     guard (token \<noteq> '''') ErrLeaseLost
     (require (hex_decodes hash \<and> length hash = 64) ''job completion hash is invalid''
     (case find (\<lambda>j. completable host_id job_id token now j \<and> operation_exists d (j_operation_id j))
         (db_jobs d) of
        None \<Rightarrow> Inl ErrLeaseLost
      | Some j \<Rightarrow>
          if terminal_status (j_status j) then
            guard (length (jr_completion_hash j) = 64 \<and> jr_completion_hash j = hash) ErrStateChanged (Inr d)
          else and_then (check_completion now j r reveal)
            (\<lambda>p. apply_completion host_id job_id token hash j r p reveal now d)))"

section \<open>Credential reveals\<close>

text \<open>The purge is a statement of its own: it stays even when nothing is found.\<close>

definition get_credential_reveal ::
    "string \<Rightarrow> timestamp \<Rightarrow> db \<Rightarrow> (string \<times> timestamp) result \<times> db" where
  "get_credential_reveal op now d =
     (let d = purge_reveals now d
      in (case find (\<lambda>c. cr_operation_id c = op \<and> now < cr_expires_at c) (db_reveals d) of
            None \<Rightarrow> Inl ErrNotFound
          | Some c \<Rightarrow> Inr (cr_ciphertext c, cr_expires_at c), d))"

section \<open>Frames\<close>

lemma require_Inr [simp]: "require c msg r = Inr y \<longleftrightarrow> c \<and> r = Inr y"
  by (simp add: require_def)

lemma record_inventories_frame:
  assumes "record_inventories p d = Inr d'"
  shows "db_jobs d' = db_jobs d" "db_instances d' = db_instances d"
    "db_operations d' = db_operations d" "db_remediation d' = db_remediation d"
    "db_messages d' = db_messages d" "db_events d' = db_events d"
  using assms by (auto simp: record_inventories_def split: option.splits)

lemma record_operation_result_frame [simp]:
  "db_jobs (record_operation_result j r p now m d) = db_jobs d"
  "db_instances (record_operation_result j r p now m d) = db_instances d"
  "db_remediation (record_operation_result j r p now m d) = db_remediation d"
  by (simp_all add: record_operation_result_def)

lemma record_instance_result_frame:
  assumes "record_instance_result j p err now d = Inr d'"
  shows "db_jobs d' = db_jobs d" "db_operations d' = db_operations d"
    "db_remediation d' = db_remediation d"
    and "spares_instance (j_type j) \<Longrightarrow> d' = d"
  using assms by (auto simp: record_instance_result_def update_instances_Inr split: if_splits)

lemma finish_chat_message_frame:
  assumes "finish_chat_message op q r now d = Inr d'"
  shows "db_jobs d' = db_jobs d" "db_instances d' = db_instances d"
    "db_operations d' = db_operations d" "db_remediation d' = db_remediation d"
  using assms
  by (auto simp: finish_chat_message_def Let_def insert_message_Inr split: if_splits
      dest: append_closing_event_frame)

lemma complete_chat_frame:
  assumes "complete_chat j r now d = Inr d'"
  shows "db_jobs d' = db_jobs d" "db_instances d' = db_instances d"
    "db_operations d' = db_operations d" "db_remediation d' = db_remediation d"
  using assms
  by (auto simp: complete_chat_def split: if_splits option.splits dest: finish_chat_message_frame)

lemma complete_remediation_frame [simp]:
  "db_jobs (complete_remediation j r now d) = db_jobs d"
  "db_instances (complete_remediation j r now d) = db_instances d"
  "db_operations (complete_remediation j r now d) = db_operations d"
  by (simp_all add: complete_remediation_def fail_remediation_attempt_def)

text \<open>
  The desired state is written to the job's own instance row only, and keeps what the
  allocation constraints and the lifecycle read.
\<close>

definition same_lifecycle :: "instance_row \<Rightarrow> instance_row \<Rightarrow> bool" where
  "same_lifecycle r s \<longleftrightarrow> in_id r = in_id s \<and> in_status r = in_status s \<and> in_name r = in_name s
     \<and> in_host_id r = in_host_id s \<and> in_api_port r = in_api_port s
     \<and> in_dashboard_port r = in_dashboard_port s \<and> in_public_hostname r = in_public_hostname s
     \<and> in_last_error r = in_last_error s"

lemma same_lifecycle_refl [simp]: "same_lifecycle r r"
  by (simp add: same_lifecycle_def)

lemma same_lifecycle_trans: "same_lifecycle r s \<Longrightarrow> same_lifecycle s t \<Longrightarrow> same_lifecycle r t"
  by (simp add: same_lifecycle_def)

definition only_instance :: "string \<Rightarrow> (instance_row \<Rightarrow> instance_row \<Rightarrow> bool) \<Rightarrow> db \<Rightarrow> db \<Rightarrow> bool" where
  "only_instance i R d d' \<longleftrightarrow> list_all2 (\<lambda>r s. if in_id r = i then R r s else s = r)
     (db_instances d) (db_instances d')"

lemma only_instance_refl: "(\<And>r. R r r) \<Longrightarrow> db_instances d' = db_instances d \<Longrightarrow> only_instance i R d d'"
  by (simp add: only_instance_def list_all2_same)

lemma only_instance_update:
  assumes "update_instances (\<lambda>r. in_id r = i) f d = Inr d'" and "\<And>r. R r (f r)"
  shows "only_instance i R d d'"
  using assms
  by (auto simp: only_instance_def update_instances_Inr update_where_def list_all2_conv_all_nth)

lemma only_instance_trans:
  assumes "only_instance i R d d1" and "only_instance i R' d1 d2"
    and "\<And>r s t. R r s \<Longrightarrow> R' s t \<Longrightarrow> Q r t" and "\<And>r s. R r s \<Longrightarrow> in_id s = in_id r"
  shows "only_instance i Q d d2"
proof -
  have "list_all2 (\<lambda>r t. if in_id r = i then Q r t else t = r) (db_instances d) (db_instances d2)"
    by (rule list_all2_trans[OF _ assms(1)[unfolded only_instance_def] assms(2)[unfolded only_instance_def]])
      (use assms(3,4) in \<open>fastforce split: if_splits\<close>)
  then show ?thesis by (simp add: only_instance_def)
qed

lemma update_instances_frame:
  assumes "update_instances P f d = Inr d'"
  shows "db_jobs d' = db_jobs d" "db_operations d' = db_operations d"
    "db_remediation d' = db_remediation d"
  using assms by (auto simp: update_instances_Inr)

text \<open>A statement of the desired state: it either runs on the job's instance or does nothing.\<close>

definition desired_update :: "string \<Rightarrow> db \<Rightarrow> db \<Rightarrow> bool" where
  "desired_update i d d' \<longleftrightarrow> d' = d \<or>
     (\<exists>f. update_instances (\<lambda>r. in_id r = i) f d = Inr d' \<and> (\<forall>r. same_lifecycle r (f r)))"

lemma desired_update_frame:
  assumes "desired_update i d d'"
  shows "db_jobs d' = db_jobs d" "db_operations d' = db_operations d"
    "db_remediation d' = db_remediation d" "only_instance i same_lifecycle d d'"
  using assms unfolding desired_update_def
  by (auto simp: update_instances_Inr intro: only_instance_refl only_instance_update)

lemma same_lifecycle_updates:
  "same_lifecycle i (i\<lparr>in_image := a, in_updated_at := t\<rparr>)"
  "same_lifecycle i (i\<lparr>in_image := a, in_image_id := b, in_provider := c, in_model := d,
     in_reasoning := e, in_service_tier := f, in_codex_configured := g, in_updated_at := t\<rparr>)"
  "same_lifecycle i (i\<lparr>in_provider := c, in_model := d, in_reasoning := e, in_service_tier := f,
     in_codex_configured := g, in_updated_at := t\<rparr>)"
  by (simp_all add: same_lifecycle_def)

lemma desired_state_updates:
  "restore_desired_state j r p now d = Inr d' \<Longrightarrow> desired_update (j_instance_id j) d d'"
  "upgrade_desired_state j r p now d = Inr d' \<Longrightarrow> desired_update (j_instance_id j) d d'"
  "update_desired_state j r p now d = Inr d' \<Longrightarrow> desired_update (j_instance_id j) d d'"
  "configure_desired_state j r now d = Inr d' \<Longrightarrow> desired_update (j_instance_id j) d d'"
  unfolding desired_update_def restore_desired_state_def upgrade_desired_state_def
    update_desired_state_def configure_desired_state_def
  by (auto split: option.splits if_splits intro!: exI same_lifecycle_updates)

lemma record_desired_state_frame:
  assumes "record_desired_state j r p now d = Inr d'"
  shows "db_jobs d' = db_jobs d" "db_operations d' = db_operations d"
    "db_remediation d' = db_remediation d" "only_instance (j_instance_id j) same_lifecycle d d'"
proof -
  obtain d1 d2 d3 where s: "restore_desired_state j r p now d = Inr d1"
    "upgrade_desired_state j r p now d1 = Inr d2" "update_desired_state j r p now d2 = Inr d3"
    "configure_desired_state j r now d3 = Inr d'"
    using assms by (auto simp: record_desired_state_def)
  note u = desired_state_updates(1)[OF s(1)] desired_state_updates(2)[OF s(2)]
    desired_state_updates(3)[OF s(3)] desired_state_updates(4)[OF s(4)]
  note f = desired_update_frame[OF u(1)] desired_update_frame[OF u(2)] desired_update_frame[OF u(3)]
    desired_update_frame[OF u(4)]
  show "db_jobs d' = db_jobs d" "db_operations d' = db_operations d"
    "db_remediation d' = db_remediation d" using f by simp_all
  have t: "only_instance (j_instance_id j) same_lifecycle a c"
    if "only_instance (j_instance_id j) same_lifecycle a b"
      "only_instance (j_instance_id j) same_lifecycle b c" for a b c
    by (rule only_instance_trans[OF that]) (auto simp: same_lifecycle_def)
  show "only_instance (j_instance_id j) same_lifecycle d d'"
    using t f by blast
qed


lemma complete_config_frame:
  assumes "complete_config j r now d = Inr d'"
  shows "db_jobs d' = db_jobs d" "db_instances d' = db_instances d"
    "db_operations d' = db_operations d" "db_remediation d' = db_remediation d"
  using assms by (auto simp: complete_config_def split: if_splits option.splits)

lemma store_reveal_frame [simp]:
  "db_jobs (store_reveal op e now d) = db_jobs d"
  "db_instances (store_reveal op e now d) = db_instances d"
  "db_operations (store_reveal op e now d) = db_operations d"
  "db_remediation (store_reveal op e now d) = db_remediation d"
  by (simp_all add: store_reveal_def purge_reveals_def Let_def split: option.split)

lemma clear_deleted_requests_frame [simp]:
  "db_jobs (clear_deleted_requests j r d) = db_jobs d"
  "db_instances (clear_deleted_requests j r d) = db_instances d"
  "db_operations (clear_deleted_requests j r d) = db_operations d"
  "db_remediation (clear_deleted_requests j r d) = db_remediation d"
  by (simp_all add: clear_deleted_requests_def)

lemma apply_effects_stages:
  assumes "apply_effects j r p reveal now metadata d = Inr d'"
  obtains d1 m d3 d4 d5 d6 where "record_inventories p d = Inr d1"
    "stored_metadata metadata = Inr m"
    "record_instance_result j p (result_error_text r) now (record_operation_result j r p now m d1) = Inr d3"
    "complete_chat j r now d3 = Inr d4"
    "record_desired_state j r p now (complete_remediation j r now d4) = Inr d5"
    "complete_config j r now d5 = Inr d6"
    "d' = store_reveal (j_operation_id j) reveal now (clear_deleted_requests j r d6)"
  using assms by (auto simp: apply_effects_def)

lemma apply_effects_frame:
  assumes "apply_effects j r p reveal now metadata d = Inr d'"
  shows "db_jobs d' = db_jobs d"
    and "db_remediation d' = db_remediation (complete_remediation j r now d)"
    and "\<exists>m. stored_metadata metadata = Inr m \<and>
       db_operations d' = db_operations (record_operation_result j r p now m d)"
proof -
  obtain d1 m d3 d4 d5 d6 where s: "record_inventories p d = Inr d1"
    "stored_metadata metadata = Inr m"
    "record_instance_result j p (result_error_text r) now (record_operation_result j r p now m d1) = Inr d3"
    "complete_chat j r now d3 = Inr d4"
    "record_desired_state j r p now (complete_remediation j r now d4) = Inr d5"
    "complete_config j r now d5 = Inr d6"
    "d' = store_reveal (j_operation_id j) reveal now (clear_deleted_requests j r d6)"
    by (rule apply_effects_stages[OF assms])
  note f = record_inventories_frame[OF s(1)] record_instance_result_frame(1-3)[OF s(3)]
    complete_chat_frame[OF s(4)] record_desired_state_frame(1-3)[OF s(5)]
    complete_config_frame[OF s(6)]
  show "db_jobs d' = db_jobs d" using f s(7) by simp
  have "db_remediation d4 = db_remediation d" using f by simp
  then have "db_remediation (complete_remediation j r now d4) = db_remediation (complete_remediation j r now d)"
    by (simp add: complete_remediation_def fail_remediation_attempt_def)
  then show "db_remediation d' = db_remediation (complete_remediation j r now d)"
    using f s(7) by simp
  have "db_operations (record_operation_result j r p now m d1) = db_operations (record_operation_result j r p now m d)"
    using f by (simp add: record_operation_result_def)
  then show "\<exists>m. stored_metadata metadata = Inr m \<and>
       db_operations d' = db_operations (record_operation_result j r p now m d)"
    using f s(2,7) by auto
qed

section \<open>What a completion does\<close>

text \<open>A completion that succeeds either repeats a recorded one or finishes a running job.\<close>

lemma complete_job_cases:
  assumes "complete_job_with_hash hash r reveal h i t now d = Inr d'"
  obtains (Replayed) j where "j \<in> set (db_jobs d)" "holds_token h i t j" "terminal_status (j_status j)"
      "jr_completion_hash j = hash" "length hash = 64" "hex_decodes hash"
      "operation_exists d (j_operation_id j)" "d' = d"
  | (Finished) j p where "j \<in> set (db_jobs d)" "held_in JobRunning h i t now j" "length hash = 64"
      "hex_decodes hash" "operation_exists d (j_operation_id j)"
      "check_completion now j r reveal = Inr p"
      "count_where (held_in JobRunning h i t now) (db_jobs d) = 1"
      "apply_effects j r p reveal now (operation_metadata d (j_operation_id j))
         (d\<lparr>db_jobs := update_where (held_in JobRunning h i t now)
            (finish_row now (job_result_status r) hash) (db_jobs d)\<rparr>) = Inr d'"
proof -
  let ?hit = "\<lambda>j. completable h i t now j \<and> operation_exists d (j_operation_id j)"
  obtain j where f: "find ?hit (db_jobs d) = Some j" and l: "length hash = 64" "hex_decodes hash"
    and body: "(if terminal_status (j_status j) then
            guard (length (jr_completion_hash j) = 64 \<and> jr_completion_hash j = hash) ErrStateChanged (Inr d)
          else and_then (check_completion now j r reveal)
            (\<lambda>p. apply_completion h i t hash j r p reveal now d)) = Inr d'"
    using assms by (auto simp: complete_job_with_hash_def split: option.splits)
  have j: "j \<in> set (db_jobs d)" "completable h i t now j" "operation_exists d (j_operation_id j)"
    using find_SomeD[OF f] by auto
  show thesis
  proof (cases "terminal_status (j_status j)")
    case True
    then show thesis using Replayed[of j] j l body by (simp add: completable_def)
  next
    case False
    then obtain p where "check_completion now j r reveal = Inr p"
      "apply_completion h i t hash j r p reveal now d = Inr d'" using body by auto
    moreover have "held_in JobRunning h i t now j"
      using j(2) False by (simp add: completable_def holds_token_def held_in_def)
    ultimately show thesis using Finished[of j p] j(1,3) l by (simp add: apply_completion_def Let_def)
  qed
qed

lemma complete_job_jobs:
  assumes "complete_job_with_hash hash r reveal h i t now d = Inr d'"
  shows "d' = d \<or> length hash = 64 \<and> count_where (held_in JobRunning h i t now) (db_jobs d) = 1
     \<and> db_jobs d' = update_where (held_in JobRunning h i t now)
        (finish_row now (job_result_status r) hash) (db_jobs d)"
  using assms by (cases rule: complete_job_cases) (auto dest: apply_effects_frame(1))

interpretation completion: lease_fenced "complete_job_with_hash hash r reveal"
proof
  fix h i t now d d'
  assume "complete_job_with_hash hash r reveal h i t now d = Inr d'"
  then show "\<exists>j \<in> set (db_jobs d). holds_token h i t j"
    by (cases rule: complete_job_cases) (auto dest: held_in_token)
qed

lemma complete_job_step:
  assumes "complete_job_with_hash hash r reveal h i t now d = Inr d'"
  shows "table_step T now (db_jobs d) (db_jobs d')"
  using complete_job_jobs[OF assms]
proof
  assume "d' = d"
  then show ?thesis using table_step_same by simp
next
  assume f: "length hash = 64 \<and> count_where (held_in JobRunning h i t now) (db_jobs d) = 1
     \<and> db_jobs d' = update_where (held_in JobRunning h i t now)
        (finish_row now (job_result_status r) hash) (db_jobs d)"
  then have "db_jobs d' = update_where (held_in JobRunning h i t now)
        (finish_row now (job_result_status r) hash) (db_jobs d)" by blast
  moreover have "table_step T now (db_jobs d) (update_where (held_in JobRunning h i t now)
        (finish_row now (job_result_status r) hash) (db_jobs d))"
  proof (rule Move)
    show "job_step T now q (finish_row now (job_result_status r) hash q)"
      if "held_in JobRunning h i t now q" for q
      using that f by (intro Finish) (auto simp: held_in_def terminal_status_def job_result_status_def)
  qed (auto simp: finish_row_def lease_defs job_result_status_def split: if_splits)
  ultimately show ?thesis by simp
qed

section \<open>Repeating a completion\<close>

lemma find_by_id:
  assumes "distinct (map key rows)" and "r \<in> set rows" and "P r"
    and "\<And>q. q \<in> set rows \<Longrightarrow> P q \<Longrightarrow> key q = key r"
  shows "find P rows = Some r"
proof (cases "find P rows")
  case None
  then show ?thesis using assms(2,3) by (auto simp: find_None_iff)
next
  case (Some q)
  have q: "q \<in> set rows \<and> P q" by (rule find_SomeD[OF Some])
  then have "key q = key r" using assms(4) by blast
  then have "q = r" using unique_row[OF assms(1), of q r] q assms(2) by blast
  then show ?thesis using Some by simp
qed

text \<open>The recorded job decides: the token is right, the job has ended.\<close>

lemma complete_terminal_job:
  assumes "distinct (map j_id (db_jobs d))" and "j \<in> set (db_jobs d)" and "holds_token h i t j"
    and "terminal_status (j_status j)" and "operation_exists d (j_operation_id j)" and "t \<noteq> ''''"
    and "hex_decodes hash" "length hash = 64"
  shows "complete_job_with_hash hash r reveal h i t now d =
     (if length (jr_completion_hash j) = 64 \<and> jr_completion_hash j = hash then Inr d else Inl ErrStateChanged)"
proof -
  have "find (\<lambda>j. completable h i t now j \<and> operation_exists d (j_operation_id j)) (db_jobs d) = Some j"
    by (rule find_by_id[where key = j_id])
      (use assms in \<open>auto simp: completable_def holds_token_def\<close>)
  then show ?thesis
    using assms(4,6-8) by (simp add: complete_job_with_hash_def require_def guard_def)
qed

lemma operation_exists_keys: "operation_exists d i \<longleftrightarrow> i \<in> op_id ` set (db_operations d)"
  by (simp add: operation_exists_def list_ex_key)

lemma record_operation_keeps_ids:
  "op_id ` set (db_operations (record_operation_result j r p now m d)) = op_id ` set (db_operations d)"
proof -
  have "map op_id (db_operations (record_operation_result j r p now m d)) = map op_id (db_operations d)"
    unfolding record_operation_result_def by (simp add: map_update_where)
  then show ?thesis by (metis set_map)
qed

lemma complete_job_recorded:
  assumes "complete_job_with_hash hash r reveal h i t now d = Inr d'"
  obtains j where "j \<in> set (db_jobs d')" "holds_token h i t j" "terminal_status (j_status j)"
    "jr_completion_hash j = hash" "operation_exists d' (j_operation_id j)"
    "hex_decodes hash" "length hash = 64" "map j_id (db_jobs d') = map j_id (db_jobs d)" "t \<noteq> ''''"
proof -
  have t: "t \<noteq> ''''" using assms by (simp add: complete_job_with_hash_def)
  from assms show thesis
  proof (cases rule: complete_job_cases)
    case (Replayed j)
    then show thesis using that[of j] t by simp
  next
    case (Finished j p)
    let ?f = "finish_row now (job_result_status r) hash"
    have jobs: "db_jobs d' = update_where (held_in JobRunning h i t now) ?f (db_jobs d)"
      using apply_effects_frame(1)[OF Finished(8)] by simp
    obtain m where ops: "db_operations d' = db_operations (record_operation_result j r p now m
        (d\<lparr>db_jobs := update_where (held_in JobRunning h i t now) ?f (db_jobs d)\<rparr>))"
      using apply_effects_frame(3)[OF Finished(8)] by blast
    have "operation_exists d' (j_operation_id j)"
      using Finished(5) unfolding operation_exists_keys ops record_operation_keeps_ids by simp
    moreover have "?f j \<in> set (db_jobs d')"
      unfolding jobs set_update_where using Finished(1,2) by auto
    moreover have "map j_id (db_jobs d') = map j_id (db_jobs d)"
      unfolding jobs by (rule map_update_where) (simp add: finish_row_def)
    ultimately show thesis
      using that[of "?f j"] Finished(2-4) t
      by (simp add: finish_row_def holds_token_def held_in_def terminal_status_def job_result_status_def)
  qed
qed

section \<open>The instance row\<close>

lemma complete_job_spares:
  assumes "complete_job_with_hash hash r reveal h i t now d = Inr d'"
    and "\<And>j. j \<in> set (db_jobs d) \<Longrightarrow> j_id j = i \<Longrightarrow> spares_instance (j_type j)"
  shows "db_instances d' = db_instances d"
  using assms(1)
proof (cases rule: complete_job_cases)
  case (Finished j p)
  have sp: "spares_instance (j_type j)" using Finished(1,2) assms(2) by (simp add: held_in_def)
  have checked: "pl_restore p = None" "pl_upgrade p = None" "pl_update p = None"
    using Finished(6) sp
    by (auto simp: check_completion_def check_by_type_def check_after_def initial_completion_def
        spares_instance_def check_profiles_def check_chat_def split: if_splits option.splits)
  show ?thesis
    using Finished(8)
  proof (rule apply_effects_stages)
    fix d1 m d3 d4 d5 d6
    let ?d0 = "d\<lparr>db_jobs := update_where (held_in JobRunning h i t now)
            (finish_row now (job_result_status r) hash) (db_jobs d)\<rparr>"
    assume s: "record_inventories p ?d0 = Inr d1"
      "record_instance_result j p (result_error_text r) now (record_operation_result j r p now m d1) = Inr d3"
      "complete_chat j r now d3 = Inr d4"
      "record_desired_state j r p now (complete_remediation j r now d4) = Inr d5"
      "complete_config j r now d5 = Inr d6"
      "d' = store_reveal (j_operation_id j) reveal now (clear_deleted_requests j r d6)"
    have "j_type j \<noteq> JobRuntimeConfigure" using sp by (auto simp: spares_instance_def)
    then have "d5 = complete_remediation j r now d4"
      using s(4) checked by (auto simp: record_desired_state_def restore_desired_state_def
          upgrade_desired_state_def update_desired_state_def configure_desired_state_def)
    then show "db_instances d' = db_instances d"
      using s record_inventories_frame(2)[OF s(1)] record_instance_result_frame(4)[OF s(2) sp]
        complete_chat_frame(2)[OF s(3)] complete_config_frame(2)[OF s(5)] by simp
  qed
qed simp

end
