(* ===== verification/Sample_Fleet.thy ===== *)
theory Sample_Fleet
  imports Store_Complete
begin

text \<open>
  A small fleet on which the theorems of the development are exercised: one host, one running
  instance and one queued job, and the databases that the store functions make of it.
\<close>

definition sample_host :: host_row where
  "sample_host = \<lparr>h_id = ''h1'', h_name = ''rack'', h_hostname = ''rack.local'', h_os = ''linux'',
     h_arch = ''arm64'', h_agent_version = ''1.0'', h_last_seen_at = 0, h_created_at = 0,
     hr_token_hash = ''hash''\<rparr>"

definition sample_instance :: instance_row where
  "sample_instance = \<lparr>in_id = ''i1'', in_name = ''nara'', in_host_id = ''h1'',
     in_status = InstanceRunning, in_image = ''hermes'', in_image_id = '''', in_provider = ''xai'',
     in_model = ''grok-4'', in_reasoning = '''', in_service_tier = '''', in_codex_configured = True,
     in_api_port = 8650, in_dashboard_port = 9130, in_public_hostname = '''',
     in_project_name = ''p'', in_data_volume = ''v'', in_managed_path = ''/srv/nara'',
     in_last_error = '''', in_created_at = 0, in_updated_at = 0\<rparr>"

definition sample_operation :: "string \<Rightarrow> operation_type \<Rightarrow> timestamp \<Rightarrow> operation" where
  "sample_operation i t at = \<lparr>op_id = i, op_instance_id = ''i1'', op_workflow_id = '''',
     op_actor = '''', op_type = t, op_status = OperationPending, op_summary = ''work'',
     op_metadata = None, op_progress = None, op_error = '''', op_created_at = at,
     op_updated_at = at\<rparr>"

definition sample_job :: "string \<Rightarrow> string \<Rightarrow> job_type \<Rightarrow> raw_json \<Rightarrow> timestamp \<Rightarrow> job" where
  "sample_job i op t payload at = \<lparr>j_id = i, j_operation_id = op, j_host_id = ''h1'',
     j_instance_id = ''i1'', j_type = t, j_status = JobPending, j_payload = payload,
     j_attempts = 0, j_lease_token = '''', j_lease_expires_at = None, j_created_at = at,
     j_updated_at = at\<rparr>"

definition idle_fleet :: db where
  "idle_fleet = empty_db\<lparr>db_hosts := [sample_host], db_instances := [sample_instance]\<rparr>"

text \<open>The result of a step that is known to succeed, the old database otherwise.\<close>

definition after :: "db result \<Rightarrow> db \<Rightarrow> db" where
  "after r d = (case r of Inl _ \<Rightarrow> d | Inr d' \<Rightarrow> d')"

definition claimed :: "(job option \<times> db) result \<Rightarrow> db \<Rightarrow> db" where
  "claimed r d = (case r of Inl _ \<Rightarrow> d | Inr (_, d') \<Rightarrow> d')"

text \<open>The fleet with a queued restart, after a Host Agent took it, and while it runs it.\<close>

definition restart_operation :: operation where
  "restart_operation = sample_operation ''o1'' (OpOther ''RESTART'') 1"

definition restart_job :: job where
  "restart_job = sample_job ''j1'' ''o1'' JobRestart (Some (JObject [])) 1"

definition queued_fleet :: db where
  "queued_fleet = after (queue_action InstanceRunning InstanceRestarting restart_operation
     restart_job idle_fleet) idle_fleet"

definition leased_fleet :: db where
  "leased_fleet = claimed (claim_job ''h1'' 100 10 ''token'' queued_fleet) queued_fleet"

definition running_fleet :: db where
  "running_fleet = after (acknowledge_job 100 ''h1'' ''j1'' ''token'' 20 leased_fleet) leased_fleet"

definition plain_result :: "bool \<Rightarrow> job_result" where
  "plain_result ok = \<lparr>jx_success = ok, jx_message = '''', jx_error = (if ok then '''' else ''broken''),
     jx_project_name = '''', jx_data_volume = '''', jx_managed_path = '''', jx_image_id = '''',
     jx_credentials = None, jx_instance_status = NoStatus, jx_recovery_point_id = '''',
     jx_recovery_sha256 = '''', jx_recovery_size = 0, jx_chat_message = '''',
     jx_chat_ciphertext = '''', jx_chat_artifacts = [], jx_profiles = None,
     jx_capabilities = None, jx_skill_content = None\<rparr>"

definition hash_a :: string where
  "hash_a = replicate 64 (CHR ''a'')"

definition hash_b :: string where
  "hash_b = replicate 64 (CHR ''b'')"

definition finished_fleet :: db where
  "finished_fleet =
     after (complete_job_with_hash hash_a (plain_result True) None ''h1'' ''j1'' ''token'' 30 running_fleet)
       running_fleet"

end
