(* ===== verification/Properties_Completion.thy ===== *)
theory Properties_Completion
  imports Sample_Fleet
begin

text \<open>
  Properties of the completion of a job and of the calls a Host Agent makes while it holds one.
\<close>

text \<open>C1. A completion is recorded once: when a call succeeded, any later call with the same
  token and the same hash succeeds without changing the database, whatever result it carries,
  also after the deadline of the lease; a call with another valid hash is refused with
  \<open>ErrStateChanged\<close>.\<close>

theorem completion_recorded_once:
  assumes "complete_job_with_hash hash r reveal h i t now d = Inr d'"
    and "distinct (map j_id (db_jobs d))"
  shows "complete_job_with_hash hash r2 reveal2 h i t later d' = Inr d'
     \<and> (hex_decodes hash2 \<longrightarrow> length hash2 = 64 \<longrightarrow> hash2 \<noteq> hash \<longrightarrow>
          complete_job_with_hash hash2 r2 reveal2 h i t later d' = Inl ErrStateChanged)"
proof -
  obtain j where j: "j \<in> set (db_jobs d')" "holds_token h i t j" "terminal_status (j_status j)"
    "jr_completion_hash j = hash" "operation_exists d' (j_operation_id j)"
    "hex_decodes hash" "length hash = 64" "map j_id (db_jobs d') = map j_id (db_jobs d)" "t \<noteq> ''''"
    by (rule complete_job_recorded[OF assms(1)])
  then show ?thesis
    using complete_terminal_job[of d' j h i t] assms(2) by simp
qed

theorem completion_recorded_once_witness:
  "complete_job_with_hash hash_a (plain_result False) None ''h1'' ''j1'' ''token'' 5000 finished_fleet
     = Inr finished_fleet
   \<and> complete_job_with_hash hash_b (plain_result False) None ''h1'' ''j1'' ''token'' 5000 finished_fleet
     = Inl ErrStateChanged"
proof -
  have "complete_job_with_hash hash_a (plain_result True) None ''h1'' ''j1'' ''token'' 30 running_fleet
      = Inr finished_fleet" by code_simp
  moreover have "distinct (map j_id (db_jobs running_fleet))" by code_simp
  moreover have "hex_decodes hash_b" "length hash_b = 64" "hash_b \<noteq> hash_a" by code_simp+
  ultimately show ?thesis
    using completion_recorded_once[of hash_a "plain_result True" None "''h1''" "''j1''" "''token''" 30
        running_fleet finished_fleet] by blast
qed

text \<open>Inspecting credentials or profiles, signing in to a provider and sending a chat message
  leave every instance row as it is when they complete: the observation generation of the
  instance does not advance.\<close>

theorem inspection_leaves_instances:
  assumes "complete_job_with_hash hash r reveal h i t now d = Inr d'"
    and "\<forall>j \<in> set (db_jobs d). j_id j = i \<longrightarrow> spares_instance (j_type j)"
  shows "db_instances d' = db_instances d"
  using complete_job_spares[OF assms(1)] assms(2) by blast

definition auth_fleet :: db where
  "auth_fleet =
     after (acknowledge_job 100 ''h1'' ''j2'' ''token'' 20
       (claimed (claim_job ''h1'' 100 10 ''token''
         (after (queue_codex_auth (sample_operation ''o2'' OpCodexAuth 1)
            (sample_job ''j2'' ''o2'' JobAuthCodex (Some (JObject [])) 1) idle_fleet) idle_fleet))
         idle_fleet)) idle_fleet"

theorem inspection_leaves_instances_witness:
  "\<exists>d'. complete_job_with_hash hash_a (plain_result True) None ''h1'' ''j2'' ''token'' 30 auth_fleet = Inr d'
     \<and> db_instances d' = db_instances auth_fleet"
proof -
  let ?c = "complete_job_with_hash hash_a (plain_result True) None ''h1'' ''j2'' ''token'' 30 auth_fleet"
  have "?c = Inr (after ?c auth_fleet)" by code_simp
  moreover have "\<forall>j \<in> set (db_jobs auth_fleet). j_id j = ''j2'' \<longrightarrow> spares_instance (j_type j)"
    by code_simp
  ultimately show ?thesis
    using inspection_leaves_instances[of hash_a "plain_result True" None "''h1''" "''j2''" "''token''" 30
        auth_fleet] by blast
qed

end
