(* ===== verification/Store_Observations.thy ===== *)
theory Store_Observations
  imports Store_Complete
begin

text \<open>
  Observations of \<open>internal/store/store.go\<close>: the reports of a Host Agent (\<open>RecordObservations\<close>,
  \<open>ListObservationTargets\<close>, \<open>RequestObservation\<close>) and the two automatic repairs they drive, the
  runtime synchronisation (\<open>TrackRuntimeConfigurationObservation\<close>) and the runtime remediation
  (\<open>TrackRuntimeHealthObservation\<close> with its queue failure and cancellation). The row of
  \<open>instance_observations\<close> is the observation with the host, the receipt time and no request id.
  The counters of a remediation row keep the invariant \<open>remediation_ok\<close> under every operation.
\<close>

section \<open>Reports\<close>

definition is_observable_instance_status :: "instance_status \<Rightarrow> bool" where
  "is_observable_instance_status s \<longleftrightarrow> s = InstanceRunning \<or> s = InstanceStopped \<or> s = InstanceFailed"

definition observation_generation :: "timestamp \<Rightarrow> string" where
  "observation_generation updated_at = format_rfc3339_nano updated_at"

record observation_target =
  ot_instance_id :: string
  ot_name :: string
  ot_provider :: string
  ot_model :: string
  ot_codex_configured :: bool
  ot_desired_status :: instance_status
  ot_image :: string
  ot_image_id :: string
  ot_project_name :: string
  ot_data_volume :: string
  ot_managed_path :: string
  ot_api_port :: int
  ot_dashboard_port :: int
  ot_generation :: string
  ot_refresh_request_id :: string

definition observation_target_of :: "db \<Rightarrow> instance_row \<Rightarrow> observation_target" where
  "observation_target_of d r =
     \<lparr>ot_instance_id = in_id r, ot_name = in_name r, ot_provider = in_provider r,
      ot_model = in_model r, ot_codex_configured = in_codex_configured r,
      ot_desired_status = in_status r, ot_image = in_image r, ot_image_id = in_image_id r,
      ot_project_name = in_project_name r, ot_data_volume = in_data_volume r,
      ot_managed_path = in_managed_path r, ot_api_port = in_api_port r,
      ot_dashboard_port = in_dashboard_port r,
      ot_generation = observation_generation (in_updated_at r),
      ot_refresh_request_id =
        (case find_row rq_instance_id (in_id r) (db_requests d) of
           None \<Rightarrow> '''' | Some q \<Rightarrow> rq_request_id q)\<rparr>"

definition list_observation_targets :: "string \<Rightarrow> db \<Rightarrow> observation_target list" where
  "list_observation_targets host d =
     map (observation_target_of d) (sort_key in_name
       (filter (\<lambda>r. in_host_id r = host \<and> is_observable_instance_status (in_status r)
          \<and> in_project_name r \<noteq> '''' \<and> in_data_volume r \<noteq> '''' \<and> in_managed_path r \<noteq> '''')
        (db_instances d)))"

definition store_observation :: "string \<Rightarrow> timestamp \<Rightarrow> instance_observation \<Rightarrow> db \<Rightarrow> db" where
  "store_observation host received b d =
     d\<lparr>db_observations := upsert_by io_instance_id
         (b\<lparr>io_host_id := host, io_refresh_request_id := '''', io_received_at := received\<rparr>)
         (db_observations d),
       db_requests := (if io_refresh_request_id b = '''' then db_requests d
         else delete_where (\<lambda>q. rq_instance_id q = io_instance_id b \<and> rq_host_id q = host
           \<and> rq_request_id q = io_refresh_request_id b) (db_requests d))\<rparr>"

text \<open>An equal or older report of the same generation is dropped.\<close>

definition record_observation :: "string \<Rightarrow> timestamp \<Rightarrow> instance_observation \<Rightarrow> db \<Rightarrow> db result" where
  "record_observation host received b d =
     (case find_instance d (io_instance_id b) of
        None \<Rightarrow> Inl ErrObservationOwnership
      | Some r \<Rightarrow>
          guard (in_host_id r = host) ErrObservationOwnership (Inr (
          if \<not> is_observable_instance_status (in_status r)
             \<or> io_target_generation b \<noteq> observation_generation (in_updated_at r) then d
          else (case find_row io_instance_id (io_instance_id b) (db_observations d) of
              None \<Rightarrow> store_observation host received b d
            | Some q \<Rightarrow>
                if io_target_generation q \<noteq> io_target_generation b
                then store_observation host received b d
                else if \<not> io_observed_at b > io_observed_at q then d
                else store_observation host
                  (if io_received_at q > received then io_received_at q else received) b d))))"

fun record_observations ::
    "string \<Rightarrow> instance_observation list \<Rightarrow> timestamp \<Rightarrow> db \<Rightarrow> db result" where
  "record_observations host [] received d = Inr d"
| "record_observations host (b # bs) received d =
     and_then (record_observation host received b d) (record_observations host bs received)"

definition request_observation ::
    "string \<Rightarrow> string \<Rightarrow> timestamp \<Rightarrow> db \<Rightarrow> (observation_request \<times> db) result" where
  "request_observation i request at d =
     (case find_instance d i of
        None \<Rightarrow> Inl ErrNotFound
      | Some r \<Rightarrow>
          guard (is_observable_instance_status (in_status r) \<and> in_project_name r \<noteq> ''''
              \<and> in_data_volume r \<noteq> '''' \<and> in_managed_path r \<noteq> '''') ErrObservationNotReady
          (guard (\<not> list_ex (\<lambda>q. rq_instance_id q = i) (db_requests d)) ErrObservationBusy
          (Inr (\<lparr>or_id = request, or_instance_id = i, or_requested_at = at\<rparr>,
             d\<lparr>db_requests := db_requests d @ [\<lparr>rq_instance_id = i, rq_host_id = in_host_id r,
                 rq_request_id = request, rq_requested_at = at\<rparr>]\<rparr>))))"

definition has_fresh_observation_check ::
    "string \<Rightarrow> string \<Rightarrow> check_status \<Rightarrow> timestamp \<Rightarrow> db \<Rightarrow> bool" where
  "has_fresh_observation_check i name status fresh_after d =
     (case (find_row io_instance_id i (db_observations d), find_instance d i) of
        (Some b, Some r) \<Rightarrow>
          io_target_generation b = observation_generation (in_updated_at r)
          \<and> \<not> io_received_at b < fresh_after
          \<and> list_ex (\<lambda>c. oc_name c = name \<and> oc_status c = status) (io_checks b)
      | _ \<Rightarrow> False)"

definition get_instance_provider_model_catalog ::
    "string \<Rightarrow> string \<Rightarrow> db \<Rightarrow> (string list \<times> string) result" where
  "get_instance_provider_model_catalog i provider d =
     (case (find_row io_instance_id i (db_observations d), find_instance d i) of
        (Some b, Some r) \<Rightarrow>
          let active = (io_model_catalog b, io_recommended_model b) in
          if provider = '''' then Inr active
          else (case map_of (io_provider_catalogs b) provider of
              Some (models, recommended) \<Rightarrow>
                if length models > 0 then Inr (models, recommended)
                else if provider \<noteq> in_provider r then Inl ErrNotFound else Inr active
            | None \<Rightarrow> if provider \<noteq> in_provider r then Inl ErrNotFound else Inr active)
      | _ \<Rightarrow> Inl ErrNotFound)"

section \<open>Runtime synchronisation\<close>

definition runtime_auto_sync_drift_threshold :: nat where
  "runtime_auto_sync_drift_threshold = 2"

definition runtime_auto_sync_max_attempts :: nat where
  "runtime_auto_sync_max_attempts = 3"

definition runtime_auto_sync_cooldown :: duration where
  "runtime_auto_sync_cooldown = minutes 5"

definition runtime_configuration_check_status :: "instance_observation \<Rightarrow> check_status option" where
  "runtime_configuration_check_status b =
     map_option oc_status (find (\<lambda>c. oc_name c = ''runtime_configuration'') (io_checks b))"

text \<open>The stored observation, when it is still the one that is tracked.\<close>

definition tracked :: "instance_observation \<Rightarrow> db \<Rightarrow> (instance_observation \<times> instance_row) option" where
  "tracked b d =
     (case (find_row io_instance_id (io_instance_id b) (db_observations d),
            find_instance d (io_instance_id b)) of
        (Some q, Some r) \<Rightarrow>
          if io_target_generation q \<noteq> io_target_generation b \<or> io_observed_at q \<noteq> io_observed_at b
          then None else Some (q, r)
      | _ \<Rightarrow> None)"

definition joined_revision :: "string list \<Rightarrow> string" where
  "joined_revision values = sha256_hex (join [CHR 0x00] values)"

definition sync_revision :: "instance_row \<Rightarrow> string" where
  "sync_revision r = joined_revision [in_provider r, in_model r, in_reasoning r, in_service_tier r]"

definition fresh_reconcile :: "string \<Rightarrow> string \<Rightarrow> reconcile_row" where
  "fresh_reconcile i revision = \<lparr>rc_instance_id = i, rc_desired_revision = revision,
     rc_consecutive_drift = 0, rc_attempts = 0, rc_last_observed_at = zero_time,
     rc_last_attempt_at = None\<rparr>"

definition sync_due :: "timestamp \<Rightarrow> reconcile_row \<Rightarrow> bool" where
  "sync_due at r \<longleftrightarrow> rc_consecutive_drift r \<ge> runtime_auto_sync_drift_threshold
     \<and> rc_attempts r < runtime_auto_sync_max_attempts
     \<and> (case rc_last_attempt_at r of None \<Rightarrow> True
          | Some l \<Rightarrow> at - l \<ge> runtime_auto_sync_cooldown)"

definition count_sync_drift :: "timestamp \<Rightarrow> timestamp \<Rightarrow> reconcile_row \<Rightarrow> bool \<times> reconcile_row" where
  "count_sync_drift received at r =
     (let r = r\<lparr>rc_consecutive_drift := rc_consecutive_drift r + 1,
               rc_last_observed_at := received\<rparr>
      in if sync_due at r
         then (True, r\<lparr>rc_attempts := rc_attempts r + 1, rc_last_attempt_at := Some at\<rparr>)
         else (False, r))"

definition clear_reconcile :: "string \<Rightarrow> db \<Rightarrow> db" where
  "clear_reconcile i d = d\<lparr>db_reconcile := delete_where (\<lambda>r. rc_instance_id r = i) (db_reconcile d)\<rparr>"

definition track_runtime_configuration_observation ::
    "instance_observation \<Rightarrow> timestamp \<Rightarrow> db \<Rightarrow> bool \<times> db" where
  "track_runtime_configuration_observation b at d =
     (case runtime_configuration_check_status b of
        None \<Rightarrow> (False, d)
      | Some (CheckOther []) \<Rightarrow> (False, d)
      | Some status \<Rightarrow>
          (case tracked b d of
             None \<Rightarrow> (False, d)
           | Some (q, r) \<Rightarrow>
               if \<not> in_codex_configured r \<or> status \<noteq> CheckDrift
               then (False, clear_reconcile (io_instance_id b) d)
               else
                 let stored = find_row rc_instance_id (io_instance_id b) (db_reconcile d);
                     current = (case stored of
                         Some s \<Rightarrow> if rc_desired_revision s = sync_revision r then Some s else None
                       | None \<Rightarrow> None)
                 in if (case current of None \<Rightarrow> False
                          | Some s \<Rightarrow> \<not> io_received_at q > rc_last_observed_at s)
                    then (False, d)
                    else let (queue, s) = count_sync_drift (io_received_at q) at
                           (case current of Some s \<Rightarrow> s
                              | None \<Rightarrow> fresh_reconcile (io_instance_id b) (sync_revision r))
                         in (queue, d\<lparr>db_reconcile := upsert_by rc_instance_id s (db_reconcile d)\<rparr>)))"

definition record_runtime_configuration_queue_failure :: "string \<Rightarrow> timestamp \<Rightarrow> db \<Rightarrow> db result" where
  "record_runtime_configuration_queue_failure i at d =
     (let hit = (\<lambda>r. rc_instance_id r = i \<and> rc_last_attempt_at r = Some at)
      in guard (count_where hit (db_reconcile d) = 1) ErrStateChanged
         (Inr (d\<lparr>db_reconcile := update_where hit
            (\<lambda>r. r\<lparr>rc_attempts := (if rc_attempts r > 0 then rc_attempts r - 1 else 0),
                   rc_last_attempt_at := None\<rparr>) (db_reconcile d)\<rparr>)))"

section \<open>Runtime remediation\<close>

definition runtime_remediation_drift_threshold :: nat where
  "runtime_remediation_drift_threshold = 2"

definition runtime_remediation_retry_delay :: duration where
  "runtime_remediation_retry_delay = seconds 30"

definition runtime_remediation_cooldown :: duration where
  "runtime_remediation_cooldown = minutes 5"

definition max_remediation_attempts :: nat where
  "max_remediation_attempts =
     runtime_remediation_attempts_per_phase * runtime_remediation_max_phases"

fun health_status :: "observation_check list \<Rightarrow> check_status option \<Rightarrow> check_status option" where
  "health_status [] status = status"
| "health_status (c # cs) status =
     (if oc_name c \<notin> {''runtime'', ''health_endpoint'', ''dashboard_endpoint''}
      then health_status cs status
      else if oc_status c = CheckDrift \<or> oc_status c = CheckMissing then Some CheckDrift
      else if oc_status c = CheckUnknown then health_status cs (Some CheckUnknown)
      else if oc_status c = CheckOK
      then health_status cs (if status = None then Some CheckOK else status)
      else health_status cs status)"

definition runtime_health_check_status :: "instance_observation \<Rightarrow> check_status option" where
  "runtime_health_check_status b = health_status (io_checks b) None"

definition runtime_repair_prerequisites_ok :: "instance_observation \<Rightarrow> bool" where
  "runtime_repair_prerequisites_ok b =
     list_all (\<lambda>n. list_ex (\<lambda>c. oc_name c = n \<and> oc_status c = CheckOK) (io_checks b))
       [''managed_path'', ''manifest'', ''environment'', ''workspace'', ''docker_daemon'', ''data_volume'']"

definition remediation_revision :: "instance_row \<Rightarrow> string" where
  "remediation_revision r = joined_revision
     [''RUNNING'', in_image r, in_image_id r, in_project_name r, in_data_volume r, in_managed_path r,
      in_provider r, in_model r, in_reasoning r, in_service_tier r,
      itoa (in_api_port r), itoa (in_dashboard_port r)]"

definition remediation_from_columns :: "remediation_row \<Rightarrow> runtime_remediation" where
  "remediation_from_columns r =
     \<lparr>rr_instance_id = rm_instance_id r, rr_workflow_id = rm_workflow_id r, rr_status = rm_status r,
      rr_phase = rm_phase r, rr_attempt_in_phase = rm_attempt_in_phase r,
      rr_total_attempts = rm_total_attempts r, rr_max_phases = runtime_remediation_max_phases,
      rr_max_attempts = max_remediation_attempts, rr_consecutive_drift = rm_consecutive_drift r,
      rr_last_attempt_at = rm_last_attempt_at r, rr_next_attempt_at = rm_next_attempt_at r,
      rr_last_error = rm_last_error r, rr_updated_at = rm_updated_at r\<rparr>"

text \<open>The decision; the zero \<open>State\<close> of an early return is \<open>None\<close>.\<close>

record remediation_decision =
  rd_queue :: bool
  rd_state :: "runtime_remediation option"

definition no_decision :: remediation_decision where
  "no_decision = \<lparr>rd_queue = False, rd_state = None\<rparr>"

definition fresh_remediation :: "string \<Rightarrow> string \<Rightarrow> string \<Rightarrow> remediation_row" where
  "fresh_remediation i revision workflow =
     \<lparr>rm_instance_id = i, rm_desired_revision = revision, rm_workflow_id = workflow,
      rm_status = RemMonitoring, rm_phase = 1, rm_attempt_in_phase = 0, rm_total_attempts = 0,
      rm_consecutive_drift = 0, rm_last_observed_at = zero_time, rm_last_attempt_at = None,
      rm_next_attempt_at = None, rm_last_error = '''', rm_updated_at = zero_time\<rparr>"

text \<open>One more observed drift, up to the decision.\<close>

definition count_drift :: "timestamp \<Rightarrow> string \<Rightarrow> remediation_row \<Rightarrow> remediation_row" where
  "count_drift received workflow r =
     (let spent = rm_total_attempts r \<ge> max_remediation_attempts \<and> rm_status r \<noteq> RemCanceled
      in r\<lparr>rm_workflow_id := (if rm_workflow_id r = '''' then workflow else rm_workflow_id r),
           rm_consecutive_drift := rm_consecutive_drift r + 1,
           rm_last_observed_at := received,
           rm_status := (if spent then RemExhausted else rm_status r),
           rm_next_attempt_at := (if spent then None else rm_next_attempt_at r)\<rparr>)"

definition attempt_due :: "timestamp \<Rightarrow> remediation_row \<Rightarrow> bool" where
  "attempt_due at r \<longleftrightarrow> rm_status r \<noteq> RemCanceled \<and> rm_status r \<noteq> RemExhausted
     \<and> rm_consecutive_drift r \<ge> runtime_remediation_drift_threshold
     \<and> (case rm_next_attempt_at r of None \<Rightarrow> True | Some n \<Rightarrow> \<not> at < n)
     \<and> rm_total_attempts r < max_remediation_attempts"

definition next_phase :: "remediation_row \<Rightarrow> nat \<times> nat" where
  "next_phase r =
     (if rm_attempt_in_phase r \<ge> runtime_remediation_attempts_per_phase
         \<and> rm_phase r < runtime_remediation_max_phases
      then (rm_phase r + 1, 0) else (rm_phase r, rm_attempt_in_phase r))"

definition predicted_next_attempt :: "timestamp \<Rightarrow> nat \<Rightarrow> nat \<Rightarrow> timestamp option" where
  "predicted_next_attempt at attempt n =
     (if n \<ge> max_remediation_attempts then None
      else if attempt < runtime_remediation_attempts_per_phase
      then Some (at + (if attempt = 2 then 2 * runtime_remediation_retry_delay
                       else runtime_remediation_retry_delay))
      else Some (at + runtime_remediation_cooldown))"

definition next_attempt :: "timestamp \<Rightarrow> remediation_row \<Rightarrow> runtime_remediation" where
  "next_attempt at r =
     (let (phase, attempt) = next_phase r; n = rm_total_attempts r + 1
      in remediation_from_columns (r\<lparr>rm_status := RemQueued, rm_phase := phase,
           rm_attempt_in_phase := attempt + 1, rm_total_attempts := n,
           rm_last_attempt_at := Some at,
           rm_next_attempt_at := predicted_next_attempt at (attempt + 1) n,
           rm_last_error := '''', rm_updated_at := at\<rparr>))"

text \<open>The state the drift leaves, and the decision; the counters advance when it is queued.\<close>

definition decide_remediation ::
    "timestamp \<Rightarrow> remediation_row \<Rightarrow> remediation_decision \<times> remediation_row" where
  "decide_remediation at r =
     (if attempt_due at r
      then (\<lparr>rd_queue = True, rd_state = Some (next_attempt at r)\<rparr>,
            r\<lparr>rm_status := RemReady, rm_last_error := '''', rm_updated_at := at\<rparr>)
      else let r = r\<lparr>rm_updated_at := at\<rparr>
           in (\<lparr>rd_queue = False, rd_state = Some (remediation_from_columns r)\<rparr>, r))"

definition clear_remediation :: "string \<Rightarrow> db \<Rightarrow> db" where
  "clear_remediation i d =
     d\<lparr>db_remediation := delete_where (\<lambda>r. rm_instance_id r = i) (db_remediation d)\<rparr>"

definition current_remediation :: "db \<Rightarrow> string \<Rightarrow> string \<Rightarrow> remediation_row option" where
  "current_remediation d i revision =
     (case find_row rm_instance_id i (db_remediation d) of
        Some s \<Rightarrow> if rm_desired_revision s = revision then Some s else None
      | None \<Rightarrow> None)"

definition track_runtime_health_observation ::
    "instance_observation \<Rightarrow> timestamp \<Rightarrow> string \<Rightarrow> db \<Rightarrow> remediation_decision \<times> db" where
  "track_runtime_health_observation b at candidate d =
     (case runtime_health_check_status b of
        None \<Rightarrow> (no_decision, d)
      | Some status \<Rightarrow>
          (case tracked b d of
             None \<Rightarrow> (no_decision, d)
           | Some (q, r) \<Rightarrow>
               let i = io_instance_id b; revision = remediation_revision r;
                   current = current_remediation d i revision in
               if status = CheckDrift \<and> \<not> runtime_repair_prerequisites_ok b
                  \<or> in_status r \<noteq> InstanceRunning \<or> status \<noteq> CheckDrift
               then (no_decision, clear_remediation i d)
               else if (case current of None \<Rightarrow> False
                          | Some s \<Rightarrow> \<not> io_received_at q > rm_last_observed_at s)
               then (no_decision\<lparr>rd_state := map_option remediation_from_columns current\<rparr>, d)
               else let (decision, s) = decide_remediation at (count_drift (io_received_at q) candidate
                      (case current of Some s \<Rightarrow> s
                         | None \<Rightarrow> fresh_remediation i revision candidate))
                    in (decision, d\<lparr>db_remediation := upsert_by rm_instance_id s (db_remediation d)\<rparr>)))"

definition get_runtime_remediation :: "string \<Rightarrow> db \<Rightarrow> runtime_remediation option" where
  "get_runtime_remediation i d =
     map_option remediation_from_columns (find_row rm_instance_id i (db_remediation d))"

definition record_runtime_remediation_queue_failure ::
    "string \<Rightarrow> string \<Rightarrow> timestamp \<Rightarrow> db \<Rightarrow> db" where
  "record_runtime_remediation_queue_failure i detail at d =
     d\<lparr>db_remediation := update_where (\<lambda>r. rm_instance_id r = i \<and> rm_status r = RemReady)
         (\<lambda>r. r\<lparr>rm_status := RemWaiting,
                rm_next_attempt_at := Some (at + runtime_remediation_retry_delay),
                rm_last_error := detail, rm_updated_at := at\<rparr>) (db_remediation d)\<rparr>"

definition cancel_runtime_remediation :: "string \<Rightarrow> timestamp \<Rightarrow> db \<Rightarrow> db result" where
  "cancel_runtime_remediation i at d =
     (let hit = (\<lambda>r. rm_instance_id r = i \<and> rm_status r \<noteq> RemCanceled \<and> rm_status r \<noteq> RemExhausted)
      in guard (count_where hit (db_remediation d) = 1) ErrStateChanged
         (Inr (d\<lparr>db_remediation := update_where hit
            (\<lambda>r. r\<lparr>rm_status := RemCanceled, rm_next_attempt_at := None, rm_last_error := '''',
                   rm_updated_at := at\<rparr>) (db_remediation d)\<rparr>)))"

section \<open>What the reports guarantee\<close>

lemma find_row_upsert [simp]:
  "find_row key k (upsert_by key r rows) = (if k = key r then Some r else find_row key k rows)"
proof (cases "list_ex (\<lambda>q. key q = key r) rows")
  case True
  have upd: "find_row key k (update_where (\<lambda>q. key q = key r) (\<lambda>_. r) rows) =
      map_option (\<lambda>q. if key q = key r then r else q) (find_row key k rows)"
    by (rule find_row_update_where) simp
  have "find_row key (key r) rows \<noteq> None"
    using True by (metis (mono_tags, lifting) find_row_None image_eqI list_ex_iff)
  then show ?thesis
    using True by (cases "find_row key k rows") (auto simp: upsert_by_def upd dest: find_row_Some)
next
  case False
  then have "find_row key (key r) rows = None" by (auto simp: list_ex_iff find_row_None)
  then show ?thesis using False
    by (cases "find_row key k rows") (auto simp: upsert_by_def find_row_append)
qed

lemma in_upsert: "q \<in> set (upsert_by key r rows) \<Longrightarrow> q = r \<or> q \<in> set rows \<and> key q \<noteq> key r"
  by (auto simp: upsert_by_def set_update_where list_ex_iff split: if_splits)

lemma store_observation_frame [simp]:
  "db_instances (store_observation host received b d) = db_instances d"
  "db_jobs (store_observation host received b d) = db_jobs d"
  "db_remediation (store_observation host received b d) = db_remediation d"
  by (simp_all add: store_observation_def)

lemma store_observation_row [simp]:
  "find_row io_instance_id i (db_observations (store_observation host received b d)) =
     (if i = io_instance_id b
      then Some (b\<lparr>io_host_id := host, io_refresh_request_id := '''', io_received_at := received\<rparr>)
      else find_row io_instance_id i (db_observations d))"
  by (simp add: store_observation_def)

lemma record_observation_Inr:
  assumes "record_observation host received b d = Inr d'"
  shows "db_instances d' = db_instances d" "db_jobs d' = db_jobs d"
    "db_remediation d' = db_remediation d"
    "\<exists>r. find_instance d (io_instance_id b) = Some r \<and> in_host_id r = host"
    "i \<noteq> io_instance_id b \<Longrightarrow>
       find_row io_instance_id i (db_observations d') = find_row io_instance_id i (db_observations d)"
  using assms by (auto simp: record_observation_def split: option.splits if_splits)

text \<open>The order of the reports of one generation: a later row replaces an earlier one.\<close>

definition supersedes :: "instance_observation option \<Rightarrow> instance_observation option \<Rightarrow> string \<Rightarrow> bool" where
  "supersedes old new g \<longleftrightarrow> new = old \<or>
     (\<exists>q'. new = Some q' \<and> io_target_generation q' = g \<and>
        (\<forall>q. old = Some q \<longrightarrow> io_target_generation q = g \<longrightarrow>
           io_observed_at q < io_observed_at q' \<and> io_received_at q \<le> io_received_at q'))"

lemma supersedes_refl [simp]: "supersedes old old g"
  by (simp add: supersedes_def)

lemma supersedes_trans:
  assumes "supersedes a b g" "supersedes b c g"
  shows "supersedes a c g"
proof (cases "c = b \<or> b = a")
  case False
  then obtain q' q'' where b: "b = Some q'" "io_target_generation q' = g"
      "\<forall>q. a = Some q \<longrightarrow> io_target_generation q = g \<longrightarrow>
           io_observed_at q < io_observed_at q' \<and> io_received_at q \<le> io_received_at q'"
    and c: "c = Some q''" "io_target_generation q'' = g"
      "io_observed_at q' < io_observed_at q''" "io_received_at q' \<le> io_received_at q''"
    using assms by (auto simp: supersedes_def)
  then show ?thesis unfolding supersedes_def using order.strict_trans order.trans by fastforce
qed (use assms in auto)

lemma record_observation_supersedes:
  assumes "record_observation host received b d = Inr d'" "find_instance d i = Some r"
  shows "supersedes (find_row io_instance_id i (db_observations d))
     (find_row io_instance_id i (db_observations d')) (observation_generation (in_updated_at r))"
proof (cases "i = io_instance_id b")
  case True
  then show ?thesis using assms
    by (auto simp: record_observation_def supersedes_def split: option.splits if_splits)
next
  case False
  then show ?thesis using record_observation_Inr(5)[OF assms(1)] by simp
qed

lemma record_observations_frame:
  assumes "record_observations host bs received d = Inr d'"
  shows "db_instances d' = db_instances d" "db_jobs d' = db_jobs d"
    "db_remediation d' = db_remediation d"
  using assms
  by (induction bs arbitrary: d) (auto dest: record_observation_Inr(1-3))

lemma record_observations_supersedes:
  assumes "record_observations host bs received d = Inr d'" "find_instance d i = Some r"
  shows "supersedes (find_row io_instance_id i (db_observations d))
     (find_row io_instance_id i (db_observations d')) (observation_generation (in_updated_at r))"
  using assms
proof (induction bs arbitrary: d)
  case (Cons b bs)
  then obtain d1 where d1: "record_observation host received b d = Inr d1"
    "record_observations host bs received d1 = Inr d'" by auto
  have "find_instance d1 i = Some r"
    using Cons.prems(2) record_observation_Inr(1)[OF d1(1)] by (simp add: find_instance_def)
  with d1 show ?case
    using Cons.IH record_observation_supersedes[OF d1(1) Cons.prems(2)] supersedes_trans by blast
qed simp

lemma record_observations_owned:
  assumes "record_observations host bs received d = Inr d'"
  shows "\<forall>b \<in> set bs. \<exists>r. find_instance d (io_instance_id b) = Some r \<and> in_host_id r = host"
  using assms
proof (induction bs arbitrary: d)
  case (Cons b bs)
  then obtain d1 where d1: "record_observation host received b d = Inr d1"
    "record_observations host bs received d1 = Inr d'" by auto
  have "find_instance d1 = find_instance d"
    using record_observation_Inr(1)[OF d1(1)] by (simp add: find_instance_def fun_eq_iff)
  then show ?case using Cons.IH[OF d1(2)] record_observation_Inr(4)[OF d1(1)] by simp
qed simp

lemma record_observations_other:
  assumes "record_observations host bs received d = Inr d'" "i \<notin> io_instance_id ` set bs"
  shows "find_row io_instance_id i (db_observations d') = find_row io_instance_id i (db_observations d)"
  using assms
  by (induction bs arbitrary: d) (auto dest: record_observation_Inr(5))

section \<open>What the automatic repairs guarantee\<close>

text \<open>
  The counters of a remediation: three phases of three attempts, nine in all. The total
  counts every attempt of the earlier phases and of this one.
\<close>

definition counters_ok :: "nat \<Rightarrow> nat \<Rightarrow> nat \<Rightarrow> bool" where
  "counters_ok phase attempt n \<longleftrightarrow> 1 \<le> phase \<and> phase \<le> runtime_remediation_max_phases
     \<and> attempt \<le> runtime_remediation_attempts_per_phase
     \<and> n = runtime_remediation_attempts_per_phase * (phase - 1) + attempt"

definition remediation_ok :: "remediation_row \<Rightarrow> bool" where
  "remediation_ok r \<longleftrightarrow> counters_ok (rm_phase r) (rm_attempt_in_phase r) (rm_total_attempts r)"

definition plan_ok :: "runtime_remediation \<Rightarrow> bool" where
  "plan_ok p \<longleftrightarrow> counters_ok (rr_phase p) (rr_attempt_in_phase p) (rr_total_attempts p)"

definition remediations_ok :: "db \<Rightarrow> bool" where
  "remediations_ok d \<longleftrightarrow> (\<forall>r \<in> set (db_remediation d). remediation_ok r)"

lemmas remediation_limits =
  runtime_remediation_attempts_per_phase_def runtime_remediation_max_phases_def
  max_remediation_attempts_def counters_ok_def

lemma remediation_ok_total: "remediation_ok r \<Longrightarrow> rm_total_attempts r \<le> max_remediation_attempts"
  unfolding remediation_ok_def remediation_limits by arith

lemma remediation_ok_same:
  "rm_phase q = rm_phase r \<Longrightarrow> rm_attempt_in_phase q = rm_attempt_in_phase r \<Longrightarrow>
   rm_total_attempts q = rm_total_attempts r \<Longrightarrow> remediation_ok q = remediation_ok r"
  by (simp add: remediation_ok_def)

lemma fresh_remediation_ok: "remediation_ok (fresh_remediation i revision w)"
  by (simp add: remediation_ok_def fresh_remediation_def remediation_limits)

lemma count_drift_counters [simp]:
  "rm_phase (count_drift t w r) = rm_phase r"
  "rm_attempt_in_phase (count_drift t w r) = rm_attempt_in_phase r"
  "rm_total_attempts (count_drift t w r) = rm_total_attempts r"
  "rm_instance_id (count_drift t w r) = rm_instance_id r"
  "rm_desired_revision (count_drift t w r) = rm_desired_revision r"
  "rm_consecutive_drift (count_drift t w r) = Suc (rm_consecutive_drift r)"
  by (simp_all add: count_drift_def Let_def)

lemma decide_remediation_counters [simp]:
  "rm_phase (snd (decide_remediation at r)) = rm_phase r"
  "rm_attempt_in_phase (snd (decide_remediation at r)) = rm_attempt_in_phase r"
  "rm_total_attempts (snd (decide_remediation at r)) = rm_total_attempts r"
  "rm_instance_id (snd (decide_remediation at r)) = rm_instance_id r"
  "rm_desired_revision (snd (decide_remediation at r)) = rm_desired_revision r"
  by (simp_all add: decide_remediation_def Let_def)

lemma decide_remediation_queue [simp]: "rd_queue (fst (decide_remediation at r)) = attempt_due at r"
  by (simp add: decide_remediation_def Let_def)

lemma next_attempt_ok:
  assumes "remediation_ok r" "attempt_due at r"
  shows "plan_ok (next_attempt at r)" "rr_total_attempts (next_attempt at r) = Suc (rm_total_attempts r)"
    "rr_attempt_in_phase (next_attempt at r) \<noteq> 0"
  using assms
  by (auto simp: plan_ok_def next_attempt_def remediation_ok_def remediation_limits attempt_due_def
      next_phase_def remediation_from_columns_def Let_def split: prod.splits if_splits)

text \<open>The row that \<open>TrackRuntimeHealthObservation\<close> leaves for the instance of the report.\<close>

lemma track_health_cases:
  assumes "track_runtime_health_observation b at w d = (dc, d')"
  obtains (kept) "d' = d" "\<not> rd_queue dc"
  | (cleared) "d' = clear_remediation (io_instance_id b) d" "\<not> rd_queue dc"
  | (counted) q r s where "tracked b d = Some (q, r)" "in_status r = InstanceRunning"
      "runtime_health_check_status b = Some CheckDrift" "runtime_repair_prerequisites_ok b"
      "s = (case current_remediation d (io_instance_id b) (remediation_revision r) of
              Some s \<Rightarrow> s | None \<Rightarrow> fresh_remediation (io_instance_id b) (remediation_revision r) w)"
      "dc = fst (decide_remediation at (count_drift (io_received_at q) w s))"
      "d' = d\<lparr>db_remediation := upsert_by rm_instance_id
               (snd (decide_remediation at (count_drift (io_received_at q) w s))) (db_remediation d)\<rparr>"
proof -
  let ?i = "io_instance_id b"
  show thesis
  proof (cases "runtime_health_check_status b")
    case None
    then show thesis using assms kept by (auto simp: track_runtime_health_observation_def no_decision_def)
  next
    case (Some status)
    show thesis
    proof (cases "tracked b d")
      case None
      then show thesis using assms Some kept
        by (auto simp: track_runtime_health_observation_def no_decision_def)
    next
      case (Some p)
      obtain q r where p: "p = (q, r)" by (cases p)
      let ?cur = "current_remediation d ?i (remediation_revision r)"
      let ?s = "case ?cur of Some s \<Rightarrow> s | None \<Rightarrow> fresh_remediation ?i (remediation_revision r) w"
      let ?stale = "case ?cur of None \<Rightarrow> False | Some s \<Rightarrow> \<not> io_received_at q > rm_last_observed_at s"
      let ?clear = "status = CheckDrift \<and> \<not> runtime_repair_prerequisites_ok b
                  \<or> in_status r \<noteq> InstanceRunning \<or> status \<noteq> CheckDrift"
      have eq: "(dc, d') = (if ?clear then (no_decision, clear_remediation ?i d)
          else if ?stale then (no_decision\<lparr>rd_state := map_option remediation_from_columns ?cur\<rparr>, d)
          else let (decision, s) = decide_remediation at (count_drift (io_received_at q) w ?s)
               in (decision, d\<lparr>db_remediation := upsert_by rm_instance_id s (db_remediation d)\<rparr>))"
        using assms Some \<open>runtime_health_check_status b = Some status\<close> p
        by (simp only: track_runtime_health_observation_def option.case prod.case Let_def)
      consider "?clear" | "\<not> ?clear" "?stale" | "\<not> ?clear" "\<not> ?stale" by blast
      then show thesis
      proof cases
        case 1
        then show thesis using eq by (auto simp: no_decision_def intro: cleared)
      next
        case 2
        then show thesis using eq by (auto simp: no_decision_def intro: kept)
      next
        case 3
        then show thesis
          using eq counted[of q r ?s] Some \<open>runtime_health_check_status b = Some status\<close> p
          by (simp add: case_prod_beta)
      qed
    qed
  qed
qed

lemma track_health_frame:
  assumes "track_runtime_health_observation b at w d = (dc, d')"
  shows "db_jobs d' = db_jobs d" "db_instances d' = db_instances d" "db_observations d' = db_observations d"
  using assms by (cases rule: track_health_cases; simp add: clear_remediation_def)+

lemma current_remediation_Some:
  "current_remediation d i revision = Some s \<longleftrightarrow>
     find_row rm_instance_id i (db_remediation d) = Some s \<and> rm_desired_revision s = revision"
  by (auto simp: current_remediation_def split: option.splits)

lemma loaded_remediation_ok:
  assumes "remediations_ok d"
    "s = (case current_remediation d i revision of
              Some s \<Rightarrow> s | None \<Rightarrow> fresh_remediation i revision w)"
  shows "remediation_ok s" "rm_instance_id s = i" "rm_desired_revision s = revision"
  using assms
  by (auto simp: fresh_remediation_ok current_remediation_Some remediations_ok_def
      fresh_remediation_def remediation_limits remediation_ok_def
      dest: find_row_Some split: option.splits)

lemma track_health_ok:
  assumes t: "track_runtime_health_observation b at w d = (dc, d')" and ok: "remediations_ok d"
  shows "remediations_ok d'"
  using t
proof (cases rule: track_health_cases)
  case (counted q r s)
  have "remediation_ok s" using counted(5) ok by (rule loaded_remediation_ok(1)[rotated])
  then have "remediation_ok (snd (decide_remediation at (count_drift (io_received_at q) w s)))"
    by (simp add: remediation_ok_def)
  then show ?thesis using ok counted(7) by (auto simp: remediations_ok_def dest: in_upsert)
qed (use ok in \<open>auto simp: remediations_ok_def clear_remediation_def delete_where_subset\<close>)

lemma remediations_ok_update:
  assumes "remediations_ok d"
    and "\<And>r. r \<in> set (db_remediation d) \<Longrightarrow> P r \<Longrightarrow> remediation_ok r \<Longrightarrow> remediation_ok (f r)"
  shows "remediations_ok (d\<lparr>db_remediation := update_where P f (db_remediation d)\<rparr>)"
  using assms by (auto simp: remediations_ok_def set_update_where)

lemma queue_failure_ok:
  "remediations_ok d \<Longrightarrow> remediations_ok (record_runtime_remediation_queue_failure i detail at d)"
  unfolding record_runtime_remediation_queue_failure_def
  by (rule remediations_ok_update) (auto simp: remediation_ok_def)

lemma cancel_ok:
  "cancel_runtime_remediation i at d = Inr d' \<Longrightarrow> remediations_ok d \<Longrightarrow> remediations_ok d'"
  unfolding cancel_runtime_remediation_def Let_def
  by (auto intro!: remediations_ok_update simp: remediation_ok_def)

lemma fail_attempt_ok: "remediations_ok d \<Longrightarrow> remediations_ok (fail_remediation_attempt i err at d)"
  unfolding fail_remediation_attempt_def
  by (rule remediations_ok_update) (auto simp: remediation_ok_def)

lemma complete_remediation_ok:
  "remediations_ok d \<Longrightarrow> remediations_ok (complete_remediation j r now d)"
  unfolding complete_remediation_def
  by (auto intro!: remediations_ok_update fail_attempt_ok simp: remediation_ok_def)

lemma remediations_ok_cong: "db_remediation d' = db_remediation d \<Longrightarrow> remediations_ok d' = remediations_ok d"
  by (simp add: remediations_ok_def)

lemma queue_repair_ok:
  assumes q: "queue_runtime_repair expected op j plan d = Inr d'" and ok: "remediations_ok d"
    and plan: "plan_ok plan"
  shows "remediations_ok d'"
proof -
  have move: "db_remediation e = db_remediation d"
    if "move_instance i x y t d = Inr e" for i x y t e
    using that by (simp add: move_instance_Inr)
  let ?upd = "\<lambda>e :: db. update_where (\<lambda>r. rm_instance_id r = op_instance_id op
           \<and> rm_workflow_id r = rr_workflow_id plan \<and> rm_status r = RemReady)
         (\<lambda>r. r\<lparr>rm_status := RemQueued, rm_phase := rr_phase plan,
                     rm_attempt_in_phase := rr_attempt_in_phase plan,
                     rm_total_attempts := rr_total_attempts plan,
                     rm_last_attempt_at := rr_last_attempt_at plan,
                     rm_next_attempt_at := rr_next_attempt_at plan,
                     rm_last_error := '''', rm_updated_at := op_created_at op\<rparr>) (db_remediation e)"
  obtain e where e: "db_remediation e = db_remediation d"
    "insert_operation_and_job op j (e\<lparr>db_remediation := ?upd e\<rparr>) = Inr d'"
    using q by (auto simp: queue_runtime_repair_def Let_def dest: move)
  have "remediations_ok e" using ok e(1) by (simp add: remediations_ok_def)
  then have "remediations_ok (e\<lparr>db_remediation := ?upd e\<rparr>)"
    by (rule remediations_ok_update) (use plan in \<open>auto simp: plan_ok_def remediation_ok_def\<close>)
  then show ?thesis
    using insert_operation_and_job_Inr[OF e(2)] by (simp add: remediations_ok_def)
qed

end
