(* ===== verification/Store_Chat.thy ===== *)
theory Store_Chat
  imports Store_Complete
begin

text \<open>
  \<open>internal/store/chat.go\<close>: chat sessions, the queueing of a message with its job, the durable
  event log of a run, cancelling, and the snapshot a client starts from. A job of type
  \<open>instance.chat.send\<close> belongs to the session of the user message that names its operation.
\<close>

section \<open>Sessions\<close>

definition create_chat_session ::
    "string \<Rightarrow> string \<Rightarrow> string \<Rightarrow> timestamp \<Rightarrow> timestamp \<Rightarrow> db \<Rightarrow> db result" where
  "create_chat_session i title instance_id created updated d =
     (case find (\<lambda>r. in_id r = instance_id \<and> in_status r = InstanceRunning) (db_instances d) of
        None \<Rightarrow> Inl ErrStateChanged
      | Some r \<Rightarrow>
          guard (\<not> session_exists d i) (ErrUnique ''chat_sessions.id'')
          (Inr (d\<lparr>db_sessions := db_sessions d @
             [\<lparr>se_id = i, se_instance_id = instance_id, se_title = title, se_model = in_model r,
               se_reasoning = in_reasoning r, se_service_tier = in_service_tier r,
               se_last_error = '''', se_created_at = created, se_updated_at = updated\<rparr>]\<rparr>)))"

record session_view =
  sv_session :: session_row
  sv_instance_name :: string
  sv_message_count :: nat

definition session_messages :: "string \<Rightarrow> db \<Rightarrow> message_row list" where
  "session_messages s d = filter (\<lambda>m. me_session_id m = s) (db_messages d)"

definition get_chat_session :: "string \<Rightarrow> db \<Rightarrow> session_view result" where
  "get_chat_session s d =
     (case find_row se_id s (db_sessions d) of
        None \<Rightarrow> Inl ErrNotFound
      | Some r \<Rightarrow>
          (case find_instance d (se_instance_id r) of
             None \<Rightarrow> Inl ErrNotFound
           | Some i \<Rightarrow> Inr \<lparr>sv_session = r, sv_instance_name = in_name i,
               sv_message_count = length (session_messages s d)\<rparr>))"

definition pending_question :: "string \<Rightarrow> message_row \<Rightarrow> bool" where
  "pending_question s m \<longleftrightarrow> me_session_id m = s \<and> me_role m = RoleUser \<and> me_status m = MessagePending"

definition update_chat_session_configuration ::
    "string \<Rightarrow> string \<Rightarrow> string \<Rightarrow> string \<Rightarrow> timestamp \<Rightarrow> db \<Rightarrow> (session_view \<times> db) result" where
  "update_chat_session_configuration s model reasoning tier at d =
     (let hit = (\<lambda>r. se_id r = s \<and> \<not> list_ex (pending_question s) (db_messages d));
          d' = d\<lparr>db_sessions := update_where hit
                 (\<lambda>r. r\<lparr>se_model := model, se_reasoning := reasoning, se_service_tier := tier,
                        se_updated_at := at\<rparr>) (db_sessions d)\<rparr>
      in if count_where hit (db_sessions d) \<noteq> 1
         then and_then (get_chat_session s d') (\<lambda>_. Inl ErrStateChanged)
         else and_then (get_chat_session s d') (\<lambda>v. Inr (v, d')))"

section \<open>Deleting\<close>

text \<open>
  \<open>DELETE FROM operations WHERE id=?\<close>: refused while a job, a message or a rollout target refers
  to the operation; its reveals, events and targets go with it.
\<close>

definition delete_operations :: "(operation \<Rightarrow> bool) \<Rightarrow> db \<Rightarrow> db result" where
  "delete_operations P d =
     (let gone = map op_id (filter P (db_operations d));
          refers = (\<lambda>i. i \<noteq> '''' \<and> i \<in> set gone)
      in if list_ex (\<lambda>j. j_operation_id j \<in> set gone) (db_jobs d)
           \<or> list_ex (\<lambda>m. refers (me_operation_id m)) (db_messages d)
           \<or> list_ex (\<lambda>t. refers (ro_child_operation_id t) \<and> ro_rollout_id t \<notin> set gone) (db_rollouts d)
         then Inl (ErrForeignKey ''operations.id'')
         else Inr (d\<lparr>db_operations := delete_where P (db_operations d),
                     db_reveals := delete_where (\<lambda>c. cr_operation_id c \<in> set gone) (db_reveals d),
                     db_events := delete_where (\<lambda>e. ev_operation_id e \<in> set gone) (db_events d),
                     db_rollouts := delete_where (\<lambda>t. ro_rollout_id t \<in> set gone) (db_rollouts d),
                     db_campaigns := delete_where (\<lambda>t. cm_campaign_id t \<in> set gone) (db_campaigns d)\<rparr>))"

text \<open>A session goes with its messages and events.\<close>

definition delete_session_row :: "string \<Rightarrow> db \<Rightarrow> db" where
  "delete_session_row s d =
     d\<lparr>db_sessions := delete_where (\<lambda>r. se_id r = s) (db_sessions d),
       db_messages := delete_where (\<lambda>m. me_session_id m = s) (db_messages d),
       db_events := delete_where (\<lambda>e. ev_session_id e = s) (db_events d)\<rparr>"

definition delete_chat_session :: "string \<Rightarrow> db \<Rightarrow> (string \<times> db) result" where
  "delete_chat_session s d =
     (case find_row se_id s (db_sessions d) of
        None \<Rightarrow> Inl ErrNotFound
      | Some r \<Rightarrow>
          let ops = filter (\<lambda>i. i \<noteq> '''') (map me_operation_id (session_messages s d));
              d = d\<lparr>db_jobs := delete_where (\<lambda>j. j_operation_id j \<in> set ops) (db_jobs d)\<rparr>
          in guard (count_where (\<lambda>r. se_id r = s) (db_sessions d) = 1) ErrNotFound
             (and_then (delete_operations (\<lambda>o'. op_id o' \<in> set ops \<and> op_type o' = OpChatMessage)
                 (delete_session_row s d))
               (\<lambda>d. Inr (se_instance_id r, d))))"

definition untraced :: "db \<Rightarrow> string \<Rightarrow> bool" where
  "untraced d op \<longleftrightarrow> \<not> list_ex (\<lambda>m. me_operation_id m = op) (db_messages d)
     \<and> \<not> list_ex (\<lambda>e. ev_operation_id e = op) (db_events d)"

definition reconcile_orphaned_chat_work :: "db \<Rightarrow> (nat \<times> db) result" where
  "reconcile_orphaned_chat_work d =
     (let d1 = d\<lparr>db_jobs := delete_where
            (\<lambda>j. j_type j = JobChatSend
               \<and> list_ex (\<lambda>o'. op_id o' = j_operation_id j \<and> op_type o' = OpChatMessage) (db_operations d)
               \<and> untraced d (j_operation_id j)) (db_jobs d)\<rparr>;
          orphan = (\<lambda>o'. op_type o' = OpChatMessage \<and> untraced d1 (op_id o')
             \<and> \<not> list_ex (\<lambda>j. j_operation_id j = op_id o') (db_jobs d1))
      in and_then (delete_operations orphan d1)
           (\<lambda>d2. Inr (count_where orphan (db_operations d1), d2)))"

section \<open>Queueing a message\<close>

definition chat_payload_matches ::
    "session_row \<Rightarrow> instance_row \<Rightarrow> string \<Rightarrow> chat_send_payload \<Rightarrow> bool" where
  "chat_payload_matches s i message_id q \<longleftrightarrow>
     se_instance_id s = cs_instance_id q \<and> cs_instance_name q = in_name i
     \<and> cs_project_name q = in_project_name i \<and> cs_session_id q = se_id s
     \<and> cs_message_id q = message_id \<and> cs_managed_path q = in_managed_path i
     \<and> cs_api_port q = in_api_port i \<and> cs_provider q = in_provider i \<and> cs_model q = se_model s
     \<and> cs_reasoning q = se_reasoning s \<and> cs_service_tier q = se_service_tier s
     \<and> in_status i = InstanceRunning"

definition queue_chat_message ::
    "string \<Rightarrow> string \<Rightarrow> string \<Rightarrow> operation \<Rightarrow> job \<Rightarrow> db \<Rightarrow> db result" where
  "queue_chat_message session_id message_id ciphertext op j d =
     (case find_row se_id session_id (db_sessions d) of
        None \<Rightarrow> Inl ErrNotFound
      | Some s \<Rightarrow>
     (case find_instance d (se_instance_id s) of
        None \<Rightarrow> Inl ErrNotFound
      | Some i \<Rightarrow>
     (case decode_chat_send (j_payload j) of
        None \<Rightarrow> Inl ErrStateChanged
      | Some q \<Rightarrow>
          guard (j_type j = JobChatSend \<and> j_operation_id j = op_id op
              \<and> se_instance_id s = op_instance_id op \<and> se_instance_id s = j_instance_id j
              \<and> j_host_id j = in_host_id i \<and> chat_payload_matches s i message_id q) ErrStateChanged
          (and_then (insert_operation_and_job op j d) (\<lambda>d.
           and_then (insert_message \<lparr>me_id = message_id, me_session_id = session_id,
               me_operation_id = op_id op, me_role = RoleUser, me_ciphertext = ciphertext,
               me_status = MessagePending, me_error = '''', me_created_at = op_created_at op,
               me_updated_at = op_updated_at op\<rparr> d) (\<lambda>d.
           insert_event session_id (op_id op) 0 EventQueued '''' '''' (op_created_at op)
             (touch_session session_id '''' (op_created_at op) d)))))))"

section \<open>The event log of a run\<close>

record chat_event =
  ce_session_id :: string
  ce_operation_id :: string
  ce_sequence :: int
  ce_type :: chat_event_type
  ce_ciphertext :: string
  ce_content_hash :: string
  ce_created_at :: timestamp

definition running_chat_job :: "string \<Rightarrow> string \<Rightarrow> string \<Rightarrow> timestamp \<Rightarrow> db \<Rightarrow> job_row option" where
  "running_chat_job h i t now d =
     find (\<lambda>j. held_in JobRunning h i t now j \<and> j_type j = JobChatSend) (db_jobs d)"

definition record_chat_event :: "chat_event \<Rightarrow> db \<Rightarrow> db result" where
  "record_chat_event e d =
     guard (checked_event_type (ce_type e)) (ErrCheck ''chat_events.type'')
     (case find (\<lambda>r. ev_operation_id r = ce_operation_id e \<and> ev_sequence r = ce_sequence e)
         (db_events d) of
        Some r \<Rightarrow> guard (ev_type r = ce_type e \<and> ev_content_hash r = ce_content_hash e) ErrStateChanged (Inr d)
      | None \<Rightarrow>
          and_then (insert_event (ce_session_id e) (ce_operation_id e) (ce_sequence e) (ce_type e)
              (ce_ciphertext e) (ce_content_hash e) (ce_created_at e) d)
            (\<lambda>d. Inr (d\<lparr>db_sessions := update_where (\<lambda>r. se_id r = ce_session_id e)
               (\<lambda>r. r\<lparr>se_updated_at := ce_created_at e\<rparr>) (db_sessions d)\<rparr>)))"

definition append_chat_event ::
    "chat_event \<Rightarrow> string \<Rightarrow> string \<Rightarrow> string \<Rightarrow> timestamp \<Rightarrow> db \<Rightarrow> db result" where
  "append_chat_event e h i t now d =
     guard (1 \<le> ce_sequence e \<and> ce_operation_id e \<noteq> '''' \<and> ce_session_id e \<noteq> '''') ErrStateChanged
     (case running_chat_job h i t now d of
        None \<Rightarrow> Inl ErrLeaseLost
      | Some j \<Rightarrow>
          (case decode_chat_send (j_payload j) of
             None \<Rightarrow> Inl ErrStateChanged
           | Some q \<Rightarrow>
               guard (j_operation_id j = ce_operation_id e \<and> cs_session_id q = ce_session_id e)
                 ErrStateChanged (record_chat_event e d)))"

definition list_chat_events :: "string \<Rightarrow> nat \<Rightarrow> int \<Rightarrow> db \<Rightarrow> event_row list" where
  "list_chat_events s after limit d =
     take (nat (if limit < 1 \<or> limit > 500 then 100 else limit))
       (sort_key ev_id (filter (\<lambda>e. ev_session_id e = s \<and> after < ev_id e) (db_events d)))"

definition list_chat_messages :: "string \<Rightarrow> db \<Rightarrow> message_row list" where
  "list_chat_messages s d =
     sort_key (\<lambda>m. Order_Key 0 (me_created_at m) (me_id m)) (session_messages s d)"

section \<open>Cancelling\<close>

fun cancel_rank :: "job_status \<Rightarrow> int" where
  "cancel_rank JobRunning = 0"
| "cancel_rank JobLeased = 1"
| "cancel_rank _ = 2"

definition active_chat_work :: "string \<Rightarrow> db \<Rightarrow> (job_row \<times> message_row) list" where
  "active_chat_work s d =
     concat (map (\<lambda>j. map (Pair j)
         (filter (\<lambda>m. me_operation_id m = j_operation_id j \<and> pending_question s m) (db_messages d)))
       (filter (\<lambda>j. j_type j = JobChatSend \<and> active_job (j_status j)) (db_jobs d)))"

definition cancel_active_chat :: "string \<Rightarrow> string \<Rightarrow> timestamp \<Rightarrow> db \<Rightarrow> db result" where
  "cancel_active_chat s reason now d =
     (case first_by (\<lambda>(j, m). Order_Key (cancel_rank (j_status j)) (j_created_at j) (j_id j))
         (active_chat_work s d) of
        None \<Rightarrow> Inl ErrNotFound
      | Some (j, m) \<Rightarrow>
          append_closing_event s (j_operation_id j) EventCanceled now
            (touch_session s reason now
              (update_messages (\<lambda>r. me_id r = me_id m)
                (\<lambda>r. r\<lparr>me_status := MessageFailed, me_error := reason, me_updated_at := now\<rparr>)
                (d\<lparr>db_jobs := update_where (\<lambda>r. j_id r = j_id j \<and> active_job (j_status r))
                     (abort_row now) (db_jobs d),
                   db_operations := update_where (\<lambda>o'. op_id o' = j_operation_id j)
                     (\<lambda>o'. o'\<lparr>op_status := OperationFailed, op_error := reason, op_updated_at := now\<rparr>)
                     (db_operations d)\<rparr>))))"

definition active_chat_message_ciphertext ::
    "string \<Rightarrow> string \<Rightarrow> string \<Rightarrow> timestamp \<Rightarrow> db \<Rightarrow> (chat_send_payload \<times> string) result" where
  "active_chat_message_ciphertext h i t now d =
     and_then (active_job_payload JobChatSend h i t now d) (\<lambda>payload.
     case decode_chat_send payload of
       None \<Rightarrow> Inl (ErrMessage ''decode job payload'')
     | Some q \<Rightarrow>
         (case find (\<lambda>m. me_id m = cs_message_id q \<and> pending_question (cs_session_id q) m
             \<and> list_ex (\<lambda>s. se_id s = me_session_id m \<and> se_instance_id s = cs_instance_id q) (db_sessions d)
             \<and> (case find_row j_id i (db_jobs d) of None \<Rightarrow> False
                | Some j \<Rightarrow> me_operation_id m = j_operation_id j)) (db_messages d) of
            None \<Rightarrow> Inl ErrStateChanged
          | Some m \<Rightarrow> Inr (q, me_ciphertext m)))"

section \<open>The snapshot of a thread\<close>

record chat_thread =
  th_session :: session_view
  th_messages :: "message_row list"
  th_events :: "event_row list"
  th_active :: "(string \<times> chat_event_type \<times> int) option"
  th_last_cursor :: nat

definition last_cursor :: "string \<Rightarrow> db \<Rightarrow> nat" where
  "last_cursor s d = fold max (map ev_id (filter (\<lambda>e. ev_session_id e = s) (db_events d))) 0"

definition active_operation :: "string \<Rightarrow> db \<Rightarrow> string option" where
  "active_operation s d =
     map_option me_operation_id
       (first_by (\<lambda>m. Order_Key 0 (me_created_at m) (me_id m))
         (filter (\<lambda>m. pending_question s m \<and> me_operation_id m \<noteq> '''') (db_messages d)))"

definition starts_response :: "chat_event_type \<Rightarrow> bool" where
  "starts_response t \<longleftrightarrow> t = EventStarted \<or> t = EventDelta \<or> t = EventActivity \<or> t = EventArtifact"

definition active_state :: "event_row list \<Rightarrow> chat_event_type \<times> int" where
  "active_state events =
     (if list_ex (\<lambda>e. starts_response (ev_type e)) events then EventStarted else EventQueued,
      fold max (map ev_sequence events) 0)"

definition get_chat_thread_snapshot :: "string \<Rightarrow> db \<Rightarrow> (chat_thread \<times> event_row list) result" where
  "get_chat_thread_snapshot s d =
     and_then (get_chat_session s d) (\<lambda>v.
     let cursor = last_cursor s d;
         events = (case active_operation s d of
             None \<Rightarrow> []
           | Some op \<Rightarrow> sort_key (\<lambda>e. Order_Key (ev_sequence e) (int (ev_id e)) '''')
               (filter (\<lambda>e. ev_session_id e = s \<and> ev_operation_id e = op \<and> ev_id e \<le> cursor) (db_events d)))
     in Inr (\<lparr>th_session = v, th_messages = list_chat_messages s d,
              th_events = sort_key ev_id (filter (\<lambda>e. ev_session_id e = s
                 \<and> (ev_type e = EventActivity \<or> ev_type e = EventArtifact)) (db_events d)),
              th_active = map_option (\<lambda>op. (op, active_state events)) (active_operation s d),
              th_last_cursor = cursor\<rparr>, events))"

definition list_chat_sessions :: "db \<Rightarrow> (session_view \<times> message_row option \<times> bool \<times> nat) list" where
  "list_chat_sessions d =
     List.map_filter (\<lambda>r. map_option (\<lambda>i.
           (\<lparr>sv_session = r, sv_instance_name = in_name i,
             sv_message_count = length (session_messages (se_id r) d)\<rparr>,
            (case rev (list_chat_messages (se_id r) d) of [] \<Rightarrow> None | m # _ \<Rightarrow> Some m),
            list_ex (pending_question (se_id r)) (db_messages d),
            last_cursor (se_id r) d)) (find_instance d (se_instance_id r)))
         (rev (sort_key (\<lambda>r. Order_Key 0 (se_updated_at r) (se_id r)) (db_sessions d)))"

section \<open>The job table\<close>

lemma queue_chat_message_stages:
  assumes "queue_chat_message s m c op j d = Inr d'"
  obtains d1 d2 where "insert_operation_and_job op j d = Inr d1"
    "insert_message \<lparr>me_id = m, me_session_id = s, me_operation_id = op_id op, me_role = RoleUser,
       me_ciphertext = c, me_status = MessagePending, me_error = '''', me_created_at = op_created_at op,
       me_updated_at = op_updated_at op\<rparr> d1 = Inr d2"
    "insert_event s (op_id op) 0 EventQueued '''' '''' (op_created_at op)
       (touch_session s '''' (op_created_at op) d2) = Inr d'"
    "j_type j = JobChatSend" "j_operation_id j = op_id op" "j_instance_id j = op_instance_id op"
  using assms by (auto simp: queue_chat_message_def split: option.splits)

lemma queue_chat_message_Inr:
  assumes "queue_chat_message s m c op j d = Inr d'"
  shows "admits j d d'" and "j_type j = JobChatSend" and "j_operation_id j = op_id op"
    and "j_instance_id j = op_instance_id op" and "db_instances d' = db_instances d"
    and "\<exists>e. db_events d' = db_events d @ [e]"
    and "\<exists>q. db_messages d' = db_messages d @ [q] \<and> me_operation_id q = op_id op \<and> me_session_id q = s"
proof -
  obtain d1 d2 where s: "insert_operation_and_job op j d = Inr d1"
    "insert_message \<lparr>me_id = m, me_session_id = s, me_operation_id = op_id op, me_role = RoleUser,
       me_ciphertext = c, me_status = MessagePending, me_error = '''', me_created_at = op_created_at op,
       me_updated_at = op_updated_at op\<rparr> d1 = Inr d2"
    "insert_event s (op_id op) 0 EventQueued '''' '''' (op_created_at op)
       (touch_session s '''' (op_created_at op) d2) = Inr d'"
    and j: "j_type j = JobChatSend" "j_operation_id j = op_id op" "j_instance_id j = op_instance_id op"
    by (rule queue_chat_message_stages[OF assms])
  note f = insert_operation_and_job_Inr[OF s(1)] insert_event_frame[OF s(3)]
  have d2: "db_jobs d2 = db_jobs d1" "db_instances d2 = db_instances d1" "db_events d2 = db_events d1"
    using s(2) by (auto simp: insert_message_Inr)
  show "admits j d d'" "db_instances d' = db_instances d" using f d2 by (simp_all add: admits_def)
  show "j_type j = JobChatSend" "j_operation_id j = op_id op" "j_instance_id j = op_instance_id op"
    by (fact j)+
  show "\<exists>e. db_events d' = db_events d @ [e]"
    using insert_event_rows[OF s(3)] f(8) d2(3) by auto
  show "\<exists>q. db_messages d' = db_messages d @ [q] \<and> me_operation_id q = op_id op \<and> me_session_id q = s"
    using f s(2) by (auto simp: insert_message_Inr)
qed

lemma record_chat_event_frame:
  assumes "record_chat_event e d = Inr d'"
  shows "db_jobs d' = db_jobs d" "db_instances d' = db_instances d"
    "db_operations d' = db_operations d" "db_messages d' = db_messages d"
  using assms
  by (auto simp: record_chat_event_def split: option.splits dest: insert_event_frame)

lemma append_chat_event_Inr:
  assumes "append_chat_event e h i t now d = Inr d'"
  shows "\<exists>j \<in> set (db_jobs d). held_in JobRunning h i t now j \<and> j_type j = JobChatSend
       \<and> j_operation_id j = ce_operation_id e"
    and "record_chat_event e d = Inr d'"
  using assms
  by (auto simp: append_chat_event_def running_chat_job_def split: option.splits dest!: find_SomeD)

interpretation chat_events: live_lease_fenced "append_chat_event e"
proof
  fix h i t now d d'
  assume a: "append_chat_event e h i t now d = Inr d'"
  show "\<exists>j \<in> set (db_jobs d). holds_token h i t j \<and> leased_status (j_status j)
      \<and> null_gt (j_lease_expires_at j) now"
    using append_chat_event_Inr(1)[OF a] by (auto simp: held_in_def holds_token_def lease_defs)
  then show "\<exists>j \<in> set (db_jobs d). holds_token h i t j" by blast
qed

interpretation chat_ciphertext: live_lease_fenced active_chat_message_ciphertext
proof
  fix h i t now d x
  assume "active_chat_message_ciphertext h i t now d = Inr x"
  then obtain p where p: "active_job_payload JobChatSend h i t now d = Inr p"
    by (auto simp: active_chat_message_ciphertext_def)
  show "\<exists>j \<in> set (db_jobs d). holds_token h i t j \<and> leased_status (j_status j)
      \<and> null_gt (j_lease_expires_at j) now" by (rule payload.live[OF p])
  show "\<exists>j \<in> set (db_jobs d). holds_token h i t j" by (rule payload.holder[OF p])
qed

lemma cancel_active_chat_jobs:
  assumes "cancel_active_chat s reason now d = Inr d'"
  shows "\<exists>i. db_jobs d' = update_where (\<lambda>r. j_id r = i \<and> active_job (j_status r)) (abort_row now) (db_jobs d)"
    and "db_instances d' = db_instances d"
proof -
  obtain j :: job_row and m :: message_row where a: "append_closing_event s (j_operation_id j) EventCanceled now
            (touch_session s reason now
              (update_messages (\<lambda>r. me_id r = me_id m)
                (\<lambda>r. r\<lparr>me_status := MessageFailed, me_error := reason, me_updated_at := now\<rparr>)
                (d\<lparr>db_jobs := update_where (\<lambda>r. j_id r = j_id j \<and> active_job (j_status r))
                     (abort_row now) (db_jobs d),
                   db_operations := update_where (\<lambda>o'. op_id o' = j_operation_id j)
                     (\<lambda>o'. o'\<lparr>op_status := OperationFailed, op_error := reason, op_updated_at := now\<rparr>)
                     (db_operations d)\<rparr>))) = Inr d'"
    using assms by (auto simp: cancel_active_chat_def split: option.splits prod.splits)
  show "\<exists>i. db_jobs d' = update_where (\<lambda>r. j_id r = i \<and> active_job (j_status r)) (abort_row now) (db_jobs d)"
    "db_instances d' = db_instances d"
    using append_closing_event_frame(1,2)[OF a] by auto
qed

lemma cancel_active_chat_step:
  assumes "cancel_active_chat s reason now d = Inr d'"
  shows "table_step T now (db_jobs d) (db_jobs d')"
proof -
  obtain i where "db_jobs d' = update_where (\<lambda>r. j_id r = i \<and> active_job (j_status r)) (abort_row now) (db_jobs d)"
    using cancel_active_chat_jobs(1)[OF assms] by blast
  then show ?thesis
    using table_step_abort[of "db_jobs d" "\<lambda>r. j_id r = i \<and> active_job (j_status r)" T now] by simp
qed

lemma delete_operations_frame:
  assumes "delete_operations P d = Inr d'"
  shows "db_jobs d' = db_jobs d" "db_instances d' = db_instances d"
    "db_messages d' = db_messages d" "db_sessions d' = db_sessions d"
  using assms by (auto simp: delete_operations_def Let_def split: if_splits)

lemma delete_chat_session_jobs:
  assumes "delete_chat_session s d = Inr (i, d')"
  shows "db_jobs d' = delete_where (\<lambda>j. j_operation_id j \<noteq> '''' \<and>
       j_operation_id j \<in> me_operation_id ` set (session_messages s d)) (db_jobs d)"
    and "db_messages d' = delete_where (\<lambda>m. me_session_id m = s) (db_messages d)"
    and "db_instances d' = db_instances d"
proof -
  let ?ops = "filter (\<lambda>i. i \<noteq> '''') (map me_operation_id (session_messages s d))"
  have a: "delete_operations (\<lambda>o'. op_id o' \<in> set ?ops \<and> op_type o' = OpChatMessage)
      (delete_session_row s (d\<lparr>db_jobs := delete_where (\<lambda>j. j_operation_id j \<in> set ?ops) (db_jobs d)\<rparr>))
      = Inr d'"
    using assms by (auto simp: delete_chat_session_def Let_def split: option.splits)
  have "delete_where (\<lambda>j. j_operation_id j \<in> set ?ops) (db_jobs d)
      = delete_where (\<lambda>j. j_operation_id j \<noteq> '''' \<and>
          j_operation_id j \<in> me_operation_id ` set (session_messages s d)) (db_jobs d)"
    unfolding delete_where_def by (rule filter_cong) auto
  then show "db_jobs d' = delete_where (\<lambda>j. j_operation_id j \<noteq> '''' \<and>
       j_operation_id j \<in> me_operation_id ` set (session_messages s d)) (db_jobs d)"
    "db_messages d' = delete_where (\<lambda>m. me_session_id m = s) (db_messages d)"
    "db_instances d' = db_instances d"
    using delete_operations_frame[OF a] by (simp_all add: delete_session_row_def)
qed

lemma reconcile_orphaned_jobs:
  assumes "reconcile_orphaned_chat_work d = Inr (n, d')"
  shows "\<exists>P. db_jobs d' = delete_where P (db_jobs d)" and "db_instances d' = db_instances d"
proof -
  obtain P Q where a: "delete_operations Q (d\<lparr>db_jobs := delete_where P (db_jobs d)\<rparr>) = Inr d'"
    using assms by (auto simp: reconcile_orphaned_chat_work_def Let_def)
  show "\<exists>P. db_jobs d' = delete_where P (db_jobs d)" "db_instances d' = db_instances d"
    using delete_operations_frame(1,2)[OF a] by auto
qed

section \<open>The event log\<close>

definition events_ok :: "db \<Rightarrow> bool" where
  "events_ok d \<longleftrightarrow> sorted_wrt (<) (map ev_id (db_events d))
     \<and> (\<forall>e \<in> set (db_events d). ev_id e \<le> db_event_seq d)
     \<and> distinct (map (\<lambda>e. (ev_operation_id e, ev_sequence e)) (db_events d))"

lemma insert_event_ok:
  assumes "insert_event s op sequence t c h at d = Inr d'" and "events_ok d"
  shows "events_ok d'"
proof -
  obtain e where "db_events d' = db_events d @ [e]" "ev_id e = Suc (db_event_seq d)"
    "(ev_operation_id e, ev_sequence e) = (op, sequence)"
    "(op, sequence) \<notin> (\<lambda>e. (ev_operation_id e, ev_sequence e)) ` set (db_events d)"
    using insert_event_rows[OF assms(1)] by auto
  then show ?thesis
    using assms(2) insert_event_frame(8)[OF assms(1)]
    by (auto simp: events_ok_def sorted_wrt_append less_Suc_eq_le le_Suc_eq)
qed

lemma events_ok_same:
  "events_ok d \<Longrightarrow> db_events d' = db_events d \<Longrightarrow> db_event_seq d' = db_event_seq d \<Longrightarrow> events_ok d'"
  by (simp add: events_ok_def)

lemma record_chat_event_ok:
  assumes "record_chat_event e d = Inr d'" and "events_ok d"
  shows "events_ok d'"
proof (cases "find (\<lambda>r. ev_operation_id r = ce_operation_id e \<and> ev_sequence r = ce_sequence e) (db_events d)")
  case None
  then obtain d1 where i: "insert_event (ce_session_id e) (ce_operation_id e) (ce_sequence e) (ce_type e)
      (ce_ciphertext e) (ce_content_hash e) (ce_created_at e) d = Inr d1"
    and "db_events d' = db_events d1" "db_event_seq d' = db_event_seq d1"
    using assms(1) by (auto simp: record_chat_event_def)
  then show ?thesis using insert_event_ok[OF i assms(2)] by (simp add: events_ok_def)
next
  case (Some r)
  then show ?thesis using assms by (simp add: record_chat_event_def)
qed

lemma list_chat_events_sorted:
  assumes "events_ok d"
  shows "list_chat_events s c limit d = take (nat (if limit < 1 \<or> limit > 500 then 100 else limit))
      (filter (\<lambda>e. ev_session_id e = s \<and> c < ev_id e) (db_events d))"
proof -
  have "sorted_wrt (<) (map ev_id (filter P (db_events d)))" for P
    using assms unfolding events_ok_def by (simp add: sorted_wrt_map sorted_wrt_filter)
  then have "sorted (map ev_id (filter P (db_events d)))" for P
    by (metis strict_sorted_imp_sorted)
  then show ?thesis unfolding list_chat_events_def by (simp add: sorted_sort_id sort_key_id_if_sorted)
qed

lemma fold_max_upper: "x \<in> set xs \<Longrightarrow> x \<le> fold max xs (a :: nat)" "a \<le> fold max xs (a :: nat)"
proof (induction xs arbitrary: a)
  case (Cons y ys)
  { case 1 then show ?case using Cons(1)[of "max y a"] Cons(2)[of "max y a"] by auto }
  { case 2 then show ?case using Cons(2)[of "max y a"] by simp }
qed auto

lemma fold_max_le: "(\<And>x. x \<in> set xs \<Longrightarrow> x \<le> b) \<Longrightarrow> a \<le> b \<Longrightarrow> fold max xs a \<le> (b :: nat)"
  by (induction xs arbitrary: a) auto

lemma last_cursor_le: "events_ok d \<Longrightarrow> last_cursor s d \<le> db_event_seq d"
  unfolding last_cursor_def by (rule fold_max_le) (auto simp: events_ok_def)

lemma last_cursor_upper:
  "e \<in> set (db_events d) \<Longrightarrow> ev_session_id e = s \<Longrightarrow> ev_id e \<le> last_cursor s d"
  unfolding last_cursor_def by (rule fold_max_upper(1)) auto

end
