(* ===== verification/Store_Operations.thy ===== *)
theory Store_Operations
  imports Store_Chat
begin

text \<open>
  Operations of \<open>internal/store/store.go\<close> that are not a job: control-plane operations and the
  recovery of stale publishing, the second half of an instance deletion, the paged operation
  list, the ownership of remote access resources, and \<open>PrepareCleanHostRecovery\<close>.
\<close>

section \<open>Control-plane operations\<close>

definition insert_control_plane_operation :: "operation \<Rightarrow> db \<Rightarrow> db result" where
  "insert_control_plane_operation op d =
     insert_operation (op\<lparr>op_actor := default_actor (op_actor op),
       op_metadata := default_metadata (op_metadata op)\<rparr>) d"

definition create_control_plane_operation :: "operation \<Rightarrow> db \<Rightarrow> db result" where
  "create_control_plane_operation op d = insert_control_plane_operation op d"

definition start_instance_publishing :: "string \<Rightarrow> string \<Rightarrow> operation \<Rightarrow> db \<Rightarrow> db result" where
  "start_instance_publishing i hostname op d =
     (let hit = (\<lambda>r. in_id r = i \<and> in_status r \<noteq> InstanceDeleted \<and> in_status r \<noteq> InstanceDeleting)
      in case update_instances hit (\<lambda>r. r\<lparr>in_public_hostname := hostname\<rparr>) d of
           Inl _ \<Rightarrow> Inl (ErrMessage ''public hostname is already assigned to another instance'')
         | Inr d' \<Rightarrow>
             guard (count_where hit (db_instances d) = 1) ErrNotFound
               (insert_control_plane_operation op d'))"

definition open_operation :: "operation_status \<Rightarrow> bool" where
  "open_operation s \<longleftrightarrow> s = OperationPending \<or> s = OperationRunning"

definition update_control_plane_operation ::
    "string \<Rightarrow> operation_status \<Rightarrow> job_progress \<Rightarrow> string \<Rightarrow> timestamp \<Rightarrow> db \<Rightarrow> db result" where
  "update_control_plane_operation i status p err at d =
     (let hit = (\<lambda>o'. op_id o' = i \<and> (open_operation (op_status o') \<or> op_status o' = status))
      in if count_where hit (db_operations d) \<noteq> 1
         then (if operation_exists d i then Inl ErrStateChanged else Inl ErrNotFound)
         else Inr (d\<lparr>db_operations := update_where hit
             (\<lambda>o'. o'\<lparr>op_status := status, op_progress := Some p, op_error := err, op_updated_at := at\<rparr>)
             (db_operations d)\<rparr>))"

definition has_job :: "db \<Rightarrow> operation \<Rightarrow> bool" where
  "has_job d o' \<longleftrightarrow> list_ex (\<lambda>j. j_operation_id j = op_id o') (db_jobs d)"

definition stale_publishing :: "timestamp \<Rightarrow> db \<Rightarrow> operation \<Rightarrow> bool" where
  "stale_publishing before d o' \<longleftrightarrow> op_type o' = OpPublishDashboard \<and> open_operation (op_status o')
     \<and> op_updated_at o' \<le> before \<and> \<not> has_job d o'"

definition list_stale_publishing_operations :: "timestamp \<Rightarrow> int \<Rightarrow> db \<Rightarrow> operation list" where
  "list_stale_publishing_operations before limit d =
     (if limit \<le> 0 then []
      else take (nat limit) (sort_key (\<lambda>o'. Order_Key 0 (op_updated_at o') (op_id o'))
        (filter (stale_publishing before d) (db_operations d))))"

definition finalize_stale_publishing_operation ::
    "string \<Rightarrow> timestamp \<Rightarrow> operation_status \<Rightarrow> job_progress \<Rightarrow> string \<Rightarrow> timestamp \<Rightarrow> db \<Rightarrow> (bool \<times> db) result" where
  "finalize_stale_publishing_operation i before status p err at d =
     guard (status = OperationSucceeded \<or> status = OperationFailed)
       (ErrMessage ''stale publishing operation requires a terminal status'')
     (let hit = (\<lambda>o'. op_id o' = i \<and> stale_publishing before d o')
      in Inr (count_where hit (db_operations d) = 1,
              d\<lparr>db_operations := update_where hit
                  (\<lambda>o'. o'\<lparr>op_status := status, op_progress := Some p, op_error := err,
                          op_updated_at := at\<rparr>) (db_operations d)\<rparr>))"

section \<open>Deletion\<close>

text \<open>An instance whose runtime is removed and whose Fleet resources are not yet.\<close>

definition deletion_operation :: "db \<Rightarrow> operation \<Rightarrow> bool" where
  "deletion_operation d o' \<longleftrightarrow> op_type o' = OpDelete
     \<and> op_status o' \<in> {OperationPending, OperationRunning, OperationFailed}
     \<and> list_ex (\<lambda>j. j_operation_id j = op_id o' \<and> j_type j = JobDelete \<and> j_status j = JobSucceeded)
         (db_jobs d)
     \<and> list_ex (\<lambda>r. in_id r = op_instance_id o' \<and> in_status r = InstanceDeleting) (db_instances d)"

definition list_pending_instance_deletions :: "int \<Rightarrow> db \<Rightarrow> (string \<times> string) list" where
  "list_pending_instance_deletions limit d =
     (if limit \<le> 0 then []
      else take (nat limit) (map (\<lambda>o'. (op_instance_id o', op_id o'))
        (sort_key (\<lambda>o'. Order_Key 0 (op_created_at o') (op_id o'))
          (filter (deletion_operation d) (db_operations d)))))"

definition pending_instance_deletion :: "string \<Rightarrow> db \<Rightarrow> (string \<times> string) result" where
  "pending_instance_deletion i d =
     (case rev (sort_key (\<lambda>o'. Order_Key 0 (op_created_at o') (op_id o'))
         (filter (\<lambda>o'. op_instance_id o' = i \<and> deletion_operation d o') (db_operations d))) of
        [] \<Rightarrow> Inl ErrNotFound
      | o' # _ \<Rightarrow> Inr (op_instance_id o', op_id o'))"

definition update_instance_deletion_cleanup ::
    "string \<Rightarrow> string \<Rightarrow> job_progress \<Rightarrow> string \<Rightarrow> bool \<Rightarrow> timestamp \<Rightarrow> db \<Rightarrow> db result" where
  "update_instance_deletion_cleanup i op p cleanup_err completed at d =
     (let err = (if completed then '''' else cleanup_err);
          op_st = (if completed then OperationSucceeded
                   else if cleanup_err \<noteq> '''' then OperationFailed else OperationRunning);
          inst_st = (if completed then InstanceDeleted else InstanceDeleting);
          op_hit = (\<lambda>o'. op_id o' = op \<and> op_instance_id o' = i \<and> op_type o' = OpDelete
             \<and> op_status o' \<in> {OperationPending, OperationRunning, OperationFailed});
          in_hit = (\<lambda>r. in_id r = i \<and> in_status r = InstanceDeleting)
      in guard (count_where op_hit (db_operations d) = 1) ErrStateChanged
         (and_then (update_instances in_hit
              (\<lambda>r. r\<lparr>in_status := inst_st, in_last_error := err, in_updated_at := at\<rparr>)
              (d\<lparr>db_operations := update_where op_hit
                  (\<lambda>o'. o'\<lparr>op_status := op_st, op_progress := Some p, op_error := err,
                          op_updated_at := at\<rparr>) (db_operations d)\<rparr>))
           (\<lambda>d'. guard (count_where in_hit (db_instances d) = 1) ErrStateChanged (Inr d'))))"

section \<open>The operation list\<close>

definition shown_progress :: "db \<Rightarrow> operation \<Rightarrow> job_progress option" where
  "shown_progress d o' =
     (case op_progress o' of
        Some p \<Rightarrow> Some p
      | None \<Rightarrow>
          (case rev (sort_key (\<lambda>j. Order_Key 0 (j_updated_at j) (j_id j))
              (filter (\<lambda>j. j_operation_id j = op_id o') (db_jobs d))) of
             [] \<Rightarrow> None | j # _ \<Rightarrow> jr_progress j))"

definition show_operation :: "db \<Rightarrow> operation \<Rightarrow> operation" where
  "show_operation d o' = o'\<lparr>op_progress := shown_progress d o'\<rparr>"

definition get_operation :: "string \<Rightarrow> db \<Rightarrow> operation result" where
  "get_operation i d =
     (case find_operation d i of None \<Rightarrow> Inl ErrNotFound | Some o' \<Rightarrow> Inr (show_operation d o'))"

definition operation_key :: "operation \<Rightarrow> order_key" where
  "operation_key o' = Order_Key 0 (op_created_at o') (op_id o')"

definition newest_operations :: "db \<Rightarrow> operation list" where
  "newest_operations d = map (show_operation d) (rev (sort_key operation_key (db_operations d)))"

record operation_page =
  pg_items :: "operation list"
  pg_next :: "(timestamp \<times> string) option"

definition max_int64 :: int where
  "max_int64 = 2 ^ 63 - 1"

definition fetch_limit :: "int \<Rightarrow> int" where
  "fetch_limit limit = (if limit = max_int64 then limit else limit + 1)"

definition before_cursor :: "timestamp \<times> string \<Rightarrow> operation \<Rightarrow> bool" where
  "before_cursor c o' \<longleftrightarrow> op_created_at o' < fst c \<or> op_created_at o' = fst c \<and> op_id o' < snd c"

definition make_page :: "int \<Rightarrow> operation list \<Rightarrow> operation_page" where
  "make_page limit rows =
     (let items = take (nat (fetch_limit limit)) rows
      in if int (length items) > limit
         then let kept = take (nat limit) items
              in \<lparr>pg_items = kept, pg_next = Some (op_created_at (last kept), op_id (last kept))\<rparr>
         else \<lparr>pg_items = items, pg_next = None\<rparr>)"

definition list_operations_page ::
    "int \<Rightarrow> (timestamp \<times> string) option \<Rightarrow> db \<Rightarrow> operation_page result" where
  "list_operations_page limit cursor d =
     (if limit \<le> 0 then Inr \<lparr>pg_items = [], pg_next = None\<rparr>
      else case cursor of
        None \<Rightarrow> Inr (make_page limit (newest_operations d))
      | Some c \<Rightarrow>
          guard (fst c \<noteq> zero_time \<and> snd c \<noteq> '''') (ErrMessage ''operation cursor is incomplete'')
            (Inr (make_page limit (filter (before_cursor c) (newest_operations d)))))"

section \<open>Remote access resources\<close>

definition same_resource :: "resource_row \<Rightarrow> resource_row \<Rightarrow> bool" where
  "same_resource a b \<longleftrightarrow> ra_instance_id a = ra_instance_id b \<and> ra_kind a = ra_kind b
     \<and> ra_hostname a = ra_hostname b"

definition put_remote_access_resource :: "resource_row \<Rightarrow> db \<Rightarrow> db result" where
  "put_remote_access_resource r d =
     (if ra_kind r \<notin> {''dns'', ''ingress''} then Inl (ErrCheck ''remote_access_resources.kind'')
      else if list_ex (same_resource r) (db_resources d) then
        Inr (d\<lparr>db_resources := update_where (same_resource r)
          (\<lambda>q. q\<lparr>ra_resource_id := ra_resource_id r, ra_tunnel_id := ra_tunnel_id r,
                 ra_zone_id := ra_zone_id r, ra_origin_service := ra_origin_service r,
                 ra_updated_at := ra_updated_at r\<rparr>) (db_resources d)\<rparr>)
      else if list_ex (\<lambda>q. ra_hostname q = ra_hostname r \<and> ra_kind q = ra_kind r) (db_resources d)
      then Inl (ErrUnique ''remote_access_resources.hostname'')
      else if \<not> instance_exists d (ra_instance_id r)
      then Inl (ErrForeignKey ''remote_access_resources.instance_id'')
      else Inr (d\<lparr>db_resources := db_resources d @ [r]\<rparr>))"

definition delete_remote_access_resource :: "string \<Rightarrow> string \<Rightarrow> string \<Rightarrow> db \<Rightarrow> db" where
  "delete_remote_access_resource i kind hostname d =
     d\<lparr>db_resources := delete_where (\<lambda>q. ra_instance_id q = i \<and> ra_kind q = kind
        \<and> ra_hostname q = hostname) (db_resources d)\<rparr>"

section \<open>Recovery onto a clean host\<close>

definition clean_host_reason :: string where
  "clean_host_reason = ''Interrupted by clean-host recovery import''"

fun close_chat_streams :: "message_row list \<Rightarrow> timestamp \<Rightarrow> db \<Rightarrow> db result" where
  "close_chat_streams [] at d = Inr d"
| "close_chat_streams (m # ms) at d =
     and_then (append_closing_event (me_session_id m) (me_operation_id m) EventFailed at d)
       (close_chat_streams ms at)"

definition unanswered :: "message_row \<Rightarrow> bool" where
  "unanswered m \<longleftrightarrow> me_role m = RoleUser \<and> me_status m = MessagePending"

definition fence_restored_work :: "timestamp \<Rightarrow> db \<Rightarrow> db" where
  "fence_restored_work at d =
     d\<lparr>db_jobs := update_where (\<lambda>j. active_job (j_status j)) (abort_row at) (db_jobs d),
       db_operations := update_where (\<lambda>o'. open_operation (op_status o'))
         (\<lambda>o'. o'\<lparr>op_status := OperationFailed,
                 op_error := (if op_error o' = '''' then clean_host_reason else op_error o'),
                 op_updated_at := at\<rparr>) (db_operations d)\<rparr>"

definition fail_restored_messages :: "timestamp \<Rightarrow> db \<Rightarrow> db" where
  "fail_restored_messages at d =
     (let d = update_messages unanswered
            (\<lambda>m. m\<lparr>me_status := MessageFailed, me_error := clean_host_reason, me_updated_at := at\<rparr>) d
      in d\<lparr>db_sessions := update_where
            (\<lambda>s. list_ex (\<lambda>m. me_session_id m = se_id s \<and> me_error m = clean_host_reason) (db_messages d))
            (\<lambda>s. s\<lparr>se_last_error := clean_host_reason, se_updated_at := at\<rparr>) (db_sessions d),
           db_observations := [], db_requests := [], db_reconcile := [], db_remediation := []\<rparr>)"

definition prepare_clean_host_recovery :: "timestamp \<Rightarrow> db \<Rightarrow> db result" where
  "prepare_clean_host_recovery at d =
     and_then (close_chat_streams (filter (\<lambda>m. unanswered m \<and> me_operation_id m \<noteq> '''') (db_messages d))
         at (fence_restored_work at d))
       (\<lambda>d. update_instances (\<lambda>r. in_status r \<noteq> InstanceDeleted)
          (\<lambda>r. r\<lparr>in_status := InstanceStopped, in_last_error := '''', in_updated_at := at\<rparr>)
          (fail_restored_messages at d))"

end
