(* ===== verification/Store_Campaigns.thy ===== *)
theory Store_Campaigns
  imports Store_Observations Store_Operations
begin

text \<open>
  Work that spans instances: \<open>internal/store/policies.go\<close> (policies, their scope and rollouts),
  \<open>internal/store/campaigns.go\<close> (diagnostics campaigns) and \<open>internal/store/health_history.go\<close>
  (fleet health and its bounded history). The metadata of an operation is well-formed JSON,
  as \<open>json.Marshal\<close> writes it.
\<close>

section \<open>Policies\<close>

record fleet_policy = policy_row +
  po_scope_instance_ids :: "string list"

definition metadata_text :: "string \<Rightarrow> operation \<Rightarrow> string option" where
  "metadata_text k p =
     (case op_metadata p of
        Some (Some (JObject kvs)) \<Rightarrow> (case jfield k kvs of JString s \<Rightarrow> Some s | _ \<Rightarrow> None)
      | _ \<Rightarrow> None)"

definition active_rollout_of :: "string \<Rightarrow> operation \<Rightarrow> bool" where
  "active_rollout_of policy p \<longleftrightarrow> op_type p = OpRolloutPolicy \<and> open_operation (op_status p)
     \<and> metadata_text ''policy_id'' p = Some policy"

definition active_rollouts :: "string \<Rightarrow> db \<Rightarrow> nat" where
  "active_rollouts policy d = count_where (active_rollout_of policy) (db_operations d)"

text \<open>The \<open>CHECK\<close> constraints of \<open>fleet_policies\<close> and its \<open>NOCASE\<close> unique name.\<close>

definition policy_columns_ok :: "fleet_policy \<Rightarrow> bool" where
  "policy_columns_ok p \<longleftrightarrow> po_status p \<in> {''ENABLED'', ''DISABLED''}
     \<and> po_desired_hermes p = ''LATEST_STABLE'' \<and> po_strategy p \<in> {''ONE_AT_A_TIME'', ''ALL_AT_ONCE''}"

definition same_policy_name :: "fleet_policy \<Rightarrow> policy_row \<Rightarrow> bool" where
  "same_policy_name p q \<longleftrightarrow> po_id q \<noteq> po_id p
     \<and> map lower_char (po_name q) = map lower_char (po_name p)"

fun write_policy_scope :: "string \<Rightarrow> string list \<Rightarrow> db \<Rightarrow> db result" where
  "write_policy_scope policy [] d = Inr d"
| "write_policy_scope policy (i # is) d =
     (if \<not> list_ex (\<lambda>r. in_id r = i \<and> in_status r \<noteq> InstanceDeleted) (db_instances d)
      then Inl (ErrMessage (''policy scope contains an unavailable instance: '' @ i))
      else if (policy, i) \<in> set (db_scope d) then Inl (ErrUnique ''fleet_policy_scope'')
      else write_policy_scope policy is (d\<lparr>db_scope := db_scope d @ [(policy, i)]\<rparr>))"

definition write_policy :: "bool \<Rightarrow> fleet_policy \<Rightarrow> db \<Rightarrow> db result" where
  "write_policy create p d =
     (if create then
        guard (\<not> list_ex (\<lambda>q. po_id q = po_id p) (db_policies d)) (ErrUnique ''fleet_policies.id'')
        (guard (\<not> list_ex (same_policy_name p) (db_policies d)) (ErrUnique ''fleet_policies.name'')
        (guard (policy_columns_ok p) (ErrCheck ''fleet_policies'')
        (write_policy_scope (po_id p) (po_scope_instance_ids p)
           (d\<lparr>db_policies := db_policies d @ [policy_row.truncate p]\<rparr>))))
      else
        guard (active_rollouts (po_id p) d = 0)
          (ErrMessage ''policy cannot be changed while a rollout is active'')
        (guard (list_ex (\<lambda>q. po_id q = po_id p) (db_policies d)) ErrNotFound
        (guard (\<not> list_ex (same_policy_name p) (db_policies d)) (ErrUnique ''fleet_policies.name'')
        (guard (policy_columns_ok p) (ErrCheck ''fleet_policies'')
        (write_policy_scope (po_id p) (po_scope_instance_ids p)
           (d\<lparr>db_policies := update_where (\<lambda>q. po_id q = po_id p)
               (\<lambda>q. policy_row.truncate p\<lparr>po_created_at := po_created_at q\<rparr>) (db_policies d),
              db_scope := delete_where (\<lambda>s. fst s = po_id p) (db_scope d)\<rparr>))))))"

definition list_policies :: "db \<Rightarrow> fleet_policy list" where
  "list_policies d =
     map (\<lambda>q. policy_row.extend q \<lparr>po_scope_instance_ids =
            sort (map snd (filter (\<lambda>s. fst s = po_id q) (db_scope d)))\<rparr>)
       (sort_key (\<lambda>q. Order_Key 0 (po_created_at q) (po_id q)) (db_policies d))"

definition get_policy :: "string \<Rightarrow> db \<Rightarrow> fleet_policy result" where
  "get_policy i d =
     (case find (\<lambda>p. po_id p = i) (list_policies d) of None \<Rightarrow> Inl ErrNotFound | Some p \<Rightarrow> Inr p)"

definition delete_policy :: "string \<Rightarrow> db \<Rightarrow> db result" where
  "delete_policy i d =
     guard (list_ex (\<lambda>q. po_id q = i) (db_policies d) \<and> active_rollouts i d = 0) ErrNotFound
       (Inr (d\<lparr>db_policies := delete_where (\<lambda>q. po_id q = i) (db_policies d),
               db_scope := delete_where (\<lambda>s. fst s = i) (db_scope d)\<rparr>))"

section \<open>Rollouts\<close>

definition same_rollout_target :: "string \<Rightarrow> string \<Rightarrow> rollout_row \<Rightarrow> bool" where
  "same_rollout_target rollout i t \<longleftrightarrow> ro_rollout_id t = rollout \<and> ro_instance_id t = i"

fun insert_rollout_targets :: "operation \<Rightarrow> string \<Rightarrow> string list \<Rightarrow> db \<Rightarrow> db result" where
  "insert_rollout_targets p policy [] d = Inr d"
| "insert_rollout_targets p policy (i # is) d =
     guard (\<not> list_ex (same_rollout_target (op_id p) i) (db_rollouts d))
       (ErrUnique ''policy_rollout_targets'')
     (guard (instance_exists d i) (ErrForeignKey ''policy_rollout_targets.instance_id'')
     (insert_rollout_targets p policy is
       (d\<lparr>db_rollouts := db_rollouts d @ [\<lparr>ro_rollout_id = op_id p, ro_policy_id = policy,
           ro_instance_id = i, ro_child_operation_id = '''', ro_status = TargetPending,
           ro_detail = '''', ro_created_at = op_created_at p, ro_updated_at = op_updated_at p\<rparr>]\<rparr>)))"

definition create_policy_rollout :: "operation \<Rightarrow> string \<Rightarrow> string list \<Rightarrow> db \<Rightarrow> db result" where
  "create_policy_rollout p policy is d =
     guard (active_rollouts policy d = 0) (ErrMessage ''policy already has an active rollout'')
     (and_then (insert_control_plane_operation p d) (insert_rollout_targets p policy is))"

definition list_active_policy_rollouts :: "db \<Rightarrow> operation list" where
  "list_active_policy_rollouts d = map (show_operation d) (sort_key op_created_at
     (filter (\<lambda>p. op_type p = OpRolloutPolicy \<and> open_operation (op_status p)) (db_operations d)))"

definition list_policy_rollout_targets :: "string \<Rightarrow> db \<Rightarrow> (rollout_row \<times> string) list" where
  "list_policy_rollout_targets rollout d =
     map (\<lambda>t. (t, (case find_instance d (ro_instance_id t) of None \<Rightarrow> '''' | Some r \<Rightarrow> in_name r)))
       (sort_key (\<lambda>t. Order_Key (ro_created_at t) 0
            (case find_instance d (ro_instance_id t) of None \<Rightarrow> '''' | Some r \<Rightarrow> in_name r))
         (sort_key ro_instance_id
           (filter (\<lambda>t. ro_rollout_id t = rollout \<and> instance_exists d (ro_instance_id t)) (db_rollouts d))))"

definition control_state :: "operation \<Rightarrow> string" where
  "control_state p =
     (case metadata_text ''control_state'' p of None \<Rightarrow> ''RUNNING'' | Some c \<Rightarrow> c)"

definition update_policy_rollout_control ::
    "string \<Rightarrow> string \<Rightarrow> raw_json \<Rightarrow> job_progress \<Rightarrow> timestamp \<Rightarrow> db \<Rightarrow> db result" where
  "update_policy_rollout_control rollout expected metadata progress at d =
     (let hit = (\<lambda>p. op_id p = rollout \<and> op_type p = OpRolloutPolicy \<and> open_operation (op_status p)
           \<and> control_state p = expected)
      in guard (count_where hit (db_operations d) = 1) ErrStateChanged
         (Inr (d\<lparr>db_operations := update_where hit
            (\<lambda>p. p\<lparr>op_metadata := Some metadata, op_progress := Some progress, op_updated_at := at\<rparr>)
            (db_operations d)\<rparr>)))"

definition block_pending_policy_rollout_targets :: "string \<Rightarrow> string \<Rightarrow> timestamp \<Rightarrow> db \<Rightarrow> nat \<times> db" where
  "block_pending_policy_rollout_targets rollout detail at d =
     (let hit = (\<lambda>t. ro_rollout_id t = rollout \<and> ro_status t = TargetPending)
      in (count_where hit (db_rollouts d),
          d\<lparr>db_rollouts := update_where hit
             (\<lambda>t. t\<lparr>ro_status := TargetBlocked, ro_detail := detail, ro_updated_at := at\<rparr>)
             (db_rollouts d)\<rparr>))"

definition update_policy_rollout_target ::
    "string \<Rightarrow> string \<Rightarrow> string \<Rightarrow> target_status \<Rightarrow> string \<Rightarrow> timestamp \<Rightarrow> db \<Rightarrow> db result" where
  "update_policy_rollout_target rollout i child status detail at d =
     (let hit = same_rollout_target rollout i
      in guard (child = '''' \<or> operation_exists d child \<or> count_where hit (db_rollouts d) = 0)
           (ErrForeignKey ''policy_rollout_targets.child_operation_id'')
         (guard (count_where hit (db_rollouts d) = 1) ErrNotFound
         (Inr (d\<lparr>db_rollouts := update_where hit
            (\<lambda>t. t\<lparr>ro_child_operation_id := (if child = '''' then ro_child_operation_id t else child),
                   ro_status := status, ro_detail := detail, ro_updated_at := at\<rparr>)
            (db_rollouts d)\<rparr>))))"

section \<open>Campaigns\<close>

definition campaign_active :: "db \<Rightarrow> string \<Rightarrow> bool" where
  "campaign_active d c \<longleftrightarrow>
     list_ex (\<lambda>p. op_id p = c \<and> op_type p = OpCampaign \<and> open_operation (op_status p)) (db_operations d)"

definition active_campaign_targets :: "string \<Rightarrow> db \<Rightarrow> nat" where
  "active_campaign_targets i d =
     count_where (\<lambda>t. cm_instance_id t = i \<and> campaign_active d (cm_campaign_id t)) (db_campaigns d)"

fun check_campaign_instances :: "string list \<Rightarrow> db \<Rightarrow> unit result" where
  "check_campaign_instances [] d = Inr ()"
| "check_campaign_instances (i # is) d =
     guard (case find_instance d i of None \<Rightarrow> False
            | Some r \<Rightarrow> in_status r \<noteq> InstanceDeleted \<and> in_status r \<noteq> InstanceDeleting)
       (ErrMessage (''campaign contains an unavailable instance: '' @ i))
     (guard (active_campaign_targets i d = 0)
       (ErrMessage (''instance already belongs to an active campaign: '' @ i))
     (check_campaign_instances is d))"

definition same_campaign_target :: "string \<Rightarrow> string \<Rightarrow> campaign_row \<Rightarrow> bool" where
  "same_campaign_target c i t \<longleftrightarrow> cm_campaign_id t = c \<and> cm_instance_id t = i"

fun insert_campaign_targets :: "operation \<Rightarrow> string list \<Rightarrow> db \<Rightarrow> db result" where
  "insert_campaign_targets p [] d = Inr d"
| "insert_campaign_targets p (i # is) d =
     guard (\<not> list_ex (same_campaign_target (op_id p) i) (db_campaigns d)) (ErrUnique ''campaign_targets'')
     (guard (instance_exists d i) (ErrForeignKey ''campaign_targets.instance_id'')
     (insert_campaign_targets p is
       (d\<lparr>db_campaigns := db_campaigns d @ [\<lparr>cm_campaign_id = op_id p, cm_instance_id = i,
           cm_request_id = '''', cm_status = TargetPending, cm_detail = '''', cm_requested_at = None,
           cm_completed_at = None, cm_created_at = op_created_at p, cm_updated_at = op_updated_at p\<rparr>]\<rparr>)))"

definition create_campaign :: "operation \<Rightarrow> string list \<Rightarrow> db \<Rightarrow> db result" where
  "create_campaign p is d =
     and_then (check_campaign_instances is d) (\<lambda>_.
     and_then (insert_control_plane_operation p d) (insert_campaign_targets p is))"

definition list_campaign_operations :: "int \<Rightarrow> bool \<Rightarrow> db \<Rightarrow> operation list" where
  "list_campaign_operations limit active_only d =
     (if limit \<le> 0 then []
      else take (nat limit) (filter (\<lambda>p. op_type p = OpCampaign
        \<and> (active_only \<longrightarrow> open_operation (op_status p))) (newest_operations d)))"

definition list_campaign_targets :: "string \<Rightarrow> db \<Rightarrow> (campaign_row \<times> string) list" where
  "list_campaign_targets c d =
     map (\<lambda>t. (t, (case find_instance d (cm_instance_id t) of None \<Rightarrow> '''' | Some r \<Rightarrow> in_name r)))
       (sort_key (\<lambda>t. Order_Key (cm_created_at t) 0
            (case find_instance d (cm_instance_id t) of None \<Rightarrow> '''' | Some r \<Rightarrow> in_name r))
         (sort_key cm_instance_id
           (filter (\<lambda>t. cm_campaign_id t = c \<and> instance_exists d (cm_instance_id t)) (db_campaigns d))))"

definition start_campaign_observation :: "string \<Rightarrow> string \<Rightarrow> string \<Rightarrow> timestamp \<Rightarrow> db \<Rightarrow> db result" where
  "start_campaign_observation c i request at d =
     (case find (same_campaign_target c i) (db_campaigns d) of
        None \<Rightarrow> Inl ErrNotFound
      | Some t \<Rightarrow>
          guard (cm_status t = TargetPending) ErrStateChanged
          (and_then (request_observation i request at d) (\<lambda>(_, d).
           let hit = (\<lambda>t. same_campaign_target c i t \<and> cm_status t = TargetPending)
           in guard (count_where hit (db_campaigns d) = 1) ErrStateChanged
              (Inr (d\<lparr>db_campaigns := update_where hit
                 (\<lambda>t. t\<lparr>cm_request_id := request, cm_status := TargetRunning,
                        cm_detail := ''Waiting for a fresh Host Agent observation'',
                        cm_requested_at := Some at, cm_completed_at := None, cm_updated_at := at\<rparr>)
                 (db_campaigns d)\<rparr>)))))"

definition finish_campaign_target ::
    "string \<Rightarrow> string \<Rightarrow> string \<Rightarrow> target_status \<Rightarrow> string \<Rightarrow> timestamp \<Rightarrow> db \<Rightarrow> db result" where
  "finish_campaign_target c i request status detail at d =
     (let d = (if request \<noteq> '''' \<and> status \<noteq> TargetSucceeded
          then d\<lparr>db_requests := delete_where (\<lambda>q. rq_instance_id q = i \<and> rq_request_id q = request)
                (db_requests d)\<rparr> else d);
          hit = (\<lambda>t. same_campaign_target c i t
             \<and> (cm_status t = TargetPending \<or> cm_status t = TargetRunning))
      in guard (count_where hit (db_campaigns d) = 1) ErrStateChanged
         (Inr (d\<lparr>db_campaigns := update_where hit
            (\<lambda>t. t\<lparr>cm_status := status, cm_detail := detail, cm_completed_at := Some at,
                   cm_updated_at := at\<rparr>) (db_campaigns d)\<rparr>)))"

section \<open>Fleet health\<close>

definition fleet_health_incident_retention :: nat where
  "fleet_health_incident_retention = 200"

definition newest_incidents :: "incident_row list \<Rightarrow> incident_row list" where
  "newest_incidents rows = rev (sort_key (\<lambda>r. Order_Key (ic_occurred_at r) (int (ic_id r)) '''') rows)"

definition prune_incidents :: "incident_row list \<Rightarrow> incident_row list" where
  "prune_incidents rows =
     (let kept = map ic_id (take fleet_health_incident_retention (newest_incidents rows))
      in delete_where (\<lambda>r. ic_id r \<notin> set kept) rows)"

definition record_fleet_health :: "string \<Rightarrow> string \<Rightarrow> string \<Rightarrow> timestamp \<Rightarrow> db \<Rightarrow> db result" where
  "record_fleet_health component status detail at d =
     guard (component \<noteq> '''' \<and> (status = ''healthy'' \<or> status = ''degraded''))
       (ErrMessage ''Fleet health requires a component and healthy or degraded status'') (Inr (
     let previous = find_row he_component component (db_health d);
         previous_status = (case previous of None \<Rightarrow> '''' | Some r \<Rightarrow> he_status r);
         last_success = (if status = ''healthy'' then Some at
           else Option.bind previous he_last_success_at);
         d = d\<lparr>db_health := upsert_by he_component \<lparr>he_component = component, he_status = status,
               he_detail = detail, he_updated_at = at, he_last_success_at = last_success\<rparr> (db_health d)\<rparr>
     in if previous_status = status then d
        else d\<lparr>db_incident_seq := db_incident_seq d + 1,
               db_incidents := prune_incidents (db_incidents d @ [\<lparr>ic_id = db_incident_seq d + 1,
                 ic_component = component, ic_previous_status = previous_status, ic_status = status,
                 ic_detail = detail, ic_occurred_at = at\<rparr>])\<rparr>))"

definition list_fleet_health_states :: "db \<Rightarrow> health_row list" where
  "list_fleet_health_states d = sort_key he_component (db_health d)"

definition list_fleet_health_incidents :: "int \<Rightarrow> db \<Rightarrow> incident_row list result" where
  "list_fleet_health_incidents limit d =
     guard (\<not> (limit < 1 \<or> limit > int fleet_health_incident_retention))
       (ErrMessage ''Fleet health incident limit must be between 1 and 200'')
       (Inr (take (nat limit) (newest_incidents (db_incidents d))))"

section \<open>At most one active rollout of a policy\<close>

lemma insert_rollout_targets_frame:
  "insert_rollout_targets p policy is d = Inr d' \<Longrightarrow>
     db_operations d' = db_operations d \<and> db_jobs d' = db_jobs d \<and> db_instances d' = db_instances d"
  by (induction p policy "is" d rule: insert_rollout_targets.induct) auto

lemma create_policy_rollout_Inr:
  assumes "create_policy_rollout p policy is d = Inr d'"
  shows "active_rollouts policy d = 0" "db_jobs d' = db_jobs d"
    "\<exists>q. db_operations d' = db_operations d @ [q] \<and> op_id q = op_id p \<and> op_type q = op_type p
       \<and> op_status q = op_status p"
  using assms
  by (auto simp: create_policy_rollout_def insert_control_plane_operation_def insert_operation_Inr
      dest!: insert_rollout_targets_frame)

lemma create_policy_rollout_metadata:
  assumes "create_policy_rollout p policy is d = Inr d'" "metadata_text ''policy_id'' p = Some policy"
  shows "active_rollouts q d' = active_rollouts q d +
     (if q = policy \<and> op_type p = OpRolloutPolicy \<and> open_operation (op_status p) then 1 else 0)"
proof -
  obtain d1 where "insert_control_plane_operation p d = Inr d1" "insert_rollout_targets p policy is d1 = Inr d'"
    using assms(1) by (auto simp: create_policy_rollout_def)
  then have ops: "db_operations d' = db_operations d @ [p\<lparr>op_actor := default_actor (op_actor p),
       op_metadata := default_metadata (op_metadata p)\<rparr>]"
    by (auto simp: insert_control_plane_operation_def insert_operation_Inr dest!: insert_rollout_targets_frame)
  have "metadata_text ''policy_id'' (p\<lparr>op_actor := a, op_metadata := default_metadata (op_metadata p)\<rparr>)
      = Some policy" for a
    using assms(2) by (auto simp: metadata_text_def default_metadata_def split: option.splits)
  then show ?thesis by (auto simp: active_rollouts_def ops active_rollout_of_def)
qed

section \<open>An instance is in at most one active campaign\<close>

definition campaigns_ok :: "db \<Rightarrow> bool" where
  "campaigns_ok d \<longleftrightarrow> (\<forall>t \<in> set (db_campaigns d). operation_exists d (cm_campaign_id t))
     \<and> (\<forall>i. active_campaign_targets i d \<le> 1)"

lemma check_campaign_instances_Inr:
  "check_campaign_instances is d = Inr u \<Longrightarrow> i \<in> set is \<Longrightarrow>
     active_campaign_targets i d = 0 \<and>
     (\<exists>r. find_instance d i = Some r \<and> in_status r \<noteq> InstanceDeleted \<and> in_status r \<noteq> InstanceDeleting)"
  by (induction "is" d rule: check_campaign_instances.induct) (auto split: option.splits)

text \<open>The rows of a new campaign: one per instance, none of them there before.\<close>

lemma insert_campaign_targets_Inr:
  assumes "insert_campaign_targets p is d = Inr d'"
  shows "\<exists>ts. db_campaigns d' = db_campaigns d @ ts \<and> map cm_instance_id ts = is \<and> distinct is
     \<and> (\<forall>t \<in> set ts. cm_campaign_id t = op_id p \<and> cm_status t = TargetPending)
     \<and> (\<forall>i \<in> set is. \<not> list_ex (same_campaign_target (op_id p) i) (db_campaigns d))"
    and "db_operations d' = db_operations d" "db_instances d' = db_instances d"
    "db_jobs d' = db_jobs d"
proof -
  show "\<exists>ts. db_campaigns d' = db_campaigns d @ ts \<and> map cm_instance_id ts = is \<and> distinct is
     \<and> (\<forall>t \<in> set ts. cm_campaign_id t = op_id p \<and> cm_status t = TargetPending)
     \<and> (\<forall>i \<in> set is. \<not> list_ex (same_campaign_target (op_id p) i) (db_campaigns d))"
    using assms
  proof (induction p "is" d rule: insert_campaign_targets.induct)
    case (2 p i "is" d)
    let ?row = "\<lparr>cm_campaign_id = op_id p, cm_instance_id = i,
           cm_request_id = '''', cm_status = TargetPending, cm_detail = '''', cm_requested_at = None,
           cm_completed_at = None, cm_created_at = op_created_at p, cm_updated_at = op_updated_at p\<rparr>"
    have fresh: "\<not> list_ex (same_campaign_target (op_id p) i) (db_campaigns d)"
      and rest: "insert_campaign_targets p is (d\<lparr>db_campaigns := db_campaigns d @ [?row]\<rparr>) = Inr d'"
      using 2(2) by auto
    obtain ts where ts: "db_campaigns d' = (db_campaigns d @ [?row]) @ ts" "map cm_instance_id ts = is"
      "distinct is" "\<forall>t \<in> set ts. cm_campaign_id t = op_id p \<and> cm_status t = TargetPending"
      "\<forall>i \<in> set is. \<not> list_ex (same_campaign_target (op_id p) i) (db_campaigns d @ [?row])"
      using 2(1)[OF rest] by auto
    have "i \<notin> set is" using ts(5) by (auto simp: same_campaign_target_def)
    then show ?case using ts fresh by (intro exI[of _ "?row # ts"]) auto
  qed auto
  show "db_operations d' = db_operations d" "db_instances d' = db_instances d" "db_jobs d' = db_jobs d"
    using assms by (induction p "is" d rule: insert_campaign_targets.induct) auto
qed

lemma campaign_active_cong:
  "db_operations d' = db_operations d \<Longrightarrow> campaign_active d' c = campaign_active d c"
  by (simp add: campaign_active_def)

lemma create_campaign_rows:
  assumes "create_campaign p is d = Inr d'"
  obtains ts q where "db_campaigns d' = db_campaigns d @ ts" "map cm_instance_id ts = is" "distinct is"
    "\<forall>t \<in> set ts. cm_campaign_id t = op_id p \<and> cm_status t = TargetPending"
    "\<forall>i \<in> set is. \<not> list_ex (same_campaign_target (op_id p) i) (db_campaigns d)"
    "\<forall>i \<in> set is. active_campaign_targets i d = 0"
    "db_operations d' = db_operations d @ [q]" "op_id q = op_id p" "\<not> operation_exists d (op_id p)"
proof -
  obtain u d1 where chk: "check_campaign_instances is d = Inr u"
    and ins: "insert_control_plane_operation p d = Inr d1" "insert_campaign_targets p is d1 = Inr d'"
    using assms by (auto simp: create_campaign_def)
  note rows = insert_campaign_targets_Inr[OF ins(2)]
  have "\<forall>i \<in> set is. active_campaign_targets i d = 0" using check_campaign_instances_Inr[OF chk] by blast
  then show thesis using rows ins(1) that
    by (fastforce simp: insert_control_plane_operation_def insert_operation_Inr)
qed

lemma create_campaign_ok:
  assumes c: "create_campaign p is d = Inr d'" and ok: "campaigns_ok d"
  shows "campaigns_ok d'"
  using c
proof (cases rule: create_campaign_rows)
  case (1 ts q)
  have act: "campaign_active d' c = (campaign_active d c \<or>
      c = op_id p \<and> op_type q = OpCampaign \<and> open_operation (op_status q))" for c
    using 1(7,8) by (auto simp: campaign_active_def)
  have old: "count_where (\<lambda>t. cm_instance_id t = i \<and> campaign_active d' (cm_campaign_id t)) (db_campaigns d)
      = active_campaign_targets i d" for i
    unfolding active_campaign_targets_def count_where_def
    using ok 1(9) act by (intro arg_cong[where f = length] filter_cong)
      (auto simp: campaigns_ok_def)
  have new: "count_where (\<lambda>t. cm_instance_id t = i \<and> P t) ts \<le> (if i \<in> set is then 1 else 0)" for i P
  proof -
    have "count_where (\<lambda>t. cm_instance_id t = i \<and> P t) ts \<le> 1"
      by (rule count_key_le_one[where key = cm_instance_id]) (use 1(2,3) in auto)
    moreover have "i \<notin> set is \<Longrightarrow> count_where (\<lambda>t. cm_instance_id t = i \<and> P t) ts = 0"
      using 1(2) by (auto simp: count_where_zero)
    ultimately show ?thesis by auto
  qed
  have "active_campaign_targets i d' \<le> 1" for i
    using old[of i] new[of i "\<lambda>t. campaign_active d' (cm_campaign_id t)"] 1(6) ok
    by (cases "i \<in> set is") (auto simp: active_campaign_targets_def[of i d'] 1(1) campaigns_ok_def
        intro: order.trans[OF add_mono])
  moreover have "operation_exists d' (cm_campaign_id t)" if "t \<in> set (db_campaigns d')" for t
    using that ok 1 by (auto simp: campaigns_ok_def operation_exists_def)
  ultimately show ?thesis by (simp add: campaigns_ok_def)
qed

text \<open>An operation that is over never opens again, so no campaign becomes active twice.\<close>

lemma update_control_plane_operation_closed:
  assumes "update_control_plane_operation i status p err at d = Inr d'"
  shows "campaign_active d' c \<Longrightarrow> campaign_active d c"
    and "operation_exists d' c = operation_exists d c" "db_campaigns d' = db_campaigns d"
    "db_jobs d' = db_jobs d"
proof -
  let ?hit = "\<lambda>q. op_id q = i \<and> (open_operation (op_status q) \<or> op_status q = status)"
  let ?f = "\<lambda>q. q\<lparr>op_status := status, op_progress := Some p, op_error := err, op_updated_at := at\<rparr>"
  have d': "d' = d\<lparr>db_operations := update_where ?hit ?f (db_operations d)\<rparr>"
    using assms unfolding update_control_plane_operation_def Let_def by (simp split: if_splits)
  show "campaign_active d' c \<Longrightarrow> campaign_active d c"
    unfolding campaign_active_def list_ex_iff d' by (auto simp: set_update_where)
  show "operation_exists d' c = operation_exists d c"
    by (simp add: operation_exists_def d' list_ex_update_where)
  show "db_campaigns d' = db_campaigns d" "db_jobs d' = db_jobs d" by (simp_all add: d')
qed

lemma campaigns_ok_shrink:
  assumes "campaigns_ok d" "\<And>c. campaign_active d' c \<Longrightarrow> campaign_active d c"
    "\<And>c. operation_exists d' c = operation_exists d c"
    "db_campaigns d' = update_where P f (db_campaigns d)"
    "\<And>t. cm_campaign_id (f t) = cm_campaign_id t" "\<And>t. cm_instance_id (f t) = cm_instance_id t"
  shows "campaigns_ok d'"
proof -
  have "active_campaign_targets i d' \<le> active_campaign_targets i d" for i
  proof -
    have "active_campaign_targets i d' \<le>
        count_where (\<lambda>t. cm_instance_id t = i \<and> campaign_active d (cm_campaign_id t))
          (update_where P f (db_campaigns d))"
      unfolding active_campaign_targets_def assms(4) by (rule count_where_mono) (use assms(2) in auto)
    also have "\<dots> \<le> active_campaign_targets i d"
      unfolding active_campaign_targets_def by (rule count_where_le_update) (use assms(5,6) in auto)
    finally show ?thesis .
  qed
  moreover have "\<forall>t \<in> set (db_campaigns d'). operation_exists d' (cm_campaign_id t)"
    using assms(1,3,5) unfolding assms(4) campaigns_ok_def by (auto simp: set_update_where)
  ultimately show ?thesis using assms(1) order.trans unfolding campaigns_ok_def by blast
qed

lemma update_where_id: "update_where P (\<lambda>r. r) rows = rows"
  by (induction rows) auto

lemma update_control_plane_operation_campaigns:
  "update_control_plane_operation i status p err at d = Inr d' \<Longrightarrow> campaigns_ok d \<Longrightarrow> campaigns_ok d'"
  by (rule campaigns_ok_shrink[of d d' "\<lambda>_. False" "\<lambda>t. t"])
    (auto simp: update_where_id dest: update_control_plane_operation_closed)

lemma request_observation_Inr:
  assumes "request_observation i request at d = Inr (q, d')"
  shows "db_operations d' = db_operations d" "db_campaigns d' = db_campaigns d" "db_jobs d' = db_jobs d"
    "db_instances d' = db_instances d"
    "\<not> list_ex (\<lambda>q. rq_instance_id q = i) (db_requests d)"
    "\<exists>r. db_requests d' = db_requests d @ [r] \<and> rq_instance_id r = i \<and> rq_request_id r = request"
  using assms by (auto simp: request_observation_def split: option.splits)

lemma start_campaign_observation_ok:
  assumes s: "start_campaign_observation c i request at d = Inr d'" and ok: "campaigns_ok d"
  shows "campaigns_ok d'"
proof -
  obtain q d1 hit where d1: "request_observation i request at d = Inr (q, d1)"
    and d': "d' = d1\<lparr>db_campaigns := update_where hit
                 (\<lambda>t. t\<lparr>cm_request_id := request, cm_status := TargetRunning,
                        cm_detail := ''Waiting for a fresh Host Agent observation'',
                        cm_requested_at := Some at, cm_completed_at := None, cm_updated_at := at\<rparr>)
                 (db_campaigns d1)\<rparr>"
    using s by (auto simp: start_campaign_observation_def Let_def split: option.splits)
  note f = request_observation_Inr[OF d1]
  show ?thesis
    by (rule campaigns_ok_shrink[OF ok, where P = hit and f = "\<lambda>t. t\<lparr>cm_request_id := request,
          cm_status := TargetRunning, cm_detail := ''Waiting for a fresh Host Agent observation'',
          cm_requested_at := Some at, cm_completed_at := None, cm_updated_at := at\<rparr>"])
      (use f(1,2) in \<open>simp_all add: d' campaign_active_def operation_exists_def\<close>)
qed

lemma finish_campaign_target_ok:
  assumes f: "finish_campaign_target c i request status detail at d = Inr d'" and ok: "campaigns_ok d"
  shows "campaigns_ok d'"
proof -
  let ?hit = "\<lambda>t. same_campaign_target c i t \<and> (cm_status t = TargetPending \<or> cm_status t = TargetRunning)"
  have "db_campaigns d' = update_where ?hit (\<lambda>t. t\<lparr>cm_status := status, cm_detail := detail,
      cm_completed_at := Some at, cm_updated_at := at\<rparr>) (db_campaigns d)"
    "db_operations d' = db_operations d"
    using f by (auto simp: finish_campaign_target_def Let_def split: if_splits)
  then show ?thesis
    by (intro campaigns_ok_shrink[OF ok, where P = ?hit and f = "\<lambda>t. t\<lparr>cm_status := status,
          cm_detail := detail, cm_completed_at := Some at, cm_updated_at := at\<rparr>"])
      (simp_all add: campaign_active_def operation_exists_def)
qed

section \<open>The health history is bounded\<close>

definition incidents_ok :: "db \<Rightarrow> bool" where
  "incidents_ok d \<longleftrightarrow> distinct (map ic_id (db_incidents d))
     \<and> (\<forall>r \<in> set (db_incidents d). ic_id r \<le> db_incident_seq d)
     \<and> length (db_incidents d) \<le> fleet_health_incident_retention"

lemma prune_incidents_bound:
  assumes "distinct (map ic_id rows)"
  shows "length (prune_incidents rows) \<le> fleet_health_incident_retention"
proof -
  let ?kept = "map ic_id (take fleet_health_incident_retention (newest_incidents rows))"
  have d: "distinct (map ic_id (prune_incidents rows))"
    using assms by (simp add: prune_incidents_def distinct_map_delete_where)
  have "set (map ic_id (prune_incidents rows)) \<subseteq> set ?kept"
    by (auto simp: prune_incidents_def delete_where_subset)
  then have "card (set (map ic_id (prune_incidents rows))) \<le> card (set ?kept)"
    by (rule card_mono[rotated]) simp
  also have "\<dots> \<le> fleet_health_incident_retention"
    using card_length[of ?kept] by simp
  finally show ?thesis using distinct_card[OF d] by simp
qed

lemma record_fleet_health_ok:
  assumes "record_fleet_health c status detail at d = Inr d'" "incidents_ok d"
  shows "incidents_ok d'"
proof (cases "db_incidents d' = db_incidents d \<and> db_incident_seq d' = db_incident_seq d")
  case True
  then show ?thesis using assms(2) by (simp add: incidents_ok_def)
next
  case False
  then obtain r where r: "db_incidents d' = prune_incidents (db_incidents d @ [r])"
    "ic_id r = db_incident_seq d + 1" "db_incident_seq d' = db_incident_seq d + 1"
    using assms(1) by (auto simp: record_fleet_health_def Let_def split: if_splits)
  have dist: "distinct (map ic_id (db_incidents d @ [r]))"
    using assms(2) r(2) by (fastforce simp: incidents_ok_def)
  have "distinct (map ic_id (db_incidents d'))" using dist
    unfolding r(1) prune_incidents_def by (simp add: distinct_map_delete_where del: map_append)
  moreover have "\<forall>q \<in> set (db_incidents d'). ic_id q \<le> db_incident_seq d'"
    using assms(2) r by (fastforce simp: incidents_ok_def prune_incidents_def delete_where_subset)
  ultimately show ?thesis using prune_incidents_bound[OF dist] r(1) by (simp add: incidents_ok_def)
qed

end
