(* ===== verification/Store_Runs.thy ===== *)
theory Store_Runs
  imports Store_Campaigns
begin

text \<open>
  The store as a system: every call of its interface that changes the database is a
  constructor of \<open>store_call\<close>, \<open>apply_call\<close> runs it, and \<open>reachable\<close> are the databases that
  a sequence of calls produces from the empty one, each call at a time that is not before the
  last one. A call that fails changes nothing. The invariant \<open>fleet_ok\<close> holds of all of them.
  The handlers of \<open>internal/api\<close> build the job of a request from its operation (\<open>job_of\<close>);
  \<open>newLeaseToken\<close> is an argument of a claim, and never the empty string.
\<close>

section \<open>The instance table over time\<close>

definition instances_evolve :: "instance_row list \<Rightarrow> instance_row list \<Rightarrow> bool" where
  "instances_evolve a b \<longleftrightarrow> (allocation_ok a \<longrightarrow> allocation_ok b)
     \<and> (distinct (map in_id a) \<longrightarrow> distinct (map in_id b)) \<and> in_id ` set a \<subseteq> in_id ` set b"

lemma instances_evolve_refl [simp]: "instances_evolve a a"
  by (simp add: instances_evolve_def)

lemma instances_evolve_trans: "instances_evolve a b \<Longrightarrow> instances_evolve b c \<Longrightarrow> instances_evolve a c"
  by (auto simp: instances_evolve_def)

lemma update_instances_evolve:
  assumes "update_instances P f d = Inr d'" "\<And>r. in_id (f r) = in_id r"
  shows "instances_evolve (db_instances d) (db_instances d')"
proof -
  have "map in_id (update_where P f (db_instances d)) = map in_id (db_instances d)"
    by (rule map_update_where) (use assms(2) in simp)
  then show ?thesis
    using assms(1) unfolding instances_evolve_def update_instances_Inr
    by (metis (no_types, lifting) db.select_convs(2) db.surjective db.update_convs(2) list.set_map order_refl)
qed

lemma insert_instance_evolve:
  assumes "insert_instance r d = Inr d'"
  shows "instances_evolve (db_instances d) (db_instances d')"
  using insert_instance_allocation[OF assms] assms
  by (auto simp: instances_evolve_def insert_instance_Inr instance_exists_def list_ex_iff)

lemma move_instance_evolve:
  assumes "move_instance i s s' t d = Inr d'"
  shows "instances_evolve (db_instances d) (db_instances d')" "db_jobs d' = db_jobs d"
  using assms
  by (auto simp: move_instance_def update_instances_Inr elim!: update_instances_evolve[rotated]
      intro!: update_instances_evolve[of "\<lambda>r. in_id r = i \<and> in_status r = s"
        "\<lambda>r. r\<lparr>in_status := s', in_last_error := '''', in_updated_at := t\<rparr>"])

section \<open>What every call keeps\<close>

definition refs_ok :: "db \<Rightarrow> bool" where
  "refs_ok d \<longleftrightarrow> (\<forall>j \<in> set (db_jobs d). j_instance_id j \<in> in_id ` set (db_instances d))"

definition fleet_ok :: "timestamp \<Rightarrow> db \<Rightarrow> bool" where
  "fleet_ok now d \<longleftrightarrow> queue_ok now (db_jobs d) \<and> allocation_ok (db_instances d)
     \<and> distinct (map in_id (db_instances d)) \<and> refs_ok d"

definition moves :: "string set \<Rightarrow> timestamp \<Rightarrow> db \<Rightarrow> db \<Rightarrow> bool" where
  "moves T now d d' \<longleftrightarrow> instances_evolve (db_instances d) (db_instances d')
     \<and> (refs_ok d \<longrightarrow> table_steps T now (db_jobs d) (db_jobs d') \<and> refs_ok d')"

lemma moves_trans: "moves T now d d1 \<Longrightarrow> moves T now d1 d' \<Longrightarrow> moves T now d d'"
  by (auto simp: moves_def intro: instances_evolve_trans)

lemma moves_quiet: "db_jobs d' = db_jobs d \<Longrightarrow> db_instances d' = db_instances d \<Longrightarrow> moves T now d d'"
  by (simp add: moves_def refs_ok_def)

lemma moves_instances:
  "db_jobs d' = db_jobs d \<Longrightarrow> instances_evolve (db_instances d) (db_instances d') \<Longrightarrow> moves T now d d'"
  by (auto simp: moves_def refs_ok_def instances_evolve_def)

lemma table_step_instances:
  assumes "table_step T now jobs jobs'"
  shows "j_instance_id ` set jobs' \<subseteq> j_instance_id ` set jobs \<or> (\<exists>j. jobs' = jobs @ [new_job_row j])"
  using assms
proof cases
  case (Move P f)
  have "j_instance_id (f r) = j_instance_id r" if "r \<in> set jobs" "P r" for r
    using Move(2)[OF that] job_step_identity by blast
  then have "j_instance_id ` set (update_where P f jobs) \<subseteq> j_instance_id ` set jobs"
    by (fastforce elim: in_update_whereE)
  then show ?thesis unfolding Move(1) by blast
next
  case (Admit j)
  then show ?thesis by blast
next
  case (Remove P)
  then have "set jobs' \<subseteq> set jobs" by (auto simp: delete_where_subset)
  then show ?thesis by blast
qed

text \<open>A step that admits nothing keeps the references.\<close>

lemma moves_step:
  assumes "table_step T now (db_jobs d) (db_jobs d')"
    and "instances_evolve (db_instances d) (db_instances d')"
    and "length (db_jobs d') \<le> length (db_jobs d)"
  shows "moves T now d d'"
proof -
  have ids: "j_instance_id ` set (db_jobs d') \<subseteq> j_instance_id ` set (db_jobs d)"
    using table_step_instances[OF assms(1)]
  proof
    assume "\<exists>j. db_jobs d' = db_jobs d @ [new_job_row j]"
    then show ?thesis using assms(3) by fastforce
  qed
  have "refs_ok d \<longrightarrow> refs_ok d'"
  proof (intro impI)
    assume "refs_ok d"
    then have "j_instance_id ` set (db_jobs d) \<subseteq> in_id ` set (db_instances d)"
      by (simp add: refs_ok_def image_subset_iff)
    then have "j_instance_id ` set (db_jobs d') \<subseteq> in_id ` set (db_instances d')"
      using ids assms(2) unfolding instances_evolve_def by (meson subset_trans)
    then show "refs_ok d'" by (simp add: refs_ok_def image_subset_iff)
  qed
  then show ?thesis
    using assms(2) r_into_rtranclp[of "table_step T now", OF assms(1)] by (simp add: moves_def)
qed

lemma moves_admit:
  assumes "admits j d d'" "instances_evolve (db_instances d) (db_instances d')"
    "j_instance_id j \<in> in_id ` set (db_instances d')" "j_status j = JobPending"
    "refs_ok d \<Longrightarrow> j_type j \<noteq> JobChatSend \<Longrightarrow> active_instance_jobs (j_instance_id j) (db_jobs d) = 0"
  shows "moves T now d d'"
proof -
  have "table_step T now (db_jobs d) (db_jobs d')" if "refs_ok d"
    using assms(1,4) assms(5)[OF that] unfolding admits_def by (metis Admit)
  then have "refs_ok d \<longrightarrow> table_steps T now (db_jobs d) (db_jobs d')"
    using r_into_rtranclp[of "table_step T now"] by blast
  moreover have "refs_ok d \<longrightarrow> refs_ok d'"
    using assms(1-3) by (auto simp: refs_ok_def admits_def instances_evolve_def)
  ultimately show ?thesis using assms(2) by (simp add: moves_def)
qed

text \<open>The contract of a call, and what follows from it for the job table.\<close>

locale store_call =
  fixes T :: "string set" and run :: "timestamp \<Rightarrow> db \<Rightarrow> db result"
  assumes run_moves: "run now d = Inr d' \<Longrightarrow> moves T now d d'"
begin

lemma keeps:
  assumes "run now d = Inr d'" "'''' \<notin> T" "fleet_ok now d"
  shows "fleet_ok now d'"
  using run_moves[OF assms(1)] assms(2,3) table_steps_ok
  by (auto simp: moves_def fleet_ok_def instances_evolve_def)

lemma steps: "run now d = Inr d' \<Longrightarrow> fleet_ok now d \<Longrightarrow> table_steps T now (db_jobs d) (db_jobs d')"
  using run_moves by (auto simp: moves_def fleet_ok_def)

lemma retires:
  assumes "run now d = Inr d'" "fleet_ok now d" "t \<notin> T" "t \<noteq> ''''"
    and "\<forall>j \<in> set (db_jobs d). j_id j = i \<longrightarrow> j_lease_token j \<noteq> t"
  shows "\<forall>j \<in> set (db_jobs d'). j_id j = i \<longrightarrow> j_lease_token j \<noteq> t"
  using steps[OF assms(1,2)] assms(5)
  by (induction rule: rtranclp_induct) (auto dest: table_step_token[OF _ assms(3,4)])

end

section \<open>The requests\<close>

record job_request =
  jq_id :: string
  jq_host_id :: string
  jq_type :: job_type
  jq_payload :: raw_json

definition job_of :: "operation \<Rightarrow> job_request \<Rightarrow> job" where
  "job_of op q = \<lparr>j_id = jq_id q, j_operation_id = op_id op, j_host_id = jq_host_id q,
     j_instance_id = op_instance_id op, j_type = jq_type q, j_status = JobPending,
     j_payload = jq_payload q, j_attempts = 0, j_lease_token = '''', j_lease_expires_at = None,
     j_created_at = op_created_at op, j_updated_at = op_created_at op\<rparr>"

lemma job_of_sel [simp]:
  "j_instance_id (job_of op q) = op_instance_id op" "j_status (job_of op q) = JobPending"
  "j_operation_id (job_of op q) = op_id op" "j_type (job_of op q) = jq_type q"
  "j_id (job_of op q) = jq_id q" "j_host_id (job_of op q) = jq_host_id q"
  by (simp_all add: job_of_def)

lemma insert_job_instances:
  assumes "insert_operation_and_job op j d = Inr d'"
  shows "db_instances d' = db_instances d" "j_instance_id j \<in> in_id ` set (db_instances d')"
proof -
  note r = insert_operation_and_job_Inr[OF assms]
  show i: "db_instances d' = db_instances d" by (rule r(6))
  show "j_instance_id j \<in> in_id ` set (db_instances d')"
    using r(15) unfolding i instance_exists_def list_ex_iff by force
qed

text \<open>Each admission ends in \<open>insertOperationAndJob\<close>, after statements on the instance.\<close>

definition admission :: "job \<Rightarrow> db \<Rightarrow> db \<Rightarrow> bool" where
  "admission j d d' \<longleftrightarrow> admits j d d' \<and> instances_evolve (db_instances d) (db_instances d')
     \<and> j_instance_id j \<in> in_id ` set (db_instances d')"

lemma admission_after:
  assumes "insert_operation_and_job op j d1 = Inr d'" "db_jobs d1 = db_jobs d"
    "instances_evolve (db_instances d) (db_instances d1)"
  shows "admission j d d'"
  using insert_job_instances[OF assms(1)] insert_operation_and_job_admits[OF assms(1)] assms(2,3)
  by (simp add: admission_def admits_def)

lemma move_after:
  assumes "move_instance i s s' t d = Inr d1" "insert_operation_and_job op j d2 = Inr d'"
    "db_jobs d2 = db_jobs d1" "db_instances d2 = db_instances d1"
  shows "admission j d d'"
  by (rule admission_after[OF assms(2)]) (use assms(3,4) move_instance_evolve[OF assms(1)] in simp_all)

lemma queue_action_admission:
  assumes "queue_action e s op j d = Inr d'"
  shows "admission j d d'"
proof -
  obtain d1 where d1: "move_instance (op_instance_id op) e s (op_created_at op) d = Inr d1"
    "insert_operation_and_job op j (if s \<noteq> InstanceRestarting
         then d1\<lparr>db_remediation :=
                  delete_where (\<lambda>r. rm_instance_id r = op_instance_id op) (db_remediation d1)\<rparr>
         else d1) = Inr d'"
    using assms by (auto simp: queue_action_def)
  show ?thesis by (rule move_after[OF d1]) simp_all
qed

lemma queue_messaging_admission:
  assumes "queue_messaging_configuration e rec op j d = Inr d'"
  shows "admission j d d'"
proof -
  obtain d1 where d1: "move_instance (op_instance_id op) e InstanceUpdating (op_created_at op) d = Inr d1"
    "insert_operation_and_job op j (d1\<lparr>db_messaging := upsert_config rec (db_messaging d1)\<rparr>) = Inr d'"
    using assms by (auto simp: queue_messaging_configuration_def)
  show ?thesis by (rule move_after[OF d1]) simp_all
qed

lemma queue_mcp_admission:
  assumes "queue_mcp_configuration e rec op j d = Inr d'"
  shows "admission j d d'"
proof -
  obtain d1 where d1: "move_instance (op_instance_id op) e InstanceUpdating (op_created_at op) d = Inr d1"
    "insert_operation_and_job op j (d1\<lparr>db_mcp := upsert_config rec (db_mcp d1)\<rparr>) = Inr d'"
    using assms by (auto simp: queue_mcp_configuration_def)
  show ?thesis by (rule move_after[OF d1]) simp_all
qed

lemma queue_repair_admission:
  assumes "queue_runtime_repair e op j plan d = Inr d'"
  shows "admission j d d'"
proof -
  obtain d1 rows where d1: "move_instance (op_instance_id op) e InstanceRestarting (op_created_at op) d = Inr d1"
    "insert_operation_and_job op j (d1\<lparr>db_remediation := rows\<rparr>) = Inr d'"
    using assms by (auto simp: queue_runtime_repair_def Let_def)
  show ?thesis by (rule move_after[OF d1]) simp_all
qed

lemma queue_inspection_admission: "queue_inspection required op j d = Inr d' \<Longrightarrow> admission j d d'"
  by (rule admission_after[of op]) (auto simp: queue_inspection_def split: option.splits)

lemma queue_codex_auth_admission: "queue_codex_auth op j d = Inr d' \<Longrightarrow> admission j d d'"
  by (rule admission_after[of op]) (auto simp: queue_codex_auth_def split: option.splits)

lemma create_instance_admission:
  assumes "create_instance inst op j d = Inr d'"
  shows "admission j d d'" "\<exists>r. in_id r = in_id inst \<and> db_instances d' = db_instances d @ [r]
     \<and> in_id inst \<notin> in_id ` set (db_instances d)"
proof -
  let ?row = "inst\<lparr>in_image_id := '''', in_project_name := '''', in_data_volume := '''',
               in_managed_path := '''', in_last_error := ''''\<rparr>"
  obtain d1 where d1: "insert_instance ?row d = Inr d1" "insert_operation_and_job op j d1 = Inr d'"
    using assms by (auto simp: create_instance_def)
  show "admission j d d'"
    by (rule admission_after[OF d1(2) _ insert_instance_evolve[OF d1(1)]])
      (use d1(1) in \<open>auto simp: insert_instance_Inr\<close>)
  show "\<exists>r. in_id r = in_id inst \<and> db_instances d' = db_instances d @ [r]
     \<and> in_id inst \<notin> in_id ` set (db_instances d)"
    using d1 insert_job_instances(1)[OF d1(2)]
    by (auto simp: insert_instance_Inr instance_exists_def list_ex_iff intro!: exI[of _ ?row])
qed

lemma moves_admission:
  assumes "admission j d d'" "j_status j = JobPending"
    "refs_ok d \<Longrightarrow> j_type j \<noteq> JobChatSend \<Longrightarrow> active_instance_jobs (j_instance_id j) (db_jobs d) = 0"
  shows "moves T now d d'"
  using assms by (intro moves_admit) (auto simp: admission_def)

text \<open>A new instance has no job yet, since jobs refer to instances that exist.\<close>

lemma no_jobs_of_new_instance:
  "refs_ok d \<Longrightarrow> i \<notin> in_id ` set (db_instances d) \<Longrightarrow> active_instance_jobs i (db_jobs d) = 0"
  by (auto simp: active_instance_jobs_def count_where_zero refs_ok_def)

section \<open>The calls of the Host Agents\<close>

lemma fail_lease_effects_evolve:
  assumes "fail_lease_effects j m at d = Inr d'"
  shows "instances_evolve (db_instances d) (db_instances d')"
proof -
  let ?f = "\<lambda>r. r\<lparr>in_status := lost_lease_instance_status j m, in_last_error := lost_lease_reason j,
       in_updated_at := at\<rparr>"
  have "d' = lost_lease_closing j (lost_lease_reason j) at d
      \<or> (\<exists>d1. update_instances (\<lambda>r. in_id r = j_instance_id j) ?f d = Inr d1
            \<and> d' = lost_lease_closing j (lost_lease_reason j) at d1)
      \<or> (\<exists>d1. fail_chat_lease j (lost_lease_reason j) at d = Inr d1
            \<and> d' = lost_lease_closing j (lost_lease_reason j) at d1)"
    using assms unfolding fail_lease_effects_def Let_def by (simp split: if_splits) blast+
  moreover have "instances_evolve (db_instances d) (db_instances d1)"
    if "update_instances (\<lambda>r. in_id r = j_instance_id j) ?f d = Inr d1" for d1
    by (rule update_instances_evolve[OF that]) simp
  ultimately show ?thesis by (auto dest: fail_chat_lease_frame(2))
qed

lemma fail_expired_evolve:
  assumes "fail_expired_job_lease j metadata at d = Inr d'"
  shows "instances_evolve (db_instances d) (db_instances d')"
  using assms
  by (auto simp: fail_expired_job_lease_def Let_def split: option.splits dest!: fail_lease_effects_evolve)

lemma fails_leases_evolve:
  "(fails_lease now)\<^sup>*\<^sup>* d d' \<Longrightarrow> instances_evolve (db_instances d) (db_instances d')"
  by (induction rule: rtranclp_induct)
    (auto simp: fails_lease_def dest!: fail_expired_evolve intro: instances_evolve_trans)

lemma fail_all_evolve: "fail_all js at d = Inr d' \<Longrightarrow> instances_evolve (db_instances d) (db_instances d')"
  by (induction js at d rule: fail_all.induct) (auto dest!: fail_expired_evolve intro: instances_evolve_trans)

lemma claim_evolve:
  assumes "claim_job h lease now token d = Inr (r, d')"
  shows "instances_evolve (db_instances d) (db_instances d')"
proof -
  obtain d1 where d1: "(fails_lease now)\<^sup>*\<^sup>* d d1"
    and c: "d' = d1 \<or> (\<exists>j. take_claim lease now token j d d1 = (r, d'))"
    using claim_loop_cases[OF assms[unfolded claim_job_def]] by blast
  have "db_instances d' = db_instances d1 \<or> d' = d"
    using c by (auto simp: take_claim_def Let_def split: if_splits)
  then show ?thesis using fails_leases_evolve[OF d1] by auto
qed

lemma record_instance_result_evolve:
  assumes "record_instance_result j p err now d = Inr d'"
  shows "instances_evolve (db_instances d) (db_instances d')"
  using assms unfolding record_instance_result_def
  by (auto split: if_splits elim!: update_instances_evolve)

lemma desired_update_evolve: "desired_update i d d' \<Longrightarrow> instances_evolve (db_instances d) (db_instances d')"
  unfolding desired_update_def by (auto simp: same_lifecycle_def elim!: update_instances_evolve)

lemma record_desired_state_evolve:
  assumes "record_desired_state j r p now d = Inr d'"
  shows "instances_evolve (db_instances d) (db_instances d')"
proof -
  obtain d1 d2 d3 where s: "restore_desired_state j r p now d = Inr d1"
    "upgrade_desired_state j r p now d1 = Inr d2" "update_desired_state j r p now d2 = Inr d3"
    "configure_desired_state j r now d3 = Inr d'"
    using assms by (auto simp: record_desired_state_def)
  show ?thesis
    using desired_update_evolve desired_state_updates(1)[OF s(1)] desired_state_updates(2)[OF s(2)]
      desired_state_updates(3)[OF s(3)] desired_state_updates(4)[OF s(4)] instances_evolve_trans
    by metis
qed

lemma apply_effects_evolve:
  assumes "apply_effects j r p reveal now metadata d = Inr d'"
  shows "instances_evolve (db_instances d) (db_instances d')"
proof -
  obtain d1 m d3 d4 d5 d6 where s: "record_inventories p d = Inr d1"
    "stored_metadata metadata = Inr m"
    "record_instance_result j p (result_error_text r) now (record_operation_result j r p now m d1) = Inr d3"
    "complete_chat j r now d3 = Inr d4"
    "record_desired_state j r p now (complete_remediation j r now d4) = Inr d5"
    "complete_config j r now d5 = Inr d6"
    "d' = store_reveal (j_operation_id j) reveal now (clear_deleted_requests j r d6)"
    by (rule apply_effects_stages[OF assms])
  show ?thesis
    using record_instance_result_evolve[OF s(3)] record_desired_state_evolve[OF s(5)]
      record_inventories_frame(2)[OF s(1)] complete_chat_frame(2)[OF s(4)]
      complete_config_frame(2)[OF s(6)] s(7)
    by (auto intro: instances_evolve_trans)
qed

lemma complete_job_evolve:
  assumes "complete_job_with_hash hash r reveal h i t now d = Inr d'"
  shows "instances_evolve (db_instances d) (db_instances d')"
  using assms by (cases rule: complete_job_cases) (auto dest: apply_effects_evolve)

lemma moves_update:
  assumes "table_step T now (db_jobs d) (update_where P f (db_jobs d))"
    "db_jobs d' = update_where P f (db_jobs d)" "instances_evolve (db_instances d) (db_instances d')"
  shows "moves T now d d'"
  by (rule moves_step) (use assms in simp_all)

lemma moves_delete:
  assumes "db_jobs d' = delete_where P (db_jobs d)" "db_instances d' = db_instances d"
  shows "moves T now d d'"
  by (rule moves_step) (use assms Remove[of T now "db_jobs d" P] in
      \<open>simp_all add: delete_where_def length_filter_le\<close>)

lemma fail_expired_moves:
  assumes "fail_expired_job_lease j metadata at d = Inr d'"
  shows "moves T at d d'"
  by (rule moves_update[OF lost_lease_moves fail_expired_jobs(1)[OF assms] fail_expired_evolve[OF assms]])

lemma fails_leases_moves: "(fails_lease now)\<^sup>*\<^sup>* d d' \<Longrightarrow> moves T now d d'"
  by (induction rule: rtranclp_induct)
    (auto simp: fails_lease_def moves_quiet intro: moves_trans fail_expired_moves)

lemma fail_all_moves: "fail_all js at d = Inr d' \<Longrightarrow> moves T at d d'"
  by (induction js at d rule: fail_all.induct) (auto simp: moves_quiet intro: moves_trans fail_expired_moves)

lemma take_claim_moves:
  assumes "next_claim now h d = Some j" and "\<not> (lease_expired now j \<and> retries_exhausted j)"
    and "take_claim lease now token j d0 d = (Some q, d')" and "token \<in> T"
  shows "moves T now d d'"
  by (rule moves_step[OF take_claim_steps[OF assms]])
    (use assms(3) in \<open>auto simp: take_claim_def Let_def split: if_splits\<close>)

lemma claim_moves:
  assumes "claim_job h lease now token d = Inr (r, d')" "token \<in> T"
  shows "moves T now d d'"
proof -
  obtain d1 where d1: "(fails_lease now)\<^sup>*\<^sup>* d d1"
    and c: "next_claim now h d1 = None \<and> r = None \<and> d' = d1 \<or>
      (\<exists>j. next_claim now h d1 = Some j \<and> \<not> (lease_expired now j \<and> retries_exhausted j)
         \<and> take_claim lease now token j d d1 = (r, d'))"
    using claim_loop_cases[OF assms(1)[unfolded claim_job_def]] by blast
  have "d' = d1 \<or> d' = d \<or> moves T now d1 d'"
  proof (cases r)
    case None
    then show ?thesis using c by (auto simp: take_claim_def Let_def split: if_splits)
  next
    case (Some q)
    then show ?thesis using c take_claim_moves assms(2) by blast
  qed
  then show ?thesis
    using fails_leases_moves[OF d1, of T] moves_trans moves_quiet[of d d T now] by blast
qed

lemma reconcile_expired_moves:
  "reconcile_expired_jobs now d = Inr (n, d') \<Longrightarrow> moves T now d d'"
  by (auto simp: reconcile_expired_jobs_def Let_def intro: fail_all_moves)

lemma agent_moves:
  "acknowledge_job lease h i t now d = Inr d' \<Longrightarrow> moves T now d d'"
  "renew_job lease h i t now d = Inr d' \<Longrightarrow> moves T now d d'"
  "update_job_progress p h i t now d = Inr d' \<Longrightarrow> moves T now d d'"
  "complete_job_with_hash hash res reveal h i t now d = Inr d' \<Longrightarrow> moves T now d d'"
proof -
  show "moves T now d d'" if "acknowledge_job lease h i t now d = Inr d'"
    by (rule moves_step[OF acknowledge_step[OF that]])
      (use acknowledge_job_Inr(2)[OF that] arg_cong[OF acknowledge_job_Inr(3)[OF that], of db_instances] in simp_all)
  show "moves T now d d'" if "renew_job lease h i t now d = Inr d'"
    by (rule moves_step[OF renew_step[OF that]])
      (use renew_job_Inr(2)[OF that] arg_cong[OF renew_job_Inr(3)[OF that], of db_instances] in simp_all)
  show "moves T now d d'" if "update_job_progress p h i t now d = Inr d'"
    by (rule moves_step[OF progress_step[OF that]])
      (use update_job_progress_Inr(2)[OF that] arg_cong[OF update_job_progress_Inr(3)[OF that], of db_instances] in simp_all)
  show "moves T now d d'" if "complete_job_with_hash hash res reveal h i t now d = Inr d'"
    by (rule moves_step[OF complete_job_step[OF that] complete_job_evolve[OF that]])
      (use complete_job_jobs[OF that] in auto)
qed

lemma cancel_moves:
  "cancel_codex_auth i op reason now d = Inr d' \<Longrightarrow> moves T now d d'"
  "cancel_active_chat s reason now d = Inr d' \<Longrightarrow> moves T now d d'"
proof -
  show "moves T now d d'" if "cancel_codex_auth i op reason now d = Inr d'"
    by (rule moves_step[OF cancel_codex_auth_step[OF that]])
      (use that in \<open>auto simp: cancel_codex_auth_def Let_def\<close>)
  show "moves T now d d'" if c: "cancel_active_chat s reason now d = Inr d'"
    by (rule moves_step[OF cancel_active_chat_step[OF c]])
      (use cancel_active_chat_jobs[OF c] in auto)
qed

lemma chat_cleanup_moves:
  "delete_chat_session s d = Inr (i, d') \<Longrightarrow> moves T now d d'"
  "reconcile_orphaned_chat_work d = Inr (n, d') \<Longrightarrow> moves T now d d'"
  using delete_chat_session_jobs(1,3) reconcile_orphaned_jobs moves_delete by blast+

section \<open>The calls of the administrator and of the controllers\<close>

lemma prepare_recovery_moves:
  assumes "prepare_clean_host_recovery at d = Inr d'"
  shows "moves T at d d'"
proof -
  have close: "db_jobs e' = db_jobs e \<and> db_instances e' = db_instances e"
    if "close_chat_streams ms at e = Inr e'" for ms e e'
    using that
    by (induction ms at e rule: close_chat_streams.induct) (auto dest: append_closing_event_frame)
  obtain d1 where d1: "close_chat_streams (filter (\<lambda>m. unanswered m \<and> me_operation_id m \<noteq> '''')
        (db_messages d)) at (fence_restored_work at d) = Inr d1"
    "update_instances (\<lambda>r. in_status r \<noteq> InstanceDeleted)
       (\<lambda>r. r\<lparr>in_status := InstanceStopped, in_last_error := '''', in_updated_at := at\<rparr>)
       (fail_restored_messages at d1) = Inr d'"
    using assms by (auto simp: prepare_clean_host_recovery_def)
  have evolve: "instances_evolve (db_instances (fail_restored_messages at d1)) (db_instances d')"
    by (rule update_instances_evolve[OF d1(2)]) simp
  have jobs: "db_jobs d' = update_where (\<lambda>j. active_job (j_status j)) (abort_row at) (db_jobs d)"
    using close[OF d1(1)] d1(2)
    by (simp add: update_instances_Inr fail_restored_messages_def fence_restored_work_def Let_def)
  show ?thesis
    by (rule moves_update[OF _ jobs])
      (use evolve close[OF d1(1)] in \<open>auto simp: fail_restored_messages_def fence_restored_work_def Let_def
         intro: table_step_abort\<close>)
qed

lemma publish_moves:
  "update_instance_public_hostname i hn d = Inr d' \<Longrightarrow> moves T now d d'"
  "start_instance_publishing i hn op d = Inr d' \<Longrightarrow> moves T now d d'"
  "update_instance_deletion_cleanup i oi p e c at d = Inr d' \<Longrightarrow> moves T now d d'"
proof -
  have upd: "moves T now c e" if "update_instances P f a = Inr b" "\<And>r. in_id (f r) = in_id r"
    "db_jobs a = db_jobs c" "db_instances a = db_instances c" "db_jobs e = db_jobs b"
    "db_instances e = db_instances b" for P f a b c e
    using that(3-6) update_instances_evolve[OF that(1,2)] update_instances_frame(1)[OF that(1)]
    by (intro moves_instances) simp_all
  show "moves T now d d'" if "update_instance_public_hostname i hn d = Inr d'"
    using that by (auto simp: update_instance_public_hostname_def intro: upd)
  show "moves T now d d'" if "start_instance_publishing i hn op d = Inr d'"
    using that
    by (auto simp: start_instance_publishing_def Let_def insert_control_plane_operation_def
        insert_operation_Inr split: sum.splits) (erule upd; simp)+
  show "moves T now d d'" if "update_instance_deletion_cleanup i oi p e c at d = Inr d'"
    using that by (auto simp: update_instance_deletion_cleanup_def Let_def) (erule upd; simp)+
qed

lemma host_moves:
  "enroll_host h t d = Inr d' \<Longrightarrow> moves T now d d'"
  "rotate_host_credential hi n hn os a t d = Inr d' \<Longrightarrow> moves T now d d'"
  "heartbeat hi hn os a v at d = Inr d' \<Longrightarrow> moves T now d d'"
  by (auto intro!: moves_quiet simp: enroll_host_def rotate_host_credential_def heartbeat_def Let_def
      split: if_splits option.splits)

lemma chat_moves:
  "create_chat_session s title i c u d = Inr d' \<Longrightarrow> moves T now d d'"
  "update_chat_session_configuration s m r tier at d = Inr (v, d') \<Longrightarrow> moves T now d d'"
  "append_chat_event e h i t now d = Inr d' \<Longrightarrow> moves T now d d'"
proof -
  show "moves T now d d'" if "create_chat_session s title i c u d = Inr d'"
    using that by (intro moves_quiet) (auto simp: create_chat_session_def Let_def split: option.splits if_splits)
  show "moves T now d d'" if "update_chat_session_configuration s m r tier at d = Inr (v, d')"
    using that by (intro moves_quiet)
      (auto simp: update_chat_session_configuration_def Let_def split: if_splits)
  show "moves T now d d'" if "append_chat_event e h i t now d = Inr d'"
    using record_chat_event_frame(1,2)[OF append_chat_event_Inr(2)[OF that]] by (rule moves_quiet)
qed

lemma observation_moves:
  "record_observations h bs at d = Inr d' \<Longrightarrow> moves T now d d'"
  "request_observation i q at d = Inr (v, d') \<Longrightarrow> moves T now d d'"
  "track_runtime_health_observation b at w d = (dc, d') \<Longrightarrow> moves T now d d'"
  "cancel_runtime_remediation i at d = Inr d' \<Longrightarrow> moves T now d d'"
  by (auto intro!: moves_quiet simp: cancel_runtime_remediation_def Let_def
      dest: record_observations_frame request_observation_Inr(3,4) track_health_frame(1,2))

lemma operation_moves:
  "create_control_plane_operation op d = Inr d' \<Longrightarrow> moves T now d d'"
  "update_control_plane_operation oi st p e at d = Inr d' \<Longrightarrow> moves T now d d'"
  "finalize_stale_publishing_operation oi bf st p e at d = Inr (b, d') \<Longrightarrow> moves T now d d'"
  "put_remote_access_resource r d = Inr d' \<Longrightarrow> moves T now d d'"
  by (auto intro!: moves_quiet simp: create_control_plane_operation_def insert_control_plane_operation_def
      insert_operation_Inr update_control_plane_operation_def finalize_stale_publishing_operation_def
      put_remote_access_resource_def Let_def split: if_splits)

lemma write_policy_scope_frame:
  "write_policy_scope p is d = Inr d' \<Longrightarrow> db_jobs d' = db_jobs d \<and> db_instances d' = db_instances d"
  by (induction p "is" d rule: write_policy_scope.induct) (auto split: if_splits)

lemma policy_moves:
  "write_policy create fp d = Inr d' \<Longrightarrow> moves T now d d'"
  "delete_policy i d = Inr d' \<Longrightarrow> moves T now d d'"
  "create_policy_rollout op policy is d = Inr d' \<Longrightarrow> moves T now d d'"
  "update_policy_rollout_control ri ex m p at d = Inr d' \<Longrightarrow> moves T now d d'"
  "update_policy_rollout_target ri i ch ts dt at d = Inr d' \<Longrightarrow> moves T now d d'"
  by (auto intro!: moves_quiet simp: write_policy_def delete_policy_def create_policy_rollout_def
      insert_control_plane_operation_def insert_operation_Inr update_policy_rollout_control_def
      update_policy_rollout_target_def Let_def split: if_splits
      dest!: write_policy_scope_frame insert_rollout_targets_frame)

lemma campaign_moves:
  "create_campaign op is d = Inr d' \<Longrightarrow> moves T now d d'"
  "start_campaign_observation c i q at d = Inr d' \<Longrightarrow> moves T now d d'"
  "finish_campaign_target c i q ts dt at d = Inr d' \<Longrightarrow> moves T now d d'"
  "record_fleet_health co s dt at d = Inr d' \<Longrightarrow> moves T now d d'"
  by (auto intro!: moves_quiet simp: create_campaign_def insert_control_plane_operation_def
      insert_operation_Inr start_campaign_observation_def finish_campaign_target_def
      record_fleet_health_def Let_def split: if_splits option.splits
      dest: insert_campaign_targets_Inr(3,4) request_observation_Inr(3,4))

section \<open>The calls\<close>

text \<open>The database a call leaves; what else it returns is dropped.\<close>

text \<open>The requests that queue a job.\<close>

datatype queue_call =
    CreateInstance instance_row operation job_request
  | QueueAction instance_status instance_status operation job_request
  | QueueMessagingConfiguration instance_status config_row operation job_request
  | QueueMCPConfiguration instance_status config_row operation job_request
  | QueueRuntimeRepair instance_status operation job_request runtime_remediation
  | QueueInspection "instance_status option" operation job_request
  | QueueCodexAuth operation job_request
  | QueueChatMessage string string string operation job_request

fun apply_queue :: "queue_call \<Rightarrow> timestamp \<Rightarrow> db \<Rightarrow> db result" where
  "apply_queue (CreateInstance i op q) now d =
     (let op = op\<lparr>op_instance_id := in_id i\<rparr> in create_instance i op (job_of op q) d)"
| "apply_queue (QueueAction e s op q) now d = queue_action e s op (job_of op q) d"
| "apply_queue (QueueMessagingConfiguration e r op q) now d =
     queue_messaging_configuration e r op (job_of op q) d"
| "apply_queue (QueueMCPConfiguration e r op q) now d = queue_mcp_configuration e r op (job_of op q) d"
| "apply_queue (QueueRuntimeRepair e op q p) now d = queue_runtime_repair e op (job_of op q) p d"
| "apply_queue (QueueInspection s op q) now d = queue_inspection s op (job_of op q) d"
| "apply_queue (QueueCodexAuth op q) now d = queue_codex_auth op (job_of op q) d"
| "apply_queue (QueueChatMessage s m c op q) now d = queue_chat_message s m c op (job_of op q) d"

text \<open>The calls of a Host Agent.\<close>

datatype agent_call =
    Heartbeat string string string string string timestamp
  | ClaimJob string duration string
  | AcknowledgeJob duration string string string
  | RenewJob duration string string string
  | UpdateJobProgress job_progress string string string
  | CompleteJob string job_result "encrypted_reveal option" string string string
  | AppendChatEvent chat_event string string string
  | RecordObservations string "instance_observation list" timestamp

fun apply_agent :: "agent_call \<Rightarrow> timestamp \<Rightarrow> db \<Rightarrow> db result" where
  "apply_agent (Heartbeat h hn os a v at) now d = heartbeat h hn os a v at d"
| "apply_agent (ClaimJob h lease t) now d = map_sum id snd (claim_job h lease now t d)"
| "apply_agent (AcknowledgeJob lease h i t) now d = acknowledge_job lease h i t now d"
| "apply_agent (RenewJob lease h i t) now d = renew_job lease h i t now d"
| "apply_agent (UpdateJobProgress p h i t) now d = update_job_progress p h i t now d"
| "apply_agent (CompleteJob hash r reveal h i t) now d = complete_job_with_hash hash r reveal h i t now d"
| "apply_agent (AppendChatEvent e h i t) now d = append_chat_event e h i t now d"
| "apply_agent (RecordObservations h bs at) now d = record_observations h bs at d"

text \<open>Chat sessions, and the cancellation of work.\<close>

datatype chat_call =
    CreateChatSession string string string timestamp timestamp
  | UpdateChatSessionConfiguration string string string string timestamp
  | CancelActiveChat string string
  | DeleteChatSession string
  | ReconcileOrphanedChatWork
  | CancelCodexAuth string string string

fun apply_chat :: "chat_call \<Rightarrow> timestamp \<Rightarrow> db \<Rightarrow> db result" where
  "apply_chat (CreateChatSession s title i c u) now d = create_chat_session s title i c u d"
| "apply_chat (UpdateChatSessionConfiguration s m r tier at) now d =
     map_sum id snd (update_chat_session_configuration s m r tier at d)"
| "apply_chat (CancelActiveChat s reason) now d = cancel_active_chat s reason now d"
| "apply_chat (DeleteChatSession s) now d = map_sum id snd (delete_chat_session s d)"
| "apply_chat ReconcileOrphanedChatWork now d = map_sum id snd (reconcile_orphaned_chat_work d)"
| "apply_chat (CancelCodexAuth i op reason) now d = cancel_codex_auth i op reason now d"

text \<open>The control plane and its reconcilers.\<close>

datatype control_call =
    ReconcileExpiredJobs
  | RequestObservation string string timestamp
  | TrackRuntimeHealth instance_observation timestamp string
  | CancelRuntimeRemediation string timestamp
  | UpdateInstancePublicHostname string string
  | StartInstancePublishing string string operation
  | UpdateInstanceDeletionCleanup string string job_progress string bool timestamp
  | CreateControlPlaneOperation operation
  | UpdateControlPlaneOperation string operation_status job_progress string timestamp
  | FinalizeStalePublishingOperation string timestamp operation_status job_progress string timestamp
  | PutRemoteAccessResource resource_row
  | PrepareCleanHostRecovery

fun apply_control :: "control_call \<Rightarrow> timestamp \<Rightarrow> db \<Rightarrow> db result" where
  "apply_control ReconcileExpiredJobs now d = map_sum id snd (reconcile_expired_jobs now d)"
| "apply_control (RequestObservation i q at) now d = map_sum id snd (request_observation i q at d)"
| "apply_control (TrackRuntimeHealth b at w) now d = Inr (snd (track_runtime_health_observation b at w d))"
| "apply_control (CancelRuntimeRemediation i at) now d = cancel_runtime_remediation i at d"
| "apply_control (UpdateInstancePublicHostname i hn) now d = update_instance_public_hostname i hn d"
| "apply_control (StartInstancePublishing i hn op) now d = start_instance_publishing i hn op d"
| "apply_control (UpdateInstanceDeletionCleanup i op p e c at) now d =
     update_instance_deletion_cleanup i op p e c at d"
| "apply_control (CreateControlPlaneOperation op) now d = create_control_plane_operation op d"
| "apply_control (UpdateControlPlaneOperation i s p e at) now d = update_control_plane_operation i s p e at d"
| "apply_control (FinalizeStalePublishingOperation i b s p e at) now d =
     map_sum id snd (finalize_stale_publishing_operation i b s p e at d)"
| "apply_control (PutRemoteAccessResource r) now d = put_remote_access_resource r d"
| "apply_control PrepareCleanHostRecovery now d = prepare_clean_host_recovery now d"

text \<open>Hosts, policies, campaigns and health.\<close>

datatype fleet_call =
    EnrollHost host string
  | RotateHostCredential string string string string string string
  | WritePolicy bool fleet_policy
  | DeletePolicy string
  | CreatePolicyRollout operation string "string list"
  | UpdatePolicyRolloutControl string string raw_json job_progress timestamp
  | UpdatePolicyRolloutTarget string string string target_status string timestamp
  | CreateCampaign operation "string list"
  | StartCampaignObservation string string string timestamp
  | FinishCampaignTarget string string string target_status string timestamp
  | RecordFleetHealth string string string timestamp

fun apply_fleet :: "fleet_call \<Rightarrow> timestamp \<Rightarrow> db \<Rightarrow> db result" where
  "apply_fleet (EnrollHost h t) now d = enroll_host h t d"
| "apply_fleet (RotateHostCredential h n hn os a t) now d = rotate_host_credential h n hn os a t d"
| "apply_fleet (WritePolicy c p) now d = write_policy c p d"
| "apply_fleet (DeletePolicy i) now d = delete_policy i d"
| "apply_fleet (CreatePolicyRollout op p is) now d = create_policy_rollout op p is d"
| "apply_fleet (UpdatePolicyRolloutControl r e m p at) now d = update_policy_rollout_control r e m p at d"
| "apply_fleet (UpdatePolicyRolloutTarget r i c s dt at) now d = update_policy_rollout_target r i c s dt at d"
| "apply_fleet (CreateCampaign op is) now d = create_campaign op is d"
| "apply_fleet (StartCampaignObservation c i q at) now d = start_campaign_observation c i q at d"
| "apply_fleet (FinishCampaignTarget c i q s dt at) now d = finish_campaign_target c i q s dt at d"
| "apply_fleet (RecordFleetHealth c s dt at) now d = record_fleet_health c s dt at d"

datatype store_call =
    Queue queue_call
  | Agent agent_call
  | Chat chat_call
  | Control control_call
  | Fleet fleet_call

fun apply_call :: "store_call \<Rightarrow> timestamp \<Rightarrow> db \<Rightarrow> db result" where
  "apply_call (Queue c) now d = apply_queue c now d"
| "apply_call (Agent c) now d = apply_agent c now d"
| "apply_call (Chat c) now d = apply_chat c now d"
| "apply_call (Control c) now d = apply_control c now d"
| "apply_call (Fleet c) now d = apply_fleet c now d"

text \<open>The tokens a call hands out.\<close>

fun issued_tokens :: "store_call \<Rightarrow> string set" where
  "issued_tokens (Agent (ClaimJob h lease t)) = {t}"
| "issued_tokens _ = {}"

lemma map_sum_Inr: "map_sum id snd x = Inr d' \<longleftrightarrow> (\<exists>v. x = Inr (v, d'))"
  by (cases x) auto

lemma idle_admission_moves:
  assumes "admission (job_of op q) d d'" "active_instance_jobs (op_instance_id op) (db_jobs d) = 0"
  shows "moves T now d d'"
  by (rule moves_admission[OF assms(1)]) (use assms(2) in simp_all)

lemma request_moves:
  "queue_action e s op (job_of op q) d = Inr d' \<Longrightarrow> moves T now d d'"
  "queue_messaging_configuration e cf op (job_of op q) d = Inr d' \<Longrightarrow> moves T now d d'"
  "queue_mcp_configuration e cf op (job_of op q) d = Inr d' \<Longrightarrow> moves T now d d'"
  "queue_runtime_repair e op (job_of op q) p d = Inr d' \<Longrightarrow> moves T now d d'"
  "queue_inspection si op (job_of op q) d = Inr d' \<Longrightarrow> moves T now d d'"
  "queue_codex_auth op (job_of op q) d = Inr d' \<Longrightarrow> moves T now d d'"
proof -
  note idle = idle_admission_moves[of op q d d' T now]
  show "moves T now d d'" if "queue_action e s op (job_of op q) d = Inr d'"
    using idle queue_action_admission[OF that] queue_action_admits(2)[OF that] by simp
  show "moves T now d d'" if "queue_messaging_configuration e cf op (job_of op q) d = Inr d'"
    using idle queue_messaging_admission[OF that] queue_messaging_admits(2)[OF that] by simp
  show "moves T now d d'" if "queue_mcp_configuration e cf op (job_of op q) d = Inr d'"
    using idle queue_mcp_admission[OF that] queue_mcp_admits(2)[OF that] by simp
  show "moves T now d d'" if "queue_runtime_repair e op (job_of op q) p d = Inr d'"
    using idle queue_repair_admission[OF that] queue_runtime_repair_admits(2)[OF that] by simp
  show "moves T now d d'" if "queue_inspection si op (job_of op q) d = Inr d'"
    using idle queue_inspection_admission[OF that] queue_inspection_admits(2)[OF that] by simp
  show "moves T now d d'" if "queue_codex_auth op (job_of op q) d = Inr d'"
    using idle queue_codex_auth_admission[OF that] queue_codex_auth_admits(2)[OF that] by simp
qed

lemma create_instance_moves:
  assumes "create_instance i op (job_of op q) d = Inr d'" "op_instance_id op = in_id i"
  shows "moves T now d d'"
proof (rule moves_admission[OF create_instance_admission(1)[OF assms(1)]])
  show "active_instance_jobs (j_instance_id (job_of op q)) (db_jobs d) = 0" if "refs_ok d"
    using create_instance_admission(2)[OF assms(1)] no_jobs_of_new_instance[OF that] assms(2) by auto
qed simp

lemma chat_request_moves:
  assumes "queue_chat_message s m c op (job_of op q) d = Inr d'"
  shows "moves T now d d'"
proof -
  note r = queue_chat_message_Inr[OF assms]
  obtain d1 where "insert_operation_and_job op (job_of op q) d = Inr d1"
    by (rule queue_chat_message_stages[OF assms])
  then have "admission (job_of op q) d d'"
    using r(1,5) insert_job_instances[of op "job_of op q" d d1] by (simp add: admission_def)
  then show ?thesis by (rule moves_admission) (use r(2) in simp_all)
qed

lemmas call_moves = request_moves chat_request_moves reconcile_expired_moves agent_moves cancel_moves
  chat_cleanup_moves publish_moves host_moves chat_moves observation_moves operation_moves
  policy_moves campaign_moves prepare_recovery_moves

lemma apply_group_moves:
  "apply_queue qc now d = Inr d' \<Longrightarrow> moves T now d d'"
  "apply_chat cc now d = Inr d' \<Longrightarrow> moves T now d d'"
  "apply_control oc now d = Inr d' \<Longrightarrow> moves T now d d'"
  "apply_fleet fc now d = Inr d' \<Longrightarrow> moves T now d d'"
proof -
  show "moves T now d d'" if "apply_queue qc now d = Inr d'"
  proof (cases qc)
    case (CreateInstance i op q)
    then show ?thesis using that by (auto simp: Let_def intro: create_instance_moves)
  qed (insert that, simp_all, (erule call_moves)+)
  show "moves T now d d'" if "apply_chat cc now d = Inr d'"
    by (cases cc) (insert that, simp_all add: map_sum_Inr, (erule call_moves | erule exE, erule call_moves)+)
  show "moves T now d d'" if "apply_control oc now d = Inr d'"
  proof (cases oc)
    case (TrackRuntimeHealth b at w)
    then have "track_runtime_health_observation b at w d =
        (fst (track_runtime_health_observation b at w d), d')" using that by auto
    then show ?thesis by (rule observation_moves(3))
  qed (insert that, simp_all add: map_sum_Inr, (erule call_moves | erule exE, erule call_moves)+)
  show "moves T now d d'" if "apply_fleet fc now d = Inr d'"
    by (cases fc) (insert that, simp_all, (erule call_moves)+)
qed

lemma apply_agent_moves:
  assumes "apply_agent ac now d = Inr d'"
  shows "moves (issued_tokens (Agent ac)) now d d'"
proof (cases ac)
  case (ClaimJob h lease t)
  then show ?thesis using assms by (auto simp: map_sum_Inr intro: claim_moves)
qed (insert assms, simp_all, (erule call_moves)+)

lemma apply_call_moves: "apply_call c now d = Inr d' \<Longrightarrow> moves (issued_tokens c) now d d'"
  by (cases c) (auto intro: apply_group_moves apply_agent_moves simp del: issued_tokens.simps)

text \<open>Every call keeps the contract.\<close>

interpretation call: store_call "issued_tokens c" "apply_call c"
  by unfold_locales (rule apply_call_moves)

section \<open>Runs\<close>

inductive reachable :: "timestamp \<Rightarrow> db \<Rightarrow> bool" where
  Init: "reachable now empty_db"
| Call: "reachable now d \<Longrightarrow> now \<le> t \<Longrightarrow> '''' \<notin> issued_tokens c \<Longrightarrow> apply_call c t d = Inr d' \<Longrightarrow>
    reachable t d'"

text \<open>A run from a given database, in which the claims hand out tokens of \<open>U\<close> only.\<close>

inductive later :: "string set \<Rightarrow> timestamp \<Rightarrow> db \<Rightarrow> timestamp \<Rightarrow> db \<Rightarrow> bool" for U now d where
  Same: "later U now d now d"
| Next: "later U now d t e \<Longrightarrow> t \<le> t' \<Longrightarrow> issued_tokens c \<subseteq> U \<Longrightarrow> apply_call c t' e = Inr e' \<Longrightarrow>
    later U now d t' e'"

lemma fleet_ok_later: "fleet_ok now d \<Longrightarrow> now \<le> t \<Longrightarrow> fleet_ok t d"
  unfolding fleet_ok_def using queue_ok_later by blast

lemma fleet_ok_empty: "fleet_ok now empty_db"
  by (simp add: fleet_ok_def empty_db_def refs_ok_def)

lemma reachable_ok: "reachable now d \<Longrightarrow> fleet_ok now d"
  by (induction rule: reachable.induct) (auto intro: call.keeps fleet_ok_later simp: fleet_ok_empty)

lemma later_ok: "later U now d t e \<Longrightarrow> fleet_ok now d \<Longrightarrow> '''' \<notin> U \<Longrightarrow> fleet_ok t e"
proof (induction rule: later.induct)
  case (Next t e t' c e')
  then have "fleet_ok t' e" "'''' \<notin> issued_tokens c" by (auto intro: fleet_ok_later)
  then show ?case using Next(4) call.keeps by blast
qed

lemma later_retired:
  assumes "later U now d t e" "fleet_ok now d" "'''' \<notin> U" "x \<notin> U" "x \<noteq> ''''"
    and "\<forall>j \<in> set (db_jobs d). j_id j = i \<longrightarrow> j_lease_token j \<noteq> x"
  shows "\<forall>j \<in> set (db_jobs e). j_id j = i \<longrightarrow> j_lease_token j \<noteq> x"
  using assms(1)
proof (induction rule: later.induct)
  case Same
  then show ?case by (rule assms(6))
next
  case (Next t e t' c e')
  have "fleet_ok t' e" using later_ok[OF Next(1) assms(2,3)] Next(2) by (rule fleet_ok_later)
  then show ?case using call.retires[OF Next(4)] Next(3,5) assms(4,5) by blast
qed

section \<open>Jobs that have ended\<close>

text \<open>No call of a Host Agent touches a job that has ended.\<close>

lemma update_keeps_ended:
  assumes "r \<in> set jobs" "terminal_status (j_status r)" "\<And>r. P r \<Longrightarrow> active_job (j_status r)"
  shows "r \<in> set (update_where P f jobs)"
proof -
  have "\<not> P r" using assms(2) assms(3)[of r] by (auto simp: lease_defs)
  then show ?thesis using assms(1) by (simp add: set_update_where)
qed

lemma active_rows:
  "lost_lease j now r \<Longrightarrow> active_job (j_status r)" "claimable now r \<Longrightarrow> active_job (j_status r)"
  "held_in JobLeased h i t now r \<Longrightarrow> active_job (j_status r)"
  "held_in JobRunning h i t now r \<Longrightarrow> active_job (j_status r)"
  by (auto simp: lost_lease_def held_in_def lease_defs)

lemma fails_leases_keep_ended:
  assumes "(fails_lease now)\<^sup>*\<^sup>* d d'" "r \<in> set (db_jobs d)" "terminal_status (j_status r)"
  shows "r \<in> set (db_jobs d')"
  using assms(1)
proof (induction rule: rtranclp_induct)
  case (step e e')
  then obtain j where "db_jobs e' = update_where (lost_lease j now) (abort_row now) (db_jobs e)"
    by (auto simp: fails_lease_def dest: fail_expired_jobs(1))
  then show ?case using update_keeps_ended[OF step(3) assms(3)] active_rows(1) by metis
qed (rule assms(2))

lemma claim_keeps_ended:
  assumes "claim_job h lease now token d = Inr (q, d')" "r \<in> set (db_jobs d)" "terminal_status (j_status r)"
  shows "r \<in> set (db_jobs d')"
proof -
  obtain d1 where d1: "(fails_lease now)\<^sup>*\<^sup>* d d1"
    and c: "d' = d1 \<or> (\<exists>j. take_claim lease now token j d d1 = (q, d'))"
    using claim_loop_cases[OF assms(1)[unfolded claim_job_def]] by blast
  note kept = fails_leases_keep_ended[OF d1 assms(2,3)]
  have "d' = d1 \<or> d' = d \<or> (\<exists>j. db_jobs d' =
      update_where (\<lambda>r. j_id r = j \<and> claimable now r) (claim_row now (now + lease) token) (db_jobs d1))"
    using c by (auto simp: take_claim_def Let_def split: if_splits)
  then show ?thesis
  proof (elim disjE exE)
    fix j assume "db_jobs d' =
      update_where (\<lambda>r. j_id r = j \<and> claimable now r) (claim_row now (now + lease) token) (db_jobs d1)"
    moreover have "r \<in> set (update_where (\<lambda>r. j_id r = j \<and> claimable now r)
        (claim_row now (now + lease) token) (db_jobs d1))"
      by (rule update_keeps_ended[OF kept assms(3)]) (use active_rows(2) in blast)
    ultimately show ?thesis by simp
  qed (use kept assms(2) in simp_all)
qed

lemma agent_keeps_ended:
  assumes "apply_agent ac now d = Inr d'" "r \<in> set (db_jobs d)" "terminal_status (j_status r)"
  shows "r \<in> set (db_jobs d')"
proof -
  note upd = update_keeps_ended[OF assms(2,3)]
  show ?thesis
  proof (cases ac)
    case (ClaimJob h lease t)
    then show ?thesis using assms by (auto simp: map_sum_Inr intro: claim_keeps_ended)
  next
    case (Heartbeat h hn os a v at)
    then show ?thesis using assms by (auto simp: heartbeat_def)
  next
    case (AcknowledgeJob lease h i t)
    then show ?thesis using assms(1) upd active_rows(3) acknowledge_job_Inr(2) by (metis apply_agent.simps(3))
  next
    case (RenewJob lease h i t)
    then show ?thesis using assms(1) upd active_rows(4) renew_job_Inr(2) by (metis apply_agent.simps(4))
  next
    case (UpdateJobProgress p h i t)
    then show ?thesis using assms(1) upd active_rows(4) update_job_progress_Inr(2)
      by (metis (no_types, lifting) apply_agent.simps(5))
  next
    case (CompleteJob hash res reveal h i t)
    then show ?thesis
      using assms(1,2) complete_job_jobs[of hash res reveal h i t now d d'] upd active_rows(4)
      by (metis apply_agent.simps(6))
  next
    case (AppendChatEvent e h i t)
    then show ?thesis using assms(1,2) record_chat_event_frame(1)[OF append_chat_event_Inr(2)] by simp
  next
    case (RecordObservations h bs at)
    then show ?thesis using assms(1,2) by (auto simp: record_observations_frame(2))
  qed
qed

end
