(* ===== verification/Sample_Runs.thy ===== *)
theory Sample_Runs
  imports Store_Runs Sample_Fleet
begin

text \<open>
  Runs of the store from the empty database on concrete calls: a host is enrolled, an instance
  is provisioned and completed, and a chat session works beside a lifecycle action.
\<close>

fun play :: "(timestamp \<times> store_call) list \<Rightarrow> db \<Rightarrow> db option" where
  "play [] d = Some d"
| "play ((t, c) # cs) d = (case apply_call c t d of Inl _ \<Rightarrow> None | Inr d' \<Rightarrow> play cs d')"

fun timely :: "timestamp \<Rightarrow> (timestamp \<times> store_call) list \<Rightarrow> bool" where
  "timely now [] = True"
| "timely now ((t, c) # cs) = (now \<le> t \<and> '''' \<notin> issued_tokens c \<and> timely t cs)"

fun last_time :: "timestamp \<Rightarrow> (timestamp \<times> store_call) list \<Rightarrow> timestamp" where
  "last_time now [] = now"
| "last_time now ((t, c) # cs) = last_time t cs"

lemma play_reachable:
  "reachable now d \<Longrightarrow> timely now cs \<Longrightarrow> play cs d = Some d' \<Longrightarrow> reachable (last_time now cs) d'"
proof (induction cs arbitrary: now d)
  case (Cons p cs)
  then obtain t c e where p: "p = (t, c)" "apply_call c t d = Inr e" "play cs e = Some d'"
    by (cases p) (auto split: sum.splits)
  then have "reachable t e" using Cons.prems by (auto intro: reachable.Call[of now])
  then show ?case using Cons p by simp
qed simp

lemma play_later:
  "later U now d t e \<Longrightarrow> timely t cs \<Longrightarrow> \<Union> (issued_tokens ` snd ` set cs) \<subseteq> U \<Longrightarrow> play cs e = Some e' \<Longrightarrow>
   later U now d (last_time t cs) e'"
proof (induction cs arbitrary: t e)
  case (Cons p cs)
  then obtain t' c e1 where p: "p = (t', c)" "apply_call c t' e = Inr e1" "play cs e1 = Some e'"
    by (cases p) (auto split: sum.splits)
  then have "later U now d t' e1" using Cons.prems by (auto intro: later.Next[of U now d t])
  then show ?case using Cons p by simp
qed simp

definition new_host :: host where
  "new_host = host.truncate sample_host"

definition request :: "string \<Rightarrow> job_type \<Rightarrow> raw_json \<Rightarrow> job_request" where
  "request i t payload = \<lparr>jq_id = i, jq_host_id = ''h1'', jq_type = t, jq_payload = payload\<rparr>"

definition provisioned :: job_result where
  "provisioned = (plain_result True)\<lparr>jx_project_name := ''hermes-fleet-nara-i1'',
     jx_data_volume := ''hermes-fleet-nara-i1-data'', jx_managed_path := ''/srv/nara'',
     jx_image_id := ''sha256:'' @ replicate 64 (CHR ''a'')\<rparr>"

text \<open>The first instance, provisioned; then a restart is queued and taken by the agent.\<close>

definition setup_calls :: "(timestamp \<times> store_call) list" where
  "setup_calls =
     [(1, Fleet (EnrollHost new_host ''hash'')),
      (2, Queue (CreateInstance (sample_instance\<lparr>in_status := InstanceProvisioning\<rparr>)
            (sample_operation ''o1'' (OpOther ''PROVISION'') 2)
            (request ''j1'' JobProvision (Some (JObject []))))),
      (3, Agent (ClaimJob ''h1'' 100 ''t1'')),
      (4, Agent (AcknowledgeJob 100 ''h1'' ''j1'' ''t1''))]"

definition work_calls :: "(timestamp \<times> store_call) list" where
  "work_calls =
     [(200, Agent (ClaimJob ''h1'' 100 ''t2'')),
      (210, Agent (AcknowledgeJob 100 ''h1'' ''j1'' ''t2''))]"

definition setup_fleet :: db where
  "setup_fleet = (case play setup_calls empty_db of None \<Rightarrow> empty_db | Some d \<Rightarrow> d)"

definition work_fleet :: db where
  "work_fleet = (case play work_calls setup_fleet of None \<Rightarrow> empty_db | Some d \<Rightarrow> d)"

lemma setup_played: "play setup_calls empty_db = Some setup_fleet"
  by code_simp

lemma work_played: "play work_calls setup_fleet = Some work_fleet"
  by code_simp

lemma setup_reachable: "reachable 4 setup_fleet"
proof -
  have "timely 0 setup_calls" "last_time 0 setup_calls = 4" by code_simp+
  then show ?thesis using play_reachable[OF reachable.Init _ setup_played] by metis
qed

lemma work_later: "later {''t2''} 4 setup_fleet 210 work_fleet"
proof -
  have "timely 4 work_calls" "last_time 4 work_calls = 210"
    "\<Union> (issued_tokens ` snd ` set work_calls) \<subseteq> {''t2''}" by code_simp+
  then show ?thesis using play_later[OF later.Same _ _ work_played] by metis
qed

lemma work_reachable: "reachable 210 work_fleet"
proof -
  have "timely 4 work_calls" "last_time 4 work_calls = 210" by code_simp+
  then show ?thesis using play_reachable[OF setup_reachable _ work_played] by metis
qed

text \<open>A second instance on the same host.\<close>

definition second_instance :: instance_row where
  "second_instance = sample_instance\<lparr>in_id := ''i2'', in_name := ''kiko'',
     in_status := InstanceProvisioning, in_api_port := 8651, in_dashboard_port := 9131\<rparr>"

definition second_calls :: "(timestamp \<times> store_call) list" where
  "second_calls =
     [(300, Queue (CreateInstance second_instance
         (sample_operation ''o2'' (OpOther ''PROVISION'') 300)
         (request ''j2'' JobProvision (Some (JObject [])))))]"

definition second_fleet :: db where
  "second_fleet = (case play second_calls work_fleet of None \<Rightarrow> empty_db | Some d \<Rightarrow> d)"

lemma second_reachable: "reachable 300 second_fleet"
proof -
  have "timely 210 second_calls" "last_time 210 second_calls = 300"
    "play second_calls work_fleet = Some second_fleet" by code_simp+
  then show ?thesis using play_reachable[OF work_reachable] by metis
qed

end
