(* ===== verification/Properties_Queue.thy ===== *)
theory Properties_Queue
  imports Sample_Runs Properties_Completion
begin

text \<open>
  Properties of the job queue over all runs of the store: its bounds, the exclusive work of an
  instance, the leases of the Host Agents, and what a claim and the reconciliation of lost
  leases leave.
\<close>

section \<open>Invariants of every run\<close>

text \<open>C7. In every reachable database, whatever sequence of calls led to it, a host has at most
  100 jobs that are pending, leased or running.\<close>

theorem queue_capacity_bounded:
  assumes "reachable now d"
  shows "host_active h (db_jobs d) \<le> 100"
  using reachable_ok[OF assms] by (simp add: fleet_ok_def queue_ok_def job_queue_max_per_host_def)

theorem queue_capacity_bounded_witness: "host_active ''h1'' (db_jobs work_fleet) \<le> 100"
  by (rule queue_capacity_bounded[OF work_reachable])

text \<open>C8. In every reachable database an instance has at most one active job that is not a chat
  turn: two lifecycle actions, inspections or configurations never run at the same time.\<close>

theorem one_action_per_instance:
  assumes "reachable now d"
  shows "count_where (\<lambda>j. j_instance_id j = i \<and> j_type j \<noteq> JobChatSend
     \<and> active_job (j_status j)) (db_jobs d) \<le> 1"
  using reachable_ok[OF assms]
  by (simp add: fleet_ok_def queue_ok_def at_most_one_def exclusive_work_def[abs_def] chat_job_def)

theorem one_action_per_instance_witness:
  "count_where (\<lambda>j. j_instance_id j = ''i1'' \<and> j_type j \<noteq> JobChatSend
     \<and> active_job (j_status j)) (db_jobs work_fleet) \<le> 1"
  by (rule one_action_per_instance[OF work_reachable])

text \<open>C9. In every reachable database a job was handed out at most three times, and a chat turn at
  most once: a chat turn is never executed twice.\<close>

theorem attempts_bounded:
  assumes "reachable now d" and "j \<in> set (db_jobs d)"
  shows "j_attempts j \<le> 3 \<and> (j_type j = JobChatSend \<longrightarrow> j_attempts j \<le> 1)"
  using reachable_ok[OF assms(1)] assms(2)
  by (simp add: fleet_ok_def queue_ok_def job_ok_def job_lease_max_claims_def)

theorem attempts_bounded_witness:
  "\<exists>j \<in> set (db_jobs work_fleet). j_attempts j = 2 \<and> j_attempts j \<le> 3
     \<and> (j_type j = JobChatSend \<longrightarrow> j_attempts j \<le> 1)"
proof -
  let ?j = "hd (db_jobs work_fleet)"
  have "?j \<in> set (db_jobs work_fleet)" "j_attempts ?j = 2" by code_simp+
  then show ?thesis using attempts_bounded[OF work_reachable] by blast
qed

lemma allocation_ok_pair:
  "allocation_ok rows \<Longrightarrow> distinct rows \<Longrightarrow> r \<in> set rows \<Longrightarrow> s \<in> set rows \<Longrightarrow> r \<noteq> s \<Longrightarrow>
   live_instance r \<Longrightarrow> live_instance s \<Longrightarrow> compatible_rows r s"
  by (induction rows) (auto simp: list_all_iff compatible_rows_sym)

text \<open>C10. In every reachable database two live instances have different names and public
  hostnames, and on one host none of their four ports is shared.\<close>

theorem allocation_exclusive:
  assumes "reachable now d" and "r \<in> set (db_instances d)" "s \<in> set (db_instances d)" "r \<noteq> s"
    and "in_status r \<noteq> InstanceDeleted" "in_status s \<noteq> InstanceDeleted"
  shows "in_name r \<noteq> in_name s
     \<and> (in_public_hostname r \<noteq> '''' \<longrightarrow> in_public_hostname r \<noteq> in_public_hostname s)
     \<and> (in_host_id r = in_host_id s \<longrightarrow>
          {in_api_port r, in_dashboard_port r} \<inter> {in_api_port s, in_dashboard_port s} = {})"
proof -
  have "allocation_ok (db_instances d)" "distinct (map in_id (db_instances d))"
    using reachable_ok[OF assms(1)] by (simp_all add: fleet_ok_def)
  then have "compatible_rows r s"
    using allocation_ok_pair[of "db_instances d" r s] assms(2-6)
    by (simp add: live_instance_def distinct_map)
  then show ?thesis by (auto simp: compatible_rows_def ports_clash_def)
qed

theorem allocation_exclusive_witness:
  "\<exists>r \<in> set (db_instances second_fleet). \<exists>s \<in> set (db_instances second_fleet).
     in_name r \<noteq> in_name s \<and> {in_api_port r, in_dashboard_port r} \<inter>
       {in_api_port s, in_dashboard_port s} = {}"
proof -
  let ?r = "db_instances second_fleet ! 0" and ?s = "db_instances second_fleet ! 1"
  have m: "?r \<in> set (db_instances second_fleet)" "?s \<in> set (db_instances second_fleet)"
    by code_simp+
  have "?r \<noteq> ?s" "in_status ?r \<noteq> InstanceDeleted" "in_status ?s \<noteq> InstanceDeleted"
    "in_host_id ?r = in_host_id ?s" by code_simp+
  then show ?thesis using allocation_exclusive[OF second_reachable m] m by blast
qed

section \<open>Tokens that were replaced\<close>

text \<open>C11. Once the token of a job is not \<open>x\<close>, the holder of \<open>x\<close> is refused for good: however the
  fleet goes on, as long as the claims hand out other tokens, every call it makes for the job
  fails, at any time.\<close>

theorem replaced_token_refused:
  assumes "reachable now d" and "later U now d t e" and "x \<notin> U" "x \<noteq> ''''" "'''' \<notin> U"
    and "\<forall>j \<in> set (db_jobs d). j_id j = i \<longrightarrow> j_lease_token j \<noteq> x"
  shows "(\<exists>err. acknowledge_job lease h i x t' e = Inl err)
     \<and> (\<exists>err. renew_job lease h i x t' e = Inl err)
     \<and> (\<exists>err. update_job_progress p h i x t' e = Inl err)
     \<and> (\<exists>err. append_chat_event v h i x t' e = Inl err)
     \<and> (\<exists>err. complete_job_with_hash hash r reveal h i x t' e = Inl err)"
proof -
  have r: "j_lease_token j \<noteq> x" if "j \<in> set (db_jobs e)" "j_id j = i" for j
    using later_retired[OF assms(2) reachable_ok[OF assms(1)] assms(5,3,4,6)] that by blast
  show ?thesis
    by (intro conjI acknowledge.stale_token renewal.stale_token progress.stale_token
        chat_events.stale_token completion.stale_token) (use r in blast)+
qed

definition reclaim_calls :: "(timestamp \<times> store_call) list" where
  "reclaim_calls = [(400, Agent (ClaimJob ''h1'' 100 ''t3''))]"

definition reclaimed_fleet :: db where
  "reclaimed_fleet = (case play reclaim_calls work_fleet of None \<Rightarrow> empty_db | Some d \<Rightarrow> d)"

theorem replaced_token_refused_witness:
  "\<exists>err. complete_job_with_hash hash_a (plain_result True) None ''h1'' ''j1'' ''t1'' 401 reclaimed_fleet
     = Inl err"
proof -
  have "timely 210 reclaim_calls" "last_time 210 reclaim_calls = 400"
    "play reclaim_calls work_fleet = Some reclaimed_fleet"
    "\<Union> (issued_tokens ` snd ` set reclaim_calls) \<subseteq> {''t3''}" by code_simp+
  then have l: "later {''t3''} 210 work_fleet 400 reclaimed_fleet"
    using play_later[OF later.Same] by metis
  have j: "\<forall>j \<in> set (db_jobs work_fleet). j_id j = ''j1'' \<longrightarrow> j_lease_token j \<noteq> ''t1''" by code_simp
  show ?thesis using replaced_token_refused[OF work_reachable l _ _ _ j, of 0 "''h1''" 401] by simp
qed

text \<open>C12. No call of a Host Agent changes a job that has ended, be it its status, result hash or
  any other column.\<close>

theorem ended_jobs_untouched:
  assumes "apply_agent c now d = Inr d'" and "r \<in> set (db_jobs d)"
    and "j_status r = JobSucceeded \<or> j_status r = JobFailed"
  shows "r \<in> set (db_jobs d')"
  using agent_keeps_ended[OF assms(1,2)] assms(3) by (simp add: terminal_status_def)

theorem ended_jobs_untouched_witness:
  "\<exists>d'. apply_agent (ClaimJob ''h1'' 100 ''t9'') 50 finished_fleet = Inr d'
     \<and> hd (db_jobs finished_fleet) \<in> set (db_jobs d')"
proof -
  let ?c = "apply_agent (ClaimJob ''h1'' 100 ''t9'') 50 finished_fleet"
  have "?c = Inr (after ?c finished_fleet)" by code_simp
  moreover have "hd (db_jobs finished_fleet) \<in> set (db_jobs finished_fleet)"
    "j_status (hd (db_jobs finished_fleet)) = JobSucceeded" by code_simp+
  ultimately show ?thesis using ended_jobs_untouched by blast
qed

end
