(* ===== verification/Sample_Chat.thy ===== *)
theory Sample_Chat
  imports Store_Chat Sample_Fleet
begin

text \<open>A chat session of the sample instance with two queued messages, and its first run.\<close>

definition chat_payload :: "string \<Rightarrow> raw_json" where
  "chat_payload m = Some (JObject [(''instance_id'', JString ''i1''), (''instance_name'', JString ''nara''),
     (''session_id'', JString ''s1''), (''message_id'', JString m), (''project_name'', JString ''p''),
     (''managed_path'', JString ''/srv/nara''), (''api_port'', JInt 8650), (''provider'', JString ''xai''),
     (''model'', JString ''grok-4''), (''reasoning'', JString ''''), (''service_tier'', JString '''')])"

definition ask :: "string \<Rightarrow> string \<Rightarrow> string \<Rightarrow> timestamp \<Rightarrow> db \<Rightarrow> db result" where
  "ask m op j at d = queue_chat_message ''s1'' m ''sealed'' (sample_operation op OpChatMessage at)
     (sample_job j op JobChatSend (chat_payload m) at) d"

definition chat_fleet :: db where
  "chat_fleet = after (and_then (create_chat_session ''s1'' ''title'' ''i1'' 1 1 idle_fleet) (\<lambda>d.
     and_then (ask ''m1'' ''o1'' ''j1'' 2 d) (ask ''m2'' ''o2'' ''j2'' 3))) idle_fleet"

definition answering_fleet :: db where
  "answering_fleet = after (and_then (claim_job ''h1'' 100 10 ''t1'' chat_fleet) (\<lambda>(_, d).
     acknowledge_job 100 ''h1'' ''j1'' ''t1'' 11 d)) chat_fleet"

definition delta :: "int \<Rightarrow> string \<Rightarrow> chat_event" where
  "delta n hash = \<lparr>ce_session_id = ''s1'', ce_operation_id = ''o1'', ce_sequence = n,
     ce_type = EventDelta, ce_ciphertext = ''sealed'', ce_content_hash = hash, ce_created_at = 12\<rparr>"

definition streaming_fleet :: db where
  "streaming_fleet = after (and_then (append_chat_event (delta 1 ''a'') ''h1'' ''j1'' ''t1'' 12 answering_fleet)
     (append_chat_event (delta 2 ''b'') ''h1'' ''j1'' ''t1'' 13)) answering_fleet"

end
