(* ===== verification/Lease_Facts.thy ===== *)
theory Lease_Facts
  imports Store_Leases
begin

text \<open>
  What \<open>ClaimJob\<close> and \<open>ReconcileExpiredJobs\<close> leave behind: the rows they do not fail are the
  rows they found, a claim that returns nothing has left no candidate, and no lost lease
  survives the reconciliation.
\<close>

section \<open>Failing leases only fails jobs\<close>

lemma in_abort_update:
  assumes "r \<in> set (update_where P (abort_row at) jobs)"
  shows "r \<in> set jobs \<and> \<not> P r \<or> j_status r = JobFailed"
  using assms by (auto simp: set_update_where abort_row_def)

lemma fails_leases_rows:
  assumes "(fails_lease now)\<^sup>*\<^sup>* d d'" "r \<in> set (db_jobs d')"
  shows "r \<in> set (db_jobs d) \<or> j_status r = JobFailed"
  using assms
proof (induction arbitrary: r rule: rtranclp_induct)
  case (step e e')
  then obtain j where "db_jobs e' = update_where (lost_lease j now) (abort_row now) (db_jobs e)"
    by (auto simp: fails_lease_def dest: fail_expired_jobs(1))
  then show ?case using step(3,4) in_abort_update[of r] by auto
qed simp

lemma fails_leases_live:
  assumes "(fails_lease now)\<^sup>*\<^sup>* d d'" "r \<in> set (db_jobs d)" "lease_live now r"
  shows "r \<in> set (db_jobs d')"
  using assms
proof (induction rule: rtranclp_induct)
  case (step e e')
  then obtain j where e': "db_jobs e' = update_where (lost_lease j now) (abort_row now) (db_jobs e)"
    by (auto simp: fails_lease_def dest: fail_expired_jobs(1))
  have "\<not> lost_lease j now r"
    using assms(3) by (cases "j_lease_expires_at r") (auto simp: lost_lease_def lease_defs)
  then show ?case using step(3)[OF assms(2,3)] by (simp add: e' set_update_where)
qed simp

lemma fails_leases_ids:
  "(fails_lease now)\<^sup>*\<^sup>* d d' \<Longrightarrow> map j_id (db_jobs d') = map j_id (db_jobs d)"
proof (induction rule: rtranclp_induct)
  case (step e e')
  then obtain j where e': "db_jobs e' = update_where (lost_lease j now) (abort_row now) (db_jobs e)"
    by (auto simp: fails_lease_def dest: fail_expired_jobs(1))
  have "map j_id (db_jobs e') = map j_id (db_jobs e)"
    unfolding e' by (rule map_update_where) (simp add: abort_row_def)
  with step(3) show ?case by simp
qed simp

section \<open>A claim\<close>

lemma claim_job_None:
  assumes "claim_job h lease now token d = Inr (None, d')" "distinct (map j_id (db_jobs d))"
  shows "(fails_lease now)\<^sup>*\<^sup>* d d' \<and> (\<forall>c \<in> set (db_jobs d'). \<not> claim_candidate now h d' c)"
proof -
  obtain d1 where d1: "(fails_lease now)\<^sup>*\<^sup>* d d1"
    and c: "next_claim now h d1 = None \<and> d' = d1 \<or>
      (\<exists>j. next_claim now h d1 = Some j \<and> take_claim lease now token j d d1 = (None, d'))"
    using claim_loop_cases[OF assms(1)[unfolded claim_job_def]] by blast
  have "take_claim lease now token j d d1 \<noteq> (None, d')" if "next_claim now h d1 = Some j" for j
  proof -
    have "j \<in> set (db_jobs d1)" "claimable now j"
      using next_claim_Some[OF that] by (simp_all add: claim_candidate_def)
    then have "count_where (\<lambda>r. j_id r = j_id j \<and> claimable now r) (db_jobs d1) = 1"
      by (intro count_key_one[where key = j_id]) (use assms(2) fails_leases_ids[OF d1] in auto)
    then show ?thesis by (simp add: take_claim_def)
  qed
  then have "next_claim now h d1 = None" "d' = d1" using c by blast+
  then show ?thesis using next_claim_None[of now h d1] d1 by simp
qed

section \<open>Reconciliation\<close>

lemma fail_expired_operations:
  assumes "fail_expired_job_lease j metadata at d = Inr d'"
  shows "operation_exists d' i = operation_exists d i"
proof -
  obtain m f where f: "fail_lease_effects j m at (d\<lparr>db_jobs := update_where (lost_lease j at) (abort_row at) (db_jobs d),
      db_operations := update_where (\<lambda>q. op_id q = j_operation_id j) f (db_operations d)\<rparr>) = Inr d'"
    "\<And>q. op_id (f q) = op_id q"
    using assms by (auto simp: fail_expired_job_lease_def Let_def split: option.splits)
  have "db_operations d' = update_where (\<lambda>q. op_id q = j_operation_id j) f (db_operations d)"
    using f(1)
    by (auto simp: fail_lease_effects_def Let_def update_instances_Inr split: if_splits
        dest: fail_chat_lease_frame(4))
  then have "op_id ` set (db_operations d') = op_id ` set (db_operations d)"
    using map_update_where[of "\<lambda>q. op_id q = j_operation_id j" op_id f "db_operations d"] f(2)
    by (metis list.set_map)
  then show ?thesis unfolding operation_exists_def list_ex_iff by (metis (no_types) imageE image_eqI)
qed

lemma fail_all_rows:
  assumes "fail_all js at d = Inr d'" "r \<in> set (db_jobs d')"
  shows "j_status r = JobFailed
     \<or> r \<in> set (db_jobs d) \<and> (\<forall>j \<in> fst ` set js. \<not> lost_lease j at r)"
  using assms
proof (induction js at d rule: fail_all.induct)
  case (2 j m js at d)
  then obtain d1 where d1: "fail_expired_job_lease j m at d = Inr d1" "fail_all js at d1 = Inr d'"
    by auto
  show ?case
    using "2.IH"[OF d1(2) "2.prems"(2)] in_abort_update[of r "lost_lease j at" at "db_jobs d"]
    unfolding fail_expired_jobs(1)[OF d1(1)] by auto
qed simp

lemma fail_all_operations: "fail_all js at d = Inr d' \<Longrightarrow> operation_exists d' i = operation_exists d i"
  by (induction js at d rule: fail_all.induct) (auto dest: fail_expired_operations)

lemma reconciled_rows:
  assumes "reconcile_expired_jobs now d = Inr (n, d')" "r \<in> set (db_jobs d')"
    "operation_exists d' (j_operation_id r)"
  shows "\<not> unrecoverable now r"
proof
  assume u: "unrecoverable now r"
  let ?js = "map (\<lambda>j. (j, operation_metadata d (j_operation_id j)))
            (sort_key (\<lambda>j. Order_Key 0 (lease_time j) (j_id j))
              (filter (\<lambda>j. unrecoverable now j \<and> operation_exists d (j_operation_id j)) (db_jobs d)))"
  have f: "fail_all ?js now d = Inr d'" using assms(1) by (auto simp: reconcile_expired_jobs_def Let_def)
  have "r \<in> set (db_jobs d)" and n: "\<forall>j \<in> fst ` set ?js. \<not> lost_lease j now r"
    using fail_all_rows[OF f assms(2)] u by (auto simp: unrecoverable_def lease_defs)
  then have "r \<in> fst ` set ?js"
    using u assms(3) fail_all_operations[OF f] by (force simp: image_iff)
  then have "\<not> lost_lease r now r" using n by blast
  then show False using u by (simp add: lost_lease_def unrecoverable_def)
qed

section \<open>The turns of a chat session\<close>

text \<open>Failing a lost lease changes no message's session, operation or role.\<close>

definition message_places :: "db \<Rightarrow> (string \<times> chat_role \<times> string) list" where
  "message_places d = map (\<lambda>m. (me_operation_id m, me_role m, me_session_id m)) (db_messages d)"

lemma same_session_places:
  "same_session d a b \<longleftrightarrow> (\<exists>s. (j_operation_id a, RoleUser, s) \<in> set (message_places d)
     \<and> (j_operation_id b, RoleUser, s) \<in> set (message_places d))"
  unfolding same_session_def user_message_of_def message_places_def list_ex_iff by force

lemma fail_expired_places:
  assumes "fail_expired_job_lease j metadata at d = Inr d'"
  shows "message_places d' = message_places d"
proof -
  have chat: "message_places e' = message_places e" if "fail_chat_lease j reason at e = Inr e'" for e e' reason
    using that
    by (auto simp: fail_chat_lease_def message_places_def update_messages_def touch_session_def
        append_closing_event_frame(4) map_update_where split: option.splits)
  have closing: "message_places (lost_lease_closing j reason at e) = message_places e" for reason e
    by (simp add: message_places_def lost_lease_closing_def fail_remediation_attempt_def)
  have upd: "message_places e' = message_places e" if "update_instances P f e = Inr e'" for P f e e'
    using that by (auto simp: update_instances_Inr message_places_def)
  obtain m jobs ops where e: "fail_lease_effects j m at (d\<lparr>db_jobs := jobs, db_operations := ops\<rparr>) = Inr d'"
    using assms by (auto simp: fail_expired_job_lease_def Let_def split: option.splits)
  have "message_places d' = message_places (d\<lparr>db_jobs := jobs, db_operations := ops\<rparr>)"
    using e by (auto simp: fail_lease_effects_def Let_def closing split: if_splits dest: chat upd)
  then show ?thesis by (simp add: message_places_def)
qed

lemma fails_leases_places: "(fails_lease now)\<^sup>*\<^sup>* d d' \<Longrightarrow> message_places d' = message_places d"
  by (induction rule: rtranclp_induct) (auto simp: fails_lease_def dest: fail_expired_places)

lemma fails_leases_pending:
  assumes "(fails_lease now)\<^sup>*\<^sup>* d d'" "r \<in> set (db_jobs d)" "j_status r = JobPending"
  shows "r \<in> set (db_jobs d')"
  using assms
proof (induction rule: rtranclp_induct)
  case (step e e')
  then obtain j where e': "db_jobs e' = update_where (lost_lease j now) (abort_row now) (db_jobs e)"
    by (auto simp: fails_lease_def dest: fail_expired_jobs(1))
  have "\<not> lost_lease j now r" using assms(3) by (simp add: lost_lease_def lease_defs)
  then show ?case using step(3)[OF assms(2,3)] by (simp add: e' set_update_where)
qed simp

text \<open>A chat turn is handed out only when no other turn of its session runs or came before it.\<close>

lemma claim_job_turn:
  assumes "claim_job h lease now token d = Inr (Some q, d')" "j_type q = JobChatSend"
  obtains j where "j \<in> set (db_jobs d)" "q = job.truncate (claim_row now (now + lease) token j)"
    "\<forall>e \<in> set (db_jobs d). j_id e \<noteq> j_id j \<longrightarrow> j_type e = JobChatSend \<longrightarrow> same_session d e j \<longrightarrow>
       \<not> lease_live now e \<and> \<not> (j_status e = JobPending \<and> created_before e j)"
proof -
  obtain d1 j where d1: "(fails_lease now)\<^sup>*\<^sup>* d d1" "j \<in> set (db_jobs d1)"
    "claim_candidate now h d1 j" "q = job.truncate (claim_row now (now + lease) token j)"
    using claim_job_Some[OF assms(1)] by metis
  have t: "j_type j = JobChatSend" using assms(2) by (simp add: d1(4) job.defs claim_row_def)
  have "j \<in> set (db_jobs d)"
    using fails_leases_rows[OF d1(1,2)] d1(3) by (auto simp: claim_candidate_def lease_defs)
  moreover have "\<not> lease_live now e \<and> \<not> (j_status e = JobPending \<and> created_before e j)"
    if e: "e \<in> set (db_jobs d)" "j_id e \<noteq> j_id j" "j_type e = JobChatSend" "same_session d e j" for e
  proof -
    have "same_session d1 e j"
      using e(4) fails_leases_places[OF d1(1)] by (simp add: same_session_places)
    moreover have "\<not> chat_turn_blocked now d1 j" using d1(3) t by (simp add: claim_candidate_def)
    ultimately have "e \<in> set (db_jobs d1) \<longrightarrow>
        \<not> lease_live now e \<and> \<not> (j_status e = JobPending \<and> created_before e j)"
      using e(2,3) unfolding chat_turn_blocked_def list_ex_iff by blast
    then show ?thesis
      using fails_leases_live[OF d1(1) e(1)] fails_leases_pending[OF d1(1) e(1)] by blast
  qed
  ultimately show thesis using that d1(4) by blast
qed

section \<open>What stays claimable\<close>

definition given_up :: "timestamp \<Rightarrow> job_row \<Rightarrow> bool" where
  "given_up now j \<longleftrightarrow> lease_expired now j \<and> retries_exhausted j"

lemma fails_leases_survive:
  assumes "(fails_lease now)\<^sup>*\<^sup>* d d'" "distinct (map j_id (db_jobs d))"
    "c \<in> set (db_jobs d)" "\<not> given_up now c"
  shows "c \<in> set (db_jobs d')"
  using assms(1)
proof (induction rule: rtranclp_induct)
  case (step e e')
  then obtain j where j: "j \<in> set (db_jobs e)" "lease_expired now j" "retries_exhausted j"
    and e': "db_jobs e' = update_where (lost_lease j now) (abort_row now) (db_jobs e)"
    by (auto simp: fails_lease_def dest: fail_expired_jobs(1))
  have "distinct (map j_id (db_jobs e))" using fails_leases_ids[OF step(1)] assms(2) by simp
  then have "\<not> lost_lease j now c"
    using unique_row[of j_id "db_jobs e" j c] j step(3) assms(4)
    by (auto simp: lost_lease_def given_up_def)
  then show ?case using step(3) by (simp add: e' set_update_where)
qed (rule assms(3))

lemma fails_leases_operations: "(fails_lease now)\<^sup>*\<^sup>* d d' \<Longrightarrow> operation_exists d' i = operation_exists d i"
  by (induction rule: rtranclp_induct) (auto simp: fails_lease_def dest: fail_expired_operations)

lemma fails_leases_candidate:
  assumes "(fails_lease now)\<^sup>*\<^sup>* d d'" "claim_candidate now h d c"
  shows "claim_candidate now h d' c"
proof -
  have active: "r \<in> set (db_jobs d)" if "r \<in> set (db_jobs d')" "lease_live now r \<or> j_status r = JobPending" for r
    using fails_leases_rows[OF assms(1) that(1)] that(2) by (auto simp: lease_defs)
  have "\<not> other_lease_live now c (db_jobs d')" if "\<not> other_lease_live now c (db_jobs d)"
    using that active unfolding other_lease_live_def list_ex_iff by blast
  moreover have "\<not> chat_turn_blocked now d' c" if "\<not> chat_turn_blocked now d c"
    using that active
    unfolding chat_turn_blocked_def list_ex_iff same_session_places fails_leases_places[OF assms(1)]
    by blast
  ultimately show ?thesis
    using assms(2) fails_leases_operations[OF assms(1)] by (simp add: claim_candidate_def split: if_splits)
qed

text \<open>What a claim hands out was free on its host, and comes first among what is not given up.\<close>

lemma claim_job_found:
  assumes "claim_job h lease now token d = Inr (Some q, d')"
  obtains j where "j \<in> set (db_jobs d)" "j_host_id j = h" "claimable now j"
    "lease_expired now j \<longrightarrow> \<not> retries_exhausted j"
    "j_type j \<noteq> JobChatSend \<longrightarrow> \<not> other_lease_live now j (db_jobs d)"
    "q = job.truncate (claim_row now (now + lease) token j)"
    "claim_row now (now + lease) token j \<in> set (db_jobs d')"
    "distinct (map j_id (db_jobs d)) \<longrightarrow> (\<forall>c \<in> set (db_jobs d). claim_candidate now h d c \<longrightarrow>
       \<not> given_up now c \<longrightarrow> job_order j \<le> job_order c)"
proof -
  obtain d1 j where d1: "(fails_lease now)\<^sup>*\<^sup>* d d1" "j \<in> set (db_jobs d1)"
    "claim_candidate now h d1 j" "\<not> (lease_expired now j \<and> retries_exhausted j)"
    "\<And>c. c \<in> set (db_jobs d1) \<Longrightarrow> claim_candidate now h d1 c \<Longrightarrow> job_order j \<le> job_order c"
    "q = job.truncate (claim_row now (now + lease) token j)"
    "db_jobs d' = update_where (\<lambda>r. j_id r = j_id j \<and> claimable now r)
       (claim_row now (now + lease) token) (db_jobs d1)"
    by (rule claim_job_Some[OF assms], rule that)
  have c: "claimable now j" "j_host_id j = h" using d1(3) by (simp_all add: claim_candidate_def)
  then have "j \<in> set (db_jobs d)" using fails_leases_rows[OF d1(1,2)] by (auto simp: lease_defs)
  moreover have "\<not> other_lease_live now j (db_jobs d)" if "j_type j \<noteq> JobChatSend"
  proof
    assume "other_lease_live now j (db_jobs d)"
    then have "other_lease_live now j (db_jobs d1)"
      using fails_leases_live[OF d1(1)] unfolding other_lease_live_def list_ex_iff by blast
    then show False using d1(3) that by (simp add: claim_candidate_def)
  qed
  moreover have "claim_row now (now + lease) token j \<in> set (db_jobs d')"
    unfolding d1(7) using d1(2) c by (simp add: set_update_where)
  moreover have "\<forall>c \<in> set (db_jobs d). claim_candidate now h d c \<longrightarrow> \<not> given_up now c \<longrightarrow>
      job_order j \<le> job_order c" if "distinct (map j_id (db_jobs d))"
    using d1(5) fails_leases_survive[OF d1(1) that] fails_leases_candidate[OF d1(1)] by blast
  ultimately show thesis using that c d1(4,6) by blast
qed

lemma claim_job_given_up:
  assumes "claim_job h lease now token d = Inr (None, d')" "distinct (map j_id (db_jobs d))"
    "c \<in> set (db_jobs d)" "claim_candidate now h d c"
  shows "given_up now c"
proof (rule ccontr)
  assume n: "\<not> given_up now c"
  note r = claim_job_None[OF assms(1,2)]
  show False
    using r fails_leases_survive[OF _ assms(2,3) n] fails_leases_candidate[OF _ assms(4)] by blast
qed

lemma claim_job_undisturbed:
  assumes "c \<in> set (db_jobs d)" "claim_candidate now h d c" "distinct (map j_id (db_jobs d))"
    "\<forall>j \<in> set (db_jobs d). \<not> given_up now j"
  shows "\<exists>q d'. claim_job h lease now token d = Inr (Some q, d')"
proof -
  obtain j where j: "next_claim now h d = Some j"
    using next_claim_None[of now h d] assms(1,2) by (cases "next_claim now h d") auto
  note c = next_claim_Some(1,2)[OF j]
  have "count_where (\<lambda>r. j_id r = j_id j \<and> claimable now r) (db_jobs d) = 1"
    by (intro count_key_one[where key = j_id])
      (use assms(3) c in \<open>auto simp: claim_candidate_def\<close>)
  then show ?thesis
    using j c(1) assms(4)
    by (auto simp: claim_job_def claim_loop.simps[of h lease now token d d] take_claim_def Let_def given_up_def)
qed

end
