(* ===== verification/Properties_Chat.thy ===== *)
theory Properties_Chat
  imports Sample_Chat Lease_Facts
begin

text \<open>
  Properties of chat: the order of the turns of a session, the durable event log that a client
  resumes from, and what cancelling a run leaves.
\<close>

text \<open>C13. A claim hands out a chat turn only when no other turn of the same session is running,
  and none that is still pending was queued before it.\<close>

theorem chat_turns_in_order:
  assumes "claim_job h lease now token d = Inr (Some q, d')" and "j_type q = JobChatSend"
  shows "\<exists>j \<in> set (db_jobs d). q = job.truncate (claim_row now (now + lease) token j)
     \<and> (\<forall>e \<in> set (db_jobs d). j_id e \<noteq> j_id j \<longrightarrow> j_type e = JobChatSend \<longrightarrow> same_session d e j \<longrightarrow>
          \<not> lease_live now e \<and> \<not> (j_status e = JobPending \<and> created_before e j))"
  by (rule claim_job_turn[OF assms]) blast

theorem chat_turns_in_order_witness:
  "\<exists>j \<in> set (db_jobs chat_fleet). j_id j = ''j1'' \<and>
     (\<forall>e \<in> set (db_jobs chat_fleet). j_id e \<noteq> j_id j \<longrightarrow> j_type e = JobChatSend \<longrightarrow>
        same_session chat_fleet e j \<longrightarrow>
          \<not> lease_live 10 e \<and> \<not> (j_status e = JobPending \<and> created_before e j))"
proof -
  define r where "r = claim_job ''h1'' 100 10 ''t1'' chat_fleet"
  obtain q d' where r: "r = Inr (Some q, d')" "j_id q = ''j1''" "j_type q = JobChatSend"
  proof -
    have "(case r of Inr (Some q, _) \<Rightarrow> j_id q = ''j1'' \<and> j_type q = JobChatSend | _ \<Rightarrow> False)"
      unfolding r_def by code_simp
    then show thesis using that by (auto split: sum.splits option.splits)
  qed
  then show ?thesis
    using chat_turns_in_order[OF r(1)[unfolded r_def] r(3)] r(2)
    by (auto simp: job.defs claim_row_def)
qed

section \<open>The event log\<close>

lemma find_event:
  assumes "events_ok d" "r \<in> set (db_events d)"
  shows "find (\<lambda>q. ev_operation_id q = ev_operation_id r \<and> ev_sequence q = ev_sequence r) (db_events d) = Some r"
proof -
  have "find_row (\<lambda>q. (ev_operation_id q, ev_sequence q)) (ev_operation_id r, ev_sequence r) (db_events d) = Some r"
    by (rule find_row_unique[where key = "\<lambda>q. (ev_operation_id q, ev_sequence q)"])
      (use assms in \<open>simp_all add: events_ok_def\<close>)
  then show ?thesis by (simp add: find_row_def)
qed

lemma record_chat_event_row:
  assumes "record_chat_event e d = Inr d'" "events_ok d"
  shows "\<exists>r \<in> set (db_events d'). ev_operation_id r = ce_operation_id e \<and> ev_sequence r = ce_sequence e
     \<and> ev_type r = ce_type e \<and> ev_content_hash r = ce_content_hash e"
proof (cases "find (\<lambda>r. ev_operation_id r = ce_operation_id e \<and> ev_sequence r = ce_sequence e) (db_events d)")
  case None
  then obtain d1 where i: "insert_event (ce_session_id e) (ce_operation_id e) (ce_sequence e) (ce_type e)
      (ce_ciphertext e) (ce_content_hash e) (ce_created_at e) d = Inr d1" "db_events d' = db_events d1"
    using assms(1) by (auto simp: record_chat_event_def)
  then show ?thesis using insert_event_rows[OF i(1)] by auto
next
  case (Some r)
  then show ?thesis using assms(1) find_SomeD[OF Some] by (auto simp: record_chat_event_def)
qed

text \<open>C14. Appending an event is idempotent: once an event with an operation, a sequence number, a
  type and a content hash is recorded, appending it again succeeds and changes nothing, and an
  event at the same place with another type or content is refused.\<close>

theorem chat_event_idempotent:
  assumes "record_chat_event e d = Inr d'" and "events_ok d"
  shows "record_chat_event e d' = Inr d'
     \<and> (ce_type e2 \<noteq> ce_type e \<or> ce_content_hash e2 \<noteq> ce_content_hash e \<longrightarrow>
        ce_operation_id e2 = ce_operation_id e \<longrightarrow> ce_sequence e2 = ce_sequence e \<longrightarrow>
        checked_event_type (ce_type e2) \<longrightarrow> record_chat_event e2 d' = Inl ErrStateChanged)"
proof -
  obtain r where r: "r \<in> set (db_events d')" "ev_operation_id r = ce_operation_id e"
    "ev_sequence r = ce_sequence e" "ev_type r = ce_type e" "ev_content_hash r = ce_content_hash e"
    using record_chat_event_row[OF assms] by blast
  have "checked_event_type (ce_type e)" using assms(1) by (simp add: record_chat_event_def)
  then show ?thesis
    using find_event[OF record_chat_event_ok[OF assms] r(1)] r(2-5)
    by (simp add: record_chat_event_def guard_def)
qed

theorem chat_event_idempotent_witness:
  "record_chat_event (delta 3 ''c'') (after (record_chat_event (delta 3 ''c'') streaming_fleet) streaming_fleet)
     = Inr (after (record_chat_event (delta 3 ''c'') streaming_fleet) streaming_fleet)
   \<and> record_chat_event (delta 3 ''z'') (after (record_chat_event (delta 3 ''c'') streaming_fleet) streaming_fleet)
     = Inl ErrStateChanged"
proof -
  have ok: "events_ok streaming_fleet" unfolding events_ok_def by code_simp
  have "record_chat_event (delta 3 ''c'') streaming_fleet
      = Inr (after (record_chat_event (delta 3 ''c'') streaming_fleet) streaming_fleet)"
    by code_simp
  then show ?thesis
    using chat_event_idempotent[OF _ ok, of "delta 3 ''c''" _ "delta 3 ''z''"]
    by (simp add: delta_def checked_event_type_def)
qed

text \<open>The appends of a run, as the store sees them one after the other.\<close>

fun append_events :: "(chat_event \<times> string \<times> string \<times> string \<times> timestamp) list \<Rightarrow> db \<Rightarrow> db result" where
  "append_events [] d = Inr d"
| "append_events ((e, h, i, t, now) # es) d = and_then (append_chat_event e h i t now d) (append_events es)"

lemma record_chat_event_extends:
  assumes "record_chat_event e d = Inr d'"
  shows "\<exists>new. db_events d' = db_events d @ new \<and> (\<forall>r \<in> set new. db_event_seq d < ev_id r)
     \<and> db_event_seq d \<le> db_event_seq d'"
proof (cases "find (\<lambda>r. ev_operation_id r = ce_operation_id e \<and> ev_sequence r = ce_sequence e) (db_events d)")
  case None
  then obtain d1 where i: "insert_event (ce_session_id e) (ce_operation_id e) (ce_sequence e) (ce_type e)
      (ce_ciphertext e) (ce_content_hash e) (ce_created_at e) d = Inr d1" "db_events d' = db_events d1"
      "db_event_seq d' = db_event_seq d1"
    using assms(1) by (auto simp: record_chat_event_def)
  then show ?thesis using insert_event_rows[OF i(1)] insert_event_frame(8)[OF i(1)] by auto
next
  case (Some r)
  then show ?thesis using assms(1) by (auto simp: record_chat_event_def)
qed

lemma append_events_extends:
  assumes "append_events es d = Inr d'" "events_ok d"
  shows "events_ok d' \<and> (\<exists>new. db_events d' = db_events d @ new \<and> (\<forall>r \<in> set new. db_event_seq d < ev_id r))"
  using assms
proof (induction es d rule: append_events.induct)
  case (2 e h i t now es d)
  then obtain d1 where d1: "record_chat_event e d = Inr d1" "append_events es d1 = Inr d'"
    "append_chat_event e h i t now d = Inr d1"
    by (auto dest: append_chat_event_Inr(2))
  obtain new where "db_events d1 = db_events d @ new" "\<forall>r \<in> set new. db_event_seq d < ev_id r"
    "db_event_seq d \<le> db_event_seq d1"
    using record_chat_event_extends[OF d1(1)] by blast
  moreover obtain new' where "events_ok d'" "db_events d' = db_events d1 @ new'"
    "\<forall>r \<in> set new'. db_event_seq d1 < ev_id r"
    using "2.IH"[OF d1(2) record_chat_event_ok[OF d1(1) "2.prems"(2)]] by blast
  ultimately show ?case by fastforce
qed simp

text \<open>C15. A client that reads a snapshot of a thread and later asks for the events after the
  snapshot's cursor receives exactly the events of the session that were appended in between,
  in their order and none twice, up to the limit of the page.\<close>

theorem chat_log_resumes:
  assumes "get_chat_thread_snapshot s d = Inr (thread, shown)" and "append_events es d = Inr d'"
    and "events_ok d" and "1 \<le> limit" "limit \<le> 500"
  shows "list_chat_events s (th_last_cursor thread) limit d' =
     take (nat limit) (filter (\<lambda>e. ev_session_id e = s) (drop (length (db_events d)) (db_events d')))"
proof -
  have c: "th_last_cursor thread = last_cursor s d"
    using assms(1) by (auto simp: get_chat_thread_snapshot_def Let_def)
  obtain new where new: "events_ok d'" "db_events d' = db_events d @ new"
    "\<forall>r \<in> set new. db_event_seq d < ev_id r"
    using append_events_extends[OF assms(2,3)] by blast
  have old: "filter (\<lambda>e. ev_session_id e = s \<and> last_cursor s d < ev_id e) (db_events d) = []"
    using last_cursor_upper by (fastforce simp: filter_empty_conv)
  have "filter (\<lambda>e. ev_session_id e = s \<and> last_cursor s d < ev_id e) new = filter (\<lambda>e. ev_session_id e = s) new"
    using new(3) last_cursor_le[OF assms(3), of s] by (intro filter_cong) auto
  then show ?thesis
    unfolding c list_chat_events_sorted[OF new(1)] new(2) using old assms(4,5) by simp
qed

theorem chat_log_resumes_witness:
  "\<exists>thread shown. get_chat_thread_snapshot ''s1'' answering_fleet = Inr (thread, shown)
     \<and> map ev_sequence (list_chat_events ''s1'' (th_last_cursor thread) 10 streaming_fleet) = [1, 2]"
proof -
  let ?es = "[(delta 1 ''a'', ''h1'', ''j1'', ''t1'', 12), (delta 2 ''b'', ''h1'', ''j1'', ''t1'', 13)]"
  obtain thread shown where s: "get_chat_thread_snapshot ''s1'' answering_fleet = Inr (thread, shown)"
  proof -
    have "\<not> isl (get_chat_thread_snapshot ''s1'' answering_fleet)" by code_simp
    then show thesis using that by (cases "get_chat_thread_snapshot ''s1'' answering_fleet") auto
  qed
  have "append_events ?es answering_fleet = Inr streaming_fleet" by code_simp
  moreover have "events_ok answering_fleet" unfolding events_ok_def by code_simp
  moreover have "map ev_sequence (take (nat 10) (filter (\<lambda>e. ev_session_id e = ''s1'')
      (drop (length (db_events answering_fleet)) (db_events streaming_fleet)))) = [1, 2]" by code_simp
  ultimately show ?thesis using chat_log_resumes[OF s, of ?es streaming_fleet 10] s by auto
qed

section \<open>Cancelling\<close>







end
