(* ===== verification/Lease_Closing.thy ===== *)
theory Lease_Closing
  imports Lease_Facts
begin

text \<open>
  What giving up lost leases does as a whole: which rows of the job table and of the operations it
  changes, and when it succeeds, so that a claim goes on past the leases that it gives up.
\<close>

section \<open>Exactly the lost leases fail\<close>

lemma fail_all_jobs:
  "fail_all js at d = Inr d' \<Longrightarrow>
   db_jobs d' = map (\<lambda>r. if \<exists>j \<in> fst ` set js. lost_lease j at r then abort_row at r else r) (db_jobs d)"
proof (induction js at d rule: fail_all.induct)
  case (2 j m js at d)
  then obtain d1 where d1: "fail_expired_job_lease j m at d = Inr d1" "fail_all js at d1 = Inr d'" by auto
  have "\<not> lost_lease k at (abort_row at r)" for k r
    by (simp add: lost_lease_def lease_defs abort_row_def)
  then show ?case
    unfolding "2.IH"[OF d1(2)] fail_expired_jobs(1)[OF d1(1)] update_where_def by auto
qed simp

lemma fail_expired_failed_operation:
  assumes "fail_expired_job_lease j metadata at d = Inr d'"
  obtains f where "db_operations d' = update_where (\<lambda>p. op_id p = j_operation_id j) f (db_operations d)"
    "\<And>p. op_status (f p) = OperationFailed \<and> op_id (f p) = op_id p"
proof -
  have eff: "db_operations e' = db_operations e" if "fail_lease_effects j m at e = Inr e'" for m e e'
    using that
    by (auto simp: fail_lease_effects_def Let_def update_instances_Inr split: if_splits dest: fail_chat_lease_frame)
  show ?thesis
    using assms by (auto simp: fail_expired_job_lease_def Let_def split: option.splits dest!: eff intro!: that)
qed

lemma fail_all_failed_operations:
  assumes "fail_all js at d = Inr d'"
  shows "p \<in> set (db_operations d') \<Longrightarrow> p \<in> set (db_operations d)
       \<or> (\<exists>j \<in> fst ` set js. op_id p = j_operation_id j) \<and> op_status p = OperationFailed"
    and "j \<in> fst ` set js \<Longrightarrow> p \<in> set (db_operations d') \<Longrightarrow> op_id p = j_operation_id j \<Longrightarrow>
       op_status p = OperationFailed"
proof -
  have "(\<forall>p \<in> set (db_operations d'). (p \<in> set (db_operations d)
         \<or> (\<exists>j \<in> fst ` set js. op_id p = j_operation_id j) \<and> op_status p = OperationFailed))
      \<and> (\<forall>j \<in> fst ` set js. \<forall>p \<in> set (db_operations d'). op_id p = j_operation_id j \<longrightarrow> op_status p = OperationFailed)"
    using assms
  proof (induction js at d rule: fail_all.induct)
    case (2 j m js at d)
    then obtain d1 where d1: "fail_expired_job_lease j m at d = Inr d1" "fail_all js at d1 = Inr d'" by auto
    obtain f where f: "db_operations d1 = update_where (\<lambda>p. op_id p = j_operation_id j) f (db_operations d)"
      "\<And>p. op_status (f p) = OperationFailed \<and> op_id (f p) = op_id p"
      using fail_expired_failed_operation[OF d1(1)] by blast
    have one: "p \<in> set (db_operations d) \<and> op_id p \<noteq> j_operation_id j
        \<or> op_id p = j_operation_id j \<and> op_status p = OperationFailed"
      if "p \<in> set (db_operations d1)" for p
      using that f(2) unfolding f(1) by (auto simp: set_update_where)
    show ?case using "2.IH"[OF d1(2)] one by (auto 4 3)
  qed simp
  then show "p \<in> set (db_operations d') \<Longrightarrow> p \<in> set (db_operations d)
       \<or> (\<exists>j \<in> fst ` set js. op_id p = j_operation_id j) \<and> op_status p = OperationFailed"
    and "j \<in> fst ` set js \<Longrightarrow> p \<in> set (db_operations d') \<Longrightarrow> op_id p = j_operation_id j \<Longrightarrow>
       op_status p = OperationFailed" by blast+
qed

section \<open>When a lost lease can be closed\<close>

text \<open>
  The records that closing the job reads are readable: the metadata of its operation, and the payload
  and the session of a chat turn; and its instance is not deleted.
\<close>

definition closable :: "db \<Rightarrow> job_row \<Rightarrow> bool" where
  "closable d j \<longleftrightarrow> metadata_map (operation_metadata d (j_operation_id j)) \<noteq> None
     \<and> (if j_type j = JobChatSend
        then (case decode_chat_send (j_payload j) of None \<Rightarrow> False | Some p \<Rightarrow> session_exists d (cs_session_id p))
        else list_all (\<lambda>r. in_id r = j_instance_id j \<longrightarrow> in_status r \<noteq> InstanceDeleted) (db_instances d))"

definition leases_closable :: "timestamp \<Rightarrow> db \<Rightarrow> bool" where
  "leases_closable now d \<longleftrightarrow> distinct (map j_id (db_jobs d)) \<and> allocation_ok (db_instances d)
     \<and> list_all (\<lambda>e. 0 \<le> ev_sequence e) (db_events d)
     \<and> list_all (\<lambda>j. given_up now j \<longrightarrow> closable d j) (db_jobs d)"

lemma max_sequence_nonneg:
  assumes "\<forall>e \<in> set rows. 0 \<le> ev_sequence e"
  shows "0 \<le> max_sequence op rows"
proof -
  have "0 \<le> fold max xs x" if "0 \<le> x" for x and xs :: "int list"
    using that by (induction xs arbitrary: x) auto
  then show ?thesis
    using assms by (auto simp: max_sequence_def filter_eq_Cons_iff split: list.splits)
qed

lemma append_closing_event_succeeds:
  assumes "checked_event_type t" "session_exists d s" "operation_exists d op"
    and "\<forall>e \<in> set (db_events d). 0 \<le> ev_sequence e"
  shows "\<exists>d'. append_closing_event s op t at d = Inr d'
     \<and> (\<forall>e \<in> set (db_events d'). 0 \<le> ev_sequence e) \<and> db_sessions d' = db_sessions d
     \<and> db_operations d' = db_operations d \<and> db_instances d' = db_instances d"
proof -
  have fresh: "\<not> list_ex (\<lambda>e. ev_operation_id e = op \<and> ev_sequence e = max_sequence op (db_events d) + 1) (db_events d)"
    using max_sequence_upper[of _ "db_events d" op] unfolding list_ex_iff by fastforce
  show ?thesis
    using assms max_sequence_nonneg[OF assms(4), of op] fresh
    by (auto simp: append_closing_event_def insert_event_def)
qed

lemma lost_lease_status_live: "lost_lease_instance_status j m \<noteq> InstanceDeleted"
  by (auto simp: lost_lease_instance_status_def hermes_update_original_status_def Let_def
      split: job_type.splits json.splits option.splits)

lemma jset_object: "jobject (JObject m) = Some m" by simp

text \<open>Closing a readable lease succeeds, and leaves everything that the other leases need.\<close>

lemma fail_lease_effects_succeeds:
  assumes "operation_exists d (j_operation_id j)" "allocation_ok (db_instances d)"
    and "\<forall>e \<in> set (db_events d). 0 \<le> ev_sequence e"
    and "if j_type j = JobChatSend
        then (case decode_chat_send (j_payload j) of None \<Rightarrow> False | Some p \<Rightarrow> session_exists d (cs_session_id p))
        else \<forall>r \<in> set (db_instances d). in_id r = j_instance_id j \<longrightarrow> in_status r \<noteq> InstanceDeleted"
  shows "\<exists>d'. fail_lease_effects j m at d = Inr d' \<and> db_operations d' = db_operations d
     \<and> (\<forall>i. session_exists d' i = session_exists d i)
     \<and> (\<forall>e \<in> set (db_events d'). 0 \<le> ev_sequence e) \<and> allocation_ok (db_instances d')
     \<and> (\<forall>r \<in> set (db_instances d'). \<exists>q \<in> set (db_instances d). in_id q = in_id r
          \<and> (in_status r = InstanceDeleted \<longrightarrow> in_status q = InstanceDeleted))"
proof (cases "j_type j = JobChatSend")
  case True
  then obtain p where p: "decode_chat_send (j_payload j) = Some p" "session_exists d (cs_session_id p)"
    using assms(4) by (auto split: option.splits)
  let ?d = "touch_session (cs_session_id p) (lost_lease_reason j) at
      (update_messages (\<lambda>m. me_id m = cs_message_id p \<and> me_operation_id m = j_operation_id j)
        (\<lambda>m. m\<lparr>me_status := MessageFailed, me_error := lost_lease_reason j, me_updated_at := at\<rparr>) d)"
  have s: "session_exists ?d i = session_exists d i" for i
    by (simp add: session_exists_def touch_session_def update_messages_def list_ex_update_where)
  have f: "operation_exists ?d = operation_exists d" "db_events ?d = db_events d" "db_instances ?d = db_instances d"
    "db_operations ?d = db_operations d"
    by (simp_all add: fun_eq_iff operation_exists_def touch_session_def update_messages_def)
  obtain d' where d': "append_closing_event (cs_session_id p) (j_operation_id j) EventFailed at ?d = Inr d'"
    "\<forall>e \<in> set (db_events d'). 0 \<le> ev_sequence e" "db_sessions d' = db_sessions ?d"
    "db_operations d' = db_operations ?d" "db_instances d' = db_instances ?d"
    using append_closing_event_succeeds[of EventFailed ?d "cs_session_id p" "j_operation_id j" at] p s f assms(1,3)
    by (auto simp: checked_event_type_def)
  have "session_exists d' i = session_exists d i" for i using d'(3) s[of i] by (simp add: session_exists_def)
  then show ?thesis
    using True p d' f assms(2) by (auto simp: fail_lease_effects_def fail_chat_lease_def lost_lease_closing_def Let_def)
next
  case False
  let ?u = "\<lambda>r. r\<lparr>in_status := lost_lease_instance_status j m, in_last_error := lost_lease_reason j, in_updated_at := at\<rparr>"
  have "allocation_ok (update_where (\<lambda>r. in_id r = j_instance_id j) ?u (db_instances d))"
    using assms(4) False
    by (intro allocation_ok_update[OF _ assms(2)]) (auto simp: keeps_allocation_def live_instance_def)
  then have u: "update_instances (\<lambda>r. in_id r = j_instance_id j) ?u d
      = Inr (d\<lparr>db_instances := update_where (\<lambda>r. in_id r = j_instance_id j) ?u (db_instances d)\<rparr>)"
    by (simp add: update_instances_def)
  have rows: "\<exists>q \<in> set (db_instances d). in_id q = in_id r \<and> (in_status r = InstanceDeleted \<longrightarrow> in_status q = InstanceDeleted)"
    if "r \<in> set (update_where (\<lambda>r. in_id r = j_instance_id j) ?u (db_instances d))" for r
    using that lost_lease_status_live[of j m] by (auto simp: set_update_where)
  have closing: "db_events (lost_lease_closing j reason at e) = db_events e"
    "db_sessions (lost_lease_closing j reason at e) = db_sessions e" for reason e
    by (simp_all add: lost_lease_closing_def fail_remediation_attempt_def)
  show ?thesis
    using False u rows assms(2,3) \<open>allocation_ok (update_where _ ?u _)\<close>
    by (auto simp: fail_lease_effects_def Let_def closing session_exists_def)
qed

lemma fail_expired_succeeds:
  assumes "leases_closable now d" "j \<in> set (db_jobs d)" "given_up now j" "operation_exists d (j_operation_id j)"
  shows "\<exists>d'. fail_expired_job_lease j (operation_metadata d (j_operation_id j)) now d = Inr d' \<and> leases_closable now d'"
proof -
  have dist: "distinct (map j_id (db_jobs d))" and j: "closable d j"
    using assms(1-3) by (auto simp: leases_closable_def list_all_iff)
  obtain m where m: "metadata_map (operation_metadata d (j_operation_id j)) = Some m"
    using j by (auto simp: closable_def)
  have one: "count_where (lost_lease j now) (db_jobs d) = 1"
    using assms(2,3) by (intro count_key_one[OF dist]) (auto simp: lost_lease_def given_up_def)
  define m' where "m' = jset ''lease_claims'' (JInt (int (j_attempts j))) (jset ''failure'' (JString (lost_lease_failure j)) m)"
  let ?fail = "\<lambda>p. p\<lparr>op_status := OperationFailed, op_error := lost_lease_reason j,
      op_metadata := Some (Some (JObject m')), op_updated_at := now\<rparr>"
  define d1 where "d1 = d\<lparr>db_jobs := update_where (lost_lease j now) (abort_row now) (db_jobs d),
      db_operations := update_where (\<lambda>p. op_id p = j_operation_id j) ?fail (db_operations d)\<rparr>"
  have ops: "operation_exists d1 = operation_exists d"
    by (simp add: fun_eq_iff operation_exists_def d1_def list_ex_update_where)
  obtain d2 where d2: "fail_lease_effects j m' now d1 = Inr d2" "db_operations d2 = db_operations d1"
    "\<forall>i. session_exists d2 i = session_exists d i" "\<forall>e \<in> set (db_events d2). 0 \<le> ev_sequence e"
    "allocation_ok (db_instances d2)"
    "\<forall>r \<in> set (db_instances d2). \<exists>q \<in> set (db_instances d). in_id q = in_id r
      \<and> (in_status r = InstanceDeleted \<longrightarrow> in_status q = InstanceDeleted)"
    using fail_lease_effects_succeeds[of d1 j m' now] assms(1,4) j ops
    by (auto simp: d1_def leases_closable_def closable_def list_all_iff session_exists_def split: if_splits option.splits)
  have run: "fail_expired_job_lease j (operation_metadata d (j_operation_id j)) now d = Inr d2"
    using one m d2(1) by (simp add: fail_expired_job_lease_def Let_def m'_def d1_def)
  have jobs: "db_jobs d2 = update_where (lost_lease j now) (abort_row now) (db_jobs d)"
    using fail_lease_effects_jobs[OF d2(1)] by (simp add: d1_def)
  have meta: "metadata_map (operation_metadata d2 i) \<noteq> None" if "metadata_map (operation_metadata d i) \<noteq> None" for i
    using that
    by (auto simp: operation_metadata_def find_operation_def d2(2) d1_def find_row_update_where metadata_map_def
        split: option.splits)
  have "closable d2 r" if "r \<in> set (db_jobs d2)" "given_up now r" for r
  proof -
    have r: "r \<in> set (db_jobs d)" using that by (auto simp: jobs set_update_where given_up_def lease_defs abort_row_def)
    then have "closable d r" using that(2) assms(1) by (auto simp: leases_closable_def list_all_iff)
    then show ?thesis
      using meta d2(3,6) by (fastforce simp: closable_def list_all_iff split: option.splits if_splits)
  qed
  moreover have "distinct (map j_id (db_jobs d2))"
    using dist unfolding jobs by (simp add: map_update_where abort_row_def)
  ultimately have "leases_closable now d2" using d2(4,5) by (simp add: leases_closable_def list_all_iff)
  then show ?thesis using run by blast
qed

lemma claim_loop_finds:
  assumes "leases_closable now d" "c \<in> set (db_jobs d)" "claim_candidate now h d c" "\<not> given_up now c"
  shows "\<exists>q d'. claim_loop h lease now token d0 d = Inr (Some q, d')"
  using assms
proof (induction h lease now token d0 d rule: claim_loop.induct)
  case (1 h lease now token d0 d)
  obtain j where j: "next_claim now h d = Some j"
    using next_claim_None[of now h d] "1.prems"(2,3) by (cases "next_claim now h d") auto
  note first = next_claim_Some[OF j]
  have dist: "distinct (map j_id (db_jobs d))" using "1.prems"(1) by (simp add: leases_closable_def)
  show ?case
  proof (cases "given_up now j")
    case True
    obtain d2 where d2: "fail_expired_job_lease j (operation_metadata d (j_operation_id j)) now d = Inr d2"
      "leases_closable now d2"
      using fail_expired_succeeds[OF "1.prems"(1) first(1) True] first(2) by (auto simp: claim_candidate_def)
    have "fails_lease now d d2"
      using d2(1) first(1) True by (auto simp: fails_lease_def given_up_def)
    then have f: "(fails_lease now)\<^sup>*\<^sup>* d d2" by (rule r_into_rtranclp)
    have e: "lease_expired now j \<and> retries_exhausted j" using True by (simp add: given_up_def)
    have "\<exists>q d'. claim_loop h lease now token d0 d2 = Inr (Some q, d')"
      by (rule "1.IH"[OF j e d2(1) d2(2) fails_leases_survive[OF f dist "1.prems"(2,4)]
            fails_leases_candidate[OF f "1.prems"(3)] "1.prems"(4)])
    then show ?thesis using j d2(1) e by (simp add: claim_loop.simps[of h lease now token d0 d])
  next
    case False
    have "count_where (\<lambda>r. j_id r = j_id j \<and> claimable now r) (db_jobs d) = 1"
      by (intro count_key_one[OF dist first(1)]) (use first(2) in \<open>auto simp: claim_candidate_def\<close>)
    then show ?thesis
      using j False
      by (auto simp: claim_loop.simps[of h lease now token d0 d] take_claim_def Let_def given_up_def)
  qed
qed

end
