(* ===== verification/Properties_Claims.thy ===== *)
theory Properties_Claims
  imports Sample_Runs Sample_Chat Lease_Closing
begin

text \<open>
  What the queue hands out and what it refuses: the job a claim returns, the jobs it cannot
  skip, the leases that reconciliation gives up, the answers of a lifecycle request, and the
  refinement of the abstract life of a job by every call of the store.
\<close>

section \<open>Claims\<close>

text \<open>C17. The job that a claim returns is the one of the host that comes first in the order of
  job priority, creation time and id among all that may be claimed and are not given up; it was
  pending or had lost its lease, no other lease of its instance is live unless it is a chat
  turn, and it now carries the new token, the new expiry and one more attempt.\<close>

theorem claim_hands_out_first:
  assumes "claim_job h lease now token d = Inr (Some q, d')" and "distinct (map j_id (db_jobs d))"
  shows "\<exists>j \<in> set (db_jobs d). j_host_id j = h \<and> claimable now j
     \<and> (j_type j \<noteq> JobChatSend \<longrightarrow> \<not> other_lease_live now j (db_jobs d))
     \<and> j_id q = j_id j \<and> j_status q = JobLeased \<and> j_lease_token q = token
     \<and> j_lease_expires_at q = Some (now + lease) \<and> j_attempts q = j_attempts j + 1
     \<and> (\<exists>r \<in> set (db_jobs d'). q = job.truncate r)
     \<and> (\<forall>c \<in> set (db_jobs d). claim_candidate now h d c \<longrightarrow>
          \<not> (lease_expired now c \<and> retries_exhausted c) \<longrightarrow> job_order j \<le> job_order c)"
proof (rule claim_job_found[OF assms(1)], goal_cases)
  case (1 j)
  have "j_id q = j_id j" "j_status q = JobLeased" "j_lease_token q = token"
    "j_lease_expires_at q = Some (now + lease)" "j_attempts q = j_attempts j + 1"
    using 1(6) by (simp_all add: claim_row_def job.defs)
  then show ?case using 1 assms(2) unfolding given_up_def by blast
qed

theorem claim_hands_out_first_witness:
  "\<exists>q d'. claim_job ''h1'' 100 10 ''token'' queued_fleet = Inr (Some q, d')
     \<and> j_status q = JobLeased \<and> j_lease_expires_at q = Some 110"
proof -
  have "(case claim_job ''h1'' 100 10 ''token'' queued_fleet of Inr (Some q, _) \<Rightarrow> True | _ \<Rightarrow> False)"
    by code_simp
  then obtain q d' where q: "claim_job ''h1'' 100 10 ''token'' queued_fleet = Inr (Some q, d')"
    by (auto split: sum.splits option.splits)
  have "distinct (map j_id (db_jobs queued_fleet))" by code_simp
  then show ?thesis using claim_hands_out_first[OF q] q by auto
qed

text \<open>
  Work that a Host Agent may take, read off the rows: the job of this host waits or has lost a lease that
  was not its last, and nothing else is at work where it would run. A chat turn also waits for the
  turns of its session that came before it, and is never repeated.
\<close>

definition held_now :: "timestamp \<Rightarrow> job_row \<Rightarrow> bool" where
  "held_now now e \<longleftrightarrow> j_status e \<in> {JobLeased, JobRunning}
     \<and> (case j_lease_expires_at e of None \<Rightarrow> False | Some t \<Rightarrow> now \<le> t)"

definition free_to_claim :: "timestamp \<Rightarrow> string \<Rightarrow> db \<Rightarrow> job_row \<Rightarrow> bool" where
  "free_to_claim now h d c \<longleftrightarrow> c \<in> set (db_jobs d) \<and> j_host_id c = h
     \<and> (\<exists>p \<in> set (db_operations d). op_id p = j_operation_id c)
     \<and> (j_status c = JobPending \<or> j_status c \<in> {JobLeased, JobRunning}
          \<and> (case j_lease_expires_at c of None \<Rightarrow> False | Some t \<Rightarrow> t < now)
          \<and> j_type c \<noteq> JobChatSend \<and> j_attempts c < 3)
     \<and> (\<forall>e \<in> set (db_jobs d). j_id e \<noteq> j_id c \<longrightarrow>
          (if j_type c = JobChatSend
           then \<not> (j_type e = JobChatSend \<and> same_session d e c
                  \<and> (held_now now e \<or> j_status e = JobPending \<and> created_before e c))
           else \<not> (j_host_id e = j_host_id c \<and> j_instance_id e = j_instance_id c \<and> held_now now e)))"

lemma free_to_claim_candidate:
  assumes "free_to_claim now h d c"
  shows "c \<in> set (db_jobs d)" "claim_candidate now h d c" "\<not> given_up now c"
proof -
  have held: "lease_live now e = held_now now e" for e
    by (auto simp: lease_defs held_now_def split: option.splits)
  show "c \<in> set (db_jobs d)" using assms by (simp add: free_to_claim_def)
  show "\<not> given_up now c"
    using assms by (auto simp: free_to_claim_def given_up_def lease_defs retries_exhausted_def job_lease_max_claims_def)
  have "claimable now c" "operation_exists d (j_operation_id c)" "j_host_id c = h"
    using assms by (auto simp: free_to_claim_def lease_defs operation_exists_def list_ex_iff split: option.splits)
  then show "claim_candidate now h d c"
    using assms
    by (auto simp: free_to_claim_def claim_candidate_def chat_turn_blocked_def other_lease_live_def list_ex_iff held
        split: if_splits)
qed

text \<open>C18. Work is not withheld. When some job of the host is free to claim, a claim never answers that there is
  none, and when the records of the lost leases are readable it returns a job: it goes on past every
  lease that it has to give up.\<close>

theorem claim_never_idles:
  assumes "free_to_claim now h d c"
  shows "(distinct (map j_id (db_jobs d)) \<longrightarrow> claim_job h lease now token d \<noteq> Inr (None, d'))
     \<and> (leases_closable now d \<longrightarrow> (\<exists>q d'. claim_job h lease now token d = Inr (Some q, d')))"
  using claim_job_given_up[of h lease now token d d' c] claim_loop_finds[of now d c h lease token d]
    free_to_claim_candidate[OF assms]
  by (auto simp: claim_job_def)

text \<open>A chat turn whose lease ran out, before another one of the session.\<close>

definition late_chat_fleet :: db where
  "late_chat_fleet = claimed (claim_job ''h1'' 5 10 ''t1'' chat_fleet) chat_fleet"

theorem claim_never_idles_witness:
  "\<exists>q d'. claim_job ''h1'' 100 100 ''token'' late_chat_fleet = Inr (Some q, d')
     \<and> list_ex (given_up 100) (db_jobs late_chat_fleet)"
proof -
  let ?c = "db_jobs late_chat_fleet ! 1"
  have "?c \<in> set (db_jobs late_chat_fleet)" "j_host_id ?c = ''h1''"
    "list_ex (\<lambda>p. op_id p = j_operation_id ?c) (db_operations late_chat_fleet)" "j_status ?c = JobPending"
    "j_type ?c = JobChatSend"
    "list_all (\<lambda>e. j_id e \<noteq> j_id ?c \<longrightarrow> \<not> (j_type e = JobChatSend \<and> same_session late_chat_fleet e ?c
       \<and> (held_now 100 e \<or> j_status e = JobPending \<and> created_before e ?c))) (db_jobs late_chat_fleet)"
    by code_simp+
  then have "free_to_claim 100 ''h1'' late_chat_fleet ?c"
    by (auto simp: free_to_claim_def list_ex_iff list_all_iff)
  moreover have "leases_closable 100 late_chat_fleet" "list_ex (given_up 100) (db_jobs late_chat_fleet)"
    by code_simp+
  ultimately show ?thesis using claim_never_idles by blast
qed

section \<open>Lost leases\<close>

text \<open>A job whose lease ran out and was its last: its third, or the first of a chat turn.\<close>

definition past_recovery :: "timestamp \<Rightarrow> db \<Rightarrow> job_row \<Rightarrow> bool" where
  "past_recovery now d j \<longleftrightarrow> j_status j \<in> {JobLeased, JobRunning}
     \<and> (case j_lease_expires_at j of None \<Rightarrow> False | Some t \<Rightarrow> t < now)
     \<and> (3 \<le> j_attempts j \<or> j_type j = JobChatSend \<and> 1 \<le> j_attempts j)
     \<and> list_ex (\<lambda>p. op_id p = j_operation_id j) (db_operations d)"

lemma past_recovery_unrecoverable:
  "past_recovery now d j \<longleftrightarrow> unrecoverable now j \<and> operation_exists d (j_operation_id j)"
  by (auto simp: past_recovery_def unrecoverable_def lease_defs leased_status_def job_lease_max_claims_def
      operation_exists_def split: option.splits)

text \<open>C19. Reconciliation is complete and exact: the jobs whose lease ran out for the last time fail and lose
  their lease, every other row of the job table stays the row it was, their operations fail and no
  other operation changes, the number of these jobs is returned, and a second reconciliation at the
  same time finds nothing.\<close>

theorem reconciliation_complete:
  assumes "reconcile_expired_jobs now d = Inr (n, d')" and "distinct (map j_id (db_jobs d))"
  shows "db_jobs d' = map (\<lambda>r. if past_recovery now d r then r\<lparr>j_status := JobFailed, j_lease_token := '''',
         j_lease_expires_at := None, j_updated_at := now\<rparr> else r) (db_jobs d)
     \<and> n = length (filter (past_recovery now d) (db_jobs d))
     \<and> (\<forall>p \<in> set (db_operations d'). if \<exists>r \<in> set (db_jobs d). past_recovery now d r \<and> op_id p = j_operation_id r
          then op_status p = OperationFailed else p \<in> set (db_operations d))
     \<and> reconcile_expired_jobs now d' = Inr (0, d')"
proof -
  let ?js = "map (\<lambda>j. (j, operation_metadata d (j_operation_id j)))
      (sort_key (\<lambda>j. Order_Key 0 (lease_time j) (j_id j)) (filter (past_recovery now d) (db_jobs d)))"
  have "past_recovery now d = (\<lambda>j. unrecoverable now j \<and> operation_exists d (j_operation_id j))"
    by (simp add: fun_eq_iff past_recovery_unrecoverable)
  then have f: "fail_all ?js now d = Inr d'" and n: "n = length (filter (past_recovery now d) (db_jobs d))"
    using assms(1) by (auto simp: reconcile_expired_jobs_def Let_def)
  have js: "fst ` set ?js = {r \<in> set (db_jobs d). past_recovery now d r}" by (auto simp: image_iff)
  have "(\<exists>j \<in> fst ` set ?js. lost_lease j now r) \<longleftrightarrow> past_recovery now d r" if r: "r \<in> set (db_jobs d)" for r
  proof
    assume "\<exists>j \<in> fst ` set ?js. lost_lease j now r"
    then obtain j where j: "j \<in> set (db_jobs d)" "past_recovery now d j" "j_id r = j_id j"
      unfolding js lost_lease_def by blast
    then show "past_recovery now d r" using unique_row[OF assms(2) r j(1,3)] by simp
  next
    assume p: "past_recovery now d r"
    then have "lost_lease r now r"
      by (simp add: lost_lease_def past_recovery_unrecoverable unrecoverable_def)
    then show "\<exists>j \<in> fst ` set ?js. lost_lease j now r" unfolding js using p r by blast
  qed
  then have "db_jobs d' = map (\<lambda>r. if past_recovery now d r then abort_row now r else r) (db_jobs d)"
    unfolding fail_all_jobs[OF f] by (intro map_cong) simp_all
  moreover have "if \<exists>r \<in> set (db_jobs d). past_recovery now d r \<and> op_id p = j_operation_id r
      then op_status p = OperationFailed else p \<in> set (db_operations d)" if "p \<in> set (db_operations d')" for p
    using fail_all_failed_operations[OF f, unfolded js] that by auto
  moreover have "filter (\<lambda>j. unrecoverable now j \<and> operation_exists d' (j_operation_id j)) (db_jobs d') = []"
    using reconciled_rows[OF assms(1)] by (auto simp: filter_empty_conv)
  then have "reconcile_expired_jobs now d' = Inr (0, d')" by (simp add: reconcile_expired_jobs_def Let_def)
  ultimately show ?thesis using n by (simp add: abort_row_def)
qed

theorem reconciliation_complete_witness:
  "\<exists>d'. reconcile_expired_jobs 100 late_chat_fleet = Inr (1, d') \<and> map j_status (db_jobs d') = [JobFailed, JobPending]
     \<and> reconcile_expired_jobs 100 d' = Inr (0, d')"
proof -
  have "(case reconcile_expired_jobs 100 late_chat_fleet of Inr (n, _) \<Rightarrow> n = 1 | _ \<Rightarrow> False)"
    by code_simp
  then obtain d' where d': "reconcile_expired_jobs 100 late_chat_fleet = Inr (1, d')"
    by (auto split: sum.splits prod.splits)
  have d: "distinct (map j_id (db_jobs late_chat_fleet))" "length (db_jobs late_chat_fleet) = 2"
    "past_recovery 100 late_chat_fleet (db_jobs late_chat_fleet ! 0)"
    "\<not> past_recovery 100 late_chat_fleet (db_jobs late_chat_fleet ! 1)"
    "j_status (db_jobs late_chat_fleet ! 1) = JobPending" by code_simp+
  have jobs: "db_jobs d' = map (\<lambda>r. if past_recovery 100 late_chat_fleet r then r\<lparr>j_status := JobFailed,
      j_lease_token := '''', j_lease_expires_at := None, j_updated_at := 100\<rparr> else r) (db_jobs late_chat_fleet)"
    and again: "reconcile_expired_jobs 100 d' = Inr (0, d')"
    using reconciliation_complete[OF d' d(1)] by blast+
  obtain j k where jk: "db_jobs late_chat_fleet = [j, k]"
    using d(2) by (metis (no_types) Suc_length_conv length_0_conv numeral_2_eq_2)
  have p: "past_recovery 100 late_chat_fleet j" "\<not> past_recovery 100 late_chat_fleet k" "j_status k = JobPending"
    using d(3-5) unfolding jk by simp_all
  have "map j_status (db_jobs d') = [JobFailed, JobPending]"
    unfolding jobs jk list.map if_P[OF p(1)] if_not_P[OF p(2)] p(3) by simp
  then show ?thesis by (intro exI[of _ d'] conjI d' again)
qed

section \<open>Refinement\<close>

text \<open>C20. The store refines the abstract life of a job: along every run, whatever call succeeds,
  the job table moves by steps of \<open>table_step\<close> only, that is by admitting a pending job under
  the limits, by moving rows along the lease state machine \<open>job_step\<close>, or by removing rows.\<close>

theorem store_refines_job_lifecycle:
  assumes "reachable now d" and "now \<le> t" and "apply_call c t d = Inr d'"
  shows "table_steps (issued_tokens c) t (db_jobs d) (db_jobs d')"
  using call.steps[OF assms(3) fleet_ok_later[OF reachable_ok[OF assms(1)] assms(2)]] .

theorem store_refines_job_lifecycle_witness:
  "\<exists>d'. apply_call (Agent (ClaimJob ''h1'' 100 ''t3'')) 400 work_fleet = Inr d'
     \<and> table_steps {''t3''} 400 (db_jobs work_fleet) (db_jobs d')"
proof -
  let ?r = "apply_call (Agent (ClaimJob ''h1'' 100 ''t3'')) 400 work_fleet"
  have r: "?r = Inr (after ?r work_fleet)" by code_simp
  then show ?thesis using store_refines_job_lifecycle[OF work_reachable _ r] by auto
qed

section \<open>Refusals\<close>

lemma move_instance_outcome:
  assumes "allocation_ok (db_instances d)" "distinct (map in_id (db_instances d))"
    and "r \<in> set (db_instances d)" "in_id r = i" "expected \<noteq> InstanceDeleted"
  shows "move_instance i expected status at d = (if in_status r = expected
     then Inr (d\<lparr>db_instances := update_where (\<lambda>r. in_id r = i \<and> in_status r = expected)
         (\<lambda>r. r\<lparr>in_status := status, in_last_error := '''', in_updated_at := at\<rparr>) (db_instances d)\<rparr>)
     else Inl ErrStateChanged)"
proof -
  let ?P = "\<lambda>r. in_id r = i \<and> in_status r = expected"
  have "allocation_ok (update_where ?P
      (\<lambda>r. r\<lparr>in_status := status, in_last_error := '''', in_updated_at := at\<rparr>) (db_instances d))"
    by (rule allocation_ok_update[OF _ assms(1)])
      (use assms(5) in \<open>auto simp: keeps_allocation_def live_instance_def\<close>)
  moreover have "count_where ?P (db_instances d) = 1" if "in_status r = expected"
    by (intro count_key_one[where key = in_id and r = r and k = i]) (use assms(2-4) that in auto)
  moreover have "count_where ?P (db_instances d) \<noteq> 1" if "in_status r \<noteq> expected"
  proof
    assume "count_where ?P (db_instances d) = 1"
    then obtain q where "q \<in> set (db_instances d)" "?P q"
      by (metis (mono_tags, lifting) count_where_zero zero_neq_one)
    then show False using unique_row[OF assms(2,3)] assms(4) that by metis
  qed
  ultimately show ?thesis
    by (auto simp: move_instance_def update_instances_def Let_def)
qed

text \<open>C21. A lifecycle request is answered in a fixed order of its guards: an instance that left the
  expected status gives \<open>ErrStateChanged\<close>, one with work in flight \<open>ErrInstanceBusy\<close>, a full
  queue of its host \<open>ErrQueueCapacity\<close>; and when none of these applies, and the ids are fresh
  and known, the request is admitted with exactly one new pending job.\<close>

theorem queue_action_answers:
  assumes "reachable now d" and "r \<in> set (db_instances d)" "in_id r = op_instance_id op"
    and "expected \<noteq> InstanceDeleted"
  shows "(in_status r \<noteq> expected \<longrightarrow> queue_action expected status op j d = Inl ErrStateChanged)
     \<and> (in_status r = expected \<longrightarrow> active_instance_jobs (in_id r) (db_jobs d) \<noteq> 0 \<longrightarrow>
          queue_action expected status op j d = Inl ErrInstanceBusy)
     \<and> (in_status r = expected \<longrightarrow> active_instance_jobs (in_id r) (db_jobs d) = 0 \<longrightarrow>
          100 \<le> host_active (j_host_id j) (db_jobs d) \<longrightarrow>
          queue_action expected status op j d = Inl ErrQueueCapacity)
     \<and> (in_status r = expected \<longrightarrow> active_instance_jobs (in_id r) (db_jobs d) = 0 \<longrightarrow>
          host_active (j_host_id j) (db_jobs d) < 100 \<longrightarrow> \<not> operation_exists d (op_id op) \<longrightarrow>
          j_id j \<notin> j_id ` set (db_jobs d) \<longrightarrow> j_operation_id j = op_id op \<longrightarrow>
          j_instance_id j = in_id r \<longrightarrow> host_exists d (j_host_id j) \<longrightarrow>
          (\<exists>d'. queue_action expected status op j d = Inr d'
             \<and> db_jobs d' = db_jobs d @ [new_job_row j]))"
proof -
  have ok: "allocation_ok (db_instances d)" "distinct (map in_id (db_instances d))"
    using reachable_ok[OF assms(1)] by (simp_all add: fleet_ok_def)
  have r: "list_ex (\<lambda>q. in_id q = op_instance_id op) (db_instances d)"
    using assms(2,3) by (auto simp: list_ex_iff)
  then have r0: "op_instance_id op = [] \<longrightarrow> list_ex (\<lambda>q. in_id q = []) (db_instances d)" by metis
  note run = queue_action_def move_instance_outcome[OF ok assms(2,3,4)] require_idle_def assms(3)
    insert_operation_and_job_def job_queue_max_per_host_def
  show ?thesis
  proof (intro conjI impI, goal_cases)
    case 4
    have "\<not> list_ex (\<lambda>q. j_id q = j_id j) (db_jobs d)" using 4(5) unfolding list_ex_iff by (metis image_eqI)
    then show ?case
      using 4 r r0
      by (simp add: run insert_operation_def insert_job_def job_operation_row_def instance_exists_def
          list_ex_update_where operation_exists_def host_exists_def)
  qed (simp_all add: run)
qed

theorem queue_action_answers_witness:
  "queue_action InstanceStopped InstanceRestarting restart_operation restart_job work_fleet = Inl ErrStateChanged
   \<and> (\<exists>r \<in> set (db_instances work_fleet). in_status r \<noteq> InstanceStopped)"
proof -
  let ?r = "hd (db_instances work_fleet)"
  have "?r \<in> set (db_instances work_fleet)" "in_id ?r = op_instance_id restart_operation"
    "in_status ?r \<noteq> InstanceStopped" by code_simp+
  then show ?thesis using queue_action_answers[OF work_reachable] by blast
qed

end
