(* ===== verification/Repair_Runs.thy ===== *)
theory Repair_Runs
  imports Store_Observations
begin

text \<open>
  Runs of the automatic runtime remediation: the reports, the queued repairs, their completions
  and lost leases in any order, as transactions of their own. A repair may be queued from any
  decision that an earlier report has produced.
\<close>

section \<open>The other operations keep the counters\<close>

lemma complete_job_remediations:
  assumes "complete_job_with_hash hash r reveal h i t now d = Inr d'" "remediations_ok d"
  shows "remediations_ok d'"
  using assms(1)
proof (cases rule: complete_job_cases)
  case (Finished j p)
  let ?d = "d\<lparr>db_jobs := update_where (held_in JobRunning h i t now)
     (finish_row now (job_result_status r) hash) (db_jobs d)\<rparr>"
  have "remediations_ok ?d" using assms(2) by (simp add: remediations_ok_def)
  then have "remediations_ok (complete_remediation j r now ?d)" by (rule complete_remediation_ok)
  moreover have "db_remediation d' = db_remediation (complete_remediation j r now ?d)"
    by (rule apply_effects_frame(2)[OF Finished(8)])
  ultimately show ?thesis by (simp add: remediations_ok_def)
qed (use assms(2) in simp)

lemma fail_expired_remediations:
  assumes "fail_expired_job_lease j metadata at d = Inr d'" "remediations_ok d"
  shows "remediations_ok d'"
proof -
  obtain m jobs ops where f: "fail_lease_effects j m at (d\<lparr>db_jobs := jobs, db_operations := ops\<rparr>) = Inr d'"
    using assms(1) by (auto simp: fail_expired_job_lease_def Let_def split: option.splits)
  define e where "e = d\<lparr>db_jobs := jobs, db_operations := ops\<rparr>"
  have e: "remediations_ok e" "fail_lease_effects j m at e = Inr d'"
    using f assms(2) by (simp_all add: e_def remediations_ok_def)
  obtain e1 where e1: "db_remediation e1 = db_remediation e"
      "d' = lost_lease_closing j (lost_lease_reason j) at e1"
    using e(2)
    by (auto simp: fail_lease_effects_def Let_def split: if_splits
        dest: update_instances_frame(3) fail_chat_lease_frame(5))
  have "remediations_ok e1" using e(1) e1(1) by (simp add: remediations_ok_def)
  then show ?thesis
    unfolding e1(2) lost_lease_closing_def
    using fail_attempt_ok by (auto simp: remediations_ok_def)
qed

lemma fails_leases_remediations:
  "(fails_lease now)\<^sup>*\<^sup>* d d' \<Longrightarrow> remediations_ok d \<Longrightarrow> remediations_ok d'"
  by (induction rule: rtranclp_induct) (auto simp: fails_lease_def intro: fail_expired_remediations)

lemma claim_job_remediations:
  assumes "claim_job h lease now token d = Inr (q, d')" "remediations_ok d"
  shows "remediations_ok d'"
proof -
  obtain d1 where d1: "(fails_lease now)\<^sup>*\<^sup>* d d1"
    and c: "d' = d1 \<or> (\<exists>j. take_claim lease now token j d d1 = (q, d'))"
    using claim_loop_cases[OF assms(1)[unfolded claim_job_def]] by blast
  have "db_remediation d' = db_remediation d1 \<or> d' = d"
    using c by (auto simp: take_claim_def Let_def split: if_splits)
  then show ?thesis
    using fails_leases_remediations[OF d1 assms(2)] assms(2) by (auto simp: remediations_ok_def)
qed

lemma fail_all_remediations: "fail_all js at d = Inr d' \<Longrightarrow> remediations_ok d \<Longrightarrow> remediations_ok d'"
  by (induction js at d rule: fail_all.induct) (auto dest: fail_expired_remediations)

lemma reconcile_remediations:
  assumes "reconcile_expired_jobs now d = Inr (n, d')" "remediations_ok d"
  shows "remediations_ok d'"
  using assms by (auto simp: reconcile_expired_jobs_def Let_def dest: fail_all_remediations)

section \<open>Decisions\<close>

text \<open>A decision to repair is made for a running instance with a drift that is due.\<close>

lemma track_health_queue:
  assumes "track_runtime_health_observation b at w d = (dc, d')" "rd_queue dc"
  obtains q r s c where "tracked b d = Some (q, r)" "in_status r = InstanceRunning"
    "runtime_health_check_status b = Some CheckDrift" "runtime_repair_prerequisites_ok b"
    "s = (case current_remediation d (io_instance_id b) (remediation_revision r) of
            Some s \<Rightarrow> s | None \<Rightarrow> fresh_remediation (io_instance_id b) (remediation_revision r) w)"
    "c = count_drift (io_received_at q) w s" "attempt_due at c"
    "rd_state dc = Some (next_attempt at c)"
    "d' = d\<lparr>db_remediation := upsert_by rm_instance_id
       (c\<lparr>rm_status := RemReady, rm_last_error := '''', rm_updated_at := at\<rparr>) (db_remediation d)\<rparr>"
  using assms(1)
proof (cases rule: track_health_cases)
  case (counted q r s)
  have due: "attempt_due at (count_drift (io_received_at q) w s)"
    using counted(6) assms(2) by simp
  show thesis
    by (rule that[OF counted(1-5) refl due]) (use counted(6,7) due in \<open>simp_all add: decide_remediation_def\<close>)
qed (use assms(2) in simp_all)

lemma decision_plan_ok:
  assumes "track_runtime_health_observation b at w d = (dc, d')" "rd_queue dc" "remediations_ok d"
  shows "\<exists>p. rd_state dc = Some p \<and> plan_ok p"
proof (rule track_health_queue[OF assms(1,2)])
  fix q r s c
  assume s: "s = (case current_remediation d (io_instance_id b) (remediation_revision r) of
            Some s \<Rightarrow> s | None \<Rightarrow> fresh_remediation (io_instance_id b) (remediation_revision r) w)"
    and c: "c = count_drift (io_received_at q) w s" "attempt_due at c" "rd_state dc = Some (next_attempt at c)"
  have "remediation_ok s" using s assms(3) by (rule loaded_remediation_ok(1)[rotated])
  then have "remediation_ok c" by (simp add: c(1) remediation_ok_def)
  then show ?thesis using next_attempt_ok(1)[OF _ c(2)] c(3) by blast
qed

section \<open>Runs\<close>

text \<open>\<open>plans\<close> are the decisions taken so far.\<close>

inductive repair_run :: "db \<Rightarrow> runtime_remediation set \<Rightarrow> bool" where
  Start: "db_remediation d = [] \<Longrightarrow> repair_run d {}"
| Report: "repair_run d plans \<Longrightarrow> track_runtime_health_observation b at w d = (dc, d') \<Longrightarrow>
    repair_run d' (plans \<union> (if rd_queue dc then set_option (rd_state dc) else {}))"
| Queue: "repair_run d plans \<Longrightarrow> p \<in> plans \<Longrightarrow>
    queue_runtime_repair expected op j p d = Inr d' \<Longrightarrow> repair_run d' plans"
| Queue_Failed: "repair_run d plans \<Longrightarrow>
    repair_run (record_runtime_remediation_queue_failure i detail at d) plans"
| Cancel: "repair_run d plans \<Longrightarrow> cancel_runtime_remediation i at d = Inr d' \<Longrightarrow> repair_run d' plans"
| Complete: "repair_run d plans \<Longrightarrow> complete_job_with_hash hash r reveal h i t now d = Inr d' \<Longrightarrow>
    repair_run d' plans"
| Claim: "repair_run d plans \<Longrightarrow> claim_job h lease now token d = Inr (q, d') \<Longrightarrow> repair_run d' plans"
| Reconcile: "repair_run d plans \<Longrightarrow> reconcile_expired_jobs now d = Inr (n, d') \<Longrightarrow> repair_run d' plans"
| Other: "repair_run d plans \<Longrightarrow> set (db_remediation d') \<subseteq> set (db_remediation d) \<Longrightarrow> repair_run d' plans"

lemma repair_run_ok: "repair_run d plans \<Longrightarrow> remediations_ok d \<and> (\<forall>p \<in> plans. plan_ok p)"
proof (induction rule: repair_run.induct)
  case (Report d plans b at w dc d')
  then show ?case using track_health_ok[OF Report(2)] decision_plan_ok[OF Report(2)] by auto
next
  case (Queue d plans p expected op j d')
  then show ?case using queue_repair_ok[OF Queue(3)] by blast
next
  case (Start d)
  then show ?case by (simp add: remediations_ok_def)
next
  case (Other d plans d')
  then show ?case by (auto simp: remediations_ok_def)
qed (blast intro: queue_failure_ok
    dest: cancel_ok complete_job_remediations claim_job_remediations reconcile_remediations)+

end
