(* ===== verification/Properties_Observations.thy ===== *)
theory Properties_Observations
  imports Repair_Runs Sample_Fleet
begin

text \<open>
  Properties of the reports of the Host Agents and of the two automatic repairs they drive: what
  a report may replace, what a repair needs, and how often one is tried.
\<close>

section \<open>A drift on the sample fleet\<close>

definition healthy_check :: "string \<Rightarrow> observation_check" where
  "healthy_check n = \<lparr>oc_name = n, oc_status = CheckOK, oc_detail = ''ok''\<rparr>"

definition drift_report :: "timestamp \<Rightarrow> instance_observation" where
  "drift_report t = \<lparr>io_instance_id = ''i1'', io_host_id = ''h1'',
     io_target_generation = observation_generation 0, io_refresh_request_id = '''',
     io_hermes_version = '''', io_hermes_source = '''', io_model_catalog = [],
     io_recommended_model = '''', io_provider_catalogs = [], io_status = ''DEGRADED'',
     io_summary = ''runtime is down'',
     io_checks = map healthy_check [''managed_path'', ''manifest'', ''environment'', ''workspace'',
         ''docker_daemon'', ''data_volume'']
       @ [\<lparr>oc_name = ''runtime'', oc_status = CheckDrift, oc_detail = ''exited''\<rparr>,
          \<lparr>oc_name = ''runtime_configuration'', oc_status = CheckDrift, oc_detail = ''model''\<rparr>],
     io_observed_at = t, io_received_at = 0\<rparr>"

definition reported :: "timestamp \<Rightarrow> db" where
  "reported t = after (record_observations ''h1'' [drift_report t] t idle_fleet) idle_fleet"

lemma reported_Inr: "record_observations ''h1'' [drift_report t] t idle_fleet = Inr (reported t)"
  by (simp add: reported_def after_def record_observation_def idle_fleet_def empty_db_def
      find_instance_def find_row_def sample_instance_def sample_host_def drift_report_def
      is_observable_instance_status_def)

lemma reported_rows: "db_observations (reported t) = [(drift_report t)\<lparr>io_received_at := t\<rparr>]"
  "db_instances (reported t) = [sample_instance]" "db_remediation (reported t) = []"
  by (simp_all add: reported_def after_def record_observation_def idle_fleet_def empty_db_def
      find_instance_def find_row_def sample_instance_def sample_host_def drift_report_def
      is_observable_instance_status_def store_observation_def upsert_by_def)

lemma tracked_reported: "tracked (drift_report t) (reported t)
    = Some ((drift_report t)\<lparr>io_received_at := t\<rparr>, sample_instance)"
  by (simp add: tracked_def reported_rows find_row_def find_instance_def)
    (simp add: drift_report_def sample_instance_def)

lemma drift_report_status:
  "runtime_health_check_status (drift_report t) = Some CheckDrift"
  "runtime_configuration_check_status (drift_report t) = Some CheckDrift"
  "runtime_repair_prerequisites_ok (drift_report t)" "io_instance_id (drift_report t) = ''i1''"
  by (simp_all add: runtime_health_check_status_def runtime_repair_prerequisites_ok_def
      runtime_configuration_check_status_def drift_report_def healthy_check_def)

section \<open>Remediation\<close>

text \<open>C22. The automatic repair of a runtime is bounded: whatever reports, queued repairs, completions,
  lost leases and cancellations happen, in any order, every remediation is in one of three phases
  with at most three attempts each, its total counts exactly the attempts of all phases, and
  neither a row nor a decision goes beyond nine attempts.\<close>

theorem repairs_bounded:
  assumes "repair_run d plans" and "r \<in> set (db_remediation d)"
  shows "rm_phase r \<in> {1..3} \<and> rm_attempt_in_phase r \<le> 3
     \<and> rm_total_attempts r = 3 * (rm_phase r - 1) + rm_attempt_in_phase r
     \<and> rm_total_attempts r \<le> 9 \<and> (\<forall>p \<in> plans. rr_total_attempts p \<le> 9)"
proof -
  have "remediation_ok r" "\<forall>p \<in> plans. plan_ok p"
    using repair_run_ok[OF assms(1)] assms(2) by (auto simp: remediations_ok_def)
  then show ?thesis by (auto simp: remediation_ok_def plan_ok_def remediation_limits)
qed

text \<open>C23. A repair is decided only on evidence: the report that is the stored one shows a drift of the
  runtime or an endpoint while the six prerequisites hold, the instance is to run, it is at least
  the second drift in a row of the same desired state, the remediation is neither canceled nor
  exhausted, its next attempt is due, and the decision is the next of at most nine attempts.\<close>

theorem repair_needs_evidence:
  assumes "track_runtime_health_observation b at w d = (dc, d')" and "rd_queue dc"
    and "remediations_ok d"
  shows "\<exists>q r c p. tracked b d = Some (q, r) \<and> in_status r = InstanceRunning
     \<and> runtime_health_check_status b = Some CheckDrift \<and> runtime_repair_prerequisites_ok b
     \<and> rm_desired_revision c = remediation_revision r
     \<and> rm_consecutive_drift c \<ge> 2 \<and> rm_status c \<noteq> RemCanceled \<and> rm_status c \<noteq> RemExhausted
     \<and> (\<forall>n. rm_next_attempt_at c = Some n \<longrightarrow> n \<le> at)
     \<and> rd_state dc = Some p \<and> rr_total_attempts p = rm_total_attempts c + 1 \<and> rr_total_attempts p \<le> 9
     \<and> find_row rm_instance_id (io_instance_id b) (db_remediation d')
         = Some (c\<lparr>rm_status := RemReady, rm_last_error := '''', rm_updated_at := at\<rparr>)"
proof (rule track_health_queue[OF assms(1,2)])
  fix q r s c
  assume h: "tracked b d = Some (q, r)" "in_status r = InstanceRunning"
    "runtime_health_check_status b = Some CheckDrift" "runtime_repair_prerequisites_ok b"
    and s: "s = (case current_remediation d (io_instance_id b) (remediation_revision r) of
            Some s \<Rightarrow> s | None \<Rightarrow> fresh_remediation (io_instance_id b) (remediation_revision r) w)"
    and c: "c = count_drift (io_received_at q) w s" "attempt_due at c" "rd_state dc = Some (next_attempt at c)"
    and d': "d' = d\<lparr>db_remediation := upsert_by rm_instance_id
       (c\<lparr>rm_status := RemReady, rm_last_error := '''', rm_updated_at := at\<rparr>) (db_remediation d)\<rparr>"
  note l = loaded_remediation_ok[OF assms(3) s]
  have ok: "remediation_ok c" using l(1) by (simp add: c(1) remediation_ok_def)
  have n: "rr_total_attempts (next_attempt at c) = rm_total_attempts c + 1"
    "rr_total_attempts (next_attempt at c) \<le> 9"
    using next_attempt_ok(1,2)[OF ok c(2)] by (auto simp: plan_ok_def remediation_limits)
  have "rm_desired_revision c = remediation_revision r" "rm_instance_id c = io_instance_id b"
    using l(2,3) by (simp_all add: c(1))
  moreover have "\<forall>n. rm_next_attempt_at c = Some n \<longrightarrow> n \<le> at" "rm_consecutive_drift c \<ge> 2"
    "rm_status c \<noteq> RemCanceled" "rm_status c \<noteq> RemExhausted"
    using c(2) by (auto simp: attempt_due_def runtime_remediation_drift_threshold_def)
  ultimately show ?thesis using h c(3) n by (auto simp: d' intro!: exI[of _ c])
qed

text \<open>A remediation that was canceled or is exhausted stays so: while the desired state is the
  same, no report makes a decision to repair, and the row keeps its status until a report without
  drift, or a change of the instance, clears it.\<close>

theorem stopped_remediation_stays:
  assumes "track_runtime_health_observation b at w d = (dc, d')" and "tracked b d = Some (q, r)"
    and "current_remediation d (io_instance_id b) (remediation_revision r) = Some s"
    and "rm_status s \<in> {RemCanceled, RemExhausted}"
  shows "\<not> rd_queue dc
     \<and> (case find_row rm_instance_id (io_instance_id b) (db_remediation d') of
          None \<Rightarrow> \<not> (runtime_health_check_status b = Some CheckDrift
            \<and> runtime_repair_prerequisites_ok b \<and> in_status r = InstanceRunning)
        | Some s' \<Rightarrow> rm_status s' = rm_status s)"
proof -
  let ?i = "io_instance_id b"
  have found: "find_row rm_instance_id ?i (db_remediation d) = Some s"
    and rev: "rm_instance_id s = ?i"
    using assms(3) by (auto simp: current_remediation_Some dest: find_row_Some)
  let ?c = "\<lambda>t. count_drift t w s"
  have stays: "rm_status (?c t) = rm_status s" "\<not> attempt_due at (?c t)" for t
    using assms(4) by (auto simp: count_drift_def attempt_due_def Let_def)
  then have decided: "rm_status (snd (decide_remediation at (?c t))) = rm_status s" for t
    by (simp add: decide_remediation_def Let_def)
  have gone: "find_row rm_instance_id ?i (db_remediation (clear_remediation ?i d)) = None"
    by (auto simp: clear_remediation_def find_row_None delete_where_def)
  show ?thesis
  proof (cases "runtime_health_check_status b = Some CheckDrift \<and> runtime_repair_prerequisites_ok b
      \<and> in_status r = InstanceRunning")
    case True
    then have "(dc, d') = (if \<not> io_received_at q > rm_last_observed_at s
        then (no_decision\<lparr>rd_state := Some (remediation_from_columns s)\<rparr>, d)
        else (fst (decide_remediation at (?c (io_received_at q))),
          d\<lparr>db_remediation := upsert_by rm_instance_id
             (snd (decide_remediation at (?c (io_received_at q)))) (db_remediation d)\<rparr>))"
      using assms(1-3) by (auto simp: track_runtime_health_observation_def Let_def split: if_splits prod.splits)
    then show ?thesis
      using found rev stays decided by (auto simp: no_decision_def split: if_splits)
  next
    case False
    have "\<not> rd_queue dc \<and> (d' = d \<or> d' = clear_remediation ?i d)"
      by (rule track_health_cases[OF assms(1)]) (use assms(2) False in auto)
    then show ?thesis using found gone False by auto
  qed
qed

section \<open>Synchronisation\<close>

lemma sync_cases:
  assumes "track_runtime_configuration_observation b at d = (queue, d')"
  obtains (kept) "d' = d" "\<not> queue"
  | (cleared) "d' = clear_reconcile (io_instance_id b) d" "\<not> queue"
  | (counted) q r s where "tracked b d = Some (q, r)" "in_codex_configured r"
      "runtime_configuration_check_status b = Some CheckDrift"
      "s = fresh_reconcile (io_instance_id b) (sync_revision r)
         \<and> (\<forall>old. find_row rc_instance_id (io_instance_id b) (db_reconcile d) = Some old \<longrightarrow>
              rc_desired_revision old \<noteq> sync_revision r)
         \<or> find_row rc_instance_id (io_instance_id b) (db_reconcile d) = Some s
           \<and> rc_desired_revision s = sync_revision r \<and> rc_last_observed_at s < io_received_at q"
      "(queue, d') = (fst (count_sync_drift (io_received_at q) at s),
         d\<lparr>db_reconcile := upsert_by rc_instance_id (snd (count_sync_drift (io_received_at q) at s))
             (db_reconcile d)\<rparr>)"
proof -
  let ?i = "io_instance_id b"
  consider "runtime_configuration_check_status b = None
      \<or> runtime_configuration_check_status b = Some (CheckOther []) \<or> tracked b d = None"
    | st q r where "runtime_configuration_check_status b = Some st" "st \<noteq> CheckOther []"
      "tracked b d = Some (q, r)"
    by (cases "runtime_configuration_check_status b"; cases "tracked b d") auto
  then show thesis
  proof cases
    case 1
    then show thesis using assms kept
      by (auto simp: track_runtime_configuration_observation_def
          split: option.splits check_status.splits list.splits)
  next
    case (2 st q r)
    let ?cur = "case find_row rc_instance_id ?i (db_reconcile d) of
        Some s \<Rightarrow> if rc_desired_revision s = sync_revision r then Some s else None | None \<Rightarrow> None"
    let ?s = "case ?cur of Some s \<Rightarrow> s | None \<Rightarrow> fresh_reconcile ?i (sync_revision r)"
    let ?stale = "case ?cur of None \<Rightarrow> False | Some s \<Rightarrow> \<not> io_received_at q > rc_last_observed_at s"
    have eq: "(queue, d') = (if \<not> in_codex_configured r \<or> st \<noteq> CheckDrift then (False, clear_reconcile ?i d)
        else if ?stale then (False, d)
        else (fst (count_sync_drift (io_received_at q) at ?s),
          d\<lparr>db_reconcile := upsert_by rc_instance_id (snd (count_sync_drift (io_received_at q) at ?s))
             (db_reconcile d)\<rparr>))"
      using assms 2
      by (auto simp: track_runtime_configuration_observation_def Let_def
          split: check_status.splits list.splits if_splits prod.splits)
    show thesis
    proof (cases "\<not> in_codex_configured r \<or> st \<noteq> CheckDrift \<or> ?stale")
      case True
      then show thesis using eq kept cleared by (auto split: if_splits)
    next
      case False
      then show thesis using eq 2 counted[of q r ?s] by (auto split: option.splits if_splits)
    qed
  qed
qed

text \<open>C24. Automatic synchronisation is bounded too: no more than three attempts are counted for a
  desired configuration, and one is started only for a signed-in instance, on at least the second
  drift in a row and, for the same configuration, at least five minutes after the one before.\<close>

theorem sync_attempts_bounded:
  assumes "track_runtime_configuration_observation b at d = (queue, d')"
    and "\<forall>r \<in> set (db_reconcile d). rc_attempts r \<le> 3"
  shows "(\<forall>r \<in> set (db_reconcile d'). rc_attempts r \<le> 3)
     \<and> (queue \<longrightarrow> (\<exists>q r s. tracked b d = Some (q, r) \<and> in_codex_configured r
          \<and> runtime_configuration_check_status b = Some CheckDrift
          \<and> find_row rc_instance_id (io_instance_id b) (db_reconcile d') = Some s
          \<and> rc_desired_revision s = sync_revision r \<and> 2 \<le> rc_consecutive_drift s
          \<and> rc_last_attempt_at s = Some at \<and> 1 \<le> rc_attempts s
          \<and> (\<forall>old l. find_row rc_instance_id (io_instance_id b) (db_reconcile d) = Some old \<longrightarrow>
               rc_desired_revision old = rc_desired_revision s \<longrightarrow> rc_last_attempt_at old = Some l \<longrightarrow>
               rc_attempts s = rc_attempts old + 1 \<and> minutes 5 \<le> at - l)))"
proof (rule sync_cases[OF assms(1)], goal_cases)
  case (3 q r s)
  let ?s = "snd (count_sync_drift (io_received_at q) at s)"
  have old: "rc_attempts s \<le> 3"
    using 3(4) assms(2) by (auto simp: fresh_reconcile_def dest: find_row_Some)
  then have "rc_attempts ?s \<le> 3"
    by (auto simp: count_sync_drift_def sync_due_def Let_def runtime_auto_sync_max_attempts_def)
  then have "\<forall>r \<in> set (db_reconcile d'). rc_attempts r \<le> 3"
    using 3(5) assms(2) by (auto dest: in_upsert)
  moreover have "rc_instance_id ?s = io_instance_id b" "rc_desired_revision ?s = sync_revision r"
    using 3(4) by (auto simp: count_sync_drift_def Let_def fresh_reconcile_def dest: find_row_Some)
  moreover have "2 \<le> rc_consecutive_drift ?s" "rc_last_attempt_at ?s = Some at"
    "rc_attempts ?s = rc_attempts s + 1"
    "\<forall>l. rc_last_attempt_at s = Some l \<longrightarrow> minutes 5 \<le> at - l" if queue
    using 3(5) that
    by (auto simp: count_sync_drift_def sync_due_def Let_def runtime_auto_sync_drift_threshold_def
        runtime_auto_sync_cooldown_def split: if_splits)
  moreover have "old = s"
    if "find_row rc_instance_id (io_instance_id b) (db_reconcile d) = Some old"
      "rc_desired_revision old = sync_revision r" for old
    using 3(4) that by auto
  ultimately show ?case
    using 3(1-3,5) by auto
qed (use assms(2) in \<open>auto simp: clear_reconcile_def delete_where_subset\<close>)

section \<open>Reports\<close>

text \<open>C25. A report of a Host Agent is accepted or refused as a whole: it is accepted only when every
  instance it names belongs to the host, then only the rows of those instances change, no
  instance, job or remediation does, and the row of an instance is replaced only by a report of
  the current generation that, within one generation, was observed later.\<close>

theorem reports_supersede:
  assumes "record_observations host bs received d = Inr d'"
  shows "(\<forall>b \<in> set bs. \<exists>r. find_instance d (io_instance_id b) = Some r \<and> in_host_id r = host)
     \<and> db_instances d' = db_instances d \<and> db_jobs d' = db_jobs d
     \<and> (\<forall>i. i \<notin> io_instance_id ` set bs \<longrightarrow>
          find_row io_instance_id i (db_observations d') = find_row io_instance_id i (db_observations d))
     \<and> (\<forall>i r. find_instance d i = Some r \<longrightarrow>
          find_row io_instance_id i (db_observations d') = find_row io_instance_id i (db_observations d)
          \<or> (\<exists>new. find_row io_instance_id i (db_observations d') = Some new
              \<and> io_target_generation new = observation_generation (in_updated_at r)
              \<and> (\<forall>old. find_row io_instance_id i (db_observations d) = Some old \<longrightarrow>
                   io_target_generation old = io_target_generation new \<longrightarrow>
                   io_observed_at old < io_observed_at new \<and> io_received_at old \<le> io_received_at new)))"
proof (intro conjI)
  show "\<forall>i r. find_instance d i = Some r \<longrightarrow>
          find_row io_instance_id i (db_observations d') = find_row io_instance_id i (db_observations d)
          \<or> (\<exists>new. find_row io_instance_id i (db_observations d') = Some new
              \<and> io_target_generation new = observation_generation (in_updated_at r)
              \<and> (\<forall>old. find_row io_instance_id i (db_observations d) = Some old \<longrightarrow>
                   io_target_generation old = io_target_generation new \<longrightarrow>
                   io_observed_at old < io_observed_at new \<and> io_received_at old \<le> io_received_at new))"
    using record_observations_supersedes[OF assms] unfolding supersedes_def by metis
qed (use record_observations_owned[OF assms] record_observations_frame[OF assms]
    record_observations_other[OF assms] in blast)+

theorem reports_supersede_witness:
  "find_row io_instance_id ''i9'' (db_observations (reported 7)) = None
   \<and> db_instances (reported 7) = db_instances idle_fleet"
proof -
  have "''i9'' \<notin> io_instance_id ` set [drift_report 7]" by (simp add: drift_report_status)
  moreover have "find_row io_instance_id ''i9'' (db_observations idle_fleet) = None"
    by (simp add: idle_fleet_def empty_db_def find_row_def)
  ultimately show ?thesis using reports_supersede[OF reported_Inr[of 7]] by metis
qed

section \<open>Witnesses\<close>

lemma drift_report_prerequisites:
  "\<not> in_status sample_instance \<noteq> InstanceRunning" "rm_attempt_in_phase (fresh_remediation i v w) = 0"
  by (simp_all add: sample_instance_def fresh_remediation_def)

lemma current_reported: "current_remediation (reported t) i v = None"
  by (simp add: current_remediation_def reported_rows find_row_def)

lemma first_drift: "track_runtime_health_observation (drift_report t) t w (reported t) =
   (\<lparr>rd_queue = False, rd_state = Some (remediation_from_columns
       ((count_drift t w (fresh_remediation ''i1'' (remediation_revision sample_instance) w))\<lparr>rm_updated_at := t\<rparr>))\<rparr>,
    (reported t)\<lparr>db_remediation :=
       [(count_drift t w (fresh_remediation ''i1'' (remediation_revision sample_instance) w))\<lparr>rm_updated_at := t\<rparr>]\<rparr>)"
  by (simp add: track_runtime_health_observation_def tracked_reported drift_report_status
      current_reported drift_report_prerequisites Let_def decide_remediation_def reported_rows
      attempt_due_def runtime_remediation_drift_threshold_def fresh_remediation_def upsert_by_def)

text \<open>The fleet after one drift, with the next report stored, and after the decision on it.\<close>

definition first_row :: remediation_row where
  "first_row = (count_drift 5 ''w1'' (fresh_remediation ''i1'' (remediation_revision sample_instance) ''w1''))
     \<lparr>rm_updated_at := 5\<rparr>"

definition drifted_once :: db where
  "drifted_once = (reported 6)\<lparr>db_remediation := [first_row]\<rparr>"

lemma drifted_run: "repair_run drifted_once {}"
proof -
  have "repair_run (reported 5) {}" by (rule Start) (simp add: reported_rows)
  from Report[OF this first_drift] have "repair_run ((reported 5)\<lparr>db_remediation := [first_row]\<rparr>) {}"
    by (simp add: first_row_def)
  then show ?thesis by (rule Other) (simp add: drifted_once_def)
qed

lemma tracked_drifted: "tracked (drift_report 6) drifted_once
    = Some ((drift_report 6)\<lparr>io_received_at := 6\<rparr>, sample_instance)"
  using tracked_reported[of 6] by (simp add: tracked_def drifted_once_def find_instance_def)

lemma current_drifted: "current_remediation drifted_once ''i1'' (remediation_revision sample_instance) = Some first_row"
  by (simp add: current_remediation_def drifted_once_def find_row_def first_row_def)
    (simp add: fresh_remediation_def)

lemma first_row_fields:
  "rm_last_observed_at first_row = 5" "rm_consecutive_drift first_row = 1"
  "rm_status first_row = RemMonitoring" "rm_next_attempt_at first_row = None"
  "rm_total_attempts first_row = 0" "rm_instance_id first_row = ''i1''"
  by (simp_all add: first_row_def count_drift_def Let_def fresh_remediation_def)
    (simp_all add: max_remediation_attempts_def remediation_limits)

definition second_decision :: "remediation_decision \<times> db" where
  "second_decision = track_runtime_health_observation (drift_report 6) 6 ''w2'' drifted_once"

lemma second_drift: "rd_queue (fst second_decision)"
  unfolding second_decision_def
  by (simp add: track_runtime_health_observation_def tracked_drifted drift_report_status
      current_drifted drift_report_prerequisites Let_def case_prod_beta first_row_fields attempt_due_def
      runtime_remediation_drift_threshold_def)
    (simp add: count_drift_def Let_def first_row_fields max_remediation_attempts_def remediation_limits)

theorem repairs_bounded_witness:
  "\<exists>r \<in> set (db_remediation drifted_once). rm_phase r \<in> {1..3} \<and> rm_attempt_in_phase r \<le> 3
     \<and> rm_total_attempts r \<le> 9"
proof -
  have "first_row \<in> set (db_remediation drifted_once)" by (simp add: drifted_once_def)
  with repairs_bounded[OF drifted_run this] show ?thesis by blast
qed

theorem repair_needs_evidence_witness:
  "\<exists>p. rd_state (fst second_decision) = Some p \<and> rr_total_attempts p \<le> 9"
proof -
  have "remediations_ok drifted_once" using repair_run_ok[OF drifted_run] by simp
  then show ?thesis
    using repair_needs_evidence[OF _ second_drift, of "drift_report 6" 6 "''w2''" drifted_once "snd second_decision"]
    by (auto simp: second_decision_def)
qed

definition canceled_repair :: db where
  "canceled_repair = drifted_once\<lparr>db_remediation := [first_row\<lparr>rm_status := RemCanceled,
     rm_next_attempt_at := None, rm_last_error := '''', rm_updated_at := 6\<rparr>]\<rparr>"

lemma canceled_repair_Inr: "cancel_runtime_remediation ''i1'' 6 drifted_once = Inr canceled_repair"
  by (simp add: cancel_runtime_remediation_def Let_def drifted_once_def canceled_repair_def
      count_where_def first_row_fields)

theorem stopped_remediation_stays_witness:
  "cancel_runtime_remediation ''i1'' 6 drifted_once = Inr canceled_repair
   \<and> \<not> rd_queue (fst (track_runtime_health_observation (drift_report 6) 6 ''w2'' canceled_repair))"
proof -
  have "tracked (drift_report 6) canceled_repair = Some ((drift_report 6)\<lparr>io_received_at := 6\<rparr>, sample_instance)"
    using tracked_drifted by (simp add: tracked_def canceled_repair_def find_instance_def)
  moreover have "current_remediation canceled_repair (io_instance_id (drift_report 6))
      (remediation_revision sample_instance) = Some (hd (db_remediation canceled_repair))"
    using current_drifted
    by (simp add: current_remediation_def canceled_repair_def drifted_once_def find_row_def
        first_row_fields drift_report_status split: if_splits)
  moreover have "rm_status (hd (db_remediation canceled_repair)) \<in> {RemCanceled, RemExhausted}"
    by (simp add: canceled_repair_def)
  ultimately show ?thesis
    using stopped_remediation_stays[of "drift_report 6" 6 "''w2''" canceled_repair] canceled_repair_Inr
    by (metis prod.collapse)
qed

text \<open>A third and last synchronisation attempt.\<close>

definition unsynced :: db where
  "unsynced = (reported 6)\<lparr>db_reconcile := [\<lparr>rc_instance_id = ''i1'',
     rc_desired_revision = sync_revision sample_instance, rc_consecutive_drift = 1, rc_attempts = 2,
     rc_last_observed_at = 5, rc_last_attempt_at = None\<rparr>]\<rparr>"

theorem sync_attempts_bounded_witness:
  "\<exists>d' s. track_runtime_configuration_observation (drift_report 6) 6 unsynced = (True, d')
     \<and> find_row rc_instance_id ''i1'' (db_reconcile d') = Some s \<and> 2 \<le> rc_consecutive_drift s
     \<and> rc_last_attempt_at s = Some 6 \<and> 1 \<le> rc_attempts s"
proof -
  have t: "tracked (drift_report 6) unsynced = Some ((drift_report 6)\<lparr>io_received_at := 6\<rparr>, sample_instance)"
    using tracked_reported[of 6] by (simp add: tracked_def unsynced_def find_instance_def)
  have "fst (track_runtime_configuration_observation (drift_report 6) 6 unsynced)"
    by (simp add: track_runtime_configuration_observation_def t drift_report_status Let_def case_prod_beta)
      (simp add: unsynced_def find_row_def sample_instance_def count_sync_drift_def Let_def sync_due_def
        runtime_auto_sync_drift_threshold_def runtime_auto_sync_max_attempts_def)
  then obtain d' where run: "track_runtime_configuration_observation (drift_report 6) 6 unsynced = (True, d')"
    by (metis prod.collapse)
  moreover have "\<forall>r \<in> set (db_reconcile unsynced). rc_attempts r \<le> 3" by (simp add: unsynced_def)
  moreover have "io_instance_id (drift_report 6) = ''i1''" by (simp add: drift_report_def)
  ultimately show ?thesis using sync_attempts_bounded[OF run] by auto
qed

end

