(* ===== verification/Properties_Operations.thy ===== *)
theory Properties_Operations
  imports Sample_Runs
begin

text \<open>
  Properties of the operations that are no job: the paged operation list, the recovery onto a
  clean host, the two-phase deletion of an instance, and the allocation of ports and host
  credentials that precedes a job.
\<close>

section \<open>The operation list\<close>

lemma before_cursor_key:
  "before_cursor (op_created_at q, op_id q) p \<longleftrightarrow> operation_key p < operation_key q"
  by (auto simp: before_cursor_def operation_key_def order_key_defs)

lemma show_operation_sel [simp]:
  "op_id (show_operation d p) = op_id p" "op_created_at (show_operation d p) = op_created_at p"
  "operation_key (show_operation d p) = operation_key p"
  by (simp_all add: show_operation_def operation_key_def)

text \<open>Distinct ids make the keys strictly decreasing.\<close>

lemma newest_operations_strict:
  assumes "distinct (map op_id (db_operations d))"
  shows "sorted_wrt (\<lambda>p q. operation_key q < operation_key p) (newest_operations d)"
proof -
  let ?s = "sort_key operation_key (db_operations d)"
  have dist: "distinct (map op_id ?s)"
    using assms by (metis distinct_map_filter distinct_map distinct_sort set_sort)
  have "sorted_wrt (\<lambda>p q. operation_key p < operation_key q) ?s"
    unfolding sorted_wrt_iff_nth_less
  proof (intro allI impI)
    fix i j assume ij: "i < j" "j < length ?s"
    have "operation_key (?s ! i) \<le> operation_key (?s ! j)"
      using ij sorted_nth_mono[OF sorted_sort_key[of operation_key "db_operations d"], of i j] by simp
    moreover have "op_id (?s ! i) \<noteq> op_id (?s ! j)"
      using dist ij nth_eq_iff_index_eq[OF dist, of i j] by simp
    ultimately show "operation_key (?s ! i) < operation_key (?s ! j)"
      by (auto simp: operation_key_def order_key_defs)
  qed
  then show ?thesis
    by (simp add: newest_operations_def sorted_wrt_map sorted_wrt_rev)
qed

lemma filter_before_suffix:
  assumes "sorted_wrt (\<lambda>p q. operation_key q < operation_key p) (xs @ q # ys)"
  shows "filter (before_cursor (op_created_at q, op_id q)) (xs @ q # ys) = ys"
  using assms unfolding before_cursor_key[abs_def]
  by (auto simp: sorted_wrt_append filter_empty_conv filter_id_conv)

text \<open>A client that follows the cursors, page by page.\<close>

fun read_pages :: "nat \<Rightarrow> int \<Rightarrow> (timestamp \<times> string) option \<Rightarrow> db \<Rightarrow> operation list result" where
  "read_pages 0 limit c d = Inr []"
| "read_pages (Suc n) limit c d =
     and_then (list_operations_page limit c d) (\<lambda>p.
       case pg_next p of None \<Rightarrow> Inr (pg_items p)
       | Some c' \<Rightarrow> map_sum id (append (pg_items p)) (read_pages n limit (Some c') d))"

definition rest_of :: "(timestamp \<times> string) option \<Rightarrow> db \<Rightarrow> operation list" where
  "rest_of c d = (case c of None \<Rightarrow> newest_operations d
     | Some c \<Rightarrow> filter (before_cursor c) (newest_operations d))"

lemma make_page_cases:
  assumes "0 < limit" "limit < max_int64"
  shows "make_page limit rows = (if int (length rows) \<le> limit then \<lparr>pg_items = rows, pg_next = None\<rparr>
     else \<lparr>pg_items = take (nat limit) rows,
           pg_next = Some (op_created_at (rows ! (nat limit - 1)), op_id (rows ! (nat limit - 1)))\<rparr>)"
proof -
  have f: "nat (fetch_limit limit) = Suc (nat limit)"
    using assms by (simp add: fetch_limit_def nat_add_distrib)
  have "last (take (nat limit) rows) = rows ! (nat limit - 1)" if "\<not> int (length rows) \<le> limit"
    using that assms(1) by (subst last_conv_nth) auto
  then show ?thesis
    using assms(1) by (auto simp: make_page_def f Let_def min_def)
qed

lemma read_pages_rest:
  assumes strict: "sorted_wrt (\<lambda>p q. operation_key q < operation_key p) (newest_operations d)"
    and limit: "0 < limit" "limit < max_int64"
    and real: "\<forall>p \<in> set (newest_operations d). op_created_at p \<noteq> zero_time \<and> op_id p \<noteq> ''''"
    and rest: "newest_operations d = xs @ rest_of c d" "length (rest_of c d) < n"
    and c: "\<forall>c'. c = Some c' \<longrightarrow> fst c' \<noteq> zero_time \<and> snd c' \<noteq> ''''"
  shows "read_pages n limit c d = Inr (rest_of c d)"
  using rest c
proof (induction n arbitrary: xs c)
  case (Suc n)
  let ?r = "rest_of c d"
  have page: "list_operations_page limit c d = Inr (make_page limit ?r)"
    using limit Suc.prems(3) by (cases c) (auto simp: list_operations_page_def rest_of_def)
  show ?case
  proof (cases "int (length ?r) \<le> limit")
    case True
    then show ?thesis by (simp add: page make_page_cases[OF limit])
  next
    case False
    let ?k = "nat limit - 1"
    let ?q = "?r ! ?k"
    have k: "?k < length ?r" "Suc ?k = nat limit" using False limit(1) by auto
    have split: "?r = take ?k ?r @ ?q # drop (nat limit) ?r"
      using id_take_nth_drop[OF k(1)] k(2) by simp
    have next': "rest_of (Some (op_created_at ?q, op_id ?q)) d = drop (nat limit) ?r"
      using filter_before_suffix[of "xs @ take ?k ?r" ?q "drop (nat limit) ?r"] strict Suc.prems(1) split
      unfolding rest_of_def option.case by (metis append.assoc)
    have "?q \<in> set (newest_operations d)" using Suc.prems(1) k(1) by simp
    then have "read_pages n limit (Some (op_created_at ?q, op_id ?q)) d = Inr (drop (nat limit) ?r)"
      using Suc.IH[of "xs @ take (nat limit) ?r" "Some (op_created_at ?q, op_id ?q)"]
        real Suc.prems(1,2) limit(1) False unfolding next' by (auto simp: less_Suc_eq_le)
    then show ?thesis using False by (simp add: page make_page_cases[OF limit])
  qed
qed simp

text \<open>C26. Paging the operation list is complete and without repeats: a client that follows the cursors
  from the first page, with any page size, reads exactly the list of all operations, newest
  first, and stops after at most one page more than there are operations.\<close>

theorem pages_cover_operations:
  assumes "0 < limit" "limit < max_int64" and "distinct (map op_id (db_operations d))"
    and "\<forall>p \<in> set (db_operations d). op_created_at p \<noteq> zero_time \<and> op_id p \<noteq> ''''"
    and "length (db_operations d) < n"
  shows "read_pages n limit None d = Inr (newest_operations d)"
proof -
  have set: "\<forall>p \<in> set (newest_operations d). op_created_at p \<noteq> zero_time \<and> op_id p \<noteq> ''''"
    using assms(4) by (auto simp: newest_operations_def)
  show ?thesis
    using read_pages_rest[OF newest_operations_strict[OF assms(3)] assms(1,2) set, of "[]" None n] assms(5)
    by (simp add: rest_of_def newest_operations_def)
qed

theorem pages_cover_operations_witness:
  "map_sum id (map op_id) (read_pages 4 1 None second_fleet) = Inr [''o2'', ''o1'']"
proof -
  have "read_pages 4 1 None second_fleet = Inr (newest_operations second_fleet)"
  proof (rule pages_cover_operations)
    show "distinct (map op_id (db_operations second_fleet))" "length (db_operations second_fleet) < 4"
      "\<forall>p \<in> set (db_operations second_fleet). op_created_at p \<noteq> zero_time \<and> op_id p \<noteq> []"
      by code_simp+
  qed (simp_all add: max_int64_def)
  moreover have "map op_id (newest_operations second_fleet) = [''o2'', ''o1'']" by code_simp
  ultimately show ?thesis by simp
qed

section \<open>Recovery onto a clean host\<close>

lemma close_chat_streams_frame:
  assumes "close_chat_streams ms at d = Inr d'"
  shows "db_jobs d' = db_jobs d" "db_instances d' = db_instances d" "db_operations d' = db_operations d"
    "db_messages d' = db_messages d"
  using assms
  by (induction ms at d rule: close_chat_streams.induct) (auto dest: append_closing_event_frame)

lemma clean_host_rows:
  assumes "prepare_clean_host_recovery at d = Inr d'"
  shows "db_jobs d' = update_where (\<lambda>j. active_job (j_status j)) (abort_row at) (db_jobs d)"
    and "db_operations d' = update_where (\<lambda>p. open_operation (op_status p))
         (\<lambda>p. p\<lparr>op_status := OperationFailed,
                 op_error := (if op_error p = '''' then clean_host_reason else op_error p),
                 op_updated_at := at\<rparr>) (db_operations d)"
    and "db_messages d' = update_where unanswered
         (\<lambda>m. m\<lparr>me_status := MessageFailed, me_error := clean_host_reason, me_updated_at := at\<rparr>) (db_messages d)"
    and "db_instances d' = update_where (\<lambda>r. in_status r \<noteq> InstanceDeleted)
       (\<lambda>r. r\<lparr>in_status := InstanceStopped, in_last_error := '''', in_updated_at := at\<rparr>) (db_instances d)"
    and "db_observations d' = []" "db_reconcile d' = []" "db_remediation d' = []"
proof -
  obtain d1 where d1: "close_chat_streams (filter (\<lambda>m. unanswered m \<and> me_operation_id m \<noteq> '''')
      (db_messages d)) at (fence_restored_work at d) = Inr d1"
    "update_instances (\<lambda>r. in_status r \<noteq> InstanceDeleted)
       (\<lambda>r. r\<lparr>in_status := InstanceStopped, in_last_error := '''', in_updated_at := at\<rparr>)
       (fail_restored_messages at d1) = Inr d'"
    using assms by (auto simp: prepare_clean_host_recovery_def)
  note f = close_chat_streams_frame[OF d1(1)]
  show "db_jobs d' = update_where (\<lambda>j. active_job (j_status j)) (abort_row at) (db_jobs d)"
    and "db_operations d' = update_where (\<lambda>p. open_operation (op_status p))
         (\<lambda>p. p\<lparr>op_status := OperationFailed,
                 op_error := (if op_error p = '''' then clean_host_reason else op_error p),
                 op_updated_at := at\<rparr>) (db_operations d)"
    and "db_messages d' = update_where unanswered
         (\<lambda>m. m\<lparr>me_status := MessageFailed, me_error := clean_host_reason, me_updated_at := at\<rparr>) (db_messages d)"
    and "db_instances d' = update_where (\<lambda>r. in_status r \<noteq> InstanceDeleted)
       (\<lambda>r. r\<lparr>in_status := InstanceStopped, in_last_error := '''', in_updated_at := at\<rparr>) (db_instances d)"
    and "db_observations d' = []" "db_reconcile d' = []" "db_remediation d' = []"
    using d1(2) f
    by (simp_all add: update_instances_Inr fail_restored_messages_def fence_restored_work_def
        update_messages_def Let_def)
qed

text \<open>A database without an active job answers the Host Agents: there is nothing to claim, the calls
  that need a live lease fail, and what a token of an ended job can still call changes nothing.\<close>

lemma idle_agent_calls:
  assumes idle: "\<forall>j \<in> set (db_jobs d). \<not> active_job (j_status j)"
  shows "claim_job h lease now t d = Inr (None, d)"
    and "\<exists>err. acknowledge_job lease h i t now d = Inl err"
    and "\<exists>err. update_job_progress p h i t now d = Inl err"
    and "\<exists>err. append_chat_event e h i t now d = Inl err"
    and "renew_job lease h i t now d = Inr x \<Longrightarrow> x = d"
    and "complete_job_with_hash hash res reveal h i t now d = Inr x \<Longrightarrow> x = d"
proof -
  have held: "\<not> held_in JobRunning h i t now j" "\<not> leased_status (j_status j)" "\<not> claimable now j"
    if "j \<in> set (db_jobs d)" for j
    using idle that by (auto simp: held_in_def lease_defs active_job_def)
  have "next_claim now h d = None"
    unfolding next_claim_None using held(3) by (auto simp: claim_candidate_def)
  then show "claim_job h lease now t d = Inr (None, d)"
    by (simp add: claim_job_def claim_loop.simps[of h lease now t d d])
  show "\<exists>err. acknowledge_job lease h i t now d = Inl err"
    "\<exists>err. update_job_progress p h i t now d = Inl err"
    "\<exists>err. append_chat_event e h i t now d = Inl err"
    using held(2) by (auto intro: acknowledge.finished_job progress.finished_job chat_events.finished_job)
  show "x = d" if "renew_job lease h i t now d = Inr x"
  proof -
    have "db_jobs x = db_jobs d"
      unfolding renew_job_Inr(2)[OF that] using held(1) by (simp add: update_where_def map_idI)
    then show ?thesis using renew_job_Inr(3)[OF that] by simp
  qed
  show "x = d" if "complete_job_with_hash hash res reveal h i t now d = Inr x"
    using that by (cases rule: complete_job_cases) (use held(1) in blast)+
qed

text \<open>C27. After \<open>PrepareCleanHostRecovery\<close> nothing of the old host goes on. No job is active and no
  operation open, every instance is stopped or deleted, no chat message waits for an answer, and
  the reports and repair states are gone; the jobs that had ended are unchanged. No host can
  claim anything, and nobody who still holds a lease token, of any job, can acknowledge, report
  progress or append a chat event. A token of a job that was active can neither renew nor complete
  it any more. The token of a job that had ended is still known to \<open>RenewJob\<close> and
  \<open>CompleteJob\<close>, which answer a repeated call, but whatever they accept changes nothing.\<close>

theorem clean_host_recovery_fences:
  assumes "prepare_clean_host_recovery at d = Inr d'" and "distinct (map j_id (db_jobs d))"
  shows "(\<forall>j \<in> set (db_jobs d'). \<not> active_job (j_status j))
     \<and> (\<forall>p \<in> set (db_operations d'). \<not> open_operation (op_status p))
     \<and> (\<forall>r \<in> set (db_instances d'). in_status r = InstanceStopped \<or> in_status r = InstanceDeleted)
     \<and> (\<forall>m \<in> set (db_messages d'). \<not> unanswered m)
     \<and> db_observations d' = [] \<and> db_reconcile d' = [] \<and> db_remediation d' = []
     \<and> (\<forall>j \<in> set (db_jobs d). \<not> active_job (j_status j) \<longrightarrow> j \<in> set (db_jobs d'))
     \<and> claim_job h lease now u d' = Inr (None, d')
     \<and> (\<forall>i t. (\<exists>err. acknowledge_job lease h i t now d' = Inl err)
          \<and> (\<exists>err. update_job_progress p h i t now d' = Inl err)
          \<and> (\<exists>err. append_chat_event e h i t now d' = Inl err)
          \<and> (\<forall>x. renew_job lease h i t now d' = Inr x \<longrightarrow> x = d')
          \<and> (\<forall>x. complete_job_with_hash hash res reveal h i t now d' = Inr x \<longrightarrow> x = d'))
     \<and> (\<forall>j \<in> set (db_jobs d). \<forall>t. active_job (j_status j) \<longrightarrow> t \<noteq> '''' \<longrightarrow>
          (\<exists>err. renew_job lease h (j_id j) t now d' = Inl err)
          \<and> (\<exists>err. complete_job_with_hash hash res reveal h (j_id j) t now d' = Inl err))"
proof -
  note rows = clean_host_rows[OF assms(1)]
  have "j_lease_token q \<noteq> t" if j: "j \<in> set (db_jobs d)" "active_job (j_status j)" "t \<noteq> ''''"
    "q \<in> set (db_jobs d')" "j_id q = j_id j" for j q t
  proof -
    obtain p where p: "p \<in> set (db_jobs d)" "j_id p = j_id q" "active_job (j_status p) \<longrightarrow> q = abort_row at p"
      using j(4) unfolding rows(1) by (auto simp: set_update_where abort_row_def)
    then have "p = j" using unique_row[OF assms(2), of p j] j by simp
    then show ?thesis using p j by (simp add: abort_row_def)
  qed
  then have stale: "(\<exists>err. renew_job lease h (j_id j) t now d' = Inl err)
      \<and> (\<exists>err. complete_job_with_hash hash res reveal h (j_id j) t now d' = Inl err)"
    if "j \<in> set (db_jobs d)" "active_job (j_status j)" "t \<noteq> ''''" for j t
    using that by (intro conjI renewal.stale_token completion.stale_token) blast+
  have idle: "\<forall>j \<in> set (db_jobs d'). \<not> active_job (j_status j)"
    unfolding rows(1) by (auto simp: set_update_where abort_row_def active_job_def)
  have closed: "(\<forall>p \<in> set (db_operations d'). \<not> open_operation (op_status p))
     \<and> (\<forall>r \<in> set (db_instances d'). in_status r = InstanceStopped \<or> in_status r = InstanceDeleted)
     \<and> (\<forall>m \<in> set (db_messages d'). \<not> unanswered m)
     \<and> db_observations d' = [] \<and> db_reconcile d' = [] \<and> db_remediation d' = []
     \<and> (\<forall>j \<in> set (db_jobs d). \<not> active_job (j_status j) \<longrightarrow> j \<in> set (db_jobs d'))"
    unfolding rows by (auto simp: set_update_where open_operation_def unanswered_def)
  show ?thesis
    using idle closed stale idle_agent_calls[OF idle] by simp
qed

definition no_progress :: job_progress where
  "no_progress = \<lparr>jp_stage = [], jp_detail = [], jp_action_code = [], jp_steps = [],
     jp_verification_uri = [], jp_user_code = [], jp_expires_at = zero_time\<rparr>"

theorem clean_host_recovery_fences_witness:
  "\<exists>d'. prepare_clean_host_recovery 500 work_fleet = Inr d'
     \<and> (\<forall>r \<in> set (db_instances d'). in_status r = InstanceStopped \<or> in_status r = InstanceDeleted)
     \<and> claim_job ''h1'' 100 520 ''t9'' d' = Inr (None, d')
     \<and> (\<exists>err. acknowledge_job 100 ''h1'' ''j1'' ''t2'' 520 d' = Inl err)
     \<and> (\<exists>err. renew_job 100 ''h1'' ''j1'' ''t2'' 520 d' = Inl err)"
proof -
  let ?r = "prepare_clean_host_recovery 500 work_fleet" and ?j = "hd (db_jobs work_fleet)"
  let ?d = "after ?r work_fleet"
  have r: "?r = Inr ?d" by code_simp
  have j: "distinct (map j_id (db_jobs work_fleet))" "?j \<in> set (db_jobs work_fleet)"
    "active_job (j_status ?j)" "j_id ?j = ''j1''" by code_simp+
  note c = clean_host_recovery_fences[OF r j(1), of "''h1''" 100 520 "''t9''" no_progress
      "closing_event ''x'' 1" hash_a "plain_result True" None]
  have "\<exists>err. renew_job 100 ''h1'' (j_id ?j) ''t2'' 520 ?d = Inl err"
    using c j(2,3) by blast
  then show ?thesis using c r unfolding j(4) by blast
qed

section \<open>Deletion\<close>

lemma in_update_where_if:
  "r \<in> set (update_where P f rows) \<Longrightarrow> \<exists>q \<in> set rows. r = (if P q then f q else q)"
  unfolding update_where_def by auto

text \<open>Deletion has two phases. Its second phase runs only for an instance in DELETING with an open
  or failed delete operation; when it completes, the instance is DELETED, the operation has
  succeeded and is never again listed as pending; when it fails, the instance stays DELETING and a
  deletion that was pending stays pending, so that it can be tried again.\<close>

theorem deletion_cleanup:
  assumes "update_instance_deletion_cleanup i op p err completed at d = Inr d'"
    and "distinct (map op_id (db_operations d))" and "distinct (map in_id (db_instances d))"
  shows "(\<exists>r \<in> set (db_instances d). in_id r = i \<and> in_status r = InstanceDeleting)
     \<and> (completed \<longrightarrow> (\<forall>r \<in> set (db_instances d'). in_id r = i \<longrightarrow> in_status r = InstanceDeleted)
          \<and> (\<forall>q \<in> set (db_operations d'). op_id q = op \<longrightarrow> op_status q = OperationSucceeded
               \<and> \<not> deletion_operation d' q))
     \<and> (\<not> completed \<longrightarrow> (\<forall>r \<in> set (db_instances d'). in_id r = i \<longrightarrow> in_status r = InstanceDeleting)
          \<and> (\<forall>q \<in> set (db_operations d). deletion_operation d q \<longrightarrow>
               (\<exists>q' \<in> set (db_operations d'). op_id q' = op_id q \<and> deletion_operation d' q')))"
proof -
  let ?op = "\<lambda>q. op_id q = op \<and> op_instance_id q = i \<and> op_type q = OpDelete
             \<and> op_status q \<in> {OperationPending, OperationRunning, OperationFailed}"
  let ?in = "\<lambda>r. in_id r = i \<and> in_status r = InstanceDeleting"
  let ?e = "if completed then '''' else err"
  let ?f = "\<lambda>q. q\<lparr>op_status := (if completed then OperationSucceeded
                   else if err \<noteq> '''' then OperationFailed else OperationRunning),
                op_progress := Some p, op_error := ?e, op_updated_at := at\<rparr>"
  let ?g = "\<lambda>r. r\<lparr>in_status := (if completed then InstanceDeleted else InstanceDeleting),
                in_last_error := ?e, in_updated_at := at\<rparr>"
  have d': "db_operations d' = update_where ?op ?f (db_operations d)"
    "db_instances d' = update_where ?in ?g (db_instances d)" "db_jobs d' = db_jobs d"
    and one: "count_where ?op (db_operations d) = 1" "count_where ?in (db_instances d) = 1"
    using assms(1) by (auto simp: update_instance_deletion_cleanup_def Let_def update_instances_Inr)
  obtain r q where r: "r \<in> set (db_instances d)" "?in r" and q: "q \<in> set (db_operations d)" "?op q"
    using count_one_exists[OF one(1)] count_one_exists[OF one(2)] by blast
  have inst: "in_status s = (if completed then InstanceDeleted else InstanceDeleting)"
    if s: "s \<in> set (db_instances d')" "in_id s = i" for s
  proof -
    obtain s' where s': "s' \<in> set (db_instances d)" "s = (if ?in s' then ?g s' else s')"
      using in_update_where_if[OF s(1)[unfolded d'(2)]] by blast
    then have "in_id s' = i" using s(2) by (simp split: if_splits)
    then have "s' = r" using unique_row[OF assms(3) s'(1) r(1)] r(2) by simp
    then show ?thesis using s'(2) r(2) by simp
  qed
  have done': "op_status s = OperationSucceeded"
    if s: "completed" "s \<in> set (db_operations d')" "op_id s = op" for s
  proof -
    obtain s' where s': "s' \<in> set (db_operations d)" "s = (if ?op s' then ?f s' else s')"
      using in_update_where_if[OF s(2)[unfolded d'(1)]] by blast
    have "op_id s' = op" using s(3) unfolding s'(2) if_distrib[of op_id] by (simp split: if_split_asm)
    then have "s' = q" using unique_row[OF assms(2) s'(1) q(1)] q(2) by simp
    then show ?thesis using s'(2) q(2) s(1) by simp
  qed
  have again: "\<exists>q' \<in> set (db_operations d'). op_id q' = op_id s \<and> deletion_operation d' q'"
    if s: "\<not> completed" "s \<in> set (db_operations d)" "deletion_operation d s" for s
  proof
    let ?s = "if ?op s then ?f s else s"
    show "?s \<in> set (db_operations d')" using s(2) unfolding d'(1) by (auto simp: set_update_where)
    have "list_ex (\<lambda>r. in_id r = op_instance_id s \<and> in_status r = InstanceDeleting) (db_instances d')"
    proof -
      obtain u where u: "u \<in> set (db_instances d)" "in_id u = op_instance_id s" "in_status u = InstanceDeleting"
        using s(3) by (auto simp: deletion_operation_def list_ex_iff)
      have "(if ?in u then ?g u else u) \<in> set (db_instances d')"
        using u(1) unfolding d'(2) update_where_def by simp
      then show ?thesis using u(2,3) s(1) unfolding list_ex_iff by (intro bexI) simp_all
    qed
    moreover have "op_id ?s = op_id s" "op_instance_id ?s = op_instance_id s" "op_type ?s = op_type s"
      "op_status ?s \<in> {OperationPending, OperationRunning, OperationFailed}"
      using s(1,3) by (simp_all add: deletion_operation_def)
    ultimately show "op_id ?s = op_id s \<and> deletion_operation d' ?s"
      using s(3) unfolding deletion_operation_def d'(3) by metis
  qed
  have "\<not> deletion_operation d' s" if "op_status s = OperationSucceeded" for s
    using that by (simp add: deletion_operation_def)
  then show ?thesis
    using bexI[where P = ?in, OF r(2,1)] inst done' again by (cases completed) simp_all
qed

definition deleting_fleet :: db where
  "deleting_fleet = idle_fleet\<lparr>db_instances := [sample_instance\<lparr>in_status := InstanceDeleting\<rparr>],
     db_operations := [sample_operation ''o1'' OpDelete 1],
     db_jobs := [(new_job_row (sample_job ''j1'' ''o1'' JobDelete (Some (JObject [])) 1))\<lparr>j_status := JobSucceeded\<rparr>]\<rparr>"

theorem deletion_cleanup_witness:
  "\<exists>d'. update_instance_deletion_cleanup ''i1'' ''o1'' no_progress '''' True 9 deleting_fleet = Inr d'
     \<and> (\<forall>r \<in> set (db_instances d'). in_id r = ''i1'' \<longrightarrow> in_status r = InstanceDeleted)"
proof -
  let ?r = "update_instance_deletion_cleanup ''i1'' ''o1'' no_progress '''' True 9 deleting_fleet"
  have r: "?r = Inr (after ?r deleting_fleet)" by code_simp
  have "distinct (map op_id (db_operations deleting_fleet))" "distinct (map in_id (db_instances deleting_fleet))"
    by code_simp+
  then show ?thesis using deletion_cleanup[OF r] r by blast
qed

section \<open>Ports and credentials\<close>

text \<open>The ports that \<open>NextAvailablePorts\<close> proposes are usable and the lowest: they lie in the
  Fleet ranges, every lower port of a range is taken, and an instance that is created on the host
  with these ports, a new id and a new name is admitted by the allocation constraints.\<close>

theorem proposed_ports_admitted:
  assumes "next_available_ports (in_host_id r) d = Inr (in_api_port r, in_dashboard_port r)"
    and "\<not> instance_exists d (in_id r)" "host_exists d (in_host_id r)" "in_public_hostname r = ''''"
    and "\<forall>c \<in> set (db_instances d). in_status c \<noteq> InstanceDeleted \<longrightarrow> in_name c \<noteq> in_name r"
  shows "insert_instance r d = Inr (d\<lparr>db_instances := db_instances d @ [r]\<rparr>)
     \<and> 8650 \<le> in_api_port r \<and> in_api_port r \<le> 65535
     \<and> 9130 \<le> in_dashboard_port r \<and> in_dashboard_port r \<le> 65535
     \<and> in_api_port r \<noteq> in_dashboard_port r
     \<and> (\<forall>q. 8650 \<le> q \<longrightarrow> q < in_api_port r \<longrightarrow> q \<in> set (used_ports (in_host_id r) d))"
  using assms next_available_ports_Inr[OF assms(1)] next_available_ports_no_clash[OF assms(1)]
  by (auto simp: insert_instance_def live_instance_def list_ex_iff)

theorem proposed_ports_admitted_witness:
  "insert_instance second_instance work_fleet
     = Inr (work_fleet\<lparr>db_instances := db_instances work_fleet @ [second_instance]\<rparr>)"
proof -
  have "next_available_ports (in_host_id second_instance) work_fleet
      = Inr (in_api_port second_instance, in_dashboard_port second_instance)"
    "\<not> instance_exists work_fleet (in_id second_instance)"
    "host_exists work_fleet (in_host_id second_instance)" "in_public_hostname second_instance = ''''"
    "\<forall>c \<in> set (db_instances work_fleet). in_status c \<noteq> InstanceDeleted \<longrightarrow> in_name c \<noteq> in_name second_instance"
    by code_simp+
  then show ?thesis using proposed_ports_admitted by blast
qed

text \<open>A host credential is rotated only for the exact identity that enrolled and while the host
  has no active job; then the new token hash is the one that agents are checked against, and no
  other host and no other table changes.\<close>

theorem rotation_fenced:
  assumes "rotate_host_credential h name hostname os arch token d = Inr d'"
    and "distinct (map h_id (db_hosts d))"
  shows "(\<exists>r. find_row h_id h (db_hosts d) = Some r \<and> h_name r = name \<and> h_hostname r = hostname
         \<and> h_os r = os \<and> h_arch r = arch)
     \<and> (\<forall>j \<in> set (db_jobs d). j_host_id j = h \<longrightarrow> \<not> active_job (j_status j))
     \<and> host_token_hash h d' = Inr token
     \<and> (\<forall>g. g \<noteq> h \<longrightarrow> host_token_hash g d' = host_token_hash g d)
     \<and> d' = d\<lparr>db_hosts := db_hosts d'\<rparr>"
proof -
  let ?hit = "\<lambda>r. h_id r = h \<and> h_name r = name \<and> h_hostname r = hostname \<and> h_os r = os \<and> h_arch r = arch
      \<and> \<not> list_ex (\<lambda>j. j_host_id j = h \<and> active_job (j_status j)) (db_jobs d)"
  have d': "d' = d\<lparr>db_hosts := update_where ?hit (\<lambda>r. r\<lparr>hr_token_hash := token\<rparr>) (db_hosts d)\<rparr>"
    using assms(1) by (auto simp: rotate_host_credential_def Let_def split: option.splits)
  obtain r where r: "find_row h_id h (db_hosts d) = Some r" "h_name r = name" "h_hostname r = hostname"
    "h_os r = os" "h_arch r = arch"
    using rotate_host_credential_Inr(1)[OF assms(1)] by auto
  have idle: "\<forall>j \<in> set (db_jobs d). j_host_id j = h \<longrightarrow> \<not> active_job (j_status j)"
    by (rule rotate_host_credential_Inr(2)[OF assms(1)])
  have rows: "find_row h_id g (db_hosts d') = map_option (\<lambda>r. if ?hit r then r\<lparr>hr_token_hash := token\<rparr> else r)
      (find_row h_id g (db_hosts d))" for g
    unfolding d' by (simp add: find_row_update_where)
  have "?hit r" using r idle by (auto simp: list_ex_iff dest: find_row_Some)
  then have "host_token_hash h d' = Inr token" using rows[of h] r(1) by (simp add: host_token_hash_def)
  moreover have "host_token_hash g d' = host_token_hash g d" if "g \<noteq> h" for g
    using rows[of g] that
    by (cases "find_row h_id g (db_hosts d)") (auto simp: host_token_hash_def dest: find_row_Some)
  ultimately show ?thesis using r idle d' by simp
qed

theorem rotation_fenced_witness:
  "\<exists>d'. rotate_host_credential ''h1'' ''rack'' ''rack.local'' ''linux'' ''arm64'' ''fresh'' finished_fleet = Inr d'
     \<and> host_token_hash ''h1'' d' = Inr ''fresh''"
proof -
  let ?r = "rotate_host_credential ''h1'' ''rack'' ''rack.local'' ''linux'' ''arm64'' ''fresh'' finished_fleet"
  have r: "?r = Inr (after ?r finished_fleet)" by code_simp
  have "distinct (map h_id (db_hosts finished_fleet))" by code_simp
  then show ?thesis using rotation_fenced[OF r] r by blast
qed

end
