(* ===== verification/Campaign_Runs.thy ===== *)
theory Campaign_Runs
  imports Store_Runs
begin

text \<open>
  Campaigns along the runs of the store. A campaign is an operation without a job, and only the
  operations of jobs are ever opened again, so a campaign that is over stays over, whatever the
  agents, the controllers and the administrator do in between. \<open>campaign_frame\<close> is what every
  call that leaves the table of campaign targets alone guarantees; the calls that write that
  table are treated one by one.
\<close>

section \<open>The frame of a call\<close>

definition job_operations :: "db \<Rightarrow> string set" where
  "job_operations d = j_operation_id ` set (db_jobs d)"

definition known_operations :: "db \<Rightarrow> string set" where
  "known_operations d = op_id ` set (db_operations d)"

lemma operation_exists_known: "operation_exists d c \<longleftrightarrow> c \<in> known_operations d"
  by (auto simp: operation_exists_def known_operations_def list_ex_iff)

text \<open>Operations are only added, a new job has a new operation, and an operation that opens is
  either new or that of a job.\<close>

definition campaign_frame :: "db \<Rightarrow> db \<Rightarrow> bool" where
  "campaign_frame d d' \<longleftrightarrow> db_campaigns d' = db_campaigns d
     \<and> known_operations d \<subseteq> known_operations d'
     \<and> job_operations d' \<subseteq> job_operations d \<union> (known_operations d' - known_operations d)
     \<and> (\<forall>c. campaign_active d' c \<longrightarrow> campaign_active d c \<or> c \<notin> known_operations d \<or> c \<in> job_operations d)"

definition campaign_inv :: "db \<Rightarrow> bool" where
  "campaign_inv d \<longleftrightarrow> campaigns_ok d \<and> job_operations d \<subseteq> known_operations d
     \<and> (\<forall>t \<in> set (db_campaigns d). cm_campaign_id t \<notin> job_operations d)"

lemma campaign_frame_refl: "campaign_frame d d"
  by (simp add: campaign_frame_def)

lemma campaign_frame_trans: "campaign_frame d d1 \<Longrightarrow> campaign_frame d1 d' \<Longrightarrow> campaign_frame d d'"
  unfolding campaign_frame_def by (intro conjI) (simp, blast, blast, blast)

text \<open>The targets of a database of which only the open campaigns shrink.\<close>

lemma campaign_frame_inv:
  assumes "campaign_frame d d'" "campaign_inv d"
  shows "campaign_inv d'"
proof -
  have open': "campaign_active d (cm_campaign_id t)"
    if "t \<in> set (db_campaigns d)" "campaign_active d' (cm_campaign_id t)" for t
    using that assms unfolding campaign_frame_def campaign_inv_def campaigns_ok_def operation_exists_known
    by blast
  have "active_campaign_targets i d' \<le> active_campaign_targets i d" for i
    unfolding active_campaign_targets_def
    by (rule order.trans[OF count_where_mono[where Q = "\<lambda>t. cm_instance_id t = i
          \<and> campaign_active d (cm_campaign_id t)"]])
      (use assms(1) open' in \<open>auto simp: campaign_frame_def\<close>)
  then have one: "\<forall>i. active_campaign_targets i d' \<le> 1"
    using assms(2) order.trans unfolding campaign_inv_def campaigns_ok_def by blast
  have known: "\<forall>t \<in> set (db_campaigns d'). cm_campaign_id t \<in> known_operations d'"
    using assms unfolding campaign_inv_def campaign_frame_def campaigns_ok_def operation_exists_known by auto
  have "cm_campaign_id t \<notin> job_operations d'" if "t \<in> set (db_campaigns d')" for t
    using that assms unfolding campaign_inv_def campaign_frame_def campaigns_ok_def operation_exists_known
    by auto
  moreover have "job_operations d' \<subseteq> known_operations d'"
    using assms unfolding campaign_inv_def campaign_frame_def by blast
  ultimately show ?thesis
    using one known unfolding campaign_inv_def campaigns_ok_def operation_exists_known by blast
qed

text \<open>The three shapes of a call: it leaves the operations alone, rewrites them, or appends one.\<close>

lemma frame_quiet:
  assumes "db_campaigns d' = db_campaigns d" "db_operations d' = db_operations d"
    "job_operations d' \<subseteq> job_operations d"
  shows "campaign_frame d d'"
  using assms by (auto simp: campaign_frame_def known_operations_def campaign_active_def)

lemma frame_update:
  assumes "db_campaigns d' = db_campaigns d" "db_operations d' = update_where P f (db_operations d)"
    "job_operations d' \<subseteq> job_operations d"
    and "\<And>p. op_id (f p) = op_id p" "\<And>p. op_type (f p) = op_type p"
    and "\<And>p. P p \<Longrightarrow> op_type p = OpCampaign \<Longrightarrow> open_operation (op_status (f p)) \<Longrightarrow>
      open_operation (op_status p) \<or> op_id p \<in> job_operations d"
  shows "campaign_frame d d'"
proof -
  have "map op_id (update_where P f (db_operations d)) = map op_id (db_operations d)"
    by (rule map_update_where) (rule assms(4))
  then have "known_operations d' = known_operations d"
    unfolding known_operations_def assms(2) by (metis list.set_map)
  moreover have "campaign_active d c \<or> c \<in> job_operations d" if "campaign_active d' c" for c
    using that assms(4-6) unfolding campaign_active_def assms(2) list_ex_iff
    by (fastforce elim!: in_update_whereE)
  ultimately show ?thesis using assms(1,3) by (auto simp: campaign_frame_def)
qed

lemma frame_insert:
  assumes "db_campaigns d' = db_campaigns d" "db_operations d' = db_operations d @ [p]"
    "op_id p \<notin> known_operations d" "job_operations d' \<subseteq> insert (op_id p) (job_operations d)"
  shows "campaign_frame d d'"
proof -
  have "known_operations d' = insert (op_id p) (known_operations d)"
    by (simp add: known_operations_def assms(2))
  moreover have "campaign_active d c \<or> c \<notin> known_operations d" if "campaign_active d' c" for c
    using that assms(3) by (auto simp: campaign_active_def assms(2))
  ultimately show ?thesis using assms(1,3,4) unfolding campaign_frame_def by blast
qed

lemma job_operations_cong: "db_jobs d' = db_jobs d \<Longrightarrow> job_operations d' = job_operations d"
  by (simp add: job_operations_def)

lemma job_operations_update:
  assumes "db_jobs d' = update_where P f (db_jobs d)" "\<And>j. j_operation_id (f j) = j_operation_id j"
  shows "job_operations d' = job_operations d"
proof -
  have "map j_operation_id (db_jobs d') = map j_operation_id (db_jobs d)"
    unfolding assms(1) by (rule map_update_where) (rule assms(2))
  then show ?thesis unfolding job_operations_def by (metis list.set_map)
qed

lemma row_operation [simp]:
  "j_operation_id (abort_row t j) = j_operation_id j" "j_operation_id (claim_row t u x j) = j_operation_id j"
  "j_operation_id (finish_row t s x j) = j_operation_id j" "j_operation_id (renew_row t u j) = j_operation_id j"
  "j_operation_id (acknowledge_row t u j) = j_operation_id j" "j_operation_id (progress_row t p j) = j_operation_id j"
  by (simp_all add: row_defs)

section \<open>Which calls leave the campaign targets alone\<close>

lemma update_instances_campaigns: "update_instances P f d = Inr d' \<Longrightarrow> db_campaigns d' = db_campaigns d"
  by (auto simp: update_instances_Inr)

lemma closing_event_campaigns:
  "append_closing_event s op t at d = Inr d' \<Longrightarrow> db_campaigns d' = db_campaigns d"
  by (auto simp: append_closing_event_def insert_event_def split: if_splits)

lemma fail_chat_lease_campaigns:
  "fail_chat_lease j reason at d = Inr d' \<Longrightarrow> db_campaigns d' = db_campaigns d"
  by (auto simp: fail_chat_lease_def touch_session_def update_messages_def split: option.splits
      dest!: closing_event_campaigns)

lemma fail_lease_effects_kept:
  assumes "fail_lease_effects j m at d = Inr d'"
  shows "db_campaigns d' = db_campaigns d" "db_operations d' = db_operations d"
proof -
  have closing: "db_campaigns (lost_lease_closing j r at e) = db_campaigns e" for r e
    by (simp add: lost_lease_closing_def fail_remediation_attempt_def)
  show "db_campaigns d' = db_campaigns d" "db_operations d' = db_operations d"
    using assms
    by (auto simp: fail_lease_effects_def Let_def closing split: if_splits
        dest: fail_chat_lease_campaigns fail_chat_lease_frame(4) update_instances_campaigns
          update_instances_frame(2))
qed

lemma fail_expired_frame:
  assumes "fail_expired_job_lease j metadata at d = Inr d'"
  shows "campaign_frame d d'"
proof -
  obtain m where e: "fail_lease_effects j m at (d\<lparr>db_jobs := update_where (lost_lease j at) (abort_row at) (db_jobs d),
        db_operations := update_where (\<lambda>p. op_id p = j_operation_id j)
          (\<lambda>p. p\<lparr>op_status := OperationFailed, op_error := lost_lease_reason j,
                  op_metadata := Some (Some (JObject m)), op_updated_at := at\<rparr>) (db_operations d)\<rparr>) = Inr d'"
    using assms by (auto simp: fail_expired_job_lease_def Let_def split: option.splits)
  show ?thesis
  proof (rule frame_update[where P = "\<lambda>p. op_id p = j_operation_id j"
        and f = "\<lambda>p. p\<lparr>op_status := OperationFailed, op_error := lost_lease_reason j,
                  op_metadata := Some (Some (JObject m)), op_updated_at := at\<rparr>"])
    show "job_operations d' \<subseteq> job_operations d"
      using job_operations_update[OF fail_expired_jobs(1)[OF assms]] by simp
  qed (use fail_lease_effects_kept[OF e] in \<open>simp_all add: open_operation_def\<close>)
qed

lemma fails_leases_frame: "(fails_lease now)\<^sup>*\<^sup>* d d' \<Longrightarrow> campaign_frame d d'"
  by (induction rule: rtranclp_induct)
    (auto simp: fails_lease_def campaign_frame_refl intro: campaign_frame_trans fail_expired_frame)

lemma fail_all_frame: "fail_all js at d = Inr d' \<Longrightarrow> campaign_frame d d'"
  by (induction js at d rule: fail_all.induct)
    (auto simp: campaign_frame_refl intro: campaign_frame_trans fail_expired_frame)

section \<open>The calls of the Host Agents\<close>

lemma take_claim_frame:
  assumes "take_claim lease now token j d0 d = (r, d')" "j \<in> set (db_jobs d)"
  shows "d' = d0 \<or> campaign_frame d d'"
proof (cases "r")
  case (Some q)
  then have d': "d' = d\<lparr>db_jobs := update_where (\<lambda>r. j_id r = j_id j \<and> claimable now r)
        (claim_row now (now + lease) token) (db_jobs d),
      db_operations := update_where (\<lambda>p. op_id p = j_operation_id j)
        (\<lambda>p. p\<lparr>op_status := OperationRunning, op_updated_at := now\<rparr>) (db_operations d)\<rparr>"
    using assms(1) by (auto simp: take_claim_def Let_def split: if_splits)
  have "campaign_frame d d'"
  proof (rule frame_update[where P = "\<lambda>p. op_id p = j_operation_id j"
        and f = "\<lambda>p. p\<lparr>op_status := OperationRunning, op_updated_at := now\<rparr>"])
    show "job_operations d' \<subseteq> job_operations d"
      using job_operations_update[of d' _ "claim_row now (now + lease) token" d] d' by simp
    show "open_operation (op_status p) \<or> op_id p \<in> job_operations d" if "op_id p = j_operation_id j" for p
      using that assms(2) by (simp add: job_operations_def)
  qed (simp_all add: d')
  then show ?thesis by simp
qed (use assms(1) in \<open>auto simp: take_claim_def Let_def split: if_splits\<close>)

lemma claim_frame:
  assumes "claim_job h lease now token d = Inr (r, d')"
  shows "campaign_frame d d'"
proof -
  obtain d1 where d1: "(fails_lease now)\<^sup>*\<^sup>* d d1"
    and c: "d' = d1 \<or> (\<exists>j. next_claim now h d1 = Some j \<and> take_claim lease now token j d d1 = (r, d'))"
    using claim_loop_cases[OF assms[unfolded claim_job_def]] by blast
  have "d' = d1 \<or> d' = d \<or> campaign_frame d1 d'"
    using c take_claim_frame next_claim_Some(1) by blast
  then show ?thesis using fails_leases_frame[OF d1] campaign_frame_trans campaign_frame_refl by blast
qed

lemma desired_update_campaigns: "desired_update i d d' \<Longrightarrow> db_campaigns d' = db_campaigns d"
  by (auto simp: desired_update_def dest: update_instances_campaigns)

lemma record_desired_state_campaigns:
  assumes "record_desired_state j r p now d = Inr d'"
  shows "db_campaigns d' = db_campaigns d"
proof -
  obtain d1 d2 d3 where s: "restore_desired_state j r p now d = Inr d1"
    "upgrade_desired_state j r p now d1 = Inr d2" "update_desired_state j r p now d2 = Inr d3"
    "configure_desired_state j r now d3 = Inr d'"
    using assms by (auto simp: record_desired_state_def)
  show ?thesis
    using desired_state_updates(1)[OF s(1)] desired_state_updates(2)[OF s(2)]
      desired_state_updates(3)[OF s(3)] desired_state_updates(4)[OF s(4)] desired_update_campaigns
    by metis
qed

lemma finish_chat_message_campaigns:
  assumes "finish_chat_message op q r now d = Inr d'"
  shows "db_campaigns d' = db_campaigns d"
  using assms
  by (auto simp: finish_chat_message_def Let_def insert_message_Inr touch_session_def update_messages_def
      split: if_splits dest!: closing_event_campaigns)

lemma apply_effects_campaigns:
  assumes "apply_effects j r p reveal now metadata d = Inr d'"
  shows "db_campaigns d' = db_campaigns d"
proof -
  obtain d1 m d3 d4 d5 d6 where s: "record_inventories p d = Inr d1"
    "stored_metadata metadata = Inr m"
    "record_instance_result j p (result_error_text r) now (record_operation_result j r p now m d1) = Inr d3"
    "complete_chat j r now d3 = Inr d4"
    "record_desired_state j r p now (complete_remediation j r now d4) = Inr d5"
    "complete_config j r now d5 = Inr d6"
    "d' = store_reveal (j_operation_id j) reveal now (clear_deleted_requests j r d6)"
    by (rule apply_effects_stages[OF assms])
  have "db_campaigns d1 = db_campaigns d"
    using s(1) by (auto simp: record_inventories_def split: option.splits)
  moreover have "db_campaigns d3 = db_campaigns d1"
    using s(3) by (auto simp: record_instance_result_def record_operation_result_def split: if_splits
        dest: update_instances_campaigns)
  moreover have "db_campaigns d4 = db_campaigns d3"
    using s(4) by (auto simp: complete_chat_def split: if_splits option.splits dest: finish_chat_message_campaigns)
  moreover have "db_campaigns d5 = db_campaigns d4"
    using record_desired_state_campaigns[OF s(5)]
    by (simp add: complete_remediation_def fail_remediation_attempt_def)
  moreover have "db_campaigns d6 = db_campaigns d5"
    using s(6) by (auto simp: complete_config_def split: if_splits option.splits)
  moreover have "db_campaigns d' = db_campaigns d6"
    by (simp add: s(7) store_reveal_def purge_reveals_def clear_deleted_requests_def Let_def split: option.split)
  ultimately show ?thesis by simp
qed

lemma complete_frame:
  assumes "complete_job_with_hash hash r reveal h i t now d = Inr d'"
  shows "campaign_frame d d'"
  using assms
proof (cases rule: complete_job_cases)
  case (Finished j p)
  let ?d = "d\<lparr>db_jobs := update_where (held_in JobRunning h i t now)
            (finish_row now (job_result_status r) hash) (db_jobs d)\<rparr>"
  obtain m where ops: "db_operations d' = db_operations (record_operation_result j r p now m ?d)"
    using apply_effects_frame(3)[OF Finished(8)] by blast
  have "j_operation_id j \<in> job_operations d" using Finished(1) by (simp add: job_operations_def)
  moreover have "job_operations d' = job_operations d"
    using apply_effects_frame(1)[OF Finished(8)]
      job_operations_update[of d' _ "finish_row now (job_result_status r) hash" d] by simp
  ultimately show ?thesis
    using apply_effects_campaigns[OF Finished(8)] ops
    by (intro frame_update[where P = "\<lambda>p. op_id p = j_operation_id j"
          and f = "\<lambda>q. q\<lparr>op_status := operation_result_status (j_type j) r, op_error := result_error_text r,
                 op_metadata := Some (Some (JObject (completion_metadata (j_attempts j) r p m))),
                 op_updated_at := now\<rparr>"])
      (simp_all add: record_operation_result_def)
qed (simp add: campaign_frame_refl)

lemma agent_frames:
  "acknowledge_job lease h i t now d = Inr d' \<Longrightarrow> campaign_frame d d'"
  "renew_job lease h i t now d = Inr d' \<Longrightarrow> campaign_frame d d'"
  "update_job_progress p h i t now d = Inr d' \<Longrightarrow> campaign_frame d d'"
  "append_chat_event e h i t now d = Inr d' \<Longrightarrow> campaign_frame d d'"
  "record_observations h bs at d = Inr d' \<Longrightarrow> campaign_frame d d'"
proof -
  show "campaign_frame d d'" if a: "acknowledge_job lease h i t now d = Inr d'"
    by (rule frame_quiet)
      (simp_all add: job_operations_update[OF acknowledge_job_Inr(2)[OF a]]
          arg_cong[OF acknowledge_job_Inr(3)[OF a], of db_campaigns]
          arg_cong[OF acknowledge_job_Inr(3)[OF a], of db_operations])
  show "campaign_frame d d'" if a: "renew_job lease h i t now d = Inr d'"
    by (rule frame_quiet)
      (simp_all add: job_operations_update[OF renew_job_Inr(2)[OF a]]
          arg_cong[OF renew_job_Inr(3)[OF a], of db_campaigns]
          arg_cong[OF renew_job_Inr(3)[OF a], of db_operations])
  show "campaign_frame d d'" if a: "update_job_progress p h i t now d = Inr d'"
    by (rule frame_quiet)
      (simp_all add: job_operations_update[OF update_job_progress_Inr(2)[OF a]]
          arg_cong[OF update_job_progress_Inr(3)[OF a], of db_campaigns]
          arg_cong[OF update_job_progress_Inr(3)[OF a], of db_operations])
  show "campaign_frame d d'" if "append_chat_event e h i t now d = Inr d'"
  proof -
    have r: "record_chat_event e d = Inr d'" by (rule append_chat_event_Inr(2)[OF that])
    then have "db_campaigns d' = db_campaigns d"
      by (auto simp: record_chat_event_def insert_event_def split: option.splits if_splits)
    then show ?thesis
      using record_chat_event_frame(1,3)[OF r] job_operations_cong[of d' d] by (intro frame_quiet) simp_all
  qed
  have one: "db_campaigns d1 = db_campaigns d0 \<and> db_operations d1 = db_operations d0"
    if "record_observation h at b d0 = Inr d1" for b d0 d1
    using that by (auto simp: record_observation_def store_observation_def Let_def split: option.splits if_splits)
  show "campaign_frame d d'" if r: "record_observations h bs at d = Inr d'"
  proof -
    have "db_campaigns d' = db_campaigns d \<and> db_operations d' = db_operations d"
      using r by (induction bs arbitrary: d) (auto dest!: one)
    then show ?thesis
      using record_observations_frame(2)[OF r] job_operations_cong[of d' d] by (intro frame_quiet) simp_all
  qed
qed

lemma heartbeat_frame: "heartbeat h hn os a v at d = Inr d' \<Longrightarrow> campaign_frame d d'"
  by (rule frame_quiet) (auto simp: heartbeat_def job_operations_def split: if_splits)

lemma apply_agent_frame:
  assumes "apply_agent ac now d = Inr d'"
  shows "campaign_frame d d'"
  using assms
  by (cases ac) (auto simp: map_sum_Inr intro: claim_frame complete_frame agent_frames heartbeat_frame)

section \<open>The requests\<close>

text \<open>Each request ends in the insertion of a new operation and its job.\<close>

lemma insertion_frame:
  assumes "insert_operation_and_job op (job_of op q) d1 = Inr d'" "db_operations d1 = db_operations d"
    "db_jobs d1 = db_jobs d" "db_campaigns d1 = db_campaigns d"
  shows "campaign_frame d d'"
proof -
  note r = insert_operation_and_job_Inr[OF assms(1)]
  have "db_campaigns d' = db_campaigns d1"
    using assms(1) by (auto simp: insert_operation_and_job_def insert_operation_Inr insert_job_Inr)
  then show ?thesis
    using r(1,2,4) assms(2-4)
    by (intro frame_insert[of d' d "job_operation_row op"])
      (auto simp: job_operation_row_def known_operations_def job_operations_def)
qed

lemma move_instance_kept:
  assumes "move_instance i e s t d = Inr d'"
  shows "db_operations d' = db_operations d" "db_jobs d' = db_jobs d" "db_campaigns d' = db_campaigns d"
  using arg_cong[OF conjunct2[OF conjunct2[OF assms[unfolded move_instance_Inr]]], of db_operations]
    arg_cong[OF conjunct2[OF conjunct2[OF assms[unfolded move_instance_Inr]]], of db_jobs]
    arg_cong[OF conjunct2[OF conjunct2[OF assms[unfolded move_instance_Inr]]], of db_campaigns]
  by simp_all

lemma request_frames:
  "queue_action e s op (job_of op q) d = Inr d' \<Longrightarrow> campaign_frame d d'"
  "queue_messaging_configuration e cf op (job_of op q) d = Inr d' \<Longrightarrow> campaign_frame d d'"
  "queue_mcp_configuration e cf op (job_of op q) d = Inr d' \<Longrightarrow> campaign_frame d d'"
  "queue_runtime_repair e op (job_of op q) plan d = Inr d' \<Longrightarrow> campaign_frame d d'"
  "queue_inspection si op (job_of op q) d = Inr d' \<Longrightarrow> campaign_frame d d'"
  "queue_codex_auth op (job_of op q) d = Inr d' \<Longrightarrow> campaign_frame d d'"
  "create_instance inst op (job_of op q) d = Inr d' \<Longrightarrow> campaign_frame d d'"
proof -
  show "campaign_frame d d'" if a: "queue_action e s op (job_of op q) d = Inr d'"
  proof -
    obtain d1 where d1: "move_instance (op_instance_id op) e s (op_created_at op) d = Inr d1"
      "insert_operation_and_job op (job_of op q) (if s \<noteq> InstanceRestarting
           then d1\<lparr>db_remediation := delete_where (\<lambda>r. rm_instance_id r = op_instance_id op) (db_remediation d1)\<rparr>
           else d1) = Inr d'"
      using a by (auto simp: queue_action_def)
    show ?thesis by (rule insertion_frame[OF d1(2)]) (simp_all add: move_instance_kept[OF d1(1)])
  qed
  show "campaign_frame d d'" if a: "queue_messaging_configuration e cf op (job_of op q) d = Inr d'"
  proof -
    obtain d1 where d1: "move_instance (op_instance_id op) e InstanceUpdating (op_created_at op) d = Inr d1"
      "insert_operation_and_job op (job_of op q) (d1\<lparr>db_messaging := upsert_config cf (db_messaging d1)\<rparr>) = Inr d'"
      using a by (auto simp: queue_messaging_configuration_def)
    show ?thesis by (rule insertion_frame[OF d1(2)]) (simp_all add: move_instance_kept[OF d1(1)])
  qed
  show "campaign_frame d d'" if a: "queue_mcp_configuration e cf op (job_of op q) d = Inr d'"
  proof -
    obtain d1 where d1: "move_instance (op_instance_id op) e InstanceUpdating (op_created_at op) d = Inr d1"
      "insert_operation_and_job op (job_of op q) (d1\<lparr>db_mcp := upsert_config cf (db_mcp d1)\<rparr>) = Inr d'"
      using a by (auto simp: queue_mcp_configuration_def)
    show ?thesis by (rule insertion_frame[OF d1(2)]) (simp_all add: move_instance_kept[OF d1(1)])
  qed
  show "campaign_frame d d'" if a: "queue_runtime_repair e op (job_of op q) plan d = Inr d'"
  proof -
    obtain d1 rows where d1: "move_instance (op_instance_id op) e InstanceRestarting (op_created_at op) d = Inr d1"
      "insert_operation_and_job op (job_of op q) (d1\<lparr>db_remediation := rows\<rparr>) = Inr d'"
      using a by (auto simp: queue_runtime_repair_def Let_def)
    show ?thesis by (rule insertion_frame[OF d1(2)]) (simp_all add: move_instance_kept[OF d1(1)])
  qed
  show "campaign_frame d d'" if a: "queue_inspection si op (job_of op q) d = Inr d'"
    by (rule insertion_frame[of op q d]) (use a in \<open>auto simp: queue_inspection_def split: option.splits\<close>)
  show "campaign_frame d d'" if a: "queue_codex_auth op (job_of op q) d = Inr d'"
    by (rule insertion_frame[of op q d]) (use a in \<open>auto simp: queue_codex_auth_def split: option.splits\<close>)
  show "campaign_frame d d'" if a: "create_instance inst op (job_of op q) d = Inr d'"
  proof -
    obtain d1 where d1: "insert_instance (inst\<lparr>in_image_id := '''', in_project_name := '''', in_data_volume := '''',
        in_managed_path := '''', in_last_error := ''''\<rparr>) d = Inr d1"
      "insert_operation_and_job op (job_of op q) d1 = Inr d'"
      using a by (auto simp: create_instance_def)
    show ?thesis by (rule insertion_frame[OF d1(2)]) (use d1(1) in \<open>auto simp: insert_instance_Inr\<close>)
  qed
qed

lemma chat_request_frame:
  assumes "queue_chat_message s m c op (job_of op q) d = Inr d'"
  shows "campaign_frame d d'"
proof -
  obtain d1 d2 where d: "insert_operation_and_job op (job_of op q) d = Inr d1"
    "insert_message \<lparr>me_id = m, me_session_id = s, me_operation_id = op_id op, me_role = RoleUser,
       me_ciphertext = c, me_status = MessagePending, me_error = '''', me_created_at = op_created_at op,
       me_updated_at = op_updated_at op\<rparr> d1 = Inr d2"
    "insert_event s (op_id op) 0 EventQueued '''' '''' (op_created_at op)
       (touch_session s '''' (op_created_at op) d2) = Inr d'"
    by (rule queue_chat_message_stages[OF assms])
  have "campaign_frame d1 d'"
    by (rule frame_quiet)
      (use d(2,3) in \<open>auto simp: insert_message_Inr insert_event_def touch_session_def job_operations_def
         split: if_splits\<close>)
  then show ?thesis using insertion_frame[OF d(1)] campaign_frame_trans by blast
qed

lemma apply_queue_frame:
  assumes "apply_queue qc now d = Inr d'"
  shows "campaign_frame d d'"
  using assms by (cases qc) (auto simp: Let_def intro: request_frames chat_request_frame)

section \<open>Chat, and the cancellation of work\<close>

text \<open>A deleted operation takes its campaign targets with it, and no job refers to it.\<close>

lemma delete_operations_inv:
  assumes del: "delete_operations P d = Inr d'" and inv: "campaign_inv d"
  shows "campaign_inv d'"
proof -
  let ?gone = "op_id ` {p \<in> set (db_operations d). P p}"
  have d': "db_operations d' = delete_where P (db_operations d)" "db_jobs d' = db_jobs d"
    "db_campaigns d' = delete_where (\<lambda>t. cm_campaign_id t \<in> ?gone) (db_campaigns d)"
    and free: "job_operations d \<inter> ?gone = {}"
    using del by (auto simp: delete_operations_def Let_def list_ex_iff job_operations_def split: if_splits)
  have known: "known_operations d - ?gone \<subseteq> known_operations d'"
    by (auto simp: known_operations_def d'(1) delete_where_subset)
  have still: "campaign_active d c" if "campaign_active d' c" for c
    using that by (auto simp: campaign_active_def list_ex_iff d'(1) delete_where_subset)
  have "active_campaign_targets i d' \<le> active_campaign_targets i d" for i
    unfolding active_campaign_targets_def d'(3)
    by (rule order.trans[OF count_where_delete_le count_where_mono]) (use still in blast)
  then have "\<forall>i. active_campaign_targets i d' \<le> 1"
    using inv order.trans unfolding campaign_inv_def campaigns_ok_def by blast
  moreover have "\<forall>t \<in> set (db_campaigns d'). cm_campaign_id t \<in> known_operations d'
      \<and> cm_campaign_id t \<notin> job_operations d'"
    using inv known unfolding campaign_inv_def campaigns_ok_def operation_exists_known d'(3)
      job_operations_cong[OF d'(2)]
    by (auto simp: delete_where_subset)
  moreover have "job_operations d' \<subseteq> known_operations d'"
    using inv known free unfolding campaign_inv_def job_operations_cong[OF d'(2)] by blast
  ultimately show ?thesis unfolding campaign_inv_def campaigns_ok_def operation_exists_known by blast
qed

lemma job_operations_delete:
  "db_jobs d' = delete_where P (db_jobs d) \<Longrightarrow> job_operations d' \<subseteq> job_operations d"
  by (auto simp: job_operations_def delete_where_subset)

lemma chat_deletion_inv:
  "delete_chat_session s d = Inr (i, d') \<Longrightarrow> campaign_inv d \<Longrightarrow> campaign_inv d'"
  "reconcile_orphaned_chat_work d = Inr (n, d') \<Longrightarrow> campaign_inv d \<Longrightarrow> campaign_inv d'"
proof -
  show "campaign_inv d'" if del: "delete_chat_session s d = Inr (i, d')" and inv: "campaign_inv d"
  proof -
    let ?ops = "filter (\<lambda>i. i \<noteq> '''') (map me_operation_id (session_messages s d))"
    let ?d = "delete_session_row s (d\<lparr>db_jobs := delete_where (\<lambda>j. j_operation_id j \<in> set ?ops) (db_jobs d)\<rparr>)"
    obtain P where a: "delete_operations P ?d = Inr d'"
      using del by (auto simp: delete_chat_session_def Let_def split: option.splits)
    have "db_jobs ?d = delete_where (\<lambda>j. j_operation_id j \<in> set ?ops) (db_jobs d)"
      "db_campaigns ?d = db_campaigns d" "db_operations ?d = db_operations d"
      by (simp_all add: delete_session_row_def)
    then have "campaign_frame d ?d"
      by (intro frame_quiet job_operations_delete)
    then show ?thesis using delete_operations_inv[OF a] campaign_frame_inv inv by blast
  qed
  show "campaign_inv d'" if rec: "reconcile_orphaned_chat_work d = Inr (n, d')" and inv: "campaign_inv d"
  proof -
    obtain P Q where a: "delete_operations Q (d\<lparr>db_jobs := delete_where P (db_jobs d)\<rparr>) = Inr d'"
      using rec by (auto simp: reconcile_orphaned_chat_work_def Let_def)
    have "campaign_frame d (d\<lparr>db_jobs := delete_where P (db_jobs d)\<rparr>)"
      by (rule frame_quiet) (auto intro!: job_operations_delete)
    then show ?thesis using delete_operations_inv[OF a] campaign_frame_inv inv by blast
  qed
qed

lemma cancel_chat_frame:
  assumes "cancel_active_chat s reason now d = Inr d'"
  shows "campaign_frame d d'"
proof -
  obtain j :: job_row and m :: message_row where a: "append_closing_event s (j_operation_id j) EventCanceled now
            (touch_session s reason now
              (update_messages (\<lambda>r. me_id r = me_id m)
                (\<lambda>r. r\<lparr>me_status := MessageFailed, me_error := reason, me_updated_at := now\<rparr>)
                (d\<lparr>db_jobs := update_where (\<lambda>r. j_id r = j_id j \<and> active_job (j_status r))
                     (abort_row now) (db_jobs d),
                   db_operations := update_where (\<lambda>o'. op_id o' = j_operation_id j)
                     (\<lambda>o'. o'\<lparr>op_status := OperationFailed, op_error := reason, op_updated_at := now\<rparr>)
                     (db_operations d)\<rparr>))) = Inr d'"
    using assms by (auto simp: cancel_active_chat_def split: option.splits prod.splits)
  have jobs: "db_jobs d' = update_where (\<lambda>r. j_id r = j_id j \<and> active_job (j_status r)) (abort_row now) (db_jobs d)"
    using append_closing_event_frame(1)[OF a] by simp
  show ?thesis
    by (rule frame_update[where P = "\<lambda>o'. op_id o' = j_operation_id j"
          and f = "\<lambda>o'. o'\<lparr>op_status := OperationFailed, op_error := reason, op_updated_at := now\<rparr>"])
      (use closing_event_campaigns[OF a] append_closing_event_frame(3)[OF a] job_operations_update[OF jobs] in
        \<open>simp_all add: touch_session_def update_messages_def open_operation_def\<close>)
qed

lemma cancel_auth_frame:
  assumes "cancel_codex_auth i op reason now d = Inr d'"
  shows "campaign_frame d d'"
proof -
  have d': "db_jobs d' = update_where (\<lambda>j. j_operation_id j = op \<and> j_instance_id j = i
        \<and> j_type j = JobAuthCodex \<and> active_job (j_status j)) (abort_row now) (db_jobs d)"
    "db_operations d' = update_where
        (\<lambda>o'. op_id o' = op \<and> op_instance_id o' = i \<and> op_type o' = OpCodexAuth)
        (\<lambda>o'. o'\<lparr>op_status := OperationFailed, op_error := reason, op_updated_at := now\<rparr>) (db_operations d)"
    "db_campaigns d' = db_campaigns d"
    using assms by (auto simp: cancel_codex_auth_def Let_def)
  show ?thesis
    by (rule frame_update[OF d'(3,2)]) (simp_all add: job_operations_update[OF d'(1)] open_operation_def)
qed

lemma apply_chat_inv:
  assumes "apply_chat cc now d = Inr d'" "campaign_inv d"
  shows "campaign_inv d'"
proof (cases cc)
  case (CreateChatSession s title i c u)
  then have "campaign_frame d d'"
    using assms(1) by (intro frame_quiet)
      (auto simp: create_chat_session_def job_operations_def split: option.splits)
  then show ?thesis using assms(2) by (rule campaign_frame_inv)
next
  case (UpdateChatSessionConfiguration s m r tier at)
  then have "campaign_frame d d'"
    using assms(1) by (intro frame_quiet)
      (auto simp: map_sum_Inr update_chat_session_configuration_def Let_def job_operations_def split: if_splits)
  then show ?thesis using assms(2) by (rule campaign_frame_inv)
qed (use assms in \<open>auto simp: map_sum_Inr intro: chat_deletion_inv campaign_frame_inv cancel_chat_frame
      cancel_auth_frame\<close>)

section \<open>The control plane\<close>

lemma reconcile_frame: "reconcile_expired_jobs now d = Inr (n, d') \<Longrightarrow> campaign_frame d d'"
  by (auto simp: reconcile_expired_jobs_def Let_def intro: fail_all_frame)

lemma quiet_control_frames:
  "request_observation i q at d = Inr (v, d') \<Longrightarrow> campaign_frame d d'"
  "track_runtime_health_observation b at w d = (dc, d') \<Longrightarrow> campaign_frame d d'"
  "cancel_runtime_remediation i at d = Inr d' \<Longrightarrow> campaign_frame d d'"
  "update_instance_public_hostname i hn d = Inr d' \<Longrightarrow> campaign_frame d d'"
  "put_remote_access_resource r d = Inr d' \<Longrightarrow> campaign_frame d d'"
proof -
  show "campaign_frame d d'" if "request_observation i q at d = Inr (v, d')"
    by (rule frame_quiet) (use request_observation_Inr(1-3)[OF that] in \<open>simp_all add: job_operations_def\<close>)
  show "campaign_frame d d'" if t: "track_runtime_health_observation b at w d = (dc, d')"
    using t by (cases rule: track_health_cases)
      (auto simp: clear_remediation_def job_operations_def intro!: frame_quiet)
  show "campaign_frame d d'" if "cancel_runtime_remediation i at d = Inr d'"
    by (rule frame_quiet) (use that in \<open>auto simp: cancel_runtime_remediation_def Let_def job_operations_def\<close>)
  show "campaign_frame d d'" if "update_instance_public_hostname i hn d = Inr d'"
    by (rule frame_quiet)
      (use that in \<open>auto simp: update_instance_public_hostname_def update_instances_Inr job_operations_def\<close>)
  show "campaign_frame d d'" if "put_remote_access_resource r d = Inr d'"
    by (rule frame_quiet)
      (use that in \<open>auto simp: put_remote_access_resource_def job_operations_def split: if_splits\<close>)
qed

text \<open>An operation of the control plane: any type, any status, but a new id.\<close>

lemma control_operation_frame:
  assumes "insert_control_plane_operation op d1 = Inr d'" "db_operations d1 = db_operations d"
    "db_jobs d1 = db_jobs d" "db_campaigns d1 = db_campaigns d"
  shows "campaign_frame d d'"
  using assms
  by (intro frame_insert[of d' d "op\<lparr>op_actor := default_actor (op_actor op),
        op_metadata := default_metadata (op_metadata op)\<rparr>"])
    (auto simp: insert_control_plane_operation_def insert_operation_Inr operation_exists_known
      known_operations_def job_operations_def)

lemma publishing_frame:
  assumes "start_instance_publishing i hn op d = Inr d'"
  shows "campaign_frame d d'"
proof -
  obtain d1 where d1: "insert_control_plane_operation op d1 = Inr d'"
    "update_instances (\<lambda>r. in_id r = i \<and> in_status r \<noteq> InstanceDeleted \<and> in_status r \<noteq> InstanceDeleting)
       (\<lambda>r. r\<lparr>in_public_hostname := hn\<rparr>) d = Inr d1"
    using assms by (auto simp: start_instance_publishing_def Let_def split: sum.splits)
  show ?thesis
    by (rule control_operation_frame[OF d1(1)]) (use d1(2) in \<open>auto simp: update_instances_Inr\<close>)
qed

lemma operation_update_frames:
  "update_control_plane_operation i st p err at d = Inr d' \<Longrightarrow> campaign_frame d d'"
  "finalize_stale_publishing_operation i before st p err at d = Inr (b, d') \<Longrightarrow> campaign_frame d d'"
  "update_instance_deletion_cleanup i oi p err completed at d = Inr d' \<Longrightarrow> campaign_frame d d'"
proof -
  show "campaign_frame d d'" if "update_control_plane_operation i st p err at d = Inr d'"
    using update_control_plane_operation_closed[OF that]
    by (auto simp: campaign_frame_def operation_exists_known job_operations_def)
  show "campaign_frame d d'" if a: "finalize_stale_publishing_operation i before st p err at d = Inr (b, d')"
    by (rule frame_update[where P = "\<lambda>o'. op_id o' = i \<and> stale_publishing before d o'"
          and f = "\<lambda>o'. o'\<lparr>op_status := st, op_progress := Some p, op_error := err, op_updated_at := at\<rparr>"])
      (use a in \<open>auto simp: finalize_stale_publishing_operation_def Let_def job_operations_def
         stale_publishing_def\<close>)
  show "campaign_frame d d'" if a: "update_instance_deletion_cleanup i oi p err completed at d = Inr d'"
    by (rule frame_update[where P = "\<lambda>o'. op_id o' = oi \<and> op_instance_id o' = i \<and> op_type o' = OpDelete
             \<and> op_status o' \<in> {OperationPending, OperationRunning, OperationFailed}"
          and f = "\<lambda>o'. o'\<lparr>op_status := (if completed then OperationSucceeded
                   else if err \<noteq> '''' then OperationFailed else OperationRunning),
                op_progress := Some p, op_error := (if completed then '''' else err), op_updated_at := at\<rparr>"])
      (use a in \<open>auto simp: update_instance_deletion_cleanup_def Let_def update_instances_Inr job_operations_def\<close>)
qed

lemma clean_host_frame:
  assumes "prepare_clean_host_recovery at d = Inr d'"
  shows "campaign_frame d d'"
proof -
  have close: "db_campaigns e' = db_campaigns e \<and> db_operations e' = db_operations e \<and> db_jobs e' = db_jobs e"
    if "close_chat_streams ms at e = Inr e'" for ms e e'
    using that
    by (induction ms at e rule: close_chat_streams.induct)
      (auto dest: closing_event_campaigns append_closing_event_frame)
  obtain d1 where d1: "close_chat_streams (filter (\<lambda>m. unanswered m \<and> me_operation_id m \<noteq> '''')
        (db_messages d)) at (fence_restored_work at d) = Inr d1"
    "update_instances (\<lambda>r. in_status r \<noteq> InstanceDeleted)
       (\<lambda>r. r\<lparr>in_status := InstanceStopped, in_last_error := '''', in_updated_at := at\<rparr>)
       (fail_restored_messages at d1) = Inr d'"
    using assms by (auto simp: prepare_clean_host_recovery_def)
  have kept: "db_campaigns d' = db_campaigns d1" "db_operations d' = db_operations d1" "db_jobs d' = db_jobs d1"
    using d1(2) by (simp_all add: update_instances_Inr fail_restored_messages_def update_messages_def Let_def)
  have jobs: "db_jobs d' = update_where (\<lambda>j. active_job (j_status j)) (abort_row at) (db_jobs d)"
    using kept(3) close[OF d1(1)] by (simp add: fence_restored_work_def)
  show ?thesis
    by (rule frame_update[where P = "\<lambda>o'. open_operation (op_status o')"
          and f = "\<lambda>o'. o'\<lparr>op_status := OperationFailed,
                 op_error := (if op_error o' = '''' then clean_host_reason else op_error o'),
                 op_updated_at := at\<rparr>"])
      (use kept close[OF d1(1)] job_operations_update[OF jobs] in \<open>simp_all add: fence_restored_work_def\<close>)
qed

lemma apply_control_frame:
  assumes "apply_control oc now d = Inr d'"
  shows "campaign_frame d d'"
proof (cases oc)
  case (TrackRuntimeHealth b at w)
  then show ?thesis using assms
    by (intro quiet_control_frames(2)[of b at w d "fst (track_runtime_health_observation b at w d)"]) auto
next
  case (CreateControlPlaneOperation op)
  then show ?thesis using assms
    by (intro control_operation_frame[of op d]) (auto simp: create_control_plane_operation_def)
qed (use assms in \<open>auto simp: map_sum_Inr intro: reconcile_frame quiet_control_frames publishing_frame
      operation_update_frames clean_host_frame\<close>)

section \<open>Hosts, policies and campaigns\<close>

lemma create_campaign_inv:
  assumes c: "create_campaign p is d = Inr d'" and inv: "campaign_inv d"
  shows "campaign_inv d'"
  using c
proof (cases rule: create_campaign_rows)
  case (1 ts q)
  have jobs: "job_operations d' = job_operations d"
    by (rule job_operations_cong) (use c in \<open>auto simp: create_campaign_def insert_control_plane_operation_def
        insert_operation_Inr dest!: insert_campaign_targets_Inr(4)\<close>)
  have "op_id p \<notin> job_operations d"
    using inv 1(9) unfolding campaign_inv_def operation_exists_known by blast
  moreover have "known_operations d \<subseteq> known_operations d'" by (auto simp: known_operations_def 1(7))
  ultimately show ?thesis
    using create_campaign_ok[OF c] inv 1(1,4) unfolding campaign_inv_def jobs by auto
qed

text \<open>Rewritten targets keep their campaign and their instance.\<close>

lemma campaign_rows_inv:
  assumes inv: "campaign_inv d" and ok: "campaigns_ok d'"
    and ids: "map cm_campaign_id (db_campaigns d') = map cm_campaign_id (db_campaigns d)"
    and same: "db_jobs d' = db_jobs d" "db_operations d' = db_operations d"
  shows "campaign_inv d'"
proof -
  have "cm_campaign_id ` set (db_campaigns d') = cm_campaign_id ` set (db_campaigns d)"
    using arg_cong[OF ids, of set] by simp
  then have "\<forall>t \<in> set (db_campaigns d'). cm_campaign_id t \<notin> job_operations d"
    using inv unfolding campaign_inv_def by (auto dest!: equalityD1 simp: image_subset_iff)
  then show ?thesis
    using inv ok job_operations_cong[OF same(1)] unfolding campaign_inv_def known_operations_def same(2)
    by simp
qed

lemma start_observation_inv:
  assumes "start_campaign_observation c i request at d = Inr d'" "campaign_inv d"
  shows "campaign_inv d'"
proof -
  have ok: "campaigns_ok d" using assms(2) by (simp add: campaign_inv_def)
  obtain q d1 hit where d1: "request_observation i request at d = Inr (q, d1)"
    and d': "d' = d1\<lparr>db_campaigns := update_where hit
                 (\<lambda>t. t\<lparr>cm_request_id := request, cm_status := TargetRunning,
                        cm_detail := ''Waiting for a fresh Host Agent observation'',
                        cm_requested_at := Some at, cm_completed_at := None, cm_updated_at := at\<rparr>)
                 (db_campaigns d1)\<rparr>"
    using assms(1) by (auto simp: start_campaign_observation_def Let_def split: option.splits)
  note f = request_observation_Inr(1-3)[OF d1]
  have "map cm_campaign_id (update_where hit (\<lambda>t. t\<lparr>cm_request_id := request, cm_status := TargetRunning,
        cm_detail := ''Waiting for a fresh Host Agent observation'', cm_requested_at := Some at,
        cm_completed_at := None, cm_updated_at := at\<rparr>) (db_campaigns d)) = map cm_campaign_id (db_campaigns d)"
    by (rule map_update_where) simp
  then have "map cm_campaign_id (db_campaigns d') = map cm_campaign_id (db_campaigns d)"
    by (simp add: d' f(2))
  then show ?thesis
    by (rule campaign_rows_inv[OF assms(2) start_campaign_observation_ok[OF assms(1) ok]])
      (use f in \<open>simp_all add: d'\<close>)
qed

lemma finish_target_inv:
  assumes "finish_campaign_target c i request status detail at d = Inr d'" "campaign_inv d"
  shows "campaign_inv d'"
proof -
  have ok: "campaigns_ok d" using assms(2) by (simp add: campaign_inv_def)
  have d': "db_campaigns d' = update_where (\<lambda>t. same_campaign_target c i t
        \<and> (cm_status t = TargetPending \<or> cm_status t = TargetRunning))
      (\<lambda>t. t\<lparr>cm_status := status, cm_detail := detail, cm_completed_at := Some at, cm_updated_at := at\<rparr>)
      (db_campaigns d)"
    "db_operations d' = db_operations d" "db_jobs d' = db_jobs d"
    using assms(1) by (auto simp: finish_campaign_target_def Let_def split: if_splits)
  have "map cm_campaign_id (db_campaigns d') = map cm_campaign_id (db_campaigns d)"
    unfolding d'(1) by (rule map_update_where) simp
  then show ?thesis
    by (rule campaign_rows_inv[OF assms(2) finish_campaign_target_ok[OF assms(1) ok] _ d'(3,2)])
qed

lemma policy_frames:
  "write_policy create p d = Inr d' \<Longrightarrow> campaign_frame d d'"
  "delete_policy i d = Inr d' \<Longrightarrow> campaign_frame d d'"
  "create_policy_rollout op policy is d = Inr d' \<Longrightarrow> campaign_frame d d'"
  "update_policy_rollout_control ri ex m pr at d = Inr d' \<Longrightarrow> campaign_frame d d'"
  "update_policy_rollout_target ri i ch ts dt at d = Inr d' \<Longrightarrow> campaign_frame d d'"
proof -
  have scope: "db_campaigns e' = db_campaigns e \<and> db_operations e' = db_operations e \<and> db_jobs e' = db_jobs e"
    if "write_policy_scope pid js e = Inr e'" for pid js e e'
    using that by (induction pid js e rule: write_policy_scope.induct) (auto split: if_splits)
  show "campaign_frame d d'" if "write_policy create p d = Inr d'"
    by (rule frame_quiet)
      (use that in \<open>auto simp: write_policy_def job_operations_def split: if_splits dest!: scope\<close>)
  show "campaign_frame d d'" if "delete_policy i d = Inr d'"
    by (rule frame_quiet) (use that in \<open>auto simp: delete_policy_def job_operations_def\<close>)
  have targets: "db_campaigns e' = db_campaigns e \<and> db_operations e' = db_operations e \<and> db_jobs e' = db_jobs e"
    if "insert_rollout_targets op pid js e = Inr e'" for pid js e e'
    using that by (induction op pid js e rule: insert_rollout_targets.induct) auto
  show "campaign_frame d d'" if a: "create_policy_rollout op policy is d = Inr d'"
  proof -
    obtain d1 where d1: "insert_control_plane_operation op d = Inr d1"
      "insert_rollout_targets op policy is d1 = Inr d'"
      using a by (auto simp: create_policy_rollout_def)
    have "campaign_frame d1 d'"
      by (rule frame_quiet) (use targets[OF d1(2)] in \<open>simp_all add: job_operations_def\<close>)
    then show ?thesis using control_operation_frame[OF d1(1)] campaign_frame_trans by blast
  qed
  show "campaign_frame d d'" if a: "update_policy_rollout_control ri ex m pr at d = Inr d'"
  proof -
    obtain P where d': "d' = d\<lparr>db_operations := update_where P
        (\<lambda>o'. o'\<lparr>op_metadata := Some m, op_progress := Some pr, op_updated_at := at\<rparr>) (db_operations d)\<rparr>"
      using a by (auto simp: update_policy_rollout_control_def Let_def)
    show ?thesis
      by (rule frame_update[where P = P and f = "\<lambda>o'. o'\<lparr>op_metadata := Some m, op_progress := Some pr,
            op_updated_at := at\<rparr>"]) (simp_all add: d' job_operations_def)
  qed
  show "campaign_frame d d'" if "update_policy_rollout_target ri i ch ts dt at d = Inr d'"
    by (rule frame_quiet)
      (use that in \<open>auto simp: update_policy_rollout_target_def Let_def job_operations_def split: if_splits\<close>)
qed

lemma host_frames:
  "enroll_host h t d = Inr d' \<Longrightarrow> campaign_frame d d'"
  "rotate_host_credential hi n hn os a t d = Inr d' \<Longrightarrow> campaign_frame d d'"
  "record_fleet_health co s dt at d = Inr d' \<Longrightarrow> campaign_frame d d'"
  by (rule frame_quiet; auto simp: enroll_host_def rotate_host_credential_def record_fleet_health_def
      job_operations_def Let_def split: if_splits option.splits)+

lemma apply_fleet_inv:
  assumes "apply_fleet fc now d = Inr d'" "campaign_inv d"
  shows "campaign_inv d'"
proof -
  consider (frame) "campaign_frame d d'" | (create) op "is" where "fc = CreateCampaign op is"
    | (start) c i q at where "fc = StartCampaignObservation c i q at"
    | (finish) c i q s dt at where "fc = FinishCampaignTarget c i q s dt at"
    using assms(1) by (cases fc) (auto intro: policy_frames host_frames)
  then show ?thesis
  proof cases
    case frame
    then show ?thesis using assms(2) by (rule campaign_frame_inv)
  qed (use assms create_campaign_inv start_observation_inv finish_target_inv in auto)
qed

section \<open>Every run\<close>

lemma apply_call_campaigns:
  assumes "apply_call c now d = Inr d'" "campaign_inv d"
  shows "campaign_inv d'"
  using assms
  by (cases c) (auto intro: campaign_frame_inv apply_queue_frame apply_agent_frame apply_control_frame
      apply_chat_inv apply_fleet_inv)

lemma reachable_campaigns: "reachable now d \<Longrightarrow> campaign_inv d"
proof (induction rule: reachable.induct)
  case (Init now)
  show ?case
    by (simp add: campaign_inv_def campaigns_ok_def active_campaign_targets_def job_operations_def empty_db_def)
qed (rule apply_call_campaigns)

end
