(* ===== verification/Properties_Fleet.thy ===== *)
theory Properties_Fleet
  imports Campaign_Runs Sample_Runs
begin

text \<open>
  Properties of the work that spans instances: campaigns exclude each other on an instance, a
  rollout locks its policy, and the health history stays bounded.
\<close>

section \<open>Campaigns\<close>

text \<open>C28. Campaigns exclude each other: in every database the store's calls can reach, with requests,
  claims, completions, rollouts, chats and deletions in any order around the campaigns, an instance is
  a target of at most one campaign whose operation is still open, and a new campaign over an
  instance of an open one is refused as a whole.\<close>

theorem campaigns_exclusive:
  assumes "reachable now d"
  shows "count_where (\<lambda>t. cm_instance_id t = i \<and> campaign_active d (cm_campaign_id t)) (db_campaigns d) \<le> 1
     \<and> (active_campaign_targets i d = 1 \<longrightarrow> i \<in> set is \<longrightarrow> (\<exists>e. create_campaign p is d = Inl e))"
proof -
  have "active_campaign_targets i d = 0" if "i \<in> set is" "create_campaign p is d = Inr d'" for d'
    using that(2) by (rule create_campaign_rows) (use that(1) in blast)
  then show ?thesis
    using reachable_campaigns[OF assms]
    by (cases "create_campaign p is d")
      (auto simp: campaign_inv_def campaigns_ok_def active_campaign_targets_def)
qed

definition campaign_operation :: "string \<Rightarrow> operation" where
  "campaign_operation i = (sample_operation i OpCampaign 3)\<lparr>op_instance_id := ''''\<rparr>"

text \<open>A campaign is created while a job runs; then a second instance is requested and the job renewed.\<close>

definition campaign_calls :: "(timestamp \<times> store_call) list" where
  "campaign_calls =
     [(220, Fleet (CreateCampaign (campaign_operation ''c1'') [''i1''])),
      (230, Queue (CreateInstance second_instance (sample_operation ''o2'' (OpOther ''PROVISION'') 230)
         (request ''j2'' JobProvision (Some (JObject []))))),
      (240, Agent (RenewJob 100 ''h1'' ''j1'' ''t2''))]"

definition campaign_fleet :: db where
  "campaign_fleet = (case play campaign_calls work_fleet of None \<Rightarrow> empty_db | Some d \<Rightarrow> d)"

lemma campaign_reachable: "reachable 240 campaign_fleet"
proof -
  have "timely 210 campaign_calls" "last_time 210 campaign_calls = 240"
    "play campaign_calls work_fleet = Some campaign_fleet" by code_simp+
  then show ?thesis using play_reachable[OF work_reachable] by metis
qed

theorem campaigns_exclusive_witness:
  "active_campaign_targets ''i1'' campaign_fleet = 1 \<and> length (db_jobs campaign_fleet) = 2
   \<and> (\<exists>e. create_campaign (campaign_operation ''c2'') [''i2'', ''i1''] campaign_fleet = Inl e)"
proof -
  have one: "active_campaign_targets ''i1'' campaign_fleet = 1" "length (db_jobs campaign_fleet) = 2"
    by code_simp+
  have "''i1'' \<in> set [''i2'', ''i1'']" by simp
  then show ?thesis
    using one campaigns_exclusive[OF campaign_reachable, of "''i1''" "[''i2'', ''i1'']"
        "campaign_operation ''c2''"] by blast
qed

section \<open>Rollouts\<close>

text \<open>An active rollout locks its policy: until its operation ends, a second rollout, a change of
  the policy and its deletion are refused with these errors, and a new rollout of an idle policy
  makes exactly one active.\<close>

theorem rollout_locks_policy:
  shows "(active_rollouts policy d \<noteq> 0 \<longrightarrow>
       create_policy_rollout p policy is d = Inl (ErrMessage ''policy already has an active rollout'')
       \<and> (po_id q = policy \<longrightarrow>
            write_policy False q d = Inl (ErrMessage ''policy cannot be changed while a rollout is active''))
       \<and> delete_policy policy d = Inl ErrNotFound)
     \<and> (create_policy_rollout p policy is d = Inr d' \<longrightarrow> metadata_text ''policy_id'' p = Some policy \<longrightarrow>
          op_type p = OpRolloutPolicy \<longrightarrow> open_operation (op_status p) \<longrightarrow> active_rollouts policy d' = 1)"
proof -
  have "active_rollouts policy d' = 1"
    if "create_policy_rollout p policy is d = Inr d'" "metadata_text ''policy_id'' p = Some policy"
      "op_type p = OpRolloutPolicy" "open_operation (op_status p)"
    using create_policy_rollout_metadata[OF that(1,2), of policy] create_policy_rollout_Inr(1)[OF that(1)] that
    by simp
  then show ?thesis
    by (auto simp: create_policy_rollout_def write_policy_def delete_policy_def guard_def)
qed

definition rollout_operation :: operation where
  "rollout_operation = (sample_operation ''r1'' OpRolloutPolicy 3)\<lparr>op_instance_id := '''',
     op_metadata := Some (Some (JObject [(''policy_id'', JString ''p1'')]))\<rparr>"

definition rollout_fleet :: db where
  "rollout_fleet = after (create_policy_rollout rollout_operation ''p1'' [''i1''] idle_fleet) idle_fleet"

theorem rollout_locks_policy_witness:
  "active_rollouts ''p1'' rollout_fleet = 1 \<and> delete_policy ''p1'' rollout_fleet = Inl ErrNotFound"
proof -
  have "create_policy_rollout rollout_operation ''p1'' [''i1''] idle_fleet = Inr rollout_fleet"
    "metadata_text ''policy_id'' rollout_operation = Some ''p1''"
    "op_type rollout_operation = OpRolloutPolicy" "open_operation (op_status rollout_operation)"
    by code_simp+
  then have "active_rollouts ''p1'' rollout_fleet = 1" using rollout_locks_policy by blast
  then show ?thesis using rollout_locks_policy[of "''p1''" rollout_fleet] by simp
qed

section \<open>Health history\<close>

text \<open>The health checks of a run, refused ones left out.\<close>

fun record_all :: "(string \<times> string \<times> string \<times> timestamp) list \<Rightarrow> db \<Rightarrow> db" where
  "record_all [] d = d"
| "record_all ((c, s, detail, at) # rs) d =
     record_all rs (case record_fleet_health c s detail at d of Inl _ \<Rightarrow> d | Inr d' \<Rightarrow> d')"

lemma record_all_ok: "incidents_ok d \<Longrightarrow> incidents_ok (record_all rs d)"
proof (induction rs d rule: record_all.induct)
  case (2 c s detail at rs d)
  have "incidents_ok (case record_fleet_health c s detail at d of Inl _ \<Rightarrow> d | Inr d' \<Rightarrow> d')"
    using 2(2) record_fleet_health_ok[OF _ 2(2)] by (auto split: sum.split)
  then show ?case using 2(1) by simp
qed simp

text \<open>However many health checks are recorded, the history keeps at most 200 incidents with
  distinct ids, and a list of them of any admitted limit is answered without error.\<close>

theorem health_history_bounded:
  assumes "db_incidents d = []"
  shows "length (db_incidents (record_all rs d)) \<le> 200
     \<and> distinct (map ic_id (db_incidents (record_all rs d)))
     \<and> (1 \<le> limit \<and> limit \<le> 200 \<longrightarrow> (\<exists>xs. list_fleet_health_incidents limit (record_all rs d) = Inr xs
          \<and> int (length xs) \<le> limit \<and> set xs \<subseteq> set (db_incidents (record_all rs d))))"
proof -
  have "incidents_ok (record_all rs d)"
    by (rule record_all_ok) (simp add: incidents_ok_def assms)
  moreover have "set (take n (newest_incidents rows)) \<subseteq> set rows" for n rows
    using set_take_subset by (fastforce simp: newest_incidents_def)
  ultimately show ?thesis
    by (auto simp: incidents_ok_def fleet_health_incident_retention_def list_fleet_health_incidents_def guard_def)
qed

theorem health_history_bounded_witness:
  "length (db_incidents (record_all [(''store'', ''healthy'', '''', 1), (''store'', ''degraded'', ''x'', 2)] idle_fleet)) = 2
   \<and> length (db_incidents (record_all [(''store'', ''healthy'', '''', 1), (''store'', ''degraded'', ''x'', 2)] idle_fleet)) \<le> 200"
proof -
  have "db_incidents idle_fleet = []" by code_simp
  moreover have "length (db_incidents (record_all [(''store'', ''healthy'', '''', 1),
      (''store'', ''degraded'', ''x'', 2)] idle_fleet)) = 2" by code_simp
  ultimately show ?thesis using health_history_bounded by blast
qed

end
