(* ===== verification/Recovery_Codec.thy ===== *)
theory Recovery_Codec
  imports Go_Sha256
begin

text \<open>
  \<open>internal/recoverycodec/codec.go\<close>: the encrypted stream of a recovery point, with the chunk
  framing, nonces, associated data and the key derivation of the code. The AES-256-GCM seal and
  open functions are arguments (\<open>crypto/cipher\<close>); what the format relies on are their laws, that
  opening undoes sealing and that a tag has 16 bytes. A reader is the list of its bytes, a writer
  the list of the bytes written, which an error leaves in place; both work without I/O errors.
  The context is a predicate on the chunk counter.
\<close>

type_synonym bytes = "nat list"

type_synonym seal = "bytes \<Rightarrow> bytes \<Rightarrow> bytes \<Rightarrow> bytes \<Rightarrow> bytes"

type_synonym unseal = "bytes \<Rightarrow> bytes \<Rightarrow> bytes \<Rightarrow> bytes \<Rightarrow> bytes option"

datatype codec_error =
    BadKey
  | BadPrefix
  | Canceled
  | TooManyChunks
  | BadHeader
  | ShortHeader
  | ShortLength
  | BadLength
  | ShortChunk
  | AuthenticationFailed
  | TrailingData

type_synonym 'a written = "bytes \<times> (codec_error + 'a)"

section \<open>Framing\<close>

definition chunk_size :: nat where
  "chunk_size = 1048576"

definition gcm_overhead :: nat where
  "gcm_overhead = 16"

definition magic_v1 :: bytes where
  "magic_v1 = map byte_of ''HFRP0001''"

definition magic_v2 :: bytes where
  "magic_v2 = map byte_of ''HFRP0002''"

definition be32 :: "w32 \<Rightarrow> bytes" where
  "be32 w = bytes_be 4 (uint w)"

definition make_nonce :: "bytes \<Rightarrow> w32 \<Rightarrow> bytes" where
  "make_nonce prefix counter = take 8 (prefix @ replicate 8 0) @ be32 counter"

definition make_aad :: "bytes \<Rightarrow> w32 \<Rightarrow> w32 \<Rightarrow> bytes" where
  "make_aad context counter n = context @ be32 counter @ be32 n"

definition make_aad_v2 :: "bytes \<Rightarrow> bytes \<Rightarrow> w32 \<Rightarrow> w32 \<Rightarrow> bytes" where
  "make_aad_v2 header context counter n = header @ context @ be32 counter @ be32 n"

section \<open>Keys\<close>

definition hmac_block :: "bytes \<Rightarrow> bytes" where
  "hmac_block key = (let k = (if length key > 64 then sha256 key else key)
     in k @ replicate (64 - length k) 0)"

definition hmac_sha256 :: "bytes \<Rightarrow> bytes \<Rightarrow> bytes" where
  "hmac_sha256 key message =
     (let k = hmac_block key
      in sha256 (map (\<lambda>b. b XOR 92) k @ sha256 (map (\<lambda>b. b XOR 54) k @ message)))"

definition derive_stream_key :: "bytes \<Rightarrow> bytes \<Rightarrow> bytes \<Rightarrow> bytes" where
  "derive_stream_key master salt associated =
     hmac_sha256 (hmac_sha256 salt master)
       (map byte_of ''hermes-fleet-recovery-v2'' @ [0] @ associated @ [1])"

definition new_aead :: "bytes \<Rightarrow> codec_error + bytes" where
  "new_aead key = (if length key \<noteq> 32 then Inl BadKey else Inr key)"

section \<open>Encryption\<close>

function encrypt_chunks ::
    "seal \<Rightarrow> (w32 \<Rightarrow> bool) \<Rightarrow> bytes \<Rightarrow> bytes \<Rightarrow> (w32 \<Rightarrow> w32 \<Rightarrow> bytes) \<Rightarrow> w32 \<Rightarrow> bytes \<Rightarrow> int
      \<Rightarrow> int written" where
  "encrypt_chunks seal canceled key prefix aad counter source acc =
     (if canceled counter then ([], Inl Canceled)
      else let chunk = take chunk_size source; n = word_of_nat (length chunk) in
        if chunk \<noteq> [] \<and> counter = NOT 0 then ([], Inl TooManyChunks)
        else let out = (if chunk = [] then []
               else be32 n @ seal key (make_nonce prefix counter) chunk (aad counter n));
             done' = acc + int (length chunk)
          in if length chunk < chunk_size then (out @ [0, 0, 0, 0], Inr done')
             else let (rest, r) = encrypt_chunks seal canceled key prefix aad (counter + 1)
                        (drop chunk_size source) done'
                  in (out @ rest, r))"
  by pat_completeness auto
termination
  by (relation "measure (\<lambda>(_, _, _, _, _, _, source, _). length source)")
    (auto simp: chunk_size_def)

declare encrypt_chunks.simps [simp del]

text \<open>\<open>salt\<close> are the 16 random bytes of the header.\<close>

definition encrypt ::
    "seal \<Rightarrow> (w32 \<Rightarrow> bool) \<Rightarrow> bytes \<Rightarrow> bytes \<Rightarrow> bytes \<Rightarrow> bytes \<Rightarrow> int written" where
  "encrypt seal canceled salt key associated source =
     (if length key \<noteq> 32 then ([], Inl BadKey)
      else let header = magic_v2 @ salt in
        case new_aead (derive_stream_key key salt associated) of
          Inl e \<Rightarrow> ([], Inl e)
        | Inr k \<Rightarrow>
            let (out, r) = encrypt_chunks seal canceled k [] (make_aad_v2 header associated) 0 source 0
            in (header @ out, r))"

definition encrypt_v1 ::
    "seal \<Rightarrow> (w32 \<Rightarrow> bool) \<Rightarrow> bytes \<Rightarrow> bytes \<Rightarrow> bytes \<Rightarrow> bytes \<Rightarrow> int written" where
  "encrypt_v1 seal canceled prefix key associated source =
     (if length prefix \<noteq> 8 then ([], Inl BadPrefix)
      else case new_aead key of
          Inl e \<Rightarrow> ([], Inl e)
        | Inr k \<Rightarrow>
            let (out, r) = encrypt_chunks seal canceled k prefix (make_aad associated) 0 source 0
            in (magic_v1 @ prefix @ out, r))"

section \<open>Decryption\<close>

function decrypt_chunks ::
    "unseal \<Rightarrow> (w32 \<Rightarrow> bool) \<Rightarrow> bytes \<Rightarrow> bytes \<Rightarrow> (w32 \<Rightarrow> w32 \<Rightarrow> bytes) \<Rightarrow> w32 \<Rightarrow> bytes \<Rightarrow> int
      \<Rightarrow> int written" where
  "decrypt_chunks unseal canceled key prefix aad counter source acc =
     (if canceled counter then ([], Inl Canceled)
      else if length source < 4 then ([], Inl ShortLength)
      else let n = word_of_bytes (take 4 source); rest = drop 4 source in
        if n = 0 then ([], if rest \<noteq> [] then Inl TrailingData else Inr acc)
        else if unat n > chunk_size then ([], Inl BadLength)
        else let size = unat n + gcm_overhead in
          if length rest < size then ([], Inl ShortChunk)
          else case unseal key (make_nonce prefix counter) (take size rest) (aad counter n) of
              None \<Rightarrow> ([], Inl AuthenticationFailed)
            | Some plain \<Rightarrow>
                let (out, r) = decrypt_chunks unseal canceled key prefix aad (counter + 1)
                      (drop size rest) (acc + int (length plain))
                in (plain @ out, r))"
  by pat_completeness auto
termination
  by (relation "measure (\<lambda>(_, _, _, _, _, _, source, _). length source)") auto

declare decrypt_chunks.simps [simp del]

definition decrypt ::
    "unseal \<Rightarrow> (w32 \<Rightarrow> bool) \<Rightarrow> bytes \<Rightarrow> bytes \<Rightarrow> bytes \<Rightarrow> int written" where
  "decrypt unseal canceled key associated source =
     (if length source < 8 then ([], Inl ShortHeader)
      else let magic = take 8 source; rest = drop 8 source in
        if magic = magic_v1 then
          (if length rest < 8 then ([], Inl ShortHeader)
           else case new_aead key of
               Inl e \<Rightarrow> ([], Inl e)
             | Inr k \<Rightarrow> decrypt_chunks unseal canceled k (take 8 rest) (make_aad associated) 0 (drop 8 rest) 0)
        else if magic = magic_v2 then
          (if length rest < 16 then ([], Inl ShortHeader)
           else if length key \<noteq> 32 then ([], Inl BadKey)
           else case new_aead (derive_stream_key key (take 16 rest) associated) of
               Inl e \<Rightarrow> ([], Inl e)
             | Inr k \<Rightarrow> decrypt_chunks unseal canceled k []
                 (make_aad_v2 (magic @ take 16 rest) associated) 0 (drop 16 rest) 0)
        else ([], Inl BadHeader))"

section \<open>Numbers\<close>

lemma be32_digits:
  "be32 w = map (\<lambda>k. nat (uint w div 256 ^ (3 - k) mod 256)) [0, 1, 2, 3]"
proof -
  have "[0..<4] = [0, 1, 2, 3 :: nat]" by (simp add: upt_rec)
  then show ?thesis by (simp add: be32_def bytes_be_def)
qed

lemma length_be32 [simp]: "length (be32 w) = 4"
  by (simp add: be32_digits)

lemma word_of_be32 [simp]: "word_of_bytes (be32 w) = w"
proof -
  let ?x = "uint w"
  have x: "0 \<le> ?x" "?x < 2 ^ 32" using uint_bounded[of w] by simp_all
  have "word_of_bytes (be32 w) =
      word_of_int (((?x div 256 ^ 3 mod 256 * 256 + ?x div 256 ^ 2 mod 256) * 256 + ?x div 256 mod 256) * 256 + ?x mod 256)"
    by (simp add: be32_digits word_of_bytes_def of_nat_nat mult.commute del: word_of_int_uint)
  also have "(((?x div 256 ^ 3 mod 256 * 256 + ?x div 256 ^ 2 mod 256) * 256 + ?x div 256 mod 256) * 256 + ?x mod 256) = ?x"
  proof -
    let ?a = "?x div 256" let ?b = "?a div 256" let ?c = "?b div 256"
    have "?x div 256 ^ 2 = ?b" "?x div 256 ^ 3 = ?c" by (simp_all add: zdiv_zmult2_eq[symmetric])
    moreover have "?c mod 256 = ?c"
      using x by (intro mod_pos_pos_trivial)
        (simp_all add: zdiv_zmult2_eq[symmetric] div_less_iff_less_mult pos_imp_zdiv_nonneg_iff)
    ultimately show ?thesis by (simp add: mult.commute[of _ 256])
  qed
  finally show ?thesis by simp
qed

section \<open>The frames of a stream\<close>

definition frame :: "seal \<Rightarrow> bytes \<Rightarrow> bytes \<Rightarrow> (w32 \<Rightarrow> w32 \<Rightarrow> bytes) \<Rightarrow> w32 \<Rightarrow> bytes \<Rightarrow> bytes" where
  "frame seal key prefix aad counter chunk =
     be32 (word_of_nat (length chunk))
       @ seal key (make_nonce prefix counter) chunk (aad counter (word_of_nat (length chunk)))"

fun frames :: "seal \<Rightarrow> bytes \<Rightarrow> bytes \<Rightarrow> (w32 \<Rightarrow> w32 \<Rightarrow> bytes) \<Rightarrow> w32 \<Rightarrow> bytes list \<Rightarrow> bytes" where
  "frames seal key prefix aad counter [] = []"
| "frames seal key prefix aad counter (c # cs) =
     frame seal key prefix aad counter c @ frames seal key prefix aad (counter + 1) cs"

definition chunk_ok :: "bytes \<Rightarrow> bool" where
  "chunk_ok c \<longleftrightarrow> c \<noteq> [] \<and> length c \<le> chunk_size"

text \<open>The laws of the cipher.\<close>

definition opens :: "seal \<Rightarrow> unseal \<Rightarrow> bool" where
  "opens seal unseal \<longleftrightarrow> (\<forall>k n p a. unseal k n (seal k n p a) a = Some p
     \<and> length (seal k n p a) = length p + gcm_overhead)"

definition authentic :: "seal \<Rightarrow> unseal \<Rightarrow> bool" where
  "authentic seal unseal \<longleftrightarrow> (\<forall>k n c a p. unseal k n c a = Some p \<longrightarrow> c = seal k n p a)"

lemma chunk_length_word:
  assumes "length c \<le> chunk_size"
  shows "unat (word_of_nat (length c) :: w32) = length c"
  using assms by (simp add: unat_of_nat chunk_size_def take_bit_nat_def)

lemma chunk_length_zero:
  assumes "chunk_ok c"
  shows "(word_of_nat (length c) :: w32) \<noteq> 0"
  using assms chunk_length_word[of c] by (auto simp: chunk_ok_def)

text \<open>Encryption writes the frames of some chunks of the source and the terminator.\<close>

lemma encrypt_chunks_frames:
  assumes "encrypt_chunks seal canceled key prefix aad counter source acc = (out, Inr n)"
  shows "\<exists>cs. out = frames seal key prefix aad counter cs @ [0, 0, 0, 0] \<and> concat cs = source
     \<and> (\<forall>c \<in> set cs. chunk_ok c) \<and> n = acc + int (length source)"
  using assms
proof (induction seal canceled key prefix aad counter source acc arbitrary: out n rule: encrypt_chunks.induct)
  case (1 seal canceled key prefix aad counter source acc)
  let ?c = "take chunk_size source"
  have live: "\<not> canceled counter" and room: "\<not> (?c \<noteq> [] \<and> counter = NOT 0)"
    using "1.prems" by (auto simp: encrypt_chunks.simps[of seal] Let_def split: if_splits)
  show ?case
  proof (cases "length ?c < chunk_size")
    case True
    then have c: "?c = source" by simp
    show ?thesis
    proof (cases "source = []")
      case True
      then show ?thesis using "1.prems" live room
        by (auto simp: encrypt_chunks.simps[of seal] Let_def chunk_size_def intro!: exI[of _ "[]"])
    next
      case False
      have "chunk_ok source" using False True c by (auto simp: chunk_ok_def)
      then show ?thesis using "1.prems" live room True c False
        by (auto simp: encrypt_chunks.simps[of seal] Let_def frame_def intro!: exI[of _ "[source]"])
    qed
  next
    case False
    then have ok: "chunk_ok ?c" by (auto simp: chunk_ok_def chunk_size_def)
    obtain rest r where rest: "encrypt_chunks seal canceled key prefix aad (counter + 1) (drop chunk_size source)
        (acc + int (length ?c)) = (rest, r)" by fastforce
    have "out = frame seal key prefix aad counter ?c @ rest" "r = Inr n"
      using "1.prems" live room False ok rest
      by (auto simp: encrypt_chunks.simps[of seal canceled key prefix aad counter] Let_def frame_def chunk_ok_def)
    then obtain cs where "rest = frames seal key prefix aad (counter + 1) cs @ [0, 0, 0, 0]"
      "concat cs = drop chunk_size source" "\<forall>c \<in> set cs. chunk_ok c"
      "n = acc + int (length ?c) + int (length (drop chunk_size source))"
      using "1.IH"[OF live refl refl room refl refl False, of rest n] rest by blast
    then show ?thesis using \<open>out = _\<close> ok False
      by (intro exI[of _ "?c # cs"]) (auto simp: min_def)
  qed
qed

lemma decrypt_frame:
  assumes "opens seal unseal" "chunk_ok c"
  shows "decrypt_chunks unseal (\<lambda>_. False) key prefix aad counter (frame seal key prefix aad counter c @ s) acc
     = (let (out, r) = decrypt_chunks unseal (\<lambda>_. False) key prefix aad (counter + 1) s (acc + int (length c))
        in (c @ out, r))"
proof -
  let ?n = "word_of_nat (length c) :: w32"
  let ?s = "seal key (make_nonce prefix counter) c (aad counter ?n)"
  have n: "?n \<noteq> 0" "unat ?n = length c" "\<not> chunk_size < length c"
    using assms(2) chunk_length_zero[OF assms(2)] chunk_length_word[of c] by (auto simp: chunk_ok_def)
  have s: "length ?s = length c + gcm_overhead" "unseal key (make_nonce prefix counter) ?s (aad counter ?n) = Some c"
    using assms(1) by (simp_all add: opens_def)
  show ?thesis
    by (simp add: decrypt_chunks.simps[of unseal _ key prefix aad counter] frame_def n s Let_def)
qed

lemma decrypt_end:
  "decrypt_chunks unseal (\<lambda>_. False) key prefix aad counter [0, 0, 0, 0] acc = ([], Inr acc)"
  by (simp add: decrypt_chunks.simps[of unseal] word_of_bytes_def)

lemma decrypt_frames:
  assumes "opens seal unseal" "\<forall>c \<in> set cs. chunk_ok c"
  shows "decrypt_chunks unseal (\<lambda>_. False) key prefix aad counter
       (frames seal key prefix aad counter cs @ [0, 0, 0, 0]) acc
     = (concat cs, Inr (acc + int (length (concat cs))))"
  using assms(2)
proof (induction cs arbitrary: counter acc)
  case Nil
  then show ?case by (simp add: decrypt_end)
next
  case (Cons c cs)
  then show ?case by (simp add: decrypt_frame[OF assms(1)])
qed

text \<open>A stream that was cut off is noticed, and what was written of it is right.\<close>

lemma decrypt_cut:
  assumes "opens seal unseal" "\<forall>c \<in> set cs. chunk_ok c"
    and "s @ t = frames seal key prefix aad counter cs @ [0, 0, 0, 0]" "t \<noteq> []"
  shows "\<exists>k e. decrypt_chunks unseal (\<lambda>_. False) key prefix aad counter s acc = (concat (take k cs), Inl e)"
  using assms(2,3)
proof (induction cs arbitrary: counter acc s)
  case Nil
  then have "length (s @ t) = 4" by simp
  then have "length s < 4" using assms(4) by (cases t) auto
  then show ?case by (simp add: decrypt_chunks.simps[of unseal])
next
  case (Cons c cs)
  let ?n = "word_of_nat (length c) :: w32"
  let ?f = "frame seal key prefix aad counter c"
  let ?s = "seal key (make_nonce prefix counter) c (aad counter ?n)"
  have c: "chunk_ok c" using Cons.prems(1) by simp
  have n: "?n \<noteq> 0" "unat ?n = length c" "\<not> chunk_size < length c"
    using c chunk_length_zero[OF c] chunk_length_word[of c] by (auto simp: chunk_ok_def)
  have f: "length ?f = 4 + (length c + gcm_overhead)" "take 4 ?f = be32 ?n"
    using assms(1) by (simp_all add: frame_def opens_def)
  have eq: "s @ t = ?f @ frames seal key prefix aad (counter + 1) cs @ [0, 0, 0, 0]"
    using Cons.prems(2) by simp
  show ?case
  proof (cases "length ?f \<le> length s")
    case True
    define s' where "s' = drop (length ?f) s"
    have "take (length ?f) s = take (length ?f) (s @ t)" using True by simp
    also have "\<dots> = ?f" unfolding eq by simp
    finally have s1: "s = ?f @ s'" unfolding s'_def by (metis append_take_drop_id)
    then have s2: "s' @ t = frames seal key prefix aad (counter + 1) cs @ [0, 0, 0, 0]"
      using eq by (metis append_assoc same_append_eq)
    obtain k e where "decrypt_chunks unseal (\<lambda>_. False) key prefix aad (counter + 1) s'
        (acc + int (length c)) = (concat (take k cs), Inl e)"
      using Cons.IH[OF _ s2, of "acc + int (length c)"] Cons.prems(1) by auto
    then show ?thesis by (intro exI[of _ "Suc k"]) (simp add: s1 decrypt_frame[OF assms(1) c])
  next
    case False
    have cut: "take 4 s = be32 ?n" if "\<not> length s < 4"
    proof -
      have "take 4 s = take 4 (s @ t)" using that by simp
      also have "\<dots> = be32 ?n" using f by (simp add: eq)
      finally show ?thesis .
    qed
    have "decrypt_chunks unseal (\<lambda>_. False) key prefix aad counter s acc
        = ([], Inl (if length s < 4 then ShortLength else ShortChunk))"
      using False f(1) by (cases "length s < 4") (auto simp: decrypt_chunks.simps[of unseal] cut n Let_def)
    then show ?thesis by (intro exI[of _ 0]) auto
  qed
qed

section \<open>Authentic streams\<close>

lemma be32_word_of_bytes:
  assumes "length b = 4" "\<forall>x \<in> set b. x < 256"
  shows "be32 (word_of_bytes b) = b"
proof -
  obtain p q r s where b: "b = [p, q, r, s]"
    using assms(1) by (auto simp: numeral_eq_Suc length_Suc_conv)
  then have lt: "p < 256" "q < 256" "r < 256" "s < 256" using assms(2) by auto
  let ?x = "((int p * 256 + int q) * 256 + int r) * 256 + int s"
  have w: "word_of_bytes b = word_of_int ?x"
    by (simp add: b word_of_bytes_def mult.commute)
  have "0 \<le> ?x" "?x < 2 ^ 32" using lt by simp_all
  then have u: "uint (word_of_bytes b) = ?x"
    by (simp add: w uint_word_of_int_eq take_bit_int_eq_self del: of_int_add of_int_mult)
  have d: "(y * 256 + z) div 256 = y" "(y * 256 + z) mod 256 = z" if "0 \<le> z" "z < 256" for y z :: int
    using that by simp_all
  have "?x div 256 = (int p * 256 + int q) * 256 + int r" "?x mod 256 = int s"
    using d[of "int s" "(int p * 256 + int q) * 256 + int r"] lt by auto
  moreover have "((int p * 256 + int q) * 256 + int r) div 256 = int p * 256 + int q"
    "((int p * 256 + int q) * 256 + int r) mod 256 = int r"
    using d[of "int r" "int p * 256 + int q"] lt by auto
  moreover have "(int p * 256 + int q) div 256 = int p" "(int p * 256 + int q) mod 256 = int q"
    using d[of "int q" "int p"] lt by auto
  moreover have "?x div 65536 = ?x div 256 div 256" "?x div 16777216 = ?x div 256 div 256 div 256"
    by (simp_all add: zdiv_zmult2_eq[symmetric])
  ultimately have x: "?x div 16777216 = int p" "?x div 65536 mod 256 = int q" "?x div 256 mod 256 = int r"
    "?x mod 256 = int s" by (simp_all only:)
  note x' = x[folded u]
  have e: "be32 w = [nat (uint w div 16777216 mod 256), nat (uint w div 65536 mod 256),
      nat (uint w div 256 mod 256), nat (uint w mod 256)]" for w
    by (simp add: be32_digits)
  have "int p mod 256 = int p" using lt by simp
  then have "be32 (word_of_bytes b) = [p, q, r, s]" unfolding e x' by (simp only: nat_int)
  then show ?thesis by (simp only: b)
qed

lemma decrypt_authentic:
  assumes "opens seal unseal" "authentic seal unseal"
    and "decrypt_chunks unseal canceled key prefix aad counter source acc = (out, Inr n)"
    and "\<forall>x \<in> set source. x < 256"
  shows "\<exists>cs. source = frames seal key prefix aad counter cs @ [0, 0, 0, 0] \<and> concat cs = out
     \<and> (\<forall>c \<in> set cs. chunk_ok c) \<and> n = acc + int (length out)"
  using assms
proof (induction unseal canceled key prefix aad counter source acc arbitrary: out n rule: decrypt_chunks.induct)
  case (1 un canceled key prefix aad counter source acc)
  let ?n = "word_of_bytes (take 4 source)" and ?rest = "drop 4 source"
  let ?size = "unat ?n + gcm_overhead"
  note run = "1.prems"(3)[unfolded decrypt_chunks.simps[of un canceled key prefix aad counter source]]
  have live: "\<not> canceled counter" and four: "\<not> length source < 4"
    using run by (auto split: if_splits)
  have "\<forall>x \<in> set (take 4 source). x < 256" using "1.prems"(4) in_set_takeD by fast
  then have head: "take 4 source = be32 ?n"
    using be32_word_of_bytes[of "take 4 source"] four by simp
  show ?case
  proof (cases "?n = 0")
    case True
    have "be32 0 = [0, 0, 0, 0]" by (simp add: be32_digits)
    then have "source = [0, 0, 0, 0] @ ?rest" using head True append_take_drop_id[of 4 source] by metis
    then show ?thesis using run live four True
      by (intro exI[of _ "[]"]) (auto split: if_splits)
  next
    case False
    then have lim: "\<not> unat ?n > chunk_size" and long: "\<not> length ?rest < ?size"
      using run live four by (auto simp: Let_def split: if_splits)
    obtain p out' where p: "un key (make_nonce prefix counter) (take ?size ?rest) (aad counter ?n) = Some p"
      and rec: "decrypt_chunks un canceled key prefix aad (counter + 1) (drop ?size ?rest) (acc + int (length p))
          = (out', Inr n)" "out = p @ out'"
      using run live four False lim long
      by (auto simp: Let_def split: option.splits prod.splits)
    have s: "take ?size ?rest = seal key (make_nonce prefix counter) p (aad counter ?n)"
      using p "1.prems"(2) by (simp add: authentic_def)
    then have "length (take ?size ?rest) = length p + gcm_overhead"
      using "1.prems"(1) by (simp add: opens_def)
    then have lp: "length p = unat ?n" using long by simp
    then have ok: "chunk_ok p" using lim False by (auto simp: chunk_ok_def unat_eq_zero)
    have "word_of_nat (length p) = ?n" by (simp add: lp)
    then have f: "take 4 source @ take ?size ?rest = frame seal key prefix aad counter p"
      unfolding frame_def s using head by simp
    have "\<forall>x \<in> set (drop ?size ?rest). x < 256" using "1.prems"(4) in_set_dropD by (metis drop_drop)
    then obtain cs where cs: "drop ?size ?rest = frames seal key prefix aad (counter + 1) cs @ [0, 0, 0, 0]"
      "concat cs = out'" "\<forall>c \<in> set cs. chunk_ok c" "n = acc + int (length p) + int (length out')"
      using "1.IH"[OF live four refl refl False lim refl long p "1.prems"(1,2) rec(1)] by blast
    have "source = take 4 source @ take ?size ?rest @ drop ?size ?rest"
      by (simp only: append_take_drop_id)
    then have "source = frames seal key prefix aad counter (p # cs) @ [0, 0, 0, 0]"
      using f cs(1) by (metis append_assoc frames.simps(2))
    then show ?thesis using cs(2-4) ok rec(2) by (intro exI[of _ "p # cs"]) simp
  qed
qed

end
