(* ===== verification/Properties_Recovery.thy ===== *)
theory Properties_Recovery
  imports Recovery_Codec "HOL-Library.Sublist"
begin

text \<open>
  Properties of the encrypted recovery streams: what is written is read back, a stream that was
  cut off or changed is refused, and encryption succeeds up to the largest supported size.
\<close>

section \<open>Encryption succeeds\<close>

text \<open>There are enough chunk counters for the source; the bound of the code is 4096 TiB.\<close>

definition fits :: "bytes \<Rightarrow> bool" where
  "fits source \<longleftrightarrow> length source div chunk_size < 2 ^ 32 - 1"

lemma encrypt_chunks_succeeds:
  assumes "unat counter + length source div chunk_size < 2 ^ 32 - 1"
  shows "\<exists>out. encrypt_chunks seal (\<lambda>_. False) key nonce aad counter source acc
     = (out, Inr (acc + int (length source)))"
  using assms
proof (induction source arbitrary: counter acc rule: length_induct)
  case (1 source)
  have "unat (NOT 0 :: w32) = 2 ^ 32 - 1"
    by (simp add: unat_eq_nat_uint uint_word_ariths mask_eq_exp_minus_1)
  then have room: "counter \<noteq> NOT 0" using "1.prems" by auto
  let ?c = "take chunk_size source"
  show ?case
  proof (cases "length ?c < chunk_size")
    case True
    then show ?thesis using room
      by (auto simp: encrypt_chunks.simps[of seal _ key nonce aad counter] Let_def chunk_size_def)
  next
    case False
    let ?rest = "drop chunk_size source"
    have full: "chunk_size \<le> length source" "0 < chunk_size" using False by (auto simp: chunk_size_def)
    then have d: "length source div chunk_size = Suc (length ?rest div chunk_size)"
      by (simp add: le_div_geq)
    have "unat (counter + 1) = (unat counter + 1) mod 2 ^ 32"
      by (simp add: unat_word_ariths(1))
    also have "\<dots> = unat counter + 1" using "1.prems" by (intro mod_less) simp
    finally have "unat (counter + 1) + length ?rest div chunk_size < 2 ^ 32 - 1"
      using "1.prems" d by simp
    moreover have "length ?rest < length source" using full by simp
    ultimately obtain out where "encrypt_chunks seal (\<lambda>_. False) key nonce aad (counter + 1) ?rest
        (acc + int (length ?c)) = (out, Inr (acc + int (length ?c) + int (length ?rest)))"
      using "1.IH" by blast
    then show ?thesis using room False full
      by (auto simp: encrypt_chunks.simps[of seal _ key nonce aad counter] Let_def of_nat_diff)
  qed
qed

section \<open>A stream\<close>

text \<open>The shape of a version 2 stream.\<close>

definition v2_stream :: "seal \<Rightarrow> bytes \<Rightarrow> bytes \<Rightarrow> bytes \<Rightarrow> bytes list \<Rightarrow> bytes" where
  "v2_stream seal salt key associated chunks =
     magic_v2 @ salt
       @ frames seal (derive_stream_key key salt associated) [] (make_aad_v2 (magic_v2 @ salt) associated) 0 chunks
       @ [0, 0, 0, 0]"

lemma length_magic [simp]: "length magic_v1 = 8" "length magic_v2 = 8" "magic_v1 \<noteq> magic_v2" "magic_v2 \<noteq> magic_v1"
  by (simp_all add: magic_v1_def magic_v2_def byte_of_def)

lemma new_aead_derived [simp]: "new_aead (derive_stream_key k s a) = Inr (derive_stream_key k s a)"
  by (simp add: new_aead_def derive_stream_key_def hmac_sha256_def Let_def length_sha256)

lemma decrypt_v2:
  assumes "length salt = 16" "length key = 32"
  shows "decrypt unseal canceled key associated (magic_v2 @ salt @ s)
     = decrypt_chunks unseal canceled (derive_stream_key key salt associated) []
         (make_aad_v2 (magic_v2 @ salt) associated) 0 s 0"
  using assms by (simp add: decrypt_def Let_def)

lemma decrypt_v1:
  assumes "length nonce = 8" "length key = 32"
  shows "decrypt unseal canceled key associated (magic_v1 @ nonce @ s)
     = decrypt_chunks unseal canceled key nonce (make_aad associated) 0 s 0"
  using assms by (simp add: decrypt_def Let_def new_aead_def)

lemma encrypt_stream:
  assumes "encrypt seal canceled salt key associated source = (s, Inr n)" "length salt = 16"
  obtains cs where "length key = 32" "s = v2_stream seal salt key associated cs"
    "concat cs = source" "\<forall>c \<in> set cs. chunk_ok c" "n = int (length source)"
  using assms encrypt_chunks_frames[of seal canceled "derive_stream_key key salt associated" "[]"
      "make_aad_v2 (magic_v2 @ salt) associated" 0 source 0]
  by (auto simp: encrypt_def v2_stream_def Let_def split: if_splits prod.splits)

lemma encrypt_v1_stream:
  assumes "encrypt_v1 seal canceled nonce key associated source = (s, Inr n)"
  obtains cs where "length key = 32" "length nonce = 8"
    "s = magic_v1 @ nonce @ frames seal key nonce (make_aad associated) 0 cs @ [0, 0, 0, 0]"
    "concat cs = source" "\<forall>c \<in> set cs. chunk_ok c" "n = int (length source)"
  using assms encrypt_chunks_frames[of seal canceled key nonce "make_aad associated" 0 source 0]
  by (auto simp: encrypt_v1_def new_aead_def Let_def split: if_splits prod.splits)

lemma round_trip_v2:
  assumes "opens seal unseal" "length key = 32" "length salt = 16" "fits source"
  shows "\<exists>s. encrypt seal (\<lambda>_. False) salt key associated source = (s, Inr (int (length source)))
       \<and> decrypt unseal (\<lambda>_. False) key associated s = (source, Inr (int (length source)))"
proof -
  have room: "unat (0 :: w32) + length source div chunk_size < 2 ^ 32 - 1"
    using assms(4) by (simp add: fits_def)
  obtain s where s: "encrypt seal (\<lambda>_. False) salt key associated source = (s, Inr (int (length source)))"
    using encrypt_chunks_succeeds[OF room, of seal "derive_stream_key key salt associated" "[]"
        "make_aad_v2 (magic_v2 @ salt) associated" 0] assms(2)
    by (auto simp: encrypt_def Let_def)
  obtain cs where "s = v2_stream seal salt key associated cs" "concat cs = source"
    "\<forall>c \<in> set cs. chunk_ok c"
    using encrypt_stream[OF s assms(3)] by metis
  then have "decrypt unseal (\<lambda>_. False) key associated s = (source, Inr (int (length source)))"
    by (simp only: v2_stream_def decrypt_v2[OF assms(3,2)] decrypt_frames[OF assms(1)] add_0)
  with s show ?thesis by blast
qed

section \<open>The layout of a stream\<close>

text \<open>The bytes of a stream, independently of the code: the big-endian form of a number of four
  bytes, and the sealed chunks from position 0 on, each with its length in front, sealed under the
  stream's nonce prefix and its own position, with the context, its own position and its own length
  as associated data.\<close>

definition big_endian :: "nat \<Rightarrow> bytes" where
  "big_endian k = [k div 16777216 mod 256, k div 65536 mod 256, k div 256 mod 256, k mod 256]"

definition sealed_chunk :: "(bytes \<Rightarrow> bytes \<Rightarrow> bytes \<Rightarrow> bytes) \<Rightarrow> bytes \<Rightarrow> bytes \<Rightarrow> nat \<times> bytes \<Rightarrow> bytes" where
  "sealed_chunk seal nonce context = (\<lambda>(k, c). big_endian (length c)
     @ seal (nonce @ big_endian k) c (context @ big_endian k @ big_endian (length c)))"

definition sealed_chunks :: "(bytes \<Rightarrow> bytes \<Rightarrow> bytes \<Rightarrow> bytes) \<Rightarrow> bytes \<Rightarrow> bytes \<Rightarrow> bytes list \<Rightarrow> bytes" where
  "sealed_chunks seal nonce context chunks = concat (map (sealed_chunk seal nonce context) (enumerate 0 chunks))"

lemma big_endian_be32: "be32 (word_of_nat k) = big_endian k"
proof -
  have u: "uint (word_of_nat k :: w32) = int (k mod 2 ^ 32)"
    by (simp add: unsigned_of_nat take_bit_eq_mod of_nat_mod)
  have d: "nat (int (k mod 2 ^ 32) div 256 ^ j mod 256) = k mod 2 ^ 32 div 256 ^ j mod 256" for j
  proof -
    have "int (k mod 2 ^ 32) div 256 ^ j mod 256 = int (k mod 2 ^ 32 div 256 ^ j mod 256)"
      by (simp only: zdiv_int zmod_int of_nat_power of_nat_numeral)
    then show ?thesis by (simp only: nat_int)
  qed
  have m: "k mod 2 ^ 32 div 256 ^ j mod 256 = k div 256 ^ j mod 256" if "j \<le> 3" for j
    using that mod_mult2_eq[of k "256 ^ j" "256 ^ (4 - j)"]
    by (simp add: mod_mod_cancel flip: power_add)
  show ?thesis
    unfolding be32_digits u d using m[of 3] m[of 2] m[of 1] m[of 0] by (simp add: big_endian_def)
qed

lemma frames_sealed:
  assumes "\<And>k. make_nonce pre (word_of_nat k) = nonce @ big_endian k"
    and "\<And>k m. aad (word_of_nat k) (word_of_nat m) = context @ big_endian k @ big_endian m"
  shows "frames seal key pre aad (word_of_nat i) cs
     = concat (map (sealed_chunk (seal key) nonce context) (enumerate i cs))"
proof (induction cs arbitrary: i)
  case (Cons c cs)
  show ?case
    using Cons[of "Suc i"] assms
    by (simp add: frame_def sealed_chunk_def big_endian_be32 add.commute)
qed simp

section \<open>Properties\<close>

text \<open>C29. A recovery stream is read back. For every source that the chunk counter can number,
  encryption under a 32-byte key succeeds in the current format and in the legacy one, it reports
  the number of bytes of the source, and decryption of what it wrote, with the same key and the same
  associated data, returns exactly the source and its length.\<close>

theorem recovery_round_trip:
  assumes "opens seal unseal" "length key = 32" "length salt = 16" "length nonce = 8" "fits source"
  shows "(\<exists>s. encrypt seal (\<lambda>_. False) salt key associated source = (s, Inr (int (length source)))
       \<and> decrypt unseal (\<lambda>_. False) key associated s = (source, Inr (int (length source))))
     \<and> (\<exists>s. encrypt_v1 seal (\<lambda>_. False) nonce key associated source = (s, Inr (int (length source)))
       \<and> decrypt unseal (\<lambda>_. False) key associated s = (source, Inr (int (length source))))"
proof -
  have room: "unat (0 :: w32) + length source div chunk_size < 2 ^ 32 - 1"
    using assms(5) by (simp add: fits_def)
  obtain t where t: "encrypt_v1 seal (\<lambda>_. False) nonce key associated source = (t, Inr (int (length source)))"
    using encrypt_chunks_succeeds[OF room, of seal key nonce "make_aad associated" 0] assms(2,4)
    by (auto simp: encrypt_v1_def new_aead_def Let_def)
  obtain ds where "t = magic_v1 @ nonce @ frames seal key nonce (make_aad associated) 0 ds @ [0, 0, 0, 0]"
    "concat ds = source" "\<forall>c \<in> set ds. chunk_ok c"
    using encrypt_v1_stream[OF t] by metis
  then have "decrypt unseal (\<lambda>_. False) key associated t = (source, Inr (int (length source)))"
    by (simp only: decrypt_v1[OF assms(4,2)] decrypt_frames[OF assms(1)] add_0)
  then show ?thesis using round_trip_v2[OF assms(1-3,5)] t by blast
qed

text \<open>A cipher that satisfies the laws, for the witnesses.\<close>

definition plain_seal :: seal where
  "plain_seal k n p a = p @ replicate 16 0"

definition plain_unseal :: unseal where
  "plain_unseal k n c a = (if length c \<ge> 16 \<and> drop (length c - 16) c = replicate 16 0
     then Some (take (length c - 16) c) else None)"

lemma plain_opens: "opens plain_seal plain_unseal"
  by (simp add: opens_def plain_seal_def plain_unseal_def gcm_overhead_def)

lemma plain_authentic: "authentic plain_seal plain_unseal"
proof -
  have "c = take (length c - 16) c @ replicate 16 0" if "drop (length c - 16) c = replicate 16 0" for c :: bytes
    using that append_take_drop_id[of "length c - 16" c] by simp
  then show ?thesis by (auto simp: authentic_def plain_seal_def plain_unseal_def)
qed

theorem recovery_round_trip_witness:
  "\<exists>s. encrypt plain_seal (\<lambda>_. False) (replicate 16 7) (replicate 32 9) [5] [1, 2, 3] = (s, Inr 3)
     \<and> decrypt plain_unseal (\<lambda>_. False) (replicate 32 9) [5] s = ([1, 2, 3], Inr 3)"
  using recovery_round_trip[OF plain_opens, of "replicate 32 9" "replicate 16 7" "replicate 8 1" "[1, 2, 3]" "[5]"]
  by (simp add: fits_def chunk_size_def)

text \<open>C30. A truncated recovery stream never passes. If encryption wrote a stream and the reader gets
  only a proper part of its beginning, decryption reports an error, and the bytes that it wrote
  before it noticed are a beginning of the source.\<close>

theorem cut_stream_refused:
  assumes "opens seal unseal" "length salt = 16"
    and "encrypt seal canceled salt key associated source = (s @ t, Inr n)" "t \<noteq> []"
  shows "\<exists>e out. decrypt unseal (\<lambda>_. False) key associated s = (out, Inl e) \<and> prefix out source"
proof -
  obtain cs where k: "length key = 32" and st: "s @ t = v2_stream seal salt key associated cs"
    and cs: "concat cs = source" "\<forall>c \<in> set cs. chunk_ok c"
    using encrypt_stream[OF assms(3,2)] by metis
  let ?k = "derive_stream_key key salt associated" and ?a = "make_aad_v2 (magic_v2 @ salt) associated"
  have head: "take m s = take m (v2_stream seal salt key associated cs)" if "m \<le> length s" for m
    using that by (simp add: st[symmetric])
  have pre: "prefix (concat (take m cs)) source" for m
    using cs(1) by (metis append_take_drop_id concat_append prefixI)
  show ?thesis
  proof (cases "length s < 24")
    case True
    have "take 8 s = magic_v2" if "8 \<le> length s"
      using head[OF that] by (simp add: v2_stream_def)
    then show ?thesis using True
      by (auto simp: decrypt_def Let_def)
  next
    case False
    define r where "r = drop 24 s"
    have "take 24 s = magic_v2 @ salt" using head[of 24] False assms(2) by (simp add: v2_stream_def)
    then have s: "s = magic_v2 @ salt @ r" unfolding r_def by (metis append_assoc append_take_drop_id)
    then have r: "r @ t = frames seal ?k [] ?a 0 cs @ [0, 0, 0, 0]"
      using st by (simp add: v2_stream_def)
    then show ?thesis
      using decrypt_cut[OF assms(1) cs(2) r assms(4), of 0] decrypt_v2[OF assms(2) k] pre s by fastforce
  qed
qed

theorem cut_stream_refused_witness:
  "\<exists>s t e out. encrypt plain_seal (\<lambda>_. False) (replicate 16 7) (replicate 32 9) [5] [1, 2, 3] = (s @ t, Inr 3)
     \<and> length s = 24 \<and> decrypt plain_unseal (\<lambda>_. False) (replicate 32 9) [5] s = (out, Inl e) \<and> prefix out [1, 2, 3]"
proof -
  obtain w where w: "encrypt plain_seal (\<lambda>_. False) (replicate 16 7) (replicate 32 9) [5] [1, 2, 3] = (w, Inr 3)"
    using encrypt_chunks_succeeds[of 0 "[1, 2, 3]" plain_seal "derive_stream_key (replicate 32 9) (replicate 16 7) [5]" "[]"
        "make_aad_v2 (magic_v2 @ replicate 16 7) [5]" 0]
    by (auto simp: encrypt_def Let_def chunk_size_def)
  have "24 < length w"
    by (rule encrypt_stream[OF w]) (auto simp: v2_stream_def)
  then have split: "w = take 24 w @ drop 24 w" "drop 24 w \<noteq> []" "length (take 24 w) = 24" by simp_all
  have enc: "encrypt plain_seal (\<lambda>_. False) (replicate 16 7) (replicate 32 9) [5] [1, 2, 3]
      = (take 24 w @ drop 24 w, Inr 3)" using w by simp
  have "\<exists>e out. decrypt plain_unseal (\<lambda>_. False) (replicate 32 9) [5] (take 24 w) = (out, Inl e)
      \<and> prefix out [1, 2, 3]"
    by (rule cut_stream_refused[OF plain_opens _ enc split(2)]) simp
  then show ?thesis using enc split(3) by blast
qed

lemma make_nonce_prefix:
  assumes "length pre = 8"
  shows "make_nonce pre (word_of_nat k) = pre @ big_endian k"
  using assms by (simp add: make_nonce_def big_endian_be32)

lemma make_nonce_empty: "make_nonce [] (word_of_nat k) = replicate 8 0 @ big_endian k"
  by (simp add: make_nonce_def big_endian_be32)

lemma frames_v1:
  assumes "length pre = 8"
  shows "frames seal key pre (make_aad associated) 0 cs = sealed_chunks (seal key) pre associated cs"
  using frames_sealed[of pre pre "make_aad associated" associated seal key 0 cs] make_nonce_prefix[OF assms]
  by (simp add: sealed_chunks_def make_aad_def big_endian_be32)

lemma frames_v2:
  "frames seal key [] (make_aad_v2 header associated) 0 cs
     = sealed_chunks (seal key) (replicate 8 0) (header @ associated) cs"
  using frames_sealed[of "[]" "replicate 8 0" "make_aad_v2 header associated" "header @ associated" seal key 0 cs]
    make_nonce_empty
  by (simp add: sealed_chunks_def make_aad_v2_def big_endian_be32)

lemma magic_bytes: "magic_v1 = [72, 70, 82, 80, 48, 48, 48, 49]" "magic_v2 = [72, 70, 82, 80, 48, 48, 48, 50]"
  by (simp_all add: magic_v1_def magic_v2_def byte_of_def)

lemma decrypt_v2_accepted:
  assumes "opens seal unseal" "authentic seal unseal" "\<forall>x \<in> set s. x < 256"
    and "take 8 s = magic_v2" "decrypt unseal canceled key associated s = (out, Inr n)"
  shows "\<exists>salt chunks. length salt = 16 \<and> length key = 32 \<and> s = v2_stream seal salt key associated chunks
     \<and> concat chunks = out \<and> (\<forall>c \<in> set chunks. chunk_ok c) \<and> n = int (length out)"
proof -
  define salt where "salt = take 16 (drop 8 s)"
  define r where "r = drop 16 (drop 8 s)"
  have len: "\<not> length s < 8" "\<not> length (drop 8 s) < 16" "length key = 32"
    using assms(4,5) by (auto simp: decrypt_def Let_def split: if_splits)
  have "drop 8 s = salt @ r" unfolding salt_def r_def by (simp only: append_take_drop_id)
  then have s: "s = magic_v2 @ salt @ r" using assms(4) append_take_drop_id[of 8 s] by metis
  have salt: "length salt = 16" using len by (simp add: salt_def)
  have "decrypt_chunks unseal canceled (derive_stream_key key salt associated) []
      (make_aad_v2 (magic_v2 @ salt) associated) 0 r 0 = (out, Inr n)"
    using assms(5) decrypt_v2[OF salt len(3)] s by simp
  then obtain cs where "r = frames seal (derive_stream_key key salt associated) []
      (make_aad_v2 (magic_v2 @ salt) associated) 0 cs @ [0, 0, 0, 0]" "concat cs = out"
      "\<forall>c \<in> set cs. chunk_ok c" "n = int (length out)"
    using decrypt_authentic[OF assms(1,2)] assms(3) s by fastforce
  then show ?thesis using s salt len(3) by (intro exI[of _ salt] exI[of _ cs]) (simp add: v2_stream_def)
qed

lemma decrypt_v1_accepted:
  assumes "opens seal unseal" "authentic seal unseal" "\<forall>x \<in> set s. x < 256"
    and "take 8 s = magic_v1" "decrypt unseal canceled key associated s = (out, Inr n)"
  shows "\<exists>pre chunks. length pre = 8 \<and> length key = 32
     \<and> s = magic_v1 @ pre @ frames seal key pre (make_aad associated) 0 chunks @ [0, 0, 0, 0]
     \<and> concat chunks = out \<and> (\<forall>c \<in> set chunks. chunk_ok c) \<and> n = int (length out)"
proof -
  define pre where "pre = take 8 (drop 8 s)"
  define r where "r = drop 8 (drop 8 s)"
  have len: "\<not> length s < 8" "\<not> length (drop 8 s) < 8" "length key = 32"
    using assms(4,5) by (auto simp: decrypt_def Let_def new_aead_def split: if_splits)
  have "drop 8 s = pre @ r" unfolding pre_def r_def by (simp only: append_take_drop_id)
  then have s: "s = magic_v1 @ pre @ r" using assms(4) append_take_drop_id[of 8 s] by metis
  have pre: "length pre = 8" using len by (simp add: pre_def)
  have "decrypt_chunks unseal canceled key pre (make_aad associated) 0 r 0 = (out, Inr n)"
    using assms(5) decrypt_v1[OF pre len(3)] s by simp
  then obtain cs where "r = frames seal key pre (make_aad associated) 0 cs @ [0, 0, 0, 0]" "concat cs = out"
      "\<forall>c \<in> set cs. chunk_ok c" "n = int (length out)"
    using decrypt_authentic[OF assms(1,2)] assms(3) s by fastforce
  then show ?thesis using s pre len(3) by blast
qed

text \<open>C31. Only what was sealed for this stream, and for the place where it stands, is ever accepted.
  If the cipher is authentic and decryption of a stream of bytes succeeds, then the stream is, byte
  for byte, a header, the chunks of the output sealed in order, and the terminator. In the current
  format the header is ''HFRP0002'' and a salt, the key is the one derived from the master key, the
  salt and the associated data, the nonce of the chunk at position k is eight zeros and k, and its
  associated data are the header, the caller's associated data, k and the length of the chunk; in the
  legacy format the header is ''HFRP0001'' and a nonce prefix. Every chunk is nonempty and at most 1 MiB.
  So a frame that was sealed for another position, another stream or another context
  is not accepted, and none can be dropped or added.\<close>

theorem only_authentic_streams:
  assumes "opens seal unseal" "authentic seal unseal" "\<forall>x \<in> set s. x < 256"
    and "decrypt unseal canceled key associated s = (out, Inr n)"
  shows "\<exists>chunks. concat chunks = out \<and> n = int (length out) \<and> length key = 32
     \<and> (\<forall>c \<in> set chunks. c \<noteq> [] \<and> length c \<le> 1048576)
     \<and> ((\<exists>header salt. header = [72, 70, 82, 80, 48, 48, 48, 50] @ salt \<and> length salt = 16
           \<and> s = header @ sealed_chunks (seal (derive_stream_key key salt associated)) (replicate 8 0)
                   (header @ associated) chunks @ [0, 0, 0, 0])
        \<or> (\<exists>nonce. length nonce = 8
           \<and> s = [72, 70, 82, 80, 48, 48, 48, 49] @ nonce @ sealed_chunks (seal key) nonce associated chunks
                   @ [0, 0, 0, 0]))"
proof -
  have "take 8 s = magic_v1 \<or> take 8 s = magic_v2"
    using assms(4) by (auto simp: decrypt_def Let_def split: if_splits)
  then show ?thesis
  proof
    assume "take 8 s = magic_v1"
    then obtain pre chunks where v1: "length pre = 8" "length key = 32"
      "s = magic_v1 @ pre @ frames seal key pre (make_aad associated) 0 chunks @ [0, 0, 0, 0]"
      "concat chunks = out" "\<forall>c \<in> set chunks. chunk_ok c" "n = int (length out)"
      using decrypt_v1_accepted[OF assms(1-3) _ assms(4)] by blast
    show ?thesis
      by (intro exI[of _ chunks] conjI disjI2 exI[of _ pre])
        (use v1 frames_v1[OF v1(1), of seal key associated chunks] in \<open>simp_all add: chunk_ok_def chunk_size_def magic_bytes\<close>)
  next
    assume "take 8 s = magic_v2"
    then obtain salt chunks where v2: "length salt = 16" "length key = 32"
      "s = v2_stream seal salt key associated chunks"
      "concat chunks = out" "\<forall>c \<in> set chunks. chunk_ok c" "n = int (length out)"
      using decrypt_v2_accepted[OF assms(1-3) _ assms(4)] by blast
    show ?thesis
      by (intro exI[of _ chunks] conjI disjI1 exI[of _ "magic_v2 @ salt"] exI[of _ salt])
        (use v2 in \<open>simp_all add: chunk_ok_def chunk_size_def v2_stream_def frames_v2 magic_bytes\<close>)
  qed
qed

text \<open>A cipher whose tag shows the nonce and the associated data, for the witness.\<close>

definition mark :: "bytes \<Rightarrow> bytes \<Rightarrow> bytes" where
  "mark n a = take 16 (rev (n @ a) @ replicate 16 0)"

definition mark_seal :: seal where
  "mark_seal k n p a = p @ mark n a"

definition mark_unseal :: unseal where
  "mark_unseal k n c a = (if length c \<ge> 16 \<and> drop (length c - 16) c = mark n a
     then Some (take (length c - 16) c) else None)"

lemma length_mark [simp]: "length (mark n a) = 16"
  by (simp add: mark_def)

lemma mark_opens: "opens mark_seal mark_unseal"
  by (simp add: opens_def mark_seal_def mark_unseal_def gcm_overhead_def)

lemma mark_authentic: "authentic mark_seal mark_unseal"
proof -
  have "c = take (length c - 16) c @ mark n a" if "drop (length c - 16) c = mark n a" for c n a :: bytes
    using that append_take_drop_id[of "length c - 16" c] by simp
  then show ?thesis by (auto simp: authentic_def mark_seal_def mark_unseal_def)
qed

text \<open>A stream of two chunks, and the same with the chunks swapped.\<close>

definition marked_stream :: "(nat \<times> bytes) list \<Rightarrow> bytes" where
  "marked_stream parts = magic_v2 @ replicate 16 7
     @ concat (map (sealed_chunk (mark_seal []) (replicate 8 0) ((magic_v2 @ replicate 16 7) @ [5])) parts)
     @ [0, 0, 0, 0]"

lemma marked_decrypts:
  "decrypt mark_unseal (\<lambda>_. False) (replicate 32 9) [5] (marked_stream [(0, [1, 2, 3]), (1, [4])])
     = ([1, 2, 3, 4], Inr 4)"
proof -
  let ?k = "derive_stream_key (replicate 32 9) (replicate 16 7) [5]"
  have k: "mark_seal [] = mark_seal ?k" by (simp add: mark_seal_def fun_eq_iff)
  have "concat (map (sealed_chunk (mark_seal []) (replicate 8 0) ((magic_v2 @ replicate 16 7) @ [5]))
      [(0, [1, 2, 3]), (1, [4])])
    = frames mark_seal ?k [] (make_aad_v2 (magic_v2 @ replicate 16 7) [5]) 0 [[1, 2, 3], [4]]"
    unfolding k frames_v2 sealed_chunks_def by simp
  then show ?thesis
    using decrypt_v2[of "replicate 16 7" "replicate 32 9"]
      decrypt_frames[OF mark_opens, of "[[1, 2, 3], [4]]" ?k "[]" "make_aad_v2 (magic_v2 @ replicate 16 7) [5]" 0 0]
    by (simp add: marked_stream_def chunk_ok_def chunk_size_def del: frames.simps)
qed

lemma swapped_refused:
  "decrypt mark_unseal (\<lambda>_. False) (replicate 32 9) [5] (marked_stream [(1, [4]), (0, [1, 2, 3])])
     = ([], Inl AuthenticationFailed)"
proof -
  let ?aad = "make_aad_v2 (magic_v2 @ replicate 16 7) [5]"
  let ?c = "sealed_chunk (mark_seal []) (replicate 8 0) ((magic_v2 @ replicate 16 7) @ [5]) (1, [4])"
  define m where "m = mark (replicate 8 0 @ big_endian 1)
      (((magic_v2 @ replicate 16 7) @ [5]) @ big_endian 1 @ big_endian 1)"
  have other: "m \<noteq> mark (make_nonce [] 0) (?aad 0 1)" "length m = 16"
    by (simp_all add: m_def mark_def big_endian_def make_aad_v2_def be32_digits)
  have c: "?c = be32 1 @ [4] @ m"
    using big_endian_be32[of 1] by (simp add: sealed_chunk_def mark_seal_def m_def)
  have "decrypt_chunks mark_unseal (\<lambda>_. False) k [] ?aad 0 (?c @ s) 0 = ([], Inl AuthenticationFailed)" for k s
    unfolding c using other
    by (subst decrypt_chunks.simps) (simp add: chunk_size_def gcm_overhead_def mark_unseal_def Let_def)
  then show ?thesis
    using decrypt_v2[of "replicate 16 7" "replicate 32 9"] by (simp add: marked_stream_def)
qed

text \<open>The stream is accepted and has the layout; with its frames swapped it is refused.\<close>

theorem only_authentic_streams_witness:
  "decrypt mark_unseal (\<lambda>_. False) (replicate 32 9) [5] (marked_stream [(0, [1, 2, 3]), (1, [4])])
     = ([1, 2, 3, 4], Inr 4)
   \<and> (\<exists>chunks. concat chunks = [1, 2, 3, 4] \<and> (4 :: int) = int (length [1, 2, 3, 4 :: nat])
     \<and> length (replicate 32 (9 :: nat)) = 32
     \<and> (\<forall>c \<in> set chunks. c \<noteq> [] \<and> length c \<le> 1048576)
     \<and> ((\<exists>header salt. header = [72, 70, 82, 80, 48, 48, 48, 50] @ salt \<and> length salt = 16
           \<and> marked_stream [(0, [1, 2, 3]), (1, [4])]
               = header @ sealed_chunks (mark_seal (derive_stream_key (replicate 32 9) salt [5])) (replicate 8 0)
                   (header @ [5]) chunks @ [0, 0, 0, 0])
        \<or> (\<exists>nonce. length nonce = 8
           \<and> marked_stream [(0, [1, 2, 3]), (1, [4])] = [72, 70, 82, 80, 48, 48, 48, 49] @ nonce
               @ sealed_chunks (mark_seal (replicate 32 9)) nonce [5] chunks @ [0, 0, 0, 0])))
   \<and> decrypt mark_unseal (\<lambda>_. False) (replicate 32 9) [5] (marked_stream [(1, [4]), (0, [1, 2, 3])])
     = ([], Inl AuthenticationFailed)"
proof (intro conjI marked_decrypts swapped_refused only_authentic_streams[OF mark_opens mark_authentic _ marked_decrypts])
  show "\<forall>x \<in> set (marked_stream [(0, [1, 2, 3]), (1, [4])]). x < 256"
    by (auto simp: marked_stream_def sealed_chunk_def mark_seal_def mark_def big_endian_def magic_bytes)
qed

end
