(* ===== verification/Event_Hub.thy ===== *)
theory Event_Hub
  imports Go_Std "HOL-Library.Word" "HOL-Library.Sublist"
begin

text \<open>
  \<open>internal/events/hub.go\<close>: the hub that tells the connected clients that the state of the
  control plane changed. Every method runs under the mutex of the hub, so a run is a sequence of
  whole calls; only the readers of the channels run beside them. A channel is its buffer of one
  event; \<open>drained\<close> says of which channels a reader takes the buffered event between the first
  and the second \<open>select\<close> of \<open>Publish\<close>. The map of the subscribers is a list of pairs of a
  subscriber id and a channel.
\<close>

type_synonym w64 = "64 word"

record event =
  fe_stream_id :: string
  fe_revision :: w64
  fe_type :: string
  fe_resource_id :: string
  fe_occurred_at :: timestamp

record channel =
  ch_buffer :: "event option"
  ch_closed :: bool

record hub =
  hb_stream_id :: string
  hb_revision :: w64
  hb_next_id :: w64
  hb_subscribers :: "(w64 \<times> nat) list"
  hb_channels :: "channel list"

definition new_hub :: "string \<Rightarrow> hub" where
  "new_hub stream = \<lparr>hb_stream_id = stream, hb_revision = 0, hb_next_id = 0, hb_subscribers = [],
     hb_channels = []\<rparr>"

definition hub_snapshot :: "hub \<Rightarrow> string \<times> w64" where
  "hub_snapshot h = (hb_stream_id h, hb_revision h)"

text \<open>\<open>select { case c <- e: default: }\<close> and \<open>select { case <-c: default: }\<close>.\<close>

definition try_send :: "event \<Rightarrow> channel \<Rightarrow> channel \<times> bool" where
  "try_send e c = (if ch_buffer c = None then (c\<lparr>ch_buffer := Some e\<rparr>, True) else (c, False))"

definition try_receive :: "channel \<Rightarrow> channel \<times> event option" where
  "try_receive c = (c\<lparr>ch_buffer := None\<rparr>, ch_buffer c)"

text \<open>The channel after the offer, and what its reader took meanwhile.\<close>

definition offer :: "bool \<Rightarrow> event \<Rightarrow> channel \<Rightarrow> channel \<times> event option" where
  "offer drained e c =
     (let (c, sent) = try_send e c in
      if sent then (c, None)
      else let (c, taken) = (if drained then try_receive c else (c, None));
               (c, _) = try_receive c;
               (c, _) = try_send e c
           in (c, taken))"

definition hub_event :: "string \<Rightarrow> string \<Rightarrow> timestamp \<Rightarrow> hub \<Rightarrow> event" where
  "hub_event kind resource now h =
     \<lparr>fe_stream_id = hb_stream_id h, fe_revision = hb_revision h + 1, fe_type = kind,
      fe_resource_id = resource, fe_occurred_at = now\<rparr>"

definition subscribed :: "nat \<Rightarrow> hub \<Rightarrow> bool" where
  "subscribed c h \<longleftrightarrow> c \<in> set (map snd (hb_subscribers h))"

definition publish :: "string \<Rightarrow> string \<Rightarrow> timestamp \<Rightarrow> (nat \<Rightarrow> bool) \<Rightarrow> hub \<Rightarrow> event \<times> hub" where
  "publish kind resource now drained h =
     (let e = hub_event kind resource now h
      in (e, h\<lparr>hb_revision := hb_revision h + 1,
               hb_channels := map (\<lambda>i. if subscribed i h then fst (offer (drained i) e (hb_channels h ! i))
                                        else hb_channels h ! i) [0..<length (hb_channels h)]\<rparr>))"

definition subscribe :: "hub \<Rightarrow> nat \<times> w64 \<times> hub" where
  "subscribe h =
     (let i = hb_next_id h + 1; c = length (hb_channels h)
      in (c, i, h\<lparr>hb_next_id := i,
            hb_subscribers := filter (\<lambda>(j, _). j \<noteq> i) (hb_subscribers h) @ [(i, c)],
            hb_channels := hb_channels h @ [\<lparr>ch_buffer = None, ch_closed = False\<rparr>]\<rparr>))"

text \<open>The function that \<open>Subscribe\<close> returns; it may be called more than once.\<close>

definition unsubscribe :: "w64 \<Rightarrow> hub \<Rightarrow> hub" where
  "unsubscribe i h =
     (case map_of (hb_subscribers h) i of
        None \<Rightarrow> h
      | Some c \<Rightarrow> h\<lparr>hb_subscribers := filter (\<lambda>(j, _). j \<noteq> i) (hb_subscribers h),
                     hb_channels := (hb_channels h)[c := (hb_channels h ! c)\<lparr>ch_closed := True\<rparr>]\<rparr>)"

definition subscribers :: "hub \<Rightarrow> nat" where
  "subscribers h = length (hb_subscribers h)"

text \<open>A reader takes the buffered event of its channel.\<close>

definition hub_read :: "nat \<Rightarrow> hub \<Rightarrow> event option \<times> hub" where
  "hub_read c h =
     (let (ch, e) = try_receive (hb_channels h ! c) in (e, h\<lparr>hb_channels := (hb_channels h)[c := ch]\<rparr>))"

section \<open>Runs\<close>

text \<open>
  A run with what was published since a channel was made, and what its reader took from it, in
  order. Fewer than $2^{64}$ subscriptions are made.
\<close>

definition record_taken :: "(nat \<Rightarrow> event option) \<Rightarrow> (nat \<Rightarrow> event list) \<Rightarrow> nat \<Rightarrow> event list" where
  "record_taken new taken c = taken c @ (case new c of None \<Rightarrow> [] | Some e \<Rightarrow> [e])"

inductive hub_run :: "hub \<Rightarrow> (nat \<Rightarrow> event list) \<Rightarrow> (nat \<Rightarrow> event list) \<Rightarrow> bool" where
  Fresh: "hub_run (new_hub stream) (\<lambda>_. []) (\<lambda>_. [])"
| Publish: "hub_run h since taken \<Longrightarrow> publish kind resource now drained h = (e, h') \<Longrightarrow>
    hub_run h' (\<lambda>c. if subscribed c h then since c @ [e] else since c)
      (record_taken (\<lambda>c. if subscribed c h then snd (offer (drained c) e (hb_channels h ! c)) else None) taken)"
| Subscribe: "hub_run h since taken \<Longrightarrow> length (hb_channels h) + 1 < 2 ^ 64 \<Longrightarrow> subscribe h = (c, i, h') \<Longrightarrow>
    hub_run h' since taken"
| Unsubscribe: "hub_run h since taken \<Longrightarrow> hub_run (unsubscribe i h) since taken"
| Read: "hub_run h since taken \<Longrightarrow> c < length (hb_channels h) \<Longrightarrow> hub_read c h = (e, h') \<Longrightarrow>
    hub_run h' since (record_taken (\<lambda>d. if d = c then e else None) taken)"

definition pending :: "channel \<Rightarrow> event list" where
  "pending ch = (case ch_buffer ch of None \<Rightarrow> [] | Some e \<Rightarrow> [e])"

text \<open>What a channel delivers: all it got or has still, and the newest event is among it.\<close>

definition delivers :: "event list \<Rightarrow> event list \<Rightarrow> bool" where
  "delivers since got \<longleftrightarrow> subseq got since \<and> (since \<noteq> [] \<longrightarrow> got \<noteq> [] \<and> last got = last since)"

definition hub_ok :: "hub \<Rightarrow> (nat \<Rightarrow> event list) \<Rightarrow> (nat \<Rightarrow> event list) \<Rightarrow> bool" where
  "hub_ok h since taken \<longleftrightarrow>
     (\<forall>c < length (hb_channels h). delivers (since c) (taken c @ pending (hb_channels h ! c)))
     \<and> (\<forall>c. length (hb_channels h) \<le> c \<longrightarrow> since c = [] \<and> taken c = [])
     \<and> (\<forall>(i, c) \<in> set (hb_subscribers h). c < length (hb_channels h) \<and> unat i \<le> unat (hb_next_id h)
          \<and> \<not> ch_closed (hb_channels h ! c))
     \<and> distinct (map fst (hb_subscribers h)) \<and> distinct (map snd (hb_subscribers h))
     \<and> unat (hb_next_id h) = length (hb_channels h)"

lemma offer_pending:
  "offer d e c = (c', t) \<Longrightarrow> ch_buffer c' = Some e \<and> ch_closed c' = ch_closed c
     \<and> (case t of None \<Rightarrow> True | Some x \<Rightarrow> ch_buffer c = Some x)"
  by (auto simp: offer_def try_send_def try_receive_def Let_def split: if_splits option.splits)

lemma delivers_offer:
  assumes "delivers since (taken @ pending c)" "offer d e c = (c', t)"
  shows "delivers (since @ [e]) ((taken @ (case t of None \<Rightarrow> [] | Some x \<Rightarrow> [x])) @ pending c')"
proof -
  have c': "pending c' = [e]" using offer_pending[OF assms(2)] by (simp add: pending_def)
  have "subseq (taken @ (case t of None \<Rightarrow> [] | Some x \<Rightarrow> [x])) (taken @ pending c)"
    using offer_pending[OF assms(2)] by (cases t) (auto simp: pending_def intro: list_emb_append2)
  then have "subseq (taken @ (case t of None \<Rightarrow> [] | Some x \<Rightarrow> [x])) since"
    using assms(1) subseq_order.trans unfolding delivers_def by blast
  then have "subseq ((taken @ (case t of None \<Rightarrow> [] | Some x \<Rightarrow> [x])) @ [e]) (since @ [e])"
    by (rule list_emb_append_mono) simp
  then show ?thesis using c' by (simp add: delivers_def)
qed

lemma hub_okD:
  assumes "hub_ok h since taken"
  shows "c < length (hb_channels h) \<Longrightarrow> delivers (since c) (taken c @ pending (hb_channels h ! c))"
    and "length (hb_channels h) \<le> c \<Longrightarrow> since c = [] \<and> taken c = []"
    and "(i, c) \<in> set (hb_subscribers h) \<Longrightarrow> c < length (hb_channels h) \<and> unat i \<le> unat (hb_next_id h)
          \<and> \<not> ch_closed (hb_channels h ! c)"
    and "distinct (map fst (hb_subscribers h))" "distinct (map snd (hb_subscribers h))"
    and "unat (hb_next_id h) = length (hb_channels h)"
  using assms by (auto simp: hub_ok_def)

lemma hub_okI:
  assumes "\<And>c. c < length (hb_channels h) \<Longrightarrow> delivers (since c) (taken c @ pending (hb_channels h ! c))"
    and "\<And>c. length (hb_channels h) \<le> c \<Longrightarrow> since c = [] \<and> taken c = []"
    and "\<And>i c. (i, c) \<in> set (hb_subscribers h) \<Longrightarrow> c < length (hb_channels h) \<and> unat i \<le> unat (hb_next_id h)
          \<and> \<not> ch_closed (hb_channels h ! c)"
    and "distinct (map fst (hb_subscribers h))" "distinct (map snd (hb_subscribers h))"
    and "unat (hb_next_id h) = length (hb_channels h)"
  shows "hub_ok h since taken"
  using assms by (auto simp: hub_ok_def)

lemma offer_closed [simp]: "ch_closed (fst (offer d e c)) = ch_closed c"
  using offer_pending[of d e c] by (cases "offer d e c") auto

lemma publish_ok:
  assumes "hub_ok h since taken" "publish kind resource now drained h = (e, h')"
  shows "hub_ok h' (\<lambda>c. if subscribed c h then since c @ [e] else since c)
      (record_taken (\<lambda>c. if subscribed c h then snd (offer (drained c) e (hb_channels h ! c)) else None) taken)"
proof -
  note ok = hub_okD[OF assms(1)]
  have e: "e = hub_event kind resource now h" and h': "hb_subscribers h' = hb_subscribers h"
    "hb_next_id h' = hb_next_id h" "length (hb_channels h') = length (hb_channels h)"
    and chan: "\<And>c. c < length (hb_channels h) \<Longrightarrow> hb_channels h' ! c =
        (if subscribed c h then fst (offer (drained c) e (hb_channels h ! c)) else hb_channels h ! c)"
    using assms(2) by (auto simp: publish_def Let_def)
  have out: "\<not> subscribed c h" if "length (hb_channels h) \<le> c" for c
    using that ok(3) by (fastforce simp: subscribed_def)
  have "delivers (if subscribed c h then since c @ [e] else since c)
      (record_taken (\<lambda>c. if subscribed c h then snd (offer (drained c) e (hb_channels h ! c)) else None) taken c
        @ pending (hb_channels h' ! c))" if "c < length (hb_channels h)" for c
    using delivers_offer[OF ok(1)[OF that], of "drained c" e] ok(1)[OF that] chan[OF that]
    by (cases "offer (drained c) e (hb_channels h ! c)") (auto simp: record_taken_def)
  moreover have "c < length (hb_channels h) \<and> unat i \<le> unat (hb_next_id h) \<and> \<not> ch_closed (hb_channels h' ! c)"
    if "(i, c) \<in> set (hb_subscribers h)" for i c
    using ok(3)[OF that] chan[of c] by simp
  ultimately show ?thesis
    using ok(2,4-6) out by (intro hub_okI) (simp_all add: h' record_taken_def)
qed

lemma subscribe_ok:
  assumes "hub_ok h since taken" "length (hb_channels h) + 1 < 2 ^ 64" "subscribe h = (c, i, h')"
  shows "hub_ok h' since taken"
proof -
  note ok = hub_okD[OF assms(1)]
  have i: "unat i = length (hb_channels h) + 1" and c: "c = length (hb_channels h)"
    and h': "hb_next_id h' = i" "hb_channels h' = hb_channels h @ [\<lparr>ch_buffer = None, ch_closed = False\<rparr>]"
      "hb_subscribers h' = filter (\<lambda>(j, _). j \<noteq> i) (hb_subscribers h) @ [(i, c)]"
    using assms(2,3) ok(6) unat_word_ariths(1)[of "hb_next_id h" 1]
    by (auto simp: subscribe_def Let_def)
  have fresh: "\<forall>(j, d) \<in> set (hb_subscribers h). j \<noteq> i \<and> d \<noteq> c"
    using ok(3,6) i c by fastforce
  then have "filter (\<lambda>(j, _). j \<noteq> i) (hb_subscribers h) = hb_subscribers h"
    by (intro filter_True) auto
  then have subs: "hb_subscribers h' = hb_subscribers h @ [(i, c)]" using h' by simp
  have "delivers (since d) (taken d @ pending (hb_channels h' ! d))" if "d < length (hb_channels h')" for d
    using that ok(1)[of d] ok(2)[of d] h' by (cases "d = c") (auto simp: c nth_append delivers_def pending_def)
  moreover have "d < length (hb_channels h') \<and> unat j \<le> unat (hb_next_id h') \<and> \<not> ch_closed (hb_channels h' ! d)"
    if "(j, d) \<in> set (hb_subscribers h')" for j d
    using that ok(3)[of j d] ok(6) i c by (auto simp: h'(1,2) subs nth_append)
  moreover have "i \<notin> fst ` set (hb_subscribers h)" "c \<notin> snd ` set (hb_subscribers h)" using fresh by auto
  ultimately show ?thesis
    using ok(2,4,5) i by (intro hub_okI) (simp_all add: h'(1,2) subs)
qed

lemma unsubscribe_ok:
  assumes "hub_ok h since taken"
  shows "hub_ok (unsubscribe i h) since taken"
proof (cases "map_of (hb_subscribers h) i")
  case (Some c)
  note ok = hub_okD[OF assms]
  have ic: "(i, c) \<in> set (hb_subscribers h)" using Some by (simp add: map_of_SomeD)
  have other: "d \<noteq> c" if "(j, d) \<in> set (hb_subscribers h)" "j \<noteq> i" for j d
    using unique_row[OF ok(5) that(1) ic] that(2) by auto
  let ?h = "unsubscribe i h"
  have h: "hb_next_id ?h = hb_next_id h" "length (hb_channels ?h) = length (hb_channels h)"
    "hb_subscribers ?h = filter (\<lambda>(j, _). j \<noteq> i) (hb_subscribers h)"
    "\<And>d. d < length (hb_channels h) \<Longrightarrow> pending (hb_channels ?h ! d) = pending (hb_channels h ! d)"
    "\<And>d. d \<noteq> c \<Longrightarrow> hb_channels ?h ! d = hb_channels h ! d"
    using Some ok(3)[OF ic] by (auto simp: unsubscribe_def pending_def nth_list_update split: if_splits)
  show ?thesis
    using ok h other unfolding hub_ok_def by (auto simp: distinct_map_filter)
qed (use assms in \<open>simp add: unsubscribe_def\<close>)

lemma hub_read_ok:
  assumes "hub_ok h since taken" "c < length (hb_channels h)" "hub_read c h = (e, h')"
  shows "hub_ok h' since (record_taken (\<lambda>d. if d = c then e else None) taken)"
proof -
  note ok = hub_okD[OF assms(1)]
  have h: "hb_next_id h' = hb_next_id h" "length (hb_channels h') = length (hb_channels h)"
    "hb_subscribers h' = hb_subscribers h"
    "\<And>d. d < length (hb_channels h) \<Longrightarrow> ch_closed (hb_channels h' ! d) = ch_closed (hb_channels h ! d)"
    "\<And>d. d \<noteq> c \<Longrightarrow> hb_channels h' ! d = hb_channels h ! d"
    "pending (hb_channels h ! c) = (case e of None \<Rightarrow> [] | Some x \<Rightarrow> [x])" "pending (hb_channels h' ! c) = []"
    using assms(2,3) by (auto simp: hub_read_def try_receive_def pending_def nth_list_update Let_def split: if_splits)
  have "delivers (since d) (record_taken (\<lambda>d. if d = c then e else None) taken d @ pending (hb_channels h' ! d))"
    if "d < length (hb_channels h)" for d
    using ok(1)[OF that] h(5-7) by (cases "d = c") (auto simp: record_taken_def)
  then show ?thesis
    using ok(2-6) h(4) assms(2) by (intro hub_okI) (auto simp: h(1-3) record_taken_def)
qed

lemma hub_run_ok: "hub_run h since taken \<Longrightarrow> hub_ok h since taken"
proof (induction rule: hub_run.induct)
  case (Fresh stream)
  then show ?case by (simp add: hub_ok_def new_hub_def)
qed (auto intro: publish_ok subscribe_ok unsubscribe_ok hub_read_ok)

end
