(* ===== verification/Rotating_Log.thy ===== *)
theory Rotating_Log
  imports Go_Sha256
begin

text \<open>
  \<open>internal/rotatinglog/writer.go\<close>: the size-bounded log of the Host Agent. The directory of the
  log is a map from the names the writer uses, the log itself and its numbered predecessors, to
  what is there: a regular file with its mode and its bytes, or something else (a directory, a
  symbolic link). File operations on existing regular files succeed; the refusals of the code
  itself are errors. An open file is always the one at the log path, so the handle is a flag.
  Every method runs under the mutex of the writer.
\<close>

datatype log_name = Current | Rotated int

datatype node = Regular nat "nat list" | Irregular

type_synonym log_dir = "log_name \<Rightarrow> node option"

datatype log_error =
    PathRequired
  | SizeNotPositive
  | FilesTooFew
  | LogClosed
  | LogNotRegular
  | RotatedNotRegular

record log_writer =
  lw_max_bytes :: int
  lw_max_files :: int
  lw_open :: bool
  lw_size :: int

definition file_mode :: nat where
  "file_mode = 384"

definition remove_regular :: "log_name \<Rightarrow> log_dir \<Rightarrow> log_error + log_dir" where
  "remove_regular p d =
     (case d p of
        None \<Rightarrow> Inr d
      | Some Irregular \<Rightarrow> Inl RotatedNotRegular
      | Some (Regular m b) \<Rightarrow> Inr (d(p := None)))"

definition rename_regular :: "log_name \<Rightarrow> log_name \<Rightarrow> log_dir \<Rightarrow> log_error + log_dir" where
  "rename_regular p q d =
     (case d p of
        None \<Rightarrow> Inr d
      | Some Irregular \<Rightarrow> Inl LogNotRegular
      | Some f \<Rightarrow> Inr (d(q := Some f, p := None)))"

text \<open>\<open>open\<close>: the file is created when it is missing, and its mode is corrected.\<close>

definition open_log :: "log_writer \<Rightarrow> log_dir \<Rightarrow> (log_error + log_writer) \<times> log_dir" where
  "open_log w d =
     (case d Current of
        Some Irregular \<Rightarrow> (Inl LogNotRegular, d)
      | Some (Regular m b) \<Rightarrow>
          (Inr (w\<lparr>lw_open := True, lw_size := int (length b)\<rparr>), d(Current := Some (Regular file_mode b)))
      | None \<Rightarrow> (Inr (w\<lparr>lw_open := True, lw_size := 0\<rparr>), d(Current := Some (Regular file_mode []))))"

text \<open>The loop of \<open>rotate\<close> from \<open>index\<close> down to 1; an error leaves the renames before it.\<close>

function shift_files :: "int \<Rightarrow> log_dir \<Rightarrow> log_error option \<times> log_dir" where
  "shift_files index d =
     (if index < 1 then (None, d)
      else case rename_regular (Rotated index) (Rotated (index + 1)) d of
          Inl e \<Rightarrow> (Some e, d)
        | Inr d \<Rightarrow> shift_files (index - 1) d)"
  by pat_completeness auto
termination
  by (relation "measure (\<lambda>(index, _). nat index)") auto

declare shift_files.simps [simp del]

definition make_room :: "int \<Rightarrow> log_dir \<Rightarrow> log_error option \<times> log_dir" where
  "make_room max_files d =
     (if max_files > 1
      then case remove_regular (Rotated (max_files - 1)) d of
          Inl e \<Rightarrow> (Some e, d)
        | Inr d \<Rightarrow> (case shift_files (max_files - 2) d of
              (Some e, d) \<Rightarrow> (Some e, d)
            | (None, d) \<Rightarrow> (case rename_regular Current (Rotated 1) d of
                  Inl e \<Rightarrow> (Some e, d)
                | Inr d \<Rightarrow> (None, d)))
      else case remove_regular Current d of
          Inl e \<Rightarrow> (Some e, d)
        | Inr d \<Rightarrow> (None, d))"

definition rotate_log :: "log_writer \<Rightarrow> log_dir \<Rightarrow> log_error option \<times> log_writer \<times> log_dir" where
  "rotate_log w d =
     (let w = w\<lparr>lw_open := False\<rparr> in
      case make_room (lw_max_files w) d of
        (Some e, d) \<Rightarrow> (Some e, w, d)
      | (None, d) \<Rightarrow> (case open_log w d of
            (Inl e, d) \<Rightarrow> (Some e, w, d)
          | (Inr w, d) \<Rightarrow> (None, w, d)))"

definition append_log :: "nat list \<Rightarrow> log_dir \<Rightarrow> log_dir" where
  "append_log payload d =
     (case d Current of
        Some (Regular m b) \<Rightarrow> d(Current := Some (Regular m (b @ payload)))
      | _ \<Rightarrow> d)"

definition write_log :: "nat list \<Rightarrow> log_writer \<Rightarrow> log_dir \<Rightarrow> (log_error + int) \<times> log_writer \<times> log_dir" where
  "write_log payload w d =
     (if \<not> lw_open w then (Inl LogClosed, w, d)
      else
        case (if lw_size w > 0 \<and> lw_size w + int (length payload) > lw_max_bytes w
              then rotate_log w d else (None, w, d)) of
          (Some e, w, d) \<Rightarrow> (Inl e, w, d)
        | (None, w, d) \<Rightarrow>
            (Inr (int (length payload)), w\<lparr>lw_size := lw_size w + int (length payload)\<rparr>, append_log payload d))"

definition close_log :: "log_writer \<Rightarrow> log_writer" where
  "close_log w = w\<lparr>lw_open := False\<rparr>"

definition new_log :: "string \<Rightarrow> int \<Rightarrow> int \<Rightarrow> log_dir \<Rightarrow> (log_error + log_writer) \<times> log_dir" where
  "new_log path max_bytes max_files d =
     (if path = '''' then (Inl PathRequired, d)
      else if max_bytes \<le> 0 then (Inl SizeNotPositive, d)
      else if max_files < 1 then (Inl FilesTooFew, d)
      else open_log \<lparr>lw_max_bytes = max_bytes, lw_max_files = max_files, lw_open = False, lw_size = 0\<rparr> d)"

section \<open>The log as a list of generations\<close>

text \<open>
  The specification: the payloads of each generation, newest first. A payload that does not fit
  beside what the newest generation has opens a new one, and only the newest ones are kept.
\<close>

type_synonym generations = "nat list list list"

definition group_bytes :: "nat list list \<Rightarrow> nat" where
  "group_bytes g = length (concat g)"

definition spec_write :: "int \<Rightarrow> int \<Rightarrow> nat list \<Rightarrow> generations \<Rightarrow> generations" where
  "spec_write max_bytes max_files p gs =
     (if group_bytes (hd gs) > 0 \<and> int (group_bytes (hd gs)) + int (length p) > max_bytes
      then take (nat max_files) ([p] # gs)
      else (hd gs @ [p]) # tl gs)"

text \<open>The generations that the directory holds: consecutive regular files, and nothing after them.\<close>

definition name_of :: "nat \<Rightarrow> log_name" where
  "name_of i = (if i = 0 then Current else Rotated (int i))"

definition holds_log :: "log_dir \<Rightarrow> generations \<Rightarrow> bool" where
  "holds_log d gs \<longleftrightarrow> (\<forall>i. d (name_of i) =
     (if i < length gs then Some (Regular file_mode (concat (gs ! i))) else None))"

definition log_ok :: "log_writer \<Rightarrow> log_dir \<Rightarrow> generations \<Rightarrow> bool" where
  "log_ok w d gs \<longleftrightarrow> holds_log d gs \<and> gs \<noteq> [] \<and> int (length gs) \<le> lw_max_files w
     \<and> lw_open w \<and> 0 < lw_max_bytes w \<and> lw_size w = int (group_bytes (hd gs))"

lemma name_of_eq [simp]: "name_of i = name_of j \<longleftrightarrow> i = j"
  by (auto simp: name_of_def)

lemma name_of_zero [simp]: "name_of 0 = Current"
  by (simp add: name_of_def)

lemma name_of_Current [simp]: "name_of (Suc i) \<noteq> Current"
  by (simp add: name_of_def)

lemma name_of_Suc: "name_of (Suc i) = Rotated (int i + 1)"
  by (simp add: name_of_def add.commute)

text \<open>The shift moves every generation up by one.\<close>

lemma shift_files_moves:
  assumes "\<forall>i. 1 \<le> i \<longrightarrow> i \<le> n \<longrightarrow> d (name_of i) \<noteq> Some Irregular" "d (name_of (Suc n)) = None"
  shows "\<exists>d'. shift_files (int n) d = (None, d')
     \<and> (\<forall>p. (\<forall>i. 1 \<le> i \<longrightarrow> i \<le> Suc n \<longrightarrow> p \<noteq> name_of i) \<longrightarrow> d' p = d p)
     \<and> d' (name_of 1) = None \<and> (\<forall>i. 1 \<le> i \<longrightarrow> i \<le> n \<longrightarrow> d' (name_of (Suc i)) = d (name_of i))"
  using assms
proof (induction n arbitrary: d)
  case 0
  then show ?case by (simp add: shift_files.simps)
next
  case (Suc n)
  let ?p = "name_of (Suc n)" and ?q = "name_of (Suc (Suc n))"
  define d1 where "d1 = (case d ?p of None \<Rightarrow> d | Some f \<Rightarrow> d(?q := Some f, ?p := None))"
  have step: "rename_regular ?p ?q d = Inr d1"
    using Suc.prems(1)[rule_format, of "Suc n"] by (auto simp: rename_regular_def d1_def split: option.splits node.splits)
  have d1: "d1 ?p = None" "d1 ?q = d ?p" "\<And>r. r \<noteq> ?p \<Longrightarrow> r \<noteq> ?q \<Longrightarrow> d1 r = d r"
    using Suc.prems(2) by (auto simp: d1_def name_of_def split: option.splits)
  have low: "d1 (name_of i) = d (name_of i)" if "i \<le> n" for i
    using that by (intro d1(3)) (unfold name_of_eq, simp_all)
  then have "\<forall>i. 1 \<le> i \<longrightarrow> i \<le> n \<longrightarrow> d1 (name_of i) \<noteq> Some Irregular"
    using Suc.prems(1) by simp
  then obtain d' where d': "shift_files (int n) d1 = (None, d')"
    "\<forall>p. (\<forall>i. 1 \<le> i \<longrightarrow> i \<le> Suc n \<longrightarrow> p \<noteq> name_of i) \<longrightarrow> d' p = d1 p"
    "d' (name_of 1) = None" "\<forall>i. 1 \<le> i \<longrightarrow> i \<le> n \<longrightarrow> d' (name_of (Suc i)) = d1 (name_of i)"
    using Suc.IH[of d1] d1(1) by blast
  have "shift_files (int (Suc n)) d = shift_files (int n) d1"
  proof -
    have "Rotated (int (Suc n)) = ?p" "Rotated (int (Suc n) + 1) = ?q" "int (Suc n) - 1 = int n"
      by (simp_all add: name_of_Suc)
    then show ?thesis using step by (simp only: shift_files.simps[of "int (Suc n)"]) simp
  qed
  moreover have "d' (name_of (Suc i)) = d (name_of i)" if "1 \<le> i" "i \<le> Suc n" for i
  proof (cases "i = Suc n")
    case True
    have "d' ?q = d1 ?q" using d'(2) by (metis Suc_n_not_le_n name_of_eq)
    then show ?thesis using True d1(2) by simp
  next
    case False
    then have i: "i \<le> n" using that by simp
    then show ?thesis using d'(4) that(1) low by simp
  qed
  moreover have "d' p = d p" if "\<forall>i. 1 \<le> i \<longrightarrow> i \<le> Suc (Suc n) \<longrightarrow> p \<noteq> name_of i" for p
    using that d'(2) d1(3)[of p] by auto
  ultimately show ?case using d'(1,3) by auto
qed

text \<open>Making room drops the last generation when there are as many as allowed.\<close>

lemma make_room_generations:
  assumes "holds_log d gs" "gs \<noteq> []" "int (length gs) \<le> max_files"
  shows "\<exists>d'. make_room max_files d = (None, d') \<and> d' Current = None
     \<and> (\<forall>i. d' (name_of (Suc i)) =
          (if i < length gs \<and> int (Suc i) < max_files then Some (Regular file_mode (concat (gs ! i))) else None))"
proof -
  have files: "d (name_of i) = (if i < length gs then Some (Regular file_mode (concat (gs ! i))) else None)" for i
    using assms(1) by (simp add: holds_log_def)
  have first: "d Current = Some (Regular file_mode (concat (hd gs)))"
    using files[of 0] assms(2) by (simp add: hd_conv_nth)
  show ?thesis
  proof (cases "max_files > 1")
    case False
    moreover have "length gs \<noteq> 0" using assms(2) by simp
    ultimately have "length gs = 1" using assms(3) by linarith
    then show ?thesis using False first files[of "Suc _"] assms(3)
      by (auto simp: make_room_def remove_regular_def)
  next
    case True
    define n where "n = nat (max_files - 2)"
    have n: "max_files = int n + 2" "int (Suc n) = max_files - 1" using True by (simp_all add: n_def)
    define d1 where "d1 = d(name_of (Suc n) := None)"
    have p: "Rotated (max_files - 1) = name_of (Suc n)" by (simp add: n(1) name_of_Suc)
    have rm: "remove_regular (Rotated (max_files - 1)) d = Inr d1"
      unfolding p remove_regular_def d1_def files[of "Suc n"]
      using files[of "Suc n"] by (auto simp: fun_eq_iff)
    have d1: "d1 (name_of i) = (if i = Suc n then None else d (name_of i))" for i
      by (simp only: d1_def fun_upd_apply name_of_eq)
    have "\<forall>i. 1 \<le> i \<longrightarrow> i \<le> n \<longrightarrow> d1 (name_of i) \<noteq> Some Irregular" "d1 (name_of (Suc n)) = None"
      using d1 files by simp_all
    then obtain d2 where d2: "shift_files (int n) d1 = (None, d2)"
      "\<forall>p. (\<forall>i. 1 \<le> i \<longrightarrow> i \<le> Suc n \<longrightarrow> p \<noteq> name_of i) \<longrightarrow> d2 p = d1 p"
      "d2 (name_of 1) = None" "\<forall>i. 1 \<le> i \<longrightarrow> i \<le> n \<longrightarrow> d2 (name_of (Suc i)) = d1 (name_of i)"
      using shift_files_moves by blast
    have cur: "d2 Current = d Current" using d2(2) d1[of 0] by (simp add: name_of_def)
    define d3 where "d3 = d2(name_of (Suc 0) := d Current, Current := None)"
    have p1: "Rotated 1 = name_of (Suc 0)" by (simp add: name_of_Suc)
    have d3: "d3 (name_of (Suc i)) = (if i = 0 then d Current else d2 (name_of (Suc i)))" for i
      using name_of_eq[of "Suc i" 0] by (simp add: d3_def del: name_of_eq) (simp add: name_of_def)
    have "shift_files (max_files - 2) d1 = (None, d2)" using d2(1) n(1) by simp
    moreover have "rename_regular Current (Rotated 1) d2 = Inr d3"
      using cur first by (simp add: rename_regular_def d3_def p1)
    ultimately have "make_room max_files d = (None, d3)"
      using True rm by (simp add: make_room_def)
    moreover have "d3 (name_of (Suc i)) =
        (if i < length gs \<and> int (Suc i) < max_files then Some (Regular file_mode (concat (gs ! i))) else None)" for i
    proof -
      consider "i = 0" | "1 \<le> i" "i \<le> n" | "i > n" by linarith
      then show ?thesis
      proof cases
        case 1
        then show ?thesis using first assms(2) True by (simp add: d3 hd_conv_nth)
      next
        case 2
        then have "d3 (name_of (Suc i)) = d1 (name_of i)"
          using d2(4) by (simp add: d3)
        then show ?thesis using 2 d1[of i] files[of i] n by simp
      next
        case 3
        have "d3 (name_of (Suc i)) = d2 (name_of (Suc i))" using 3 by (simp add: d3)
        also have "\<dots> = d1 (name_of (Suc i))" using d2(2) 3 by (metis name_of_eq not_less_eq_eq not_less Suc_leI)
        also have "\<dots> = None" using d1[of "Suc i"] files[of "Suc i"] assms(3) 3 n by auto
        finally show ?thesis using 3 n by simp
      qed
    qed
    ultimately show ?thesis by (auto simp: d3_def)
  qed
qed

text \<open>Every write is the write of the specification.\<close>

lemma write_log_refines:
  assumes "log_ok w d gs"
  shows "\<exists>w' d'. write_log p w d = (Inr (int (length p)), w', d')
     \<and> log_ok w' d' (spec_write (lw_max_bytes w) (lw_max_files w) p gs)
     \<and> lw_max_bytes w' = lw_max_bytes w \<and> lw_max_files w' = lw_max_files w"
proof -
  note ok = assms[unfolded log_ok_def]
  have files: "d (name_of i) = (if i < length gs then Some (Regular file_mode (concat (gs ! i))) else None)" for i
    using ok by (simp add: holds_log_def)
  obtain g gs' where gs: "gs = g # gs'" using ok by (cases gs) auto
  show ?thesis
  proof (cases "lw_size w > 0 \<and> lw_size w + int (length p) > lw_max_bytes w")
    case False
    have cur: "d Current = Some (Regular file_mode (concat g))" using files[of 0] gs by simp
    have "holds_log (append_log p d) ((g @ [p]) # gs')"
      unfolding holds_log_def
    proof
      fix i
      show "append_log p d (name_of i) = (if i < length ((g @ [p]) # gs')
          then Some (Regular file_mode (concat (((g @ [p]) # gs') ! i))) else None)"
        using files[of i] gs cur by (cases i) (auto simp: append_log_def)
    qed
    then show ?thesis using False ok gs
      by (auto simp: write_log_def log_ok_def spec_write_def group_bytes_def)
  next
    case True
    obtain d1 where d1: "make_room (lw_max_files w) d = (None, d1)" "d1 Current = None"
      "\<And>i. d1 (name_of (Suc i)) =
        (if i < length gs \<and> int (Suc i) < lw_max_files w then Some (Regular file_mode (concat (gs ! i))) else None)"
      using make_room_generations[of d gs "lw_max_files w"] ok by blast
    let ?w = "w\<lparr>lw_size := int (length p)\<rparr>" and ?d = "append_log p (d1(Current := Some (Regular file_mode [])))"
    have run: "write_log p w d = (Inr (int (length p)), ?w, ?d)"
      using True ok d1(1,2) by (simp add: write_log_def rotate_log_def open_log_def Let_def)
    obtain m where m: "lw_max_files w = int (Suc m)"
      using ok gs by (metis int_ops(4) length_Cons nat_int nonneg_int_cases not0_implies_Suc of_nat_0_le_iff of_nat_le_0_iff order.trans nat.distinct(1))
    have "holds_log ?d (take (Suc m) ([p] # gs))"
      unfolding holds_log_def
    proof
      fix i
      show "?d (name_of i) = (if i < length (take (Suc m) ([p] # gs))
          then Some (Regular file_mode (concat (take (Suc m) ([p] # gs) ! i))) else None)"
        using d1(3) m by (cases i) (auto simp: append_log_def)
    qed
    then have "log_ok ?w ?d (take (Suc m) ([p] # gs))"
      using ok m by (simp add: log_ok_def group_bytes_def)
    moreover have "spec_write (lw_max_bytes w) (lw_max_files w) p gs = take (Suc m) ([p] # gs)"
      using True ok m by (simp add: spec_write_def del: of_nat_Suc)
    ultimately show ?thesis using run by auto
  qed
qed

end
