(* ===== verification/Config_Forms.thy ===== *)
theory Config_Forms
  imports Go_Std "HOL-Library.List_Lexorder"
begin

text \<open>
  \<open>internal/mcpconfig/config.go\<close> and \<open>internal/messaging/config.go\<close>: the configurations an operator
  may give an instance, brought into one form or refused. \<open>url.Parse\<close> of \<open>net/url\<close> is an argument:
  the parts of the parsed URL that the code looks at, or \<open>None\<close> for its error. An error is the
  message of the code.
\<close>

record parsed_url =
  pu_scheme :: string
  pu_host :: string
  pu_user :: bool
  pu_fragment :: string

type_synonym url_parser = "string \<Rightarrow> parsed_url option"

section \<open>Trimming\<close>

lemma trim_runes_id: "find (\<lambda>r. has_prefix s r) runes = None \<Longrightarrow> trim_runes n runes s = s"
  by (cases n) simp_all

lemma has_prefix_append: "has_prefix s p \<longleftrightarrow> (\<exists>t. s = p @ t)"
proof (induction s p rule: has_prefix.induct)
qed (auto simp: Cons_eq_append_conv)

lemma trim_runes_suffix: "\<exists>p. s = p @ trim_runes n runes s"
proof (induction n runes s rule: trim_runes.induct)
  case (2 n runes s)
  show ?case
  proof (cases "find (\<lambda>r. has_prefix s r) runes")
    case (Some r)
    obtain p where "drop (length r) s = p @ trim_runes n runes (drop (length r) s)"
      using "2.IH"[OF Some] by blast
    then have "s = (take (length r) s @ p) @ trim_runes n runes (drop (length r) s)"
      by (metis append_assoc append_take_drop_id)
    then show ?thesis using Some by (simp only: trim_runes.simps option.case) blast
  qed simp
qed simp

text \<open>With at least as many rounds as characters no rune is left in front.\<close>

lemma trim_runes_done:
  assumes "length s \<le> n" "[] \<notin> set runes"
  shows "find (\<lambda>r. has_prefix (trim_runes n runes s) r) runes = None"
  using assms
proof (induction n runes s rule: trim_runes.induct)
  case (1 runes s)
  then show ?case by (auto simp: find_None_iff has_prefix_append)
next
  case (2 n runes s)
  show ?case
  proof (cases "find (\<lambda>r. has_prefix s r) runes")
    case (Some r)
    then have "r \<in> set runes" "has_prefix s r" by (auto simp: find_Some_iff)
    then have "r \<noteq> []" using "2.prems"(2) by metis
    then have "0 < length r" by simp
    moreover have "length r \<le> length s" using \<open>has_prefix s r\<close> by (auto simp: has_prefix_append)
    ultimately have "length (drop (length r) s) \<le> n"
      using "2.prems"(1) unfolding length_drop by linarith
    then show ?thesis using "2.IH"[OF Some] "2.prems"(2) Some by simp
  qed simp
qed

lemma space_runes_nonempty [simp]: "[] \<notin> set space_runes" "[] \<notin> rev ` set space_runes"
  by (auto simp: space_runes_def)

lemma trim_space_idem [simp]: "trim_space (trim_space s) = trim_space s"
proof -
  define l where "l = trim_runes (length s) space_runes s"
  define r where "r = trim_runes (length l) (map rev space_runes) (rev l)"
  have t: "trim_space s = rev r" by (simp add: trim_space_def l_def r_def Let_def)
  obtain p where p: "rev l = p @ r" using trim_runes_suffix r_def by blast
  then have l: "l = rev r @ rev p" by (metis rev_append rev_rev_ident)
  have "find (\<lambda>x. has_prefix l x) space_runes = None"
    unfolding l_def by (rule trim_runes_done) simp_all
  then have "find (\<lambda>x. has_prefix (rev r) x) space_runes = None"
    by (auto simp: find_None_iff has_prefix_append l)
  moreover have "find (\<lambda>x. has_prefix r x) (map rev space_runes) = None"
    unfolding r_def by (rule trim_runes_done) simp_all
  ultimately show ?thesis by (simp add: t trim_space_def[of "rev r"] trim_runes_id)
qed

text \<open>A string that no rune can begin or end is left alone.\<close>

lemma trim_space_id:
  assumes "s \<noteq> [] \<Longrightarrow> \<forall>r \<in> set space_runes. hd r \<noteq> hd s \<and> last r \<noteq> last s"
  shows "trim_space s = s"
proof -
  have "\<not> has_prefix s r" "\<not> has_prefix (rev s) (rev r)" if "r \<in> set space_runes" for r
  proof -
    have r: "r \<noteq> []" using that space_runes_nonempty(1) by metis
    show "\<not> has_prefix s r" using assms that r by (auto simp: has_prefix_append)
    show "\<not> has_prefix (rev s) (rev r)"
    proof
      assume "has_prefix (rev s) (rev r)"
      then obtain t where "rev s = rev r @ t" by (auto simp: has_prefix_append)
      then have "s = rev t @ r" by (metis rev_append rev_rev_ident)
      then show False using assms that r by auto
    qed
  qed
  then have "find (\<lambda>r. has_prefix s r) space_runes = None"
    "find (\<lambda>r. has_prefix (rev s) r) (map rev space_runes) = None"
    by (auto simp: find_None_iff)
  then show ?thesis by (simp add: trim_space_def trim_runes_id)
qed

section \<open>Lists without duplicates\<close>

text \<open>The loops that collect the values of a list once each, in the order of their first occurrence.\<close>

fun collect :: "string list \<Rightarrow> string list \<Rightarrow> string list" where
  "collect acc [] = acc"
| "collect acc (v # vs) =
     (let v = trim_space v in
      if v = '''' \<or> v \<in> set acc then collect acc vs else collect (acc @ [v]) vs)"

definition normalize_list :: "string list \<Rightarrow> string list" where
  "normalize_list values = sort (collect [] values)"

lemma set_collect: "set (collect acc vs) = set acc \<union> (trim_space ` set vs - {''''})"
  by (induction acc vs rule: collect.induct) (auto simp: Let_def)

lemma distinct_collect: "distinct acc \<Longrightarrow> distinct (collect acc vs)"
  by (induction acc vs rule: collect.induct) (auto simp: Let_def)

lemma normalize_list_eqI: "sorted xs \<Longrightarrow> distinct xs \<Longrightarrow> set xs = trim_space ` set vs - {''''} \<Longrightarrow> normalize_list vs = xs"
  by (rule sorted_distinct_set_unique)
    (simp_all add: normalize_list_def set_collect distinct_collect)

lemma normalize_list_sel:
  "set (normalize_list vs) = trim_space ` set vs - {''''}" "sorted (normalize_list vs)" "distinct (normalize_list vs)"
  by (simp_all add: normalize_list_def set_collect distinct_collect)

lemma normalize_list_idem [simp]: "normalize_list (normalize_list vs) = normalize_list vs"
proof (rule normalize_list_eqI)
  have "trim_space x = x" if "x \<in> trim_space ` set vs" for x using that by auto
  then have "trim_space ` (trim_space ` set vs - {''''}) = trim_space ` set vs - {''''}"
    by (auto simp: image_iff)
  then show "set (normalize_list vs) = trim_space ` set (normalize_list vs) - {''''}"
    by (simp add: normalize_list_sel(1))
qed (simp_all add: normalize_list_sel)

section \<open>MCP servers\<close>

record mcp_server =
  ms_name :: string
  ms_source :: string
  ms_url :: string
  ms_auth_type :: string
  ms_bearer_token :: string
  ms_enabled :: bool
  ms_tools :: "string list"

type_synonym mcp_configuration = "mcp_server list"

definition maximum_servers :: nat where
  "maximum_servers = 20"

definition maximum_tools_per_server :: nat where
  "maximum_tools_per_server = 100"

definition server_name_pattern :: "string \<Rightarrow> bool" where
  "server_name_pattern = matches is_lower (\<lambda>c. is_lower c \<or> is_digit c \<or> c \<in> set ''_-'') 1 31"

definition tool_char :: "char \<Rightarrow> bool" where
  "tool_char c \<longleftrightarrow> is_lower c \<or> is_upper c \<or> is_digit c"

definition tool_name_pattern :: "string \<Rightarrow> bool" where
  "tool_name_pattern = matches tool_char (\<lambda>c. tool_char c \<or> c \<in> set ''_.:-'') 0 127"

definition control_char :: "char \<Rightarrow> bool" where
  "control_char c \<longleftrightarrow> byte_of c < 32 \<or> byte_of c = 127"

definition remote_url_ok :: "url_parser \<Rightarrow> string \<Rightarrow> bool" where
  "remote_url_ok parse s = (case parse s of
     None \<Rightarrow> False
   | Some u \<Rightarrow> pu_scheme u = ''https'' \<and> pu_host u \<noteq> '''' \<and> \<not> pu_user u \<and> pu_fragment u = '''')"

text \<open>The loop over the tools; an unsupported name is an error wherever it stands.\<close>

fun collect_tools :: "string list \<Rightarrow> string list \<Rightarrow> string + string list" where
  "collect_tools acc [] = Inr acc"
| "collect_tools acc (v # vs) =
     (let v = trim_space v in
      if \<not> tool_name_pattern v then Inl ''MCP tool names contain unsupported characters or length''
      else if v \<in> set acc then collect_tools acc vs else collect_tools (acc @ [v]) vs)"

definition check_auth :: "mcp_server \<Rightarrow> string + mcp_server" where
  "check_auth s =
     (if ms_auth_type s = ''none'' then Inr (s\<lparr>ms_bearer_token := ''''\<rparr>)
      else if ms_auth_type s = ''bearer'' then
        (if ms_enabled s \<and> ms_bearer_token s = '''' then
           Inl ''enabled bearer-authenticated MCP servers require a token''
         else if length (ms_bearer_token s) > 4096 then Inl ''MCP bearer token is too long''
         else if list_ex control_char (ms_bearer_token s) then
           Inl ''MCP bearer token cannot contain control characters''
         else Inr s)
      else Inl ''MCP authentication must be none or bearer'')"

definition check_tools :: "mcp_server \<Rightarrow> string + mcp_server" where
  "check_tools s =
     (if length (ms_tools s) > maximum_tools_per_server then Inl ''an MCP server can allow at most 100 tools''
      else if ms_enabled s \<and> ms_tools s = [] then
        Inl ''enabled MCP servers require an explicit tool allowlist''
      else case collect_tools [] (ms_tools s) of
          Inl e \<Rightarrow> Inl e
        | Inr tools \<Rightarrow> Inr (s\<lparr>ms_tools := sort tools\<rparr>))"

text \<open>One round of the loop over the servers; \<open>seen\<close> are the names before.\<close>

definition clean_server :: "mcp_server \<Rightarrow> mcp_server" where
  "clean_server s = s\<lparr>ms_name := to_lower (trim_space (ms_name s)),
     ms_source := to_lower (trim_space (ms_source s)), ms_url := trim_space (ms_url s),
     ms_auth_type := to_lower (trim_space (ms_auth_type s)), ms_bearer_token := trim_space (ms_bearer_token s)\<rparr>"

definition normalize_server :: "url_parser \<Rightarrow> string set \<Rightarrow> mcp_server \<Rightarrow> string + mcp_server" where
  "normalize_server parse seen s0 =
     (let s = clean_server s0 in
      if \<not> server_name_pattern (ms_name s) then
        Inl ''MCP server name must use 2-32 lowercase letters, numbers, underscores, or hyphens''
      else if ms_name s \<in> seen then Inl ''MCP server names must be unique''
      else let s = (if ms_source s = '''' then s\<lparr>ms_source := ''remote''\<rparr> else s) in
      if ms_source s \<noteq> ''remote'' then
        Inl ''only remote MCP servers are supported by this Fleet release''
      else if \<not> remote_url_ok parse (ms_url s) then
        Inl ''remote MCP URL must be an https URL without embedded credentials or a fragment''
      else let s = (if ms_auth_type s = '''' then s\<lparr>ms_auth_type := ''none''\<rparr> else s) in
      case check_auth s of Inl e \<Rightarrow> Inl e | Inr s \<Rightarrow> check_tools s)"

fun normalize_servers :: "url_parser \<Rightarrow> string set \<Rightarrow> mcp_server list \<Rightarrow> string + mcp_server list" where
  "normalize_servers parse seen [] = Inr []"
| "normalize_servers parse seen (s # ss) =
     (case normalize_server parse seen s of
        Inl e \<Rightarrow> Inl e
      | Inr t \<Rightarrow> (case normalize_servers parse (insert (ms_name t) seen) ss of
            Inl e \<Rightarrow> Inl e
          | Inr ts \<Rightarrow> Inr (t # ts)))"

definition normalize_mcp :: "url_parser \<Rightarrow> mcp_configuration \<Rightarrow> string + mcp_configuration" where
  "normalize_mcp parse servers =
     (if length servers > maximum_servers then Inl ''at most 20 MCP servers can be configured per instance''
      else case normalize_servers parse {} servers of
          Inl e \<Rightarrow> Inl e
        | Inr ts \<Rightarrow> Inr (sort_key ms_name ts))"

section \<open>The normal form\<close>

definition mcp_server_ok :: "url_parser \<Rightarrow> mcp_server \<Rightarrow> bool" where
  "mcp_server_ok parse s \<longleftrightarrow> server_name_pattern (ms_name s) \<and> ms_source s = ''remote''
     \<and> trim_space (ms_url s) = ms_url s \<and> remote_url_ok parse (ms_url s)
     \<and> (ms_auth_type s = ''none'' \<and> ms_bearer_token s = ''''
        \<or> ms_auth_type s = ''bearer'' \<and> (ms_enabled s \<longrightarrow> ms_bearer_token s \<noteq> '''')
          \<and> length (ms_bearer_token s) \<le> 4096 \<and> list_all (\<lambda>c. \<not> control_char c) (ms_bearer_token s)
          \<and> trim_space (ms_bearer_token s) = ms_bearer_token s)
     \<and> length (ms_tools s) \<le> maximum_tools_per_server \<and> (ms_enabled s \<longrightarrow> ms_tools s \<noteq> [])
     \<and> list_all tool_name_pattern (ms_tools s) \<and> sorted (ms_tools s) \<and> distinct (ms_tools s)"

definition mcp_ok :: "url_parser \<Rightarrow> mcp_configuration \<Rightarrow> bool" where
  "mcp_ok parse ss \<longleftrightarrow> length ss \<le> maximum_servers \<and> sorted (map ms_name ss) \<and> distinct (map ms_name ss)
     \<and> list_all (mcp_server_ok parse) ss"

definition plain_char :: "char \<Rightarrow> bool" where
  "plain_char c \<longleftrightarrow> 33 \<le> byte_of c \<and> byte_of c < 128 \<and> \<not> is_upper c"

lemma to_lower_plain: "list_all (\<lambda>c. \<not> is_upper c \<and> byte_of c < 128) s \<Longrightarrow> to_lower s = s"
  by (induction s rule: to_lower.induct) (auto simp: lower_char_def)

lemma trim_space_visible:
  assumes "list_all (\<lambda>c. 33 \<le> byte_of c \<and> byte_of c < 128) s"
  shows "trim_space s = s"
proof (rule trim_space_id)
  assume s: "s \<noteq> []"
  have r: "byte_of (last r) < 33 \<or> 128 \<le> byte_of (last r)" "byte_of (hd r) < 33 \<or> 128 \<le> byte_of (hd r)"
    if "r \<in> set space_runes" for r
    using that by (auto simp: space_runes_def byte_of_def)
  have "33 \<le> byte_of c \<and> byte_of c < 128" if "c \<in> set s" for c
    using assms that by (simp add: list_all_iff)
  then show "\<forall>r \<in> set space_runes. hd r \<noteq> hd s \<and> last r \<noteq> last s"
    using r s by (metis hd_in_set last_in_set not_le)
qed

lemma matches_all: "matches f g lo hi s \<Longrightarrow> list_all (\<lambda>c. f c \<or> g c) s"
  by (cases s) (auto simp: matches_def list_all_iff)

lemma server_name_plain:
  assumes "server_name_pattern s"
  shows "trim_space s = s" "to_lower s = s"
proof -
  have "list_all (\<lambda>c. is_lower c \<or> is_digit c \<or> c \<in> set ''_-'') s"
    using assms matches_all[of is_lower _ 1 31 s] by (auto simp: server_name_pattern_def list_all_iff)
  then have "list_all plain_char s"
    by (auto simp: list_all_iff plain_char_def is_lower_def is_digit_def is_upper_def byte_of_def)
  then show "trim_space s = s" "to_lower s = s"
    by (auto intro!: trim_space_visible to_lower_plain simp: list_all_iff plain_char_def)
qed

lemma tool_name_plain:
  assumes "tool_name_pattern s"
  shows "trim_space s = s"
proof -
  have "list_all (\<lambda>c. tool_char c \<or> c \<in> set ''_.:-'') s"
    using assms matches_all[of tool_char _ 0 127 s] by (auto simp: tool_name_pattern_def list_all_iff)
  then show ?thesis
    by (intro trim_space_visible)
      (auto simp: list_all_iff tool_char_def is_lower_def is_digit_def is_upper_def byte_of_def)
qed

lemma sort_Nil: "sort xs = [] \<longleftrightarrow> xs = []"
  by (metis length_0_conv length_sort)

lemma collect_tools_Inr:
  assumes "collect_tools acc vs = Inr ts" "distinct acc" "list_all tool_name_pattern acc"
  shows "distinct ts" "list_all tool_name_pattern ts" "set acc \<subseteq> set ts" "length ts \<le> length acc + length vs"
    "vs \<noteq> [] \<Longrightarrow> ts \<noteq> []"
  using assms
  by (induction acc vs rule: collect_tools.induct) (auto simp: Let_def split: if_splits)

lemma collect_tools_id:
  assumes "distinct (acc @ vs)" "list_all tool_name_pattern vs"
  shows "collect_tools acc vs = Inr (acc @ vs)"
  using assms by (induction acc vs rule: collect_tools.induct) (auto simp: Let_def tool_name_plain)

lemma check_auth_Inr:
  "check_auth s = Inr t \<Longrightarrow> t = s\<lparr>ms_bearer_token := ms_bearer_token t\<rparr>
     \<and> (ms_auth_type t = ''none'' \<and> ms_bearer_token t = ''''
        \<or> ms_auth_type t = ''bearer'' \<and> t = s \<and> (ms_enabled t \<longrightarrow> ms_bearer_token t \<noteq> '''')
          \<and> length (ms_bearer_token t) \<le> 4096 \<and> list_all (\<lambda>c. \<not> control_char c) (ms_bearer_token t))"
  by (auto simp: check_auth_def list_ex_iff list_all_iff split: if_splits)

lemma check_tools_Inr:
  assumes "check_tools s = Inr t"
  shows "t = s\<lparr>ms_tools := ms_tools t\<rparr>" "length (ms_tools t) \<le> maximum_tools_per_server"
    "ms_enabled s \<Longrightarrow> ms_tools t \<noteq> []" "list_all tool_name_pattern (ms_tools t)"
    "sorted (ms_tools t)" "distinct (ms_tools t)"
proof -
  obtain ts where ts: "collect_tools [] (ms_tools s) = Inr ts" "t = s\<lparr>ms_tools := sort ts\<rparr>"
    and s: "length (ms_tools s) \<le> maximum_tools_per_server" "ms_enabled s \<Longrightarrow> ms_tools s \<noteq> []"
    using assms by (auto simp: check_tools_def split: if_splits sum.splits)
  note c = collect_tools_Inr[OF ts(1)]
  show "t = s\<lparr>ms_tools := ms_tools t\<rparr>" "length (ms_tools t) \<le> maximum_tools_per_server"
    "ms_enabled s \<Longrightarrow> ms_tools t \<noteq> []" "list_all tool_name_pattern (ms_tools t)"
    "sorted (ms_tools t)" "distinct (ms_tools t)"
    using c s ts(2) by (auto simp: list_all_iff sort_Nil)
qed

lemma normalize_server_Inr:
  assumes "normalize_server parse seen s = Inr t"
  shows "mcp_server_ok parse t" "ms_name t \<notin> seen"
proof -
  define c where "c = clean_server s"
  define c2 where "c2 = (if ms_source c = '''' then c\<lparr>ms_source := ''remote''\<rparr> else c)"
  define c3 where "c3 = (if ms_auth_type c2 = '''' then c2\<lparr>ms_auth_type := ''none''\<rparr> else c2)"
  have ok: "server_name_pattern (ms_name c)" "ms_name c \<notin> seen" "ms_source c2 = ''remote''"
    "remote_url_ok parse (ms_url c2)"
    using assms by (auto simp: normalize_server_def Let_def c_def[symmetric] c2_def[symmetric] split: if_splits)
  then obtain u where u: "check_auth c3 = Inr u" "check_tools u = Inr t"
    using assms by (auto simp: normalize_server_def Let_def c_def[symmetric] c2_def[symmetric] c3_def[symmetric]
        split: sum.splits)
  have c3: "ms_name c3 = ms_name c" "ms_source c3 = ms_source c2" "ms_url c3 = ms_url c2"
    "ms_url c2 = trim_space (ms_url s)" "ms_bearer_token c3 = trim_space (ms_bearer_token s)"
    by (simp_all add: c3_def c2_def c_def clean_server_def)
  note a = check_auth_Inr[OF u(1)]
  note b = check_tools_Inr[OF u(2)]
  have sel: "ms_name u = ms_name c" "ms_source u = ''remote''" "ms_url u = trim_space (ms_url s)"
    "ms_enabled t = ms_enabled u" "ms_auth_type t = ms_auth_type u" "ms_bearer_token t = ms_bearer_token u"
    "ms_name t = ms_name u" "ms_source t = ms_source u" "ms_url t = ms_url u"
    using a b(1) c3 ok(3) by (metis mcp_server.surjective mcp_server.update_convs mcp_server.select_convs)+
  show "ms_name t \<notin> seen" using sel ok(2) by simp
  show "mcp_server_ok parse t"
    unfolding mcp_server_ok_def using a b(2-6) sel ok c3 by auto
qed

lemma normalize_server_id:
  assumes "mcp_server_ok parse s" "ms_name s \<notin> seen"
  shows "normalize_server parse seen s = Inr s"
proof -
  have words: "server_name_pattern ''remote''" "server_name_pattern ''none''" "server_name_pattern ''bearer''"
    by (simp_all add: server_name_pattern_def matches_def char_classes)
  have lower: "to_lower ''remote'' = ''remote''" "to_lower ''none'' = ''none''" "to_lower ''bearer'' = ''bearer''"
    "trim_space ''remote'' = ''remote''" "trim_space ''none'' = ''none''" "trim_space ''bearer'' = ''bearer''"
    by (simp_all only: server_name_plain words)
  have e: "trim_space '''' = ''''" by (rule trim_space_visible) simp
  note ok = assms(1)[unfolded mcp_server_ok_def]
  have name: "to_lower (trim_space (ms_name s)) = ms_name s" using ok server_name_plain by simp
  have "ms_source s = ''remote''" using ok by blast
  then have source: "to_lower (trim_space (ms_source s)) = ms_source s" by (simp only: lower)
  have url: "trim_space (ms_url s) = ms_url s" using ok by blast
  have "ms_auth_type s = ''none'' \<or> ms_auth_type s = ''bearer''" using ok by blast
  then have auth: "to_lower (trim_space (ms_auth_type s)) = ms_auth_type s" by (elim disjE) (simp_all only: lower)
  have token: "trim_space (ms_bearer_token s) = ms_bearer_token s" using ok e by auto
  have "clean_server s = s" unfolding clean_server_def name source url auth token by simp
  moreover have "check_auth s = Inr s"
    using ok by (auto simp: check_auth_def list_ex_iff list_all_iff)
  moreover have "check_tools s = Inr s"
    using ok collect_tools_id[of "[]" "ms_tools s"] by (simp add: check_tools_def sorted_sort_id)
  moreover have "ms_source s \<noteq> ''''" "ms_auth_type s \<noteq> ''''" using ok by auto
  ultimately show ?thesis
    using ok assms(2) by (simp add: normalize_server_def Let_def)
qed

lemma normalize_servers_Inr:
  "normalize_servers parse seen ss = Inr ts \<Longrightarrow>
   length ts = length ss \<and> list_all (mcp_server_ok parse) ts \<and> distinct (map ms_name ts)
     \<and> ms_name ` set ts \<inter> seen = {}"
proof (induction parse seen ss arbitrary: ts rule: normalize_servers.induct)
  case (2 parse seen s ss)
  then obtain t us where "normalize_server parse seen s = Inr t" "ts = t # us"
    "normalize_servers parse (insert (ms_name t) seen) ss = Inr us"
    by (auto split: sum.splits)
  then show ?case using "2.IH" normalize_server_Inr[of parse seen s t] by auto
qed simp

lemma normalize_servers_id:
  "list_all (mcp_server_ok parse) ss \<Longrightarrow> distinct (map ms_name ss) \<Longrightarrow> ms_name ` set ss \<inter> seen = {} \<Longrightarrow>
   normalize_servers parse seen ss = Inr ss"
  by (induction parse seen ss rule: normalize_servers.induct) (auto simp: normalize_server_id)

lemma mcp_ok_normalized:
  assumes "normalize_mcp parse ss = Inr ts"
  shows "mcp_ok parse ts"
proof -
  obtain us where "length ss \<le> maximum_servers" "normalize_servers parse {} ss = Inr us" "ts = sort_key ms_name us"
    using assms by (auto simp: normalize_mcp_def split: if_splits sum.splits)
  moreover from normalize_servers_Inr[OF this(2)] have "distinct (map ms_name (sort_key ms_name us))"
    by (auto simp: distinct_map)
  ultimately show ?thesis
    using normalize_servers_Inr[of parse "{}" ss us] by (auto simp: mcp_ok_def list_all_iff)
qed

lemma normalize_mcp_id:
  assumes "mcp_ok parse ss"
  shows "normalize_mcp parse ss = Inr ss"
  using assms normalize_servers_id[of parse ss "{}"]
  by (auto simp: mcp_ok_def normalize_mcp_def sort_key_id_if_sorted)

section \<open>Messaging\<close>

record telegram_configuration =
  tg_enabled :: bool
  tg_bot_token :: string
  tg_allowed_users :: "string list"
  tg_group_allowed_users :: "string list"
  tg_group_allowed_chats :: "string list"
  tg_require_mention :: bool
  tg_proxy_url :: string

record whatsapp_configuration =
  wa_enabled :: bool
  wa_mode :: string
  wa_allowed_users :: "string list"
  wa_unauthorized_behavior :: string
  wa_reply_prefix :: string

record messaging_configuration =
  mg_telegram :: telegram_configuration
  mg_whatsapp :: whatsapp_configuration

definition telegram_identity_pattern :: "string \<Rightarrow> bool" where
  "telegram_identity_pattern s =
     (let digits = (if has_prefix s ''-'' then tl s else s)
      in list_all is_digit digits \<and> 1 \<le> length digits \<and> length digits \<le> 20)"

definition whatsapp_number_pattern :: "string \<Rightarrow> bool" where
  "whatsapp_number_pattern = matches (\<lambda>c. is_digit c \<and> c \<noteq> CHR ''0'') is_digit 6 14"

definition clean_telegram :: "telegram_configuration \<Rightarrow> telegram_configuration" where
  "clean_telegram t = t\<lparr>tg_bot_token := trim_space (tg_bot_token t),
     tg_allowed_users := normalize_list (tg_allowed_users t),
     tg_group_allowed_users := normalize_list (tg_group_allowed_users t),
     tg_group_allowed_chats := normalize_list (tg_group_allowed_chats t),
     tg_proxy_url := trim_space (tg_proxy_url t)\<rparr>"

definition check_telegram :: "url_parser \<Rightarrow> telegram_configuration \<Rightarrow> string option" where
  "check_telegram parse t =
     (if tg_enabled t \<and> tg_bot_token t = '''' then
        Some ''Telegram bot token is required when Telegram is enabled''
      else if tg_enabled t \<and> tg_allowed_users t = [] then
        Some ''at least one Telegram user must be allowed''
      else if \<not> list_all telegram_identity_pattern
          (tg_allowed_users t @ tg_group_allowed_users t @ tg_group_allowed_chats t) then
        Some ''Telegram user and chat IDs must be numeric''
      else if tg_proxy_url t = '''' then None
      else case parse (tg_proxy_url t) of
          None \<Rightarrow> Some ''Telegram proxy must be an http, https, or socks5 URL''
        | Some u \<Rightarrow>
            if pu_host u = '''' \<or> pu_scheme u \<notin> {''http'', ''https'', ''socks5''} then
              Some ''Telegram proxy must be an http, https, or socks5 URL''
            else if pu_user u then Some ''Telegram proxy credentials are not accepted in the URL''
            else None)"

definition clean_word :: "string \<Rightarrow> string \<Rightarrow> string" where
  "clean_word standard s = (let s = to_lower (trim_space s) in if s = '''' then standard else s)"

definition clean_whatsapp :: "whatsapp_configuration \<Rightarrow> whatsapp_configuration" where
  "clean_whatsapp w = w\<lparr>wa_mode := clean_word ''bot'' (wa_mode w),
     wa_allowed_users := normalize_list (wa_allowed_users w),
     wa_unauthorized_behavior := clean_word ''ignore'' (wa_unauthorized_behavior w),
     wa_reply_prefix := trim_space (wa_reply_prefix w)\<rparr>"

definition check_whatsapp :: "whatsapp_configuration \<Rightarrow> string option" where
  "check_whatsapp w =
     (if wa_mode w \<noteq> ''bot'' \<and> wa_mode w \<noteq> ''self-chat'' then Some ''WhatsApp mode must be bot or self-chat''
      else if wa_unauthorized_behavior w \<noteq> ''ignore'' \<and> wa_unauthorized_behavior w \<noteq> ''pair'' then
        Some ''WhatsApp unauthorized DM behavior must be ignore or pair''
      else if length (wa_reply_prefix w) > 240 then
        Some ''WhatsApp reply prefix must be at most 240 characters''
      else if wa_enabled w \<and> wa_mode w = ''bot'' \<and> wa_allowed_users w = [] then
        Some ''at least one WhatsApp number must be allowed in bot mode''
      else if \<not> list_all whatsapp_number_pattern (wa_allowed_users w) then
        Some ''WhatsApp numbers must use international format''
      else None)"

text \<open>The configuration that an error returns is not used.\<close>

definition normalize_messaging ::
    "url_parser \<Rightarrow> messaging_configuration \<Rightarrow> string + messaging_configuration" where
  "normalize_messaging parse c =
     (let t = clean_telegram (mg_telegram c) in
      case check_telegram parse t of
        Some e \<Rightarrow> Inl e
      | None \<Rightarrow> let w = clean_whatsapp (mg_whatsapp c) in
          case check_whatsapp w of
            Some e \<Rightarrow> Inl e
          | None \<Rightarrow> Inr \<lparr>mg_telegram = t, mg_whatsapp = w\<rparr>)"

lemma clean_telegram_idem [simp]: "clean_telegram (clean_telegram t) = clean_telegram t"
  by (simp add: clean_telegram_def)

lemma visible_words:
  assumes "s \<in> {''bot'', ''self-chat'', ''ignore'', ''pair''}"
  shows "clean_word d s = s"
proof -
  have "server_name_pattern ''bot''" "server_name_pattern ''self-chat''" "server_name_pattern ''ignore''"
    "server_name_pattern ''pair''"
    by (simp_all add: server_name_pattern_def matches_def char_classes)
  then have "server_name_pattern s" using assms by blast
  moreover have "s \<noteq> ''''" using assms by auto
  ultimately show ?thesis by (simp add: clean_word_def server_name_plain Let_def)
qed

lemma normalize_messaging_idem:
  assumes "normalize_messaging parse c = Inr d"
  shows "normalize_messaging parse d = Inr d"
proof -
  let ?t = "clean_telegram (mg_telegram c)" and ?w = "clean_whatsapp (mg_whatsapp c)"
  have ok: "check_telegram parse ?t = None" "check_whatsapp ?w = None" and d: "d = \<lparr>mg_telegram = ?t, mg_whatsapp = ?w\<rparr>"
    using assms by (auto simp: normalize_messaging_def Let_def split: option.splits)
  then have "wa_mode ?w \<in> {''bot'', ''self-chat''}" "wa_unauthorized_behavior ?w \<in> {''ignore'', ''pair''}"
    by (auto simp: check_whatsapp_def split: if_splits)
  then have "clean_word ''bot'' (wa_mode ?w) = wa_mode ?w"
    "clean_word ''ignore'' (wa_unauthorized_behavior ?w) = wa_unauthorized_behavior ?w"
    by (auto intro!: visible_words)
  moreover have "normalize_list (wa_allowed_users ?w) = wa_allowed_users ?w"
    "trim_space (wa_reply_prefix ?w) = wa_reply_prefix ?w"
    by (simp_all add: clean_whatsapp_def)
  ultimately have "clean_whatsapp ?w = ?w" by (simp only: clean_whatsapp_def[of ?w]) simp
  then show ?thesis using ok by (simp add: normalize_messaging_def d)
qed

end
