(* ===== verification/Hermes_Releases.thy ===== *)
theory Hermes_Releases
  imports Config_Forms Go_Sha256
begin

text \<open>
  \<open>internal/releases/releases.go\<close> and \<open>runtime/assets.go\<close>: versions and their order, image references,
  validation of the release catalog, and the managed source, which keeps the last catalog that was
  good and falls back to it. The build id of the runtime wrapper (a digest of embedded files) is an
  argument; the answer of the official feed and whether the cache file could be written are
  arguments too. The cache file holds the text that was encoded, whose size the next start checks. Letter case of
  versions and commits is folded for ASCII only, which is all that the patterns admit.
\<close>

record release =
  rl_version :: string
  rl_tag :: string
  rl_commit :: string
  rl_image :: string
  rl_url :: string
  rl_published_at :: timestamp

record release_catalog =
  ct_source :: string
  ct_checked_at :: timestamp
  ct_releases :: "release list"
  ct_stale :: bool

definition official_source :: string where
  "official_source = ''NousResearch/hermes-agent GitHub Releases''"

section \<open>Versions\<close>

text \<open>\<open>strconv.ParseUint(s, 10, 32)\<close>: the value it returns, and whether it returns no error.\<close>

fun parse_digits :: "nat \<Rightarrow> string \<Rightarrow> nat \<times> bool" where
  "parse_digits n [] = (n, True)"
| "parse_digits n (c # cs) =
     (if \<not> is_digit c then (0, False)
      else let m = 10 * n + (byte_of c - 48) in
        if m > 4294967295 then (4294967295, False) else parse_digits m cs)"

definition parse_uint32 :: "string \<Rightarrow> nat \<times> bool" where
  "parse_uint32 s = (if s = '''' then (0, False) else parse_digits 0 s)"

definition is_semantic_version :: "string \<Rightarrow> bool" where
  "is_semantic_version v =
     (let parts = split_on (CHR ''.'') v
      in length parts = 3 \<and> list_all (\<lambda>p. p \<noteq> '''' \<and> snd (parse_uint32 p)) parts)"

definition numeric_parts :: "string \<Rightarrow> nat list" where
  "numeric_parts v =
     (let parts = map (fst \<circ> parse_uint32) (take 3 (split_on (CHR ''.'') v))
      in parts @ replicate (3 - length parts) 0)"

fun compare_parts :: "nat list \<Rightarrow> nat list \<Rightarrow> int" where
  "compare_parts (l # ls) (r # rs) =
     (if l < r then -1 else if l > r then 1 else compare_parts ls rs)"
| "compare_parts _ _ = 0"

definition compare_versions :: "string \<Rightarrow> string \<Rightarrow> int" where
  "compare_versions l r = compare_parts (numeric_parts l) (numeric_parts r)"

definition trim_prefix :: "string \<Rightarrow> string \<Rightarrow> string" where
  "trim_prefix s p = (if has_prefix s p then drop (length p) s else s)"

definition compare_releases :: "string \<Rightarrow> string \<Rightarrow> int" where
  "compare_releases l r = compare_versions (trim_prefix l ''v'') (trim_prefix r ''v'')"

definition is_commit :: "string \<Rightarrow> bool" where
  "is_commit s \<longleftrightarrow> length s = 40 \<and> list_all is_hex s"

definition fold_ascii :: "string \<Rightarrow> string" where
  "fold_ascii s = map lower_char s"

section \<open>Images\<close>

definition runtime_repository :: string where
  "runtime_repository = ''local/hermes-fleet-runtime:''"

definition image_reference :: "string \<Rightarrow> string \<Rightarrow> string \<Rightarrow> string" where
  "image_reference build version commit =
     (let version = trim_space version; commit = fold_ascii (trim_space commit) in
      if length commit < 12 \<or> length build < 12 then ''''
      else runtime_repository @ version @ ''-'' @ take 12 commit @ ''-'' @ take 12 build)"

definition portable_image_reference :: "release \<Rightarrow> string" where
  "portable_image_reference r =
     (if length (trim_space (rl_commit r)) < 12 then ''''
      else runtime_repository @ rl_version r @ ''-'' @ fold_ascii (take 12 (rl_commit r)))"

text \<open>\<open>runtimeImagePattern\<close>: its first two groups. Neither a version nor a commit contains a dash.\<close>

definition version_digits :: "string \<Rightarrow> bool" where
  "version_digits v =
     (let parts = split_on (CHR ''.'') v
      in length parts = 3 \<and> list_all (\<lambda>p. p \<noteq> '''' \<and> list_all is_digit p) parts)"

definition hex12 :: "string \<Rightarrow> bool" where
  "hex12 s \<longleftrightarrow> length s = 12 \<and> list_all is_hex s"

definition runtime_image_match :: "string \<Rightarrow> (string \<times> string) option" where
  "runtime_image_match img =
     (if \<not> has_prefix img runtime_repository then None
      else case split_on (CHR ''-'') (drop (length runtime_repository) img) of
          [v, c] \<Rightarrow> if version_digits v \<and> hex12 c then Some (v, c) else None
        | [v, c, b] \<Rightarrow> if version_digits v \<and> hex12 c \<and> hex12 b then Some (v, c) else None
        | _ \<Rightarrow> None)"

definition find_release :: "release_catalog \<Rightarrow> string \<Rightarrow> release option" where
  "find_release c version =
     (let version = trim_prefix (trim_space version) ''v''
      in find (\<lambda>r. rl_version r = version) (ct_releases c))"

definition find_by_runtime_image :: "release_catalog \<Rightarrow> string \<Rightarrow> release option" where
  "find_by_runtime_image c img =
     (case runtime_image_match (trim_space img) of
        None \<Rightarrow> None
      | Some (v, commit) \<Rightarrow> (case find_release c v of
            None \<Rightarrow> None
          | Some r \<Rightarrow> if length (rl_commit r) < 12 \<or> fold_ascii commit \<noteq> fold_ascii (take 12 (rl_commit r))
                      then None else Some r))"

section \<open>Catalogs\<close>

definition clone_catalog :: "release_catalog \<Rightarrow> nat \<Rightarrow> release_catalog" where
  "clone_catalog c limit = c\<lparr>ct_releases := take limit (ct_releases c)\<rparr>"

definition bind_runtime_images :: "string \<Rightarrow> release_catalog \<Rightarrow> release_catalog" where
  "bind_runtime_images build c =
     (let bound = clone_catalog c (length (ct_releases c))
      in bound\<lparr>ct_releases := map (\<lambda>r. r\<lparr>rl_image := image_reference build (rl_version r) (rl_commit r)\<rparr>)
           (ct_releases bound)\<rparr>)"

definition portable_catalog :: "release_catalog \<Rightarrow> release_catalog" where
  "portable_catalog c =
     (let p = clone_catalog c (length (ct_releases c))
      in p\<lparr>ct_stale := False,
           ct_releases := map (\<lambda>r. r\<lparr>rl_image := portable_image_reference r\<rparr>) (ct_releases p)\<rparr>)"

definition release_url :: string where
  "release_url = ''https://github.com/NousResearch/hermes-agent/releases/''"

definition not_newer :: "string option \<Rightarrow> string \<Rightarrow> bool" where
  "not_newer previous v = (case previous of None \<Rightarrow> False | Some p \<Rightarrow> compare_versions p v \<le> 0)"

fun validate_releases :: "string list \<Rightarrow> string option \<Rightarrow> release list \<Rightarrow> string option" where
  "validate_releases seen previous [] = None"
| "validate_releases seen previous (r # rs) =
     (if \<not> is_semantic_version (rl_version r) \<or> rl_tag r = '''' \<or> \<not> is_commit (rl_commit r) then
        Some ''Hermes release catalog entry has an invalid identity''
      else if \<not> has_prefix (rl_url r) release_url \<or> rl_published_at r = zero_time then
        Some ''Hermes release catalog entry has invalid provenance''
      else if rl_version r \<in> set seen then Some ''Hermes release catalog repeats version''
      else if not_newer previous (rl_version r) then
        Some ''Hermes release catalog must be ordered newest first''
      else validate_releases (rl_version r # seen) (Some (rl_version r)) rs)"

definition validate_catalog_identity :: "release_catalog \<Rightarrow> nat \<Rightarrow> string option" where
  "validate_catalog_identity c expected =
     (if ct_source c \<noteq> official_source then
        Some ''Hermes release catalog source is not the official GitHub Releases feed''
      else if ct_checked_at c = zero_time then Some ''Hermes release catalog has no checked_at timestamp''
      else if length (ct_releases c) \<noteq> expected then
        Some ''Hermes release catalog must contain exactly the expected releases''
      else validate_releases [] None (ct_releases c))"

definition validate_catalog :: "string \<Rightarrow> release_catalog \<Rightarrow> nat \<Rightarrow> string option" where
  "validate_catalog build c expected =
     (case validate_catalog_identity c expected of
        Some e \<Rightarrow> Some e
      | None \<Rightarrow>
          if list_all (\<lambda>r. rl_image r = portable_image_reference r
               \<or> rl_image r = image_reference build (rl_version r) (rl_commit r)) (ct_releases c)
          then None else Some ''Hermes release catalog entry has an unexpected image'')"

definition validate_portable_catalog :: "release_catalog \<Rightarrow> nat \<Rightarrow> string option" where
  "validate_portable_catalog c expected =
     (case validate_catalog_identity c expected of
        Some e \<Rightarrow> Some e
      | None \<Rightarrow>
          if list_all (\<lambda>r. rl_image r = portable_image_reference r) (ct_releases c)
          then None else Some ''Hermes release catalog entry has an unexpected portable image'')"

section \<open>The cache file\<close>

text \<open>
  \<open>json.MarshalIndent(catalog, "", "  ")\<close>: strings are escaped as for HTML, times are RFC 3339
  with nanoseconds, and a year outside of four digits is an error. A catalog comes from JSON, so
  its strings are valid UTF-8, and its times are UTC.
\<close>

definition json_escape :: "char \<Rightarrow> string" where
  "json_escape c =
     (let b = byte_of c in
      if b = 34 \<or> b = 92 then [CHR 0x5C, c]
      else if b = 8 then CHR 0x5C # ''b'' else if b = 12 then CHR 0x5C # ''f''
      else if b = 10 then CHR 0x5C # ''n'' else if b = 13 then CHR 0x5C # ''r''
      else if b = 9 then CHR 0x5C # ''t''
      else if b < 32 \<or> b = 38 \<or> b = 60 \<or> b = 62
      then CHR 0x5C # ''u00'' @ [hex_digit (b div 16), hex_digit (b mod 16)]
      else [c])"

fun json_chars :: "string \<Rightarrow> string" where
  "json_chars [] = []"
| "json_chars (c # s) =
     (if byte_of c = 226 \<and> map byte_of (take 2 s) = [128, 168] then CHR 0x5C # ''u2028'' @ json_chars (drop 2 s)
      else if byte_of c = 226 \<and> map byte_of (take 2 s) = [128, 169]
      then CHR 0x5C # ''u2029'' @ json_chars (drop 2 s)
      else json_escape c @ json_chars s)"

definition json_text :: "string \<Rightarrow> string" where
  "json_text s = CHR 0x22 # json_chars s @ [CHR 0x22]"

definition json_line :: "nat \<Rightarrow> string \<Rightarrow> string" where
  "json_line depth s = CHR 0x0A # replicate (2 * depth) (CHR '' '') @ s"

definition json_member :: "nat \<Rightarrow> string \<Rightarrow> string \<Rightarrow> string" where
  "json_member depth name value = json_line depth (json_text name @ '': '' @ value)"

definition json_time :: "timestamp \<Rightarrow> string" where
  "json_time t = json_text (format_rfc3339_nano t)"

definition json_year_ok :: "timestamp \<Rightarrow> bool" where
  "json_year_ok t = (case civil_from_days (t div 1000000000 div 86400) of (y, m, d) \<Rightarrow> 0 \<le> y \<and> y \<le> 9999)"

definition encode_release :: "release \<Rightarrow> string" where
  "encode_release r =
     json_line 2 (''{'' @ join '',''
       [json_member 3 ''version'' (json_text (rl_version r)), json_member 3 ''tag'' (json_text (rl_tag r)),
        json_member 3 ''commit'' (json_text (rl_commit r)), json_member 3 ''image'' (json_text (rl_image r)),
        json_member 3 ''url'' (json_text (rl_url r)), json_member 3 ''published_at'' (json_time (rl_published_at r))]
       @ json_line 2 ''}'')"

definition encode_releases :: "release list \<Rightarrow> string" where
  "encode_releases rs =
     (if rs = [] then ''null'' else ''['' @ join '','' (map encode_release rs) @ json_line 1 '']'')"

definition marshal_catalog :: "release_catalog \<Rightarrow> string option" where
  "marshal_catalog c =
     (if \<not> list_all json_year_ok (ct_checked_at c # map rl_published_at (ct_releases c)) then None
      else Some (''{'' @ join '',''
        ([json_member 1 ''source'' (json_text (ct_source c)),
          json_member 1 ''checked_at'' (json_time (ct_checked_at c)),
          json_member 1 ''releases'' (encode_releases (ct_releases c))]
         @ (if ct_stale c then [json_member 1 ''stale'' ''true''] else []))
        @ json_line 0 ''}''))"

text \<open>A file that holds the encoding of a catalog, and the catalog that its decoder reads back.\<close>

record release_file =
  rf_catalog :: release_catalog
  rf_text :: string

type_synonym release_cache = "release_file option"

definition max_response_size :: nat where
  "max_response_size = 1048576"

text \<open>\<open>written\<close>: whether the file operations of the atomic publication succeed.\<close>

definition save_portable_catalog :: "bool \<Rightarrow> release_catalog \<Rightarrow> release_cache \<Rightarrow> release_cache option" where
  "save_portable_catalog written c cache =
     (let p = portable_catalog c in
      if validate_portable_catalog p 3 \<noteq> None then None
      else case marshal_catalog p of
          None \<Rightarrow> None
        | Some encoded \<Rightarrow>
            if \<not> written then None else Some (Some \<lparr>rf_catalog = p, rf_text = encoded @ [CHR 0x0A]\<rparr>))"

definition load_portable_catalog :: "release_cache \<Rightarrow> release_catalog option" where
  "load_portable_catalog cache =
     (case cache of
        None \<Rightarrow> None
      | Some f \<Rightarrow>
          if length (rf_text f) > max_response_size then None
          else if validate_portable_catalog (rf_catalog f) 3 \<noteq> None then None
          else Some (rf_catalog f))"

section \<open>The managed source\<close>

definition load_catalog :: "string \<Rightarrow> release_cache \<Rightarrow> release_catalog option" where
  "load_catalog build cache = map_option (bind_runtime_images build) (load_portable_catalog cache)"

record managed_source =
  mn_last_good :: release_catalog
  mn_cache :: release_cache

definition new_managed_source ::
    "string \<Rightarrow> bool \<Rightarrow> release_catalog \<Rightarrow> string \<Rightarrow> release_cache \<Rightarrow> managed_source option" where
  "new_managed_source build written last_good cache_path cache =
     (if validate_catalog build last_good 3 \<noteq> None \<or> trim_space cache_path = '''' then None
      else let c = bind_runtime_images build last_good in
        map_option (\<lambda>cache. \<lparr>mn_last_good = c, mn_cache = cache\<rparr>) (save_portable_catalog written c cache))"

text \<open>\<open>feed\<close> is the answer of the primary source for three releases, or \<open>None\<close> for its error.\<close>

definition fall_back :: "nat \<Rightarrow> managed_source \<Rightarrow> release_catalog option" where
  "fall_back limit s =
     (let c = clone_catalog (mn_last_good s) limit
      in if length (ct_releases c) = limit then Some (c\<lparr>ct_stale := True\<rparr>) else None)"

definition list_releases ::
    "string \<Rightarrow> bool \<Rightarrow> release_catalog option \<Rightarrow> nat \<Rightarrow> managed_source \<Rightarrow> release_catalog option \<times> managed_source" where
  "list_releases build written feed limit s =
     (if limit < 1 \<or> limit > 3 then (None, s)
      else case feed of
          None \<Rightarrow> (fall_back limit s, s)
        | Some c \<Rightarrow>
            let c = bind_runtime_images build c in
            if validate_catalog build c 3 \<noteq> None then (fall_back limit s, s)
            else case save_portable_catalog written c (mn_cache s) of
                None \<Rightarrow> (fall_back limit s, s)
              | Some cache \<Rightarrow> (Some (clone_catalog c limit), \<lparr>mn_last_good = c, mn_cache = cache\<rparr>))"

section \<open>The last good catalog\<close>

text \<open>A catalog of the managed source: valid, and every image bound to the runtime wrapper.\<close>

definition bound_catalog :: "string \<Rightarrow> release_catalog \<Rightarrow> bool" where
  "bound_catalog build c \<longleftrightarrow> validate_catalog_identity c 3 = None
     \<and> (\<forall>r \<in> set (ct_releases c). rl_image r = image_reference build (rl_version r) (rl_commit r))"

definition source_ok :: "string \<Rightarrow> managed_source \<Rightarrow> bool" where
  "source_ok build s \<longleftrightarrow> bound_catalog build (mn_last_good s)
     \<and> (\<exists>text. marshal_catalog (portable_catalog (mn_last_good s)) = Some text
          \<and> mn_cache s = Some \<lparr>rf_catalog = portable_catalog (mn_last_good s), rf_text = text @ [CHR 0x0A]\<rparr>)
     \<and> validate_portable_catalog (portable_catalog (mn_last_good s)) 3 = None"

lemma validate_releases_images:
  "(\<And>r. rl_version (f r) = rl_version r \<and> rl_tag (f r) = rl_tag r \<and> rl_commit (f r) = rl_commit r
     \<and> rl_url (f r) = rl_url r \<and> rl_published_at (f r) = rl_published_at r) \<Longrightarrow>
   validate_releases seen p (map f rs) = validate_releases seen p rs"
  by (induction seen p rs rule: validate_releases.induct) auto

lemma validate_identity_bind [simp]:
  "validate_catalog_identity (bind_runtime_images build c) n = validate_catalog_identity c n"
  by (simp add: validate_catalog_identity_def bind_runtime_images_def clone_catalog_def validate_releases_images)

lemma bound_bind:
  "validate_catalog_identity c 3 = None \<Longrightarrow> bound_catalog build (bind_runtime_images build c)"
  by (simp add: bound_catalog_def) (simp add: bind_runtime_images_def clone_catalog_def)

lemma validate_catalog_identity_ok: "validate_catalog build c n = None \<Longrightarrow> validate_catalog_identity c n = None"
  by (simp add: validate_catalog_def split: option.splits)

lemma bound_catalog_length: "bound_catalog build c \<Longrightarrow> length (ct_releases c) = 3"
  by (simp add: bound_catalog_def validate_catalog_identity_def split: if_splits)

lemma save_ok:
  assumes "bound_catalog build c" "save_portable_catalog written c cache = Some cache'"
  shows "source_ok build \<lparr>mn_last_good = c, mn_cache = cache'\<rparr>"
  using assms by (auto simp: save_portable_catalog_def source_ok_def Let_def split: if_splits option.splits)

lemma new_managed_source_ok:
  assumes "new_managed_source build written c path cache = Some s"
  shows "source_ok build s"
proof -
  obtain cache' where v: "validate_catalog build c 3 = None"
    and s: "save_portable_catalog written (bind_runtime_images build c) cache = Some cache'"
      "s = \<lparr>mn_last_good = bind_runtime_images build c, mn_cache = cache'\<rparr>"
    using assms by (auto simp: new_managed_source_def Let_def split: if_splits)
  show ?thesis
    unfolding s(2) by (rule save_ok[OF bound_bind[OF validate_catalog_identity_ok[OF v]] s(1)])
qed

lemma fall_back_Some:
  assumes "source_ok build s" "limit \<le> 3"
  shows "fall_back limit s = Some ((clone_catalog (mn_last_good s) limit)\<lparr>ct_stale := True\<rparr>)"
  using assms bound_catalog_length[of build "mn_last_good s"]
  by (simp add: fall_back_def source_ok_def clone_catalog_def Let_def)

lemma portable_bind: "portable_catalog (bind_runtime_images build c) = portable_catalog c"
proof -
  have "portable_image_reference (r\<lparr>rl_image := i\<rparr>) = portable_image_reference r" for r i
    by (simp add: portable_image_reference_def)
  then show ?thesis
    by (simp add: portable_catalog_def bind_runtime_images_def clone_catalog_def Let_def)
qed

lemma portable_valid:
  assumes "validate_catalog_identity c 3 = None"
  shows "validate_portable_catalog (portable_catalog c) 3 = None"
proof -
  have "validate_catalog_identity (portable_catalog c) 3 = validate_catalog_identity c 3"
    by (simp add: validate_catalog_identity_def portable_catalog_def clone_catalog_def validate_releases_images Let_def)
  then have "validate_catalog_identity (portable_catalog c) 3 = None" using assms by simp
  moreover have "portable_image_reference (r\<lparr>rl_image := i\<rparr>) = portable_image_reference r" for r i
    by (simp add: portable_image_reference_def)
  ultimately show ?thesis
    by (simp add: validate_portable_catalog_def) (simp add: portable_catalog_def clone_catalog_def list_all_iff)
qed

text \<open>An answer of the feed that can be served as it is: valid, encodable and written to the file.\<close>

definition usable_answer :: "string \<Rightarrow> bool \<Rightarrow> release_catalog option \<Rightarrow> bool" where
  "usable_answer build written feed \<longleftrightarrow> written \<and> (\<exists>f. feed = Some f
     \<and> validate_catalog build (bind_runtime_images build f) 3 = None \<and> marshal_catalog (portable_catalog f) \<noteq> None)"

lemma saved_answer:
  "usable_answer build written feed \<longleftrightarrow> (\<exists>c cache'. feed = Some c
     \<and> validate_catalog build (bind_runtime_images build c) 3 = None
     \<and> save_portable_catalog written (bind_runtime_images build c) cache = Some cache')"
proof -
  have "(\<exists>cache'. save_portable_catalog written (bind_runtime_images build c) cache = Some cache')
      \<longleftrightarrow> written \<and> marshal_catalog (portable_catalog c) \<noteq> None"
    if "validate_catalog build (bind_runtime_images build c) 3 = None" for c
    using portable_valid[of c] validate_catalog_identity_ok[OF that]
    by (auto simp: save_portable_catalog_def portable_bind Let_def split: option.splits)
  then show ?thesis unfolding usable_answer_def by blast
qed

lemma list_releases_cases:
  assumes "source_ok build s" "1 \<le> limit" "limit \<le> 3"
  obtains (stale) "list_releases build written feed limit s
      = (Some ((clone_catalog (mn_last_good s) limit)\<lparr>ct_stale := True\<rparr>), s)"
      "\<not> usable_answer build written feed"
  | (fresh) c s' where "feed = Some c" "list_releases build written feed limit s
      = (Some (clone_catalog (mn_last_good s') limit), s')" "source_ok build s'"
      "mn_last_good s' = bind_runtime_images build c" "usable_answer build written feed"
proof (cases "\<exists>c cache'. feed = Some c \<and> validate_catalog build (bind_runtime_images build c) 3 = None
    \<and> save_portable_catalog written (bind_runtime_images build c) (mn_cache s) = Some cache'")
  case True
  then obtain c cache' where c: "feed = Some c" "validate_catalog build (bind_runtime_images build c) 3 = None"
    "save_portable_catalog written (bind_runtime_images build c) (mn_cache s) = Some cache'" by blast
  have "validate_catalog_identity c 3 = None" using validate_catalog_identity_ok[OF c(2)] by simp
  then have "source_ok build \<lparr>mn_last_good = bind_runtime_images build c, mn_cache = cache'\<rparr>"
    by (rule save_ok[OF bound_bind c(3)])
  moreover have "usable_answer build written feed"
    unfolding saved_answer[of build written feed "mn_cache s"] using c by blast
  ultimately show ?thesis
    using c assms(2,3) by (intro fresh[OF c(1)]) (auto simp: list_releases_def Let_def)
next
  case False
  then have "\<not> usable_answer build written feed" using saved_answer by blast
  then show ?thesis using assms fall_back_Some[OF assms(1,3)] False
    by (intro stale) (auto simp: list_releases_def Let_def split: option.splits)
qed

lemma bind_portable:
  assumes "bound_catalog build c"
  shows "bind_runtime_images build (portable_catalog c) = c\<lparr>ct_stale := False\<rparr>"
proof -
  let ?b = "\<lambda>r. r\<lparr>rl_image := image_reference build (rl_version r) (rl_commit r)\<rparr>"
  have id: "map ?b (ct_releases c) = ct_releases c"
    using assms by (intro map_idI) (auto simp: bound_catalog_def)
  have "ct_releases (bind_runtime_images build (portable_catalog c))
      = map ?b (map (\<lambda>r. r\<lparr>rl_image := portable_image_reference r\<rparr>) (ct_releases c))"
    by (simp add: bind_runtime_images_def portable_catalog_def clone_catalog_def Let_def)
  also have "\<dots> = map ?b (ct_releases c)" by simp
  finally show ?thesis
    by (simp only: id)
      (rule release_catalog.equality, simp_all add: bind_runtime_images_def portable_catalog_def clone_catalog_def Let_def)
qed

section \<open>An image names its release\<close>

lemma parse_digits_ok: "snd (parse_digits n s) \<Longrightarrow> list_all is_digit s"
  by (induction n s rule: parse_digits.induct) (auto simp: Let_def split: if_splits)

lemma semantic_version_digits: "is_semantic_version v \<Longrightarrow> version_digits v"
  unfolding is_semantic_version_def version_digits_def Let_def
  by (elim conjE, intro conjI, assumption)
    (erule list.pred_mono_strong, auto simp: parse_uint32_def dest: parse_digits_ok)

lemma split_on_none: "c \<notin> set s \<Longrightarrow> split_on c s = [s]"
  by (induction s) auto

lemma split_on_append: "c \<notin> set s \<Longrightarrow> split_on c (s @ c # t) = s # split_on c t"
  by (induction s) auto

lemma in_split_on: "x \<in> set s \<Longrightarrow> x = c \<or> (\<exists>p \<in> set (split_on c s). x \<in> set p)"
  by (induction s) (auto split: list.splits if_splits)

lemma version_chars: "version_digits v \<Longrightarrow> x \<in> set v \<Longrightarrow> is_digit x \<or> x = CHR ''.''"
  using in_split_on[of x v "CHR ''.''"] by (auto simp: version_digits_def Let_def list_all_iff)

lemma lower_hex: "is_hex c \<Longrightarrow> is_hex (lower_char c)"
  by (auto simp: is_hex_def is_lower_hex_def lower_char_def is_upper_def is_digit_def byte_of_def)

lemma hex_char: "is_hex c \<Longrightarrow> c \<noteq> CHR ''-'' \<and> 33 \<le> byte_of c \<and> byte_of c < 128"
  by (auto simp: char_classes)

lemma digit_char: "is_digit c \<or> c = CHR ''.'' \<Longrightarrow> c \<noteq> CHR ''-'' \<and> c \<noteq> CHR ''v'' \<and> 33 \<le> byte_of c \<and> byte_of c < 128"
  by (auto simp: char_classes)

lemma trim_space_graph: "(\<And>c. c \<in> set s \<Longrightarrow> 33 \<le> byte_of c \<and> byte_of c < 128) \<Longrightarrow> trim_space s = s"
  by (rule trim_space_visible) (auto simp: list_all_iff)

lemma fold_ascii_idem [simp]: "fold_ascii (fold_ascii s) = fold_ascii s"
proof -
  have "lower_char (lower_char c) = lower_char c" for c
    by (auto simp: lower_char_def is_upper_def byte_of_def)
  then show ?thesis by (simp add: fold_ascii_def)
qed

lemma image_reference_match:
  assumes "version_digits v" "is_commit commit" "list_all is_hex build" "12 \<le> length build"
  shows "runtime_image_match (trim_space (image_reference build v commit)) = Some (v, take 12 (fold_ascii commit))"
proof -
  have v: "trim_space v = v" "CHR ''-'' \<notin> set v"
    using version_chars[OF assms(1)] digit_char by (auto intro!: trim_space_graph)
  have c: "trim_space commit = commit" "length commit = 40" "\<And>x. x \<in> set commit \<Longrightarrow> is_hex x"
    using assms(2) hex_char by (auto intro!: trim_space_graph simp: is_commit_def list_all_iff)
  define f where "f = take 12 (fold_ascii commit)"
  define b where "b = take 12 build"
  have "set f \<subseteq> lower_char ` set commit"
    unfolding f_def fold_ascii_def using set_take_subset[of 12 "map lower_char commit"] by simp
  then have f: "hex12 f" using c(2,3) lower_hex
    by (auto simp: hex12_def list_all_iff) (auto simp: f_def fold_ascii_def)
  have b: "hex12 b" using assms(3,4) by (auto simp: b_def hex12_def list_all_iff dest: in_set_takeD)
  let ?i = "runtime_repository @ v @ ''-'' @ f @ ''-'' @ b"
  have i: "image_reference build v commit = ?i"
    using v c assms(4) by (simp add: image_reference_def Let_def f_def b_def fold_ascii_def)
  have r: "\<forall>x \<in> set runtime_repository. 33 \<le> byte_of x \<and> byte_of x < 128"
    by (simp add: runtime_repository_def byte_of_def)
  have t: "trim_space ?i = ?i"
  proof (intro trim_space_graph)
    fix x assume "x \<in> set ?i"
    then consider "x \<in> set runtime_repository" | "x \<in> set v" | "x = CHR ''-''" | "x \<in> set f" | "x \<in> set b" by auto
    then show "33 \<le> byte_of x \<and> byte_of x < 128"
    proof cases
      case 2
      then show ?thesis using version_chars[OF assms(1)] digit_char by blast
    next
      case 3
      then show ?thesis by (simp add: byte_of_def)
    qed (use r f b hex_char in \<open>auto simp: hex12_def list_all_iff\<close>)
  qed
  have nf: "CHR ''-'' \<notin> set f" "CHR ''-'' \<notin> set b"
    using f b hex_char by (auto simp: hex12_def list_all_iff)
  have p: "has_prefix ?i runtime_repository" by (simp add: has_prefix_append)
  have "split_on (CHR ''-'') (v @ ''-'' @ f @ ''-'' @ b) = [v, f, b]"
    using v(2) nf by (simp add: split_on_append split_on_none)
  then show ?thesis
    unfolding i t using p f b assms(1) by (simp add: runtime_image_match_def f_def)
qed

lemma validate_releases_ok:
  assumes "validate_releases seen p rs = None"
  shows "\<forall>r \<in> set rs. is_semantic_version (rl_version r) \<and> is_commit (rl_commit r) \<and> rl_version r \<notin> set seen"
    and "distinct (map rl_version rs)"
proof -
  have "(\<forall>r \<in> set rs. is_semantic_version (rl_version r) \<and> is_commit (rl_commit r) \<and> rl_version r \<notin> set seen)
      \<and> distinct (map rl_version rs)"
    using assms
  proof (induction seen p rs rule: validate_releases.induct)
    case (2 seen p r rs)
    have r: "is_semantic_version (rl_version r)" "is_commit (rl_commit r)" "rl_version r \<notin> set seen"
      and rs: "validate_releases (rl_version r # seen) (Some (rl_version r)) rs = None"
      using "2.prems" by (simp_all split: if_split_asm)
    have "\<not> (\<not> is_semantic_version (rl_version r) \<or> rl_tag r = [] \<or> \<not> is_commit (rl_commit r))"
      "\<not> (\<not> has_prefix (rl_url r) release_url \<or> rl_published_at r = zero_time)" "\<not> not_newer p (rl_version r)"
      using "2.prems" by (simp_all split: if_split_asm)
    note ih = "2.IH"[OF this(1,2) r(3) this(3) rs]
    show ?case using r ih by auto
  qed simp
  then show "\<forall>r \<in> set rs. is_semantic_version (rl_version r) \<and> is_commit (rl_commit r) \<and> rl_version r \<notin> set seen"
    and "distinct (map rl_version rs)" by blast+
qed

lemma find_bound_image:
  assumes "bound_catalog build c" "list_all is_hex build" "12 \<le> length build" "r \<in> set (ct_releases c)"
  shows "find_by_runtime_image c (rl_image r) = Some r"
proof -
  have rs: "validate_releases [] None (ct_releases c) = None"
    and img: "rl_image r = image_reference build (rl_version r) (rl_commit r)"
    using assms(1,4) by (auto simp: bound_catalog_def validate_catalog_identity_def split: if_splits)
  note ok = validate_releases_ok[OF rs]
  have v: "version_digits (rl_version r)" and c: "is_commit (rl_commit r)"
    using ok(1) assms(4) semantic_version_digits by auto
  have chars: "\<And>x. x \<in> set (rl_version r) \<Longrightarrow> is_digit x \<or> x = CHR ''.''" using version_chars[OF v] by blast
  have "trim_space (rl_version r) = rl_version r" using chars digit_char by (intro trim_space_graph) blast
  moreover have "\<not> has_prefix (rl_version r) ''v''"
  proof
    assume "has_prefix (rl_version r) ''v''"
    then have "CHR ''v'' \<in> set (rl_version r)" unfolding has_prefix_append by auto
    then show False using chars digit_char by blast
  qed
  ultimately have "find_release c (rl_version r) = find_row rl_version (rl_version r) (ct_releases c)"
    by (simp add: find_release_def trim_prefix_def find_row_def Let_def)
  then have f: "find_release c (rl_version r) = Some r" using find_row_unique[OF ok(2) assms(4)] by simp
  have "length (rl_commit r) = 40" using c by (simp add: is_commit_def)
  moreover have "fold_ascii (take 12 (fold_ascii (rl_commit r))) = fold_ascii (take 12 (rl_commit r))"
    by (metis fold_ascii_def fold_ascii_idem take_map)
  ultimately show ?thesis
    using image_reference_match[OF v c assms(2,3)] f by (simp add: find_by_runtime_image_def img)
qed

lemma source_ok_valid:
  assumes "source_ok build s"
  shows "validate_catalog build (mn_last_good s) 3 = None"
    and "\<exists>text. marshal_catalog (portable_catalog (mn_last_good s)) = Some text
       \<and> load_catalog build (mn_cache s) = (if length text < 1048576
            then Some ((mn_last_good s)\<lparr>ct_stale := False\<rparr>) else None)"
proof -
  show "validate_catalog build (mn_last_good s) 3 = None"
    using assms by (auto simp: source_ok_def bound_catalog_def validate_catalog_def list_all_iff)
  show "\<exists>text. marshal_catalog (portable_catalog (mn_last_good s)) = Some text
       \<and> load_catalog build (mn_cache s) = (if length text < 1048576
            then Some ((mn_last_good s)\<lparr>ct_stale := False\<rparr>) else None)"
    using assms bind_portable[of build "mn_last_good s"]
    by (auto simp: source_ok_def load_catalog_def load_portable_catalog_def max_response_size_def)
qed

end
