(* ===== verification/Properties_Services.thy ===== *)
theory Properties_Services
  imports Event_Hub Rotating_Log Hermes_Releases
begin

text \<open>
  Properties of the parts beside the store: the event hub, the rotating log, the configuration
  forms and the release catalog.
\<close>

section \<open>The event hub\<close>

text \<open>C34. A client of the event stream never misses the newest state. Whatever is published, read,
  subscribed and unsubscribed, in any order and with any reader running beside the publisher, what
  a channel has delivered or still holds is a part of what was published since it was made, in
  order and each event at most once, and the newest published event is the last of it; and as
  long as a subscription is active its channel is open.\<close>

theorem newest_event_delivered:
  assumes "hub_run h since taken" and "c < length (hb_channels h)"
  shows "subseq (taken c @ pending (hb_channels h ! c)) (since c)
     \<and> (since c \<noteq> [] \<longrightarrow> taken c @ pending (hb_channels h ! c) \<noteq> []
          \<and> last (taken c @ pending (hb_channels h ! c)) = last (since c))
     \<and> (subscribed c h \<longrightarrow> \<not> ch_closed (hb_channels h ! c))"
proof -
  note ok = hub_okD[OF hub_run_ok[OF assms(1)]]
  have "\<not> ch_closed (hb_channels h ! c)" if "subscribed c h"
    using that ok(3) by (auto simp: subscribed_def)
  then show ?thesis using ok(1)[OF assms(2)] by (simp add: delivers_def)
qed

definition sample_hub :: hub where
  "sample_hub = snd (publish ''b'' '''' 2 (\<lambda>_. False) (snd (publish ''a'' '''' 1 (\<lambda>_. False)
     (snd (snd (subscribe (new_hub ''s'')))))))"

theorem newest_event_delivered_witness:
  "\<exists>since taken e. hub_run sample_hub since taken \<and> length (since 0) = 2 \<and> fe_type e = ''b''
     \<and> pending (hb_channels sample_hub ! 0) = [e] \<and> last (since 0) = e"
proof -
  let ?h1 = "snd (snd (subscribe (new_hub ''s'')))"
  let ?p2 = "publish ''a'' '''' 1 (\<lambda>_. False) ?h1"
  let ?p3 = "publish ''b'' '''' 2 (\<lambda>_. False) (snd ?p2)"
  have "hub_run ?h1 (\<lambda>_. []) (\<lambda>_. [])"
    using hub_run.Subscribe[OF hub_run.Fresh[of "''s''"], of "fst (subscribe (new_hub ''s''))"
        "fst (snd (subscribe (new_hub ''s'')))" ?h1]
    by (simp add: new_hub_def[of "''s''"])
  from hub_run.Publish[OF this, of "''a''" "''''" 1 "\<lambda>_. False" "fst ?p2" "snd ?p2"]
  obtain s2 t2 where two: "hub_run (snd ?p2) s2 t2" "s2 0 = [fst ?p2]"
    by (force simp: subscribed_def subscribe_def new_hub_def)
  have sub: "subscribed 0 (snd ?p2)"
    by (simp add: subscribed_def publish_def subscribe_def new_hub_def Let_def)
  from hub_run.Publish[OF two(1), of "''b''" "''''" 2 "\<lambda>_. False" "fst ?p3" "snd ?p3"]
  obtain s3 t3 where three: "hub_run sample_hub s3 t3" "s3 0 = [fst ?p2, fst ?p3]"
    using sub two(2) by (force simp: sample_hub_def)
  have held: "hb_channels sample_hub ! 0 = \<lparr>ch_buffer = Some (fst ?p3), ch_closed = False\<rparr>"
    "length (hb_channels sample_hub) = 1" "fe_type (fst ?p3) = ''b''"
    by (simp_all add: sample_hub_def publish_def subscribe_def new_hub_def subscribed_def offer_def
        try_send_def try_receive_def hub_event_def Let_def)
  have "last (s3 0) = fst ?p3"
    using newest_event_delivered[OF three(1), of 0] held three(2) by (simp add: pending_def)
  then show ?thesis using three held by (intro exI[of _ s3] exI[of _ t3] exI[of _ "fst ?p3"]) (simp add: pending_def)
qed

section \<open>The rotating log\<close>

fun write_all :: "nat list list \<Rightarrow> log_writer \<Rightarrow> log_dir \<Rightarrow> (log_error option) \<times> log_writer \<times> log_dir" where
  "write_all [] w d = (None, w, d)"
| "write_all (p # ps) w d =
     (case write_log p w d of
        (Inl e, w, d) \<Rightarrow> (Some e, w, d)
      | (Inr n, w, d) \<Rightarrow> write_all ps w d)"

text \<open>A generation of the log: one payload, or several that fit together.\<close>

definition generation_ok :: "int \<Rightarrow> nat list list \<Rightarrow> bool" where
  "generation_ok limit g \<longleftrightarrow> int (group_bytes g) \<le> limit \<or> (\<exists>p. filter (\<lambda>q. q \<noteq> []) g = [p])"

lemma generation_append:
  assumes "generation_ok limit g" "\<not> (group_bytes g > 0 \<and> int (group_bytes g) + int (length p) > limit)" "0 < limit"
  shows "generation_ok limit (g @ [p])"
proof (cases "group_bytes g = 0")
  case True
  then have c: "concat g = []" "filter (\<lambda>q. q \<noteq> []) g = []"
    by (auto simp: group_bytes_def filter_empty_conv)
  have "group_bytes (g @ [p]) = length p" using c(1) by (simp add: group_bytes_def)
  then show ?thesis using c(2) assms(3) by (cases "p = []") (simp_all add: generation_ok_def)
next
  case False
  then show ?thesis using assms(2) by (auto simp: generation_ok_def group_bytes_def)
qed

lemma spec_write_keeps:
  assumes "list_all (generation_ok limit) gs" "gs \<noteq> []" "0 < limit" "1 \<le> files" "int (length gs) \<le> files"
    and "\<exists>old. ps = old @ concat (rev gs)"
  shows "list_all (generation_ok limit) (spec_write limit files p gs) \<and> spec_write limit files p gs \<noteq> []
     \<and> int (length (spec_write limit files p gs)) \<le> files
     \<and> (\<exists>old. ps @ [p] = old @ concat (rev (spec_write limit files p gs)))"
proof -
  obtain g gs' where gs: "gs = g # gs'" using assms(2) by (cases gs) auto
  obtain old where old: "ps = old @ concat (rev gs)" using assms(6) by blast
  show ?thesis
  proof (cases "group_bytes g > 0 \<and> int (group_bytes g) + int (length p) > limit")
    case True
    obtain n where n: "nat files = Suc n" using assms(4) by (cases "nat files") auto
    have one: "generation_ok limit [p]"
      using assms(3) by (cases "p = []") (auto simp: generation_ok_def group_bytes_def)
    have w: "spec_write limit files p gs = [p] # take n gs" using True n gs by (simp add: spec_write_def)
    have "concat (rev gs) = concat (rev (drop n gs)) @ concat (rev (take n gs))"
      by (metis append_take_drop_id concat_append rev_append)
    moreover have "list_all (generation_ok limit) (take n gs)"
      using assms(1) by (auto simp: list_all_iff dest: in_set_takeD)
    ultimately show ?thesis using one old n assms(4) unfolding w by auto
  next
    case False
    have w: "spec_write limit files p gs = (g @ [p]) # gs'"
      unfolding spec_write_def gs list.sel if_not_P[OF False] ..
    show ?thesis unfolding w using assms generation_append[OF _ False] gs old by auto
  qed
qed

lemma write_all_refines:
  assumes "log_ok w d gs" "list_all (generation_ok (lw_max_bytes w)) gs" "\<exists>old. qs = old @ concat (rev gs)"
  shows "\<exists>w' d' hs. write_all ps w d = (None, w', d') \<and> log_ok w' d' hs
     \<and> lw_max_bytes w' = lw_max_bytes w \<and> lw_max_files w' = lw_max_files w
     \<and> list_all (generation_ok (lw_max_bytes w)) hs \<and> (\<exists>old. qs @ ps = old @ concat (rev hs))"
  using assms
proof (induction ps arbitrary: w d gs qs)
  case Nil
  then show ?case by auto
next
  case (Cons p ps)
  note ok = Cons.prems(1)[unfolded log_ok_def]
  obtain w1 d1 where w1: "write_log p w d = (Inr (int (length p)), w1, d1)"
    "log_ok w1 d1 (spec_write (lw_max_bytes w) (lw_max_files w) p gs)"
    "lw_max_bytes w1 = lw_max_bytes w" "lw_max_files w1 = lw_max_files w"
    using write_log_refines[OF Cons.prems(1)] by blast
  have "gs \<noteq> []" "1 \<le> lw_max_files w" using ok by (cases gs; auto)+
  then have keep: "list_all (generation_ok (lw_max_bytes w1)) (spec_write (lw_max_bytes w) (lw_max_files w) p gs)"
    "\<exists>old. qs @ [p] = old @ concat (rev (spec_write (lw_max_bytes w) (lw_max_files w) p gs))"
    using spec_write_keeps[of "lw_max_bytes w" gs "lw_max_files w" qs p] Cons.prems ok w1(3) by auto
  obtain w' d' hs where "write_all ps w1 d1 = (None, w', d')" "log_ok w' d' hs"
    "lw_max_bytes w' = lw_max_bytes w1" "lw_max_files w' = lw_max_files w1"
    "list_all (generation_ok (lw_max_bytes w1)) hs" "\<exists>old. (qs @ [p]) @ ps = old @ concat (rev hs)"
    using Cons.IH[OF w1(2) keep] by blast
  then show ?case using w1 by auto
qed

text \<open>C35. The rotating log keeps the newest output within its bounds. Opened in a directory without
  logs, it accepts every sequence of writes; then there are at most as many files as allowed,
  consecutively numbered from the current one, no other file of the log exists, each file is within
  the size limit unless it holds a single payload that is larger, and read from the oldest file to
  the current one the files are exactly a final part of the writes: nothing between is lost,
  split or reordered.\<close>

theorem log_keeps_newest:
  assumes "new_log path limit files d0 = (Inr w, d)" and "\<forall>i. d0 (name_of i) = None"
  shows "\<exists>w' d' gs. write_all ps w d = (None, w', d') \<and> 1 \<le> length gs \<and> int (length gs) \<le> files
     \<and> (\<forall>i. d' (name_of i) =
          (if i < length gs then Some (Regular file_mode (concat (gs ! i))) else None))
     \<and> (\<forall>g \<in> set gs. int (length (concat g)) \<le> limit \<or> (\<exists>p. filter (\<lambda>q. q \<noteq> []) g = [p]))
     \<and> (\<exists>old. ps = old @ concat (rev gs))"
proof -
  have w: "w = \<lparr>lw_max_bytes = limit, lw_max_files = files, lw_open = True, lw_size = 0\<rparr>"
    "d = d0(Current := Some (Regular file_mode []))" "0 < limit" "1 \<le> files"
    using assms(1) assms(2)[rule_format, of 0] by (auto simp: new_log_def open_log_def split: if_splits)
  have "d (name_of i) = (if i < length [[]] then Some (Regular file_mode (concat ([[]] ! i))) else None)" for i
    using assms(2) by (cases i) (simp_all add: w(2))
  then have ok: "log_ok w d [[]]" using w by (simp add: log_ok_def holds_log_def group_bytes_def)
  have g: "list_all (generation_ok (lw_max_bytes w)) [[]]" using w(1,3) by (simp add: generation_ok_def group_bytes_def)
  obtain w' d' hs where "write_all ps w d = (None, w', d')" "log_ok w' d' hs" "lw_max_files w' = files"
    "list_all (generation_ok limit) hs" "\<exists>old. [] @ ps = old @ concat (rev hs)"
    using write_all_refines[OF ok g, of "[]" ps] w(1) by auto
  moreover from this(2) have "hs \<noteq> []" by (simp add: log_ok_def)
  ultimately show ?thesis
    by (intro exI[of _ w'] exI[of _ d'] exI[of _ hs])
      (auto simp: log_ok_def holds_log_def generation_ok_def group_bytes_def list_all_iff Suc_le_eq)
qed

definition opened_log :: "(log_error + log_writer) \<times> log_dir" where
  "opened_log = new_log ''/log'' 4 2 (\<lambda>_. None)"

theorem log_keeps_newest_witness:
  "\<exists>w d w' d' gs. opened_log = (Inr w, d) \<and> write_all [[1, 2, 3], [4, 5], [6, 7, 8]] w d = (None, w', d')
     \<and> int (length gs) \<le> 2 \<and> d' Current = Some (Regular file_mode (concat (gs ! 0)))
     \<and> d' Current = Some (Regular file_mode [6, 7, 8]) \<and> d' (Rotated 1) = Some (Regular file_mode [4, 5])"
proof -
  let ?w = "\<lparr>lw_max_bytes = 4, lw_max_files = 2, lw_open = True, lw_size = 0\<rparr>"
  let ?d = "(\<lambda>_. None)(Current := Some (Regular file_mode []))"
  have o: "opened_log = (Inr ?w, ?d)"
    by (simp add: opened_log_def new_log_def open_log_def)
  have run: "\<exists>w' d'. write_all [[1, 2, 3], [4, 5], [6, 7, 8]] ?w ?d = (None, w', d')
      \<and> d' Current = Some (Regular file_mode [6, 7, 8]) \<and> d' (Rotated 1) = Some (Regular file_mode [4, 5])"
    by (simp add: write_log_def rotate_log_def make_room_def remove_regular_def rename_regular_def
        shift_files.simps open_log_def append_log_def Let_def)
  define ps where "ps = [[1, 2, 3], [4, 5], [6, 7, 8 :: nat]]"
  obtain w' d' gs where k: "write_all ps ?w ?d = (None, w', d')" "int (length gs) \<le> 2"
    "1 \<le> length gs" "d' (name_of 0) = (if 0 < length gs then Some (Regular file_mode (concat (gs ! 0))) else None)"
    using log_keeps_newest[OF o[unfolded opened_log_def], of ps] by blast
  have "d' Current = Some (Regular file_mode (concat (gs ! 0)))" using k(3,4) by (simp add: Suc_le_eq)
  moreover have "d' Current = Some (Regular file_mode [6, 7, 8])" "d' (Rotated 1) = Some (Regular file_mode [4, 5])"
    using run[folded ps_def] k(1) by auto
  ultimately show ?thesis using o k(1,2) unfolding ps_def[symmetric] by blast
qed

section \<open>Configuration\<close>

text \<open>C36. The MCP configurations have a normal form. Whatever is accepted comes out well formed: at most
  20 servers with distinct names of the allowed form, in order, each remote and over HTTPS without
  credentials, an enabled one with a nonempty allowlist of distinct, sorted tools of the allowed form,
  and a token exactly for bearer authentication; and the configurations that normalization leaves
  unchanged are exactly these, so that normalizing once is enough.\<close>

theorem mcp_normal_form:
  shows "(normalize_mcp parse ss = Inr ts \<longrightarrow> mcp_ok parse ts \<and> normalize_mcp parse ts = Inr ts)
     \<and> (mcp_ok parse ss \<longleftrightarrow> normalize_mcp parse ss = Inr ss)"
  using mcp_ok_normalized normalize_mcp_id by blast

definition https_only :: url_parser where
  "https_only s = (if has_prefix s ''https://'' then
     Some \<lparr>pu_scheme = ''https'', pu_host = drop 8 s, pu_user = False, pu_fragment = ''''\<rparr> else None)"

definition issue_server :: mcp_server where
  "issue_server = \<lparr>ms_name = ''issues'', ms_source = ''remote'', ms_url = ''https://mcp.example.test'',
     ms_auth_type = ''none'', ms_bearer_token = '''', ms_enabled = True, ms_tools = [''read'', ''write'']\<rparr>"

lemma issue_server_ok: "mcp_ok https_only [issue_server]"
proof -
  have "trim_space ''https://mcp.example.test'' = ''https://mcp.example.test''"
    by (rule trim_space_visible) (simp add: byte_of_def)
  then show ?thesis
    by (simp add: mcp_ok_def mcp_server_ok_def issue_server_def maximum_servers_def maximum_tools_per_server_def
        remote_url_ok_def https_only_def server_name_pattern_def tool_name_pattern_def matches_def tool_char_def
        char_classes)
qed

theorem mcp_normal_form_witness:
  "normalize_mcp https_only [issue_server] = Inr [issue_server]"
  using mcp_normal_form[of https_only "[issue_server]"] issue_server_ok by simp

section \<open>Releases\<close>

fun after_lists ::
    "string \<Rightarrow> managed_source \<Rightarrow> (bool \<times> release_catalog option \<times> nat) list \<Rightarrow> managed_source" where
  "after_lists build s [] = s"
| "after_lists build s ((written, feed, limit) # calls) =
     after_lists build (snd (list_releases build written feed limit s)) calls"

text \<open>C37. The control plane always has a release catalog. Once the managed source was set up, every
  request for one to three releases is answered, whatever the official feed answers and whether
  or not the cache file can be written, with exactly so many releases of a valid catalog. When the
  answer of the feed is valid, can be encoded and is written to the file, it is what is served and
  becomes the last good catalog; in every other case (no answer, an invalid one, a failed write)
  the source is unchanged, the last good catalog is served, and it is marked stale. The file always
  encodes the last good catalog, and a restart reads it back, unless its text is longer than the
  limit of 1 MiB, which writing does not check and reading does. Every image reference of the
  catalog is recognised as the release it was made for.\<close>

theorem releases_always_served:
  assumes "new_managed_source build written0 c0 path cache = Some s0"
    and "list_all is_hex build" "12 \<le> length build"
    and "s = after_lists build s0 calls"
    and "1 \<le> limit" "limit \<le> 3"
  shows "\<exists>c s' text. list_releases build written feed limit s = (Some c, s') \<and> length (ct_releases c) = limit
     \<and> ct_releases c = take limit (ct_releases (mn_last_good s'))
     \<and> validate_catalog build (mn_last_good s') 3 = None
     \<and> (usable_answer build written feed \<longrightarrow> (\<exists>f. feed = Some f
          \<and> mn_last_good s' = bind_runtime_images build f \<and> ct_stale c = ct_stale f))
     \<and> (\<not> usable_answer build written feed \<longrightarrow> s' = s \<and> ct_stale c)
     \<and> marshal_catalog (portable_catalog (mn_last_good s')) = Some text
     \<and> load_catalog build (mn_cache s') = (if length text < 1048576
          then Some ((mn_last_good s')\<lparr>ct_stale := False\<rparr>) else None)
     \<and> (\<forall>r \<in> set (ct_releases c). find_by_runtime_image (mn_last_good s') (rl_image r) = Some r)"
proof -
  have step: "source_ok build (snd (list_releases build w f l t))" if t: "source_ok build t" for w f l t
  proof (cases "1 \<le> l \<and> l \<le> 3")
    case True
    then show ?thesis using t list_releases_cases[OF t, of l w f] by fastforce
  qed (use t in \<open>auto simp: list_releases_def\<close>)
  have "source_ok build t \<Longrightarrow> source_ok build (after_lists build t calls)" for t
  proof (induction calls arbitrary: t)
    case (Cons a calls)
    then show ?case using step[OF Cons.prems] by (cases a) simp
  qed simp
  then have s: "source_ok build s" using new_managed_source_ok[OF assms(1)] assms(4) by simp
  have known: "find_by_runtime_image (mn_last_good t) (rl_image r) = Some r"
    if "source_ok build t" "r \<in> set (take limit (ct_releases (mn_last_good t)))" for t r
    using that find_bound_image[OF _ assms(2,3)] by (auto simp: source_ok_def dest: in_set_takeD)
  have len: "length (ct_releases (mn_last_good t)) = 3" if "source_ok build t" for t
    using that bound_catalog_length by (auto simp: source_ok_def)
  show ?thesis
  proof (cases rule: list_releases_cases[OF s assms(5,6), of written feed, case_names stale fresh])
    case stale
    obtain enc where enc: "marshal_catalog (portable_catalog (mn_last_good s)) = Some enc"
      "load_catalog build (mn_cache s) = (if length enc < 1048576
          then Some ((mn_last_good s)\<lparr>ct_stale := False\<rparr>) else None)"
      using source_ok_valid(2)[OF s] by blast
    show ?thesis
      using source_ok_valid(1)[OF s] enc known[OF s] len[OF s] assms(6) stale(2)
      by (intro exI[of _ "(clone_catalog (mn_last_good s) limit)\<lparr>ct_stale := True\<rparr>"] exI[of _ s] exI[of _ enc])
        (simp add: stale(1) clone_catalog_def)
  next
    case (fresh f s')
    obtain enc where enc: "marshal_catalog (portable_catalog (mn_last_good s')) = Some enc"
      "load_catalog build (mn_cache s') = (if length enc < 1048576
          then Some ((mn_last_good s')\<lparr>ct_stale := False\<rparr>) else None)"
      using source_ok_valid(2)[OF fresh(3)] by blast
    have stale_bound: "ct_stale (mn_last_good s') = ct_stale f"
      by (simp add: fresh(4) bind_runtime_images_def clone_catalog_def Let_def)
    have good: "\<exists>g. feed = Some g \<and> mn_last_good s' = bind_runtime_images build g
        \<and> ct_stale (mn_last_good s') = ct_stale g"
      using fresh(1,4) stale_bound by blast
    show ?thesis
      using source_ok_valid(1)[OF fresh(3)] enc known[OF fresh(3)] len[OF fresh(3)] assms(6) fresh(5) good
      by (intro exI[of _ "clone_catalog (mn_last_good s') limit"] exI[of _ s'] exI[of _ enc])
        (simp add: fresh(2) clone_catalog_def)
  qed
qed

definition sample_commit :: string where
  "sample_commit = replicate 40 (CHR ''a'')"

definition sample_release :: "string \<Rightarrow> release" where
  "sample_release v = \<lparr>rl_version = v, rl_tag = v, rl_commit = sample_commit,
     rl_image = runtime_repository @ v @ ''-aaaaaaaaaaaa'', rl_url = release_url, rl_published_at = 1\<rparr>"

definition sample_catalog :: release_catalog where
  "sample_catalog = \<lparr>ct_source = official_source, ct_checked_at = 1,
     ct_releases = map sample_release [''0.3.0'', ''0.2.0'', ''0.1.0''], ct_stale = False\<rparr>"

definition sample_build :: string where
  "sample_build = replicate 64 (CHR ''b'')"

lemma sample_commit [simp]:
  "trim_space sample_commit = sample_commit" "length sample_commit = 40" "is_commit sample_commit"
  "fold_ascii (take 12 sample_commit) = ''aaaaaaaaaaaa''"
proof -
  show "trim_space sample_commit = sample_commit"
    by (rule trim_space_visible) (simp add: list_all_iff byte_of_def sample_commit_def)
qed (simp_all add: sample_commit_def is_commit_def list_all_iff char_classes fold_ascii_def lower_char_def
    eval_nat_numeral)

lemma sample_portable: "portable_image_reference (sample_release v) = rl_image (sample_release v)"
  by (simp add: portable_image_reference_def sample_release_def)

lemma sample_catalog_ports: "portable_catalog (bind_runtime_images build sample_catalog) = sample_catalog"
proof -
  have "(sample_release v)\<lparr>rl_image := portable_image_reference (sample_release v)\<rparr> = sample_release v" for v
    by (simp add: sample_portable)
  then show ?thesis
    unfolding portable_bind by (simp add: portable_catalog_def clone_catalog_def sample_catalog_def Let_def)
qed

lemma length_json_chars: "length (json_chars s) \<le> 6 * length s"
proof (induction s rule: json_chars.induct)
  case (2 c s)
  have "length (json_escape c) \<le> 6" by (simp add: json_escape_def Let_def)
  then show ?case using 2 by (cases s) (auto simp: Let_def)
qed simp

lemma length_json_text: "length (json_text s) \<le> 6 * length s + 2"
  using length_json_chars[of s] by (simp add: json_text_def)

lemma length_json_member: "length (json_member depth name v) \<le> 6 * length name + 2 * depth + length v + 5"
  using length_json_text[of name] by (simp add: json_member_def json_line_def)

lemma length_encode_release:
  "length (encode_release r) \<le> 6 * (length (rl_version r) + length (rl_tag r) + length (rl_commit r)
     + length (rl_image r) + length (rl_url r) + length (format_rfc3339_nano (rl_published_at r))) + 1000"
  using length_json_member[of 3 "''version''" "json_text (rl_version r)"]
    length_json_member[of 3 "''tag''" "json_text (rl_tag r)"]
    length_json_member[of 3 "''commit''" "json_text (rl_commit r)"]
    length_json_member[of 3 "''image''" "json_text (rl_image r)"]
    length_json_member[of 3 "''url''" "json_text (rl_url r)"]
    length_json_member[of 3 "''published_at''" "json_time (rl_published_at r)"]
    length_json_text[of "rl_version r"] length_json_text[of "rl_tag r"] length_json_text[of "rl_commit r"]
    length_json_text[of "rl_image r"] length_json_text[of "rl_url r"]
    length_json_text[of "format_rfc3339_nano (rl_published_at r)"]
  by (simp add: encode_release_def json_line_def json_time_def)

lemma sample_marshals: "\<exists>text. marshal_catalog sample_catalog = Some text \<and> length text < 1048576"
proof -
  have time: "json_year_ok 1" "length (format_rfc3339_nano 1) < 50" by code_simp+
  have entry: "length (encode_release (sample_release v)) \<le> 5000" if "length v = 5" for v
    using length_encode_release[of "sample_release v"] time(2) that
    by (simp add: sample_release_def runtime_repository_def release_url_def)
  have head: "length (json_member 1 ''source'' (json_text (ct_source sample_catalog))) \<le> 1000"
    "length (json_member 1 ''checked_at'' (json_time 1)) \<le> 1000"
    using length_json_member[of 1 "''source''" "json_text (ct_source sample_catalog)"]
      length_json_text[of "ct_source sample_catalog"] time(2) length_json_text[of "format_rfc3339_nano 1"]
      length_json_member[of 1 "''checked_at''" "json_time 1"]
    by (simp_all add: sample_catalog_def official_source_def json_time_def)
  have rels: "length (encode_releases (ct_releases sample_catalog)) \<le> 16000"
    using entry[of "''0.3.0''"] entry[of "''0.2.0''"] entry[of "''0.1.0''"]
    by (simp add: sample_catalog_def encode_releases_def json_line_def)
  have "marshal_catalog sample_catalog = Some (''{'' @ join '',''
        [json_member 1 ''source'' (json_text (ct_source sample_catalog)),
         json_member 1 ''checked_at'' (json_time 1),
         json_member 1 ''releases'' (encode_releases (ct_releases sample_catalog))] @ json_line 0 ''}'')"
    using time(1) by (simp add: marshal_catalog_def sample_catalog_def sample_release_def)
  then show ?thesis
    using head rels length_json_member[of 1 "''releases''" "encode_releases (ct_releases sample_catalog)"]
    by (simp add: json_line_def)
qed

lemma sample_identity: "validate_catalog_identity sample_catalog 3 = None"
proof -
  have v: "is_semantic_version ''0.3.0''" "is_semantic_version ''0.2.0''" "is_semantic_version ''0.1.0''"
    "compare_versions ''0.3.0'' ''0.2.0'' = 1" "compare_versions ''0.2.0'' ''0.1.0'' = 1"
    by (simp_all add: is_semantic_version_def parse_uint32_def compare_versions_def numeric_parts_def
        char_classes Let_def)
  show ?thesis
    by (simp add: validate_catalog_identity_def sample_catalog_def sample_release_def v not_newer_def
        has_prefix_append zero_time_def)
qed

lemma sample_catalog_valid:
  "validate_catalog sample_build sample_catalog 3 = None"
  "validate_catalog sample_build (bind_runtime_images sample_build sample_catalog) 3 = None"
proof -
  have "list_all (\<lambda>r. rl_image r = portable_image_reference r) (ct_releases sample_catalog)"
    by (simp add: sample_catalog_def sample_portable)
  then show "validate_catalog sample_build sample_catalog 3 = None"
    using sample_identity by (auto simp: validate_catalog_def list_all_iff)
  show "validate_catalog sample_build (bind_runtime_images sample_build sample_catalog) 3 = None"
    using sample_identity bound_bind[OF sample_identity, of sample_build]
    by (auto simp: validate_catalog_def bound_catalog_def list_all_iff)
qed

lemma sample_source: "\<exists>s. new_managed_source sample_build True sample_catalog ''/cache'' None = Some s
    \<and> portable_catalog (mn_last_good s) = sample_catalog"
proof -
  have "trim_space ''/cache'' = ''/cache''" by (rule trim_space_visible) (simp add: byte_of_def)
  moreover have "validate_portable_catalog (portable_catalog (bind_runtime_images sample_build sample_catalog)) 3 = None"
    using portable_valid[OF sample_identity] by (simp add: portable_bind)
  ultimately show ?thesis
    using sample_marshals sample_catalog_valid(1) sample_catalog_ports[of sample_build]
    by (auto simp: new_managed_source_def save_portable_catalog_def Let_def)
qed

text \<open>Without an answer and with a broken disk the source serves its last good catalog, stale, and a
  restart reads it back; a good answer that is written is served as it is.\<close>

theorem releases_always_served_witness:
  "\<exists>s c s' c2 s2. new_managed_source sample_build True sample_catalog ''/cache'' None = Some s
     \<and> list_releases sample_build False None 1 s = (Some c, s') \<and> length (ct_releases c) = 1 \<and> ct_stale c
     \<and> load_catalog sample_build (mn_cache s') = Some ((mn_last_good s)\<lparr>ct_stale := False\<rparr>)
     \<and> list_releases sample_build True (Some sample_catalog) 2 s' = (Some c2, s2) \<and> \<not> ct_stale c2"
proof -
  obtain s where s: "new_managed_source sample_build True sample_catalog ''/cache'' None = Some s"
    and last: "portable_catalog (mn_last_good s) = sample_catalog"
    using sample_source by blast
  have b: "list_all is_hex sample_build" "12 \<le> length sample_build"
    by (simp_all add: sample_build_def list_all_iff char_classes)
  obtain enc where enc: "marshal_catalog sample_catalog = Some enc" "length enc < 1048576"
    using sample_marshals by blast
  have usable: "usable_answer sample_build True (Some sample_catalog)"
    using enc(1) sample_catalog_valid(2) sample_catalog_ports[of sample_build, unfolded portable_bind]
    by (simp add: usable_answer_def)
  obtain c where c: "list_releases sample_build False None 1 s = (Some c, s)" "length (ct_releases c) = 1"
    "ct_stale c" "load_catalog sample_build (mn_cache s) = Some ((mn_last_good s)\<lparr>ct_stale := False\<rparr>)"
    using releases_always_served[OF s b, of s "[]" 1 False None] enc last by (auto simp: usable_answer_def)
  obtain c2 s2 where c2: "list_releases sample_build True (Some sample_catalog) 2 s = (Some c2, s2)"
    "ct_stale c2 = ct_stale sample_catalog"
    using releases_always_served[OF s b, of s "[]" 2 True "Some sample_catalog"] usable by auto
  have "\<not> ct_stale sample_catalog" by (simp add: sample_catalog_def)
  then show ?thesis using s c c2 by blast
qed

end
