(* ===== verification/Recovery_Points.thy ===== *)
theory Recovery_Points
  imports Recovery_Codec Store_Tables Providers "HOL-Library.AList"
begin

text \<open>
  The recovery point storage of \<open>internal/recovery/manager.go\<close>: a directory with one metadata
  file and, once uploaded, one encrypted artifact per point. The directory is an association
  list from the names the manager uses to file contents; every operation gives its result and
  the list of file actions it performs, so that a crash is a prefix of that list and
  \<open>New\<close> (\<open>cleanup_temporary_files\<close>, \<open>reconcile_publications\<close>) runs on whatever it left. File
  actions themselves succeed; operations run one after the other, as the mutexes of the manager
  make them. \<open>untar\<close> stands for the reader of \<open>archive/tar\<close>: the entries it delivers, whether it
  ended with \<open>io.EOF\<close>, and what it left unread.
\<close>

section \<open>Points\<close>

datatype point_status = PointCreating | PointUploaded | PointReady | PointFailed | PointOther string

record recovery_point =
  pt_id :: string
  pt_instance_id :: string
  pt_instance_name :: string
  pt_host_id :: string
  pt_operation_id :: string
  pt_job_id :: string
  pt_filename :: string
  pt_status :: point_status
  pt_size_bytes :: int
  pt_encrypted_size :: int
  pt_sha256 :: string
  pt_image :: string
  pt_image_id :: string
  pt_provider :: string
  pt_model :: string
  pt_reasoning :: string
  pt_service_tier :: string
  pt_codex_configured :: bool
  pt_project_name :: string
  pt_data_volume :: string
  pt_managed_path :: string
  pt_agent_version :: string
  pt_automated :: bool
  pt_workflow_id :: string
  pt_error :: string
  pt_created_at :: timestamp
  pt_uploaded_at :: timestamp
  pt_verified_at :: timestamp

record reservation =
  rv_instance_id :: string
  rv_instance_name :: string
  rv_host_id :: string
  rv_operation_id :: string
  rv_job_id :: string
  rv_image :: string
  rv_image_id :: string
  rv_provider :: string
  rv_model :: string
  rv_reasoning :: string
  rv_service_tier :: string
  rv_codex_configured :: bool
  rv_project_name :: string
  rv_data_volume :: string
  rv_managed_path :: string
  rv_agent_version :: string
  rv_automated :: bool
  rv_workflow_id :: string

record manifest =
  mn_format_version :: int
  mn_recovery_point_id :: string
  mn_instance_id :: string
  mn_instance_name :: string
  mn_image :: string
  mn_image_id :: string
  mn_provider :: string
  mn_model :: string
  mn_reasoning :: string
  mn_service_tier :: string
  mn_codex_configured :: bool
  mn_project_name :: string
  mn_data_volume :: string
  mn_managed_path :: string
  mn_agent_version :: string
  mn_created_at :: timestamp

datatype point_error =
    PointBusy
  | PointConfirmation
  | PointIntegrity string
  | PointLimit
  | PointNotFound
  | PointState
  | PointFence store_error
  | PointFault string

definition recovery_id_pattern :: "string \<Rightarrow> bool" where
  "recovery_id_pattern s \<longleftrightarrow> has_prefix s ''recovery-'' \<and> length s = 41 \<and> list_all is_lower_hex (drop 9 s)"

definition sha256_pattern :: "string \<Rightarrow> bool" where
  "sha256_pattern s \<longleftrightarrow> length s = 64 \<and> list_all is_lower_hex s"

definition name_char :: "char \<Rightarrow> bool" where
  "name_char c \<longleftrightarrow> is_lower c \<or> is_digit c \<or> c = CHR ''-''"

text \<open>The suffix \<open>-20060102T150405Z-xxxxxxxx.tar\<close> has 30 bytes.\<close>

definition filename_suffix_pattern :: "string \<Rightarrow> bool" where
  "filename_suffix_pattern s \<longleftrightarrow> length s = 30 \<and> s ! 0 = CHR ''-'' \<and> list_all is_digit (take 8 (drop 1 s))
     \<and> s ! 9 = CHR ''T'' \<and> list_all is_digit (take 6 (drop 10 s)) \<and> s ! 16 = CHR ''Z'' \<and> s ! 17 = CHR ''-''
     \<and> list_all is_lower_hex (take 8 (drop 18 s)) \<and> drop 26 s = ''.tar''"

definition filename_pattern :: "string \<Rightarrow> bool" where
  "filename_pattern s \<longleftrightarrow> has_prefix s ''hermes-'' \<and> 37 \<le> length s
     \<and> matches is_lower name_char 2 31 (take (length s - 37) (drop 7 s))
     \<and> filename_suffix_pattern (drop (length s - 30) s)"

text \<open>\<open>Format("20060102T150405Z")\<close>.\<close>

definition format_compact :: "timestamp \<Rightarrow> string" where
  "format_compact t =
     (let secs = t div 1000000000; days = secs div 86400; sod = secs mod 86400;
          (y, m, d) = civil_from_days days
      in pad_left 4 (itoa y) @ two_digits m @ two_digits d @ ''T''
         @ two_digits (sod div 3600) @ two_digits (sod div 60 mod 60) @ two_digits (sod mod 60) @ ''Z'')"

definition point_runtime_ok :: "recovery_point \<Rightarrow> bool" where
  "point_runtime_ok m \<longleftrightarrow>
     (if pt_codex_configured m
      then validate_runtime (pt_provider m) (pt_model m) (pt_reasoning m) (pt_service_tier m) = None
      else validate_runtime_or_pending (pt_provider m) (pt_model m) (pt_reasoning m) (pt_service_tier m) = None)"

definition open_point :: "recovery_point \<Rightarrow> bool" where
  "open_point m \<longleftrightarrow> pt_status m = PointCreating \<or> pt_status m = PointUploaded"

definition stored_point :: "recovery_point \<Rightarrow> bool" where
  "stored_point m \<longleftrightarrow> pt_status m = PointUploaded \<or> pt_status m = PointReady"

definition point_identity_ok :: "recovery_point \<Rightarrow> bool" where
  "point_identity_ok m \<longleftrightarrow> recovery_id_pattern (pt_id m) \<and> filename_pattern (pt_filename m)
     \<and> (open_point m \<or> stored_point m \<or> pt_status m = PointFailed)
     \<and> list_all (\<lambda>s. s \<noteq> '''') [pt_instance_id m, pt_instance_name m, pt_host_id m, pt_operation_id m,
         pt_job_id m, pt_image m, pt_image_id m, pt_project_name m, pt_data_volume m, pt_managed_path m]
     \<and> point_runtime_ok m \<and> pt_agent_version m \<noteq> '''' \<and> pt_created_at m \<noteq> zero_time
     \<and> has_prefix (pt_filename m)
         (''hermes-'' @ pt_instance_name m @ ''-'' @ format_compact (pt_created_at m) @ ''-'')"

definition validate_point :: "recovery_point \<Rightarrow> point_error option" where
  "validate_point m =
     (if \<not> point_identity_ok m then Some (PointIntegrity ''incomplete recovery point metadata'')
      else if stored_point m \<and> (pt_size_bytes m < 1 \<or> pt_encrypted_size m < 1
         \<or> \<not> sha256_pattern (pt_sha256 m) \<or> pt_uploaded_at m = zero_time)
      then Some (PointIntegrity ''incomplete uploaded recovery point metadata'')
      else if pt_status m = PointReady \<and> pt_verified_at m = zero_time
      then Some (PointIntegrity ''ready recovery point was not verified'')
      else None)"

section \<open>The directory\<close>

datatype point_name =
    MetaFile string
  | ArtifactFile string
  | MetaTrash string
  | ArtifactTrash string
  | Uploading string
  | MetaTemp string
  | StrayFile string

text \<open>\<open>Unreadable\<close> stands for a file that does not decode or has an unsafe type or mode.\<close>

datatype point_file = Meta_Content recovery_point | Sealed bytes | Unreadable

type_synonym point_dir = "(point_name \<times> point_file) list"

fun file_name :: "point_name \<Rightarrow> string" where
  "file_name (MetaFile i) = i @ ''.json''"
| "file_name (ArtifactFile i) = i @ ''.enc''"
| "file_name (MetaTrash i) = ''.'' @ i @ ''.json.deleting''"
| "file_name (ArtifactTrash i) = ''.'' @ i @ ''.enc.deleting''"
| "file_name (Uploading i) = ''.'' @ i @ ''.enc.uploading''"
| "file_name (MetaTemp i) = ''.recovery-metadata-'' @ i"
| "file_name (StrayFile i) = i"

datatype file_action =
    PutFile point_name point_file
  | RemoveFile point_name
  | RenameFile point_name point_name

text \<open>\<open>os.Rename\<close> of a missing file does nothing here; the operations check before.\<close>

fun act :: "file_action \<Rightarrow> point_dir \<Rightarrow> point_dir" where
  "act (PutFile n f) d = AList.update n f d"
| "act (RemoveFile n) d = AList.delete n d"
| "act (RenameFile n m) d =
     (case map_of d n of None \<Rightarrow> d | Some f \<Rightarrow> AList.update m f (AList.delete n d))"

fun acts :: "file_action list \<Rightarrow> point_dir \<Rightarrow> point_dir" where
  "acts [] d = d"
| "acts (a # as) d = acts as (act a d)"

text \<open>An operation: its result and what it does to the directory.\<close>

type_synonym 'a point_op = "(point_error + 'a) \<times> file_action list"

definition refuse :: "point_error \<Rightarrow> 'a point_op" where
  "refuse e = (Inl e, [])"

text \<open>\<open>get\<close>.\<close>

definition artifact_size_is :: "point_file option \<Rightarrow> int \<Rightarrow> bool" where
  "artifact_size_is f n \<longleftrightarrow> (case f of Some (Sealed b) \<Rightarrow> int (length b) = n | _ \<Rightarrow> False)"

definition get_point :: "string \<Rightarrow> point_dir \<Rightarrow> point_error + recovery_point" where
  "get_point i d =
     (if \<not> recovery_id_pattern i then Inl PointNotFound
      else case map_of d (MetaFile i) of
        None \<Rightarrow> Inl PointNotFound
      | Some (Meta_Content m) \<Rightarrow>
          (case validate_point m of
             Some e \<Rightarrow> Inl e
           | None \<Rightarrow>
               if stored_point m then
                 (if artifact_size_is (map_of d (ArtifactFile i)) (pt_encrypted_size m) then Inr m
                  else Inl (PointIntegrity ''encrypted artifact is missing or unsafe''))
               else if map_of d (ArtifactFile i) \<noteq> None
               then Inl (PointIntegrity ''incomplete recovery point has a published artifact'')
               else Inr m)
      | Some _ \<Rightarrow> Inl (PointIntegrity ''invalid metadata''))"

definition with_point ::
    "string \<Rightarrow> point_dir \<Rightarrow> (recovery_point \<Rightarrow> 'a point_op) \<Rightarrow> 'a point_op" where
  "with_point i d f = (case get_point i d of Inl e \<Rightarrow> refuse e | Inr m \<Rightarrow> f m)"

text \<open>\<open>list\<close>: the entries in the order of \<open>os.ReadDir\<close>, then newest first.\<close>

definition read_dir :: "point_dir \<Rightarrow> point_name list" where
  "read_dir d = sort_key file_name (map fst d)"

fun is_stray :: "point_name \<Rightarrow> bool" where
  "is_stray (StrayFile _) = True"
| "is_stray _ = False"

fun lacks_metadata :: "point_dir \<Rightarrow> point_name \<Rightarrow> bool" where
  "lacks_metadata d (ArtifactFile i) = (map_of d (MetaFile i) = None)"
| "lacks_metadata d _ = False"

fun read_points :: "string \<Rightarrow> point_dir \<Rightarrow> point_name list \<Rightarrow> point_error + recovery_point list" where
  "read_points inst d [] = Inr []"
| "read_points inst d (MetaFile i # ns) =
     (case get_point i d of
        Inl e \<Rightarrow> Inl e
      | Inr m \<Rightarrow> (case read_points inst d ns of
            Inl e \<Rightarrow> Inl e
          | Inr ms \<Rightarrow> Inr (if inst = '''' \<or> pt_instance_id m = inst then m # ms else ms)))"
| "read_points inst d (_ # ns) = read_points inst d ns"

definition list_points :: "string \<Rightarrow> point_dir \<Rightarrow> point_error + recovery_point list" where
  "list_points inst d =
     (if list_ex is_stray (read_dir d) then Inl (PointIntegrity ''unexpected recovery point artifact'')
      else if list_ex (lacks_metadata d) (read_dir d)
      then Inl (PointIntegrity ''encrypted artifact has no metadata'')
      else case read_points inst d (read_dir d) of
          Inl e \<Rightarrow> Inl e
        | Inr ms \<Rightarrow> Inr (sort_key (\<lambda>m. - pt_created_at m) ms))"

section \<open>Reservations\<close>

text \<open>\<open>writeMetadata\<close> goes through a temporary file, \<open>tmp\<close> is its random name.\<close>

definition write_point :: "string \<Rightarrow> recovery_point \<Rightarrow> file_action list" where
  "write_point tmp m = [PutFile (MetaTemp tmp) Unreadable, PutFile (MetaTemp tmp) (Meta_Content m),
     RenameFile (MetaTemp tmp) (MetaFile (pt_id m))]"

definition delete_locked :: "recovery_point \<Rightarrow> file_action list" where
  "delete_locked m =
     [RenameFile (MetaFile (pt_id m)) (MetaTrash (pt_id m))]
     @ (if stored_point m
        then [RenameFile (ArtifactFile (pt_id m)) (ArtifactTrash (pt_id m)), RemoveFile (ArtifactTrash (pt_id m))]
        else [])
     @ [RemoveFile (MetaTrash (pt_id m))]"

definition stale_reservation :: "timestamp \<Rightarrow> recovery_point \<Rightarrow> bool" where
  "stale_reservation now m \<longleftrightarrow> pt_status m = PointCreating \<and> now - pt_created_at m > seconds (24 * 60 * 60)"

definition rotatable :: "recovery_point \<Rightarrow> bool" where
  "rotatable m \<longleftrightarrow> pt_automated m \<and> \<not> open_point m"

text \<open>\<open>random\<close> are the 16 bytes of \<open>newID\<close>, hexadecimal.\<close>

definition new_point :: "timestamp \<Rightarrow> string \<Rightarrow> reservation \<Rightarrow> recovery_point" where
  "new_point now random r =
     \<lparr>pt_id = ''recovery-'' @ random, pt_instance_id = rv_instance_id r,
      pt_instance_name = rv_instance_name r, pt_host_id = rv_host_id r,
      pt_operation_id = rv_operation_id r, pt_job_id = rv_job_id r,
      pt_filename = ''hermes-'' @ rv_instance_name r @ ''-'' @ format_compact now @ ''-''
        @ take 8 random @ ''.tar'',
      pt_status = PointCreating, pt_size_bytes = 0, pt_encrypted_size = 0, pt_sha256 = '''',
      pt_image = rv_image r, pt_image_id = rv_image_id r, pt_provider = rv_provider r,
      pt_model = rv_model r, pt_reasoning = rv_reasoning r, pt_service_tier = rv_service_tier r,
      pt_codex_configured = rv_codex_configured r, pt_project_name = rv_project_name r,
      pt_data_volume = rv_data_volume r, pt_managed_path = rv_managed_path r,
      pt_agent_version = rv_agent_version r, pt_automated = rv_automated r,
      pt_workflow_id = rv_workflow_id r, pt_error = '''', pt_created_at = now,
      pt_uploaded_at = zero_time, pt_verified_at = zero_time\<rparr>"

text \<open>Making room: what is rotated out, or the refusal.\<close>

definition rotate_points ::
    "int \<Rightarrow> bool \<Rightarrow> recovery_point list \<Rightarrow> point_error + file_action list" where
  "rotate_points limit automated items =
     (if int (length items) < limit then Inr []
      else if \<not> automated then Inl PointLimit
      else case find rotatable (rev items) of
          None \<Rightarrow> Inl PointLimit
        | Some m \<Rightarrow> Inr (delete_locked m))"

definition reserve_point ::
    "int \<Rightarrow> timestamp \<Rightarrow> string \<Rightarrow> string \<Rightarrow> reservation \<Rightarrow> point_dir \<Rightarrow> recovery_point point_op" where
  "reserve_point limit now random tmp r d =
     (case list_points (rv_instance_id r) d of
        Inl e \<Rightarrow> refuse e
      | Inr items \<Rightarrow>
          let stale = filter (stale_reservation now) items;
              items = filter (\<lambda>m. \<not> stale_reservation now m) items;
              removals = map (\<lambda>m. RemoveFile (MetaFile (pt_id m))) stale
          in case rotate_points limit (rv_automated r) items of
              Inl e \<Rightarrow> (Inl e, removals)
            | Inr rotation \<Rightarrow>
                let m = new_point now random r in
                if list_ex open_point items then (Inl PointBusy, removals @ rotation)
                else case validate_point m of
                    Some e \<Rightarrow> (Inl e, removals @ rotation)
                  | None \<Rightarrow> (Inr m, removals @ rotation @ write_point tmp m))"

definition abort_point :: "string \<Rightarrow> string \<Rightarrow> point_dir \<Rightarrow> unit point_op" where
  "abort_point i job d = with_point i d (\<lambda>m.
     if pt_job_id m \<noteq> job \<or> pt_status m \<noteq> PointCreating then refuse PointState
     else (Inr (), [RemoveFile (MetaFile i)]))"

definition abort_terminal :: "string \<Rightarrow> string \<Rightarrow> string \<Rightarrow> point_dir \<Rightarrow> unit point_op" where
  "abort_terminal i host job d = with_point i d (\<lambda>m.
     if pt_host_id m \<noteq> host \<or> pt_job_id m \<noteq> job then refuse PointState
     else if \<not> open_point m then refuse PointState
     else (Inr (), delete_locked m))"

definition delete_point :: "bool \<Rightarrow> string \<Rightarrow> string \<Rightarrow> point_dir \<Rightarrow> unit point_op" where
  "delete_point canceled i confirmation d = with_point i d (\<lambda>m.
     if confirmation \<noteq> pt_filename m then refuse PointConfirmation
     else if open_point m then refuse PointState
     else if canceled then refuse (PointFault ''context canceled'')
     else (Inr (), delete_locked m))"

section \<open>Upload and verification\<close>

text \<open>\<open>consumeExpectedUpload\<close>: a repeated upload of a stored point is compared and thrown away.\<close>

definition consume_expected_upload :: "bytes \<Rightarrow> int \<Rightarrow> string \<Rightarrow> point_error option" where
  "consume_expected_upload source expected digest =
     (if int (length source) > expected
      then Some (PointIntegrity ''repeated upload exceeds the expected size'')
      else if int (length source) \<noteq> expected \<or> hex_encode (sha256 source) \<noteq> digest
      then Some (PointIntegrity ''repeated upload size or checksum does not match'')
      else None)"

definition uploaded_point :: "timestamp \<Rightarrow> int \<Rightarrow> int \<Rightarrow> string \<Rightarrow> recovery_point \<Rightarrow> recovery_point" where
  "uploaded_point now written encrypted digest m =
     m\<lparr>pt_status := PointUploaded, pt_size_bytes := written, pt_encrypted_size := encrypted,
       pt_sha256 := digest, pt_uploaded_at := now, pt_error := ''''\<rparr>"

text \<open>
  The commit of an upload: the metadata is read again under the lock, the fence of the caller is
  asked, the artifact is published, then the metadata.
\<close>

definition commit_upload ::
    "timestamp \<Rightarrow> string \<Rightarrow> string \<Rightarrow> string \<Rightarrow> string \<Rightarrow> string \<Rightarrow> int \<Rightarrow> bytes \<Rightarrow> store_error option
      \<Rightarrow> point_dir \<Rightarrow> recovery_point point_op" where
  "commit_upload now tmp i host job digest expected sealed fence d = with_point i d (\<lambda>m.
     if pt_host_id m \<noteq> host \<or> pt_job_id m \<noteq> job \<or> pt_status m \<noteq> PointCreating then refuse PointState
     else case fence of
         Some e \<Rightarrow> refuse (PointFence e)
       | None \<Rightarrow>
           let m' = uploaded_point now expected (int (length sealed)) digest m in
           (Inr m', RenameFile (Uploading i) (ArtifactFile i) # write_point tmp m'))"

text \<open>\<open>then_do\<close> runs an operation after some actions, and puts others after it.\<close>

definition between :: "file_action list \<Rightarrow> file_action list \<Rightarrow> 'a point_op \<Rightarrow> 'a point_op" where
  "between before after op = (fst op, before @ snd op @ after)"

definition seal_upload ::
    "seal \<Rightarrow> (w32 \<Rightarrow> bool) \<Rightarrow> bytes \<Rightarrow> bytes \<Rightarrow> string \<Rightarrow> int \<Rightarrow> bytes \<Rightarrow> int written" where
  "seal_upload seal canceled salt key i expected source =
     encrypt seal canceled salt key (map byte_of i) (take (nat expected + 1) source)"

definition upload_point ::
    "seal \<Rightarrow> (w32 \<Rightarrow> bool) \<Rightarrow> bytes \<Rightarrow> bytes \<Rightarrow> int \<Rightarrow> timestamp \<Rightarrow> string \<Rightarrow> string \<Rightarrow> string \<Rightarrow> string
      \<Rightarrow> string \<Rightarrow> int \<Rightarrow> bytes \<Rightarrow> store_error option \<Rightarrow> point_dir \<Rightarrow> recovery_point point_op" where
  "upload_point seal canceled salt key max_bytes now tmp i host job digest expected source fence d =
     (if \<not> sha256_pattern digest \<or> expected < 1 \<or> expected > max_bytes
      then refuse (PointIntegrity ''recovery point integrity check failed'')
      else with_point i d (\<lambda>m.
        if pt_host_id m \<noteq> host \<or> pt_job_id m \<noteq> job then refuse PointState
        else if stored_point m then
          (if pt_sha256 m \<noteq> digest \<or> pt_size_bytes m \<noteq> expected then refuse PointState
           else case consume_expected_upload source expected digest of
               Some e \<Rightarrow> refuse e
             | None \<Rightarrow> (Inr m, []))
        else if pt_status m \<noteq> PointCreating then refuse PointState
        else if map_of d (Uploading i) \<noteq> None
        then refuse (PointFault ''create encrypted recovery point'')
        else
          let (out, r) = seal_upload seal canceled salt key i expected source;
              staged = [PutFile (Uploading i) (Sealed []), PutFile (Uploading i) (Sealed out)];
              tidy = [RemoveFile (Uploading i)]
          in case r of
              Inl e \<Rightarrow> (Inl (PointFault ''encrypt recovery point''), staged @ tidy)
            | Inr written \<Rightarrow>
                if written \<noteq> expected
                   \<or> hex_encode (sha256 (take (nat expected + 1) source)) \<noteq> digest
                then (Inl (PointIntegrity ''uploaded size or checksum does not match''), staged @ tidy)
                else between staged tidy
                  (commit_upload now tmp i host job digest expected out fence (acts staged d))))"

record tar_entry =
  te_name :: string
  te_regular :: bool
  te_directory :: bool
  te_size :: int
  te_readable :: bool
  te_manifest :: "manifest option"

record archive =
  ar_entries :: "tar_entry list"
  ar_eof :: bool
  ar_rest :: bytes

type_synonym untar = "bytes \<Rightarrow> archive"

definition manifest_matches :: "manifest \<Rightarrow> recovery_point \<Rightarrow> bool" where
  "manifest_matches a m \<longleftrightarrow> mn_format_version a = 1 \<and> mn_recovery_point_id a = pt_id m
     \<and> mn_instance_id a = pt_instance_id m \<and> mn_instance_name a = pt_instance_name m
     \<and> mn_image a = pt_image m \<and> mn_image_id a = pt_image_id m \<and> mn_provider a = pt_provider m
     \<and> mn_model a = pt_model m \<and> mn_reasoning a = pt_reasoning m
     \<and> mn_service_tier a = pt_service_tier m \<and> mn_codex_configured a = pt_codex_configured m
     \<and> mn_project_name a = pt_project_name m \<and> mn_data_volume a = pt_data_volume m
     \<and> mn_managed_path a = pt_managed_path m \<and> mn_agent_version a = pt_agent_version m
     \<and> mn_created_at a = pt_created_at m"

definition unsafe_name :: "string \<Rightarrow> bool" where
  "unsafe_name n \<longleftrightarrow> n = '''' \<or> is_abs n \<or> path_clean n \<noteq> n \<or> n = ''..'' \<or> has_prefix n ''../''
     \<or> CHR 0x5C \<in> set n"

text \<open>The loop of \<open>validateArchive\<close>; the flags are \<open>manifestFound\<close> and \<open>volumeFound\<close>.\<close>

definition check_entry ::
    "recovery_point \<Rightarrow> int \<Rightarrow> bool \<times> bool \<Rightarrow> tar_entry \<Rightarrow> string + bool \<times> bool" where
  "check_entry m max_bytes found e =
     (let (manifest_found, volume_found) = found; n = te_name e in
      if unsafe_name n then Inl ''archive contains an unsafe path''
      else if te_size e < 0 \<or> te_size e > max_bytes then Inl ''archive entry exceeds the size limit''
      else if n = ''manifest.json'' then
        (if manifest_found \<or> \<not> te_regular e \<or> te_size e > 1048576 then Inl ''archive manifest is invalid''
         else if \<not> te_readable e then Inl ''archive manifest could not be read''
         else case te_manifest e of
             Some a \<Rightarrow> (if manifest_matches a m then Inr (True, volume_found)
                 else Inl ''archive manifest does not match reserved metadata'')
           | None \<Rightarrow> Inl ''archive manifest does not match reserved metadata'')
      else if n = ''data-volume.tar'' then
        (if volume_found \<or> \<not> te_regular e then Inl ''data volume archive is invalid''
         else if \<not> te_readable e then Inl ''read archive'' else Inr (manifest_found, True))
      else if n = ''workspace'' \<or> has_prefix n ''workspace/'' then
        (if \<not> te_directory e \<and> \<not> te_regular e then Inl ''workspace archive contains an unsupported file type''
         else if \<not> te_readable e then Inl ''read archive'' else Inr found)
      else Inl ''archive contains an unexpected entry'')"

fun check_entries ::
    "recovery_point \<Rightarrow> int \<Rightarrow> int \<Rightarrow> bool \<times> bool \<Rightarrow> tar_entry list \<Rightarrow> string + bool \<times> bool" where
  "check_entries m max_bytes n found [] = Inr found"
| "check_entries m max_bytes n found (e # es) =
     (if n + 1 > 100000 then Inl ''archive contains too many entries''
      else case check_entry m max_bytes found e of
          Inl err \<Rightarrow> Inl err
        | Inr found \<Rightarrow> check_entries m max_bytes (n + 1) found es)"

definition validate_archive :: "untar \<Rightarrow> int \<Rightarrow> recovery_point \<Rightarrow> bytes \<Rightarrow> string option" where
  "validate_archive untar max_bytes m plain =
     (let a = untar (take (nat max_bytes + 1) plain) in
      case check_entries m max_bytes 0 (False, False) (ar_entries a) of
        Inl e \<Rightarrow> Some e
      | Inr (manifest_found, volume_found) \<Rightarrow>
          if \<not> ar_eof a then Some ''read archive''
          else if \<not> manifest_found \<or> \<not> volume_found then Some ''archive is missing required entries''
          else if ar_rest a \<noteq> [] \<or> nat max_bytes + 1 < length plain
          then Some ''archive contains trailing plaintext''
          else None)"

text \<open>\<open>verify\<close>: every failure is an integrity error; the text of a decryption failure is left out.\<close>

definition verify_artifact ::
    "unseal \<Rightarrow> untar \<Rightarrow> bytes \<Rightarrow> int \<Rightarrow> recovery_point \<Rightarrow> bytes \<Rightarrow> point_error option" where
  "verify_artifact unseal untar key max_bytes m sealed =
     (case decrypt unseal (\<lambda>_. False) key (map byte_of (pt_id m)) sealed of
        (plain, Inl e) \<Rightarrow> Some (PointIntegrity ''recovery stream'')
      | (plain, Inr n) \<Rightarrow>
          case validate_archive untar max_bytes m plain of
            Some e \<Rightarrow> Some (PointIntegrity e)
          | None \<Rightarrow>
              if int (length plain) \<noteq> pt_size_bytes m \<or> hex_encode (sha256 plain) \<noteq> pt_sha256 m
              then Some (PointIntegrity ''plaintext size or checksum does not match metadata'')
              else None)"

definition verify_stored ::
    "unseal \<Rightarrow> untar \<Rightarrow> bytes \<Rightarrow> int \<Rightarrow> recovery_point \<Rightarrow> point_dir \<Rightarrow> point_error option" where
  "verify_stored unseal untar key max_bytes m d =
     (case map_of d (ArtifactFile (pt_id m)) of
        Some (Sealed b) \<Rightarrow> verify_artifact unseal untar key max_bytes m b
      | _ \<Rightarrow> Some (PointIntegrity ''open encrypted artifact''))"

definition verify_uploaded ::
    "unseal \<Rightarrow> untar \<Rightarrow> bytes \<Rightarrow> int \<Rightarrow> timestamp \<Rightarrow> string \<Rightarrow> string \<Rightarrow> string \<Rightarrow> string \<Rightarrow> string \<Rightarrow> int
      \<Rightarrow> point_dir \<Rightarrow> recovery_point point_op" where
  "verify_uploaded unseal untar key max_bytes now tmp i host job digest expected d = with_point i d (\<lambda>m.
     if pt_host_id m \<noteq> host \<or> pt_job_id m \<noteq> job \<or> pt_status m \<noteq> PointUploaded
        \<or> pt_sha256 m \<noteq> digest \<or> pt_size_bytes m \<noteq> expected then refuse PointState
     else case verify_stored unseal untar key max_bytes m d of
         Some e \<Rightarrow> refuse e
       | None \<Rightarrow>
           let m' = m\<lparr>pt_status := PointReady, pt_verified_at := now\<rparr> in (Inr m', write_point tmp m'))"

definition verify_point ::
    "unseal \<Rightarrow> untar \<Rightarrow> bytes \<Rightarrow> int \<Rightarrow> timestamp \<Rightarrow> string \<Rightarrow> string \<Rightarrow> point_dir
      \<Rightarrow> recovery_point point_op" where
  "verify_point unseal untar key max_bytes now tmp i d = with_point i d (\<lambda>m.
     if pt_status m \<noteq> PointReady then refuse PointState
     else case verify_stored unseal untar key max_bytes m d of
         Some e \<Rightarrow> refuse e
       | None \<Rightarrow> let m' = m\<lparr>pt_verified_at := now\<rparr> in (Inr m', write_point tmp m'))"

section \<open>Failure and retry\<close>

definition unstored :: "point_status \<Rightarrow> string \<Rightarrow> recovery_point \<Rightarrow> recovery_point" where
  "unstored status err m =
     m\<lparr>pt_status := status, pt_sha256 := '''', pt_size_bytes := 0, pt_encrypted_size := 0,
       pt_uploaded_at := zero_time, pt_verified_at := zero_time, pt_error := err\<rparr>"

definition failure_text :: "string \<Rightarrow> string" where
  "failure_text message =
     (let t = take 500 (trim_space message)
      in if t = '''' then ''Host Agent could not create the recovery point'' else t)"

definition fail_point ::
    "string \<Rightarrow> string \<Rightarrow> string \<Rightarrow> string \<Rightarrow> string \<Rightarrow> point_dir \<Rightarrow> recovery_point point_op" where
  "fail_point tmp i host job message d = with_point i d (\<lambda>m.
     if pt_host_id m \<noteq> host \<or> pt_job_id m \<noteq> job \<or> \<not> open_point m then refuse PointState
     else let m' = unstored PointFailed (failure_text message) m
       in (Inr m', write_point tmp m' @ [RemoveFile (ArtifactFile i)]))"

definition reset_point ::
    "string \<Rightarrow> string \<Rightarrow> string \<Rightarrow> string \<Rightarrow> point_dir \<Rightarrow> recovery_point point_op" where
  "reset_point tmp i host job d = with_point i d (\<lambda>m.
     if pt_host_id m \<noteq> host \<or> pt_job_id m \<noteq> job then refuse PointState
     else if \<not> open_point m \<and> pt_status m \<noteq> PointFailed then refuse PointState
     else let m' = unstored PointCreating '''' m
       in (Inr m', write_point tmp m' @ [RemoveFile (ArtifactFile i)]))"

section \<open>Reading an artifact\<close>

text \<open>\<open>Stream\<close>: what was written to the destination, and the result.\<close>

definition stream_point ::
    "unseal \<Rightarrow> bytes \<Rightarrow> string \<Rightarrow> point_dir \<Rightarrow> bytes \<times> (point_error + recovery_point)" where
  "stream_point unseal key i d =
     (case get_point i d of
        Inl e \<Rightarrow> ([], Inl e)
      | Inr m \<Rightarrow>
          if pt_status m \<noteq> PointReady then ([], Inl PointState)
          else case map_of d (ArtifactFile i) of
              Some (Sealed b) \<Rightarrow>
                (case decrypt unseal (\<lambda>_. False) key (map byte_of i) b of
                   (out, Inl e) \<Rightarrow> (out, Inl (PointIntegrity ''recovery stream''))
                 | (out, Inr n) \<Rightarrow>
                     if n \<noteq> pt_size_bytes m \<or> hex_encode (sha256 out) \<noteq> pt_sha256 m
                     then (out, Inl (PointIntegrity ''downloaded size or checksum does not match''))
                     else (out, Inr m))
            | _ \<Rightarrow> ([], Inl (PointFault ''open'')))"

text \<open>\<open>OpenEncrypted\<close>.\<close>

definition open_encrypted :: "string \<Rightarrow> point_dir \<Rightarrow> point_error + recovery_point \<times> bytes" where
  "open_encrypted i d =
     (case get_point i d of
        Inl e \<Rightarrow> Inl e
      | Inr m \<Rightarrow>
          if pt_status m \<noteq> PointReady then Inl PointState
          else case map_of d (ArtifactFile i) of
              Some (Sealed b) \<Rightarrow>
                if int (length b) \<noteq> pt_encrypted_size m
                then Inl (PointIntegrity ''encrypted recovery artifact has unsafe type, permissions, or size'')
                else Inr (m, b)
            | _ \<Rightarrow> Inl (PointFault ''open encrypted recovery artifact''))"

section \<open>Start\<close>

definition exists_file :: "point_name \<Rightarrow> point_dir \<Rightarrow> bool" where
  "exists_file n d \<longleftrightarrow> map_of d n \<noteq> None"

text \<open>One entry of \<open>cleanupTemporaryFiles\<close>; a failing rename or removal ends it with an error.\<close>

fun cleanup_entry :: "point_name \<Rightarrow> point_dir \<Rightarrow> point_error + point_dir" where
  "cleanup_entry (MetaTrash i) d =
     (if has_prefix i ''recovery-''
      then Inr (acts [RemoveFile (ArtifactFile i), RemoveFile (ArtifactTrash i), RemoveFile (MetaTrash i)] d)
      else Inr d)"
| "cleanup_entry (ArtifactTrash i) d =
     (if \<not> has_prefix i ''recovery-'' then Inr d
      else if exists_file (MetaFile i) d
      then (if exists_file (ArtifactTrash i) d
            then Inr (act (RenameFile (ArtifactTrash i) (ArtifactFile i)) d)
            else Inl (PointFault ''restore interrupted recovery point deletion''))
      else Inr (act (RemoveFile (ArtifactTrash i)) d))"
| "cleanup_entry (Uploading i) d =
     (if exists_file (Uploading i) d then Inr (act (RemoveFile (Uploading i)) d)
      else Inl (PointFault ''remove stale recovery point temporary file''))"
| "cleanup_entry (MetaTemp i) d =
     (if exists_file (MetaTemp i) d then Inr (act (RemoveFile (MetaTemp i)) d)
      else Inl (PointFault ''remove stale recovery point temporary file''))"
| "cleanup_entry _ d = Inr d"

fun each :: "('n \<Rightarrow> 'd \<Rightarrow> 'e + 'd) \<Rightarrow> 'n list \<Rightarrow> 'd \<Rightarrow> 'e + 'd" where
  "each f [] d = Inr d"
| "each f (n # ns) d = (case f n d of Inl e \<Rightarrow> Inl e | Inr d \<Rightarrow> each f ns d)"

definition cleanup_temporary_files :: "point_dir \<Rightarrow> point_error + point_dir" where
  "cleanup_temporary_files d = each cleanup_entry (read_dir d) d"

fun reconcile_entry :: "point_name \<Rightarrow> point_dir \<Rightarrow> point_error + point_dir" where
  "reconcile_entry (ArtifactFile i) d =
     (case map_of d (MetaFile i) of
        None \<Rightarrow> Inr (act (RemoveFile (ArtifactFile i)) d)
      | Some (Meta_Content m) \<Rightarrow>
          Inr (if pt_status m = PointCreating \<or> pt_status m = PointFailed
               then act (RemoveFile (ArtifactFile i)) d else d)
      | Some _ \<Rightarrow> Inr d)"
| "reconcile_entry _ d = Inr d"

definition reconcile_publications :: "point_dir \<Rightarrow> point_error + point_dir" where
  "reconcile_publications d = each reconcile_entry (read_dir d) d"

definition new_manager :: "string \<Rightarrow> int \<Rightarrow> int \<Rightarrow> point_dir \<Rightarrow> point_error + point_dir" where
  "new_manager hexadecimal_key retention max_bytes d =
     (if \<not> hex_decodes hexadecimal_key \<or> length hexadecimal_key \<noteq> 64
      then Inl (PointFault ''recovery encryption key must contain exactly 64 hexadecimal characters'')
      else if retention < 1 \<or> retention > 100
      then Inl (PointFault ''recovery point retention must be between 1 and 100'')
      else if max_bytes < 1 then Inl (PointFault ''maximum recovery point size must be positive'')
      else case cleanup_temporary_files d of
          Inl e \<Rightarrow> Inl e
        | Inr d \<Rightarrow> reconcile_publications d)"

end
