(* ===== verification/Recovery_Facts.thy ===== *)
theory Recovery_Facts
  imports Recovery_Points
begin

text \<open>
  Crash safety of the recovery point storage. A directory is \<open>consistent\<close> when it holds exactly
  valid metadata files with their artifacts; it is \<open>recoverable\<close> when a start of the manager makes
  it consistent again without losing a point. Every operation takes a consistent directory to a
  consistent one, and every prefix of its file actions leaves a recoverable one. \<open>v\<close> is what was
  checked of a point that is \<open>READY\<close>.
\<close>

section \<open>Directories\<close>

definition meta_ok :: "string \<Rightarrow> recovery_point \<Rightarrow> bool" where
  "meta_ok i m \<longleftrightarrow> pt_id m = i \<and> recovery_id_pattern i \<and> validate_point m = None"

type_synonym checked = "recovery_point \<Rightarrow> bytes \<Rightarrow> bool"

definition holds_artifact :: "checked \<Rightarrow> recovery_point \<Rightarrow> point_file option \<Rightarrow> bool" where
  "holds_artifact v m f \<longleftrightarrow> (\<exists>b. f = Some (Sealed b) \<and> int (length b) = pt_encrypted_size m
     \<and> (pt_status m = PointReady \<longrightarrow> v m b))"

definition entry_ok :: "checked \<Rightarrow> string \<Rightarrow> point_file \<Rightarrow> point_file option \<Rightarrow> bool" where
  "entry_ok v i f a \<longleftrightarrow> (\<exists>m. f = Meta_Content m \<and> meta_ok i m
     \<and> (if stored_point m then holds_artifact v m a else a = None))"

definition entry_safe :: "checked \<Rightarrow> string \<Rightarrow> point_file \<Rightarrow> point_file option \<Rightarrow> bool" where
  "entry_safe v i f a \<longleftrightarrow> (\<exists>m. f = Meta_Content m \<and> meta_ok i m \<and> (stored_point m \<longrightarrow> holds_artifact v m a))"

lemma entry_simps [simp]:
  "entry_ok v i (Meta_Content m) a \<longleftrightarrow>
     meta_ok i m \<and> (if stored_point m then holds_artifact v m a else a = None)"
  "entry_safe v i (Meta_Content m) a \<longleftrightarrow> meta_ok i m \<and> (stored_point m \<longrightarrow> holds_artifact v m a)"
  by (simp_all add: entry_ok_def entry_safe_def)

lemma entry_ok_safe: "entry_ok v i f a \<Longrightarrow> entry_safe v i f a"
  by (auto simp: entry_ok_def entry_safe_def)

lemma entry_safe_unstored:
  "entry_safe v i f a \<Longrightarrow> \<forall>m. f = Meta_Content m \<longrightarrow> \<not> stored_point m \<Longrightarrow> entry_safe v i f b"
  by (auto simp: entry_safe_def)

definition consistent :: "checked \<Rightarrow> point_dir \<Rightarrow> bool" where
  "consistent v d \<longleftrightarrow>
     (\<forall>i f. map_of d (MetaFile i) = Some f \<longrightarrow> entry_ok v i f (map_of d (ArtifactFile i)))
     \<and> (\<forall>i. map_of d (ArtifactFile i) \<noteq> None \<longrightarrow> map_of d (MetaFile i) \<noteq> None)
     \<and> (\<forall>i. map_of d (MetaTrash i) = None \<and> map_of d (ArtifactTrash i) = None
          \<and> map_of d (Uploading i) = None \<and> map_of d (MetaTemp i) = None \<and> map_of d (StrayFile i) = None)"

definition recoverable :: "checked \<Rightarrow> point_dir \<Rightarrow> bool" where
  "recoverable v d \<longleftrightarrow>
     (\<forall>i f. map_of d (MetaFile i) = Some f \<longrightarrow> map_of d (MetaTrash i) = None
        \<and> map_of d (ArtifactTrash i) = None \<and> entry_safe v i f (map_of d (ArtifactFile i)))
     \<and> (\<forall>i. map_of d (MetaTrash i) \<noteq> None \<or> map_of d (ArtifactTrash i) \<noteq> None \<longrightarrow> has_prefix i ''recovery-'')
     \<and> (\<forall>i. map_of d (StrayFile i) = None)"

lemma consistent_recoverable: "consistent v d \<Longrightarrow> recoverable v d"
  unfolding consistent_def recoverable_def using entry_ok_safe by auto

lemma recovery_id_prefix: "recovery_id_pattern i \<Longrightarrow> has_prefix i ''recovery-''"
  by (simp add: recovery_id_pattern_def)

lemma map_of_act:
  "map_of (act (PutFile n f) d) = (map_of d)(n \<mapsto> f)"
  "map_of (act (RemoveFile n) d) = (map_of d)(n := None)"
  "map_of (act (RenameFile n p) d) =
     (case map_of d n of None \<Rightarrow> map_of d | Some f \<Rightarrow> (map_of d)(n := None, p \<mapsto> f))"
  by (auto simp: update_conv' delete_conv' split: option.splits)

declare act.simps [simp del]

lemma distinct_act: "distinct (map fst d) \<Longrightarrow> distinct (map fst (act a d))"
  by (cases a) (auto simp: act.simps distinct_update distinct_delete split: option.splits)

lemma acts_append: "acts (xs @ ys) d = acts ys (acts xs d)"
  by (induction xs arbitrary: d) auto

section \<open>Safe actions\<close>

definition unstored_at :: "point_dir \<Rightarrow> string \<Rightarrow> bool" where
  "unstored_at d i \<longleftrightarrow> (\<forall>m. map_of d (MetaFile i) = Some (Meta_Content m) \<longrightarrow> \<not> stored_point m)"

fun safe_action :: "checked \<Rightarrow> file_action \<Rightarrow> point_dir \<Rightarrow> bool" where
  "safe_action v (PutFile (MetaTemp t) f) d = True"
| "safe_action v (PutFile (Uploading i) f) d = True"
| "safe_action v (RemoveFile (ArtifactFile i)) d = unstored_at d i"
| "safe_action v (RemoveFile n) d = True"
| "safe_action v (RenameFile (MetaFile i) (MetaTrash j)) d = (i = j \<and> has_prefix i ''recovery-'')"
| "safe_action v (RenameFile (ArtifactFile i) (ArtifactTrash j)) d =
     (i = j \<and> has_prefix i ''recovery-'' \<and> map_of d (MetaFile i) = None)"
| "safe_action v (RenameFile (Uploading i) (ArtifactFile j)) d = (i = j \<and> unstored_at d i)"
| "safe_action v (RenameFile (MetaTemp t) (MetaFile i)) d =
     (\<exists>m. map_of d (MetaTemp t) = Some (Meta_Content m) \<and> meta_ok i m
        \<and> map_of d (MetaTrash i) = None \<and> map_of d (ArtifactTrash i) = None
        \<and> (stored_point m \<longrightarrow> holds_artifact v m (map_of d (ArtifactFile i))))"
| "safe_action v _ d = False"

lemma safe_action_recoverable:
  assumes "recoverable v d" "safe_action v a d"
  shows "recoverable v (act a d)"
proof -
  have "safe_action v a d \<longrightarrow> recoverable v (act a d)"
  proof (cases "(v, a, d)" rule: safe_action.cases)
  qed (use assms(1) in \<open>auto simp: map_of_act recoverable_def unstored_at_def split: option.splits,
      (meson entry_safe_unstored)+\<close>)
  with assms(2) show ?thesis by blast
qed

fun safe_script :: "checked \<Rightarrow> file_action list \<Rightarrow> point_dir \<Rightarrow> bool" where
  "safe_script v [] d = True"
| "safe_script v (a # as) d = (safe_action v a d \<and> safe_script v as (act a d))"

lemma safe_script_append:
  "safe_script v (xs @ ys) d \<longleftrightarrow> safe_script v xs d \<and> safe_script v ys (acts xs d)"
  by (induction xs arbitrary: d) auto

lemma safe_prefix_recoverable:
  "safe_script v as d \<Longrightarrow> recoverable v d \<Longrightarrow> recoverable v (acts (take k as) d)"
proof (induction as arbitrary: d k)
  case (Cons a as)
  then show ?case by (cases k) (auto intro: safe_action_recoverable)
qed simp

text \<open>A script that is safe at every point and ends in a consistent directory.\<close>

definition sound :: "checked \<Rightarrow> file_action list \<Rightarrow> point_dir \<Rightarrow> bool" where
  "sound v as d \<longleftrightarrow> safe_script v as d \<and> consistent v (acts as d)"

lemma sound_Nil: "consistent v d \<Longrightarrow> sound v [] d"
  by (simp add: sound_def)

lemma sound_append: "sound v xs d \<Longrightarrow> sound v ys (acts xs d) \<Longrightarrow> sound v (xs @ ys) d"
  by (simp add: sound_def safe_script_append acts_append)

section \<open>The operations\<close>

lemma get_point_meta:
  assumes "get_point i d = Inr m"
  shows "map_of d (MetaFile i) = Some (Meta_Content m)" "recovery_id_pattern i" "validate_point m = None"
  using assms by (auto simp: get_point_def split: if_splits option.splits point_file.splits)

lemma consistent_meta:
  assumes "consistent v d" "map_of d (MetaFile i) = Some (Meta_Content m)"
  shows "pt_id m = i" "meta_ok i m" "recovery_id_pattern i"
    "stored_point m \<Longrightarrow> holds_artifact v m (map_of d (ArtifactFile i))"
    "\<not> stored_point m \<Longrightarrow> map_of d (ArtifactFile i) = None"
  using assms unfolding consistent_def by (force simp: meta_ok_def split: if_splits)+

lemma consistent_get:
  assumes "consistent v d"
  shows "get_point i d = (if \<not> recovery_id_pattern i then Inl PointNotFound
     else case map_of d (MetaFile i) of Some (Meta_Content m) \<Rightarrow> Inr m | _ \<Rightarrow> Inl PointNotFound)"
proof (cases "map_of d (MetaFile i)")
  case None
  then show ?thesis by (simp add: get_point_def)
next
  case (Some f)
  then obtain m where m: "f = Meta_Content m" "meta_ok i m"
    "if stored_point m then holds_artifact v m (map_of d (ArtifactFile i)) else map_of d (ArtifactFile i) = None"
    using assms unfolding consistent_def entry_ok_def by blast
  then show ?thesis using Some
    by (auto simp: get_point_def meta_ok_def holds_artifact_def artifact_size_is_def split: if_splits)
qed

lemma sound_write:
  assumes "consistent v d" "meta_ok (pt_id m) m"
    and "stored_point m \<Longrightarrow> holds_artifact v m (map_of d (ArtifactFile (pt_id m)))"
    and "\<not> stored_point m \<Longrightarrow> map_of d (ArtifactFile (pt_id m)) = None"
  shows "sound v (write_point tmp m) d"
  using assms unfolding sound_def write_point_def
  by (auto simp: map_of_act consistent_def)

lemma sound_remove_meta:
  assumes "consistent v d" "map_of d (ArtifactFile i) = None"
  shows "sound v [RemoveFile (MetaFile i)] d"
  using assms unfolding sound_def by (auto simp: map_of_act consistent_def)

lemma sound_delete:
  assumes "consistent v d" "map_of d (MetaFile i) = Some (Meta_Content m)"
  shows "sound v (delete_locked m) d"
proof -
  note c = consistent_meta[OF assms]
  show ?thesis
    using assms c recovery_id_prefix[OF c(3)]
    by (auto simp: sound_def delete_locked_def map_of_act consistent_def holds_artifact_def)
qed

lemma validate_unstored:
  "validate_point m = None \<Longrightarrow> s = PointCreating \<or> s = PointFailed \<Longrightarrow> validate_point (unstored s err m) = None"
  by (auto simp: validate_point_def unstored_def point_identity_ok_def open_point_def stored_point_def
      point_runtime_ok_def split: if_splits)

lemma sound_unstore:
  assumes "consistent v d" "map_of d (MetaFile i) = Some (Meta_Content m)"
    and "s = PointCreating \<or> s = PointFailed"
  shows "sound v (write_point tmp (unstored s err m) @ [RemoveFile (ArtifactFile i)]) d"
proof -
  note c = consistent_meta[OF assms(1,2)]
  have "meta_ok i (unstored s err m)"
    using c(2) validate_unstored[OF _ assms(3)] by (auto simp: meta_ok_def unstored_def)
  moreover have "\<not> stored_point (unstored s err m)" "pt_id (unstored s err m) = i"
    using assms(3) c(1) by (auto simp: stored_point_def unstored_def)
  ultimately show ?thesis
    using assms(1) by (auto simp: sound_def write_point_def map_of_act consistent_def unstored_at_def)
qed

lemma sound_stage:
  assumes "consistent v d"
  shows "sound v ([PutFile (Uploading i) f, PutFile (Uploading i) g] @ [RemoveFile (Uploading i)]) d"
  using assms by (auto simp: sound_def map_of_act consistent_def)

lemma sound_commit:
  assumes "consistent v d" "map_of d (MetaFile i) = Some (Meta_Content m)" "pt_status m = PointCreating"
    and "meta_ok i m'" "pt_status m' = PointUploaded" "pt_encrypted_size m' = int (length b)"
  shows "sound v ([PutFile (Uploading i) f, PutFile (Uploading i) (Sealed b)]
     @ (RenameFile (Uploading i) (ArtifactFile i) # write_point tmp m') @ [RemoveFile (Uploading i)]) d"
proof -
  have "pt_id m' = i" "stored_point m'" "\<not> stored_point m"
    using assms(3-5) by (simp_all add: meta_ok_def stored_point_def)
  then show ?thesis
    using assms by (auto simp: sound_def write_point_def map_of_act consistent_def unstored_at_def holds_artifact_def)
qed

text \<open>The operations as a data type, and what they do to the directory.\<close>

record point_env =
  pe_seal :: seal
  pe_unseal :: unseal
  pe_untar :: untar
  pe_key :: bytes
  pe_max_bytes :: int
  pe_limit :: int

datatype point_call =
    Reserve timestamp string string reservation
  | Abort string string
  | AbortTerminal string string string
  | Upload "w32 \<Rightarrow> bool" bytes timestamp string string string string string int bytes "store_error option"
  | VerifyUploaded timestamp string string string string string int
  | Verify timestamp string string
  | Fail string string string string string
  | ResetForRetry string string string string
  | Delete bool string string

fun script :: "point_env \<Rightarrow> point_call \<Rightarrow> point_dir \<Rightarrow> file_action list" where
  "script e (Reserve now random tmp r) d = snd (reserve_point (pe_limit e) now random tmp r d)"
| "script e (Abort i job) d = snd (abort_point i job d)"
| "script e (AbortTerminal i host job) d = snd (abort_terminal i host job d)"
| "script e (Upload canceled salt now tmp i host job digest expected source fence) d =
     snd (upload_point (pe_seal e) canceled salt (pe_key e) (pe_max_bytes e) now tmp i host job digest
       expected source fence d)"
| "script e (VerifyUploaded now tmp i host job digest expected) d =
     snd (verify_uploaded (pe_unseal e) (pe_untar e) (pe_key e) (pe_max_bytes e) now tmp i host job
       digest expected d)"
| "script e (Verify now tmp i) d =
     snd (verify_point (pe_unseal e) (pe_untar e) (pe_key e) (pe_max_bytes e) now tmp i d)"
| "script e (Fail tmp i host job message) d = snd (fail_point tmp i host job message d)"
| "script e (ResetForRetry tmp i host job) d = snd (reset_point tmp i host job d)"
| "script e (Delete canceled i confirmation) d = snd (delete_point canceled i confirmation d)"

text \<open>The clock is not at the zero time, and the random identity of a reservation is not in use.\<close>

fun call_ok :: "point_call \<Rightarrow> point_dir \<Rightarrow> bool" where
  "call_ok (Reserve now random tmp r) d = (map_of d (MetaFile (''recovery-'' @ random)) = None)"
| "call_ok (Upload canceled salt now tmp i host job digest expected source fence) d = (now \<noteq> zero_time)"
| "call_ok (VerifyUploaded now tmp i host job digest expected) d = (now \<noteq> zero_time)"
| "call_ok (Verify now tmp i) d = (now \<noteq> zero_time)"
| "call_ok _ d = True"

definition point_checked :: "point_env \<Rightarrow> checked" where
  "point_checked e m b \<longleftrightarrow>
     verify_artifact (pe_unseal e) (pe_untar e) (pe_key e) (pe_max_bytes e) m b = None"

lemma with_point_cases:
  obtains (refused) err where "with_point i d f = refuse err"
  | (found) m where "get_point i d = Inr m" "with_point i d f = f m"
  by (cases "get_point i d") (auto simp: with_point_def)

lemma sound_refuse: "consistent v d \<Longrightarrow> sound v (snd (refuse err)) d"
  by (simp add: refuse_def sound_Nil)

lemma sound_with_point:
  assumes "consistent v d"
    and "\<And>m. map_of d (MetaFile i) = Some (Meta_Content m) \<Longrightarrow> pt_id m = i \<Longrightarrow> meta_ok i m \<Longrightarrow>
      sound v (snd (f m)) d"
  shows "sound v (snd (with_point i d f)) d"
  by (rule with_point_cases[of i d f])
    (use assms consistent_meta[OF assms(1)] get_point_meta in \<open>auto simp: sound_refuse\<close>)

lemma encrypt_nonempty: "encrypt seal canceled salt key a source = (out, Inr n) \<Longrightarrow> out \<noteq> []"
  by (auto simp: encrypt_def Let_def magic_v2_def split: if_splits sum.splits prod.splits)

lemma get_point_staged:
  "get_point i (acts [PutFile (Uploading j) f, PutFile (Uploading j) g] d) = get_point i d"
proof -
  have "map_of (acts [PutFile (Uploading j) f, PutFile (Uploading j) g] d) (MetaFile i) = map_of d (MetaFile i)"
    "map_of (acts [PutFile (Uploading j) f, PutFile (Uploading j) g] d) (ArtifactFile i) = map_of d (ArtifactFile i)"
    by (simp_all add: map_of_act)
  then show ?thesis unfolding get_point_def by presburger
qed

lemma sound_upload:
  assumes "consistent v d" "now \<noteq> zero_time"
  shows "sound v (snd (upload_point seal canceled salt key max_bytes now tmp i host job digest expected
     source fence d)) d"
proof (cases "\<not> sha256_pattern digest \<or> expected < 1 \<or> expected > max_bytes")
  case True
  then show ?thesis using assms(1) by (simp add: upload_point_def sound_refuse)
next
  case False
  show ?thesis
    unfolding upload_point_def if_not_P[OF False]
  proof (rule sound_with_point[OF assms(1)], goal_cases)
    case (1 m)
    obtain out r where o: "seal_upload seal canceled salt key i expected source = (out, r)" by fastforce
    let ?staged = "[PutFile (Uploading i) (Sealed []), PutFile (Uploading i) (Sealed out)]"
    let ?tidy = "[RemoveFile (Uploading i)]"
    let ?m' = "uploaded_point now expected (int (length out)) digest m"
    note stage = sound_stage[OF assms(1), of i "Sealed []" "Sealed out"]
    have g: "get_point i d = Inr m"
      using 1 consistent_get[OF assms(1), of i] by (auto simp: meta_ok_def)
    have c: "sound v (?staged @ snd (commit_upload now tmp i host job digest expected out fence (acts ?staged d))
        @ ?tidy) d" if n: "r = Inr n" for n
    proof (cases "pt_status m = PointCreating \<and> fence = None \<and> pt_host_id m = host \<and> pt_job_id m = job")
      case True
      have "out \<noteq> []" using o n by (auto simp: seal_upload_def encrypt_nonempty)
      then have "meta_ok i ?m'"
        using 1 False assms(2) True
        by (auto simp: meta_ok_def uploaded_point_def validate_point_def point_identity_ok_def open_point_def
            stored_point_def point_runtime_ok_def Suc_le_eq split: if_splits)
      from sound_commit[OF assms(1) 1(1) _ this, of out "Sealed []" tmp] True
      show ?thesis
        by (simp add: commit_upload_def with_point_def get_point_staged[simplified] g Let_def uploaded_point_def)
    next
      case False
      then have "snd (commit_upload now tmp i host job digest expected out fence (acts ?staged d)) = []"
        by (auto simp: commit_upload_def with_point_def get_point_staged[simplified] g refuse_def
            split: option.splits)
      then show ?thesis using stage by simp
    qed
    show ?case
      using stage c assms(1) o
      by (auto simp: sound_refuse refuse_def sound_Nil between_def Let_def split: option.splits sum.splits)
  qed
qed

lemma sound_verified:
  assumes "consistent v d" "map_of d (MetaFile i) = Some (Meta_Content m)" "stored_point m" "now \<noteq> zero_time"
    and "\<And>b. map_of d (ArtifactFile i) = Some (Sealed b) \<Longrightarrow> v (m\<lparr>pt_status := PointReady, pt_verified_at := now\<rparr>) b"
  shows "sound v (write_point tmp (m\<lparr>pt_status := PointReady, pt_verified_at := now\<rparr>)) d"
proof -
  note c = consistent_meta[OF assms(1,2)]
  let ?m' = "m\<lparr>pt_status := PointReady, pt_verified_at := now\<rparr>"
  have "validate_point ?m' = None"
    using c(2) assms(3,4)
    by (auto simp: meta_ok_def validate_point_def point_identity_ok_def open_point_def stored_point_def
        point_runtime_ok_def split: if_splits)
  then have "meta_ok (pt_id ?m') ?m'" using c by (simp add: meta_ok_def)
  moreover have "holds_artifact v ?m' (map_of d (ArtifactFile (pt_id ?m')))"
    using c assms(3,5) by (auto simp: holds_artifact_def)
  ultimately show ?thesis
    by (intro sound_write[OF assms(1)]) (auto simp: stored_point_def)
qed

lemma validate_archive_cong:
  assumes "\<And>a. manifest_matches a m' = manifest_matches a m"
  shows "validate_archive t n m' = validate_archive t n m"
proof -
  have b: "check_entry m' = check_entry m"
    by (intro ext) (simp only: check_entry_def assms)
  have "check_entries m' n k f es = check_entries m n k f es" for k f es
    by (induction es arbitrary: k f) (simp_all add: b split: sum.splits)
  then show ?thesis by (intro ext) (simp only: validate_archive_def)
qed

lemma validate_archive_updates [simp]:
  "validate_archive t n (m\<lparr>pt_status := s, pt_verified_at := now\<rparr>) = validate_archive t n m"
  "validate_archive t n (uploaded_point now written encrypted digest m) = validate_archive t n m"
  by (rule validate_archive_cong, simp add: manifest_matches_def uploaded_point_def)+

lemma verify_artifact_update [simp]:
  "verify_artifact u t k n (m\<lparr>pt_status := s, pt_verified_at := now\<rparr>) b = verify_artifact u t k n m b"
  by (auto simp: verify_artifact_def split: prod.splits sum.splits option.splits)

lemma sound_verify_stored:
  assumes "consistent (point_checked e) d" "map_of d (MetaFile i) = Some (Meta_Content m)" "stored_point m"
    and "now \<noteq> zero_time"
    and "verify_stored (pe_unseal e) (pe_untar e) (pe_key e) (pe_max_bytes e) m d = None"
  shows "sound (point_checked e) (write_point tmp (m\<lparr>pt_status := PointReady, pt_verified_at := now\<rparr>)) d"
proof (rule sound_verified[OF assms(1-4)])
  fix b assume "map_of d (ArtifactFile i) = Some (Sealed b)"
  then show "point_checked e (m\<lparr>pt_status := PointReady, pt_verified_at := now\<rparr>) b"
    using assms(5) consistent_meta(1)[OF assms(1,2)] by (simp add: point_checked_def verify_stored_def)
qed

text \<open>A reservation removes the stale reservations, rotates one point out and writes the new one.\<close>

lemma read_points_meta:
  "read_points inst d ns = Inr ms \<Longrightarrow> m \<in> set ms \<Longrightarrow> \<exists>i. get_point i d = Inr m"
  by (induction inst d ns arbitrary: ms rule: read_points.induct) (auto split: sum.splits if_splits)

lemma list_points_meta:
  assumes "list_points inst d = Inr ms" "m \<in> set ms"
  shows "\<exists>i. get_point i d = Inr m"
  using assms read_points_meta[of inst d "read_dir d"]
  by (auto simp: list_points_def split: if_splits sum.splits)

lemma sound_removals:
  assumes "consistent v d" "\<forall>m \<in> set ms. map_of d (ArtifactFile (pt_id m)) = None"
  shows "sound v (map (\<lambda>m. RemoveFile (MetaFile (pt_id m))) ms) d
    \<and> map_of (acts (map (\<lambda>m. RemoveFile (MetaFile (pt_id m))) ms) d)
       = (\<lambda>n. if n \<in> MetaFile ` pt_id ` set ms then None else map_of d n)"
  using assms
proof (induction ms arbitrary: d)
  case Nil
  then show ?case by (auto simp: sound_Nil)
next
  case (Cons m ms)
  have r: "sound v [RemoveFile (MetaFile (pt_id m))] d"
    using Cons.prems by (intro sound_remove_meta) auto
  let ?d = "act (RemoveFile (MetaFile (pt_id m))) d"
  have "consistent v ?d" using r by (simp add: sound_def)
  from Cons.IH[OF this] Cons.prems(2) have ih:
    "sound v (map (\<lambda>m. RemoveFile (MetaFile (pt_id m))) ms) ?d"
    "map_of (acts (map (\<lambda>m. RemoveFile (MetaFile (pt_id m))) ms) ?d)
       = (\<lambda>n. if n \<in> MetaFile ` pt_id ` set ms then None else map_of ?d n)"
    by (simp_all add: map_of_act)
  show ?case
    using sound_append[OF r, of "map (\<lambda>m. RemoveFile (MetaFile (pt_id m))) ms"] ih
    by (auto simp: map_of_act fun_eq_iff)
qed

lemma new_point_valid:
  assumes "validate_point (new_point now random r) = None"
  shows "meta_ok (pt_id (new_point now random r)) (new_point now random r)"
  using assms by (auto simp: meta_ok_def validate_point_def point_identity_ok_def split: if_splits)

lemma delete_locked_map:
  assumes "consistent v d" "map_of d (MetaFile (pt_id m)) = Some (Meta_Content m)"
  shows "map_of (acts (delete_locked m) d)
     = (map_of d)(MetaFile (pt_id m) := None, ArtifactFile (pt_id m) := None)"
  using assms consistent_meta[OF assms] unfolding consistent_def
  by (auto simp: delete_locked_def map_of_act holds_artifact_def fun_eq_iff)

lemma sound_reserve:
  assumes "consistent v d" "call_ok (Reserve now random tmp r) d"
  shows "sound v (snd (reserve_point limit now random tmp r d)) d"
proof (cases "list_points (rv_instance_id r) d")
  case (Inl e)
  then show ?thesis using assms(1) by (simp add: reserve_point_def sound_refuse)
next
  case (Inr items)
  define stale where "stale = filter (stale_reservation now) items"
  define fresh where "fresh = filter (\<lambda>m. \<not> stale_reservation now m) items"
  define removals where "removals = map (\<lambda>m. RemoveFile (MetaFile (pt_id m))) stale"
  let ?d1 = "acts removals d"
  have meta: "map_of d (MetaFile (pt_id m)) = Some (Meta_Content m)" if m: "m \<in> set items" for m
    using list_points_meta[OF Inr m] get_point_meta(1) consistent_meta(1)[OF assms(1)] by metis
  have "\<forall>m \<in> set stale. map_of d (ArtifactFile (pt_id m)) = None"
    using consistent_meta(5)[OF assms(1) meta]
    by (auto simp: stale_def stale_reservation_def stored_point_def)
  note r = sound_removals[OF assms(1) this, folded removals_def]
  have c1: "consistent v ?d1" using r by (simp add: sound_def)
  have distinct: "pt_id m \<notin> pt_id ` set stale" if "m \<in> set fresh" for m
  proof
    assume "pt_id m \<in> pt_id ` set stale"
    then obtain m2 where "m2 \<in> set stale" "pt_id m2 = pt_id m" by auto
    then have "m2 = m" using meta[of m] meta[of m2] that by (auto simp: fresh_def stale_def)
    then show False using that \<open>m2 \<in> set stale\<close> by (simp add: fresh_def stale_def)
  qed
  have meta1: "map_of ?d1 (MetaFile (pt_id m)) = Some (Meta_Content m)" if m: "m \<in> set fresh" for m
    using r meta[of m] distinct[OF m] m by (auto simp: fresh_def)
  have new1: "map_of ?d1 (MetaFile (''recovery-'' @ random)) = None"
    using r assms(2) by auto
  show ?thesis
  proof (cases "rotate_points limit (rv_automated r) fresh")
    case rot: (Inl e)
    then show ?thesis using r Inr
      by (simp add: reserve_point_def Let_def stale_def fresh_def removals_def)
  next
    case rot: (Inr rotation)
    have s2: "sound v rotation ?d1 \<and> (map_of (acts rotation ?d1) (MetaFile (''recovery-'' @ random)) = None)"
    proof (cases "rotation = []")
      case True
      then show ?thesis using c1 new1 by (simp add: sound_Nil)
    next
      case False
      then obtain m where m: "find rotatable (rev fresh) = Some m" "rotation = delete_locked m"
        using rot by (auto simp: rotate_points_def split: if_splits option.splits)
      then have "m \<in> set (rev fresh)" unfolding find_Some_iff using nth_mem by metis
      then have "m \<in> set fresh" by simp
      from meta1[OF this] show ?thesis
        using sound_delete[OF c1] delete_locked_map[OF c1] m(2) new1 by simp
    qed
    let ?d2 = "acts rotation ?d1" and ?m = "new_point now random r"
    have s12: "sound v (removals @ rotation) d" using r s2 by (simp add: sound_append)
    have c2: "consistent v ?d2" using s2 by (simp add: sound_def)
    have w: "sound v (write_point tmp ?m) ?d2" if "validate_point ?m = None"
    proof (rule sound_write[OF c2 new_point_valid[OF that]])
      have "pt_id ?m = ''recovery-'' @ random" "\<not> stored_point ?m"
        by (simp_all add: new_point_def stored_point_def)
      then show "stored_point ?m \<Longrightarrow> holds_artifact v ?m (map_of ?d2 (ArtifactFile (pt_id ?m)))"
        "map_of ?d2 (ArtifactFile (pt_id ?m)) = None"
        using s2 c2 unfolding consistent_def by auto
    qed
    have "sound v (removals @ rotation @ write_point tmp ?m) d" if "validate_point ?m = None"
      using sound_append[OF s12] w[OF that] by (simp add: acts_append)
    then show ?thesis using s12 Inr rot
      by (auto simp: reserve_point_def Let_def stale_def[symmetric] fresh_def[symmetric]
          removals_def[symmetric] split: option.splits)
  qed
qed

text \<open>
  The rotation of an automatic reservation runs before the check for an open point: a reservation
  that is then refused has already deleted the oldest automatic point.
\<close>

lemma busy_reservation_rotates:
  assumes "list_points (rv_instance_id r) d = Inr items" "list_all (\<lambda>m. \<not> stale_reservation now m) items"
    and "rv_automated r" "limit \<le> int (length items)" "find rotatable (rev items) = Some m" "list_ex open_point items"
  shows "reserve_point limit now random tmp r d = (Inl PointBusy, delete_locked m)"
proof -
  have "filter (stale_reservation now) items = []" "filter (\<lambda>m. \<not> stale_reservation now m) items = items"
    using assms(2) by (auto simp: list_all_iff filter_empty_conv)
  then show ?thesis using assms by (simp add: reserve_point_def rotate_points_def Let_def)
qed

text \<open>Every operation.\<close>

lemma script_sound:
  assumes "consistent (point_checked e) d" "call_ok c d"
  shows "sound (point_checked e) (script e c d) d"
proof (cases c)
  case (Reserve now random tmp r)
  then show ?thesis using sound_reserve[OF assms(1)] assms(2) by simp
next
  case (Abort i job)
  show ?thesis unfolding Abort script.simps abort_point_def
    by (rule sound_with_point[OF assms(1)])
      (use assms(1) in \<open>auto simp: sound_refuse intro!: sound_remove_meta
        dest: consistent_meta(5) simp: stored_point_def\<close>)
next
  case (AbortTerminal i host job)
  show ?thesis unfolding AbortTerminal script.simps abort_terminal_def
    by (rule sound_with_point[OF assms(1)]) (use assms(1) in \<open>auto simp: sound_refuse sound_delete\<close>)
next
  case (Upload canceled salt now tmp i host job digest expected source fence)
  then show ?thesis using sound_upload[OF assms(1)] assms(2) by simp
next
  case (VerifyUploaded now tmp i host job digest expected)
  show ?thesis unfolding VerifyUploaded script.simps verify_uploaded_def
    by (rule sound_with_point[OF assms(1)])
      (use assms VerifyUploaded in \<open>auto simp: sound_refuse Let_def stored_point_def
        intro: sound_verify_stored split: option.splits\<close>)
next
  case (Verify now tmp i)
  show ?thesis unfolding Verify script.simps verify_point_def
  proof (rule sound_with_point[OF assms(1)])
    fix m assume m: "map_of d (MetaFile i) = Some (Meta_Content m)"
    have same: "m\<lparr>pt_verified_at := now\<rparr> = m\<lparr>pt_status := PointReady, pt_verified_at := now\<rparr>"
      if "pt_status m = PointReady" using that by (cases m) simp
    have "sound (point_checked e) (write_point tmp (m\<lparr>pt_verified_at := now\<rparr>)) d"
      if "pt_status m = PointReady"
        "verify_stored (pe_unseal e) (pe_untar e) (pe_key e) (pe_max_bytes e) m d = None"
      unfolding same[OF that(1)] using that assms(2) Verify
      by (intro sound_verify_stored[OF assms(1) m]) (auto simp: stored_point_def)
    then show "sound (point_checked e) (snd (if pt_status m \<noteq> PointReady then refuse PointState
       else case verify_stored (pe_unseal e) (pe_untar e) (pe_key e) (pe_max_bytes e) m d of
         None \<Rightarrow> let m' = m\<lparr>pt_verified_at := now\<rparr> in (Inr m', write_point tmp m')
       | Some x \<Rightarrow> refuse x)) d"
      using assms(1) by (auto simp: sound_refuse Let_def split: option.splits)
  qed
next
  case (Fail tmp i host job message)
  show ?thesis unfolding Fail script.simps fail_point_def
    by (rule sound_with_point[OF assms(1)]) (use assms(1) in \<open>auto simp: sound_refuse Let_def sound_unstore\<close>)
next
  case (ResetForRetry tmp i host job)
  show ?thesis unfolding ResetForRetry script.simps reset_point_def
    by (rule sound_with_point[OF assms(1)]) (use assms(1) in \<open>auto simp: sound_refuse Let_def sound_unstore\<close>)
next
  case (Delete canceled i confirmation)
  show ?thesis unfolding Delete script.simps delete_point_def
    by (rule sound_with_point[OF assms(1)]) (use assms(1) in \<open>auto simp: sound_refuse sound_delete\<close>)
qed


section \<open>Start\<close>

definition hidden :: "point_name \<Rightarrow> bool" where
  "hidden n \<longleftrightarrow> (case n of MetaFile i \<Rightarrow> False | ArtifactFile i \<Rightarrow> False | StrayFile i \<Rightarrow> False | _ \<Rightarrow> True)"

lemma hidden_simps [simp]:
  "\<not> hidden (MetaFile i)" "\<not> hidden (ArtifactFile i)" "\<not> hidden (StrayFile i)" "hidden (MetaTrash i)"
  "hidden (ArtifactTrash i)" "hidden (Uploading i)" "hidden (MetaTemp i)"
  by (simp_all add: hidden_def)

text \<open>What a start keeps: the metadata, and the artifact of every point.\<close>

definition keeps_points :: "point_dir \<Rightarrow> point_dir \<Rightarrow> bool" where
  "keeps_points d d' \<longleftrightarrow> (\<forall>i. map_of d' (MetaFile i) = map_of d (MetaFile i)
     \<and> map_of d' (StrayFile i) = map_of d (StrayFile i)
     \<and> (map_of d (MetaFile i) \<noteq> None \<longrightarrow> map_of d' (ArtifactFile i) = map_of d (ArtifactFile i)))"

lemma keeps_points_trans: "keeps_points a b \<Longrightarrow> keeps_points b c \<Longrightarrow> keeps_points a c"
  by (simp add: keeps_points_def)

lemma keeps_points_refl: "keeps_points d d"
  by (simp add: keeps_points_def)

definition cleanable :: "point_dir \<Rightarrow> point_name \<Rightarrow> bool" where
  "cleanable d n \<longleftrightarrow> (case n of
       MetaTrash i \<Rightarrow> map_of d (MetaFile i) = None \<and> has_prefix i ''recovery-''
     | ArtifactTrash i \<Rightarrow> map_of d (MetaFile i) = None \<and> has_prefix i ''recovery-''
     | Uploading i \<Rightarrow> map_of d n \<noteq> None
     | MetaTemp i \<Rightarrow> map_of d n \<noteq> None
     | _ \<Rightarrow> True)"

lemma cleanup_step:
  assumes "cleanable d n"
  shows "\<exists>d'. cleanup_entry n d = Inr d' \<and> keeps_points d d' \<and> (hidden n \<longrightarrow> map_of d' n = None)
    \<and> (\<forall>p. hidden p \<longrightarrow> map_of d' p = map_of d p \<or> map_of d' p = None)
    \<and> (\<forall>p. p \<noteq> n \<longrightarrow> cleanable d p \<longrightarrow> cleanable d' p)"
  using assms
  by (cases n) (auto simp: cleanable_def exists_file_def map_of_act keeps_points_def split: point_name.splits)

lemma cleanup_each:
  assumes "distinct ns" "\<forall>n \<in> set ns. cleanable d n" "\<forall>p. hidden p \<longrightarrow> map_of d p \<noteq> None \<longrightarrow> p \<in> set ns"
  shows "\<exists>d'. each cleanup_entry ns d = Inr d' \<and> keeps_points d d' \<and> (\<forall>p. hidden p \<longrightarrow> map_of d' p = None)"
  using assms
proof (induction ns arbitrary: d)
  case Nil
  then show ?case by (auto simp: keeps_points_refl)
next
  case (Cons n ns)
  obtain d' where d': "cleanup_entry n d = Inr d'" "keeps_points d d'" "hidden n \<longrightarrow> map_of d' n = None"
    "\<forall>p. hidden p \<longrightarrow> map_of d' p = map_of d p \<or> map_of d' p = None"
    "\<forall>p. p \<noteq> n \<longrightarrow> cleanable d p \<longrightarrow> cleanable d' p"
    using cleanup_step[of d n] Cons.prems(2) by auto
  have c: "\<forall>p \<in> set ns. cleanable d' p" using d'(5) Cons.prems(1,2) by auto
  have h: "\<forall>p. hidden p \<longrightarrow> map_of d' p \<noteq> None \<longrightarrow> p \<in> set ns"
    using d'(3,4) Cons.prems(3) by (metis set_ConsD)
  have "distinct ns" using Cons.prems(1) by simp
  from Cons.IH[OF this c h] obtain e where "each cleanup_entry ns d' = Inr e" "keeps_points d' e"
    "\<forall>p. hidden p \<longrightarrow> map_of e p = None" by blast
  then show ?case using d'(1,2) keeps_points_trans by auto
qed

lemma set_read_dir: "set (read_dir d) = {n. map_of d n \<noteq> None}"
  by (auto simp: read_dir_def map_of_eq_None_iff)

lemma distinct_read_dir: "distinct (map fst d) \<Longrightarrow> distinct (read_dir d)"
  by (simp add: read_dir_def)

lemma cleanup_recoverable:
  assumes "recoverable v d" "distinct (map fst d)"
  shows "\<exists>d'. cleanup_temporary_files d = Inr d' \<and> keeps_points d d' \<and> (\<forall>p. hidden p \<longrightarrow> map_of d' p = None)"
  unfolding cleanup_temporary_files_def
proof (rule cleanup_each)
  have "map_of d (MetaFile i) = None" if "map_of d (MetaTrash i) \<noteq> None \<or> map_of d (ArtifactTrash i) \<noteq> None" for i
    using that assms(1) unfolding recoverable_def by (metis option.exhaust)
  moreover have "has_prefix i ''recovery-''" if "map_of d (MetaTrash i) \<noteq> None \<or> map_of d (ArtifactTrash i) \<noteq> None" for i
    using that assms(1) unfolding recoverable_def by metis
  ultimately have "cleanable d n" if "map_of d n \<noteq> None" for n
    using that by (cases n) (simp_all add: cleanable_def)
  then show "\<forall>n \<in> set (read_dir d). cleanable d n" by (simp add: set_read_dir)
qed (use assms(2) in \<open>auto simp: set_read_dir distinct_read_dir\<close>)

definition reconciled :: "point_name list \<Rightarrow> point_dir \<Rightarrow> bool" where
  "reconciled ns d \<longleftrightarrow> (\<forall>i. map_of d (ArtifactFile i) \<noteq> None \<longrightarrow> ArtifactFile i \<notin> set ns \<longrightarrow>
     (\<exists>m. map_of d (MetaFile i) = Some (Meta_Content m) \<and> stored_point m))"

definition starting :: "checked \<Rightarrow> point_dir \<Rightarrow> bool" where
  "starting v d \<longleftrightarrow>
     (\<forall>i f. map_of d (MetaFile i) = Some f \<longrightarrow> entry_safe v i f (map_of d (ArtifactFile i)))
     \<and> (\<forall>p. hidden p \<longrightarrow> map_of d p = None) \<and> (\<forall>i. map_of d (StrayFile i) = None)"

lemma meta_ok_status: "meta_ok i m \<Longrightarrow> \<not> stored_point m \<Longrightarrow> pt_status m = PointCreating \<or> pt_status m = PointFailed"
  by (auto simp: meta_ok_def validate_point_def point_identity_ok_def open_point_def stored_point_def
      split: if_splits)

lemma reconcile_step:
  assumes "starting v d" "reconciled (n # ns) d"
  shows "\<exists>d'. reconcile_entry n d = Inr d' \<and> starting v d' \<and> reconciled ns d'
    \<and> (\<forall>i. map_of d' (MetaFile i) = map_of d (MetaFile i))"
proof (cases n)
  case (ArtifactFile i)
  show ?thesis
  proof (cases "map_of d (MetaFile i)")
    case None
    then show ?thesis using assms ArtifactFile
      by (auto simp: map_of_act starting_def reconciled_def)
  next
    case (Some f)
    then obtain m where m: "f = Meta_Content m" "meta_ok i m" "stored_point m \<longrightarrow> holds_artifact v m (map_of d (ArtifactFile i))"
      using assms(1) by (auto simp: starting_def entry_safe_def)
    show ?thesis
    proof (cases "stored_point m")
      case True
      then have "\<not> (pt_status m = PointCreating \<or> pt_status m = PointFailed)" by (auto simp: stored_point_def)
      then show ?thesis using assms ArtifactFile Some m True by (auto simp: starting_def reconciled_def)
    next
      case False
      then have "pt_status m = PointCreating \<or> pt_status m = PointFailed" using meta_ok_status m(2) by blast
      then show ?thesis using assms ArtifactFile Some m False
        by (auto simp: map_of_act starting_def reconciled_def)
    qed
  qed
qed (use assms in \<open>auto simp: reconciled_def\<close>)

lemma reconcile_each:
  assumes "starting v d" "reconciled ns d"
  shows "\<exists>d'. each reconcile_entry ns d = Inr d' \<and> starting v d' \<and> reconciled [] d'
    \<and> (\<forall>i. map_of d' (MetaFile i) = map_of d (MetaFile i))"
  using assms
proof (induction ns arbitrary: d)
  case (Cons n ns)
  from reconcile_step[OF Cons.prems] obtain d' where d': "reconcile_entry n d = Inr d'" "starting v d'"
    "reconciled ns d'" "\<forall>i. map_of d' (MetaFile i) = map_of d (MetaFile i)" by blast
  from Cons.IH[OF d'(2,3)] show ?case using d' by auto
qed auto

lemma reconciled_consistent:
  assumes "starting v d" "reconciled [] d"
  shows "consistent v d"
  unfolding consistent_def
proof (intro conjI allI impI)
  fix i f assume f: "map_of d (MetaFile i) = Some f"
  then obtain m where m: "f = Meta_Content m" "meta_ok i m" "stored_point m \<longrightarrow> holds_artifact v m (map_of d (ArtifactFile i))"
    using assms(1) by (auto simp: starting_def entry_safe_def)
  then show "entry_ok v i f (map_of d (ArtifactFile i))"
    using assms(2) f by (auto simp: reconciled_def)
next
  fix i assume "map_of d (ArtifactFile i) \<noteq> None"
  then show "map_of d (MetaFile i) \<noteq> None" using assms(2) by (auto simp: reconciled_def)
qed (use assms(1) in \<open>simp_all add: starting_def\<close>)

text \<open>A start makes a recoverable directory consistent and keeps every metadata file.\<close>

lemma start_recovers:
  assumes "recoverable v d" "distinct (map fst d)" "hex_decodes k" "length k = 64" "1 \<le> n" "n \<le> 100" "1 \<le> max_bytes"
  shows "\<exists>d'. new_manager k n max_bytes d = Inr d' \<and> consistent v d'
    \<and> (\<forall>i. map_of d' (MetaFile i) = map_of d (MetaFile i))"
proof -
  from cleanup_recoverable[OF assms(1,2)] obtain c where c: "cleanup_temporary_files d = Inr c"
    "keeps_points d c" "\<forall>p. hidden p \<longrightarrow> map_of c p = None" by blast
  have "starting v c"
    using c(2,3) assms(1) by (auto simp: starting_def keeps_points_def recoverable_def)
  moreover have "reconciled (read_dir c) c" by (auto simp: reconciled_def set_read_dir)
  ultimately obtain d' where "each reconcile_entry (read_dir c) c = Inr d'" "starting v d'" "reconciled [] d'"
    "\<forall>i. map_of d' (MetaFile i) = map_of c (MetaFile i)"
    using reconcile_each by blast
  then show ?thesis
    using assms(3-7) c reconciled_consistent
    by (auto simp: new_manager_def reconcile_publications_def keeps_points_def)
qed

section \<open>One metadata file at most once\<close>

fun meta_id :: "point_name \<Rightarrow> string list" where
  "meta_id (MetaFile i) = [i]"
| "meta_id _ = []"

fun meta_target :: "file_action \<Rightarrow> string list" where
  "meta_target (PutFile n f) = meta_id n"
| "meta_target (RemoveFile n) = meta_id n"
| "meta_target (RenameFile n p) = meta_id n @ meta_id p"

definition meta_targets :: "file_action list \<Rightarrow> string list" where
  "meta_targets as = concat (map meta_target as)"

lemma meta_targets_simps [simp]:
  "meta_targets [] = []" "meta_targets (a # as) = meta_target a @ meta_targets as"
  "meta_targets (xs @ ys) = meta_targets xs @ meta_targets ys"
  by (simp_all add: meta_targets_def)

lemma meta_id_mem: "i \<in> set (meta_id n) \<longleftrightarrow> n = MetaFile i"
  by (cases n) auto

lemma act_other: "i \<notin> set (meta_target a) \<Longrightarrow> map_of (act a d) (MetaFile i) = map_of d (MetaFile i)"
  by (cases a) (auto simp: map_of_act meta_id_mem split: option.splits)

lemma acts_other: "i \<notin> set (meta_targets as) \<Longrightarrow> map_of (acts as d) (MetaFile i) = map_of d (MetaFile i)"
  by (induction as arbitrary: d) (auto simp: act_other)

lemma prefix_before_or_after:
  "distinct (meta_targets as) \<Longrightarrow>
   map_of (acts (take k as) d) (MetaFile i) = map_of d (MetaFile i)
     \<or> map_of (acts (take k as) d) (MetaFile i) = map_of (acts as d) (MetaFile i)"
proof (induction as arbitrary: d k)
  case (Cons a as)
  show ?case
  proof (cases k)
    case (Suc l)
    show ?thesis
    proof (cases "i \<in> set (meta_target a)")
      case True
      then have "i \<notin> set (meta_targets as)" using Cons.prems by auto
      moreover have "set (meta_targets (take l as)) \<subseteq> set (meta_targets as)"
        by (auto simp: meta_targets_def dest: in_set_takeD)
      ultimately show ?thesis using Suc acts_other by auto
    next
      case False
      have "distinct (meta_targets as)" using Cons.prems by simp
      then show ?thesis using Cons.IH[of l "act a d"] Suc act_other[OF False, of d] by simp
    qed
  qed simp
qed simp

lemma meta_targets_scripts [simp]:
  "meta_targets (write_point tmp m) = [pt_id m]"
  "meta_targets (delete_locked m) = [pt_id m]"
  "meta_targets (map (\<lambda>m. RemoveFile (MetaFile (pt_id m))) ms) = map pt_id ms"
  by (auto simp: write_point_def delete_locked_def meta_targets_def comp_def)

lemma read_points_ids:
  assumes "read_points inst d ns = Inr ms" "consistent v d" "distinct ns"
  shows "distinct (map pt_id ms) \<and> MetaFile ` set (map pt_id ms) \<subseteq> set ns"
  using assms
proof (induction inst d ns arbitrary: ms rule: read_points.induct)
  case (2 inst d i ns)
  obtain m ms' where m: "get_point i d = Inr m" "read_points inst d ns = Inr ms'"
    "ms = (if inst = '''' \<or> pt_instance_id m = inst then m # ms' else ms')"
    using 2(2) by (auto split: sum.splits)
  have "pt_id m = i" using consistent_meta(1)[OF 2(3) get_point_meta(1)[OF m(1)]] .
  moreover have "distinct (map pt_id ms') \<and> MetaFile ` set (map pt_id ms') \<subseteq> set ns"
    using "2.IH" m(1,2) 2(3,4) by simp
  ultimately show ?case using m(3) 2(4) by auto
qed auto

lemma list_points_ids:
  assumes "list_points inst d = Inr ms" "consistent v d" "distinct (map fst d)"
  shows "distinct (map pt_id ms)"
proof -
  obtain ms' where m: "read_points inst d (read_dir d) = Inr ms'" "ms = sort_key (\<lambda>m. - pt_created_at m) ms'"
    using assms(1) by (auto simp: list_points_def split: if_splits sum.splits)
  have "distinct (map pt_id ms')"
    using read_points_ids[OF m(1) assms(2) distinct_read_dir[OF assms(3)]] by blast
  then show ?thesis unfolding m(2)
    by (simp add: distinct_map inj_on_def)
qed

lemma reserve_targets:
  assumes "consistent v d" "distinct (map fst d)" "call_ok (Reserve now random tmp r) d"
  shows "distinct (meta_targets (snd (reserve_point limit now random tmp r d)))"
proof (cases "list_points (rv_instance_id r) d")
  case (Inl e)
  then show ?thesis by (simp add: reserve_point_def refuse_def)
next
  case (Inr items)
  define stale where "stale = filter (stale_reservation now) items"
  define fresh where "fresh = filter (\<lambda>m. \<not> stale_reservation now m) items"
  have ids: "distinct (map pt_id items)" by (rule list_points_ids[OF Inr assms(1,2)])
  have meta: "map_of d (MetaFile (pt_id m)) \<noteq> None" if m: "m \<in> set items" for m
    using list_points_meta[OF Inr m] get_point_meta(1) consistent_meta(1)[OF assms(1)] by fastforce
  have new: "pt_id (new_point now random r) \<notin> pt_id ` set items"
  proof
    assume "pt_id (new_point now random r) \<in> pt_id ` set items"
    then obtain m where "m \<in> set items" "pt_id m = ''recovery-'' @ random" by (auto simp: new_point_def)
    then show False using meta[of m] assms(3) by simp
  qed
  have stale: "distinct (map pt_id stale)" "pt_id ` set stale \<subseteq> pt_id ` set items"
    using ids by (auto simp: stale_def distinct_map_filter)
  have apart: "pt_id m \<notin> pt_id ` set stale \<and> pt_id m \<in> pt_id ` set items" if "m \<in> set fresh" for m
    using that unique_row[OF ids] by (auto simp: stale_def fresh_def)
  have rot: "rotation = [] \<or> (\<exists>m \<in> set fresh. rotation = delete_locked m)"
    if "rotate_points limit (rv_automated r) fresh = Inr rotation" for rotation
  proof -
    have "find rotatable (rev fresh) = Some m \<Longrightarrow> m \<in> set fresh" for m
      unfolding find_Some_iff using nth_mem[of _ "rev fresh"] by auto
    then show ?thesis using that by (auto simp: rotate_points_def split: if_splits option.splits)
  qed
  show ?thesis
    using Inr stale new apart
    by (auto simp: reserve_point_def Let_def stale_def[symmetric] fresh_def[symmetric]
        split: sum.splits option.splits dest!: rot, (metis image_eqI)+)
qed

lemma with_point_targets:
  assumes "\<And>m. get_point i d = Inr m \<Longrightarrow> distinct (meta_targets (snd (f m)))"
  shows "distinct (meta_targets (snd (with_point i d f)))"
  by (rule with_point_cases[of i d f]) (use assms in \<open>auto simp: refuse_def\<close>)

lemma upload_targets:
  "distinct (meta_targets (snd (upload_point seal canceled salt key n now tmp i host job digest expected
     source fence d)))"
proof -
  have c: "distinct (meta_targets (snd (commit_upload now tmp i host job digest expected out fence d)))" for out d
    unfolding commit_upload_def
    by (rule with_point_targets) (auto simp: refuse_def Let_def split: option.splits)
  show ?thesis
    by (auto simp: upload_point_def refuse_def Let_def between_def c
        intro!: with_point_targets split: option.splits sum.splits prod.splits)
qed

lemma script_targets:
  assumes "consistent (point_checked e) d" "distinct (map fst d)" "call_ok c d"
  shows "distinct (meta_targets (script e c d))"
  using assms
proof (cases c)
  case (Reserve now random tmp r)
  then show ?thesis using reserve_targets[OF assms(1,2)] assms(3) by simp
qed (auto simp: refuse_def Let_def abort_point_def abort_terminal_def upload_targets verify_uploaded_def
    verify_point_def fail_point_def reset_point_def delete_point_def
    intro!: with_point_targets split: option.splits)

section \<open>Every run\<close>

text \<open>
  The directories that operations, crashes and starts lead to, from an empty one. A crash cuts the
  actions of an operation anywhere, the next start repairs what is left.
\<close>

inductive reached :: "point_env \<Rightarrow> point_dir \<Rightarrow> bool" for e where
  Fresh: "reached e []"
| Done: "reached e d \<Longrightarrow> call_ok c d \<Longrightarrow> reached e (acts (script e c d) d)"
| Crashed: "reached e d \<Longrightarrow> call_ok c d \<Longrightarrow> new_manager k n b (acts (take j (script e c d)) d) = Inr d' \<Longrightarrow>
    reached e d'"

lemma distinct_acts: "distinct (map fst d) \<Longrightarrow> distinct (map fst (acts as d))"
  by (induction as arbitrary: d) (auto simp: distinct_act)

lemma each_distinct:
  assumes "\<And>n d d'. f n d = Inr d' \<Longrightarrow> distinct (map fst d) \<Longrightarrow> distinct (map fst d')"
    and "each f ns d = Inr d'" "distinct (map fst d)"
  shows "distinct (map fst (d' :: point_dir))"
  using assms(2,3) by (induction ns arbitrary: d) (auto split: sum.splits dest: assms(1))

lemma new_manager_distinct:
  assumes "new_manager k n b d = Inr d'" "distinct (map fst d)"
  shows "distinct (map fst d')"
proof -
  have c: "distinct (map fst d'')" if "cleanup_entry m d = Inr d''" "distinct (map fst d)" for m d d''
    using that by (cases m) (auto simp: distinct_act split: if_splits)
  have r: "distinct (map fst d'')" if "reconcile_entry m d = Inr d''" "distinct (map fst d)" for m d d''
    using that by (cases m) (auto simp: distinct_act split: option.splits point_file.splits if_splits)
  obtain c where "each cleanup_entry (read_dir d) d = Inr c" "each reconcile_entry (read_dir c) c = Inr d'"
    using assms(1)
    by (auto simp: new_manager_def cleanup_temporary_files_def reconcile_publications_def
        split: if_splits sum.splits)
  then show ?thesis using each_distinct[of cleanup_entry] each_distinct[of reconcile_entry] c r assms(2) by blast
qed

lemma new_manager_limits:
  "new_manager k n b d = Inr d' \<Longrightarrow> hex_decodes k \<and> length k = 64 \<and> 1 \<le> n \<and> n \<le> 100 \<and> 1 \<le> b"
  by (auto simp: new_manager_def split: if_splits)

lemma crash_recovers:
  assumes "consistent (point_checked e) d" "distinct (map fst d)" "call_ok c d"
    and "hex_decodes k" "length k = 64" "1 \<le> n" "n \<le> 100" "1 \<le> b"
  shows "\<exists>d'. new_manager k n b (acts (take j (script e c d)) d) = Inr d' \<and> consistent (point_checked e) d'
    \<and> (\<forall>i. map_of d' (MetaFile i) = map_of (acts (take j (script e c d)) d) (MetaFile i))"
proof (rule start_recovers[OF _ _ assms(4-8)])
  have "safe_script (point_checked e) (script e c d) d"
    using script_sound[OF assms(1,3)] by (simp add: sound_def)
  then show "recoverable (point_checked e) (acts (take j (script e c d)) d)"
    using safe_prefix_recoverable consistent_recoverable[OF assms(1)] by blast
qed (rule distinct_acts[OF assms(2)])

lemma reached_consistent: "reached e d \<Longrightarrow> consistent (point_checked e) d \<and> distinct (map fst d)"
proof (induction rule: reached.induct)
  case Fresh
  then show ?case by (simp add: consistent_def)
next
  case (Done d c)
  then show ?case using script_sound[of e d c] distinct_acts by (auto simp: sound_def)
next
  case (Crashed d c k n b j d')
  then show ?case
    using crash_recovers[of e d c k n b j] new_manager_limits[OF Crashed(3)] new_manager_distinct[OF Crashed(3)]
      distinct_acts by auto
qed

lemma consistent_get_cong:
  assumes "consistent v d" "consistent v d'" "map_of d' (MetaFile i) = map_of d (MetaFile i)"
  shows "get_point i d' = get_point i d"
  using assms consistent_get by metis

lemma decrypt_chunks_count:
  "decrypt_chunks unseal canceled key prefix aad counter source acc = (out, Inr n) \<Longrightarrow> n = acc + int (length out)"
proof (induction unseal canceled key prefix aad counter source acc arbitrary: out n rule: decrypt_chunks.induct)
  case (1 unseal canceled key prefix aad counter source acc)
  then show ?case
    by (subst (asm) (2) decrypt_chunks.simps)
      (fastforce simp: Let_def split: if_splits option.splits prod.splits)
qed

lemma decrypt_count: "decrypt unseal canceled key a source = (out, Inr n) \<Longrightarrow> n = int (length out)"
  by (auto simp: decrypt_def Let_def split: if_splits sum.splits dest: decrypt_chunks_count)

end
