(* ===== verification/Properties_Storage.thy ===== *)
theory Properties_Storage
  imports Recovery_Facts Properties_Recovery
begin

text \<open>
  Properties of the recovery point storage over all runs of its operations, crashes and starts.
\<close>

section \<open>Crashes\<close>

lemma read_points_succeed:
  assumes "consistent v d" "\<forall>i. MetaFile i \<in> set ns \<longrightarrow> map_of d (MetaFile i) \<noteq> None"
  shows "\<exists>ms. read_points inst d ns = Inr ms"
  using assms
proof (induction inst d ns rule: read_points.induct)
  case (2 inst d i ns)
  obtain f where f: "map_of d (MetaFile i) = Some f" using 2(3) by auto
  then obtain m where "f = Meta_Content m" "recovery_id_pattern i"
    using 2(2) by (auto simp: consistent_def entry_ok_def meta_ok_def)
  then have "get_point i d = Inr m" using f consistent_get[OF 2(2), of i] by simp
  then show ?case using 2 by auto
qed auto

lemma list_points_succeed:
  assumes "consistent v d"
  shows "\<exists>ms. list_points inst d = Inr ms"
proof -
  have s: "map_of d (StrayFile j) = None"
    and a: "map_of d (ArtifactFile j) \<noteq> None \<Longrightarrow> map_of d (MetaFile j) \<noteq> None" for j
    using assms unfolding consistent_def by blast+
  have "\<not> is_stray n" if "n \<in> set (read_dir d)" for n
    by (cases n) (use that s in \<open>simp_all add: set_read_dir\<close>)
  moreover have "\<not> lacks_metadata d n" if "n \<in> set (read_dir d)" for n
    by (cases n) (use that a in \<open>auto simp: set_read_dir\<close>)
  ultimately have ok: "\<not> list_ex is_stray (read_dir d)" "\<not> list_ex (lacks_metadata d) (read_dir d)"
    by (simp_all add: list_ex_iff)
  obtain ms where "read_points inst d (read_dir d) = Inr ms"
    using read_points_succeed[OF assms, of "read_dir d" inst] by (auto simp: set_read_dir)
  with ok show ?thesis by (simp add: list_points_def)
qed

text \<open>C38. The recovery point storage survives a crash at any moment. Whatever operations, crashes and
  starts led to a directory, if the program stops after any number of the file actions of an
  operation, the next start succeeds, the points can be listed, and every point is found exactly as
  it was before the operation or exactly as the completed operation leaves it.\<close>

theorem storage_survives_crashes:
  assumes "reached e d" "call_ok c d"
    and "hex_decodes k" "length k = 64" "1 \<le> n" "n \<le> 100" "1 \<le> b"
  shows "\<exists>d' ms. new_manager k n b (acts (take j (script e c d)) d) = Inr d' \<and> list_points '''' d' = Inr ms
     \<and> (\<forall>i. get_point i d' = get_point i d \<or> get_point i d' = get_point i (acts (script e c d) d))"
proof -
  have ok: "consistent (point_checked e) d" "distinct (map fst d)" using reached_consistent[OF assms(1)] by auto
  obtain d' where d': "new_manager k n b (acts (take j (script e c d)) d) = Inr d'"
    "consistent (point_checked e) d'"
    "\<forall>i. map_of d' (MetaFile i) = map_of (acts (take j (script e c d)) d) (MetaFile i)"
    using crash_recovers[OF ok assms(2-7)] by blast
  have fin: "consistent (point_checked e) (acts (script e c d) d)"
    using script_sound[OF ok(1) assms(2)] by (simp add: sound_def)
  have "get_point i d' = get_point i d \<or> get_point i d' = get_point i (acts (script e c d) d)" for i
    using prefix_before_or_after[OF script_targets[OF ok assms(2)], of j d i]
      consistent_get_cong[OF ok(1) d'(2)] consistent_get_cong[OF fin d'(2)] d'(3) by metis
  then show ?thesis using d'(1) list_points_succeed[OF d'(2)] by blast
qed

section \<open>Points that are ready\<close>

text \<open>C39. A recovery point that is \<open>READY\<close> can be restored. Whatever operations, crashes and starts led
  to the directory, streaming such a point succeeds and writes a plaintext of the recorded size and
  SHA-256, which is an archive that passed every check of \<open>validateArchive\<close> against the metadata of
  the point.\<close>

theorem ready_points_restorable:
  assumes "reached e d" "get_point i d = Inr m" "pt_status m = PointReady"
  shows "\<exists>out. stream_point (pe_unseal e) (pe_key e) i d = (out, Inr m)
     \<and> int (length out) = pt_size_bytes m \<and> hex_encode (sha256 out) = pt_sha256 m
     \<and> validate_archive (pe_untar e) (pe_max_bytes e) m out = None"
proof -
  have ok: "consistent (point_checked e) d" using reached_consistent[OF assms(1)] by simp
  note g = get_point_meta[OF assms(2)]
  have "holds_artifact (point_checked e) m (map_of d (ArtifactFile i))"
    using consistent_meta(4)[OF ok g(1)] assms(3) by (simp add: stored_point_def)
  then obtain b where b: "map_of d (ArtifactFile i) = Some (Sealed b)" "point_checked e m b"
    using assms(3) by (auto simp: holds_artifact_def)
  have "pt_id m = i" using consistent_meta(1)[OF ok g(1)] .
  then obtain out cnt where o: "decrypt (pe_unseal e) (\<lambda>_. False) (pe_key e) (map byte_of i) b = (out, Inr cnt)"
    "validate_archive (pe_untar e) (pe_max_bytes e) m out = None"
    "int (length out) = pt_size_bytes m" "hex_encode (sha256 out) = pt_sha256 m"
    using b(2) by (auto simp: point_checked_def verify_artifact_def split: prod.splits sum.splits
        option.splits if_splits)
  then show ?thesis
    using assms(2,3) b(1) decrypt_count[OF o(1)] by (simp add: stream_point_def)
qed

section \<open>A backup from the reservation to the restore\<close>

lemma upload_creating:
  assumes "get_point i d = Inr m" "pt_status m = PointCreating" "pt_host_id m = host" "pt_job_id m = job"
    and "map_of d (Uploading i) = None" "1 \<le> length source" "int (length source) \<le> pe_max_bytes e"
    and "encrypt (pe_seal e) canceled salt (pe_key e) (map byte_of i) source = (out, Inr (int (length source)))"
  shows "script e (Upload canceled salt now tmp i host job (hex_encode (sha256 source))
       (int (length source)) source None) d
     = [PutFile (Uploading i) (Sealed []), PutFile (Uploading i) (Sealed out)]
       @ (RenameFile (Uploading i) (ArtifactFile i)
          # write_point tmp (uploaded_point now (int (length source)) (int (length out)) (hex_encode (sha256 source)) m))
       @ [RemoveFile (Uploading i)]"
proof -
  have "sha256_pattern (hex_encode (sha256 source))"
    using hex_encode_lower_hex[of "sha256 source"] sha256_byte
    by (auto simp: sha256_pattern_def length_sha256)
  moreover have "take (nat (int (length source)) + 1) source = source" by simp
  moreover have "\<not> stored_point m" using assms(2) by (simp add: stored_point_def)
  moreover have "source \<noteq> []" using assms(6) by auto
  ultimately show ?thesis
    using assms
    by (simp add: upload_point_def with_point_def seal_upload_def between_def commit_upload_def
        get_point_staged[simplified] Let_def)
qed

lemma verify_uploaded_script:
  assumes "get_point i d = Inr m" "pt_status m = PointUploaded" "pt_host_id m = host" "pt_job_id m = job"
    and "verify_stored (pe_unseal e) (pe_untar e) (pe_key e) (pe_max_bytes e) m d = None"
  shows "script e (VerifyUploaded now tmp i host job (pt_sha256 m) (pt_size_bytes m)) d
     = write_point tmp (m\<lparr>pt_status := PointReady, pt_verified_at := now\<rparr>)"
  using assms by (simp add: verify_uploaded_def with_point_def Let_def)

lemma backup_becomes_ready:
  fixes salt source :: bytes
  assumes r: "reached e d" and m: "get_point i d = Inr m" "pt_status m = PointCreating"
    and src: "1 \<le> length source" "int (length source) \<le> pe_max_bytes e" "fits source"
      "validate_archive (pe_untar e) (pe_max_bytes e) m source = None"
    and env: "opens (pe_seal e) (pe_unseal e)" "length (pe_key e) = 32" "length salt = 16"
    and now: "now \<noteq> zero_time" "later \<noteq> zero_time"
  shows "\<exists>d'. reached e d' \<and> (\<exists>m'. get_point i d' = Inr m' \<and> pt_status m' = PointReady
     \<and> pt_host_id m' = pt_host_id m \<and> pt_job_id m' = pt_job_id m
     \<and> pt_size_bytes m' = int (length source) \<and> pt_sha256 m' = hex_encode (sha256 source))"
proof -
  let ?sha = "hex_encode (sha256 source)" and ?n = "int (length source)"
  obtain out where out: "encrypt (pe_seal e) (\<lambda>_. False) salt (pe_key e) (map byte_of i) source = (out, Inr ?n)"
    "decrypt (pe_unseal e) (\<lambda>_. False) (pe_key e) (map byte_of i) out = (source, Inr ?n)"
    using round_trip_v2[OF env src(3), of "map byte_of i"] by blast
  let ?up = "Upload (\<lambda>_. False) salt now ''t2'' i (pt_host_id m) (pt_job_id m) ?sha ?n source None"
  let ?m2 = "uploaded_point now ?n (int (length out)) ?sha m"
  let ?d2 = "acts (script e ?up d) d"
  have ok: "consistent (point_checked e) d" using reached_consistent[OF r] by simp
  have id: "pt_id m = i" using consistent_meta(1)[OF ok get_point_meta(1)[OF m(1)]] .
  have s: "script e ?up d = [PutFile (Uploading i) (Sealed []), PutFile (Uploading i) (Sealed out)]
       @ (RenameFile (Uploading i) (ArtifactFile i) # write_point ''t2'' ?m2) @ [RemoveFile (Uploading i)]"
    using ok by (intro upload_creating[OF m refl refl _ src(1,2) out(1)]) (simp_all add: consistent_def)
  have r2: "reached e ?d2" by (rule Done[OF r]) (simp add: now)
  have ok2: "consistent (point_checked e) ?d2" using reached_consistent[OF r2] by simp
  have f2: "map_of ?d2 (MetaFile i) = Some (Meta_Content ?m2)" "map_of ?d2 (ArtifactFile i) = Some (Sealed out)"
    unfolding s using id by (simp_all add: write_point_def map_of_act uploaded_point_def)
  have g2: "get_point i ?d2 = Inr ?m2" using consistent_get[OF ok2, of i] f2(1) get_point_meta(2)[OF m(1)] by simp
  let ?v = "VerifyUploaded later ''t3'' i (pt_host_id m) (pt_job_id m) ?sha ?n"
  let ?m3 = "?m2\<lparr>pt_status := PointReady, pt_verified_at := later\<rparr>"
  have p2: "pt_status ?m2 = PointUploaded" "pt_host_id ?m2 = pt_host_id m" "pt_job_id ?m2 = pt_job_id m"
    "pt_sha256 ?m2 = ?sha" "pt_size_bytes ?m2 = ?n" "pt_id ?m2 = i"
    using id by (simp_all add: uploaded_point_def)
  have "verify_stored (pe_unseal e) (pe_untar e) (pe_key e) (pe_max_bytes e) ?m2 ?d2 = None"
    using f2(2) out(2) src(4) p2 by (simp add: verify_stored_def verify_artifact_def)
  then have s3: "script e ?v ?d2 = write_point ''t3'' ?m3"
    using verify_uploaded_script[OF g2 p2(1-3)] p2 by simp
  have r3: "reached e (acts (script e ?v ?d2) ?d2)" by (rule Done[OF r2]) (simp add: now)
  have ok3: "consistent (point_checked e) (acts (script e ?v ?d2) ?d2)" using reached_consistent[OF r3] by simp
  have "map_of (acts (script e ?v ?d2) ?d2) (MetaFile i) = Some (Meta_Content ?m3)"
    unfolding s3 using p2 by (simp add: write_point_def map_of_act)
  then have "get_point i (acts (script e ?v ?d2) ?d2) = Inr ?m3"
    using consistent_get[OF ok3, of i] get_point_meta(2)[OF m(1)] by simp
  then show ?thesis using r3 p2 by fastforce
qed

section \<open>A sample\<close>

definition sample_reservation :: reservation where
  "sample_reservation = \<lparr>rv_instance_id = ''i1'', rv_instance_name = ''nara'', rv_host_id = ''h1'',
     rv_operation_id = ''o1'', rv_job_id = ''j1'', rv_image = ''hermes'', rv_image_id = ''sha256:0'',
     rv_provider = ''xai-oauth'', rv_model = ''grok-4'', rv_reasoning = ''medium'', rv_service_tier = ''normal'',
     rv_codex_configured = True, rv_project_name = ''p'', rv_data_volume = ''v'', rv_managed_path = ''/srv/nara'',
     rv_agent_version = ''0.12.1'', rv_automated = False, rv_workflow_id = ''''\<rparr>"

definition sample_random :: string where
  "sample_random = ''00112233445566778899aabbccddeeff''"

definition sample_point :: recovery_point where
  "sample_point = new_point 1000000000 sample_random sample_reservation"

definition sample_manifest :: manifest where
  "sample_manifest = \<lparr>mn_format_version = 1, mn_recovery_point_id = pt_id sample_point,
     mn_instance_id = ''i1'', mn_instance_name = ''nara'', mn_image = ''hermes'', mn_image_id = ''sha256:0'',
     mn_provider = ''xai-oauth'', mn_model = ''grok-4'', mn_reasoning = ''medium'', mn_service_tier = ''normal'',
     mn_codex_configured = True, mn_project_name = ''p'', mn_data_volume = ''v'', mn_managed_path = ''/srv/nara'',
     mn_agent_version = ''0.12.1'', mn_created_at = 1000000000\<rparr>"

definition sample_untar :: untar where
  "sample_untar b = \<lparr>ar_entries =
     [\<lparr>te_name = ''manifest.json'', te_regular = True, te_directory = False, te_size = 300, te_readable = True,
        te_manifest = Some sample_manifest\<rparr>,
      \<lparr>te_name = ''data-volume.tar'', te_regular = True, te_directory = False, te_size = 5, te_readable = True,
        te_manifest = None\<rparr>], ar_eof = True, ar_rest = []\<rparr>"

definition sample_env :: point_env where
  "sample_env = \<lparr>pe_seal = plain_seal, pe_unseal = plain_unseal, pe_untar = sample_untar,
     pe_key = replicate 32 7, pe_max_bytes = 1000, pe_limit = 2\<rparr>"

definition reserve_sample :: point_call where
  "reserve_sample = Reserve 1000000000 sample_random ''t1'' sample_reservation"

definition reserved_dir :: point_dir where
  "reserved_dir = acts (script sample_env reserve_sample []) []"

lemma reserved_reached: "reached sample_env reserved_dir"
  unfolding reserved_dir_def by (rule Done[OF Fresh]) (simp add: reserve_sample_def)

lemma sample_time: "format_compact 1000000000 = ''19700101T000001Z''"
proof -
  have "civil_from_days 0 = (1970, 1, 1)" by code_simp
  then show ?thesis
    by (simp add: format_compact_def Let_def two_digits_def pad_left_def itoa_def)
qed

lemma sample_filename: "pt_filename sample_point = ''hermes-nara-19700101T000001Z-00112233.tar''"
  by (simp add: sample_point_def new_point_def sample_time sample_reservation_def sample_random_def)

lemma sample_point_fields:
  "pt_id sample_point = ''recovery-'' @ sample_random" "pt_status sample_point = PointCreating"
  "pt_created_at sample_point = 1000000000"
  by (simp_all add: sample_point_def new_point_def)

lemma sample_point_valid: "validate_point sample_point = None"
proof -
  have "filename_pattern ''hermes-nara-19700101T000001Z-00112233.tar''"
    "recovery_id_pattern (''recovery-'' @ sample_random)" by code_simp+
  moreover have "point_runtime_ok sample_point" by code_simp
  moreover have "pt_instance_name sample_point = ''nara''"
    by (simp add: sample_point_def new_point_def sample_reservation_def)
  ultimately have "point_identity_ok sample_point"
    unfolding point_identity_ok_def sample_filename sample_point_fields sample_time
    by (simp add: open_point_def sample_point_fields zero_time_def)
      (simp add: sample_point_def new_point_def sample_reservation_def)
  then show ?thesis by (simp add: validate_point_def stored_point_def sample_point_fields)
qed

lemma reserved_point: "get_point (pt_id sample_point) reserved_dir = Inr sample_point"
proof -
  have "list_points (rv_instance_id sample_reservation) [] = Inr []"
    by (simp add: list_points_def read_dir_def)
  then have "map_of reserved_dir (MetaFile (pt_id sample_point)) = Some (Meta_Content sample_point)"
    using sample_point_valid
    by (simp add: reserved_dir_def reserve_sample_def reserve_point_def rotate_points_def sample_env_def
        sample_point_def[symmetric] write_point_def map_of_act Let_def)
  moreover have "consistent (point_checked sample_env) reserved_dir"
    using reached_consistent[OF reserved_reached] by simp
  moreover have "recovery_id_pattern (pt_id sample_point)" unfolding sample_point_fields by code_simp
  ultimately show ?thesis using consistent_get by fastforce
qed

theorem storage_survives_crashes_witness:
  "\<exists>d' ms. new_manager (replicate 64 (CHR ''0'')) 2 1000 (acts (take 2 (script sample_env reserve_sample [])) []) = Inr d'
     \<and> list_points '''' d' = Inr ms
     \<and> (\<forall>i. get_point i d' = get_point i [] \<or> get_point i d' = get_point i reserved_dir)"
  unfolding reserved_dir_def
  by (rule storage_survives_crashes[OF Fresh]) (simp_all add: reserve_sample_def hex_decodes_def char_classes list_all_iff)

text \<open>The sample point after its upload and verification.\<close>

lemma sample_becomes_ready:
  "\<exists>d m. reached sample_env d \<and> get_point (pt_id sample_point) d = Inr m \<and> pt_status m = PointReady
     \<and> pt_host_id m = ''h1'' \<and> pt_job_id m = ''j1''
     \<and> pt_size_bytes m = int (length [1, 2, 3 :: nat]) \<and> pt_sha256 m = hex_encode (sha256 [1, 2, 3])"
proof -
  have v: "validate_archive (pe_untar sample_env) (pe_max_bytes sample_env) sample_point [1, 2, 3] = None"
  proof -
    have "check_entries sample_point 1000 0 (False, False) (ar_entries (sample_untar b)) = Inr (True, True)" for b
      by code_simp
    then show ?thesis by (simp add: validate_archive_def sample_env_def Let_def) (simp add: sample_untar_def)
  qed
  have c: "pt_status sample_point = PointCreating" by (simp add: sample_point_def new_point_def)
  have e: "opens (pe_seal sample_env) (pe_unseal sample_env)" "length (pe_key sample_env) = 32"
    "int (length [1, 2, 3 :: nat]) \<le> pe_max_bytes sample_env" "fits [1, 2, 3]"
    by (simp_all add: sample_env_def plain_opens fits_def chunk_size_def)
  have t: "2000000000 \<noteq> zero_time" "3000000000 \<noteq> zero_time" by (simp_all add: zero_time_def)
  have h: "pt_host_id sample_point = ''h1''" "pt_job_id sample_point = ''j1''"
    by (simp_all add: sample_point_def new_point_def sample_reservation_def)
  have "\<exists>d'. reached sample_env d' \<and> (\<exists>m'. get_point (pt_id sample_point) d' = Inr m' \<and> pt_status m' = PointReady
     \<and> pt_host_id m' = pt_host_id sample_point \<and> pt_job_id m' = pt_job_id sample_point
     \<and> pt_size_bytes m' = int (length [1, 2, 3 :: nat]) \<and> pt_sha256 m' = hex_encode (sha256 [1, 2, 3]))"
    by (rule backup_becomes_ready[OF reserved_reached reserved_point c _ e(3,4) v e(1,2) _ t, of "replicate 16 1"])
      simp_all
  then show ?thesis using h by metis
qed

theorem ready_points_restorable_witness:
  "\<exists>d m out. get_point (pt_id sample_point) d = Inr m \<and> pt_status m = PointReady
     \<and> stream_point plain_unseal (replicate 32 7) (pt_id sample_point) d = (out, Inr m)
     \<and> int (length out) = 3 \<and> hex_encode (sha256 out) = hex_encode (sha256 [1, 2, 3])
     \<and> validate_archive sample_untar 1000 m out = None"
proof -
  from sample_becomes_ready obtain d m where d: "reached sample_env d" "get_point (pt_id sample_point) d = Inr m"
    "pt_status m = PointReady" "pt_size_bytes m = int (length [1, 2, 3 :: nat])"
    "pt_sha256 m = hex_encode (sha256 [1, 2, 3])" by blast
  from ready_points_restorable[OF d(1-3)] obtain out where
    "stream_point (pe_unseal sample_env) (pe_key sample_env) (pt_id sample_point) d = (out, Inr m)"
    "int (length out) = pt_size_bytes m" "hex_encode (sha256 out) = pt_sha256 m"
    "validate_archive (pe_untar sample_env) (pe_max_bytes sample_env) m out = None" by blast
  moreover have "pe_unseal sample_env = plain_unseal" "pe_key sample_env = replicate 32 7"
    "pe_untar sample_env = sample_untar" "pe_max_bytes sample_env = 1000" "int (length [1, 2, 3 :: nat]) = 3"
    by (simp_all add: sample_env_def)
  ultimately show ?thesis using d(2-5) by metis
qed

end
