(* ===== verification/Api_Rules.thy ===== *)
theory Api_Rules
  imports Config_Forms Providers Store_Tables
begin

text \<open>
  The rules of \<open>internal/api/server.go\<close> for what a request may contain: the patterns, the
  validation of a new instance, of the observations of a Host Agent and of the progress of a job,
  and \<open>time.Parse(time.RFC3339Nano)\<close> of the standard library. A validator returns the error of the
  code, or \<open>None\<close>. \<open>url.ParseRequestURI\<close> of \<open>net/url\<close> is an argument.
\<close>

section \<open>Constants and patterns\<close>

definition agent_version :: string where
  "agent_version = ''0.12.1''"

definition job_lease_duration :: duration where
  "job_lease_duration = minutes 5"

definition maximum_json_body_bytes :: nat where
  "maximum_json_body_bytes = 1048576"

definition default_operation_page_limit :: int where
  "default_operation_page_limit = 50"

definition maximum_operation_page_limit :: int where
  "maximum_operation_page_limit = 100"

definition host_agent_compatible :: "string \<Rightarrow> bool" where
  "host_agent_compatible version \<longleftrightarrow> version = agent_version"

definition instance_name_pattern :: "string \<Rightarrow> bool" where
  "instance_name_pattern s = matches is_lower (\<lambda>c. is_lower c \<or> is_digit c \<or> c = CHR ''-'') 2 31 s"

text \<open>The identities of \<open>internal/identity\<close>: \<open>xxxxxxxx-xxxx-4xxx-[89ab]xxx-xxxxxxxxxxxx\<close>.\<close>

definition observation_identity_pattern :: "string \<Rightarrow> bool" where
  "observation_identity_pattern s \<longleftrightarrow> map length (split_on (CHR ''-'') s) = [8, 4, 4, 4, 12]
     \<and> list_all (list_all is_lower_hex) (split_on (CHR ''-'') s)
     \<and> s ! 14 = CHR ''4'' \<and> s ! 19 \<in> set ''89ab''"

definition code_group :: "string \<Rightarrow> bool" where
  "code_group s \<longleftrightarrow> 4 \<le> length s \<and> length s \<le> 12 \<and> list_all (\<lambda>c. is_upper c \<or> is_digit c) s"

definition codex_user_code_pattern :: "string \<Rightarrow> bool" where
  "codex_user_code_pattern s \<longleftrightarrow>
     (let gs = split_on (CHR ''-'') s in length gs \<le> 2 \<and> list_all code_group gs)"

definition version_core :: "string \<Rightarrow> bool" where
  "version_core s \<longleftrightarrow>
     (let ps = split_on (CHR ''.'') s in length ps = 3 \<and> list_all (\<lambda>p. p \<noteq> '''' \<and> list_all is_digit p) ps)"

definition hermes_version_pattern :: "string \<Rightarrow> bool" where
  "hermes_version_pattern s \<longleftrightarrow>
     (let t = (if has_prefix s ''v'' then tl s else s);
          core = takeWhile (\<lambda>c. c \<noteq> CHR ''+'' \<and> c \<noteq> CHR ''-'') t;
          rest = dropWhile (\<lambda>c. c \<noteq> CHR ''+'' \<and> c \<noteq> CHR ''-'') t
      in version_core core
         \<and> (rest = '''' \<or> tl rest \<noteq> '''' \<and> list_all (\<lambda>c. is_alnum c \<or> c = CHR ''.'' \<or> c = CHR ''-'') (tl rest)))"

definition hermes_source_pattern :: "string \<Rightarrow> bool" where
  "hermes_source_pattern s = matches is_alnum (\<lambda>c. is_alnum c \<or> c \<in> set ''._/@+-'') 0 127 s"

definition hermes_commit_pattern :: "string \<Rightarrow> bool" where
  "hermes_commit_pattern s \<longleftrightarrow> length s = 40 \<and> list_all is_hex s"

definition valid_workflow_id :: "string \<Rightarrow> bool" where
  "valid_workflow_id s \<longleftrightarrow> s = '''' \<or> observation_identity_pattern s"

section \<open>time.Parse(time.RFC3339Nano)\<close>

text \<open>
  The general parser of \<open>time.Parse\<close>: a date of fixed width, an hour of one or two digits, a
  fraction of any length after a period or a comma, and an offset of at most 24:60.
\<close>

definition digits_at :: "nat \<Rightarrow> string \<Rightarrow> (int \<times> string) option" where
  "digits_at n s = (if n \<le> length s \<and> list_all is_digit (take n s)
     then Some (foldl (\<lambda>a c. 10 * a + (int (byte_of c) - 48)) 0 (take n s), drop n s) else None)"

definition literal_at :: "char \<Rightarrow> string \<Rightarrow> string option" where
  "literal_at c s = (if has_prefix s [c] then Some (tl s) else None)"

definition leap_year :: "int \<Rightarrow> bool" where
  "leap_year y \<longleftrightarrow> 4 dvd y \<and> (\<not> 100 dvd y \<or> 400 dvd y)"

definition days_in :: "int \<Rightarrow> int \<Rightarrow> int" where
  "days_in m y = (if m = 2 then (if leap_year y then 29 else 28) else if m \<in> set [4, 6, 9, 11] then 30 else 31)"

definition hour_at :: "string \<Rightarrow> (int \<times> string) option" where
  "hour_at s = (case digits_at 2 s of Some r \<Rightarrow> Some r | None \<Rightarrow> digits_at 1 s)"

definition skip_fraction :: "string \<Rightarrow> string" where
  "skip_fraction s =
     (if 2 \<le> length s \<and> (s ! 0 = CHR ''.'' \<or> s ! 0 = CHR '','') \<and> is_digit (s ! 1)
      then dropWhile is_digit (tl s) else s)"

definition offset_ok :: "string \<Rightarrow> bool" where
  "offset_ok s \<longleftrightarrow> s = ''Z'' \<or>
     (has_prefix s ''+'' \<or> has_prefix s ''-'') \<and> (case do {
        (h, s1) \<leftarrow> digits_at 2 (tl s); s2 \<leftarrow> literal_at (CHR '':'') s1; (m, s3) \<leftarrow> digits_at 2 s2;
        Some (h \<le> 24 \<and> m \<le> 60 \<and> s3 = '''')} of Some b \<Rightarrow> b | None \<Rightarrow> False)"

definition parses_rfc3339_nano :: "string \<Rightarrow> bool" where
  "parses_rfc3339_nano s = (case do {
     (y, s1) \<leftarrow> digits_at 4 s; s2 \<leftarrow> literal_at (CHR ''-'') s1;
     (mo, s3) \<leftarrow> digits_at 2 s2; s4 \<leftarrow> literal_at (CHR ''-'') s3;
     (da, s5) \<leftarrow> digits_at 2 s4; s6 \<leftarrow> literal_at (CHR ''T'') s5;
     (ho, s7) \<leftarrow> hour_at s6; s8 \<leftarrow> literal_at (CHR '':'') s7;
     (mi, s9) \<leftarrow> digits_at 2 s8; s10 \<leftarrow> literal_at (CHR '':'') s9;
     (se, s11) \<leftarrow> digits_at 2 s10;
     Some (1 \<le> mo \<and> mo \<le> 12 \<and> 1 \<le> da \<and> da \<le> days_in mo y \<and> ho < 24 \<and> mi < 60 \<and> se < 60
       \<and> offset_ok (skip_fraction s11))} of Some b \<Rightarrow> b | None \<Rightarrow> False)"

section \<open>New instances\<close>

record create_request =
  ci_name :: string
  ci_host_id :: string
  ci_hermes_version :: string
  ci_image :: string
  ci_provider :: string
  ci_model :: string
  ci_reasoning :: string
  ci_service_tier :: string
  ci_api_port :: int
  ci_dashboard_port :: int

definition port_in_range :: "int \<Rightarrow> bool" where
  "port_in_range p \<longleftrightarrow> 1024 \<le> p \<and> p \<le> 65535"

definition validate_create_instance :: "create_request \<Rightarrow> string option" where
  "validate_create_instance r =
     (if \<not> instance_name_pattern (ci_name r)
      then Some ''instance name must match ^[a-z][a-z0-9-]{2,31}$''
      else if ci_host_id r = '''' then Some ''host_id is required''
      else if (ci_api_port r = 0) \<noteq> (ci_dashboard_port r = 0)
      then Some ''api_port and dashboard_port must both be omitted for automatic allocation''
      else if (ci_api_port r \<noteq> 0 \<or> ci_dashboard_port r \<noteq> 0)
         \<and> (\<not> port_in_range (ci_api_port r) \<or> \<not> port_in_range (ci_dashboard_port r))
      then Some ''ports must be between 1024 and 65535''
      else if (ci_api_port r \<noteq> 0 \<or> ci_dashboard_port r \<noteq> 0) \<and> ci_api_port r = ci_dashboard_port r
      then Some ''API and dashboard ports must be different''
      else case validate_image_reference (ci_image r) of
          Some e \<Rightarrow> Some e
        | None \<Rightarrow>
            if \<not> is_instance_oauth (ci_provider r)
            then Some ''instance creation requires an OAuth provider supported by this Fleet version''
            else validate_runtime_or_pending (ci_provider r) (ci_model r) (ci_reasoning r) (ci_service_tier r))"

section \<open>Observations\<close>

definition observation_statuses :: "string list" where
  "observation_statuses = [''IN_SYNC'', ''DEGRADED'', ''MISSING'', ''UNKNOWN'']"

definition valid_check_names :: "string list" where
  "valid_check_names = [''observation'', ''managed_path'', ''manifest'', ''environment'', ''workspace'',
     ''docker_daemon'', ''data_volume'', ''containers'', ''ownership'', ''image'', ''runtime'',
     ''health_endpoint'', ''runtime_configuration'', ''codex_auth'', ''provider_auth'']"

fun valid_check_status :: "check_status \<Rightarrow> bool" where
  "valid_check_status (CheckOther s) = False"
| "valid_check_status _ = True"

fun check_models :: "string \<Rightarrow> string list \<Rightarrow> string list \<Rightarrow> string option" where
  "check_models provider seen [] = None"
| "check_models provider seen (m # ms) =
     (if m \<in> set seen \<or> validate_runtime provider m ''medium'' ''normal'' \<noteq> None
      then Some ''observation model catalog is invalid or duplicated''
      else check_models provider (m # seen) ms)"

definition validate_model_catalog :: "string list \<Rightarrow> string \<Rightarrow> string \<Rightarrow> string option" where
  "validate_model_catalog models recommended provider =
     (if length models > 64 then Some ''observation model catalog exceeds 64 entries''
      else case check_models provider [] models of
          Some e \<Rightarrow> Some e
        | None \<Rightarrow>
            if recommended \<noteq> '''' \<and> recommended \<notin> set models
            then Some ''observation recommended model is not in the model catalog'' else None)"

text \<open>The catalogs of the providers are a Go map; here they come in the order of the list.\<close>

fun check_catalogs :: "(string \<times> string list \<times> string) list \<Rightarrow> string option" where
  "check_catalogs [] = None"
| "check_catalogs ((provider, models, recommended) # cs) =
     (if \<not> is_instance_oauth provider
      then Some ''observation provider model catalog uses an unsupported provider''
      else case validate_model_catalog models recommended provider of
          Some e \<Rightarrow> Some e
        | None \<Rightarrow> check_catalogs cs)"

fun check_checks :: "string list \<Rightarrow> observation_check list \<Rightarrow> string option" where
  "check_checks seen [] = None"
| "check_checks seen (c # cs) =
     (if oc_name c \<notin> set valid_check_names \<or> oc_name c \<in> set seen \<or> \<not> valid_check_status (oc_status c)
      then Some ''observation check is invalid or duplicated''
      else if trim_space (oc_detail c) = '''' \<or> length (oc_detail c) > 512
      then Some ''observation check detail is required and must not exceed 512 bytes''
      else check_checks (oc_name c # seen) cs)"

definition effective_stale_after :: "duration \<Rightarrow> duration" where
  "effective_stale_after stale = (if stale \<le> 0 then minutes 2 else stale)"

definition fresh_report :: "timestamp \<Rightarrow> duration \<Rightarrow> timestamp \<Rightarrow> bool" where
  "fresh_report now stale at \<longleftrightarrow> at \<noteq> zero_time \<and> \<not> at > now + minutes 2 \<and> \<not> now - at > effective_stale_after stale"

definition check_observation :: "timestamp \<Rightarrow> duration \<Rightarrow> instance_observation \<Rightarrow> string option" where
  "check_observation now stale b =
     (if \<not> parses_rfc3339_nano (io_target_generation b) then Some ''observation target generation is invalid''
      else if io_refresh_request_id b \<noteq> '''' \<and> \<not> observation_identity_pattern (io_refresh_request_id b)
      then Some ''observation refresh request identity is invalid''
      else if io_status b \<notin> set observation_statuses then Some ''observation status is invalid''
      else if trim_space (io_summary b) = '''' \<or> length (io_summary b) > 256
      then Some ''observation summary is required and must not exceed 256 bytes''
      else if io_hermes_version b \<noteq> '''' \<and> \<not> hermes_version_pattern (io_hermes_version b)
      then Some ''observation Hermes version is invalid''
      else if io_hermes_source b \<noteq> '''' \<and> \<not> hermes_source_pattern (io_hermes_source b)
      then Some ''observation Hermes source is invalid''
      else case validate_model_catalog (io_model_catalog b) (io_recommended_model b) ''openai-codex'' of
          Some e \<Rightarrow> Some e
        | None \<Rightarrow>
            if length (io_provider_catalogs b) > 8
            then Some ''observation provider model catalogs exceed 8 providers''
            else case check_catalogs (io_provider_catalogs b) of
                Some e \<Rightarrow> Some e
              | None \<Rightarrow>
                  if \<not> fresh_report now stale (io_observed_at b)
                  then Some ''observation timestamp is invalid''
                  else if io_checks b = [] \<or> length (io_checks b) > 16
                  then Some ''observation must contain between 1 and 16 checks''
                  else check_checks [] (io_checks b))"

fun check_observations :: "timestamp \<Rightarrow> duration \<Rightarrow> string list \<Rightarrow> instance_observation list \<Rightarrow> string option" where
  "check_observations now stale seen [] = None"
| "check_observations now stale seen (b # bs) =
     (if \<not> observation_identity_pattern (io_instance_id b) \<or> io_instance_id b \<in> set seen
      then Some ''observation instance identity is invalid or duplicated''
      else case check_observation now stale b of
          Some e \<Rightarrow> Some e
        | None \<Rightarrow> check_observations now stale (io_instance_id b # seen) bs)"

definition validate_observations :: "instance_observation list \<Rightarrow> timestamp \<Rightarrow> duration \<Rightarrow> string option" where
  "validate_observations bs now stale =
     (if bs = [] \<or> length bs > 100 then Some ''observations must contain between 1 and 100 reports''
      else check_observations now stale [] bs)"

section \<open>Progress\<close>

definition without_code :: "job_progress \<Rightarrow> bool" where
  "without_code p \<longleftrightarrow> jp_verification_uri p = '''' \<and> jp_user_code p = '''' \<and> jp_expires_at p = zero_time"

text \<open>\<open>AllowedDeviceURL\<close> of \<open>internal/providers\<close>.\<close>

definition allowed_device_url :: "(string \<Rightarrow> (parsed_url \<times> string) option) \<Rightarrow> string \<Rightarrow> bool" where
  "allowed_device_url parse_request uri \<longleftrightarrow>
     list_ex (\<lambda>e. pe_device_url e \<noteq> '''' \<and> pe_device_url e = uri) catalog
     \<or> (case parse_request uri of
          None \<Rightarrow> False
        | Some (u, path) \<Rightarrow> pu_scheme u = ''https'' \<and> pu_host u = ''auth.x.ai'' \<and> \<not> pu_user u \<and> path \<noteq> '''')"

definition validate_job_progress ::
    "(string \<Rightarrow> (parsed_url \<times> string) option) \<Rightarrow> job_type \<Rightarrow> job_progress \<Rightarrow> timestamp \<Rightarrow> string option" where
  "validate_job_progress parse_request t p now =
     (if t = JobHermesUpdate then
        (if jp_stage p \<in> set [''PREPARING_RELEASE'', ''STOPPING'', ''BACKING_UP'', ''INSTALLING'',
              ''RESTORING_STATE'', ''VERIFYING_VERSION''] \<and> without_code p
         then None else Some ''unsupported Hermes update progress'')
      else if t = JobConfigureMcp then
        (if jp_stage p \<in> set [''VALIDATING'', ''WRITING_CONFIGURATION'', ''RESTARTING_RUNTIME'',
              ''TESTING_CONNECTIONS'', ''VERIFYING_TOOLS''] \<and> without_code p
         then None else Some ''unsupported MCP configuration progress'')
      else if t \<noteq> JobAuthCodex then Some ''this job does not support progress updates''
      else if jp_stage p \<in> set [''STARTING'', ''VERIFYING''] then
        (if without_code p then None
         else Some ''this progress stage cannot contain an authentication code'')
      else if jp_stage p = ''AWAITING_USER'' then
        (if \<not> allowed_device_url parse_request (jp_verification_uri p)
         then Some ''unsupported authentication verification URL''
         else if \<not> codex_user_code_pattern (jp_user_code p) then Some ''invalid Codex user code''
         else if jp_expires_at p \<noteq> zero_time
            \<and> (\<not> jp_expires_at p > now \<or> jp_expires_at p > now + minutes 16)
         then Some ''invalid Codex authentication expiry'' else None)
      else Some ''unsupported job progress stage'')"

section \<open>Texts\<close>

definition upper_char :: "char \<Rightarrow> char" where
  "upper_char c = (if is_lower c then char_of (byte_of c - 32) else c)"

text \<open>The actions are ASCII, for which \<open>strings.ToUpper\<close> works on each byte.\<close>

definition action_summary :: "string \<Rightarrow> string" where
  "action_summary action =
     (if action = '''' then ''''
      else if action = ''repair-runtime'' then ''Repair and verify runtime''
      else let a = replace_char (CHR ''-'') (CHR '' '') action in upper_char (hd a) # tl a)"

definition action_type_name :: "string \<Rightarrow> string" where
  "action_type_name action = map upper_char (replace_char (CHR ''-'') (CHR ''_'') action)"

end
