(* ===== verification/Api_Payloads.thy ===== *)
theory Api_Payloads
  imports Domain_Payloads Store_Tables
begin

text \<open>
  The job payloads that the control plane writes: \<open>json.Marshal\<close> of the payload structs of
  \<open>internal/domain/models.go\<close>, in the order of their fields, with \<open>omitempty\<close> where the tags say so,
  and the lemma that the store's decoder of \<open>Domain_Payloads\<close> reads back what was written.
\<close>

section \<open>json.Marshal\<close>

definition status_name :: "instance_status \<Rightarrow> string" where
  "status_name s = (case s of
       NoStatus \<Rightarrow> '''' | InstanceProvisioning \<Rightarrow> ''PROVISIONING'' | InstanceRunning \<Rightarrow> ''RUNNING''
     | InstanceRestarting \<Rightarrow> ''RESTARTING'' | InstanceUpdating \<Rightarrow> ''UPDATING'' | InstanceStopped \<Rightarrow> ''STOPPED''
     | InstanceReconciling \<Rightarrow> ''RECONCILING'' | InstanceBackingUp \<Rightarrow> ''BACKING_UP''
     | InstanceRestoring \<Rightarrow> ''RESTORING'' | InstanceDeleting \<Rightarrow> ''DELETING'' | InstanceDeleted \<Rightarrow> ''DELETED''
     | InstanceFailed \<Rightarrow> ''FAILED'' | OtherStatus t \<Rightarrow> t)"

definition known_status :: "instance_status \<Rightarrow> bool" where
  "known_status s \<longleftrightarrow> (case s of OtherStatus t \<Rightarrow> False | _ \<Rightarrow> True)"

lemma instance_status_name: "known_status s \<Longrightarrow> instance_status_of (status_name s) = s"
  by (cases s) (simp_all add: known_status_def status_name_def instance_status_of_def)

definition opt_string :: "string \<Rightarrow> string \<Rightarrow> json_fields" where
  "opt_string k v = (if v = '''' then [] else [(k, JString v)])"

definition opt_int :: "string \<Rightarrow> int \<Rightarrow> json_fields" where
  "opt_int k v = (if v = 0 then [] else [(k, JInt v)])"

definition opt_bool :: "string \<Rightarrow> bool \<Rightarrow> json_fields" where
  "opt_bool k v = (if v then [(k, JBool True)] else [])"

lemma jfield_snoc: "jfield k (kvs @ [(q, v)]) = (if q = k then v else jfield k kvs)"
  by (simp add: jfield_def)

section \<open>Payloads\<close>

definition encode_provision :: "provision_payload \<Rightarrow> json" where
  "encode_provision p = JObject (
     [(''instance_id'', JString (pv_instance_id p)), (''name'', JString (pv_name p)),
      (''image'', JString (pv_image p))]
     @ opt_string ''hermes_version'' (pv_hermes_version p) @ opt_string ''hermes_source'' (pv_hermes_source p)
     @ [(''provider'', JString (pv_provider p)), (''model'', JString (pv_model p)),
      (''reasoning'', JString (pv_reasoning p)), (''service_tier'', JString (pv_service_tier p)),
      (''api_port'', JInt (pv_api_port p)), (''dashboard_port'', JInt (pv_dashboard_port p))])"

record action_payload =
  ap_instance_id :: string
  ap_name :: string
  ap_image :: string
  ap_project_name :: string
  ap_managed_path :: string
  ap_image_id :: string
  ap_provider :: string
  ap_model :: string
  ap_reasoning :: string
  ap_service_tier :: string
  ap_api_port :: int
  ap_dashboard_port :: int
  ap_preserve_data :: bool

definition action_fields :: "action_payload \<Rightarrow> json_fields" where
  "action_fields p =
     [(''instance_id'', JString (ap_instance_id p)), (''name'', JString (ap_name p))]
     @ opt_string ''image'' (ap_image p)
     @ [(''project_name'', JString (ap_project_name p)), (''managed_path'', JString (ap_managed_path p))]
     @ opt_string ''image_id'' (ap_image_id p) @ opt_string ''provider'' (ap_provider p)
     @ opt_string ''model'' (ap_model p) @ opt_string ''reasoning'' (ap_reasoning p)
     @ opt_string ''service_tier'' (ap_service_tier p)
     @ [(''api_port'', JInt (ap_api_port p))] @ opt_int ''dashboard_port'' (ap_dashboard_port p)
     @ [(''preserve_data'', JBool (ap_preserve_data p))]"

definition encode_action :: "action_payload \<Rightarrow> json" where
  "encode_action p = JObject (action_fields p)"

record runtime_repair_payload = action_payload +
  rr_payload_phase :: nat
  rr_payload_attempt :: nat
  rr_payload_trigger :: string

definition encode_runtime_repair :: "runtime_repair_payload \<Rightarrow> json" where
  "encode_runtime_repair p = JObject (action_fields (action_payload.truncate p)
     @ [(''phase'', JInt (int (rr_payload_phase p))), (''attempt'', JInt (int (rr_payload_attempt p))),
        (''trigger'', JString (rr_payload_trigger p))])"

record image_reconcile_payload =
  ic_instance_id :: string
  ic_name :: string
  ic_image :: string
  ic_previous_image_id :: string
  ic_project_name :: string
  ic_data_volume :: string
  ic_managed_path :: string

definition encode_image_reconcile :: "image_reconcile_payload \<Rightarrow> json" where
  "encode_image_reconcile p = JObject
     [(''instance_id'', JString (ic_instance_id p)), (''name'', JString (ic_name p)),
      (''image'', JString (ic_image p)), (''previous_image_id'', JString (ic_previous_image_id p)),
      (''project_name'', JString (ic_project_name p)), (''data_volume'', JString (ic_data_volume p)),
      (''managed_path'', JString (ic_managed_path p))]"

definition encode_image_repair :: "image_repair_payload \<Rightarrow> json" where
  "encode_image_repair p = JObject
     [(''instance_id'', JString (ir_instance_id p)), (''name'', JString (ir_name p)),
      (''image'', JString (ir_image p)), (''previous_image_id'', JString (ir_previous_image_id p)),
      (''project_name'', JString (ir_project_name p)), (''data_volume'', JString (ir_data_volume p)),
      (''managed_path'', JString (ir_managed_path p)), (''api_port'', JInt (ir_api_port p)),
      (''restart'', JBool (ir_restart p))]"

definition encode_runtime_sync :: "runtime_sync_payload \<Rightarrow> json" where
  "encode_runtime_sync p = JObject
     [(''instance_id'', JString (rs_instance_id p)), (''name'', JString (rs_name p)),
      (''image'', JString (rs_image p)), (''image_id'', JString (rs_image_id p)),
      (''provider'', JString (rs_provider p)), (''model'', JString (rs_model p)),
      (''reasoning'', JString (rs_reasoning p)), (''service_tier'', JString (rs_service_tier p)),
      (''project_name'', JString (rs_project_name p)), (''data_volume'', JString (rs_data_volume p)),
      (''managed_path'', JString (rs_managed_path p)),
      (''desired_status'', JString (status_name (rs_desired_status p))),
      (''dashboard_port'', JInt (rs_dashboard_port p))]"

definition encode_config_apply :: "config_apply_payload \<Rightarrow> json" where
  "encode_config_apply p = JObject
     [(''instance_id'', JString (ca_instance_id p)), (''name'', JString (ca_name p)),
      (''image'', JString (ca_image p)), (''image_id'', JString (ca_image_id p)),
      (''provider'', JString (ca_provider p)), (''model'', JString (ca_model p)),
      (''reasoning'', JString (ca_reasoning p)), (''service_tier'', JString (ca_service_tier p)),
      (''project_name'', JString (ca_project_name p)), (''data_volume'', JString (ca_data_volume p)),
      (''managed_path'', JString (ca_managed_path p)),
      (''desired_status'', JString (status_name (ca_desired_status p))),
      (''api_port'', JInt (ca_api_port p)), (''dashboard_port'', JInt (ca_dashboard_port p)),
      (''revision'', JString (ca_revision p))]"

definition encode_codex_auth :: "codex_auth_payload \<Rightarrow> json" where
  "encode_codex_auth p = JObject (
     [(''instance_id'', JString (cx_instance_id p)), (''name'', JString (cx_name p)),
      (''project_name'', JString (cx_project_name p)), (''managed_path'', JString (cx_managed_path p))]
     @ opt_string ''provider'' (cx_provider p))"

text \<open>\<open>created\<close> is the text of the time stamp, which no decoder of the store reads.\<close>

definition recovery_point_fields :: "string \<Rightarrow> recovery_point_payload \<Rightarrow> json_fields" where
  "recovery_point_fields created p =
     [(''recovery_point_id'', JString (rp_recovery_point_id p)), (''instance_id'', JString (rp_instance_id p)),
      (''name'', JString (rp_name p)), (''image'', JString (rp_image p)), (''image_id'', JString (rp_image_id p)),
      (''provider'', JString (rp_provider p)), (''model'', JString (rp_model p)),
      (''reasoning'', JString (rp_reasoning p)), (''service_tier'', JString (rp_service_tier p)),
      (''codex_configured'', JBool (rp_codex_configured p)), (''project_name'', JString (rp_project_name p)),
      (''data_volume'', JString (rp_data_volume p)), (''managed_path'', JString (rp_managed_path p)),
      (''agent_version'', JString (rp_agent_version p)), (''created_at'', JString created),
      (''max_bytes'', JInt (rp_max_bytes p))]"

definition recovery_restore_fields :: "string \<Rightarrow> recovery_restore_payload \<Rightarrow> json_fields" where
  "recovery_restore_fields created p =
     [(''recovery_point_id'', JString (rt_recovery_point_id p)), (''instance_id'', JString (rt_instance_id p)),
      (''name'', JString (rt_name p)), (''image'', JString (rt_image p)), (''image_id'', JString (rt_image_id p))]
     @ opt_bool ''require_image_id'' (rt_require_image_id p)
     @ [(''provider'', JString (rt_provider p)), (''model'', JString (rt_model p)),
      (''reasoning'', JString (rt_reasoning p)), (''service_tier'', JString (rt_service_tier p)),
      (''codex_configured'', JBool (rt_codex_configured p)), (''project_name'', JString (rt_project_name p)),
      (''data_volume'', JString (rt_data_volume p)), (''managed_path'', JString (rt_managed_path p)),
      (''agent_version'', JString (rt_agent_version p)), (''created_at'', JString created),
      (''recovery_sha256'', JString (rt_recovery_sha256 p)),
      (''recovery_size_bytes'', JInt (rt_recovery_size_bytes p)), (''max_bytes'', JInt (rt_max_bytes p))]"

definition hermes_upgrade_fields :: "string \<Rightarrow> hermes_upgrade_payload \<Rightarrow> json_fields" where
  "hermes_upgrade_fields created p =
     [(''instance_id'', JString (hu_instance_id p)), (''name'', JString (hu_name p)),
      (''current_image'', JString (hu_current_image p)), (''current_image_id'', JString (hu_current_image_id p)),
      (''target_image'', JString (hu_target_image p)), (''target_version'', JString (hu_target_version p)),
      (''target_source'', JString (hu_target_source p)),
      (''recovery_point_id'', JString (hu_recovery_point_id p)), (''provider'', JString (hu_provider p)),
      (''model'', JString (hu_model p)), (''reasoning'', JString (hu_reasoning p)),
      (''service_tier'', JString (hu_service_tier p)), (''codex_configured'', JBool (hu_codex_configured p)),
      (''project_name'', JString (hu_project_name p)), (''data_volume'', JString (hu_data_volume p)),
      (''managed_path'', JString (hu_managed_path p)), (''api_port'', JInt (hu_api_port p)),
      (''dashboard_port'', JInt (hu_dashboard_port p)),
      (''rollback'', JObject (recovery_restore_fields created (hu_rollback p)))]"

definition encode_hermes_update :: "string \<Rightarrow> hermes_update_payload \<Rightarrow> json" where
  "encode_hermes_update created p = JObject
     [(''upgrade'', JObject (hermes_upgrade_fields created (hp_upgrade p))),
      (''backup'', JObject (recovery_point_fields created (hp_backup p))),
      (''original_status'', JString (status_name (hp_original_status p)))]"

definition encode_recovery_point :: "string \<Rightarrow> recovery_point_payload \<Rightarrow> json" where
  "encode_recovery_point created p = JObject (recovery_point_fields created p)"

definition encode_recovery_restore :: "string \<Rightarrow> recovery_restore_payload \<Rightarrow> json" where
  "encode_recovery_restore created p = JObject (recovery_restore_fields created p)"

section \<open>What is written is read\<close>

definition int64 :: "int \<Rightarrow> bool" where
  "int64 i \<longleftrightarrow> - (2 ^ 63) \<le> i \<and> i < 2 ^ 63"

lemma jint_int64: "int64 i \<Longrightarrow> jint (JInt i) = Some i"
  by (simp add: int64_def)

lemmas json_encode = opt_string_def opt_int_def opt_bool_def

lemma provision_round_trip:
  "int64 (pv_api_port p) \<Longrightarrow> int64 (pv_dashboard_port p) \<Longrightarrow>
   decode_provision (Some (encode_provision p)) = Some p"
  by (simp add: decode_provision_def encode_provision_def json_decode json_encode int64_def)

lemma image_repair_round_trip:
  "int64 (ir_api_port p) \<Longrightarrow> decode_image_repair (Some (encode_image_repair p)) = Some p"
  by (simp add: decode_image_repair_def encode_image_repair_def json_decode int64_def)

lemma runtime_sync_round_trip:
  "int64 (rs_dashboard_port p) \<Longrightarrow> known_status (rs_desired_status p) \<Longrightarrow>
   decode_runtime_sync (Some (encode_runtime_sync p)) = Some p"
  by (simp add: decode_runtime_sync_def encode_runtime_sync_def json_decode int64_def instance_status_name)

lemma config_apply_round_trip:
  "int64 (ca_api_port p) \<Longrightarrow> int64 (ca_dashboard_port p) \<Longrightarrow> known_status (ca_desired_status p) \<Longrightarrow>
   decode_config_apply (Some (encode_config_apply p)) = Some p"
  by (simp add: decode_config_apply_def encode_config_apply_def json_decode int64_def instance_status_name)

lemma codex_auth_round_trip: "decode_codex_auth (Some (encode_codex_auth p)) = Some p"
  by (simp add: decode_codex_auth_def encode_codex_auth_def json_decode json_encode)

lemma recovery_point_fields_read:
  "int64 (rp_max_bytes p) \<Longrightarrow> read_recovery_point (recovery_point_fields c p) = Some p"
  by (simp add: read_recovery_point_def recovery_point_fields_def json_decode int64_def)

lemma recovery_restore_fields_read:
  "int64 (rt_max_bytes p) \<Longrightarrow> int64 (rt_recovery_size_bytes p) \<Longrightarrow>
   read_recovery_restore (recovery_restore_fields c p) = Some p"
  by (simp add: read_recovery_restore_def recovery_restore_fields_def json_decode json_encode int64_def)

lemma recovery_restore_round_trip:
  "int64 (rt_max_bytes p) \<Longrightarrow> int64 (rt_recovery_size_bytes p) \<Longrightarrow>
   decode_recovery_restore (Some (encode_recovery_restore c p)) = Some p"
  using recovery_restore_fields_read[of p c]
  by (simp add: decode_recovery_restore_def encode_recovery_restore_def unmarshal_def)

lemma hermes_upgrade_fields_read:
  "int64 (hu_api_port p) \<Longrightarrow> int64 (hu_dashboard_port p) \<Longrightarrow> int64 (rt_max_bytes (hu_rollback p)) \<Longrightarrow>
   int64 (rt_recovery_size_bytes (hu_rollback p)) \<Longrightarrow>
   read_hermes_upgrade (hermes_upgrade_fields c p) = Some p"
  using recovery_restore_fields_read[of "hu_rollback p" c]
  by (simp add: read_hermes_upgrade_def hermes_upgrade_fields_def json_decode int64_def)

lemma hermes_update_round_trip:
  assumes "int64 (hu_api_port (hp_upgrade p))" "int64 (hu_dashboard_port (hp_upgrade p))"
    "int64 (rt_max_bytes (hu_rollback (hp_upgrade p)))"
    "int64 (rt_recovery_size_bytes (hu_rollback (hp_upgrade p)))"
    "int64 (rp_max_bytes (hp_backup p))" "known_status (hp_original_status p)"
  shows "decode_hermes_update (Some (encode_hermes_update c p)) = Some p"
  using hermes_upgrade_fields_read[OF assms(1-4), of c] recovery_point_fields_read[OF assms(5), of c]
  by (simp add: decode_hermes_update_def encode_hermes_update_def json_decode instance_status_name[OF assms(6)])

end
