(* ===== verification/Api_Server.thy ===== *)
theory Api_Server
  imports Api_Rules Api_Payloads Store_Operations Store_Observations Hermes_Releases Recovery_Facts
begin

text \<open>
  What the handlers of \<open>internal/api\<close> share: the reply they write, the configuration and the state
  they work on (the database and the recovery point directory), the instance with its observation
  as \<open>GetInstance\<close> reads it, the errors of the store and of the recovery points as HTTP status
  codes, and \<open>operationMetadata\<close>. A handler reads the clock once; new identities, random bytes
  and the answers of the release source and of the free-space check are its arguments.
\<close>

section \<open>Replies\<close>

text \<open>\<open>writeError\<close> with a status and a message, or a success with its status and body.\<close>

datatype 'a reply = Refused nat string | Reply nat 'a

record server_state =
  sv_db :: db
  sv_points :: point_dir

record api_config =
  ac_offline_after :: duration
  ac_stale_after :: duration
  ac_catalog :: release_catalog
  ac_recovery :: "point_env option"
  ac_max_point_bytes :: int

record request_env =
  qe_now :: timestamp
  qe_operation_id :: string
  qe_job_id :: string
  qe_random :: string
  qe_tmp :: string

section \<open>Reading an instance\<close>

record instance_view = instance_row +
  iv_observation :: "instance_observation option"
  iv_request :: "observation_request option"

definition view_instance :: "db \<Rightarrow> instance_row \<Rightarrow> instance_view" where
  "view_instance d r = instance_row.extend r
     \<lparr>iv_observation = find_row io_instance_id (in_id r) (db_observations d),
      iv_request = map_option (\<lambda>q. \<lparr>or_id = rq_request_id q, or_instance_id = in_id r,
         or_requested_at = rq_requested_at q\<rparr>) (find_row rq_instance_id (in_id r) (db_requests d))\<rparr>"

definition get_instance :: "string \<Rightarrow> db \<Rightarrow> instance_view result" where
  "get_instance i d =
     (case find_instance d i of None \<Rightarrow> Inl ErrNotFound | Some r \<Rightarrow> Inr (view_instance d r))"

definition generation_of :: "instance_view \<Rightarrow> string" where
  "generation_of v = observation_generation (in_updated_at v)"

text \<open>The four columns that a completed provisioning fills.\<close>

definition has_runtime_metadata :: "instance_view \<Rightarrow> bool" where
  "has_runtime_metadata v \<longleftrightarrow> in_image_id v \<noteq> '''' \<and> in_project_name v \<noteq> ''''
     \<and> in_data_volume v \<noteq> '''' \<and> in_managed_path v \<noteq> ''''"

definition agent_offline :: "api_config \<Rightarrow> timestamp \<Rightarrow> host \<Rightarrow> bool" where
  "agent_offline cfg now h \<longleftrightarrow> now - h_last_seen_at h > ac_offline_after cfg"

section \<open>Errors as replies\<close>

definition write_recovery_error :: "point_error \<Rightarrow> 'a reply" where
  "write_recovery_error e = (case e of
       PointNotFound \<Rightarrow> Refused 404 ''instance backup not found''
     | PointConfirmation \<Rightarrow> Refused 400 ''instance backup filename confirmation does not match''
     | PointBusy \<Rightarrow> Refused 409 ''instance backup is busy or not in the required state''
     | PointState \<Rightarrow> Refused 409 ''instance backup is busy or not in the required state''
     | PointLimit \<Rightarrow> Refused 409
         ''instance backup retention limit reached; delete one explicitly before creating another''
     | PointIntegrity _ \<Rightarrow> Refused 409 ''instance backup integrity verification failed''
     | _ \<Rightarrow> Refused 500 ''instance backup operation failed'')"

text \<open>\<open>writeQueueAdmissionError\<close>, and else the conflict of the caller.\<close>

definition write_queue_error :: "string \<Rightarrow> store_error \<Rightarrow> 'a reply" where
  "write_queue_error conflict e =
     (if e = ErrQueueCapacity
      then Refused 429 ''the Host Agent work queue is full; retry after active work completes''
      else Refused 409 conflict)"

definition capacity_message :: string where
  "capacity_message = ''Fleet data storage is below the configured safety reserve; free storage or remove old backups before retrying''"

definition require_operation_capacity :: "bool \<Rightarrow> 's \<Rightarrow> 'a reply \<times> 's \<Rightarrow> 'a reply \<times> 's" where
  "require_operation_capacity capacity_ok s r = (if capacity_ok then r else (Refused 507 capacity_message, s))"

section \<open>Operations\<close>

text \<open>\<open>json.Marshal\<close> of a Go map writes the keys in order.\<close>

definition operation_metadata :: "json_fields \<Rightarrow> raw_json option" where
  "operation_metadata kvs = Some (Some (JObject (sort_key fst kvs)))"

definition pending_operation ::
    "request_env \<Rightarrow> string \<Rightarrow> string \<Rightarrow> string \<Rightarrow> operation_type \<Rightarrow> string \<Rightarrow> raw_json option \<Rightarrow> operation" where
  "pending_operation env inst workflow actor t summary metadata =
     \<lparr>op_id = qe_operation_id env, op_instance_id = inst, op_workflow_id = workflow, op_actor = actor,
      op_type = t, op_status = OperationPending, op_summary = summary, op_metadata = metadata,
      op_progress = None, op_error = '''', op_created_at = qe_now env, op_updated_at = qe_now env\<rparr>"

definition pending_job :: "request_env \<Rightarrow> operation \<Rightarrow> string \<Rightarrow> job_type \<Rightarrow> json \<Rightarrow> job" where
  "pending_job env op host t payload =
     \<lparr>j_id = qe_job_id env, j_operation_id = op_id op, j_host_id = host, j_instance_id = op_instance_id op,
      j_type = t, j_status = JobPending, j_payload = Some payload, j_attempts = 0, j_lease_token = '''',
      j_lease_expires_at = None, j_created_at = qe_now env, j_updated_at = qe_now env\<rparr>"

text \<open>\<open>Format(time.RFC3339)\<close> leaves the fraction out.\<close>

definition format_rfc3339 :: "timestamp \<Rightarrow> string" where
  "format_rfc3339 t = format_rfc3339_nano (t - t mod 1000000000)"

end
