(* ===== verification/Api_Updates.thy ===== *)
theory Api_Updates
  imports Api_Server
begin

text \<open>
  Hermes updates of \<open>internal/api/server.go\<close> and \<open>hermes_update_queue.go\<close>: what release an instance
  can move to (\<open>hermesUpdateStatus\<close>), when a failed instance may be recovered by refreshing its
  managed runtime, and the start of an update, which reserves a recovery point, queues the job with
  its rollback and gives the reservation back when the queue refuses. The release source answers
  \<open>None\<close> when it is not configured and \<open>Some None\<close> when it fails.
\<close>

section \<open>The release catalog\<close>

definition hermes_catalog ::
    "api_config \<Rightarrow> release_catalog option option \<Rightarrow> release_catalog option" where
  "hermes_catalog cfg listed =
     (case listed of
        Some (Some c) \<Rightarrow> if length (ct_releases c) = 3 then Some c
          else if length (ct_releases (ac_catalog cfg)) \<noteq> 3 then None else Some (ac_catalog cfg)
      | _ \<Rightarrow> if length (ct_releases (ac_catalog cfg)) \<noteq> 3 then None else Some (ac_catalog cfg))"

definition resolve_hermes_release ::
    "api_config \<Rightarrow> release_catalog option option \<Rightarrow> string \<Rightarrow> string + release" where
  "resolve_hermes_release cfg listed version =
     (case hermes_catalog cfg listed of
        None \<Rightarrow> Inl ''Hermes release catalog is unavailable''
      | Some c \<Rightarrow>
          if version = '''' then Inr (hd (ct_releases c))
          else (case find_release c version of
              Some r \<Rightarrow> Inr r
            | None \<Rightarrow> Inl ''select one of the Hermes versions offered by Fleet''))"

definition list_hermes_releases ::
    "api_config \<Rightarrow> release_catalog option option \<Rightarrow> release_catalog reply" where
  "list_hermes_releases cfg listed =
     (case hermes_catalog cfg listed of
        None \<Rightarrow> Refused 503 ''Hermes release catalog is unavailable'' | Some c \<Rightarrow> Reply 200 c)"

section \<open>Update status\<close>

record update_status =
  us_current_version :: string
  us_current_source :: string
  us_current_image :: string
  us_official_status :: string
  us_kind :: string
  us_official_source :: string
  us_official_checked_at :: string
  us_official_stale :: bool
  us_latest :: "release option"
  us_target_version :: string
  us_target_source :: string
  us_target_image :: string
  us_available :: bool
  us_eligible :: bool
  us_reason :: string

definition kind_none :: string where "kind_none = ''NONE''"
definition kind_version_update :: string where "kind_version_update = ''VERSION_UPDATE''"
definition kind_runtime_refresh :: string where "kind_runtime_refresh = ''RUNTIME_REFRESH''"

text \<open>The catalog without releases stands for the zero value that comes with an error.\<close>

definition no_catalog :: release_catalog where
  "no_catalog = \<lparr>ct_source = '''', ct_checked_at = zero_time, ct_releases = [], ct_stale = False\<rparr>"

definition current_hermes :: "release_catalog \<Rightarrow> instance_view \<Rightarrow> string \<times> string" where
  "current_hermes c v =
     (let (version, source) = (case iv_observation v of
            Some b \<Rightarrow> if io_target_generation b = generation_of v
              then (io_hermes_version b, io_hermes_source b) else ('''', '''')
          | None \<Rightarrow> ('''', ''''))
      in if version = '''' then (case find_by_runtime_image c (in_image v) of
             Some r \<Rightarrow> (rl_version r, rl_commit r) | None \<Rightarrow> (version, source))
         else (version, source))"

definition initial_status :: "release_catalog \<Rightarrow> instance_view \<Rightarrow> update_status" where
  "initial_status c v = (let (version, source) = current_hermes c v in
     \<lparr>us_current_version = version, us_current_source = source, us_current_image = in_image v,
      us_official_status = ''CHECK_FAILED'', us_kind = kind_none, us_official_source = '''',
      us_official_checked_at = '''', us_official_stale = False, us_latest = None,
      us_target_version = '''', us_target_source = '''', us_target_image = '''',
      us_available = False, us_eligible = False, us_reason = ''''\<rparr>)"

definition official_status :: "string \<Rightarrow> release \<Rightarrow> string" where
  "official_status current latest =
     (if current = '''' \<or> \<not> hermes_version_pattern current then ''UNKNOWN''
      else if compare_releases current (rl_version latest) < 0 then ''UPDATE_AVAILABLE''
      else if compare_releases current (rl_version latest) = 0 then ''CURRENT''
      else ''UNKNOWN'')"

definition attach_official_release :: "release_catalog \<Rightarrow> update_status \<Rightarrow> update_status" where
  "attach_official_release c s =
     (case ct_releases c of
        [] \<Rightarrow> s\<lparr>us_official_status := ''CHECK_FAILED''\<rparr>
      | latest # _ \<Rightarrow> s\<lparr>us_latest := Some latest, us_official_source := ct_source c,
          us_official_checked_at := format_rfc3339 (ct_checked_at c), us_official_stale := ct_stale c,
          us_official_status := official_status (us_current_version s) latest\<rparr>)"

section \<open>Recovery of a failed instance\<close>

definition required_checks :: "string list" where
  "required_checks = [''managed_path'', ''manifest'', ''environment'', ''workspace'', ''docker_daemon'',
     ''data_volume'', ''containers'', ''ownership'', ''image'']"

text \<open>A later check of the same name overrules an earlier one.\<close>

definition last_check :: "string \<Rightarrow> observation_check list \<Rightarrow> check_status option" where
  "last_check name cs = map_option oc_status (find (\<lambda>c. oc_name c = name) (rev cs))"

definition recent_report :: "api_config \<Rightarrow> timestamp \<Rightarrow> instance_view \<Rightarrow> instance_observation \<Rightarrow> bool" where
  "recent_report cfg now v b \<longleftrightarrow> io_target_generation b = generation_of v
     \<and> io_received_at b \<noteq> zero_time \<and> io_observed_at b \<noteq> zero_time
     \<and> \<not> io_received_at b > now + minutes 2 \<and> \<not> io_observed_at b > io_received_at b + minutes 2
     \<and> \<not> now - io_received_at b > ac_stale_after cfg \<and> \<not> now - io_observed_at b > ac_stale_after cfg"

text \<open>\<open>None\<close> when the instance is eligible, else the reason.\<close>

definition failed_refresh_recovery :: "api_config \<Rightarrow> timestamp \<Rightarrow> instance_view \<Rightarrow> string option" where
  "failed_refresh_recovery cfg now v =
     (if in_status v \<noteq> InstanceFailed
      then Some ''Managed runtime recovery is only available for a failed instance''
      else case iv_observation v of
          None \<Rightarrow> Some ''Refresh diagnostics to verify the retained runtime before recovery''
        | Some b \<Rightarrow>
            if \<not> recent_report cfg now v b
            then Some ''Refresh diagnostics to verify the retained runtime before recovery''
            else if last_check ''runtime'' (io_checks b) \<noteq> Some CheckDrift
            then Some ''Refresh diagnostics to confirm the failed lifecycle state before recovery''
            else if \<not> list_all (\<lambda>n. last_check n (io_checks b) = Some CheckOK) required_checks
            then Some ''Retained runtime artifacts must pass diagnostics before managed recovery''
            else None)"

section \<open>hermesUpdateStatus\<close>

definition targeting :: "string \<Rightarrow> release \<Rightarrow> update_status \<Rightarrow> update_status" where
  "targeting kind r s = s\<lparr>us_kind := kind, us_target_version := rl_version r,
     us_target_source := rl_commit r, us_target_image := rl_image r\<rparr>"

text \<open>
  The managed image of the current version was built by another control plane build: the
  runtime is refreshed at the same version.
\<close>

definition needs_refresh :: "release \<Rightarrow> string \<Rightarrow> instance_view \<Rightarrow> bool" where
  "needs_refresh latest source v \<longleftrightarrow>
     (case find_by_runtime_image (no_catalog\<lparr>ct_releases := [latest]\<rparr>) (in_image v) of
        None \<Rightarrow> False
      | Some r \<Rightarrow> fold_ascii (trim_space source) = fold_ascii (trim_space (rl_commit latest))
          \<and> rl_version r = rl_version latest \<and> rl_image latest \<noteq> in_image v)"

text \<open>The \<open>switch\<close>: a status with a target, or a final one with its reason.\<close>

definition choose_target :: "instance_view \<Rightarrow> update_status \<Rightarrow> update_status + update_status" where
  "choose_target v s =
     (if us_official_status s = ''CHECK_FAILED''
      then Inl (s\<lparr>us_reason := ''Official Hermes update information is temporarily unavailable''\<rparr>)
      else if us_official_status s = ''UNKNOWN''
      then Inl (s\<lparr>us_reason := ''The installed Hermes version could not be compared with the official release feed''\<rparr>)
      else case us_latest s of
          None \<Rightarrow> Inl (s\<lparr>us_reason := ''The official release feed did not return an installable Hermes release''\<rparr>)
        | Some latest \<Rightarrow>
            if us_official_status s = ''CURRENT'' then
              (if \<not> needs_refresh latest (us_current_source s) v
               then Inl (s\<lparr>us_reason := ''The latest official Hermes version is installed''\<rparr>)
               else Inr (targeting kind_runtime_refresh latest s))
            else Inr (targeting kind_version_update latest s))"

definition installable :: "update_status \<Rightarrow> bool" where
  "installable s \<longleftrightarrow> hermes_version_pattern (us_target_version s) \<and> hermes_commit_pattern (us_target_source s)
     \<and> validate_image_reference (us_target_image s) = None"

definition eligible_reason :: "instance_view \<Rightarrow> update_status \<Rightarrow> string" where
  "eligible_reason v s =
     (if us_kind s = kind_runtime_refresh then
        (if in_status v = InstanceFailed
         then ''Fleet can recover the retained runtime with a verified backup, refresh its managed wrapper, and restore Hermes to RUNNING''
         else ''Hermes remains on the same version while Fleet refreshes its managed runtime, verifies a rollback backup, and restores the current state'')
      else ''Fleet will prepare the release, create a verified backup, update Hermes, and restore the current runtime state'')"

definition judge_eligibility :: "api_config \<Rightarrow> timestamp \<Rightarrow> instance_view \<Rightarrow> update_status \<Rightarrow> update_status" where
  "judge_eligibility cfg now v s =
     (let state = (if in_status v = InstanceFailed \<and> us_kind s = kind_runtime_refresh
            then failed_refresh_recovery cfg now v
            else if in_status v \<noteq> InstanceRunning \<and> in_status v \<noteq> InstanceStopped
            then Some ''Wait until the instance reaches a stable running or stopped state'' else None)
      in case state of
          Some reason \<Rightarrow> s\<lparr>us_reason := reason\<rparr>
        | None \<Rightarrow>
            if \<not> has_runtime_metadata v then s\<lparr>us_reason := ''Instance runtime metadata is incomplete''\<rparr>
            else if ac_recovery cfg = None then s\<lparr>us_reason := ''Instance backup storage is unavailable''\<rparr>
            else s\<lparr>us_eligible := True, us_reason := eligible_reason v s\<rparr>)"

definition hermes_update_status ::
    "api_config \<Rightarrow> timestamp \<Rightarrow> release_catalog option option \<Rightarrow> instance_view \<Rightarrow> update_status" where
  "hermes_update_status cfg now listed v =
     (case hermes_catalog cfg listed of
        None \<Rightarrow> (initial_status no_catalog v)
          \<lparr>us_reason := ''Official Hermes update information is temporarily unavailable''\<rparr>
      | Some c \<Rightarrow>
          (case choose_target v (attach_official_release c (initial_status c v)) of
             Inl s \<Rightarrow> s
           | Inr s \<Rightarrow>
               if \<not> installable s then s\<lparr>us_reason := ''No installable Hermes release is available''\<rparr>
               else if us_target_image s = in_image v
               then s\<lparr>us_kind := kind_none,
                      us_reason := ''A Hermes update must use a new versioned image reference''\<rparr>
               else judge_eligibility cfg now v (s\<lparr>us_available := True\<rparr>)))"

definition get_hermes_update ::
    "api_config \<Rightarrow> timestamp \<Rightarrow> release_catalog option option \<Rightarrow> string \<Rightarrow> db \<Rightarrow> update_status reply" where
  "get_hermes_update cfg now listed i d =
     (case get_instance i d of
        Inl _ \<Rightarrow> Refused 404 ''instance not found''
      | Inr v \<Rightarrow> Reply 200 (hermes_update_status cfg now listed v))"

definition refresh_required_for ::
    "api_config \<Rightarrow> timestamp \<Rightarrow> release_catalog option option \<Rightarrow> instance_view \<Rightarrow> bool" where
  "refresh_required_for cfg now listed v \<longleftrightarrow>
     (let s = hermes_update_status cfg now listed v
      in us_available s \<and> us_kind s = kind_runtime_refresh)"

definition runtime_refresh_required ::
    "api_config \<Rightarrow> timestamp \<Rightarrow> release_catalog option option \<Rightarrow> string \<Rightarrow> db \<Rightarrow> bool result" where
  "runtime_refresh_required cfg now listed i d =
     and_then (get_instance i d) (\<lambda>v. Inr (refresh_required_for cfg now listed v))"

definition recovery_point_matches_instance :: "recovery_point \<Rightarrow> instance_view \<Rightarrow> bool" where
  "recovery_point_matches_instance m v \<longleftrightarrow> pt_status m = PointReady \<and> pt_verified_at m \<noteq> zero_time
     \<and> pt_instance_id m = in_id v \<and> pt_image m = in_image v \<and> pt_image_id m = in_image_id v
     \<and> pt_provider m = in_provider v \<and> pt_model m = in_model v \<and> pt_reasoning m = in_reasoning v
     \<and> pt_service_tier m = in_service_tier v \<and> pt_codex_configured m = in_codex_configured v
     \<and> pt_project_name m = in_project_name v \<and> pt_data_volume m = in_data_volume v
     \<and> pt_managed_path m = in_managed_path v"

section \<open>Queueing an update\<close>

definition update_reservation :: "request_env \<Rightarrow> instance_view \<Rightarrow> host \<Rightarrow> string \<Rightarrow> reservation" where
  "update_reservation env v h workflow =
     \<lparr>rv_instance_id = in_id v, rv_instance_name = in_name v, rv_host_id = in_host_id v,
      rv_operation_id = qe_operation_id env, rv_job_id = qe_job_id env, rv_image = in_image v,
      rv_image_id = in_image_id v, rv_provider = in_provider v, rv_model = in_model v,
      rv_reasoning = in_reasoning v, rv_service_tier = in_service_tier v,
      rv_codex_configured = in_codex_configured v, rv_project_name = in_project_name v,
      rv_data_volume = in_data_volume v, rv_managed_path = in_managed_path v,
      rv_agent_version = h_agent_version h, rv_automated = True, rv_workflow_id = workflow\<rparr>"

definition update_backup_payload :: "int \<Rightarrow> instance_view \<Rightarrow> host \<Rightarrow> recovery_point \<Rightarrow> recovery_point_payload" where
  "update_backup_payload max_bytes v h b =
     \<lparr>rp_recovery_point_id = pt_id b, rp_instance_id = in_id v, rp_name = in_name v,
      rp_image = in_image v, rp_image_id = in_image_id v, rp_provider = in_provider v,
      rp_model = in_model v, rp_reasoning = in_reasoning v, rp_service_tier = in_service_tier v,
      rp_codex_configured = in_codex_configured v, rp_project_name = in_project_name v,
      rp_data_volume = in_data_volume v, rp_managed_path = in_managed_path v,
      rp_agent_version = h_agent_version h, rp_max_bytes = max_bytes\<rparr>"

definition update_rollback :: "int \<Rightarrow> instance_view \<Rightarrow> recovery_point \<Rightarrow> recovery_restore_payload" where
  "update_rollback max_bytes v b =
     \<lparr>rt_recovery_point_id = pt_id b, rt_instance_id = in_id v, rt_name = in_name v,
      rt_image = pt_image b, rt_image_id = pt_image_id b, rt_require_image_id = True,
      rt_provider = pt_provider b, rt_model = pt_model b, rt_reasoning = pt_reasoning b,
      rt_service_tier = pt_service_tier b, rt_codex_configured = pt_codex_configured b,
      rt_project_name = pt_project_name b, rt_data_volume = pt_data_volume b,
      rt_managed_path = pt_managed_path b, rt_agent_version = pt_agent_version b,
      rt_recovery_sha256 = pt_sha256 b, rt_recovery_size_bytes = pt_size_bytes b,
      rt_max_bytes = max_bytes\<rparr>"

definition update_payload ::
    "int \<Rightarrow> instance_view \<Rightarrow> host \<Rightarrow> update_status \<Rightarrow> instance_status \<Rightarrow> recovery_point \<Rightarrow> hermes_update_payload" where
  "update_payload max_bytes v h s restore b =
     \<lparr>hp_upgrade =
        \<lparr>hu_instance_id = in_id v, hu_name = in_name v, hu_current_image = in_image v,
         hu_current_image_id = in_image_id v, hu_target_image = us_target_image s,
         hu_target_version = us_target_version s, hu_target_source = us_target_source s,
         hu_recovery_point_id = pt_id b, hu_provider = in_provider v, hu_model = in_model v,
         hu_reasoning = in_reasoning v, hu_service_tier = in_service_tier v,
         hu_codex_configured = in_codex_configured v, hu_project_name = in_project_name v,
         hu_data_volume = in_data_volume v, hu_managed_path = in_managed_path v,
         hu_api_port = in_api_port v, hu_dashboard_port = in_dashboard_port v,
         hu_rollback = update_rollback max_bytes v b\<rparr>,
      hp_backup = update_backup_payload max_bytes v h b, hp_original_status = restore\<rparr>"

definition update_operation ::
    "request_env \<Rightarrow> instance_view \<Rightarrow> update_status \<Rightarrow> instance_status \<Rightarrow> string \<Rightarrow> string \<Rightarrow> recovery_point
      \<Rightarrow> operation" where
  "update_operation env v s restore workflow actor b = pending_operation env (in_id v) workflow actor
     (OpOther ''UPGRADE_HERMES'')
     (if us_kind s = kind_runtime_refresh then ''Refresh managed Hermes runtime for '' @ in_name v
      else ''Update Hermes '' @ in_name v @ '' to '' @ us_target_version s)
     (operation_metadata
        [(''from_version'', JString (us_current_version s)), (''to_version'', JString (us_target_version s)),
         (''backup_id'', JString (pt_id b)), (''target_image'', JString (us_target_image s)),
         (''initial_status'', JString (status_name (in_status v))),
         (''original_status'', JString (status_name restore)), (''update_kind'', JString (us_kind s))])"

text \<open>The stages of \<open>hermesUpdateQueueError\<close> that can fail.\<close>

datatype update_queue_error = StageBackup point_error | StageQueue store_error

definition queue_hermes_update ::
    "api_config \<Rightarrow> point_env \<Rightarrow> request_env \<Rightarrow> instance_view \<Rightarrow> host \<Rightarrow> update_status \<Rightarrow> instance_status
      \<Rightarrow> string \<Rightarrow> string \<Rightarrow> server_state \<Rightarrow> (update_queue_error + operation) \<times> server_state" where
  "queue_hermes_update cfg points env v h us restore workflow actor s =
     (let workflow = (if workflow = '''' then qe_operation_id env else workflow);
          actor = default_actor actor;
          (r, files) = reserve_point (pe_limit points) (qe_now env) (qe_random env) (qe_tmp env)
             (update_reservation env v h workflow) (sv_points s);
          s = s\<lparr>sv_points := acts files (sv_points s)\<rparr>
      in case r of
          Inl e \<Rightarrow> (Inl (StageBackup e), s)
        | Inr b \<Rightarrow>
            let op = update_operation env v us restore workflow actor b;
                payload = encode_hermes_update (format_rfc3339_nano (pt_created_at b))
                  (update_payload (ac_max_point_bytes cfg) v h us restore b);
                j = pending_job env op (in_host_id v) JobHermesUpdate payload
            in case queue_action (in_status v) InstanceUpdating op j (sv_db s) of
                Inl e \<Rightarrow> (Inl (StageQueue e),
                  s\<lparr>sv_points := acts (snd (abort_point (pt_id b) (j_id j) (sv_points s))) (sv_points s)\<rparr>)
              | Inr d \<Rightarrow> (Inr op, s\<lparr>sv_db := d\<rparr>))"

section \<open>Starting an update\<close>

record update_request =
  uq_confirm_name :: string
  uq_workflow_id :: string
  uq_restore_status :: string

text \<open>The state the instance returns to, or the refusal.\<close>

definition restore_status_of :: "instance_view \<Rightarrow> update_status \<Rightarrow> update_request \<Rightarrow> (nat \<times> string) + instance_status" where
  "restore_status_of v us q =
     (if in_status v = InstanceFailed then
        (if us_kind us \<noteq> kind_runtime_refresh
         then Inl (409, ''a failed instance can only run managed runtime recovery'')
         else if uq_restore_status q \<noteq> ''RUNNING''
         then Inl (400, ''managed runtime recovery requires restore_status RUNNING'')
         else Inr InstanceRunning)
      else if in_status v \<noteq> InstanceRunning \<and> in_status v \<noteq> InstanceStopped
      then Inl (409, ''Hermes can only be updated from a stable running or stopped state'')
      else if uq_restore_status q \<noteq> ''''
      then Inl (400, ''restore_status is only valid for managed runtime recovery'')
      else Inr (in_status v))"

text \<open>The host of the instance, when its agent is online and of this version.\<close>

definition current_agent :: "api_config \<Rightarrow> timestamp \<Rightarrow> string \<Rightarrow> db \<Rightarrow> string \<Rightarrow> string \<Rightarrow> string + host" where
  "current_agent cfg now host_id d offline old =
     (case get_host host_id d of
        Inl _ \<Rightarrow> Inl offline
      | Inr h \<Rightarrow> if agent_offline cfg now h then Inl offline
          else if h_agent_version h \<noteq> agent_version then Inl old else Inr h)"

definition update_queue_reply :: "(update_queue_error + operation) \<Rightarrow> operation reply" where
  "update_queue_reply r = (case r of
       Inr op \<Rightarrow> Reply 202 op
     | Inl (StageBackup e) \<Rightarrow> write_recovery_error e
     | Inl (StageQueue e) \<Rightarrow> write_queue_error ''instance state changed before the Hermes update was queued'' e)"

definition start_hermes_update ::
    "api_config \<Rightarrow> bool \<Rightarrow> release_catalog option option \<Rightarrow> request_env \<Rightarrow> string \<Rightarrow> update_request
      \<Rightarrow> server_state \<Rightarrow> operation reply \<times> server_state" where
  "start_hermes_update cfg capacity_ok listed env i q s = require_operation_capacity capacity_ok s
     (case ac_recovery cfg of
        None \<Rightarrow> (Refused 503 ''instance backup storage is not configured'', s)
      | Some points \<Rightarrow>
     case get_instance i (sv_db s) of
        Inl _ \<Rightarrow> (Refused 404 ''instance not found'', s)
      | Inr v \<Rightarrow>
     if uq_confirm_name q \<noteq> in_name v then (Refused 400 ''instance name confirmation does not match'', s)
     else if \<not> valid_workflow_id (uq_workflow_id q) then (Refused 400 ''workflow identity is invalid'', s)
     else let us = hermes_update_status cfg (qe_now env) listed v in
       if \<not> us_available us \<or> \<not> us_eligible us
       then (Refused 409 ''this instance does not have an available Hermes maintenance action'', s)
       else case restore_status_of v us q of
           Inl (code, e) \<Rightarrow> (Refused code e, s)
         | Inr restore \<Rightarrow>
             (case current_agent cfg (qe_now env) (in_host_id v) (sv_db s)
                 ''the instance Host Agent is offline'' (''Hermes updates require Host Agent '' @ agent_version) of
               Inl e \<Rightarrow> (Refused 409 e, s)
             | Inr h \<Rightarrow>
                 let (r, s) = queue_hermes_update cfg points env v h us restore (uq_workflow_id q) ''FLEET_ADMIN'' s
                 in (update_queue_reply r, s)))"

end
