(* ===== verification/Api_Jobs.thy ===== *)
theory Api_Jobs
  imports Api_Updates
begin

text \<open>
  The Host Agent's side of \<open>internal/api/server.go\<close>: claiming, acknowledging and renewing a job,
  its progress, the upload, verification and download of a recovery point under the lease of the
  job, and \<open>completeJob\<close>, which settles the recovery point before it records the result and
  resets the point when the record is refused. Sealing is an argument (\<open>None\<close>: it failed); what
  the handlers start in the background (remote access, deletion cleanup) is not part of them.
\<close>

section \<open>Claims\<close>

text \<open>One point of \<open>reconcileTerminalRecoveryReservations\<close>: \<open>Inl\<close> ends the loop.\<close>

definition terminal_reservation :: "string \<Rightarrow> db \<Rightarrow> recovery_point \<Rightarrow> bool" where
  "terminal_reservation host d m \<longleftrightarrow> pt_host_id m = host \<and> open_point m
     \<and> (case get_operation (pt_operation_id m) d of
          Inl _ \<Rightarrow> False
        | Inr op \<Rightarrow> op_instance_id op = pt_instance_id m \<and> op_status op = OperationFailed)"

fun reconcile_reservations :: "string \<Rightarrow> db \<Rightarrow> recovery_point list \<Rightarrow> point_dir \<Rightarrow> point_dir" where
  "reconcile_reservations host d [] f = f"
| "reconcile_reservations host d (m # ms) f =
     (if \<not> terminal_reservation host d m then reconcile_reservations host d ms f
      else case abort_terminal (pt_id m) (pt_host_id m) (pt_job_id m) f of
          (Inr _, as) \<Rightarrow> reconcile_reservations host d ms (acts as f)
        | (Inl PointState, as) \<Rightarrow> reconcile_reservations host d ms (acts as f)
        | (Inl _, as) \<Rightarrow> acts as f)"

definition reconcile_terminal_reservations :: "api_config \<Rightarrow> string \<Rightarrow> server_state \<Rightarrow> server_state" where
  "reconcile_terminal_reservations cfg host s =
     (case ac_recovery cfg of
        None \<Rightarrow> s
      | Some _ \<Rightarrow>
          (case list_points '''' (sv_points s) of
             Inl _ \<Rightarrow> s
           | Inr ms \<Rightarrow> s\<lparr>sv_points := reconcile_reservations host (sv_db s) ms (sv_points s)\<rparr>))"

definition claim_job_handler ::
    "api_config \<Rightarrow> string \<Rightarrow> timestamp \<Rightarrow> string \<Rightarrow> server_state \<Rightarrow> job option reply \<times> server_state" where
  "claim_job_handler cfg host now token s =
     (case claim_job host job_lease_duration now token (sv_db s) of
        Inl _ \<Rightarrow> (Refused 500 ''job claim failed'', s)
      | Inr (j, d) \<Rightarrow>
          (case j of None \<Rightarrow> Reply 204 None | Some j \<Rightarrow> Reply 200 (Some j),
           reconcile_terminal_reservations cfg host (s\<lparr>sv_db := d\<rparr>)))"

definition on_db :: "string \<Rightarrow> db result \<Rightarrow> server_state \<Rightarrow> unit reply \<times> server_state" where
  "on_db conflict r s =
     (case r of Inl _ \<Rightarrow> (Refused 409 conflict, s) | Inr d \<Rightarrow> (Reply 204 (), s\<lparr>sv_db := d\<rparr>))"

definition ack_job_handler ::
    "string \<Rightarrow> string \<Rightarrow> string \<Rightarrow> timestamp \<Rightarrow> server_state \<Rightarrow> unit reply \<times> server_state" where
  "ack_job_handler host job_id token now s = on_db ''job is not available for acknowledgement''
     (acknowledge_job job_lease_duration host job_id token now (sv_db s)) s"

definition renew_job_handler ::
    "string \<Rightarrow> string \<Rightarrow> string \<Rightarrow> timestamp \<Rightarrow> server_state \<Rightarrow> unit reply \<times> server_state" where
  "renew_job_handler host job_id token now s = on_db ''job lease is no longer active''
     (renew_job job_lease_duration host job_id token now (sv_db s)) s"

definition job_progress_handler ::
    "(string \<Rightarrow> (parsed_url \<times> string) option) \<Rightarrow> string \<Rightarrow> string \<Rightarrow> string \<Rightarrow> job_progress \<Rightarrow> timestamp
      \<Rightarrow> server_state \<Rightarrow> unit reply \<times> server_state" where
  "job_progress_handler parse_request host job_id token p now s =
     (case job_metadata host job_id token now (sv_db s) of
        Inl _ \<Rightarrow> (Refused 409 ''job lease is no longer active'', s)
      | Inr (_, t) \<Rightarrow>
          (case validate_job_progress parse_request t p now of
             Some e \<Rightarrow> (Refused 400 e, s)
           | None \<Rightarrow> on_db ''job lease is no longer active''
               (update_job_progress p host job_id token now (sv_db s)) s))"

section \<open>Completion\<close>

definition store_conflict :: "store_error \<Rightarrow> bool" where
  "store_conflict e \<longleftrightarrow> (case e of
       ErrLeaseLost \<Rightarrow> True | ErrStateChanged \<Rightarrow> True | ErrInvalidJobResult _ \<Rightarrow> True | _ \<Rightarrow> False)"

definition point_conflict :: "point_error \<Rightarrow> bool" where
  "point_conflict e \<longleftrightarrow> (case e of
       PointNotFound \<Rightarrow> True | PointState \<Rightarrow> True | PointFence f \<Rightarrow> store_conflict f | _ \<Rightarrow> False)"

definition integrity_error :: "point_error \<Rightarrow> bool" where
  "integrity_error e \<longleftrightarrow> (case e of PointIntegrity _ \<Rightarrow> True | _ \<Rightarrow> False)"

definition rejected_text :: string where
  "rejected_text = ''control plane rejected the instance backup integrity or archive manifest''"

text \<open>The point of this job in the given state.\<close>

definition settled_as :: "point_status \<Rightarrow> string \<Rightarrow> string \<Rightarrow> (point_error + recovery_point) \<Rightarrow> recovery_point option" where
  "settled_as st host job r =
     (case r of
        Inl _ \<Rightarrow> None
      | Inr m \<Rightarrow> if pt_status m = st \<and> pt_host_id m = host \<and> pt_job_id m = job then Some m else None)"

text \<open>
  What \<open>completeJob\<close> does with the recovery point of the result: an error, or the result that is
  recorded. A point that was already settled decides the result.
\<close>

definition failed_settlement ::
    "string \<Rightarrow> string \<Rightarrow> string \<Rightarrow> job_result \<Rightarrow> point_dir \<Rightarrow> (point_error option \<times> job_result) \<times> point_dir" where
  "failed_settlement tmp host job r f =
     (let (out, as) = fail_point tmp (jx_recovery_point_id r) host job (jx_error r) f
      in ((case out of Inl e \<Rightarrow> Some e | Inr _ \<Rightarrow> None, r), acts as f))"

definition settle_point ::
    "point_env \<Rightarrow> timestamp \<Rightarrow> string \<Rightarrow> job_type \<Rightarrow> string \<Rightarrow> string \<Rightarrow> job_result \<Rightarrow> point_dir
      \<Rightarrow> (point_error option \<times> job_result) \<times> point_dir" where
  "settle_point pe now tmp t host job r f =
     (let i = jx_recovery_point_id r; existing = get_point i f in
      case settled_as PointReady host job existing of
        Some m \<Rightarrow>
          ((None, (if t = JobRecoveryCreate then r\<lparr>jx_success := True, jx_error := ''''\<rparr> else r)
             \<lparr>jx_recovery_sha256 := pt_sha256 m, jx_recovery_size := pt_size_bytes m\<rparr>), f)
      | None \<Rightarrow>
      case settled_as PointFailed host job existing of
        Some m \<Rightarrow> ((None, r\<lparr>jx_success := False, jx_error := pt_error m\<rparr>), f)
      | None \<Rightarrow>
          if jx_success r then
            (case verify_uploaded (pe_unseal pe) (pe_untar pe) (pe_key pe) (pe_max_bytes pe) now tmp i host job
                 (jx_recovery_sha256 r) (jx_recovery_size r) f of
               (Inr _, as) \<Rightarrow> ((None, r), acts as f)
             | (Inl e, as) \<Rightarrow>
                 if integrity_error e
                 then failed_settlement tmp host job (r\<lparr>jx_success := False, jx_error := rejected_text\<rparr>) (acts as f)
                 else ((Some e, r), acts as f))
          else failed_settlement tmp host job r f)"

definition reset_after :: "string \<Rightarrow> string \<Rightarrow> string \<Rightarrow> string \<Rightarrow> server_state \<Rightarrow> server_state" where
  "reset_after tmp i host job s =
     s\<lparr>sv_points := acts (snd (reset_point tmp i host job (sv_points s))) (sv_points s)\<rparr>"

definition keeps_recovery_point :: "job_type \<Rightarrow> bool" where
  "keeps_recovery_point t \<longleftrightarrow> t = JobRecoveryCreate \<or> t = JobHermesUpdate"

text \<open>The chat result, sealed for its session.\<close>

definition chat_message_seal_context :: "string \<Rightarrow> string" where
  "chat_message_seal_context i = ''chat-message:'' @ i"

definition seal_chat_result ::
    "(string \<Rightarrow> string \<Rightarrow> string option) \<Rightarrow> string \<Rightarrow> string \<Rightarrow> string \<Rightarrow> timestamp \<Rightarrow> job_type \<Rightarrow> job_result \<Rightarrow> db
      \<Rightarrow> (nat \<times> string) + job_result" where
  "seal_chat_result seal_text host job token now t r d =
     (if \<not> (t = JobChatSend \<and> jx_success r) then Inr r
      else if jx_chat_message r = '''' \<or> length (jx_chat_message r) > maximum_json_body_bytes
      then Inl (400, ''chat result is missing or too large'')
      else case active_job_payload t host job token now d of
          Inl _ \<Rightarrow> Inl (409, ''chat result no longer matches the active job'')
        | Inr payload \<Rightarrow>
            (case decode_chat_send payload of
               None \<Rightarrow> Inl (409, ''chat result no longer matches the active job'')
             | Some p \<Rightarrow>
                 if cs_session_id p = '''' then Inl (409, ''chat result no longer matches the active job'')
                 else (case seal_text (jx_chat_message r) (chat_message_seal_context (cs_session_id p)) of
                     None \<Rightarrow> Inl (500, ''chat result could not be encrypted'')
                   | Some c \<Rightarrow> Inr (r\<lparr>jx_chat_ciphertext := c\<rparr>))))"

definition seal_credentials_result ::
    "(string \<times> string \<times> string \<Rightarrow> string \<Rightarrow> string option) \<Rightarrow> string \<Rightarrow> timestamp \<Rightarrow> job_type \<Rightarrow> job_result
      \<Rightarrow> (nat \<times> string) + encrypted_reveal option" where
  "seal_credentials_result seal_credentials op now t r =
     (case jx_credentials r of
        None \<Rightarrow> Inr None
      | Some c \<Rightarrow>
          if t \<noteq> JobInspectCredentials \<or> \<not> jx_success r
          then Inl (400, ''credential result does not match an active inspection job'')
          else (case seal_credentials c op of
              None \<Rightarrow> Inl (500, ''credential result could not be encrypted'')
            | Some e \<Rightarrow> Inr (Some \<lparr>er_ciphertext = e, er_expires_at = now + minutes 5\<rparr>)))"

definition carries_recovery_result :: "job_result \<Rightarrow> bool" where
  "carries_recovery_result r \<longleftrightarrow>
     jx_recovery_point_id r \<noteq> '''' \<or> jx_recovery_sha256 r \<noteq> '''' \<or> jx_recovery_size r \<noteq> 0"

text \<open>The record of the result, after the recovery point was settled.\<close>

definition record_result ::
    "string \<Rightarrow> job_type \<Rightarrow> string \<Rightarrow> string \<Rightarrow> string \<Rightarrow> string \<Rightarrow> timestamp \<Rightarrow> job_result
      \<Rightarrow> encrypted_reveal option \<Rightarrow> server_state \<Rightarrow> unit reply \<times> server_state" where
  "record_result tmp t hash host job token now r reveal s =
     (case complete_job_with_hash hash r reveal host job token now (sv_db s) of
        Inr d \<Rightarrow> (Reply 204 (), s\<lparr>sv_db := d\<rparr>)
      | Inl e \<Rightarrow>
          (if store_conflict e then Refused 409 ''job lease or state no longer accepts this result''
           else Refused 500 ''job result could not be recorded'',
           if keeps_recovery_point t then reset_after tmp (jx_recovery_point_id r) host job s else s))"

record sealer =
  sl_text :: "string \<Rightarrow> string \<Rightarrow> string option"
  sl_credentials :: "string \<times> string \<times> string \<Rightarrow> string \<Rightarrow> string option"

definition first_completion ::
    "api_config \<Rightarrow> sealer \<Rightarrow> timestamp \<Rightarrow> string \<Rightarrow> string \<Rightarrow> string \<Rightarrow> string \<Rightarrow> string \<Rightarrow> string \<Rightarrow> job_type
      \<Rightarrow> job_result \<Rightarrow> server_state \<Rightarrow> unit reply \<times> server_state" where
  "first_completion cfg sealer now tmp hash host job token op t r s =
     (case seal_chat_result (sl_text sealer) host job token now t r (sv_db s) of
        Inl (code, e) \<Rightarrow> (Refused code e, s)
      | Inr r \<Rightarrow>
     case seal_credentials_result (sl_credentials sealer) op now t r of
        Inl (code, e) \<Rightarrow> (Refused code e, s)
      | Inr reveal \<Rightarrow>
     if \<not> keeps_recovery_point t then
       (if carries_recovery_result r then (Refused 400 ''instance backup result does not match the active job'', s)
        else record_result tmp t hash host job token now r reveal s)
     else case ac_recovery cfg of
         None \<Rightarrow> (Refused 400 ''instance backup result is incomplete'', s)
       | Some pe \<Rightarrow>
           if jx_recovery_point_id r = '''' then (Refused 400 ''instance backup result is incomplete'', s)
           else let ((err, r'), f) = settle_point pe now tmp t host job r (sv_points s);
                    s = s\<lparr>sv_points := f\<rparr>
             in case err of
                 Some e \<Rightarrow>
                   (if point_conflict e then Refused 409 ''instance backup artifact conflicts with the active job''
                    else Refused 500 ''instance backup artifact could not be finalized'',
                    reset_after tmp (jx_recovery_point_id r) host job s)
               | None \<Rightarrow> record_result tmp t hash host job token now r' reveal s)"

definition complete_job_handler ::
    "api_config \<Rightarrow> sealer \<Rightarrow> timestamp \<Rightarrow> string \<Rightarrow> string \<Rightarrow> string \<Rightarrow> string \<Rightarrow> string \<Rightarrow> job_result
      \<Rightarrow> server_state \<Rightarrow> unit reply \<times> server_state" where
  "complete_job_handler cfg sealer now tmp hash host job token r s =
     (case completion_job_metadata host job token now (sv_db s) of
        Inl e \<Rightarrow>
          (if store_conflict e then Refused 409 ''job lease is no longer active''
           else Refused 500 ''job completion metadata could not be loaded'', s)
      | Inr (op, t, st) \<Rightarrow>
          if st = JobSucceeded \<or> st = JobFailed then
            (case complete_job_with_hash hash r None host job token now (sv_db s) of
               Inl e \<Rightarrow>
                 (if store_conflict e then Refused 409 ''job result does not match the recorded completion''
                  else Refused 500 ''job completion retry could not be verified'', s)
             | Inr d \<Rightarrow> (Reply 204 (), s\<lparr>sv_db := d\<rparr>))
          else first_completion cfg sealer now tmp hash host job token op t r s)"

end
