(* ===== verification/Properties_Backups.thy ===== *)
theory Properties_Backups
  imports Api_Jobs Properties_Storage Sample_Fleet
begin

text \<open>
  A backup from the recovery point storage to the record of its job: what \<open>completeJob\<close> has checked
  when it tells the Host Agent that a recovery point was created.
\<close>

section \<open>Recovery points and completions\<close>

lemma reached_script: "reached e d \<Longrightarrow> call_ok c d \<Longrightarrow> script e c d = as \<Longrightarrow> reached e (acts as d)"
  using Done by blast

lemma fail_reached: "reached e d \<Longrightarrow> reached e (acts (snd (fail_point tmp i host job message d)) d)"
  by (rule reached_script[where c = "Fail tmp i host job message"]) simp_all

lemma reset_reached: "reached e d \<Longrightarrow> reached e (acts (snd (reset_point tmp i host job d)) d)"
  by (rule reached_script[where c = "ResetForRetry tmp i host job"]) simp_all

lemma verify_reached:
  assumes "reached e d" "now \<noteq> zero_time"
  shows "reached e (acts (snd (verify_uploaded (pe_unseal e) (pe_untar e) (pe_key e) (pe_max_bytes e) now tmp i
    host job digest expected d)) d)"
  by (rule reached_script[OF assms(1), where c = "VerifyUploaded now tmp i host job digest expected"])
    (simp_all add: assms(2))

definition ready_for :: "string \<Rightarrow> string \<Rightarrow> string \<Rightarrow> point_dir \<Rightarrow> bool" where
  "ready_for host job i d \<longleftrightarrow>
     (\<exists>m. get_point i d = Inr m \<and> pt_status m = PointReady \<and> pt_host_id m = host \<and> pt_job_id m = job)"

lemma verify_uploaded_ready:
  assumes "reached e d" "now \<noteq> zero_time"
    and "verify_uploaded (pe_unseal e) (pe_untar e) (pe_key e) (pe_max_bytes e) now tmp i host job
      digest expected d = (Inr m', as)"
  shows "ready_for host job i (acts as d)"
proof -
  obtain m where m: "get_point i d = Inr m" "m' = m\<lparr>pt_status := PointReady, pt_verified_at := now\<rparr>"
    "as = write_point tmp m'" "pt_host_id m = host" "pt_job_id m = job"
    using assms(3) by (auto simp: verify_uploaded_def with_point_def refuse_def Let_def
        split: sum.splits if_splits option.splits)
  have ok: "consistent (point_checked e) d" "consistent (point_checked e) (acts as d)"
    using reached_consistent assms(1) verify_reached[OF assms(1,2), of tmp i host job digest expected]
    by (auto simp: assms(3))
  note g = get_point_meta[OF m(1)]
  have "pt_id m' = i" using consistent_meta(1)[OF ok(1) g(1)] m(2) by simp
  then have "map_of (acts as d) (MetaFile i) = Some (Meta_Content m')"
    unfolding m(3) by (simp add: write_point_def map_of_act)
  then have "get_point i (acts as d) = Inr m'" using consistent_get[OF ok(2), of i] g(2) by simp
  then show ?thesis using m by (simp add: ready_for_def)
qed

lemma settled_as_ready:
  "settled_as PointReady host job (get_point i d) = Some m \<Longrightarrow> ready_for host job i d"
  by (auto simp: settled_as_def ready_for_def split: sum.splits if_splits)

lemma settle_point_reached:
  assumes "reached e f" "now \<noteq> zero_time"
  shows "reached e (snd (settle_point e now tmp t host job r f))"
  using assms verify_reached[OF assms, of tmp "jx_recovery_point_id r" host job "jx_recovery_sha256 r" "jx_recovery_size r"]
  by (auto simp: settle_point_def failed_settlement_def Let_def fail_reached
      split: option.splits prod.splits sum.splits)
    (metis fail_reached snd_conv)+

lemma settle_point_ready:
  assumes "reached e f" "now \<noteq> zero_time"
    and "settle_point e now tmp t host job r f = ((None, r'), f')" "jx_success r'"
  shows "ready_for host job (jx_recovery_point_id r) f'"
  using assms settled_as_ready verify_uploaded_ready[OF assms(1,2)]
  by (auto simp: settle_point_def failed_settlement_def Let_def
      split: option.splits prod.splits sum.splits if_splits)

lemma record_result_Reply:
  assumes "record_result tmp t hash host job token now r reveal s = (Reply c (), s')"
  shows "complete_job_with_hash hash r reveal host job token now (sv_db s) = Inr (sv_db s')"
    "sv_points s' = sv_points s"
  using assms by (auto simp: record_result_def split: sum.splits if_splits)

lemma first_completion_backup:
  assumes "first_completion cfg sealer now tmp hash host job token op t r s = (Reply c (), s')"
    and "keeps_recovery_point t"
  obtains pe r' reveal f where "ac_recovery cfg = Some pe"
    "settle_point pe now tmp t host job r (sv_points s) = ((None, r'), f)" "sv_points s' = f"
    "complete_job_with_hash hash r' reveal host job token now (sv_db s) = Inr (sv_db s')"
proof -
  have "seal_chat_result seal host job token now t r d = Inr r" for seal d
    using assms(2) by (auto simp: seal_chat_result_def keeps_recovery_point_def)
  then obtain pe r' reveal f where p: "ac_recovery cfg = Some pe"
    "settle_point pe now tmp t host job r (sv_points s) = ((None, r'), f)"
    "record_result tmp t hash host job token now r' reveal (s\<lparr>sv_points := f\<rparr>) = (Reply c (), s')"
    using assms
    by (auto simp: first_completion_def Let_def split: sum.splits option.splits prod.splits if_splits)
  then show thesis using that[OF p(1,2)] record_result_Reply[OF p(3)] by simp
qed

lemma finished_row:
  assumes "complete_job_with_hash hash r reveal h i t now d = Inr d'" "distinct (map j_id (db_jobs d))"
    and "j \<in> set (db_jobs d)" "j' \<in> set (db_jobs d')" "j_id j' = j_id j"
    and "j_status j = JobRunning" "j_status j' = JobSucceeded"
  shows "jx_success r"
  using complete_job_jobs[OF assms(1)]
proof
  assume "d' = d"
  then show ?thesis using unique_row[OF assms(2), of j j'] assms(3-7) by simp
next
  assume "length hash = 64 \<and> count_where (held_in JobRunning h i t now) (db_jobs d) = 1
     \<and> db_jobs d' = update_where (held_in JobRunning h i t now)
        (finish_row now (job_result_status r) hash) (db_jobs d)"
  then obtain q where q: "q \<in> set (db_jobs d)"
    "j' = (if held_in JobRunning h i t now q then finish_row now (job_result_status r) hash q else q)"
    using assms(4) by (auto simp: set_update_where)
  then have "j_id q = j_id j" using assms(5) by (simp add: finish_row_def split: if_splits)
  then have "q = j" using unique_row[OF assms(2), of q j] q(1) assms(3) by simp
  then show ?thesis using q(2) assms(6,7)
    by (auto simp: finish_row_def job_result_status_def split: if_splits)
qed

lemma completion_metadata_row:
  assumes "completion_job_metadata host job token now d = Inr (op, t, st)"
    and "distinct (map j_id (db_jobs d))" "j \<in> set (db_jobs d)" "j_id j = job"
  shows "t = j_type j" "st = j_status j"
proof -
  obtain q where q: "find (completable host job token now) (db_jobs d) = Some q" "t = j_type q" "st = j_status q"
    using assms(1) by (auto simp: completion_job_metadata_def split: option.splits)
  have "q \<in> set (db_jobs d) \<and> completable host job token now q" by (rule find_SomeD[OF q(1)])
  then have "q = j" using unique_row[OF assms(2), of q j] assms(3,4) by (auto simp: completable_def holds_token_def)
  then show "t = j_type j" "st = j_status j" using q by simp_all
qed

text \<open>C2. A backup that is reported as succeeded can be restored. If the handler answers 204 to the
  Host Agent and records the running backup or update job as succeeded, the recovery point that the
  result names is \<open>READY\<close> in the storage, it belongs to this host and this job, and the storage is
  still in a state that its own operations reach.\<close>

theorem completed_backup_is_ready:
  assumes "complete_job_handler cfg sealer now tmp hash host job token r s = (Reply 204 (), s')"
    and "ac_recovery cfg = Some pe" "reached pe (sv_points s)" "now \<noteq> zero_time"
    and "distinct (map j_id (db_jobs (sv_db s)))"
    and "j \<in> set (db_jobs (sv_db s))" "j_id j = job" "j_status j = JobRunning" "keeps_recovery_point (j_type j)"
    and "j' \<in> set (db_jobs (sv_db s'))" "j_id j' = job" "j_status j' = JobSucceeded"
  shows "reached pe (sv_points s') \<and> (\<exists>m. get_point (jx_recovery_point_id r) (sv_points s') = Inr m
     \<and> pt_status m = PointReady \<and> pt_host_id m = host \<and> pt_job_id m = job)"
proof -
  obtain op t st where m: "completion_job_metadata host job token now (sv_db s) = Inr (op, t, st)"
    using assms(1) by (auto simp: complete_job_handler_def split: sum.splits if_splits)
  note row = completion_metadata_row[OF m assms(5-7)]
  have "first_completion cfg sealer now tmp hash host job token op t r s = (Reply 204 (), s')"
    using assms(1,8) row by (simp add: complete_job_handler_def m)
  then obtain r' reveal where f: "settle_point pe now tmp t host job r (sv_points s) = ((None, r'), sv_points s')"
    "complete_job_with_hash hash r' reveal host job token now (sv_db s) = Inr (sv_db s')"
    using first_completion_backup assms(2,9) row(1) by (metis option.inject)
  have "jx_success r'" using finished_row[OF f(2) assms(5,6,10)] assms(7,8,11,12) by simp
  then show ?thesis
    using settle_point_ready[OF assms(3,4) f(1)] settle_point_reached[OF assms(3,4), of tmp t host job r] f(1)
    by (simp add: ready_for_def)
qed

text \<open>A fleet that runs the backup of the sample point.\<close>

definition backup_fleet :: db where
  "backup_fleet =
     after (acknowledge_job 100 ''h1'' ''j1'' ''token'' 20
       (claimed (claim_job ''h1'' 100 10 ''token''
         (after (queue_action InstanceRunning InstanceUpdating (sample_operation ''o1'' (OpOther ''BACKUP'') 1)
            (sample_job ''j1'' ''o1'' JobRecoveryCreate (Some (JObject [])) 1) idle_fleet) idle_fleet))
         idle_fleet)) idle_fleet"

definition backup_row :: job_row where
  "backup_row = hd (db_jobs backup_fleet)"

definition backup_result :: "string \<Rightarrow> int \<Rightarrow> job_result" where
  "backup_result sha n = (plain_result True)\<lparr>jx_recovery_point_id := pt_id sample_point,
     jx_recovery_sha256 := sha, jx_recovery_size := n\<rparr>"

definition sample_config :: api_config where
  "sample_config = \<lparr>ac_offline_after = minutes 2, ac_stale_after = minutes 5, ac_catalog = no_catalog,
     ac_recovery = Some sample_env, ac_max_point_bytes = 1000\<rparr>"

definition sample_sealer :: sealer where
  "sample_sealer = \<lparr>sl_text = (\<lambda>t c. Some t), sl_credentials = (\<lambda>c op. None)\<rparr>"

lemma backup_fleet_jobs: "db_jobs backup_fleet = [backup_row]"
  by code_simp

lemma backup_row_fields:
  "held_in JobRunning ''h1'' ''j1'' ''token'' 30 backup_row" "completable ''h1'' ''j1'' ''token'' 30 backup_row"
  "j_type backup_row = JobRecoveryCreate" "j_status backup_row = JobRunning" "j_id backup_row = ''j1''"
  "operation_exists backup_fleet (j_operation_id backup_row)" "j_operation_id backup_row = ''o1''"
  "Store_Leases.operation_metadata backup_fleet ''o1'' = Some (Some (JObject []))"
  by code_simp+

lemma backup_checked:
  assumes "length sha = 64" "1 \<le> n"
  shows "\<exists>p. check_completion now backup_row (backup_result sha n) None = Inr p \<and> pl_profiles p = None
    \<and> pl_capabilities p = None \<and> pl_skill_content p = None \<and> pl_restore p = None
    \<and> pl_upgrade p = None \<and> pl_update p = None \<and> pl_instance_status p = InstanceStopped
    \<and> pl_project_name p = '''' \<and> pl_data_volume p = '''' \<and> pl_managed_path p = '''' \<and> pl_image_id p = ''''"
  using assms sample_point_fields(1)
  by (simp add: check_completion_def check_common_def check_recovery_identity_def check_by_type_def check_after_def
      backup_row_fields backup_result_def plain_result_def require_def guard_def initial_completion_def
      spares_instance_def reports_instance_status_def no_runtime_metadata_def no_paths_def
      initial_instance_status_def)


lemma backup_recorded:
  assumes "length sha = 64" "1 \<le> n"
  shows "\<exists>d'. complete_job_with_hash hash_a (backup_result sha n) None ''h1'' ''j1'' ''token'' 30 backup_fleet = Inr d'
    \<and> finish_row 30 JobSucceeded hash_a backup_row \<in> set (db_jobs d')"
proof -
  obtain p where p: "check_completion 30 backup_row (backup_result sha n) None = Inr p" "pl_profiles p = None"
    "pl_capabilities p = None" "pl_skill_content p = None" "pl_restore p = None"
    "pl_upgrade p = None" "pl_update p = None" "pl_instance_status p = InstanceStopped"
    "pl_project_name p = ''''" "pl_data_volume p = ''''" "pl_managed_path p = ''''" "pl_image_id p = ''''"
    using backup_checked[OF assms] by blast
  have inst: "db_instances backup_fleet = [sample_instance\<lparr>in_status := InstanceUpdating, in_updated_at := 1\<rparr>]"
    by code_simp
  have hash: "hex_decodes hash_a" "length hash_a = 64" by code_simp+
  show ?thesis
    using p inst hash backup_row_fields backup_fleet_jobs
    by (simp add: complete_job_with_hash_def require_def guard_def terminal_status_def apply_completion_def
        count_where_def apply_effects_def record_inventories_def stored_metadata_def record_instance_result_def
        complete_chat_def record_desired_state_def restore_desired_state_def upgrade_desired_state_def
        update_desired_state_def configure_desired_state_def complete_config_def clear_deleted_requests_def
        store_reveal_def complete_remediation_def spares_instance_def update_instances_def Let_def
        record_operation_result_def job_result_status_def backup_result_def plain_result_def)
qed

theorem completed_backup_is_ready_witness:
  "\<exists>s s' m. complete_job_handler sample_config sample_sealer 30 ''t4'' hash_a ''h1'' ''j1'' ''token''
       (backup_result '''' 0) s = (Reply 204 (), s')
     \<and> get_point (pt_id sample_point) (sv_points s') = Inr m \<and> pt_status m = PointReady"
proof -
  obtain f m where f: "reached sample_env f" "get_point (pt_id sample_point) f = Inr m" "pt_status m = PointReady"
    "pt_host_id m = ''h1''" "pt_job_id m = ''j1''" "pt_size_bytes m = 3" "pt_sha256 m = hex_encode (sha256 [1, 2, 3])"
    using sample_becomes_ready by auto
  have sha: "length (pt_sha256 m) = 64" unfolding f(7) by (simp add: length_sha256)
  from backup_recorded[OF sha, of 3] obtain d' where d': "complete_job_with_hash hash_a
      (backup_result (pt_sha256 m) 3) None ''h1'' ''j1'' ''token'' 30 backup_fleet = Inr d'"
    "finish_row 30 JobSucceeded hash_a backup_row \<in> set (db_jobs d')" by auto
  let ?s = "\<lparr>sv_db = backup_fleet, sv_points = f\<rparr>" and ?s' = "\<lparr>sv_db = d', sv_points = f\<rparr>"
  have "completion_job_metadata ''h1'' ''j1'' ''token'' 30 backup_fleet = Inr (''o1'', JobRecoveryCreate, JobRunning)"
    by code_simp
  then have h: "complete_job_handler sample_config sample_sealer 30 ''t4'' hash_a ''h1'' ''j1'' ''token''
      (backup_result '''' 0) ?s = (Reply 204 (), ?s')"
    using f d'(1) sample_point_fields(1)
    by (simp add: complete_job_handler_def first_completion_def seal_chat_result_def seal_credentials_result_def
        keeps_recovery_point_def sample_config_def settle_point_def settled_as_def record_result_def Let_def
        backup_result_def plain_result_def)
  have i: "jx_recovery_point_id (backup_result '''' 0) = pt_id sample_point" by (simp add: backup_result_def)
  have "reached sample_env (sv_points ?s') \<and> (\<exists>m. get_point (jx_recovery_point_id (backup_result '''' 0)) (sv_points ?s') = Inr m
     \<and> pt_status m = PointReady \<and> pt_host_id m = ''h1'' \<and> pt_job_id m = ''j1'')"
    by (rule completed_backup_is_ready[OF h, where j = backup_row and j' = "finish_row 30 JobSucceeded hash_a backup_row"])
      (use f d'(2) backup_row_fields in \<open>simp_all add: sample_config_def zero_time_def backup_fleet_jobs
        keeps_recovery_point_def finish_row_def\<close>)
  then show ?thesis unfolding i by (intro exI[of _ ?s] exI[of _ ?s']) (use h in auto)
qed

end
