(* ===== verification/Properties_Updates.thy ===== *)
theory Properties_Updates
  imports Properties_Backups
begin

text \<open>
  A Hermes update from the request to the queue: \<open>startHermesUpdate\<close> composes the release catalog,
  the storage and the queue, and takes back what it did when one of them refuses.
\<close>

section \<open>Refused updates\<close>

text \<open>An action that neither writes nor moves a metadata file to its place.\<close>

fun no_publication :: "file_action \<Rightarrow> bool" where
  "no_publication (PutFile n f) = (meta_id n = [])"
| "no_publication (RemoveFile n) = True"
| "no_publication (RenameFile n p) = (meta_id p = [])"

definition no_new_point :: "point_dir \<Rightarrow> point_dir \<Rightarrow> bool" where
  "no_new_point d d' \<longleftrightarrow> (\<forall>i. map_of d' (MetaFile i) \<in> {None, map_of d (MetaFile i)})"

lemma no_new_point_trans: "no_new_point a b \<Longrightarrow> no_new_point b c \<Longrightarrow> no_new_point a c"
  unfolding no_new_point_def by (metis insert_iff singletonD)

lemma no_new_point_refl: "no_new_point d d"
  by (simp add: no_new_point_def)

lemma act_no_publication: "no_publication a \<Longrightarrow> no_new_point d (act a d)"
  by (cases a) (auto simp: no_new_point_def map_of_act split: option.splits)

lemma acts_no_publication: "list_all no_publication as \<Longrightarrow> no_new_point d (acts as d)"
proof (induction as arbitrary: d)
  case (Cons a as)
  then show ?case using no_new_point_trans[OF act_no_publication] by auto
qed (simp add: no_new_point_refl)

lemma removals_no_publication:
  "list_all no_publication (map (\<lambda>m. RemoveFile (MetaFile (pt_id m))) ms)"
  "list_all no_publication (delete_locked m)"
  "rotate_points limit b items = Inr rotation \<Longrightarrow> list_all no_publication rotation"
  by (auto simp: list_all_iff delete_locked_def rotate_points_def split: if_splits option.splits)

text \<open>A reservation removes points and, when it succeeds, writes the new one last.\<close>

lemma reserve_point_actions:
  obtains (refused) e as where "reserve_point limit now random tmp r d = (Inl e, as)" "list_all no_publication as"
  | (reserved) as where "reserve_point limit now random tmp r d
        = (Inr (new_point now random r), as @ write_point tmp (new_point now random r))"
      "list_all no_publication as"
proof (cases "list_points (rv_instance_id r) d")
  case (Inl e)
  then show thesis using refused by (simp add: reserve_point_def refuse_def)
next
  case (Inr items)
  let ?removals = "map (\<lambda>m. RemoveFile (MetaFile (pt_id m))) (filter (stale_reservation now) items)"
  let ?items = "filter (\<lambda>m. \<not> stale_reservation now m) items"
  show thesis
  proof (cases "rotate_points limit (rv_automated r) ?items")
    case rot: (Inl e)
    show thesis
      by (rule refused[of e ?removals], use rot Inr in \<open>simp add: reserve_point_def Let_def\<close>)
        (rule removals_no_publication(1))
  next
    case rot: (Inr rotation)
    have ok: "list_all no_publication (?removals @ rotation)"
      unfolding list_all_append using removals_no_publication(1) removals_no_publication(3)[OF rot] by blast
    let ?m = "new_point now random r"
    have cases: "reserve_point limit now random tmp r d =
       (if list_ex open_point ?items then (Inl PointBusy, ?removals @ rotation)
        else case validate_point ?m of Some e \<Rightarrow> (Inl e, ?removals @ rotation)
          | None \<Rightarrow> (Inr ?m, (?removals @ rotation) @ write_point tmp ?m))"
      using Inr rot by (simp add: reserve_point_def Let_def split: option.splits)
    show thesis
      by (cases "list_ex open_point ?items"; cases "validate_point ?m")
        (use cases refused[OF _ ok] reserved[OF _ ok] in \<open>simp_all del: append_assoc\<close>)
  qed
qed

lemma abort_reserved:
  assumes "consistent v d" "get_point i d = Inr m" "pt_job_id m = job" "pt_status m = PointCreating"
  shows "map_of (acts (snd (abort_point i job d)) d) = (map_of d)(MetaFile i := None)"
  using assms by (simp add: abort_point_def with_point_def map_of_act)


lemma reserve_reached:
  assumes "reached e d" "map_of d (MetaFile (''recovery-'' @ random)) = None"
  shows "reached e (acts (snd (reserve_point (pe_limit e) now random tmp r d)) d)"
  by (rule reached_script[OF assms(1), where c = "Reserve now random tmp r"]) (use assms(2) in simp_all)

lemma abort_reached: "reached e d \<Longrightarrow> reached e (acts (snd (abort_point i job d)) d)"
  by (rule reached_script[where c = "Abort i job"]) simp_all

lemma no_new_point_get:
  assumes "reached e d" "reached e d'" "no_new_point d d'" "get_point i d' = Inr m"
  shows "get_point i d = Inr m"
proof -
  note g = get_point_meta[OF assms(4)]
  then have "map_of d (MetaFile i) = Some (Meta_Content m)"
    using assms(3) unfolding no_new_point_def by (metis insertE option.distinct(1) singletonD)
  then show ?thesis using consistent_get[of "point_checked e" d i] reached_consistent[OF assms(1)] g(2) by simp
qed

text \<open>A reservation that is aborted leaves nothing behind.\<close>

lemma aborted_reservation:
  assumes "reached e d" "map_of d (MetaFile (''recovery-'' @ random)) = None"
    and "reserve_point (pe_limit e) now random tmp r d = (Inr b, as)"
  shows "reached e (acts (snd (abort_point (pt_id b) (rv_job_id r) (acts as d))) (acts as d))
    \<and> no_new_point d (acts (snd (abort_point (pt_id b) (rv_job_id r) (acts as d))) (acts as d))"
proof -
  obtain as' where as: "b = new_point now random r" "as = as' @ write_point tmp b" "list_all no_publication as'"
    by (rule reserve_point_actions[of "pe_limit e" now random tmp r d]) (use assms(3) in auto)
  let ?d = "acts as d"
  have r: "reached e ?d" using reserve_reached[OF assms(1,2), of now tmp r] assms(3) by simp
  have ok: "consistent (point_checked e) ?d" using reached_consistent[OF r] by simp
  have id: "pt_id b = ''recovery-'' @ random" "pt_job_id b = rv_job_id r" "pt_status b = PointCreating"
    using as(1) by (simp_all add: new_point_def)
  have w: "map_of ?d (MetaFile i) = (if i = pt_id b then Some (Meta_Content b) else map_of (acts as' d) (MetaFile i))" for i
    unfolding as(2) by (simp add: acts_append write_point_def map_of_act)
  have g: "get_point (pt_id b) ?d = Inr b"
    using consistent_get[OF ok, of "pt_id b"] consistent_meta(3)[OF ok, of "pt_id b" b] w[of "pt_id b"] by simp
  have "no_new_point d (acts (snd (abort_point (pt_id b) (rv_job_id r) ?d)) ?d)"
    using acts_no_publication[OF as(3), of d] abort_reserved[OF ok g id(2,3)] w
    unfolding no_new_point_def by simp
  then show ?thesis using abort_reached[OF r] by simp
qed

lemma queue_hermes_update_refused:
  assumes "queue_hermes_update cfg pe env v h us restore workflow actor s = (Inl e, s')"
    and "reached pe (sv_points s)" "map_of (sv_points s) (MetaFile (''recovery-'' @ qe_random env)) = None"
  shows "sv_db s' = sv_db s \<and> reached pe (sv_points s') \<and> no_new_point (sv_points s) (sv_points s')"
proof -
  define r where "r = update_reservation env v h (if workflow = '''' then qe_operation_id env else workflow)"
  obtain out as where o: "reserve_point (pe_limit pe) (qe_now env) (qe_random env) (qe_tmp env) r (sv_points s) = (out, as)"
    by fastforce
  show ?thesis
  proof (cases out)
    case (Inl err)
    have "list_all no_publication as"
      by (rule reserve_point_actions[of "pe_limit pe" "qe_now env" "qe_random env" "qe_tmp env" r "sv_points s"])
        (use o Inl in simp_all)
    moreover have "reached pe (acts as (sv_points s))"
      using reserve_reached[OF assms(2,3), of "qe_now env" "qe_tmp env" r] o by simp
    moreover have "s' = s\<lparr>sv_points := acts as (sv_points s)\<rparr>"
      using assms(1) o Inl by (simp add: queue_hermes_update_def r_def Let_def)
    ultimately show ?thesis using acts_no_publication by simp
  next
    case (Inr b)
    have "rv_job_id r = qe_job_id env" by (simp add: r_def update_reservation_def)
    then have "s' = s\<lparr>sv_points := acts (snd (abort_point (pt_id b) (rv_job_id r) (acts as (sv_points s)))) (acts as (sv_points s))\<rparr>"
      using assms(1) o Inr
      by (auto simp: queue_hermes_update_def r_def Let_def pending_job_def split: sum.splits)
    then show ?thesis using aborted_reservation[OF assms(2,3) o[unfolded Inr]] by simp
  qed
qed

text \<open>C3. A refused update leaves no trace. When the handler refuses a Hermes update, for whatever
  reason, the database is unchanged and the storage has no recovery point that it did not have
  before: the reservation that was made for the update has been given back.\<close>

theorem refused_update_leaves_no_trace:
  assumes "start_hermes_update cfg capacity_ok listed env i q s = (Refused c e, s')"
    and "ac_recovery cfg = Some pe" "reached pe (sv_points s)"
    and "map_of (sv_points s) (MetaFile (''recovery-'' @ qe_random env)) = None"
  shows "sv_db s' = sv_db s \<and> reached pe (sv_points s')
     \<and> (\<forall>k m. get_point k (sv_points s') = Inr m \<longrightarrow> get_point k (sv_points s) = Inr m)"
proof (cases "s' = s")
  case True
  then show ?thesis using assms(3) by simp
next
  case False
  then obtain v h us restore r where u: "queue_hermes_update cfg pe env v h us restore (uq_workflow_id q) ''FLEET_ADMIN'' s = (r, s')"
    "update_queue_reply r = Refused c e"
    using assms(1,2)
    by (auto simp: start_hermes_update_def require_operation_capacity_def Let_def
        split: if_splits option.splits sum.splits prod.splits)
  then obtain err where "r = Inl err" by (cases r) (simp_all add: update_queue_reply_def)
  then show ?thesis
    using queue_hermes_update_refused[of cfg pe env v h us restore "uq_workflow_id q" "''FLEET_ADMIN''" s err s']
      u(1) assms(3,4) no_new_point_get by blast
qed

section \<open>Accepted updates\<close>

lemma reserve_point_reserved:
  assumes "reached e d" "map_of d (MetaFile (''recovery-'' @ random)) = None"
    and "reserve_point (pe_limit e) now random tmp r d = (Inr b, as)"
  shows "get_point (pt_id b) (acts as d) = Inr b" "b = new_point now random r"
proof -
  obtain as' where as: "b = new_point now random r" "as = as' @ write_point tmp b" "list_all no_publication as'"
    by (rule reserve_point_actions[of "pe_limit e" now random tmp r d]) (use assms(3) in auto)
  then show "b = new_point now random r" by simp
  have "reached e (acts as d)" using reserve_reached[OF assms(1,2), of now tmp r] assms(3) by simp
  then have ok: "consistent (point_checked e) (acts as d)" using reached_consistent by blast
  have m: "map_of (acts as d) (MetaFile (pt_id b)) = Some (Meta_Content b)"
    unfolding as(2) by (simp add: acts_append write_point_def map_of_act)
  then show "get_point (pt_id b) (acts as d) = Inr b"
    using consistent_get[OF ok, of "pt_id b"] consistent_meta(3)[OF ok m] by simp
qed

text \<open>C4. An accepted update is backed by a recovery point of its own. When the handler accepts a
  Hermes update, the last job of the queue is the update of this instance, and the Host Agent can
  decode its payload; the backup it must make first, the recovery point of the upgrade and the one
  of the rollback are the same recovery point, which the storage holds, reserved for this job on
  this host.\<close>

theorem accepted_update_is_backed:
  assumes "start_hermes_update cfg capacity_ok listed env i q s = (Reply c op, s')"
    and "ac_recovery cfg = Some pe" "reached pe (sv_points s)"
    and "map_of (sv_points s) (MetaFile (''recovery-'' @ qe_random env)) = None"
    and "int64 (ac_max_point_bytes cfg)"
    and "\<forall>r \<in> set (db_instances (sv_db s)). int64 (in_api_port r) \<and> int64 (in_dashboard_port r)"
  shows "\<exists>j p b. db_jobs (sv_db s') = db_jobs (sv_db s) @ [j] \<and> j_type j = JobHermesUpdate
     \<and> j_status j = JobPending \<and> j_instance_id j = i \<and> j_operation_id j = op_id op
     \<and> decode_hermes_update (j_payload j) = Some p \<and> hu_instance_id (hp_upgrade p) = i
     \<and> get_point (pt_id b) (sv_points s') = Inr b \<and> pt_status b = PointCreating
     \<and> pt_job_id b = j_id j \<and> pt_host_id b = j_host_id j
     \<and> rp_recovery_point_id (hp_backup p) = pt_id b \<and> hu_recovery_point_id (hp_upgrade p) = pt_id b
     \<and> rt_recovery_point_id (hu_rollback (hp_upgrade p)) = pt_id b"
proof -
  obtain v h us restore where u: "get_instance i (sv_db s) = Inr v" "restore_status_of v us q = Inr restore"
    "queue_hermes_update cfg pe env v h us restore (uq_workflow_id q) ''FLEET_ADMIN'' s = (Inr op, s')"
    using assms(1,2)
    by (auto simp: start_hermes_update_def require_operation_capacity_def Let_def update_queue_reply_def
        write_recovery_error_def write_queue_error_def
        split: if_splits option.splits sum.splits prod.splits update_queue_error.splits point_error.splits)
  have v: "in_id v = i" "int64 (in_api_port v)" "int64 (in_dashboard_port v)"
  proof -
    obtain r where r: "find_instance (sv_db s) i = Some r" "v = view_instance (sv_db s) r"
      using u(1) by (auto simp: get_instance_def split: option.splits)
    then have "r \<in> set (db_instances (sv_db s)) \<and> in_id r = i"
      unfolding find_instance_def find_row_def using find_SomeD by fastforce
    then show "in_id v = i" "int64 (in_api_port v)" "int64 (in_dashboard_port v)"
      using r(2) assms(6) by (auto simp: view_instance_def instance_row.defs)
  qed
  have restore: "known_status restore"
    using u(2) by (auto simp: restore_status_of_def known_status_def split: if_splits)
  define r where "r = update_reservation env v h (if uq_workflow_id q = '''' then qe_operation_id env else uq_workflow_id q)"
  obtain out as where o: "reserve_point (pe_limit pe) (qe_now env) (qe_random env) (qe_tmp env) r (sv_points s) = (out, as)"
    by fastforce
  obtain b where b: "out = Inr b"
    using u(3) o by (cases out) (simp_all add: queue_hermes_update_def r_def Let_def)
  note reserved = reserve_point_reserved[OF assms(3,4) o[unfolded b]]
  define p where "p = update_payload (ac_max_point_bytes cfg) v h us restore b"
  define j where "j = pending_job env op (in_host_id v) JobHermesUpdate
    (encode_hermes_update (format_rfc3339_nano (pt_created_at b)) p)"
  have qa: "queue_action (in_status v) InstanceUpdating op j (sv_db s) = Inr (sv_db s')"
    "sv_points s' = acts as (sv_points s)" "op_instance_id op = i"
    using u(3) o b
    by (auto simp: queue_hermes_update_def r_def Let_def p_def j_def update_operation_def pending_operation_def v(1)
        split: sum.splits)
  have jobs: "db_jobs (sv_db s') = db_jobs (sv_db s) @ [new_job_row j]"
    using queue_action_admits(1)[OF qa(1)] by (simp add: admits_def)
  have "decode_hermes_update (Some (encode_hermes_update (format_rfc3339_nano (pt_created_at b)) p)) = Some p"
    by (rule hermes_update_round_trip)
      (use v restore assms(5) reserved(2) in \<open>simp_all add: p_def update_payload_def update_rollback_def
        update_backup_payload_def new_point_def int64_def\<close>)
  then show ?thesis
    using jobs qa(2,3) reserved v(1)
    by (intro exI[of _ "new_job_row j"] exI[of _ p] exI[of _ b])
      (simp add: new_job_row_def job.defs j_def pending_job_def p_def update_payload_def update_rollback_def
        update_backup_payload_def r_def update_reservation_def new_point_def)
qed

section \<open>A fleet with an update\<close>

definition sample_releases :: release_catalog where
  "sample_releases =
     (let r = \<lparr>rl_version = ''0.12.3'', rl_tag = ''v0.12.3'', rl_commit = replicate 40 (CHR ''a''),
          rl_image = ''hermes:0.12.3'', rl_url = '''', rl_published_at = 0\<rparr>
      in \<lparr>ct_source = ''releases'', ct_checked_at = 0, ct_releases = [r, r, r], ct_stale = False\<rparr>)"

definition updatable_instance :: instance_row where
  "updatable_instance = sample_instance\<lparr>in_image_id := ''sha256:0'', in_provider := ''xai-oauth'',
     in_reasoning := ''medium'', in_service_tier := ''normal''\<rparr>"

definition sample_report :: instance_observation where
  "sample_report = \<lparr>io_instance_id = ''i1'', io_host_id = ''h1'', io_target_generation = observation_generation 0,
     io_refresh_request_id = '''', io_hermes_version = ''0.12.1'', io_hermes_source = replicate 40 (CHR ''b''),
     io_model_catalog = [], io_recommended_model = '''', io_provider_catalogs = [], io_status = ''HEALTHY'',
     io_summary = '''', io_checks = [], io_observed_at = 0, io_received_at = 0\<rparr>"

definition updatable_fleet :: db where
  "updatable_fleet = empty_db\<lparr>db_hosts := [sample_host\<lparr>h_agent_version := agent_version\<rparr>],
     db_instances := [updatable_instance], db_observations := [sample_report]\<rparr>"

text \<open>A sign-in occupies the instance without changing its status.\<close>

definition occupied_fleet :: db where
  "occupied_fleet = updatable_fleet\<lparr>db_operations := [job_operation_row (sample_operation ''o2'' OpCodexAuth 1)],
     db_jobs := [new_job_row (sample_job ''j2'' ''o2'' JobAuthCodex (Some (JObject [])) 1)]\<rparr>"

definition update_env :: request_env where
  "update_env = \<lparr>qe_now = 1000000000, qe_operation_id = ''o1'', qe_job_id = ''j1'',
     qe_random = sample_random, qe_tmp = ''t1''\<rparr>"

definition update_query :: update_request where
  "update_query = \<lparr>uq_confirm_name = ''nara'', uq_workflow_id = '''', uq_restore_status = ''''\<rparr>"

definition updatable_view :: instance_view where
  "updatable_view = view_instance updatable_fleet updatable_instance"

lemma updatable_views:
  "get_instance ''i1'' updatable_fleet = Inr updatable_view"
  "get_instance ''i1'' occupied_fleet = Inr updatable_view"
proof -
  have d: "db_instances occupied_fleet = db_instances updatable_fleet"
    "db_observations occupied_fleet = db_observations updatable_fleet"
    "db_requests occupied_fleet = db_requests updatable_fleet"
    by (simp_all add: occupied_fleet_def)
  show "get_instance ''i1'' updatable_fleet = Inr updatable_view"
    by (simp add: get_instance_def find_instance_def find_row_def updatable_view_def updatable_fleet_def
        updatable_instance_def sample_instance_def empty_db_def)
  moreover have w: "view_instance occupied_fleet = view_instance updatable_fleet"
    by (rule ext) (simp add: view_instance_def d)
  ultimately show "get_instance ''i1'' occupied_fleet = Inr updatable_view"
    unfolding get_instance_def find_instance_def d(1) w by blast
qed

lemma sample_update_status:
  "\<exists>us. hermes_update_status sample_config 1000000000 (Some (Some sample_releases)) updatable_view = us
     \<and> us_available us \<and> us_eligible us \<and> us_kind us = kind_version_update"
proof -
  have c: "hermes_version_pattern ''0.12.1''" "hermes_version_pattern ''0.12.3''"
    "hermes_commit_pattern (replicate 40 (CHR ''a''))" "validate_image_reference ''hermes:0.12.3'' = None"
    by code_simp+
  have less: "compare_releases ''0.12.1'' ''0.12.3'' = -1"
    by (simp add: compare_releases_def compare_versions_def trim_prefix_def numeric_parts_def parse_uint32_def
        char_classes byte_of_def Let_def)
  have v: "us_current_version (initial_status c updatable_view) = ''0.12.1''" for c
    by (simp add: initial_status_def current_hermes_def updatable_view_def view_instance_def updatable_fleet_def
        find_row_def sample_report_def generation_of_def updatable_instance_def sample_instance_def instance_row.defs Let_def)
  have m: "in_image updatable_view = ''hermes''" "in_status updatable_view = InstanceRunning" "has_runtime_metadata updatable_view"
    by (simp_all add: has_runtime_metadata_def updatable_view_def view_instance_def instance_row.defs
        updatable_instance_def sample_instance_def)
  show ?thesis
    using c less v m
    by (simp add: hermes_update_status_def hermes_catalog_def sample_releases_def Let_def choose_target_def
        attach_official_release_def official_status_def targeting_def installable_def judge_eligibility_def sample_config_def
        kind_version_update_def kind_runtime_refresh_def)
qed


definition sample_host_view :: host where
  "sample_host_view = host.truncate (sample_host\<lparr>h_agent_version := agent_version\<rparr>)"

lemma sample_hosts:
  "get_host ''h1'' updatable_fleet = Inr sample_host_view" "get_host ''h1'' occupied_fleet = Inr sample_host_view"
  "h_agent_version sample_host_view = agent_version" "\<not> agent_offline sample_config 1000000000 sample_host_view"
  by (simp_all add: get_host_def find_row_def updatable_fleet_def occupied_fleet_def sample_host_def sample_host_view_def
      host.defs agent_offline_def sample_config_def agent_version_def minutes_def seconds_def)

lemma sample_start:
  assumes "get_instance ''i1'' d = Inr updatable_view" "get_host ''h1'' d = Inr sample_host_view"
  shows "\<exists>us. start_hermes_update sample_config True (Some (Some sample_releases)) update_env ''i1'' update_query
      \<lparr>sv_db = d, sv_points = []\<rparr>
    = (let (r, s) = queue_hermes_update sample_config sample_env update_env updatable_view sample_host_view us
          InstanceRunning '''' ''FLEET_ADMIN'' \<lparr>sv_db = d, sv_points = []\<rparr> in (update_queue_reply r, s))"
proof -
  have v: "in_name updatable_view = ''nara''" "in_status updatable_view = InstanceRunning" "in_host_id updatable_view = ''h1''"
    by (simp_all add: updatable_view_def view_instance_def instance_row.defs updatable_instance_def sample_instance_def)
  have p: "ac_recovery sample_config = Some sample_env" by (simp add: sample_config_def)
  show ?thesis
    using assms sample_update_status sample_hosts(3,4) v p
    by (auto simp: start_hermes_update_def require_operation_capacity_def update_query_def update_env_def valid_workflow_id_def
        current_agent_def restore_status_of_def)
qed

lemma sample_reserved:
  assumes "w \<in> {''o1'', ''r1''}"
  shows "\<exists>b as. reserve_point (pe_limit sample_env) 1000000000 sample_random ''t1''
     (update_reservation update_env updatable_view sample_host_view w) [] = (Inr b, as)"
proof -
  let ?r = "update_reservation update_env updatable_view sample_host_view w"
  let ?m = "new_point 1000000000 sample_random ?r"
  have f: "pt_filename ?m = ''hermes-nara-19700101T000001Z-00112233.tar''" "pt_id ?m = ''recovery-'' @ sample_random"
    "pt_instance_name ?m = ''nara''" "pt_status ?m = PointCreating" "pt_created_at ?m = 1000000000"
    by (simp_all add: new_point_def sample_time update_reservation_def updatable_view_def view_instance_def
        instance_row.defs updatable_instance_def sample_instance_def sample_random_def)
  have c: "filename_pattern ''hermes-nara-19700101T000001Z-00112233.tar''"
    "recovery_id_pattern (''recovery-'' @ sample_random)" by code_simp+
  have "validate_runtime ''xai-oauth'' ''grok-4'' ''medium'' ''normal'' = None" by code_simp
  then have "point_runtime_ok ?m"
    by (simp add: point_runtime_ok_def new_point_def update_reservation_def updatable_view_def view_instance_def
        instance_row.defs updatable_instance_def sample_instance_def)
  then have "point_identity_ok ?m"
    unfolding point_identity_ok_def f sample_time using c assms
    by (simp add: open_point_def f zero_time_def)
      (simp add: new_point_def update_reservation_def updatable_view_def view_instance_def agent_version_def
        instance_row.defs updatable_instance_def sample_instance_def update_env_def sample_host_view_def host.defs)
  then have "validate_point ?m = None" by (simp add: validate_point_def stored_point_def f)
  then show ?thesis
    by (simp add: reserve_point_def list_points_def read_dir_def rotate_points_def sample_env_def Let_def)
qed


lemma sample_queue:
  assumes "workflow \<in> {'''', ''r1''}"
  shows "\<exists>op j f g. op_instance_id op = ''i1'' \<and> op_id op = ''o1'' \<and> op_created_at op = 1000000000 \<and> j_host_id j = ''h1''
     \<and> j_instance_id j = ''i1'' \<and> j_operation_id j = ''o1''
     \<and> queue_hermes_update sample_config sample_env update_env updatable_view sample_host_view us
          InstanceRunning workflow actor \<lparr>sv_db = d, sv_points = []\<rparr>
       = (case queue_action InstanceRunning InstanceUpdating op j d of
            Inl e \<Rightarrow> (Inl (StageQueue e), \<lparr>sv_db = d, sv_points = f\<rparr>)
          | Inr d' \<Rightarrow> (Inr op, \<lparr>sv_db = d', sv_points = g\<rparr>))"
proof -
  define w where "w = (if workflow = '''' then ''o1'' else workflow)"
  have w: "w \<in> {''o1'', ''r1''}" using assms by (auto simp: w_def)
  obtain b as where b: "reserve_point (pe_limit sample_env) 1000000000 sample_random ''t1''
     (update_reservation update_env updatable_view sample_host_view w) [] = (Inr b, as)"
    using sample_reserved[OF w] by blast
  have v: "in_status updatable_view = InstanceRunning" "in_id updatable_view = ''i1''" "in_host_id updatable_view = ''h1''"
    by (simp_all add: updatable_view_def view_instance_def instance_row.defs updatable_instance_def sample_instance_def)
  have e: "qe_now update_env = 1000000000" "qe_operation_id update_env = ''o1''" "qe_job_id update_env = ''j1''"
    "qe_random update_env = sample_random" "qe_tmp update_env = ''t1''" by (simp_all add: update_env_def)
  let ?op = "update_operation update_env updatable_view us InstanceRunning w (default_actor actor) b"
  let ?j = "pending_job update_env ?op ''h1'' JobHermesUpdate
    (encode_hermes_update (format_rfc3339_nano (pt_created_at b))
      (update_payload (ac_max_point_bytes sample_config) updatable_view sample_host_view us InstanceRunning b))"
  have o: "op_instance_id ?op = ''i1''" "op_id ?op = ''o1''" "op_created_at ?op = 1000000000"
    by (simp_all add: update_operation_def pending_operation_def v e)
  have fold: "(if workflow = '''' then qe_operation_id update_env else workflow) = w" by (simp add: w_def e)
  show ?thesis
    unfolding queue_hermes_update_def fold Let_def
    by (rule exI[of _ ?op], rule exI[of _ ?j],
        rule exI[of _ "acts (snd (abort_point (pt_id b) ''j1'' (acts as []))) (acts as [])"], rule exI[of _ "acts as []"])
      (use b v e o in \<open>simp add: pending_job_def split: sum.splits\<close>)
qed

theorem refused_update_leaves_no_trace_witness:
  "\<exists>c e s'. start_hermes_update sample_config True (Some (Some sample_releases)) update_env ''i1'' update_query
       \<lparr>sv_db = occupied_fleet, sv_points = []\<rparr> = (Refused c e, s')
     \<and> sv_db s' = occupied_fleet \<and> (\<nexists>k m. get_point k (sv_points s') = Inr m)"
proof -
  let ?s = "\<lparr>sv_db = occupied_fleet, sv_points = []\<rparr>"
  obtain us where u: "start_hermes_update sample_config True (Some (Some sample_releases)) update_env ''i1'' update_query ?s
    = (let (r, s) = queue_hermes_update sample_config sample_env update_env updatable_view sample_host_view us
          InstanceRunning '''' ''FLEET_ADMIN'' ?s in (update_queue_reply r, s))"
    using sample_start[OF updatable_views(2) sample_hosts(2)] by blast
  have busy: "active_instance_jobs ''i1'' (db_jobs occupied_fleet) \<noteq> 0" by code_simp
  have refuse: "\<exists>e. queue_action st st' op j occupied_fleet = Inl e" if "op_instance_id op = ''i1''" for st st' op j
    using queue_action_admits(2)[of st st' op j occupied_fleet] that busy
    by (cases "queue_action st st' op j occupied_fleet") auto
  obtain op j f g where q: "op_instance_id op = ''i1''" "queue_hermes_update sample_config sample_env update_env
      updatable_view sample_host_view us InstanceRunning '''' ''FLEET_ADMIN'' ?s
    = (case queue_action InstanceRunning InstanceUpdating op j occupied_fleet of
         Inl e \<Rightarrow> (Inl (StageQueue e), \<lparr>sv_db = occupied_fleet, sv_points = f\<rparr>)
       | Inr d' \<Rightarrow> (Inr op, \<lparr>sv_db = d', sv_points = g\<rparr>))"
    using sample_queue[of "''''" us "''FLEET_ADMIN''" occupied_fleet] by blast
  obtain e where "queue_action InstanceRunning InstanceUpdating op j occupied_fleet = Inl e"
    using refuse[OF q(1)] by blast
  with q(2) obtain s' where "queue_hermes_update sample_config sample_env update_env updatable_view sample_host_view us
      InstanceRunning '''' ''FLEET_ADMIN'' ?s = (Inl (StageQueue e), s')" by simp
  moreover have "\<exists>c t. update_queue_reply (Inl (StageQueue e)) = Refused c t"
    by (simp add: update_queue_reply_def write_queue_error_def)
  ultimately obtain c t where r: "start_hermes_update sample_config True (Some (Some sample_releases)) update_env ''i1''
      update_query ?s = (Refused c t, s')" using u by auto
  then have "sv_db s' = sv_db ?s \<and> reached sample_env (sv_points s')
     \<and> (\<forall>k m. get_point k (sv_points s') = Inr m \<longrightarrow> get_point k (sv_points ?s) = Inr m)"
    by (rule refused_update_leaves_no_trace) (simp_all add: sample_config_def Fresh)
  then show ?thesis using r by (auto simp: get_point_def split: if_splits)
qed

theorem accepted_update_is_backed_witness:
  "\<exists>op s' j p b. start_hermes_update sample_config True (Some (Some sample_releases)) update_env ''i1'' update_query
       \<lparr>sv_db = updatable_fleet, sv_points = []\<rparr> = (Reply 202 op, s')
     \<and> db_jobs (sv_db s') = [j] \<and> decode_hermes_update (j_payload j) = Some p
     \<and> get_point (pt_id b) (sv_points s') = Inr b \<and> rp_recovery_point_id (hp_backup p) = pt_id b"
proof -
  let ?s = "\<lparr>sv_db = updatable_fleet, sv_points = []\<rparr>"
  obtain us where u: "start_hermes_update sample_config True (Some (Some sample_releases)) update_env ''i1'' update_query ?s
    = (let (r, s) = queue_hermes_update sample_config sample_env update_env updatable_view sample_host_view us
          InstanceRunning '''' ''FLEET_ADMIN'' ?s in (update_queue_reply r, s))"
    using sample_start[OF updatable_views(1) sample_hosts(1)] by blast
  have admit: "\<exists>d'. queue_action InstanceRunning InstanceUpdating op j updatable_fleet = Inr d'"
    if "op_instance_id op = ''i1''" "op_id op = ''o1''" "j_host_id j = ''h1''" "j_instance_id j = ''i1''" "j_operation_id j = ''o1''"
    for op j
    using that
    by (simp add: queue_action_def move_instance_def update_instances_def updatable_fleet_def updatable_instance_def
        sample_instance_def sample_host_def empty_db_def count_where_def require_idle_def guard_def
        active_instance_jobs_def insert_operation_and_job_def host_active_def insert_operation_def insert_job_def
        operation_exists_def host_exists_def instance_exists_def job_operation_row_def
        new_job_row_def job.defs job_queue_max_per_host_def update_where_def Let_def)
  obtain op j f g where q: "op_instance_id op = ''i1''" "op_id op = ''o1''" "j_host_id j = ''h1''"
    "j_instance_id j = ''i1''" "j_operation_id j = ''o1''" "queue_hermes_update sample_config sample_env update_env
      updatable_view sample_host_view us InstanceRunning '''' ''FLEET_ADMIN'' ?s
    = (case queue_action InstanceRunning InstanceUpdating op j updatable_fleet of
         Inl e \<Rightarrow> (Inl (StageQueue e), \<lparr>sv_db = updatable_fleet, sv_points = f\<rparr>)
       | Inr d' \<Rightarrow> (Inr op, \<lparr>sv_db = d', sv_points = g\<rparr>))"
    using sample_queue[of "''''" us "''FLEET_ADMIN''" updatable_fleet] by blast
  obtain d' where "queue_action InstanceRunning InstanceUpdating op j updatable_fleet = Inr d'"
    using admit[OF q(1-5)] by blast
  with q(6) obtain s' where "queue_hermes_update sample_config sample_env update_env updatable_view sample_host_view us
      InstanceRunning '''' ''FLEET_ADMIN'' ?s = (Inr op, s')" by simp
  then have r: "start_hermes_update sample_config True (Some (Some sample_releases)) update_env ''i1'' update_query ?s
      = (Reply 202 op, s')" using u by (simp add: update_queue_reply_def)
  have e: "db_jobs (sv_db ?s) = []" by (simp add: updatable_fleet_def empty_db_def)
  show ?thesis
    using accepted_update_is_backed[OF r, of sample_env] r e
    by (fastforce simp: sample_config_def Fresh int64_def updatable_fleet_def updatable_instance_def sample_instance_def)
qed

end
