(* ===== verification/Api_Actions.thy ===== *)
theory Api_Actions
  imports Api_Updates
begin

text \<open>
  The administrator's handlers of \<open>internal/api/server.go\<close> that admit work for an instance:
  \<open>createInstance\<close> with its automatic ports and \<open>instanceAction\<close> with its eight actions.
\<close>

section \<open>New instances\<close>

text \<open>\<open>strings.LastIndex(image, ":")\<close> and the tag after it; an image that ends in a colon has none.\<close>

definition legacy_version :: "string \<Rightarrow> string" where
  "legacy_version img =
     (let t = trim_space img
      in if CHR '':'' \<in> set t then rev (takeWhile (\<lambda>c. c \<noteq> CHR '':'') (rev t)) else '''')"

definition requested_version :: "create_request \<Rightarrow> string" where
  "requested_version q =
     (let v = trim_space (ci_hermes_version q) in if v = '''' then legacy_version (ci_image q) else v)"

text \<open>The request with the release, the default provider and a runtime that is still to be configured.\<close>

definition resolved_request :: "create_request \<Rightarrow> release \<Rightarrow> create_request" where
  "resolved_request q r = q\<lparr>ci_name := trim_space (ci_name q), ci_hermes_version := rl_version r,
     ci_image := rl_image r,
     ci_provider := (let p = trim_space (ci_provider q) in if p = '''' then ''openai-codex'' else p),
     ci_model := '''', ci_reasoning := '''', ci_service_tier := ''''\<rparr>"

definition new_instance :: "timestamp \<Rightarrow> string \<Rightarrow> create_request \<Rightarrow> int \<Rightarrow> int \<Rightarrow> instance_row" where
  "new_instance now i q api dashboard =
     \<lparr>in_id = i, in_name = ci_name q, in_host_id = ci_host_id q, in_status = InstanceProvisioning,
      in_image = ci_image q, in_image_id = '''', in_provider = ci_provider q, in_model = ci_model q,
      in_reasoning = ci_reasoning q, in_service_tier = ci_service_tier q, in_codex_configured = False,
      in_api_port = api, in_dashboard_port = dashboard, in_public_hostname = '''', in_project_name = '''',
      in_data_volume = '''', in_managed_path = '''', in_last_error = '''', in_created_at = now,
      in_updated_at = now\<rparr>"

definition new_instance_payload :: "release \<Rightarrow> instance_row \<Rightarrow> provision_payload" where
  "new_instance_payload r v =
     \<lparr>pv_instance_id = in_id v, pv_name = in_name v, pv_image = in_image v, pv_hermes_version = rl_version r,
      pv_hermes_source = rl_commit r, pv_provider = in_provider v, pv_model = in_model v,
      pv_reasoning = in_reasoning v, pv_service_tier = in_service_tier v, pv_api_port = in_api_port v,
      pv_dashboard_port = in_dashboard_port v\<rparr>"

definition insert_new_instance :: "request_env \<Rightarrow> release \<Rightarrow> instance_row \<Rightarrow> db \<Rightarrow> db result" where
  "insert_new_instance env r v d =
     (let op = pending_operation env (in_id v) '''' '''' (OpOther ''PROVISION'') (''Provision '' @ in_name v) None
      in create_instance v op
        (pending_job env op (in_host_id v) JobProvision (encode_provision (new_instance_payload r v))) d)"

text \<open>
  The attempts: with automatic ports a refused insertion is tried again, up to the given number
  of times; \<open>Inl None\<close> is the failure to propose ports.
\<close>

fun create_attempts ::
    "nat \<Rightarrow> request_env \<Rightarrow> string \<Rightarrow> release \<Rightarrow> create_request \<Rightarrow> bool \<Rightarrow> store_error option \<Rightarrow> db
      \<Rightarrow> store_error option + instance_row \<times> db" where
  "create_attempts 0 env i r q automatic failure d = Inl failure"
| "create_attempts (Suc n) env i r q automatic failure d =
     (case (if automatic then next_available_ports (ci_host_id q) d else Inr (ci_api_port q, ci_dashboard_port q)) of
        Inl _ \<Rightarrow> Inl None
      | Inr (api, dashboard) \<Rightarrow>
          let v = new_instance (qe_now env) i q api dashboard in
          (case insert_new_instance env r v d of
             Inr d' \<Rightarrow> Inr (v, d')
           | Inl e \<Rightarrow> if automatic then create_attempts n env i r q automatic (Some e) d else Inl (Some e)))"

definition create_failure :: "store_error option \<Rightarrow> 'a reply" where
  "create_failure e = (case e of
       None \<Rightarrow> Refused 409 ''automatic host ports could not be allocated''
     | Some e \<Rightarrow> write_queue_error ''instance name or host ports are already allocated'' e)"

definition create_on_host ::
    "api_config \<Rightarrow> request_env \<Rightarrow> string \<Rightarrow> release \<Rightarrow> create_request \<Rightarrow> db \<Rightarrow> instance_row reply \<times> db" where
  "create_on_host cfg env i r q d =
     (case get_host (ci_host_id q) d of
        Inl _ \<Rightarrow> (Refused 400 ''selected host does not exist'', d)
      | Inr h \<Rightarrow>
          if h_last_seen_at h = zero_time \<or> agent_offline cfg (qe_now env) h
          then (Refused 409 ''selected host is offline'', d)
          else if h_agent_version h \<noteq> agent_version
          then (Refused 409 (''selected host requires Host Agent '' @ agent_version), d)
          else (case create_attempts 5 env i r q (ci_api_port q = 0 \<and> ci_dashboard_port q = 0) None d of
              Inr (v, d) \<Rightarrow> (Reply 202 v, d)
            | Inl e \<Rightarrow> (create_failure e, d)))"

definition create_instance_handler ::
    "api_config \<Rightarrow> bool \<Rightarrow> release_catalog option option \<Rightarrow> request_env \<Rightarrow> string \<Rightarrow> create_request \<Rightarrow> db
      \<Rightarrow> instance_row reply \<times> db" where
  "create_instance_handler cfg capacity_ok listed env i q d = require_operation_capacity capacity_ok d
     (case resolve_hermes_release cfg listed (requested_version q) of
        Inl e \<Rightarrow> (Refused 400 e, d)
      | Inr r \<Rightarrow>
          let q = resolved_request q r in
          (case validate_create_instance q of
             Some e \<Rightarrow> (Refused 400 e, d)
           | None \<Rightarrow> create_on_host cfg env i r q d))"

section \<open>Actions\<close>

record action_request =
  aq_action :: string
  aq_confirm_name :: string
  aq_workflow_id :: string

definition action_payload_of :: "instance_view \<Rightarrow> action_payload" where
  "action_payload_of v =
     \<lparr>ap_instance_id = in_id v, ap_name = in_name v, ap_image = in_image v,
      ap_project_name = in_project_name v, ap_managed_path = in_managed_path v,
      ap_image_id = in_image_id v, ap_provider = in_provider v, ap_model = in_model v,
      ap_reasoning = in_reasoning v, ap_service_tier = in_service_tier v, ap_api_port = in_api_port v,
      ap_dashboard_port = in_dashboard_port v, ap_preserve_data = True\<rparr>"

definition repair_payload_of :: "instance_view \<Rightarrow> nat \<Rightarrow> nat \<Rightarrow> string \<Rightarrow> runtime_repair_payload" where
  "repair_payload_of v phase attempt trigger = action_payload.extend (action_payload_of v)
     \<lparr>rr_payload_phase = phase, rr_payload_attempt = attempt, rr_payload_trigger = trigger\<rparr>"

definition retry_payload_of :: "instance_view \<Rightarrow> provision_payload" where
  "retry_payload_of v =
     \<lparr>pv_instance_id = in_id v, pv_name = in_name v, pv_image = in_image v, pv_hermes_version = '''',
      pv_hermes_source = '''', pv_provider = in_provider v, pv_model = in_model v,
      pv_reasoning = in_reasoning v, pv_service_tier = in_service_tier v, pv_api_port = in_api_port v,
      pv_dashboard_port = in_dashboard_port v\<rparr>"

definition sync_payload_of :: "instance_view \<Rightarrow> runtime_sync_payload" where
  "sync_payload_of v =
     \<lparr>rs_instance_id = in_id v, rs_name = in_name v, rs_image = in_image v, rs_image_id = in_image_id v,
      rs_provider = in_provider v, rs_model = in_model v, rs_reasoning = in_reasoning v,
      rs_service_tier = in_service_tier v, rs_project_name = in_project_name v,
      rs_data_volume = in_data_volume v, rs_managed_path = in_managed_path v,
      rs_desired_status = in_status v, rs_dashboard_port = in_dashboard_port v\<rparr>"

definition image_reconcile_payload_of :: "instance_view \<Rightarrow> image_reconcile_payload" where
  "image_reconcile_payload_of v =
     \<lparr>ic_instance_id = in_id v, ic_name = in_name v, ic_image = in_image v, ic_previous_image_id = in_image_id v,
      ic_project_name = in_project_name v, ic_data_volume = in_data_volume v, ic_managed_path = in_managed_path v\<rparr>"

definition image_repair_payload_of :: "instance_view \<Rightarrow> image_repair_payload" where
  "image_repair_payload_of v =
     \<lparr>ir_instance_id = in_id v, ir_name = in_name v, ir_image = in_image v, ir_previous_image_id = in_image_id v,
      ir_project_name = in_project_name v, ir_data_volume = in_data_volume v, ir_managed_path = in_managed_path v,
      ir_api_port = in_api_port v, ir_restart = (in_status v = InstanceRunning)\<rparr>"

text \<open>What an action becomes: the job type, the next status and the payload, or a refusal.\<close>

type_synonym action_plan = "(nat \<times> string) + job_type \<times> instance_status \<times> json"

text \<open>Confirmation and runtime metadata, which five actions check in this order.\<close>

definition confirmed :: "instance_view \<Rightarrow> action_request \<Rightarrow> action_plan \<Rightarrow> action_plan" where
  "confirmed v q plan =
     (if aq_confirm_name q \<noteq> in_name v then Inl (400, ''instance name confirmation does not match'')
      else if \<not> has_runtime_metadata v then Inl (409, ''instance runtime metadata is incomplete'')
      else plan)"

definition with_agent ::
    "api_config \<Rightarrow> timestamp \<Rightarrow> db \<Rightarrow> instance_view \<Rightarrow> string \<Rightarrow> action_plan \<Rightarrow> action_plan" where
  "with_agent cfg now d v what plan =
     (case current_agent cfg now (in_host_id v) d ''the instance Host Agent is offline''
         (what @ '' requires Host Agent '' @ agent_version) of
        Inl e \<Rightarrow> Inl (409, e) | Inr _ \<Rightarrow> plan)"

definition fresh_drift :: "api_config \<Rightarrow> timestamp \<Rightarrow> db \<Rightarrow> instance_view \<Rightarrow> string \<Rightarrow> bool" where
  "fresh_drift cfg now d v check = has_fresh_observation_check (in_id v) check CheckDrift (now - ac_stale_after cfg) d"

definition stable :: "instance_view \<Rightarrow> bool" where
  "stable v \<longleftrightarrow> in_status v = InstanceRunning \<or> in_status v = InstanceStopped"

definition plan_retry :: "api_config \<Rightarrow> timestamp \<Rightarrow> release_catalog option option \<Rightarrow> instance_view \<Rightarrow> action_plan" where
  "plan_retry cfg now listed v =
     (if in_status v \<noteq> InstanceFailed then Inl (409, ''only a failed instance can be retried'')
      else if refresh_required_for cfg now listed v
      then Inl (409, ''managed runtime recovery is required; open the instance and recover its managed runtime'')
      else Inr (JobProvision, InstanceProvisioning, encode_provision (retry_payload_of v)))"

definition plan_repair_runtime ::
    "api_config \<Rightarrow> timestamp \<Rightarrow> db \<Rightarrow> action_request \<Rightarrow> instance_view \<Rightarrow> action_plan" where
  "plan_repair_runtime cfg now d q v =
     (if in_status v \<noteq> InstanceRunning
      then Inl (409, ''only an instance with a running desired state can repair runtime drift'')
      else confirmed v q
        (if \<not> fresh_drift cfg now d v ''runtime'' \<and> \<not> fresh_drift cfg now d v ''health_endpoint''
         then Inl (409, ''refresh diagnostics before repairing the runtime'')
         else with_agent cfg now d v ''runtime repair''
           (Inr (JobRuntimeRepair, InstanceRestarting, encode_runtime_repair (repair_payload_of v 1 1 ''manual'')))))"

definition plan_sync_runtime ::
    "api_config \<Rightarrow> timestamp \<Rightarrow> release_catalog option option \<Rightarrow> db \<Rightarrow> action_request \<Rightarrow> instance_view \<Rightarrow> action_plan" where
  "plan_sync_runtime cfg now listed d q v =
     (if \<not> stable v
      then Inl (409, ''only a running or stopped instance can synchronize runtime configuration'')
      else confirmed v q
        (if \<not> in_codex_configured v
         then Inl (409, ''configure Codex before synchronizing runtime configuration'')
         else if validate_runtime (in_provider v) (in_model v) (in_reasoning v) (in_service_tier v) \<noteq> None
         then Inl (409, ''saved Codex configuration is invalid'')
         else if refresh_required_for cfg now listed v
         then Inl (409, ''refresh the managed runtime before synchronizing runtime configuration'')
         else if \<not> fresh_drift cfg now d v ''runtime_configuration''
         then Inl (409, ''refresh diagnostics before synchronizing runtime configuration'')
         else with_agent cfg now d v ''runtime synchronization''
           (Inr (JobRuntimeSync, InstanceUpdating, encode_runtime_sync (sync_payload_of v)))))"

definition plan_reconcile_image ::
    "api_config \<Rightarrow> timestamp \<Rightarrow> db \<Rightarrow> action_request \<Rightarrow> instance_view \<Rightarrow> action_plan" where
  "plan_reconcile_image cfg now d q v =
     (if in_status v \<noteq> InstanceStopped then Inl (409, ''only a stopped instance can reconcile image metadata'')
      else confirmed v q (with_agent cfg now d v ''image reconciliation''
        (Inr (JobImageReconcile, InstanceReconciling, encode_image_reconcile (image_reconcile_payload_of v)))))"

definition plan_fix_image_drift ::
    "api_config \<Rightarrow> timestamp \<Rightarrow> db \<Rightarrow> action_request \<Rightarrow> instance_view \<Rightarrow> action_plan" where
  "plan_fix_image_drift cfg now d q v =
     (if \<not> stable v then Inl (409, ''only a running or stopped instance can fix image drift'')
      else confirmed v q
        (if \<not> fresh_drift cfg now d v ''image''
         then Inl (409, ''refresh diagnostics before running this fix'')
         else with_agent cfg now d v ''automatic image repair''
           (Inr (JobImageRepair, InstanceReconciling, encode_image_repair (image_repair_payload_of v)))))"

definition plan_delete :: "action_request \<Rightarrow> instance_view \<Rightarrow> action_plan" where
  "plan_delete q v =
     (if aq_confirm_name q \<noteq> in_name v then Inl (400, ''instance name confirmation does not match'')
      else if \<not> stable v \<and> in_status v \<noteq> InstanceFailed
      then Inl (409, ''only a running, stopped, or failed instance can be deleted'')
      else Inr (JobDelete, InstanceDeleting, encode_action (action_payload_of v)))"

definition plan_action ::
    "api_config \<Rightarrow> timestamp \<Rightarrow> release_catalog option option \<Rightarrow> db \<Rightarrow> action_request \<Rightarrow> instance_view \<Rightarrow> action_plan" where
  "plan_action cfg now listed d q v =
     (let a = aq_action q in
      if a = ''retry'' then plan_retry cfg now listed v
      else if a = ''start'' then
        (if in_status v \<noteq> InstanceStopped then Inl (409, ''only a stopped instance can be started'')
         else Inr (JobStart, InstanceProvisioning, encode_action (action_payload_of v)))
      else if a = ''stop'' then
        (if in_status v \<noteq> InstanceRunning then Inl (409, ''only a running instance can be stopped'')
         else Inr (JobStop, InstanceProvisioning, encode_action (action_payload_of v)))
      else if a = ''repair-runtime'' then plan_repair_runtime cfg now d q v
      else if a = ''sync-runtime'' then plan_sync_runtime cfg now listed d q v
      else if a = ''reconcile-image'' then plan_reconcile_image cfg now d q v
      else if a = ''fix-image-drift'' then plan_fix_image_drift cfg now d q v
      else if a = ''delete'' then plan_delete q v
      else Inl (400, ''action must be retry, start, stop, repair-runtime, sync-runtime, reconcile-image, fix-image-drift, or delete''))"

definition action_type :: "string \<Rightarrow> operation_type" where
  "action_type action = (if action = ''delete'' then OpDelete else OpOther (action_type_name action))"

definition action_operation :: "request_env \<Rightarrow> action_request \<Rightarrow> instance_view \<Rightarrow> operation" where
  "action_operation env q v = pending_operation env (in_id v) (aq_workflow_id q) ''FLEET_ADMIN''
     (action_type (aq_action q)) (action_summary (aq_action q) @ '' '' @ in_name v)
     (operation_metadata [(''workflow_step'', JString (aq_action q))])"

definition queue_planned_action ::
    "request_env \<Rightarrow> action_request \<Rightarrow> instance_view \<Rightarrow> job_type \<Rightarrow> instance_status \<Rightarrow> json \<Rightarrow> db
      \<Rightarrow> operation reply \<times> db" where
  "queue_planned_action env q v t next_status payload d =
     (let op = action_operation env q v
      in case queue_action (in_status v) next_status op (pending_job env op (in_host_id v) t payload) d of
          Inl e \<Rightarrow> (write_queue_error ''instance action could not be queued'' e, d)
        | Inr d' \<Rightarrow> (Reply 202 op, d'))"

definition instance_action ::
    "api_config \<Rightarrow> bool \<Rightarrow> release_catalog option option \<Rightarrow> request_env \<Rightarrow> string \<Rightarrow> action_request \<Rightarrow> db
      \<Rightarrow> operation reply \<times> db" where
  "instance_action cfg capacity_ok listed env i q d =
     (case get_instance i d of
        Inl _ \<Rightarrow> (Refused 404 ''instance not found'', d)
      | Inr v \<Rightarrow>
     if \<not> valid_workflow_id (aq_workflow_id q) then (Refused 400 ''workflow identity is invalid'', d)
     else if aq_action q \<noteq> ''stop'' \<and> aq_action q \<noteq> ''delete'' \<and> \<not> capacity_ok
     then (Refused 507 capacity_message, d)
     else case plan_action cfg (qe_now env) listed d q v of
         Inl (code, e) \<Rightarrow> (Refused code e, d)
       | Inr (t, next_status, payload) \<Rightarrow> queue_planned_action env q v t next_status payload d)"

end
