(* ===== verification/Api_Observations.thy ===== *)
theory Api_Observations
  imports Api_Actions
begin

text \<open>
  Observations in \<open>internal/api/server.go\<close>: the reports of a Host Agent and the automatic work they
  lead to (\<open>agentObservations\<close>, \<open>queueAutomaticRuntimeRepair\<close>, \<open>queueAutomaticRuntimeSync\<close>), the
  refresh and the cancellation an administrator asks for, and the instances with their effective
  observations. A failure that the handler only logs leaves the state as it is. Every report has its
  own environment: the time at which it is processed, new identities and the answers of the
  release source.
\<close>

section \<open>The sequence of reports\<close>

datatype sequence_error = WrongHost | NotNewer string

definition sequence_text :: string where
  "sequence_text = ''observation is not newer than the stored report''"

definition check_sequence :: "string \<Rightarrow> db \<Rightarrow> instance_observation \<Rightarrow> sequence_error option" where
  "check_sequence host d b =
     (case get_instance (io_instance_id b) d of
        Inl _ \<Rightarrow> Some (NotNewer (sequence_text @ '': observation target no longer exists''))
      | Inr v \<Rightarrow>
          if in_host_id v \<noteq> host then Some WrongHost
          else if io_target_generation b \<noteq> generation_of v
          then Some (NotNewer (sequence_text @ '': desired state changed before the report arrived''))
          else (case iv_observation v of
              None \<Rightarrow> None
            | Some q \<Rightarrow>
                if io_target_generation q = io_target_generation b \<and> \<not> io_observed_at b > io_observed_at q
                then Some (NotNewer (sequence_text @ '': a newer or equal report is already stored''))
                else None))"

fun validate_observation_sequence :: "string \<Rightarrow> db \<Rightarrow> instance_observation list \<Rightarrow> sequence_error option" where
  "validate_observation_sequence host d [] = None"
| "validate_observation_sequence host d (b # bs) =
     (case check_sequence host d b of Some e \<Rightarrow> Some e | None \<Rightarrow> validate_observation_sequence host d bs)"

definition observation_check_status :: "instance_observation \<Rightarrow> string \<Rightarrow> check_status option" where
  "observation_check_status b name = map_option oc_status (find (\<lambda>c. oc_name c = name) (io_checks b))"

section \<open>Automatic work\<close>

record report_env =
  re_now :: timestamp
  re_workflow :: string
  re_operation_id :: string
  re_job_id :: string
  re_listed :: "release_catalog option option"
  re_listed_sync :: "release_catalog option option"

definition request_of :: "report_env \<Rightarrow> request_env" where
  "request_of e = \<lparr>qe_now = re_now e, qe_operation_id = re_operation_id e, qe_job_id = re_job_id e,
     qe_random = '''', qe_tmp = ''''\<rparr>"

text \<open>Both automatic jobs need the current agent, and answer \<open>ErrStateChanged\<close> without it.\<close>

definition automatic_host :: "api_config \<Rightarrow> timestamp \<Rightarrow> string \<Rightarrow> db \<Rightarrow> bool" where
  "automatic_host cfg now host d \<longleftrightarrow>
     (case get_host host d of
        Inl _ \<Rightarrow> False
      | Inr h \<Rightarrow> \<not> agent_offline cfg now h \<and> h_agent_version h = agent_version)"

definition repair_operation :: "report_env \<Rightarrow> runtime_remediation \<Rightarrow> instance_view \<Rightarrow> operation" where
  "repair_operation e rem v = pending_operation (request_of e) (in_id v) (rr_workflow_id rem) ''SYSTEM''
     (OpOther ''REPAIR_RUNTIME'') (''Automatically repair and verify '' @ in_name v)
     (operation_metadata
        [(''workflow_step'', JString ''automatic-runtime-repair''),
         (''recovery_phase'', JInt (int (rr_phase rem))),
         (''recovery_attempt'', JInt (int (rr_attempt_in_phase rem))),
         (''recovery_total_attempt'', JInt (int (rr_total_attempts rem))),
         (''recovery_max_attempts'', JInt (int (rr_max_attempts rem)))])"

definition queue_automatic_runtime_repair ::
    "api_config \<Rightarrow> report_env \<Rightarrow> string \<Rightarrow> string \<Rightarrow> runtime_remediation \<Rightarrow> db \<Rightarrow> db result" where
  "queue_automatic_runtime_repair cfg e host i rem d =
     and_then (get_instance i d) (\<lambda>v.
     guard (in_host_id v = host \<and> in_status v = InstanceRunning) ErrStateChanged
     (guard (has_runtime_metadata v) ErrStateChanged
     (guard (automatic_host cfg (re_now e) host d) ErrStateChanged
     (let op = repair_operation e rem v
      in queue_runtime_repair InstanceRunning op
           (pending_job (request_of e) op (in_host_id v) JobRuntimeRepair
             (encode_runtime_repair (repair_payload_of v (rr_phase rem) (rr_attempt_in_phase rem) ''automatic'')))
           rem d))))"

datatype sync_error = RefreshRequired | SyncRefused store_error

definition sync_operation :: "report_env \<Rightarrow> instance_view \<Rightarrow> operation" where
  "sync_operation e v = pending_operation (request_of e) (in_id v) '''' '''' (OpOther ''SYNC_RUNTIME'')
     (''Automatically complete Hermes setup '' @ in_name v) None"

definition syncable :: "string \<Rightarrow> instance_view \<Rightarrow> bool" where
  "syncable host v \<longleftrightarrow> in_host_id v = host \<and> stable v \<and> has_runtime_metadata v \<and> in_codex_configured v
     \<and> validate_runtime (in_provider v) (in_model v) (in_reasoning v) (in_service_tier v) = None"

definition queue_automatic_runtime_sync ::
    "api_config \<Rightarrow> report_env \<Rightarrow> string \<Rightarrow> string \<Rightarrow> db \<Rightarrow> sync_error + db" where
  "queue_automatic_runtime_sync cfg e host i d =
     (case get_instance i d of
        Inl err \<Rightarrow> Inl (SyncRefused err)
      | Inr v \<Rightarrow>
          if \<not> syncable host v then Inl (SyncRefused ErrStateChanged)
          else if refresh_required_for cfg (re_now e) (re_listed_sync e) v then Inl RefreshRequired
          else if \<not> automatic_host cfg (re_now e) host d then Inl (SyncRefused ErrStateChanged)
          else let op = sync_operation e v
            in (case queue_action (in_status v) InstanceUpdating op
                  (pending_job (request_of e) op host JobRuntimeSync (encode_runtime_sync (sync_payload_of v))) d of
                Inl err \<Rightarrow> Inl (SyncRefused err) | Inr d' \<Rightarrow> Inr d'))"

text \<open>\<open>if recordErr := ...\<close>: the failure is recorded when it can be.\<close>

definition or_unchanged :: "db result \<Rightarrow> db \<Rightarrow> db" where
  "or_unchanged r d = (case r of Inl _ \<Rightarrow> d | Inr d' \<Rightarrow> d')"

definition repair_or_record ::
    "api_config \<Rightarrow> report_env \<Rightarrow> string \<Rightarrow> string \<Rightarrow> runtime_remediation \<Rightarrow> db \<Rightarrow> db" where
  "repair_or_record cfg e host i rem d =
     (case queue_automatic_runtime_repair cfg e host i rem d of
        Inr d' \<Rightarrow> d'
      | Inl _ \<Rightarrow> record_runtime_remediation_queue_failure i
          ''Automatic runtime repair could not be queued safely'' (re_now e) d)"

definition sync_or_record :: "api_config \<Rightarrow> report_env \<Rightarrow> string \<Rightarrow> string \<Rightarrow> db \<Rightarrow> db" where
  "sync_or_record cfg e host i d =
     (case queue_automatic_runtime_sync cfg e host i d of
        Inr d' \<Rightarrow> d'
      | Inl RefreshRequired \<Rightarrow> d
      | Inl (SyncRefused _) \<Rightarrow> or_unchanged (record_runtime_configuration_queue_failure i (re_now e) d) d)"

text \<open>
  One report: runtime repair comes first, runtime drift without a decision waits, a managed
  refresh comes before the synchronisation of the configuration.
\<close>

definition after_report ::
    "api_config \<Rightarrow> string \<Rightarrow> report_env \<Rightarrow> instance_observation \<Rightarrow> db \<Rightarrow> db" where
  "after_report cfg host e b d =
     (let (decision, d) = track_runtime_health_observation b (re_now e) (re_workflow e) d in
      case (rd_queue decision, rd_state decision) of
        (True, Some rem) \<Rightarrow> repair_or_record cfg e host (io_instance_id b) rem d
      | _ \<Rightarrow>
     if observation_check_status b ''runtime'' = Some CheckDrift then d
     else case runtime_refresh_required cfg (re_now e) (re_listed e) (io_instance_id b) d of
        Inl _ \<Rightarrow> d
      | Inr True \<Rightarrow> d
      | Inr False \<Rightarrow>
          let (queue, d) = track_runtime_configuration_observation b (re_now e) d
          in if queue then sync_or_record cfg e host (io_instance_id b) d else d)"

fun after_reports ::
    "api_config \<Rightarrow> string \<Rightarrow> (report_env \<times> instance_observation) list \<Rightarrow> db \<Rightarrow> db" where
  "after_reports cfg host [] d = d"
| "after_reports cfg host ((e, b) # bs) d = after_reports cfg host bs (after_report cfg host e b d)"

definition agent_observations ::
    "api_config \<Rightarrow> string \<Rightarrow> timestamp \<Rightarrow> (report_env \<times> instance_observation) list \<Rightarrow> db \<Rightarrow> unit reply \<times> db" where
  "agent_observations cfg host now reports d =
     (let bs = map snd reports in
      case validate_observations bs now (ac_stale_after cfg) of
        Some e \<Rightarrow> (Refused 400 e, d)
      | None \<Rightarrow>
     case validate_observation_sequence host d bs of
        Some WrongHost \<Rightarrow> (Refused 403 ''observation target does not belong to this host'', d)
      | Some (NotNewer e) \<Rightarrow> (Refused 409 e, d)
      | None \<Rightarrow>
     case record_observations host bs now d of
        Inl ErrObservationOwnership \<Rightarrow> (Refused 403 ''observation target does not belong to this host'', d)
      | Inl _ \<Rightarrow> (Refused 500 ''observations could not be recorded'', d)
      | Inr d \<Rightarrow> (Reply 204 (), after_reports cfg host reports d))"

section \<open>The administrator\<close>

definition request_observation_refresh ::
    "string \<Rightarrow> string \<Rightarrow> timestamp \<Rightarrow> db \<Rightarrow> observation_request reply \<times> db" where
  "request_observation_refresh i request now d =
     (case request_observation i request now d of
        Inr (q, d') \<Rightarrow> (Reply 202 q, d')
      | Inl e \<Rightarrow>
          (if e = ErrNotFound then Refused 404 ''instance not found''
           else if e = ErrObservationNotReady then Refused 409 ''instance is not ready for observation''
           else if e = ErrObservationBusy
           then Refused 409 ''a diagnostics refresh is already pending for this instance''
           else Refused 500 ''observation refresh could not be requested'', d))"

definition cancel_runtime_remediation_handler ::
    "string \<Rightarrow> timestamp \<Rightarrow> db \<Rightarrow> runtime_remediation reply \<times> db" where
  "cancel_runtime_remediation_handler i now d =
     (case get_instance i d of
        Inl _ \<Rightarrow> (Refused 404 ''instance not found'', d)
      | Inr v \<Rightarrow>
     if in_status v = InstanceRestarting
     then (Refused 409 ''the active recovery attempt must finish before automatic recovery can be stopped'', d)
     else case cancel_runtime_remediation i now d of
        Inl _ \<Rightarrow> (Refused 409 ''automatic runtime recovery is not active'', d)
      | Inr d \<Rightarrow>
          (case get_runtime_remediation i d of
             None \<Rightarrow> Refused 500 ''automatic runtime recovery state could not be loaded''
           | Some r \<Rightarrow> Reply 200 r, d))"

section \<open>Effective observations\<close>

record effective_instance = instance_view +
  ei_hermes_version :: string
  ei_hermes_source :: string
  ei_hermes_verified :: bool
  ei_remediation :: "runtime_remediation option"

definition stale_report :: "api_config \<Rightarrow> timestamp \<Rightarrow> instance_observation \<Rightarrow> bool" where
  "stale_report cfg now b \<longleftrightarrow> io_received_at b = zero_time \<or> io_observed_at b = zero_time
     \<or> io_received_at b > now + minutes 2 \<or> io_observed_at b > io_received_at b + minutes 2
     \<or> now - io_received_at b > ac_stale_after cfg \<or> now - io_observed_at b > ac_stale_after cfg"

text \<open>Why an observation does not count; \<open>online\<close> are the hosts that are online.\<close>

definition unknown_reason ::
    "api_config \<Rightarrow> timestamp \<Rightarrow> string list \<Rightarrow> instance_view \<Rightarrow> string option" where
  "unknown_reason cfg now online v =
     (if in_status v \<in> {InstanceDeleted, InstanceDeleting}
      then Some ''Deleted or deleting instances are not observed''
      else if in_status v \<in> {InstanceProvisioning, InstanceRestarting, InstanceUpdating, InstanceReconciling}
      then Some ''Desired state is changing; awaiting a stable lifecycle state''
      else if in_host_id v \<notin> set online then Some ''Host is offline; current runtime state is unknown''
      else case iv_observation v of
          None \<Rightarrow> Some ''No runtime observation has been received''
        | Some b \<Rightarrow>
            if io_target_generation b \<noteq> generation_of v
            then Some ''Desired state changed; awaiting a current observation''
            else if stale_report cfg now b then Some ''Runtime observation is stale'' else None)"

definition unknown_observation :: "string \<Rightarrow> instance_view \<Rightarrow> instance_observation" where
  "unknown_observation reason v =
     (case iv_observation v of
        Some b \<Rightarrow> b\<lparr>io_status := ''UNKNOWN'', io_summary := reason\<rparr>
      | None \<Rightarrow> \<lparr>io_instance_id = in_id v, io_host_id = '''', io_target_generation = '''',
          io_refresh_request_id = '''', io_hermes_version = '''', io_hermes_source = '''',
          io_model_catalog = [], io_recommended_model = '''', io_provider_catalogs = [],
          io_status = ''UNKNOWN'', io_summary = reason, io_checks = [], io_observed_at = zero_time,
          io_received_at = zero_time\<rparr>)"

definition reported_version :: "instance_view \<Rightarrow> instance_observation option" where
  "reported_version v = (case iv_observation v of
       None \<Rightarrow> None
     | Some b \<Rightarrow> if (io_target_generation b = '''' \<or> io_target_generation b = generation_of v)
         \<and> io_hermes_version b \<noteq> '''' then Some b else None)"

text \<open>Version, source, and whether the report is of this generation.\<close>

definition effective_version :: "release_catalog \<Rightarrow> instance_view \<Rightarrow> string \<times> string \<times> bool" where
  "effective_version c v =
     (case reported_version v of
        Some b \<Rightarrow> (io_hermes_version b, io_hermes_source b, io_target_generation b = generation_of v)
      | None \<Rightarrow> (case find_by_runtime_image c (in_image v) of
            Some r \<Rightarrow> (rl_version r, rl_commit r, False) | None \<Rightarrow> ('''', '''', False)))"

definition effective_instance ::
    "api_config \<Rightarrow> timestamp \<Rightarrow> release_catalog \<Rightarrow> string list \<Rightarrow> db \<Rightarrow> instance_view \<Rightarrow> effective_instance" where
  "effective_instance cfg now c online d v =
     (let (version, source, verified) = effective_version c v; reason = unknown_reason cfg now online v;
          shown = (case reason of None \<Rightarrow> v | Some t \<Rightarrow> v\<lparr>iv_observation := Some (unknown_observation t v)\<rparr>)
      in instance_view.extend shown
        \<lparr>ei_hermes_version = version, ei_hermes_source = source, ei_hermes_verified = (verified \<and> reason = None),
         ei_remediation = get_runtime_remediation (in_id v) d\<rparr>)"

definition effective_catalog :: "api_config \<Rightarrow> release_catalog option option \<Rightarrow> release_catalog" where
  "effective_catalog cfg listed = (case hermes_catalog cfg listed of None \<Rightarrow> ac_catalog cfg | Some c \<Rightarrow> c)"

definition instances_with_effective_observations ::
    "api_config \<Rightarrow> timestamp \<Rightarrow> release_catalog option option \<Rightarrow> string list \<Rightarrow> instance_row list \<Rightarrow> db
      \<Rightarrow> effective_instance list" where
  "instances_with_effective_observations cfg now listed online rows d =
     map (\<lambda>r. effective_instance cfg now (effective_catalog cfg listed) online d (view_instance d r)) rows"

section \<open>The operation list\<close>

text \<open>The values of the query parameters \<open>limit\<close> and \<open>cursor\<close>, in the order of the request.\<close>

record operation_query =
  oq_empty :: bool
  oq_unknown :: bool
  oq_limit :: "string list option"
  oq_cursor :: "string list option"

definition parse_limit :: "string list option \<Rightarrow> int option" where
  "parse_limit vs =
     (case vs of
        None \<Rightarrow> Some default_operation_page_limit
      | Some [v] \<Rightarrow>
          let t = (if v \<noteq> '''' \<and> hd v \<in> set ''+-'' then tl v else v);
              n = foldl (\<lambda>a c. 10 * a + (int (byte_of c) - 48)) 0 t;
              n = (if v \<noteq> '''' \<and> hd v = CHR ''-'' then - n else n)
          in if t = '''' \<or> \<not> list_all is_digit t \<or> n < 1 \<or> n > maximum_operation_page_limit then None else Some n
      | _ \<Rightarrow> None)"

text \<open>\<open>decode\<close> stands for \<open>decodeOperationCursor\<close>, base64 and JSON of a creation time and an id.\<close>

definition parse_cursor ::
    "(string \<Rightarrow> (timestamp \<times> string) option) \<Rightarrow> string list option \<Rightarrow> (timestamp \<times> string) option option" where
  "parse_cursor decode vs =
     (case vs of None \<Rightarrow> Some None | Some [v] \<Rightarrow> map_option Some (decode v) | _ \<Rightarrow> None)"

definition list_operations_handler ::
    "(string \<Rightarrow> (timestamp \<times> string) option) \<Rightarrow> operation_query \<Rightarrow> db \<Rightarrow> operation_page reply" where
  "list_operations_handler decode q d =
     (if oq_empty q
      then Reply 200 \<lparr>pg_items = take (nat maximum_operation_page_limit) (newest_operations d), pg_next = None\<rparr>
      else if oq_unknown q then Refused 400 ''operations query only accepts limit and cursor''
      else case parse_limit (oq_limit q) of
          None \<Rightarrow> Refused 400 ''limit must be an integer between 1 and 100''
        | Some limit \<Rightarrow>
      case parse_cursor decode (oq_cursor q) of
          None \<Rightarrow> Refused 400 ''cursor is invalid''
        | Some cursor \<Rightarrow> (case list_operations_page limit cursor d of
              Inl _ \<Rightarrow> Refused 500 ''could not list operations'' | Inr page \<Rightarrow> Reply 200 page))"

definition get_operation_handler :: "string \<Rightarrow> db \<Rightarrow> operation reply" where
  "get_operation_handler i d =
     (case get_operation i d of Inl _ \<Rightarrow> Refused 404 ''operation not found'' | Inr op \<Rightarrow> Reply 200 op)"

end
