(* ===== verification/Properties_Reports.thy ===== *)
theory Properties_Reports
  imports Api_Observations
begin

text \<open>
  What the reports of a Host Agent can lead to: the automatic repairs and synchronisations that
  \<open>agentObservations\<close> queues.
\<close>

section \<open>Work that reports lead to\<close>

text \<open>At most one job more, for an instance that had none.\<close>

definition adds_one :: "string \<Rightarrow> string \<Rightarrow> job_row list \<Rightarrow> job_row list \<Rightarrow> bool" where
  "adds_one host i jobs jobs' \<longleftrightarrow> jobs' = jobs \<or> (\<exists>j. jobs' = jobs @ [j] \<and> j_instance_id j = i \<and> j_host_id j = host
     \<and> j_status j = JobPending \<and> (j_type j = JobRuntimeRepair \<or> j_type j = JobRuntimeSync)
     \<and> active_instance_jobs i jobs = 0)"

definition adds_some :: "string \<Rightarrow> string set \<Rightarrow> job_row list \<Rightarrow> job_row list \<Rightarrow> bool" where
  "adds_some host ids jobs jobs' \<longleftrightarrow> (\<exists>js. jobs' = jobs @ js \<and> distinct (map j_instance_id js)
     \<and> list_all (\<lambda>j. j_host_id j = host \<and> j_status j = JobPending
          \<and> (j_type j = JobRuntimeRepair \<or> j_type j = JobRuntimeSync) \<and> j_instance_id j \<in> ids
          \<and> active_instance_jobs (j_instance_id j) jobs = 0) js)"

lemma active_instance_jobs_append [simp]:
  "active_instance_jobs i (xs @ ys) = active_instance_jobs i xs + active_instance_jobs i ys"
  by (simp add: active_instance_jobs_def count_where_def)

lemma adds_some_Cons:
  assumes "adds_one host i a b" "adds_some host ids b c"
  shows "adds_some host (insert i ids) a c"
proof -
  obtain js where js: "c = b @ js" "distinct (map j_instance_id js)"
    "list_all (\<lambda>j. j_host_id j = host \<and> j_status j = JobPending
          \<and> (j_type j = JobRuntimeRepair \<or> j_type j = JobRuntimeSync) \<and> j_instance_id j \<in> ids
          \<and> active_instance_jobs (j_instance_id j) b = 0) js"
    using assms(2) unfolding adds_some_def by blast
  from assms(1) show ?thesis unfolding adds_one_def
  proof (rule disjE)
    assume "b = a"
    then show ?thesis using js by (auto simp: adds_some_def list_all_iff intro!: exI[of _ js])
  next
    assume "\<exists>j. b = a @ [j] \<and> j_instance_id j = i \<and> j_host_id j = host \<and> j_status j = JobPending
      \<and> (j_type j = JobRuntimeRepair \<or> j_type j = JobRuntimeSync) \<and> active_instance_jobs i a = 0"
    then obtain j where j: "b = a @ [j]" "j_instance_id j = i" "j_host_id j = host" "j_status j = JobPending"
      "j_type j = JobRuntimeRepair \<or> j_type j = JobRuntimeSync" "active_instance_jobs i a = 0" by blast
    then have one: "active_instance_jobs i b \<noteq> 0" by (simp add: active_instance_jobs_def count_where_def active_job_def)
    then show ?thesis using js j
      by (auto simp: adds_some_def list_all_iff intro!: exI[of _ "j # js"])
  qed
qed

lemma viewed_id: "get_instance i d = Inr v \<Longrightarrow> in_id v = i"
proof -
  assume v: "get_instance i d = Inr v"
  then obtain r where r: "find_instance d i = Some r" "v = view_instance d r"
    by (auto simp: get_instance_def split: option.splits)
  then have "in_id r = i" unfolding find_instance_def find_row_def using find_SomeD by fastforce
  then show "in_id v = i" using r(2) by (simp add: view_instance_def instance_row.defs)
qed

lemma new_job_row_fields [simp]:
  "j_instance_id (new_job_row j) = j_instance_id j" "j_host_id (new_job_row j) = j_host_id j"
  "j_status (new_job_row j) = j_status j" "j_type (new_job_row j) = j_type j"
  by (simp_all add: new_job_row_def job.defs)

lemma pending_job_fields:
  "j_instance_id (pending_job env op host t payload) = op_instance_id op" "j_host_id (pending_job env op host t payload) = host"
  "j_status (pending_job env op host t payload) = JobPending" "j_type (pending_job env op host t payload) = t"
  by (simp_all add: pending_job_def)

lemma repair_adds:
  assumes "queue_automatic_runtime_repair cfg e host i rem d = Inr d'"
  shows "adds_one host i (db_jobs d) (db_jobs d')"
proof -
  obtain v p where v: "get_instance i d = Inr v" "in_host_id v = host" "queue_runtime_repair InstanceRunning
      (repair_operation e rem v) (pending_job (request_of e) (repair_operation e rem v) (in_host_id v) JobRuntimeRepair p)
      rem d = Inr d'"
    using assms by (auto simp: queue_automatic_runtime_repair_def Let_def)
  have "op_instance_id (repair_operation e rem v) = i"
    using viewed_id[OF v(1)] by (simp add: repair_operation_def pending_operation_def)
  then show ?thesis
    using queue_runtime_repair_admits[OF v(3)] v(2) by (simp add: adds_one_def admits_def pending_job_fields)
qed

lemma sync_adds:
  assumes "queue_automatic_runtime_sync cfg e host i d = Inr d'"
  shows "adds_one host i (db_jobs d) (db_jobs d')"
proof -
  obtain v p where v: "get_instance i d = Inr v" "queue_action (in_status v) InstanceUpdating
      (sync_operation e v) (pending_job (request_of e) (sync_operation e v) host JobRuntimeSync p) d = Inr d'"
    using assms by (auto simp: queue_automatic_runtime_sync_def Let_def split: sum.splits if_splits)
  have "op_instance_id (sync_operation e v) = i"
    using viewed_id[OF v(1)] by (simp add: sync_operation_def pending_operation_def)
  then show ?thesis
    using queue_action_admits[OF v(2)] by (simp add: adds_one_def admits_def pending_job_fields)
qed

lemma track_configuration_jobs:
  "db_jobs (snd (track_runtime_configuration_observation b at d)) = db_jobs d"
  by (auto simp: track_runtime_configuration_observation_def clear_reconcile_def Let_def
      split: option.splits check_status.splits list.splits prod.splits)

lemma after_report_adds: "adds_one host (io_instance_id b) (db_jobs d) (db_jobs (after_report cfg host e b d))"
proof -
  have refl: "adds_one host i jobs jobs" for i jobs by (simp add: adds_one_def)
  have repair: "adds_one host i (db_jobs d) (db_jobs (repair_or_record cfg e host i rem d))" for i rem d
    using repair_adds[of cfg e host i rem d] refl
    by (auto simp: repair_or_record_def record_runtime_remediation_queue_failure_def split: sum.splits)
  have kept: "db_jobs (or_unchanged (record_runtime_configuration_queue_failure i at d) d) = db_jobs d" for i at d
    by (auto simp: or_unchanged_def record_runtime_configuration_queue_failure_def guard_def Let_def)
  have sync: "adds_one host i (db_jobs d) (db_jobs (sync_or_record cfg e host i d))" for i d
    using sync_adds[of cfg e host i d] refl kept
    by (auto simp: sync_or_record_def split: sum.splits sync_error.splits)
  obtain dc d1 where t: "track_runtime_health_observation b (re_now e) (re_workflow e) d = (dc, d1)" by fastforce
  obtain queue d2 where c: "track_runtime_configuration_observation b (re_now e) d1 = (queue, d2)" by fastforce
  have "db_jobs d1 = db_jobs d" "db_jobs d2 = db_jobs d1"
    using track_health_frame(1)[OF t] track_configuration_jobs[of b "re_now e" d1] by (simp_all add: c)
  then show ?thesis
    using repair[of "io_instance_id b" d1] sync[of "io_instance_id b" d2] refl
    by (auto simp: after_report_def t c split: option.splits bool.splits sum.splits)
qed

lemma after_reports_add:
  "adds_some host ((\<lambda>(e, b). io_instance_id b) ` set rs) (db_jobs d) (db_jobs (after_reports cfg host rs d))"
proof (induction cfg host rs d rule: after_reports.induct)
  case (2 cfg host e b bs d)
  show ?case using adds_some_Cons[OF after_report_adds 2] by simp
qed (simp add: adds_some_def)

text \<open>C5. Automatic work never competes. Whatever a Host Agent reports, and whatever the handler
  answers, the handler only adds jobs at the end of the queue: at most one per reported instance,
  each a pending repair or synchronisation for this host, and none for an instance that has an
  active job.\<close>

theorem automatic_work_never_competes:
  "\<exists>js. db_jobs (snd (agent_observations cfg host now reports d)) = db_jobs d @ js
     \<and> distinct (map j_instance_id js)
     \<and> list_all (\<lambda>j. j_host_id j = host \<and> j_status j = JobPending
          \<and> (j_type j = JobRuntimeRepair \<or> j_type j = JobRuntimeSync)
          \<and> j_instance_id j \<in> (\<lambda>(e, b). io_instance_id b) ` set reports
          \<and> active_instance_jobs (j_instance_id j) (db_jobs d) = 0) js"
proof -
  have none: "adds_some host ids (db_jobs d) (db_jobs d)" for ids d by (simp add: adds_some_def)
  have "adds_some host ((\<lambda>(e, b). io_instance_id b) ` set reports) (db_jobs d)
      (db_jobs (snd (agent_observations cfg host now reports d)))"
    using none after_reports_add[of host reports _ cfg] record_observations_frame(2)
    by (auto simp: agent_observations_def Let_def split: option.splits sequence_error.splits sum.splits store_error.splits)
      metis
  then show ?thesis unfolding adds_some_def by blast
qed

end
