(* ===== verification/Api_Campaigns.thy ===== *)
theory Api_Campaigns
  imports Api_Observations Store_Campaigns
begin

text \<open>
  Diagnostics campaigns, \<open>internal/api/campaigns.go\<close>: the requests of the administrator and the
  reconciliation that moves the targets of a campaign, at most \<open>concurrency\<close> at a time, and closes
  the operation when every target is over. A pass reads the clock once; \<open>fresh\<close> gives the new
  request identity of a target. What the code only logs leaves the state as it is; the events it
  publishes are not part of the state.
\<close>

section \<open>Error texts\<close>

text \<open>\<open>err.Error()\<close>; \<open>sqlite\<close> stands for the texts of the database driver.\<close>

definition store_error_text :: "(store_error \<Rightarrow> string) \<Rightarrow> store_error \<Rightarrow> string" where
  "store_error_text sqlite e = (case e of
       ErrNotFound \<Rightarrow> ''resource not found''
     | ErrLeaseLost \<Rightarrow> ''job lease is no longer active''
     | ErrInvalidJobResult t \<Rightarrow> ''job completion result is invalid: '' @ t
     | ErrStateChanged \<Rightarrow> ''resource state changed before the operation was queued''
     | ErrInstanceBusy \<Rightarrow> ''instance already has an active operation''
     | ErrHostBusy \<Rightarrow> ''host has a nonterminal job''
     | ErrHostIdentityMismatch \<Rightarrow> ''host identity confirmation does not match''
     | ErrObservationOwnership \<Rightarrow> ''observation target does not belong to this host''
     | ErrObservationNotReady \<Rightarrow> ''instance is not ready for observation''
     | ErrObservationBusy \<Rightarrow> ''instance already has a pending observation request''
     | ErrQueueCapacity \<Rightarrow> ''host job queue has reached its admission limit''
     | ErrMessage t \<Rightarrow> t
     | e \<Rightarrow> sqlite e)"

section \<open>Requests\<close>

record campaign_request =
  cq_action :: string
  cq_instance_ids :: "string list"
  cq_concurrency :: int

record campaign_metadata =
  cd_action :: string
  cd_concurrency :: int
  cd_target_count :: int
  cd_retry_of :: string

definition refresh_diagnostics :: string where
  "refresh_diagnostics = ''REFRESH_DIAGNOSTICS''"

text \<open>The loop that trims the identities and refuses an empty or repeated one.\<close>

fun clean_identities :: "string list \<Rightarrow> string list \<Rightarrow> string list option" where
  "clean_identities seen [] = Some []"
| "clean_identities seen (i # is) =
     (let i = trim_space i in
      if i = '''' \<or> i \<in> set seen then None
      else map_option (\<lambda>rest. i # rest) (clean_identities (i # seen) is))"

definition normalize_campaign_request ::
    "campaign_request \<Rightarrow> string + string \<times> string list \<times> int" where
  "normalize_campaign_request q =
     (let action = trim_space (cq_action q);
          action = (if action = '''' then refresh_diagnostics else action) in
      if action \<noteq> refresh_diagnostics then Inl ''this release supports only REFRESH_DIAGNOSTICS campaigns''
      else if cq_instance_ids q = [] \<or> length (cq_instance_ids q) > 100
      then Inl ''select between 1 and 100 instances''
      else case clean_identities [] (cq_instance_ids q) of
          None \<Rightarrow> Inl ''campaign targets must contain unique instance identities''
        | Some ids \<Rightarrow>
            let concurrency = (if cq_concurrency q = 0 then 2 else cq_concurrency q) in
            if concurrency < 1 \<or> concurrency > 10 then Inl ''campaign concurrency must be between 1 and 10''
            else Inr (action, sort ids, min concurrency (int (length ids))))"

definition decode_campaign_metadata :: "operation \<Rightarrow> campaign_metadata option" where
  "decode_campaign_metadata p = Option.bind (op_metadata p) (unmarshal (\<lambda>o'. do {
     a \<leftarrow> get_string ''action'' o'; c \<leftarrow> get_int ''concurrency'' o';
     n \<leftarrow> get_int ''target_count'' o'; r \<leftarrow> get_string ''retry_of'' o';
     if a = '''' \<or> c < 1 \<or> n < 1 then None
     else Some \<lparr>cd_action = a, cd_concurrency = c, cd_target_count = n, cd_retry_of = r\<rparr>}))"

section \<open>Views\<close>

type_synonym campaign_target = "campaign_row \<times> string"

record campaign =
  ca_id :: string
  ca_view_action :: string
  ca_status :: operation_status
  ca_summary :: string
  ca_concurrency :: int
  ca_retry_of :: string
  ca_targets :: "campaign_target list"
  ca_progress :: "job_progress option"
  ca_error :: string
  ca_created_at :: timestamp
  ca_updated_at :: timestamp

definition campaign_view :: "db \<Rightarrow> operation \<Rightarrow> campaign option" where
  "campaign_view d p = map_option (\<lambda>m.
     \<lparr>ca_id = op_id p, ca_view_action = cd_action m, ca_status = op_status p, ca_summary = op_summary p,
      ca_concurrency = cd_concurrency m, ca_retry_of = cd_retry_of m,
      ca_targets = list_campaign_targets (op_id p) d, ca_progress = op_progress p, ca_error = op_error p,
      ca_created_at = op_created_at p, ca_updated_at = op_updated_at p\<rparr>) (decode_campaign_metadata p)"

definition list_campaigns_handler :: "db \<Rightarrow> campaign list reply" where
  "list_campaigns_handler d =
     (let views = map (campaign_view d) (list_campaign_operations 50 False d) in
      if None \<in> set views then Refused 500 ''campaign targets could not be loaded''
      else Reply 200 (map the views))"

text \<open>The campaign operation that a request names.\<close>

definition named_campaign :: "string \<Rightarrow> db \<Rightarrow> (nat \<times> string) + operation" where
  "named_campaign i d =
     (case get_operation i d of
        Inl e \<Rightarrow> Inl (if e = ErrNotFound then (404, ''campaign not found'') else (500, ''campaign could not be loaded''))
      | Inr p \<Rightarrow> if op_type p \<noteq> OpCampaign then Inl (404, ''campaign not found'') else Inr p)"

definition get_campaign_handler :: "string \<Rightarrow> db \<Rightarrow> campaign reply" where
  "get_campaign_handler i d =
     (case named_campaign i d of
        Inl (code, e) \<Rightarrow> Refused code e
      | Inr p \<Rightarrow> (case campaign_view d p of
            None \<Rightarrow> Refused 500 ''campaign targets could not be loaded'' | Some c \<Rightarrow> Reply 200 c))"

section \<open>Targets\<close>

definition target_over :: "target_status \<Rightarrow> bool" where
  "target_over s \<longleftrightarrow> s \<noteq> TargetPending \<and> s \<noteq> TargetRunning"

definition campaign_targets_terminal :: "campaign_target list \<Rightarrow> bool" where
  "campaign_targets_terminal ts \<longleftrightarrow> list_all (\<lambda>(t, _). target_over (cm_status t)) ts"

definition with_status :: "target_status \<Rightarrow> campaign_target list \<Rightarrow> nat" where
  "with_status s ts = count_where (\<lambda>(t, _). cm_status t = s) ts"

text \<open>Completed, running and failed targets.\<close>

definition campaign_counts :: "campaign_target list \<Rightarrow> nat \<times> nat \<times> nat" where
  "campaign_counts ts =
     (let failed = with_status TargetFailed ts + with_status TargetBlocked ts
      in (with_status TargetSucceeded ts + failed, with_status TargetRunning ts, failed))"

text \<open>A refused update is only logged, unless the target was already over.\<close>

definition close_target ::
    "target_status \<Rightarrow> string \<Rightarrow> timestamp \<Rightarrow> campaign_target \<Rightarrow> db \<Rightarrow> campaign_target \<times> db" where
  "close_target status detail now t d =
     (let row = fst t;
          closed = (row\<lparr>cm_status := status, cm_detail := detail, cm_completed_at := Some now,
            cm_updated_at := now\<rparr>, snd t)
      in case finish_campaign_target (cm_campaign_id row) (cm_instance_id row) (cm_request_id row) status detail now d of
          Inr d' \<Rightarrow> (closed, d')
        | Inl e \<Rightarrow> (if e = ErrStateChanged then closed else t, d))"

definition campaign_timeout :: "api_config \<Rightarrow> duration" where
  "campaign_timeout cfg = max (2 * ac_stale_after cfg) (minutes 2)"

definition answered :: "timestamp \<Rightarrow> instance_view \<Rightarrow> bool" where
  "answered requested v \<longleftrightarrow> iv_request v = None
     \<and> (case iv_observation v of None \<Rightarrow> False | Some b \<Rightarrow> \<not> io_received_at b < requested)"

definition superseded_by :: "string \<Rightarrow> instance_view \<Rightarrow> bool" where
  "superseded_by request v \<longleftrightarrow> (case iv_request v of None \<Rightarrow> False | Some q \<Rightarrow> or_id q \<noteq> request)"

definition inspect_target ::
    "api_config \<Rightarrow> timestamp \<Rightarrow> campaign_target \<Rightarrow> db \<Rightarrow> campaign_target \<times> db" where
  "inspect_target cfg now t d =
     (case (cm_status (fst t), cm_requested_at (fst t)) of
        (TargetRunning, Some requested) \<Rightarrow>
          (case get_instance (cm_instance_id (fst t)) d of
             Inl e \<Rightarrow> if e = ErrNotFound then close_target TargetFailed ''Instance is unavailable'' now t d else (t, d)
           | Inr v \<Rightarrow>
               if answered requested v then close_target TargetSucceeded ''Fresh diagnostics received'' now t d
               else if superseded_by (cm_request_id (fst t)) v
               then close_target TargetFailed ''Observation request was superseded'' now t d
               else if now - requested \<ge> campaign_timeout cfg
               then close_target TargetFailed ''Timed out waiting for Host Agent diagnostics'' now t d
               else (t, d))
      | _ \<Rightarrow> (t, d))"

fun inspect_targets ::
    "api_config \<Rightarrow> timestamp \<Rightarrow> campaign_target list \<Rightarrow> db \<Rightarrow> campaign_target list \<times> db" where
  "inspect_targets cfg now [] d = ([], d)"
| "inspect_targets cfg now (t # ts) d =
     (let (t, d) = inspect_target cfg now t d; (ts, d) = inspect_targets cfg now ts d in (t # ts, d))"

definition started_target :: "string \<Rightarrow> timestamp \<Rightarrow> campaign_target \<Rightarrow> campaign_target" where
  "started_target request now t =
     ((fst t)\<lparr>cm_request_id := request, cm_status := TargetRunning,
        cm_detail := ''Waiting for a fresh Host Agent observation'', cm_requested_at := Some now\<rparr>, snd t)"

definition queue_campaign_target ::
    "api_config \<Rightarrow> timestamp \<Rightarrow> (string \<Rightarrow> string) \<Rightarrow> campaign_target \<Rightarrow> db \<Rightarrow> campaign_target \<times> db" where
  "queue_campaign_target cfg now fresh t d =
     (let i = cm_instance_id (fst t) in
      case get_instance i d of
        Inl _ \<Rightarrow> close_target TargetBlocked ''Instance is unavailable'' now t d
      | Inr v \<Rightarrow>
     case current_agent cfg now (in_host_id v) d ''Host Agent is offline''
        (''Host Agent must be upgraded to '' @ agent_version) of
        Inl e \<Rightarrow> close_target TargetBlocked e now t d
      | Inr _ \<Rightarrow>
     case start_campaign_observation (cm_campaign_id (fst t)) i (fresh i) now d of
        Inr d \<Rightarrow> (started_target (fresh i) now t, d)
      | Inl e \<Rightarrow>
          if e = ErrObservationBusy
          then close_target TargetBlocked ''Another diagnostics refresh is already pending'' now t d
          else if e = ErrObservationNotReady
          then close_target TargetBlocked ''Instance is not ready for diagnostics'' now t d
          else close_target TargetFailed ''Diagnostics refresh could not be queued'' now t d)"

fun start_targets ::
    "api_config \<Rightarrow> timestamp \<Rightarrow> (string \<Rightarrow> string) \<Rightarrow> int \<Rightarrow> int \<Rightarrow> campaign_target list \<Rightarrow> db
      \<Rightarrow> campaign_target list \<times> db" where
  "start_targets cfg now fresh limit running [] d = ([], d)"
| "start_targets cfg now fresh limit running (t # ts) d =
     (if running \<ge> limit then (t # ts, d)
      else if cm_status (fst t) \<noteq> TargetPending then
        (let (ts, d) = start_targets cfg now fresh limit running ts d in (t # ts, d))
      else
        (let (t, d) = queue_campaign_target cfg now fresh t d;
             running = (if cm_status (fst t) = TargetRunning then running + 1 else running);
             (ts, d) = start_targets cfg now fresh limit running ts d
         in (t # ts, d)))"

section \<open>Progress\<close>

definition step_of :: "string \<Rightarrow> string \<Rightarrow> string \<Rightarrow> operation_step" where
  "step_of stage status detail = \<lparr>os_stage = stage, os_status = status, os_detail = detail\<rparr>"

definition progress_of :: "string \<Rightarrow> string \<Rightarrow> operation_step list \<Rightarrow> job_progress" where
  "progress_of stage detail steps = \<lparr>jp_stage = stage, jp_detail = detail, jp_action_code = '''',
     jp_steps = steps, jp_verification_uri = '''', jp_user_code = '''', jp_expires_at = zero_time\<rparr>"

definition dec :: "nat \<Rightarrow> string" where
  "dec n = itoa (int n)"

definition campaign_selected :: "nat \<Rightarrow> int \<Rightarrow> job_progress" where
  "campaign_selected n concurrency =
     progress_of ''targets_selected'' (dec n @ '' target(s), concurrency '' @ itoa concurrency)
       [step_of ''Select targets'' ''succeeded'' (dec n @ '' instance(s)''),
        step_of ''Refresh diagnostics'' ''pending'' '''', step_of ''Verify observations'' ''pending'' '''']"

definition campaign_progress :: "campaign_target list \<Rightarrow> job_progress" where
  "campaign_progress ts =
     (let (completed, running, failed) = campaign_counts ts; n = length ts
      in progress_of ''refreshing_diagnostics''
           (dec completed @ '' of '' @ dec n @ '' complete; '' @ dec running @ '' active'')
           [step_of ''Select targets'' ''succeeded'' '''',
            step_of ''Refresh diagnostics'' ''running'' (dec completed @ '' of '' @ dec n @ '' complete''),
            step_of ''Verify observations'' ''pending'' ''''])"

definition update_campaign_progress :: "timestamp \<Rightarrow> string \<Rightarrow> campaign_target list \<Rightarrow> db \<Rightarrow> db" where
  "update_campaign_progress now i ts d =
     or_unchanged (update_control_plane_operation i OperationRunning (campaign_progress ts) '''' now d) d"

definition finish_campaign :: "timestamp \<Rightarrow> string \<Rightarrow> campaign_target list \<Rightarrow> db \<Rightarrow> db" where
  "finish_campaign now i ts d =
     (let (_, _, failed) = campaign_counts ts;
          detail = (if failed > 0 then dec failed @ '' of '' @ dec (length ts) @ '' target(s) require attention''
            else ''Fresh diagnostics were received for every target'');
          result = (if failed > 0 then ''failed'' else ''succeeded'')
      in or_unchanged (update_control_plane_operation i (if failed > 0 then OperationFailed else OperationSucceeded)
           (progress_of ''diagnostics_verified'' detail
             [step_of ''Select targets'' ''succeeded'' '''', step_of ''Refresh diagnostics'' result '''',
              step_of ''Verify observations'' result detail])
           (if failed > 0 then detail else '''') now d) d)"

definition fail_campaign :: "timestamp \<Rightarrow> string \<Rightarrow> string \<Rightarrow> db \<Rightarrow> db" where
  "fail_campaign now i detail d =
     or_unchanged (update_control_plane_operation i OperationFailed
       (progress_of ''campaign_failed'' detail
         [step_of ''Select targets'' ''failed'' detail, step_of ''Refresh diagnostics'' ''pending'' '''',
          step_of ''Verify observations'' ''pending'' '''']) detail now d) d"

section \<open>Reconciliation\<close>

definition reconcile_campaign ::
    "api_config \<Rightarrow> timestamp \<Rightarrow> (string \<Rightarrow> string) \<Rightarrow> operation \<Rightarrow> db \<Rightarrow> db" where
  "reconcile_campaign cfg now fresh p d =
     (case decode_campaign_metadata p of
        None \<Rightarrow> fail_campaign now (op_id p) ''Campaign metadata is invalid'' d
      | Some m \<Rightarrow>
          if cd_action m \<noteq> refresh_diagnostics \<or> cd_concurrency m < 1
          then fail_campaign now (op_id p) ''Campaign metadata is invalid'' d
          else
            let (ts, d) = inspect_targets cfg now (list_campaign_targets (op_id p) d) d in
            if campaign_targets_terminal ts then finish_campaign now (op_id p) ts d
            else
              let running = int (with_status TargetRunning ts);
                  (ts, d) = start_targets cfg now fresh (cd_concurrency m) running ts d in
              if campaign_targets_terminal ts then finish_campaign now (op_id p) ts d
              else update_campaign_progress now (op_id p) ts d)"

fun reconcile_each_campaign ::
    "api_config \<Rightarrow> (string \<Rightarrow> timestamp \<times> (string \<Rightarrow> string)) \<Rightarrow> operation list \<Rightarrow> db \<Rightarrow> db" where
  "reconcile_each_campaign cfg env [] d = d"
| "reconcile_each_campaign cfg env (p # ps) d =
     (let (now, fresh) = env (op_id p) in reconcile_each_campaign cfg env ps (reconcile_campaign cfg now fresh p d))"

definition reconcile_campaigns ::
    "api_config \<Rightarrow> (string \<Rightarrow> timestamp \<times> (string \<Rightarrow> string)) \<Rightarrow> db \<Rightarrow> db" where
  "reconcile_campaigns cfg env d = reconcile_each_campaign cfg env (list_campaign_operations 100 True d) d"

section \<open>Starting a campaign\<close>

definition campaign_operation :: "timestamp \<Rightarrow> string \<Rightarrow> campaign_metadata \<Rightarrow> nat \<Rightarrow> operation" where
  "campaign_operation now i m n =
     \<lparr>op_id = i, op_instance_id = '''', op_workflow_id = i, op_actor = ''FLEET_ADMIN'', op_type = OpCampaign,
      op_status = OperationPending, op_summary = ''Refresh diagnostics on '' @ dec n @ '' instance(s)'',
      op_metadata = operation_metadata
        [(''action'', JString (cd_action m)), (''concurrency'', JInt (cd_concurrency m)),
         (''target_count'', JInt (cd_target_count m)), (''retry_of'', JString (cd_retry_of m))],
      op_progress = Some (campaign_selected n (cd_concurrency m)), op_error = '''',
      op_created_at = now, op_updated_at = now\<rparr>"

record campaign_env =
  ce_now :: timestamp
  ce_operation_id :: string
  ce_fresh :: "string \<Rightarrow> string"
  ce_sqlite :: "store_error \<Rightarrow> string"

text \<open>The view of the new campaign, or the text of the error.\<close>

definition start_campaign ::
    "api_config \<Rightarrow> campaign_env \<Rightarrow> string \<Rightarrow> string list \<Rightarrow> int \<Rightarrow> string \<Rightarrow> db \<Rightarrow> (string + campaign) \<times> db" where
  "start_campaign cfg env action ids concurrency retry_of d =
     (let m = \<lparr>cd_action = action, cd_concurrency = concurrency, cd_target_count = int (length ids),
            cd_retry_of = retry_of\<rparr>;
          p = campaign_operation (ce_now env) (ce_operation_id env) m (length ids)
      in case create_campaign p ids d of
          Inl e \<Rightarrow> (Inl (store_error_text (ce_sqlite env) e), d)
        | Inr d \<Rightarrow>
            let d = reconcile_campaign cfg (ce_now env) (ce_fresh env) p d;
                p = (case get_operation (op_id p) d of Inl _ \<Rightarrow> p | Inr p' \<Rightarrow> p')
            in (case campaign_view d p of
                  None \<Rightarrow> Inl ''campaign metadata is incomplete'' | Some c \<Rightarrow> Inr c, d))"

definition campaign_reply :: "(string + campaign) \<times> db \<Rightarrow> campaign reply \<times> db" where
  "campaign_reply r = (case r of (Inl e, d) \<Rightarrow> (Refused 409 e, d) | (Inr c, d) \<Rightarrow> (Reply 202 c, d))"

definition create_campaign_handler ::
    "api_config \<Rightarrow> bool \<Rightarrow> campaign_env \<Rightarrow> campaign_request \<Rightarrow> db \<Rightarrow> campaign reply \<times> db" where
  "create_campaign_handler cfg capacity_ok env q d = require_operation_capacity capacity_ok d
     (case normalize_campaign_request q of
        Inl e \<Rightarrow> (Refused 400 e, d)
      | Inr (action, ids, concurrency) \<Rightarrow> campaign_reply (start_campaign cfg env action ids concurrency '''' d))"

definition retry_campaign_handler ::
    "api_config \<Rightarrow> bool \<Rightarrow> campaign_env \<Rightarrow> string \<Rightarrow> db \<Rightarrow> campaign reply \<times> db" where
  "retry_campaign_handler cfg capacity_ok env i d = require_operation_capacity capacity_ok d
     (case named_campaign i d of
        Inl (code, e) \<Rightarrow> (Refused code e, d)
      | Inr p \<Rightarrow>
     if open_operation (op_status p) then (Refused 409 ''an active campaign cannot be retried'', d)
     else case decode_campaign_metadata p of
        None \<Rightarrow> (Refused 409 ''campaign metadata is invalid'', d)
      | Some m \<Rightarrow>
          let ids = map (cm_instance_id \<circ> fst)
            (filter (\<lambda>(t, _). cm_status t = TargetFailed \<or> cm_status t = TargetBlocked)
              (list_campaign_targets (op_id p) d)) in
          if ids = [] then (Refused 409 ''this campaign has no failed targets to retry'', d)
          else campaign_reply (start_campaign cfg env (cd_action m) ids
            (min (cd_concurrency m) (int (length ids))) (op_id p) d))"

end
