(* ===== verification/Api_Policies.thy ===== *)
theory Api_Policies
  imports Api_Campaigns
begin

text \<open>
  Fleet policies and their controlled rollouts, \<open>internal/api/policies.go\<close>: the requests of the
  administrator, the evaluation of a policy, and \<open>reconcilePolicyRolloutUnlocked\<close>, which settles the
  running target, gates the waves on the canary, pauses after a failure and queues at most one
  Hermes update. A pass reads the clock once and has the identities of one update; \<open>describe\<close> is
  \<open>err.Error()\<close> of a refused update. What the code only logs leaves the state as it is.
\<close>

section \<open>Policies\<close>

record policy_request =
  pq_name :: string
  pq_description :: string
  pq_status :: string
  pq_desired_hermes :: string
  pq_strategy :: string
  pq_scope_instance_ids :: "string list"

definition or_default :: "string \<Rightarrow> string \<Rightarrow> string" where
  "or_default s t = (let s = trim_space s in if s = '''' then t else s)"

definition requested_policy :: "policy_request \<Rightarrow> string \<Rightarrow> fleet_policy" where
  "requested_policy q i =
     \<lparr>po_id = i, po_name = trim_space (pq_name q), po_description = trim_space (pq_description q),
      po_status = or_default (pq_status q) ''ENABLED'',
      po_desired_hermes = or_default (pq_desired_hermes q) ''LATEST_STABLE'',
      po_strategy = or_default (pq_strategy q) ''ONE_AT_A_TIME'', po_created_at = zero_time,
      po_updated_at = zero_time, po_scope_instance_ids = pq_scope_instance_ids q\<rparr>"

definition normalized_policy :: "policy_request \<Rightarrow> string \<Rightarrow> string + fleet_policy" where
  "normalized_policy q i =
     (let p = requested_policy q i in
      if po_name p = '''' \<or> length (po_name p) > 80 then Inl ''policy name must contain 1 to 80 characters''
      else if length (po_description p) > 240 then Inl ''policy description must not exceed 240 characters''
      else if po_status p \<noteq> ''ENABLED'' \<and> po_status p \<noteq> ''DISABLED''
      then Inl ''policy status must be ENABLED or DISABLED''
      else if po_desired_hermes p \<noteq> ''LATEST_STABLE''
      then Inl ''this release supports only the Latest stable Hermes baseline''
      else if po_strategy p \<noteq> ''ONE_AT_A_TIME''
      then Inl ''controlled rollouts require the ONE_AT_A_TIME strategy''
      else if po_scope_instance_ids p = [] \<or> length (po_scope_instance_ids p) > 100
      then Inl ''select between 1 and 100 instances''
      else case clean_identities [] (po_scope_instance_ids p) of
          None \<Rightarrow> Inl ''policy scope must contain unique instance identities''
        | Some ids \<Rightarrow> Inr (p\<lparr>po_scope_instance_ids := sort ids\<rparr>))"

definition policy_write_error :: "string \<Rightarrow> string" where
  "policy_write_error text =
     (if contains (to_lower text) ''unique'' then ''a policy with this name already exists'' else text)"

definition create_policy_handler ::
    "(store_error \<Rightarrow> string) \<Rightarrow> timestamp \<Rightarrow> string \<Rightarrow> policy_request \<Rightarrow> db \<Rightarrow> fleet_policy reply \<times> db" where
  "create_policy_handler sqlite now i q d =
     (case normalized_policy q '''' of
        Inl e \<Rightarrow> (Refused 400 e, d)
      | Inr p \<Rightarrow>
          let p = p\<lparr>po_id := i, po_created_at := now, po_updated_at := now\<rparr> in
          (case write_policy True p d of
             Inl e \<Rightarrow> (Refused 409 (policy_write_error (store_error_text sqlite e)), d)
           | Inr d \<Rightarrow> (Reply 201 p, d)))"

definition update_policy_handler ::
    "(store_error \<Rightarrow> string) \<Rightarrow> timestamp \<Rightarrow> string \<Rightarrow> policy_request \<Rightarrow> db \<Rightarrow> fleet_policy reply \<times> db" where
  "update_policy_handler sqlite now i q d =
     (case get_policy i d of
        Inl _ \<Rightarrow> (Refused 404 ''policy not found'', d)
      | Inr existing \<Rightarrow>
     case normalized_policy q (po_id existing) of
        Inl e \<Rightarrow> (Refused 400 e, d)
      | Inr p \<Rightarrow>
          let p = p\<lparr>po_created_at := po_created_at existing, po_updated_at := now\<rparr> in
          (case write_policy False p d of
             Inl e \<Rightarrow> (Refused 409 (policy_write_error (store_error_text sqlite e)), d)
           | Inr d \<Rightarrow> (Reply 200 p, d)))"

definition delete_policy_handler :: "string \<Rightarrow> db \<Rightarrow> unit reply \<times> db" where
  "delete_policy_handler i d =
     (case delete_policy i d of
        Inr d \<Rightarrow> (Reply 204 (), d)
      | Inl e \<Rightarrow> (if e = ErrNotFound then Refused 409 ''policy not found or still has an active rollout''
          else Refused 500 ''policy could not be deleted'', d))"

section \<open>Evaluation\<close>

datatype preview_state = Compliant | Drifted | BlockedState

record policy_target =
  pt_target_instance_id :: string
  pt_target_name :: string
  pt_current_version :: string
  pt_target_version :: string
  pt_state :: preview_state
  pt_detail :: string

definition policy_target_of :: "string \<Rightarrow> string \<Rightarrow> policy_target" where
  "policy_target_of i name = \<lparr>pt_target_instance_id = i, pt_target_name = name, pt_current_version = '''',
     pt_target_version = '''', pt_state = BlockedState, pt_detail = ''''\<rparr>"

definition judged :: "preview_state \<Rightarrow> string \<Rightarrow> policy_target \<Rightarrow> policy_target" where
  "judged st detail t = t\<lparr>pt_state := st, pt_detail := detail\<rparr>"

text \<open>\<open>GetInstance\<close> leaves the version of the instance empty.\<close>

definition evaluate_policy_target ::
    "api_config \<Rightarrow> timestamp \<Rightarrow> release_catalog option option \<Rightarrow> db \<Rightarrow> string \<Rightarrow> policy_target" where
  "evaluate_policy_target cfg now listed d i =
     (case get_instance i d of
        Inl _ \<Rightarrow> judged BlockedState ''Instance is unavailable'' (policy_target_of i '''')
      | Inr v \<Rightarrow>
          let t = policy_target_of (in_id v) (in_name v) in
          if in_status v = InstanceFailed
          then judged BlockedState ''Failed instances require an explicit managed recovery action'' t
          else
            let us = hermes_update_status cfg now listed v;
                t = t\<lparr>pt_current_version := us_current_version us,
                  pt_target_version := (case us_latest us of None \<Rightarrow> '''' | Some r \<Rightarrow> rl_version r)\<rparr> in
            if \<not> us_available us then
              (if us_official_status us = ''CURRENT''
               then judged Compliant ''Latest stable Hermes runtime is installed'' t
               else judged BlockedState (us_reason us) t)
            else if \<not> us_eligible us then judged BlockedState (us_reason us) t
            else (case current_agent cfg now (in_host_id v) d ''Host Agent is offline''
                (''Host Agent must be upgraded to '' @ agent_version) of
              Inl e \<Rightarrow> judged BlockedState e t
            | Inr _ \<Rightarrow> judged Drifted (us_reason us) t))"

record compliance_summary =
  cs_total :: nat
  cs_compliant :: nat
  cs_drifted :: nat
  cs_blocked :: nat

record policy_preview =
  pp_policy :: fleet_policy
  pp_summary :: compliance_summary
  pp_targets :: "policy_target list"

definition in_state :: "preview_state \<Rightarrow> policy_target list \<Rightarrow> nat" where
  "in_state st ts = count_where (\<lambda>t. pt_state t = st) ts"

text \<open>By name; \<open>sort.Slice\<close> leaves the order of targets with the same name open, here it is kept.\<close>

definition evaluate_policy ::
    "api_config \<Rightarrow> timestamp \<Rightarrow> release_catalog option option \<Rightarrow> db \<Rightarrow> fleet_policy \<Rightarrow> policy_preview" where
  "evaluate_policy cfg now listed d p =
     (let ts = map (evaluate_policy_target cfg now listed d) (po_scope_instance_ids p) in
      \<lparr>pp_policy = p, pp_summary = \<lparr>cs_total = length ts, cs_compliant = in_state Compliant ts,
         cs_drifted = in_state Drifted ts, cs_blocked = in_state BlockedState ts\<rparr>,
       pp_targets = sort_key pt_target_name ts\<rparr>)"

definition preview_policy_handler ::
    "api_config \<Rightarrow> timestamp \<Rightarrow> release_catalog option option \<Rightarrow> string \<Rightarrow> db \<Rightarrow> policy_preview reply" where
  "preview_policy_handler cfg now listed i d =
     (case get_policy i d of
        Inl _ \<Rightarrow> Refused 404 ''policy not found''
      | Inr p \<Rightarrow> Reply 200 (evaluate_policy cfg now listed d p))"

section \<open>Rollout metadata\<close>

record rollout_metadata =
  md_policy_id :: string
  md_policy_name :: string
  md_strategy :: string
  md_target_count :: int
  md_ready_count :: int
  md_blocked_count :: int
  md_control_state :: string
  md_control_reason :: string
  md_failure_acknowledged :: bool
  md_canary :: string
  md_target_version :: string
  md_target_source :: string
  md_target_image :: string

definition encode_rollout_metadata :: "rollout_metadata \<Rightarrow> raw_json" where
  "encode_rollout_metadata m = Some (JObject (
     [(''policy_id'', JString (md_policy_id m)), (''policy_name'', JString (md_policy_name m)),
      (''strategy'', JString (md_strategy m)), (''target_count'', JInt (md_target_count m)),
      (''ready_count'', JInt (md_ready_count m)), (''blocked_count'', JInt (md_blocked_count m)),
      (''control_state'', JString (md_control_state m))]
     @ opt_string ''control_reason'' (md_control_reason m)
     @ opt_bool ''failure_acknowledged'' (md_failure_acknowledged m)
     @ [(''canary_instance_id'', JString (md_canary m)), (''target_version'', JString (md_target_version m)),
      (''target_source'', JString (md_target_source m)), (''target_image'', JString (md_target_image m))]))"

definition read_rollout_metadata :: "json_fields \<Rightarrow> rollout_metadata option" where
  "read_rollout_metadata o' = do {
     a \<leftarrow> get_string ''policy_id'' o'; b \<leftarrow> get_string ''policy_name'' o'; c \<leftarrow> get_string ''strategy'' o';
     d \<leftarrow> get_int ''target_count'' o'; e \<leftarrow> get_int ''ready_count'' o'; f \<leftarrow> get_int ''blocked_count'' o';
     g \<leftarrow> get_string ''control_state'' o'; h \<leftarrow> get_string ''control_reason'' o';
     i \<leftarrow> get_bool ''failure_acknowledged'' o'; j \<leftarrow> get_string ''canary_instance_id'' o';
     k \<leftarrow> get_string ''target_version'' o'; l \<leftarrow> get_string ''target_source'' o';
     m \<leftarrow> get_string ''target_image'' o';
     Some \<lparr>md_policy_id = a, md_policy_name = b, md_strategy = c, md_target_count = d, md_ready_count = e,
       md_blocked_count = f, md_control_state = g, md_control_reason = h, md_failure_acknowledged = i,
       md_canary = j, md_target_version = k, md_target_source = l, md_target_image = m\<rparr>}"

definition check_rollout_metadata :: "rollout_metadata \<Rightarrow> rollout_metadata option" where
  "check_rollout_metadata m =
     (if md_policy_id m = '''' \<or> md_strategy m = '''' then None
      else let m = (if md_control_state m = '''' then m\<lparr>md_control_state := ''RUNNING''\<rparr> else m) in
        if md_control_state m \<in> {''RUNNING'', ''PAUSED'', ''CANCELING''} then Some m else None)"

definition decode_rollout_metadata :: "operation \<Rightarrow> rollout_metadata option" where
  "decode_rollout_metadata p =
     Option.bind (Option.bind (op_metadata p) (unmarshal read_rollout_metadata)) check_rollout_metadata"

section \<open>Targets\<close>

type_synonym rollout_target = "rollout_row \<times> string"

definition rollout_terminal :: "rollout_target list \<Rightarrow> bool" where
  "rollout_terminal ts \<longleftrightarrow> list_all (\<lambda>(t, _). target_over (ro_status t)) ts"

definition rollout_target :: "string \<Rightarrow> rollout_target list \<Rightarrow> rollout_row option" where
  "rollout_target i ts = find (\<lambda>t. ro_instance_id t = i) (map fst ts)"

definition rollout_count :: "target_status set \<Rightarrow> rollout_target list \<Rightarrow> nat" where
  "rollout_count ss ts = count_where (\<lambda>(t, _). ro_status t \<in> ss) ts"

text \<open>The first target with this instance, replaced.\<close>

fun replace_target :: "string \<Rightarrow> rollout_target \<Rightarrow> rollout_target list \<Rightarrow> rollout_target list" where
  "replace_target i t' [] = []"
| "replace_target i t' (t # ts) = (if ro_instance_id (fst t) = i then t' # ts else t # replace_target i t' ts)"

text \<open>The error of the store is dropped; the copy in memory changes.\<close>

definition mark_target ::
    "timestamp \<Rightarrow> string \<Rightarrow> target_status \<Rightarrow> string \<Rightarrow> rollout_target \<Rightarrow> db \<Rightarrow> rollout_target \<times> db" where
  "mark_target now rollout status detail t d =
     (((fst t)\<lparr>ro_status := status, ro_detail := detail\<rparr>, snd t),
      or_unchanged (update_policy_rollout_target rollout (ro_instance_id (fst t)) '''' status detail now d) d)"

text \<open>The first loop: the running targets whose child operation is over.\<close>

definition settle_target ::
    "timestamp \<Rightarrow> string \<Rightarrow> rollout_target \<Rightarrow> db \<Rightarrow> rollout_target \<times> bool \<times> db" where
  "settle_target now rollout t d =
     (if ro_child_operation_id (fst t) = '''' \<or> ro_status (fst t) \<noteq> TargetRunning then (t, False, d)
      else case get_operation (ro_child_operation_id (fst t)) d of
          Inl _ \<Rightarrow>
            let (t, d) = mark_target now rollout TargetFailed ''Child operation is unavailable'' t d in (t, True, d)
        | Inr child \<Rightarrow>
            if op_status child = OperationSucceeded then
              (let (t, d) = mark_target now rollout TargetSucceeded ''Hermes baseline applied'' t d in (t, False, d))
            else if op_status child = OperationFailed then
              (let detail = (if op_error child = '''' then ''Hermes update failed'' else op_error child);
                   (t, d) = mark_target now rollout TargetFailed detail t d in (t, True, d))
            else (t, False, d))"

fun settle_targets ::
    "timestamp \<Rightarrow> string \<Rightarrow> rollout_target list \<Rightarrow> db \<Rightarrow> rollout_target list \<times> bool \<times> db" where
  "settle_targets now rollout [] d = ([], False, d)"
| "settle_targets now rollout (t # ts) d =
     (let (t, failed, d) = settle_target now rollout t d; (ts, failed', d) = settle_targets now rollout ts d
      in (t # ts, failed \<or> failed', d))"

section \<open>Progress\<close>

definition canary_step :: "rollout_target list \<Rightarrow> string \<Rightarrow> string" where
  "canary_step ts canary =
     (case rollout_target canary ts of
        None \<Rightarrow> ''pending''
      | Some t \<Rightarrow> (case ro_status t of
            TargetRunning \<Rightarrow> ''running'' | TargetSucceeded \<Rightarrow> ''succeeded''
          | TargetFailed \<Rightarrow> ''failed'' | TargetBlocked \<Rightarrow> ''failed'' | TargetPending \<Rightarrow> ''pending''))"

definition rollout_stage :: "rollout_metadata \<Rightarrow> rollout_target list \<Rightarrow> nat \<Rightarrow> nat \<Rightarrow> string \<times> string" where
  "rollout_stage m ts completed running =
     (if md_control_state m = ''PAUSED'' then (''rollout_paused'', md_control_reason m)
      else if md_control_state m = ''CANCELING'' then (''rollout_canceling'', md_control_reason m)
      else
        let applying = (''applying_rollout'',
              dec completed @ '' of '' @ dec (length ts) @ '' complete; '' @ dec running @ '' active'') in
        case rollout_target (md_canary m) ts of
          None \<Rightarrow> applying
        | Some t \<Rightarrow> if ro_status t = TargetSucceeded then applying
            else (''canary'', if ro_detail t = '''' then ''Waiting for the canary health gate'' else ro_detail t))"

definition controlled_rollout_progress :: "rollout_metadata \<Rightarrow> rollout_target list \<Rightarrow> job_progress" where
  "controlled_rollout_progress m ts =
     (let completed = rollout_count {TargetSucceeded, TargetFailed, TargetBlocked} ts;
          running = rollout_count {TargetRunning} ts;
          (stage, detail) = rollout_stage m ts completed running;
          wave = (if canary_step ts (md_canary m) = ''succeeded''
            then (if completed = length ts then ''succeeded'' else ''running'') else ''pending'')
      in progress_of stage detail
           [step_of ''Freeze target'' ''succeeded'' (''Hermes '' @ md_target_version m),
            step_of ''Canary'' (canary_step ts (md_canary m)) '''',
            step_of ''Roll out waves'' wave (dec completed @ '' of '' @ dec (length ts) @ '' complete''),
            step_of ''Verify compliance'' ''pending'' ''''])"

definition update_rollout_progress ::
    "timestamp \<Rightarrow> string \<Rightarrow> rollout_metadata \<Rightarrow> rollout_target list \<Rightarrow> db \<Rightarrow> db" where
  "update_rollout_progress now i m ts d =
     or_unchanged (update_control_plane_operation i OperationRunning (controlled_rollout_progress m ts) '''' now d) d"

definition finish_rollout ::
    "timestamp \<Rightarrow> string \<Rightarrow> rollout_metadata \<Rightarrow> rollout_target list \<Rightarrow> db \<Rightarrow> db" where
  "finish_rollout now i m ts d =
     (let failed = rollout_count {TargetFailed, TargetBlocked} ts;
          (status, detail, result, stage) =
            (if md_control_state m = ''CANCELING''
             then (OperationFailed, ''Rollout canceled; active work finished safely and no additional targets started'',
               ''failed'', ''rollout_canceled'')
             else if failed > 0
             then (OperationFailed, dec failed @ '' of '' @ dec (length ts) @ '' rollout target(s) require attention'',
               ''failed'', ''compliance_verified'')
             else (OperationSucceeded, ''All rollout targets reached frozen Hermes '' @ md_target_version m,
               ''succeeded'', ''compliance_verified''))
      in or_unchanged (update_control_plane_operation i status
           (progress_of stage detail
             [step_of ''Freeze target'' ''succeeded'' (''Hermes '' @ md_target_version m),
              step_of ''Canary'' (canary_step ts (md_canary m)) '''',
              step_of ''Roll out waves'' result '''', step_of ''Verify compliance'' result detail])
           (if status = OperationSucceeded then '''' else detail) now d) d)"

definition fail_rollout :: "timestamp \<Rightarrow> string \<Rightarrow> string \<Rightarrow> db \<Rightarrow> db" where
  "fail_rollout now i detail d =
     or_unchanged (update_control_plane_operation i OperationFailed
       (progress_of ''rollout_failed'' detail
         [step_of ''Preview impact'' ''succeeded'' '''', step_of ''Apply rollout'' ''failed'' detail,
          step_of ''Verify compliance'' ''pending'' '''']) detail now d) d"

text \<open>\<open>autoPausePolicyRollout\<close>: whether the pass ends here.\<close>

definition auto_pause ::
    "timestamp \<Rightarrow> string \<Rightarrow> rollout_metadata \<Rightarrow> rollout_target list \<Rightarrow> string \<Rightarrow> db \<Rightarrow> bool \<times> db" where
  "auto_pause now i m ts reason d =
     (if rollout_count {TargetPending} ts = 0 \<or> md_control_state m \<noteq> ''RUNNING'' then (False, d)
      else
        let m = m\<lparr>md_control_state := ''PAUSED'', md_control_reason := reason, md_failure_acknowledged := False\<rparr>
        in (True, or_unchanged (update_policy_rollout_control i ''RUNNING'' (encode_rollout_metadata m)
              (controlled_rollout_progress m ts) now d) d))"

end
