(* ===== verification/Api_Rollouts.thy ===== *)
theory Api_Rollouts
  imports Api_Policies
begin

text \<open>
  The reconciliation of a policy rollout and the requests that start, pause, resume and cancel one,
  \<open>internal/api/policies.go\<close>. The locks of the code make passes over one rollout run one after the
  other.
\<close>

section \<open>The frozen release\<close>

definition release_is :: "rollout_metadata \<Rightarrow> release \<Rightarrow> bool" where
  "release_is m r \<longleftrightarrow> fold_ascii (rl_commit r) = fold_ascii (md_target_source m) \<and> rl_image r = md_target_image m"

definition frozen_status :: "instance_view \<Rightarrow> release \<Rightarrow> update_status" where
  "frozen_status v r =
     \<lparr>us_current_version = '''', us_current_source = '''', us_current_image = in_image v,
      us_official_status = ''UPDATE_AVAILABLE'', us_kind = '''', us_official_source = '''',
      us_official_checked_at = '''', us_official_stale = False, us_latest = Some r,
      us_target_version = rl_version r, us_target_source = rl_commit r, us_target_image = rl_image r,
      us_available = False, us_eligible = False, us_reason = ''''\<rparr>"

definition refused_status :: "string \<Rightarrow> update_status" where
  "refused_status reason =
     \<lparr>us_current_version = '''', us_current_source = '''', us_current_image = '''', us_official_status = '''',
      us_kind = '''', us_official_source = '''', us_official_checked_at = '''', us_official_stale = False,
      us_latest = None, us_target_version = '''', us_target_source = '''', us_target_image = '''',
      us_available = False, us_eligible = False, us_reason = reason\<rparr>"

text \<open>The installed version: as observed, and else as the image says.\<close>

definition installed_hermes :: "release_catalog \<Rightarrow> instance_view \<Rightarrow> string \<times> string" where
  "installed_hermes c v =
     (let (version, source) = (case iv_observation v of
            Some b \<Rightarrow> if io_target_generation b = generation_of v
              then (io_hermes_version b, io_hermes_source b) else ('''', '''')
          | None \<Rightarrow> ('''', ''''))
      in if version = '''' \<or> \<not> hermes_version_pattern version
         then (case find_by_runtime_image c (in_image v) of
             Some r \<Rightarrow> (rl_version r, rl_commit r) | None \<Rightarrow> (version, source))
         else (version, source))"

definition judge_frozen :: "api_config \<Rightarrow> instance_view \<Rightarrow> update_status \<Rightarrow> update_status" where
  "judge_frozen cfg v us =
     (if in_status v \<noteq> InstanceRunning \<and> in_status v \<noteq> InstanceStopped
      then us\<lparr>us_reason := ''Wait until the instance reaches a stable running or stopped state''\<rparr>
      else if \<not> has_runtime_metadata v then us\<lparr>us_reason := ''Instance runtime metadata is incomplete''\<rparr>
      else if ac_recovery cfg = None then us\<lparr>us_reason := ''Instance backup storage is unavailable''\<rparr>
      else us\<lparr>us_eligible := True,
        us_reason := ''Fleet will apply the frozen release with a verified rollback backup and health gate''\<rparr>)"

definition compare_frozen :: "api_config \<Rightarrow> instance_view \<Rightarrow> release \<Rightarrow> update_status \<Rightarrow> update_status" where
  "compare_frozen cfg v r us =
     (let order = compare_releases (us_current_version us) (rl_version r) in
      if order > 0 then us\<lparr>us_reason := ''Instance is newer than the frozen rollout release''\<rparr>
      else if order = 0 \<and> in_image v = rl_image r
      then us\<lparr>us_official_status := ''CURRENT'', us_reason := ''Frozen Hermes release is already installed''\<rparr>
      else judge_frozen cfg v (us\<lparr>us_available := True,
        us_kind := (if order = 0 then kind_runtime_refresh else kind_version_update)\<rparr>))"

definition pinned_update_status ::
    "api_config \<Rightarrow> timestamp \<Rightarrow> release_catalog option option \<Rightarrow> rollout_metadata \<Rightarrow> instance_view \<Rightarrow> update_status" where
  "pinned_update_status cfg now listed m v =
     (if md_target_version m = '''' \<or> md_target_source m = '''' \<or> md_target_image m = ''''
      then hermes_update_status cfg now listed v
      else case hermes_catalog cfg listed of
          None \<Rightarrow> refused_status ''The verified Hermes release catalog is unavailable''
        | Some c \<Rightarrow>
      case find_release c (md_target_version m) of
          None \<Rightarrow> refused_status ''The frozen Hermes release is no longer in the verified catalog''
        | Some r \<Rightarrow>
            if \<not> release_is m r
            then refused_status ''The frozen Hermes release is no longer in the verified catalog''
            else
              let (version, source) = installed_hermes c v;
                  us = (frozen_status v r)\<lparr>us_current_version := version, us_current_source := source\<rparr> in
              if version = '''' then us\<lparr>us_reason := ''Installed Hermes version is not authoritative''\<rparr>
              else compare_frozen cfg v r us)"

section \<open>Queueing a target\<close>

record rollout_env =
  xe_request :: request_env
  xe_listed :: "release_catalog option option"
  xe_describe :: "update_queue_error \<Rightarrow> string"

abbreviation xe_now :: "rollout_env \<Rightarrow> timestamp" where
  "xe_now env \<equiv> qe_now (xe_request env)"

definition mark_on ::
    "timestamp \<Rightarrow> string \<Rightarrow> target_status \<Rightarrow> string \<Rightarrow> rollout_target \<Rightarrow> server_state \<Rightarrow> rollout_target \<times> server_state" where
  "mark_on now rollout status detail t s =
     (let (t, d) = mark_target now rollout status detail t (sv_db s) in (t, s\<lparr>sv_db := d\<rparr>))"

definition started_rollout_target ::
    "timestamp \<Rightarrow> string \<Rightarrow> operation \<Rightarrow> rollout_target \<Rightarrow> server_state \<Rightarrow> rollout_target \<times> server_state" where
  "started_rollout_target now rollout child t s =
     (((fst t)\<lparr>ro_child_operation_id := op_id child, ro_status := TargetRunning, ro_detail := op_summary child\<rparr>, snd t),
      s\<lparr>sv_db := or_unchanged (update_policy_rollout_target rollout (ro_instance_id (fst t)) (op_id child)
          TargetRunning (op_summary child) now (sv_db s)) (sv_db s)\<rparr>)"

text \<open>
  An eligible status implies that the storage is configured, so the last but one case does not occur.
\<close>

definition queue_policy_target ::
    "api_config \<Rightarrow> rollout_env \<Rightarrow> string \<Rightarrow> rollout_metadata \<Rightarrow> rollout_target \<Rightarrow> server_state
      \<Rightarrow> rollout_target \<times> server_state" where
  "queue_policy_target cfg env rollout m t s =
     (let now = xe_now env; stop = (\<lambda>status detail. mark_on now rollout status detail t s) in
      case get_instance (ro_instance_id (fst t)) (sv_db s) of
        Inl _ \<Rightarrow> stop TargetBlocked ''Instance is unavailable''
      | Inr v \<Rightarrow>
     case current_agent cfg now (in_host_id v) (sv_db s) ''Host Agent is unavailable''
        (''Host Agent must be upgraded to '' @ agent_version) of
        Inl e \<Rightarrow> stop TargetBlocked e
      | Inr h \<Rightarrow>
          let us = pinned_update_status cfg now (xe_listed env) m v in
          if \<not> us_available us \<and> us_official_status us = ''CURRENT''
          then stop TargetSucceeded (''Already on frozen Hermes '' @ md_target_version m)
          else if \<not> us_available us \<or> \<not> us_eligible us
          then stop TargetBlocked (if us_reason us = '''' then ''Hermes update is no longer eligible'' else us_reason us)
          else (case ac_recovery cfg of
              None \<Rightarrow> (t, s)
            | Some points \<Rightarrow>
                (case queue_hermes_update cfg points (xe_request env) v h us (in_status v) rollout ''POLICY_CONTROLLER'' s of
                   (Inl e, s) \<Rightarrow> mark_on now rollout TargetBlocked (xe_describe env e) t s
                 | (Inr child, s) \<Rightarrow> started_rollout_target now rollout child t s)))"

section \<open>Reconciliation\<close>

definition close_pass ::
    "timestamp \<Rightarrow> string \<Rightarrow> rollout_metadata \<Rightarrow> rollout_target list \<Rightarrow> db \<Rightarrow> db" where
  "close_pass now i m ts d =
     (if rollout_terminal ts then finish_rollout now i m ts d else update_rollout_progress now i m ts d)"

definition close_on ::
    "timestamp \<Rightarrow> string \<Rightarrow> rollout_metadata \<Rightarrow> rollout_target list \<Rightarrow> server_state \<Rightarrow> server_state" where
  "close_on now i m ts s = s\<lparr>sv_db := close_pass now i m ts (sv_db s)\<rparr>"

text \<open>The pause, or the rest of the pass when there was nothing to pause.\<close>

definition pause_or ::
    "timestamp \<Rightarrow> string \<Rightarrow> rollout_metadata \<Rightarrow> rollout_target list \<Rightarrow> string \<Rightarrow> (server_state \<Rightarrow> server_state)
      \<Rightarrow> server_state \<Rightarrow> server_state" where
  "pause_or now i m ts reason rest s =
     (let (paused, d) = auto_pause now i m ts reason (sv_db s); s = s\<lparr>sv_db := d\<rparr>
      in if paused then s else rest s)"

definition cancel_pass :: "timestamp \<Rightarrow> string \<Rightarrow> rollout_metadata \<Rightarrow> db \<Rightarrow> db" where
  "cancel_pass now i m d =
     (let d = snd (block_pending_policy_rollout_targets i ''Canceled before execution by Fleet admin'' now d)
      in close_pass now i m (list_policy_rollout_targets i d) d)"

text \<open>The next wave: the first pending target, and a pause when it did not start.\<close>

definition next_wave ::
    "api_config \<Rightarrow> rollout_env \<Rightarrow> string \<Rightarrow> rollout_metadata \<Rightarrow> rollout_target list \<Rightarrow> server_state \<Rightarrow> server_state" where
  "next_wave cfg env i m ts s =
     (case find (\<lambda>(t, _). ro_status t = TargetPending) ts of
        None \<Rightarrow> close_on (xe_now env) i m ts s
      | Some t \<Rightarrow>
          let (t', s) = queue_policy_target cfg env i m t s;
              ts = replace_target (ro_instance_id (fst t)) t' ts in
          if ro_status (fst t') = TargetBlocked \<or> ro_status (fst t') = TargetFailed
          then pause_or (xe_now env) i m ts ''A rollout target was blocked; Fleet stopped before the next wave''
            (close_on (xe_now env) i m ts) s
          else close_on (xe_now env) i m ts s)"

text \<open>The canary comes first, and its failure stops the rollout until an administrator resumes it.\<close>

definition start_wave ::
    "api_config \<Rightarrow> rollout_env \<Rightarrow> string \<Rightarrow> rollout_metadata \<Rightarrow> rollout_target list \<Rightarrow> server_state \<Rightarrow> server_state" where
  "start_wave cfg env i m ts s =
     (case find (\<lambda>(t, _). ro_instance_id t = md_canary m) ts of
        None \<Rightarrow> next_wave cfg env i m ts s
      | Some c \<Rightarrow>
          if ro_status (fst c) = TargetPending then
            (let (c', s) = queue_policy_target cfg env i m c s
             in close_on (xe_now env) i m (replace_target (md_canary m) c' ts) s)
          else if \<not> md_failure_acknowledged m
             \<and> (ro_status (fst c) = TargetFailed \<or> ro_status (fst c) = TargetBlocked)
          then pause_or (xe_now env) i m ts ''Canary did not pass; Fleet stopped before the first wave''
            (close_on (xe_now env) i m ts) s
          else next_wave cfg env i m ts s)"

definition reconcile_rollout ::
    "api_config \<Rightarrow> rollout_env \<Rightarrow> operation \<Rightarrow> server_state \<Rightarrow> server_state" where
  "reconcile_rollout cfg env p s =
     (let now = xe_now env; i = op_id p in
      case decode_rollout_metadata p of
        None \<Rightarrow> s\<lparr>sv_db := fail_rollout now i ''Policy rollout metadata is invalid'' (sv_db s)\<rparr>
      | Some m \<Rightarrow>
          let (ts, failed, d) = settle_targets now i (list_policy_rollout_targets i (sv_db s)) (sv_db s);
              s = s\<lparr>sv_db := d\<rparr>;
              go_on = (\<lambda>s.
                if md_control_state m = ''PAUSED'' \<or> rollout_count {TargetRunning} ts > 0
                then s\<lparr>sv_db := update_rollout_progress now i m ts (sv_db s)\<rparr>
                else start_wave cfg env i m ts s) in
          if rollout_terminal ts then s\<lparr>sv_db := finish_rollout now i m ts d\<rparr>
          else if md_control_state m = ''CANCELING'' then s\<lparr>sv_db := cancel_pass now i m d\<rparr>
          else if failed \<and> md_control_state m = ''RUNNING''
          then pause_or now i m ts ''A rollout target failed; Fleet stopped before the next wave'' go_on s
          else go_on s)"

fun reconcile_each_rollout ::
    "api_config \<Rightarrow> (string \<Rightarrow> rollout_env) \<Rightarrow> operation list \<Rightarrow> server_state \<Rightarrow> server_state" where
  "reconcile_each_rollout cfg env [] s = s"
| "reconcile_each_rollout cfg env (p # ps) s =
     reconcile_each_rollout cfg env ps (reconcile_rollout cfg (env (op_id p)) p s)"

definition reconcile_rollouts :: "api_config \<Rightarrow> (string \<Rightarrow> rollout_env) \<Rightarrow> server_state \<Rightarrow> server_state" where
  "reconcile_rollouts cfg env s = reconcile_each_rollout cfg env (list_active_policy_rollouts (sv_db s)) s"

section \<open>Starting a rollout\<close>

text \<open>All ready targets resolve to one release, that of the first.\<close>

fun pin_release ::
    "api_config \<Rightarrow> timestamp \<Rightarrow> release_catalog option option \<Rightarrow> db \<Rightarrow> update_status \<Rightarrow> string list
      \<Rightarrow> string + update_status" where
  "pin_release cfg now listed d pinned [] = Inr pinned"
| "pin_release cfg now listed d pinned (i # is) =
     (case get_instance i d of
        Inl _ \<Rightarrow> Inl ''a rollout target is no longer available''
      | Inr v \<Rightarrow>
          let us = hermes_update_status cfg now listed v in
          if \<not> us_available us \<or> \<not> us_eligible us then Inl ''a rollout target is no longer eligible''
          else if us_target_version pinned = '''' then pin_release cfg now listed d us is
          else if us_target_version us \<noteq> us_target_version pinned \<or> us_target_source us \<noteq> us_target_source pinned
             \<or> us_target_image us \<noteq> us_target_image pinned
          then Inl ''rollout targets did not resolve to one immutable Hermes release''
          else pin_release cfg now listed d pinned is)"

definition rollout_snapshot :: "fleet_policy \<Rightarrow> policy_preview \<Rightarrow> string list \<Rightarrow> nat \<Rightarrow> update_status \<Rightarrow> rollout_metadata" where
  "rollout_snapshot p pv ready n us =
     \<lparr>md_policy_id = po_id p, md_policy_name = po_name p, md_strategy = po_strategy p,
      md_target_count = int n, md_ready_count = int (length ready), md_blocked_count = int (cs_blocked (pp_summary pv)),
      md_control_state = ''RUNNING'', md_control_reason = '''', md_failure_acknowledged = False,
      md_canary = hd ready, md_target_version = us_target_version us, md_target_source = us_target_source us,
      md_target_image = us_target_image us\<rparr>"

definition rollout_operation :: "timestamp \<Rightarrow> string \<Rightarrow> fleet_policy \<Rightarrow> rollout_metadata \<Rightarrow> nat \<Rightarrow> operation" where
  "rollout_operation now i p m ready =
     \<lparr>op_id = i, op_instance_id = '''', op_workflow_id = i, op_actor = ''FLEET_ADMIN'', op_type = OpRolloutPolicy,
      op_status = OperationPending, op_summary = ''Roll out policy '' @ po_name p,
      op_metadata = Some (encode_rollout_metadata m),
      op_progress = Some (progress_of ''canary_pending''
        (''Release '' @ md_target_version m @ '' frozen for '' @ dec ready @ '' rollout-ready instance(s)'')
        [step_of ''Freeze target'' ''succeeded'' (''Hermes '' @ md_target_version m),
         step_of ''Canary'' ''pending'' '''', step_of ''Roll out waves'' ''pending'' '''',
         step_of ''Verify compliance'' ''pending'' '''']),
      op_error = '''', op_created_at = now, op_updated_at = now\<rparr>"

text \<open>The targets that were blocked in the preview; an error fails the rollout.\<close>

fun record_blocked :: "timestamp \<Rightarrow> string \<Rightarrow> policy_target list \<Rightarrow> db \<Rightarrow> bool \<times> db" where
  "record_blocked now i [] d = (True, d)"
| "record_blocked now i (t # ts) d =
     (if pt_state t \<noteq> BlockedState then record_blocked now i ts d
      else case update_policy_rollout_target i (pt_target_instance_id t) '''' TargetBlocked (pt_detail t) now d of
          Inl _ \<Rightarrow> (False, d)
        | Inr d \<Rightarrow> record_blocked now i ts d)"

definition target_ids :: "preview_state set \<Rightarrow> policy_preview \<Rightarrow> string list" where
  "target_ids sts pv = map pt_target_instance_id (filter (\<lambda>t. pt_state t \<in> sts) (pp_targets pv))"

definition start_rollout ::
    "api_config \<Rightarrow> rollout_env \<Rightarrow> (store_error \<Rightarrow> string) \<Rightarrow> string \<Rightarrow> fleet_policy \<Rightarrow> policy_preview
      \<Rightarrow> string list \<Rightarrow> update_status \<Rightarrow> server_state \<Rightarrow> operation reply \<times> server_state" where
  "start_rollout cfg env sqlite i p pv ready us s =
     (let now = xe_now env; ids = target_ids {Drifted, BlockedState} pv;
          op = rollout_operation now i p (rollout_snapshot p pv ready (length ids) us) (length ready)
      in case create_policy_rollout op (po_id p) ids (sv_db s) of
          Inl e \<Rightarrow> (Refused 409 (store_error_text sqlite e), s)
        | Inr d \<Rightarrow>
            (case record_blocked now i (pp_targets pv) d of
               (False, d) \<Rightarrow> (Refused 500 ''policy rollout could not be initialized'',
                 s\<lparr>sv_db := fail_rollout now i ''Blocked rollout targets could not be recorded'' d\<rparr>)
             | (True, d) \<Rightarrow>
                 let s = reconcile_rollout cfg env op (s\<lparr>sv_db := d\<rparr>)
                 in (Reply 202 (case get_operation i (sv_db s) of Inl _ \<Rightarrow> op | Inr op' \<Rightarrow> op'), s)))"

definition start_rollout_handler ::
    "api_config \<Rightarrow> bool \<Rightarrow> rollout_env \<Rightarrow> (store_error \<Rightarrow> string) \<Rightarrow> string \<Rightarrow> string \<Rightarrow> server_state
      \<Rightarrow> operation reply \<times> server_state" where
  "start_rollout_handler cfg capacity_ok env sqlite rollout i s = require_operation_capacity capacity_ok s
     (case get_policy i (sv_db s) of
        Inl _ \<Rightarrow> (Refused 404 ''policy not found'', s)
      | Inr p \<Rightarrow>
     if po_status p \<noteq> ''ENABLED'' then (Refused 409 ''enable the policy before starting a rollout'', s)
     else if po_strategy p \<noteq> ''ONE_AT_A_TIME''
     then (Refused 409 ''controlled rollouts require the one-instance-at-a-time strategy'', s)
     else
       let pv = evaluate_policy cfg (xe_now env) (xe_listed env) (sv_db s) p; ready = target_ids {Drifted} pv in
       if ready = [] then (Refused 409 ''no rollout-ready drift was found in this policy scope'', s)
       else case pin_release cfg (xe_now env) (xe_listed env) (sv_db s) (refused_status '''') ready of
           Inl e \<Rightarrow> (Refused 409 e, s)
         | Inr pinned \<Rightarrow> start_rollout cfg env sqlite rollout p pv ready pinned s)"

section \<open>Views and control\<close>

record rollout_view =
  xv_operation :: operation
  xv_control_state :: string
  xv_control_reason :: string
  xv_canary :: string
  xv_target_version :: string
  xv_targets :: "rollout_target list"

definition view_rollout :: "db \<Rightarrow> operation \<Rightarrow> rollout_metadata \<Rightarrow> rollout_view" where
  "view_rollout d p m =
     (let ts = list_policy_rollout_targets (op_id p) d;
          canary = (if md_canary m \<noteq> '''' then md_canary m
            else case find (\<lambda>(t, _). ro_status t \<noteq> TargetBlocked) ts of
                None \<Rightarrow> '''' | Some t \<Rightarrow> ro_instance_id (fst t))
      in \<lparr>xv_operation = p, xv_control_state = md_control_state m, xv_control_reason = md_control_reason m,
          xv_canary = canary, xv_target_version = md_target_version m, xv_targets = ts\<rparr>)"

definition get_rollout_handler :: "string \<Rightarrow> db \<Rightarrow> rollout_view reply" where
  "get_rollout_handler i d =
     (case get_operation i d of
        Inl _ \<Rightarrow> Refused 404 ''policy rollout not found''
      | Inr p \<Rightarrow>
          if op_type p \<noteq> OpRolloutPolicy then Refused 404 ''policy rollout not found''
          else (case decode_rollout_metadata p of
              None \<Rightarrow> Refused 409 ''policy rollout metadata is invalid''
            | Some m \<Rightarrow> Reply 200 (view_rollout d p m)))"

definition active_rollout_view :: "db \<Rightarrow> string \<Rightarrow> rollout_view option" where
  "active_rollout_view d policy =
     (case find (\<lambda>(p, m). md_policy_id m = policy)
         (rev (List.map_filter (\<lambda>p. map_option (\<lambda>m. (p, m)) (decode_rollout_metadata p))
            (list_active_policy_rollouts d))) of
        None \<Rightarrow> None
      | Some (p, m) \<Rightarrow> Some (view_rollout d p m))"

definition list_policies_handler ::
    "api_config \<Rightarrow> timestamp \<Rightarrow> release_catalog option option \<Rightarrow> db
      \<Rightarrow> (fleet_policy \<times> compliance_summary \<times> rollout_view option) list reply" where
  "list_policies_handler cfg now listed d = Reply 200
     (map (\<lambda>p. (p, pp_summary (evaluate_policy cfg now listed d p), active_rollout_view d (po_id p))) (list_policies d))"

definition control_allowed :: "string \<Rightarrow> string \<Rightarrow> bool" where
  "control_allowed current requested \<longleftrightarrow>
     requested = ''PAUSED'' \<and> current = ''RUNNING'' \<or> requested = ''RUNNING'' \<and> current = ''PAUSED''
     \<or> requested = ''CANCELING'' \<and> (current = ''RUNNING'' \<or> current = ''PAUSED'')"

text \<open>
  The new metadata and progress. The progress is computed before the reason is set; its stage and
  detail are then those of the transition.
\<close>

definition control_transition ::
    "string \<Rightarrow> rollout_metadata \<Rightarrow> rollout_target list \<Rightarrow> rollout_metadata \<times> job_progress" where
  "control_transition requested m ts =
     (let m = m\<lparr>md_control_state := requested, md_control_reason := ''''\<rparr>;
          progress = controlled_rollout_progress m ts in
      if requested = ''PAUSED'' then
        (let r = ''Paused by Fleet admin; an active target may finish safely''
         in (m\<lparr>md_control_reason := r\<rparr>, progress\<lparr>jp_stage := ''rollout_paused'', jp_detail := r\<rparr>))
      else if requested = ''RUNNING'' then
        (m\<lparr>md_failure_acknowledged := True\<rparr>,
         progress\<lparr>jp_stage := ''rollout_resumed'', jp_detail := ''Fleet admin resumed the next bounded wave''\<rparr>)
      else
        (let r = ''Canceled by Fleet admin; no new targets will start''
         in (m\<lparr>md_control_reason := r\<rparr>, progress\<lparr>jp_stage := ''rollout_canceling'', jp_detail := r\<rparr>)))"

text \<open>The operation that was just written is there and decodes, so the reloads do not fail.\<close>

definition apply_rollout_control ::
    "api_config \<Rightarrow> rollout_env \<Rightarrow> string \<Rightarrow> string \<Rightarrow> rollout_metadata \<Rightarrow> server_state
      \<Rightarrow> rollout_view reply \<times> server_state" where
  "apply_rollout_control cfg env i requested m s =
     (let now = xe_now env; (m', progress) = control_transition requested m (list_policy_rollout_targets i (sv_db s))
      in case update_policy_rollout_control i (md_control_state m) (encode_rollout_metadata m') progress now (sv_db s) of
          Inl _ \<Rightarrow> (Refused 409 ''policy rollout control state changed; refresh and retry'', s)
        | Inr d \<Rightarrow>
            let d = (if requested = ''CANCELING''
                then snd (block_pending_policy_rollout_targets i ''Canceled before execution by Fleet admin'' now d)
                else d)
            in case get_operation i d of
                Inl _ \<Rightarrow> (Refused 500 ''policy rollout could not be reloaded'', s\<lparr>sv_db := d\<rparr>)
              | Inr p \<Rightarrow>
                  let s = reconcile_rollout cfg env p (s\<lparr>sv_db := d\<rparr>);
                      p = (case get_operation i (sv_db s) of Inl _ \<Rightarrow> p | Inr p' \<Rightarrow> p');
                      m = (case decode_rollout_metadata p of None \<Rightarrow> m' | Some m \<Rightarrow> m)
                  in (Reply 200 (view_rollout (sv_db s) p m), s))"

definition change_rollout_control ::
    "api_config \<Rightarrow> rollout_env \<Rightarrow> string \<Rightarrow> string \<Rightarrow> server_state \<Rightarrow> rollout_view reply \<times> server_state" where
  "change_rollout_control cfg env i requested s =
     (case get_operation i (sv_db s) of
        Inl _ \<Rightarrow> (Refused 404 ''active policy rollout not found'', s)
      | Inr p \<Rightarrow>
     if op_type p \<noteq> OpRolloutPolicy then (Refused 404 ''active policy rollout not found'', s)
     else if \<not> open_operation (op_status p) then (Refused 409 ''completed policy rollouts cannot be controlled'', s)
     else case decode_rollout_metadata p of
        None \<Rightarrow> (Refused 409 ''policy rollout metadata is invalid'', s)
      | Some m \<Rightarrow>
          if \<not> control_allowed (md_control_state m) requested
          then (Refused 409 ''policy rollout control state changed; refresh and retry'', s)
          else apply_rollout_control cfg env i requested m s)"

definition pause_policy_rollout ::
    "api_config \<Rightarrow> rollout_env \<Rightarrow> string \<Rightarrow> server_state \<Rightarrow> rollout_view reply \<times> server_state" where
  "pause_policy_rollout cfg env i = change_rollout_control cfg env i ''PAUSED''"

definition resume_policy_rollout ::
    "api_config \<Rightarrow> rollout_env \<Rightarrow> string \<Rightarrow> server_state \<Rightarrow> rollout_view reply \<times> server_state" where
  "resume_policy_rollout cfg env i = change_rollout_control cfg env i ''RUNNING''"

definition cancel_policy_rollout ::
    "api_config \<Rightarrow> rollout_env \<Rightarrow> string \<Rightarrow> server_state \<Rightarrow> rollout_view reply \<times> server_state" where
  "cancel_policy_rollout cfg env i = change_rollout_control cfg env i ''CANCELING''"

end
