(* ===== verification/Properties_Rollouts.thy ===== *)
theory Properties_Rollouts
  imports Api_Rollouts Properties_Updates
begin

text \<open>
  Safety of policy rollouts: what one pass of \<open>reconcilePolicyRolloutUnlocked\<close> can do to the targets
  of a rollout. \<open>rollout_status\<close> is the status of a target in the database.
\<close>

section \<open>The targets in the database\<close>

definition rollout_status :: "string \<Rightarrow> db \<Rightarrow> string \<Rightarrow> target_status option" where
  "rollout_status i d k = map_option ro_status (find (same_rollout_target i k) (db_rollouts d))"

definition rollout_key :: "rollout_row \<Rightarrow> string \<times> string" where
  "rollout_key t = (ro_rollout_id t, ro_instance_id t)"

text \<open>What the primary key and the foreign key of the table keep.\<close>

definition rollouts_ok :: "db \<Rightarrow> bool" where
  "rollouts_ok d \<longleftrightarrow> distinct (map rollout_key (db_rollouts d))
     \<and> (\<forall>t \<in> set (db_rollouts d). instance_exists d (ro_instance_id t))"

lemma same_rollout_key: "same_rollout_target i k t \<longleftrightarrow> rollout_key t = (i, k)"
  by (auto simp: same_rollout_target_def rollout_key_def)

lemma rollout_status_Some:
  assumes "distinct (map rollout_key (db_rollouts d))"
  shows "rollout_status i d k = Some st \<longleftrightarrow> (\<exists>t \<in> set (db_rollouts d). rollout_key t = (i, k) \<and> ro_status t = st)"
proof
  assume "rollout_status i d k = Some st"
  then obtain t where "find (same_rollout_target i k) (db_rollouts d) = Some t" "ro_status t = st"
    by (auto simp: rollout_status_def)
  then show "\<exists>t \<in> set (db_rollouts d). rollout_key t = (i, k) \<and> ro_status t = st"
    using find_SomeD same_rollout_key by metis
next
  assume "\<exists>t \<in> set (db_rollouts d). rollout_key t = (i, k) \<and> ro_status t = st"
  then obtain t where t: "t \<in> set (db_rollouts d)" "rollout_key t = (i, k)" "ro_status t = st" by blast
  have "find (same_rollout_target i k) (db_rollouts d) = Some t"
    by (rule find_by_id[OF assms t(1)]) (simp_all add: same_rollout_key t(2))
  then show "rollout_status i d k = Some st" using t(3) by (simp add: rollout_status_def)
qed

lemma rollout_status_frame: "db_rollouts d' = db_rollouts d \<Longrightarrow> rollout_status i d' = rollout_status i d"
  by (simp add: rollout_status_def fun_eq_iff)

definition same_instances :: "db \<Rightarrow> db \<Rightarrow> bool" where
  "same_instances d d' \<longleftrightarrow> in_id ` set (db_instances d') = in_id ` set (db_instances d)"

lemma instance_exists_ids: "instance_exists d i \<longleftrightarrow> i \<in> in_id ` set (db_instances d)"
  by (simp add: instance_exists_def list_ex_key)

lemma rollouts_ok_frame:
  "rollouts_ok d \<Longrightarrow> db_rollouts d' = db_rollouts d \<Longrightarrow> same_instances d d' \<Longrightarrow> rollouts_ok d'"
  by (simp add: rollouts_ok_def instance_exists_ids same_instances_def)

text \<open>An update of one target.\<close>

lemma find_updated:
  "map_option ro_status (find (same_rollout_target i j) (update_where (same_rollout_target i k)
       (\<lambda>t. t\<lparr>ro_child_operation_id := c t, ro_status := st, ro_detail := e, ro_updated_at := now\<rparr>) rows))
     = (if j = k then map_option (\<lambda>_. st) (find (same_rollout_target i k) rows)
        else map_option ro_status (find (same_rollout_target i j) rows))"
proof (induction rows)
  case (Cons r rows)
  have u: "same_rollout_target i j (r\<lparr>ro_child_operation_id := a, ro_status := b, ro_detail := x, ro_updated_at := y\<rparr>)
      = same_rollout_target i j r" for a b x y
    by (simp add: same_rollout_target_def)
  have v: "same_rollout_target i k r \<Longrightarrow> same_rollout_target i j r \<longleftrightarrow> j = k"
    by (auto simp: same_rollout_target_def)
  show ?case using Cons u v by (cases "same_rollout_target i k r") auto
qed simp

lemma update_target:
  assumes "rollouts_ok d"
  shows "rollouts_ok (or_unchanged (update_policy_rollout_target i k child st detail now d) d)"
    and "rollout_status i d k \<noteq> None \<Longrightarrow> child = '''' \<Longrightarrow>
      rollout_status i (or_unchanged (update_policy_rollout_target i k child st detail now d) d)
        = (rollout_status i d)(k \<mapsto> st)"
    and "rollout_status i (or_unchanged (update_policy_rollout_target i k child st detail now d) d)
        \<in> {rollout_status i d, (rollout_status i d)(k \<mapsto> st)}"
proof -
  let ?f = "\<lambda>t. t\<lparr>ro_child_operation_id := (if child = '''' then ro_child_operation_id t else child),
      ro_status := st, ro_detail := detail, ro_updated_at := now\<rparr>"
  let ?d = "d\<lparr>db_rollouts := update_where (same_rollout_target i k) ?f (db_rollouts d)\<rparr>"
  let ?r = "update_policy_rollout_target i k child st detail now d"
  have dist: "distinct (map rollout_key (db_rollouts d))" using assms by (simp add: rollouts_ok_def)
  have keys: "map rollout_key (db_rollouts ?d) = map rollout_key (db_rollouts d)"
    by (simp, rule map_update_where) (simp add: rollout_key_def)
  have ok: "rollouts_ok ?d"
    using assms keys unfolding rollouts_ok_def by (auto simp: set_update_where instance_exists_def)
  have r: "?r = Inr ?d \<or> (\<exists>e. ?r = Inl e)"
    by (auto simp: update_policy_rollout_target_def guard_def Let_def)
  show "rollouts_ok (or_unchanged ?r d)"
    using r ok assms by (auto simp: or_unchanged_def)
  have at: "rollout_status i ?d = (rollout_status i d)(k := map_option (\<lambda>_. st) (rollout_status i d k))"
    by (rule ext) (simp add: rollout_status_def find_updated option.map_comp o_def)
  show "rollout_status i (or_unchanged ?r d) = (rollout_status i d)(k \<mapsto> st)"
    if k: "rollout_status i d k \<noteq> None" and c: "child = []"
  proof -
    obtain x where "rollout_status i d k = Some x" using k by blast
    then obtain t where t: "t \<in> set (db_rollouts d)" "rollout_key t = (i, k)"
      unfolding rollout_status_Some[OF dist] by blast
    have "count_where (same_rollout_target i k) (db_rollouts d) = 1"
      using count_key_le_one[OF dist, of "same_rollout_target i k" "(i, k)"] t
        count_where_zero[of "same_rollout_target i k" "db_rollouts d"]
      by (auto simp: same_rollout_key)
    then have "?r = Inr ?d" using c by (simp add: update_policy_rollout_target_def guard_def Let_def)
    then show ?thesis using at k by (auto simp: or_unchanged_def)
  qed
  show "rollout_status i (or_unchanged ?r d) \<in> {rollout_status i d, (rollout_status i d)(k \<mapsto> st)}"
    using r at by (cases "rollout_status i d k") (auto simp: or_unchanged_def fun_upd_idem)
qed

section \<open>The copies in memory\<close>

definition target_id :: "rollout_target \<Rightarrow> string" where
  "target_id t = ro_instance_id (fst t)"

definition agrees :: "string \<Rightarrow> rollout_target list \<Rightarrow> db \<Rightarrow> bool" where
  "agrees i ts d \<longleftrightarrow> distinct (map target_id ts)
     \<and> (\<forall>t \<in> set ts. rollout_status i d (target_id t) = Some (ro_status (fst t)))
     \<and> (\<forall>k. rollout_status i d k \<noteq> None \<longrightarrow> k \<in> target_id ` set ts)"

lemma listed_targets:
  assumes "rollouts_ok d"
  shows "agrees i (list_policy_rollout_targets i d) d"
proof -
  let ?ts = "list_policy_rollout_targets i d"
  have dist: "distinct (map rollout_key (db_rollouts d))" using assms by (simp add: rollouts_ok_def)
  have rows: "fst ` set ?ts = {t \<in> set (db_rollouts d). ro_rollout_id t = i}"
    using assms by (auto simp: list_policy_rollout_targets_def rollouts_ok_def image_image)
  have dk: "distinct (map rollout_key (map fst ?ts))"
    using dist by (simp add: list_policy_rollout_targets_def comp_def distinct_map inj_on_def)
  have of: "fst t \<in> set (db_rollouts d) \<and> ro_rollout_id (fst t) = i" if "t \<in> set ?ts" for t
    using imageI[of t "set ?ts" fst] that rows by simp
  have "target_id t = target_id t' \<longleftrightarrow> rollout_key (fst t) = rollout_key (fst t')" if "t \<in> set ?ts" "t' \<in> set ?ts" for t t'
    using of[OF that(1)] of[OF that(2)] by (simp add: target_id_def rollout_key_def)
  then have "distinct (map target_id ?ts)"
    using dk by (auto simp: distinct_map inj_on_def)
  moreover have "rollout_status i d (target_id t) = Some (ro_status (fst t))" if "t \<in> set ?ts" for t
    unfolding rollout_status_Some[OF dist] using of[OF that]
    by (intro bexI[of _ "fst t"]) (auto simp: target_id_def rollout_key_def)
  moreover have "k \<in> target_id ` set ?ts" if some: "rollout_status i d k \<noteq> None" for k
  proof -
    obtain x where "rollout_status i d k = Some x" using some by blast
    then obtain t where t: "t \<in> set (db_rollouts d)" "rollout_key t = (i, k)"
      unfolding rollout_status_Some[OF dist] by blast
    then have "t \<in> fst ` set ?ts" using rows by (simp add: rollout_key_def)
    then show ?thesis using t(2) by (auto simp: target_id_def rollout_key_def image_iff)
  qed
  ultimately show ?thesis by (simp add: agrees_def)
qed

text \<open>What a loop over the targets keeps.\<close>

definition settles :: "string \<Rightarrow> bool \<Rightarrow> db \<Rightarrow> db \<Rightarrow> bool" where
  "settles i f d d' \<longleftrightarrow> rollouts_ok d' \<and> (\<forall>k. rollout_status i d' k \<noteq> rollout_status i d k \<longrightarrow>
     rollout_status i d k = Some TargetRunning
     \<and> (rollout_status i d' k = Some TargetSucceeded \<or> f \<and> rollout_status i d' k = Some TargetFailed))"

lemma settles_mono: "settles i f d d' \<Longrightarrow> f \<longrightarrow> f' \<Longrightarrow> settles i f' d d'"
  by (auto simp: settles_def)

lemma settles_trans: "settles i f d d1 \<Longrightarrow> settles i f d1 d2 \<Longrightarrow> settles i f d d2"
  unfolding settles_def by (metis option.inject target_status.distinct(9) target_status.distinct(11))

lemma settle_target_effect:
  assumes "settle_target now i t d = (t', f, d')" "rollouts_ok d"
    and "rollout_status i d (target_id t) = Some (ro_status (fst t))"
  shows "settles i f d d' \<and> target_id t' = target_id t
     \<and> rollout_status i d' = (rollout_status i d)(target_id t \<mapsto> ro_status (fst t'))"
proof -
  have mark: "settles i (st = TargetFailed) d d'' \<and> target_id t'' = target_id t
      \<and> rollout_status i d'' = (rollout_status i d)(target_id t \<mapsto> ro_status (fst t''))"
    if "mark_target now i st e t d = (t'', d'')" "st \<in> {TargetSucceeded, TargetFailed}" "ro_status (fst t) = TargetRunning"
    for st e t'' d''
    using that update_target(1)[OF assms(2), of i "target_id t" "[]" st e now]
      update_target(2)[OF assms(2), of i "target_id t" "[]" st e now] assms(3)
    by (auto simp: mark_target_def settles_def target_id_def)
  have same: "settles i False d d \<and> rollout_status i d = (rollout_status i d)(target_id t \<mapsto> ro_status (fst t))"
    using assms(2,3) by (simp add: settles_def fun_upd_idem)
  show ?thesis
    using assms(1) same
    by (auto simp: settle_target_def Let_def split: if_splits sum.splits prod.splits dest: mark)
qed

lemma settle_targets_effect:
  assumes "settle_targets now i ts d = (ts', f, d')" "rollouts_ok d" "distinct (map target_id ts)"
    and "\<forall>t \<in> set ts. rollout_status i d (target_id t) = Some (ro_status (fst t))"
  shows "settles i f d d' \<and> map target_id ts' = map target_id ts
     \<and> (\<forall>t \<in> set ts'. rollout_status i d' (target_id t) = Some (ro_status (fst t)))
     \<and> (\<forall>k. k \<notin> target_id ` set ts \<longrightarrow> rollout_status i d' k = rollout_status i d k)"
  using assms
proof (induction ts arbitrary: d ts' f)
  case Nil
  then show ?case by (simp add: settles_def)
next
  case (Cons t ts)
  obtain t1 f1 d1 where h: "settle_target now i t d = (t1, f1, d1)" by (metis prod_cases3)
  obtain ts2 f2 where r: "settle_targets now i ts d1 = (ts2, f2, d')" "ts' = t1 # ts2" "f = (f1 \<or> f2)"
    using Cons.prems(1) h by (auto split: prod.splits)
  have e: "settles i f1 d d1" "target_id t1 = target_id t"
    "rollout_status i d1 = (rollout_status i d)(target_id t \<mapsto> ro_status (fst t1))"
    using settle_target_effect[OF h Cons.prems(2)] Cons.prems(4) by auto
  have fresh: "target_id t \<notin> target_id ` set ts" using Cons.prems(3) by simp
  have "rollout_status i d1 (target_id q) = Some (ro_status (fst q))" if "q \<in> set ts" for q
  proof -
    have "target_id q \<noteq> target_id t" using fresh imageI[OF that, of target_id] by auto
    then show ?thesis using Cons.prems(4) that unfolding e(3) by simp
  qed
  then have "\<forall>q \<in> set ts. rollout_status i d1 (target_id q) = Some (ro_status (fst q))" by blast
  then have ih: "settles i f2 d1 d'" "map target_id ts2 = map target_id ts"
    "\<forall>q \<in> set ts2. rollout_status i d' (target_id q) = Some (ro_status (fst q))"
    "\<forall>k. k \<notin> target_id ` set ts \<longrightarrow> rollout_status i d' k = rollout_status i d1 k"
    using Cons.IH[OF r(1)] e(1) Cons.prems(3) by (auto simp: settles_def)
  have here: "rollout_status i d' (target_id t) = Some (ro_status (fst t1))"
    using ih(4) Cons.prems(3) e(3) by auto
  have "settles i f d d'"
    using settles_trans[OF settles_mono[OF e(1)] settles_mono[OF ih(1)]] r(3) by simp
  then show ?case using ih e r(2) here by auto
qed

section \<open>What leaves the targets alone\<close>

named_theorems keeps_targets

lemma control_plane_targets [keeps_targets]:
  "db_rollouts (or_unchanged (update_control_plane_operation i st p e at d) d) = db_rollouts d"
  by (simp add: update_control_plane_operation_def or_unchanged_def Let_def)

lemma rollout_control_targets [keeps_targets]:
  "db_rollouts (or_unchanged (update_policy_rollout_control i x md p at d) d) = db_rollouts d"
  by (simp add: update_policy_rollout_control_def guard_def or_unchanged_def Let_def)

lemma close_pass_targets [keeps_targets]: "db_rollouts (close_pass now i m ts d) = db_rollouts d"
  by (simp add: close_pass_def finish_rollout_def update_rollout_progress_def keeps_targets Let_def split: prod.splits)

lemma progress_targets [keeps_targets]: "db_rollouts (update_rollout_progress now i m ts d) = db_rollouts d"
  by (simp add: update_rollout_progress_def keeps_targets)

lemma finish_targets [keeps_targets]: "db_rollouts (finish_rollout now i m ts d) = db_rollouts d"
  by (simp add: finish_rollout_def keeps_targets Let_def split: prod.splits)

lemma close_on_targets [keeps_targets]: "db_rollouts (sv_db (close_on now i m ts s)) = db_rollouts (sv_db s)"
  by (simp add: close_on_def keeps_targets)

lemma auto_pause_targets [keeps_targets]: "db_rollouts (snd (auto_pause now i m ts reason d)) = db_rollouts d"
  by (simp add: auto_pause_def keeps_targets Let_def)

lemma pause_or_targets:
  "db_rollouts (sv_db (pause_or now i m ts reason (close_on now' i' m' ts') s)) = db_rollouts (sv_db s)"
  using auto_pause_targets[of now i m ts reason "sv_db s"]
  by (cases "auto_pause now i m ts reason (sv_db s)") (simp add: pause_or_def keeps_targets Let_def)

lemma queue_action_targets: "queue_action e st op j d = Inr d' \<Longrightarrow> db_rollouts d' = db_rollouts d"
  by (auto simp: queue_action_def move_instance_Inr insert_operation_and_job_def insert_operation_Inr insert_job_Inr
      require_idle_def guard_def split: if_splits)

lemma queue_hermes_update_targets:
  "queue_hermes_update cfg pe env v h us restore workflow actor s = (r, s') \<Longrightarrow>
     db_rollouts (sv_db s') = db_rollouts (sv_db s)"
  by (auto simp: queue_hermes_update_def Let_def dest: queue_action_targets split: sum.splits prod.splits)

lemma find_other:
  assumes "\<And>t. rollout_key (f t) = rollout_key t" "j \<noteq> k"
  shows "find (same_rollout_target i j) (update_where (same_rollout_target i k) f rows) = find (same_rollout_target i j) rows"
  using assms by (induction rows) (auto simp: same_rollout_key)

lemma other_targets_kept:
  assumes "j \<noteq> k"
  shows "rollout_status i (or_unchanged (update_policy_rollout_target i k child st detail now d) d) j = rollout_status i d j"
  using assms
  by (simp add: update_policy_rollout_target_def guard_def or_unchanged_def Let_def rollout_status_def find_other rollout_key_def)

lemma queue_policy_target_others:
  assumes "queue_policy_target cfg env i m t s = (t', s')" "j \<noteq> target_id t"
  shows "rollout_status i (sv_db s') j = rollout_status i (sv_db s) j"
proof -
  have marked: "rollout_status i (sv_db s2) j = rollout_status i (sv_db s1) j"
    if "mark_on now i st e t s1 = (t2, s2)" for now st e t2 s1 s2
    using that other_targets_kept[of j "target_id t"] assms(2)
    by (auto simp: mark_on_def mark_target_def target_id_def)
  have queued: "rollout_status i (sv_db s1) = rollout_status i (sv_db s)"
    if "queue_hermes_update cfg points q v h us r w a s = (x, s1)" for points q v h us r w a x s1
    by (rule rollout_status_frame) (rule queue_hermes_update_targets[OF that])
  show ?thesis
    using assms other_targets_kept[of j "target_id t"]
    by (auto simp: queue_policy_target_def Let_def started_rollout_target_def target_id_def fun_eq_iff
        dest!: marked queued split: sum.splits option.splits if_splits prod.splits)
qed

section \<open>A pass\<close>

text \<open>At most one target moves, and when one does, the gate of the canary was open to it.\<close>

definition moves_one :: "string \<Rightarrow> rollout_metadata \<Rightarrow> db \<Rightarrow> db \<Rightarrow> bool" where
  "moves_one i m d d' \<longleftrightarrow> rollout_status i d' = rollout_status i d
     \<or> (\<exists>k. (\<forall>j. j \<noteq> k \<longrightarrow> rollout_status i d' j = rollout_status i d j)
          \<and> rollout_status i d k = Some TargetPending
          \<and> (k = md_canary m \<or> md_failure_acknowledged m
             \<or> rollout_status i d (md_canary m) \<in> {None, Some TargetRunning, Some TargetSucceeded}))"

lemma moves_one_refl: "rollout_status i d' = rollout_status i d \<Longrightarrow> moves_one i m d d'"
  by (simp add: moves_one_def)

lemma agrees_member:
  "agrees i ts d \<Longrightarrow> find P ts = Some t \<Longrightarrow> rollout_status i d (target_id t) = Some (ro_status (fst t)) \<and> P t"
  by (auto simp: agrees_def dest: find_SomeD)

lemma agrees_missing:
  "agrees i ts d \<Longrightarrow> find (\<lambda>(t, _). ro_instance_id t = k) ts = None \<Longrightarrow> rollout_status i d k = None"
  unfolding agrees_def find_None_iff target_id_def split_beta by (metis (no_types, lifting) imageE)

lemma next_wave_moves:
  assumes "agrees i ts (sv_db s)"
    and "md_failure_acknowledged m \<or> rollout_status i (sv_db s) (md_canary m) \<in> {None, Some TargetRunning, Some TargetSucceeded}"
  shows "moves_one i m (sv_db s) (sv_db (next_wave cfg env i m ts s))"
proof (cases "find (\<lambda>(t, _). ro_status t = TargetPending) ts")
  case None
  then show ?thesis by (intro moves_one_refl rollout_status_frame) (simp add: next_wave_def keeps_targets)
next
  case (Some t)
  obtain t' s' where q: "queue_policy_target cfg env i m t s = (t', s')" by (metis surj_pair)
  have "rollout_status i (sv_db s) (target_id t) = Some TargetPending"
    using agrees_member[OF assms(1) Some] by auto
  moreover have "db_rollouts (sv_db (next_wave cfg env i m ts s)) = db_rollouts (sv_db s')"
    using Some q by (simp add: next_wave_def Let_def pause_or_targets keeps_targets)
  then have "rollout_status i (sv_db (next_wave cfg env i m ts s)) = rollout_status i (sv_db s')"
    by (rule rollout_status_frame)
  ultimately show ?thesis
    using queue_policy_target_others[OF q] assms(2) unfolding moves_one_def by metis
qed

lemma start_wave_moves:
  assumes "agrees i ts (sv_db s)"
  shows "moves_one i m (sv_db s) (sv_db (start_wave cfg env i m ts s))"
proof (cases "find (\<lambda>(t, _). ro_instance_id t = md_canary m) ts")
  case None
  then have "rollout_status i (sv_db s) (md_canary m) = None" by (rule agrees_missing[OF assms])
  then show ?thesis using None next_wave_moves[OF assms] by (simp add: start_wave_def)
next
  case (Some c)
  have c: "rollout_status i (sv_db s) (md_canary m) = Some (ro_status (fst c))" "target_id c = md_canary m"
    using agrees_member[OF assms Some] by (auto simp: target_id_def)
  obtain c' s' where q: "queue_policy_target cfg env i m c s = (c', s')" by (metis surj_pair)
  show ?thesis
  proof (cases "ro_status (fst c) = TargetPending")
    case True
    then have "db_rollouts (sv_db (start_wave cfg env i m ts s)) = db_rollouts (sv_db s')"
      using Some q by (simp add: start_wave_def keeps_targets)
    then have "rollout_status i (sv_db (start_wave cfg env i m ts s)) = rollout_status i (sv_db s')"
      by (rule rollout_status_frame)
    then show ?thesis using queue_policy_target_others[OF q] c True unfolding moves_one_def by metis
  next
    case False
    show ?thesis
    proof (cases "\<not> md_failure_acknowledged m \<and> (ro_status (fst c) = TargetFailed \<or> ro_status (fst c) = TargetBlocked)")
      case True
      then show ?thesis
        using Some False by (intro moves_one_refl rollout_status_frame) (auto simp: start_wave_def pause_or_targets)
    next
      case gate: False
      then have "md_failure_acknowledged m \<or> rollout_status i (sv_db s) (md_canary m) \<in> {None, Some TargetRunning, Some TargetSucceeded}"
        using False c(1) by (cases "ro_status (fst c)") auto
      moreover have "start_wave cfg env i m ts s = next_wave cfg env i m ts s"
        using Some False gate by (auto simp: start_wave_def)
      ultimately show ?thesis using next_wave_moves[OF assms] by simp
    qed
  qed
qed

lemma settled_targets:
  assumes "settle_targets now i (list_policy_rollout_targets i d) d = (ts, f, d')" "rollouts_ok d"
  shows "settles i f d d' \<and> agrees i ts d'"
proof -
  let ?ts = "list_policy_rollout_targets i d"
  have a: "agrees i ?ts d" by (rule listed_targets[OF assms(2)])
  then have "distinct (map target_id ?ts)"
    and "\<forall>t \<in> set ?ts. rollout_status i d (target_id t) = Some (ro_status (fst t))"
    by (simp_all add: agrees_def)
  from settle_targets_effect[OF assms this] have s: "settles i f d d'" "map target_id ts = map target_id ?ts"
    "\<forall>t \<in> set ts. rollout_status i d' (target_id t) = Some (ro_status (fst t))" by blast+
  have same: "target_id ` set ts = target_id ` set ?ts" using s(2) by (metis list.set_map)
  have "rollout_status i d' k \<noteq> None \<Longrightarrow> rollout_status i d k \<noteq> None" for k
    using s(1) unfolding settles_def by (metis option.distinct(1))
  then have "\<forall>k. rollout_status i d' k \<noteq> None \<longrightarrow> k \<in> target_id ` set ts"
    using a unfolding agrees_def same by blast
  moreover have "distinct (map target_id ts)" using a s(2) by (simp add: agrees_def)
  ultimately show ?thesis using s(1,3) by (simp add: agrees_def)
qed

lemma none_counted: "agrees i ts d \<Longrightarrow> rollout_count {st} ts = 0 \<Longrightarrow> rollout_status i d k \<noteq> Some st"
  unfolding agrees_def rollout_count_def count_where_zero split_beta
  by (metis (no_types, lifting) imageE insertI1 option.distinct(1) option.inject)

lemma block_pending_kept:
  "rollout_status i (snd (block_pending_policy_rollout_targets i detail now d)) k = Some TargetRunning
     \<Longrightarrow> rollout_status i d k = Some TargetRunning"
proof -
  have "map_option ro_status (find (same_rollout_target i k) (update_where P
      (\<lambda>t. t\<lparr>ro_status := TargetBlocked, ro_detail := detail, ro_updated_at := now\<rparr>) rows)) = Some TargetRunning
    \<Longrightarrow> map_option ro_status (find (same_rollout_target i k) rows) = Some TargetRunning" for P and rows :: "rollout_row list"
    by (induction rows) (auto simp: same_rollout_target_def split: if_splits)
  then show "rollout_status i (snd (block_pending_policy_rollout_targets i detail now d)) k = Some TargetRunning
     \<Longrightarrow> rollout_status i d k = Some TargetRunning"
    by (simp add: rollout_status_def block_pending_policy_rollout_targets_def Let_def)
qed

lemma cancel_pass_kept:
  "rollout_status i (cancel_pass now i m d) k = Some TargetRunning \<Longrightarrow> rollout_status i d k = Some TargetRunning"
  using rollout_status_frame[OF close_pass_targets] block_pending_kept by (auto simp: cancel_pass_def Let_def)

lemma decoded_control: "decode_rollout_metadata p = Some m \<Longrightarrow> md_control_state m \<in> {''RUNNING'', ''PAUSED'', ''CANCELING''}"
  by (auto simp: decode_rollout_metadata_def check_rollout_metadata_def Let_def split: if_splits bind_splits)

text \<open>A pass starts nothing, or it is the pass of a running rollout with no target running and no new failure.\<close>

lemma reconcile_outcome:
  fixes cfg env p s
  defines "i \<equiv> op_id p" and "s' \<equiv> reconcile_rollout cfg env p s"
  assumes ok: "rollouts_ok (sv_db s)" and m: "decode_rollout_metadata p = Some m"
  obtains f d1 where "settles i f (sv_db s) d1"
    and "(\<forall>k. rollout_status i (sv_db s') k = Some TargetRunning \<longrightarrow> rollout_status i d1 k = Some TargetRunning)
      \<or> md_control_state m = ''RUNNING'' \<and> \<not> f \<and> (\<forall>k. rollout_status i d1 k \<noteq> Some TargetRunning)
        \<and> moves_one i m d1 (sv_db s')"
proof -
  obtain ts f d1 where st: "settle_targets (xe_now env) i (list_policy_rollout_targets i (sv_db s)) (sv_db s) = (ts, f, d1)"
    by (metis prod_cases3)
  have e: "settles i f (sv_db s) d1" and a: "agrees i ts d1" using settled_targets[OF st ok] by blast+
  let ?s = "s\<lparr>sv_db := d1\<rparr>"
  let ?still = "\<lambda>s'. \<forall>k. rollout_status i (sv_db s') k = Some TargetRunning \<longrightarrow> rollout_status i d1 k = Some TargetRunning"
  let ?starts = "\<lambda>s'. md_control_state m = ''RUNNING'' \<and> \<not> f \<and> (\<forall>k. rollout_status i d1 k \<noteq> Some TargetRunning)
        \<and> moves_one i m d1 (sv_db s')"
  define go_on where "go_on = (\<lambda>s. if md_control_state m = ''PAUSED'' \<or> rollout_count {TargetRunning} ts > 0
      then s\<lparr>sv_db := update_rollout_progress (xe_now env) i m ts (sv_db s)\<rparr> else start_wave cfg env i m ts s)"
  have run: "s' = (if rollout_terminal ts then ?s\<lparr>sv_db := finish_rollout (xe_now env) i m ts d1\<rparr>
      else if md_control_state m = ''CANCELING'' then ?s\<lparr>sv_db := cancel_pass (xe_now env) i m d1\<rparr>
      else if f \<and> md_control_state m = ''RUNNING''
      then pause_or (xe_now env) i m ts ''A rollout target failed; Fleet stopped before the next wave'' go_on ?s
      else go_on ?s)"
    using st m unfolding s'_def reconcile_rollout_def go_on_def i_def by (simp add: Let_def)
  have still: "?still s2" if "db_rollouts (sv_db s2) = db_rollouts d1" for s2
    using rollout_status_frame[OF that] by simp
  have go: "?still (go_on ?s) \<or> ?starts (go_on ?s)"
    if c: "md_control_state m \<noteq> ''CANCELING''" and "f \<longrightarrow> md_control_state m = ''RUNNING'' \<longrightarrow> rollout_count {TargetPending} ts = 0"
  proof (cases "md_control_state m = ''PAUSED'' \<or> rollout_count {TargetRunning} ts > 0")
    case True
    then show ?thesis using still[of "go_on ?s"] by (simp add: go_on_def keeps_targets)
  next
    case False
    then have run: "md_control_state m = ''RUNNING''" and none: "rollout_count {TargetRunning} ts = 0"
      using decoded_control[OF m] c by auto
    have one: "moves_one i m d1 (sv_db (go_on ?s))"
      using start_wave_moves[of i ts ?s] a False by (simp add: go_on_def)
    show ?thesis
    proof (cases f)
      case True
      then have "rollout_status i d1 k \<noteq> Some TargetPending" for k using none_counted[OF a] that(2) run by blast
      then show ?thesis using one by (auto simp: moves_one_def)
    next
      case no_failure: False
      then show ?thesis using run none_counted[OF a none] one by blast
    qed
  qed
  have "?still s' \<or> ?starts s'"
  proof (cases "rollout_terminal ts \<or> md_control_state m = ''CANCELING''")
    case True
    then show ?thesis
      using run still[of s'] cancel_pass_kept[of i "xe_now env" m d1] by (auto simp: keeps_targets split: if_splits)
  next
    case False
    show ?thesis
    proof (cases "f \<and> md_control_state m = ''RUNNING''")
      case True
      obtain paused d2 where ap: "auto_pause (xe_now env) i m ts ''A rollout target failed; Fleet stopped before the next wave'' d1
          = (paused, d2)" by (metis surj_pair)
      have r: "s' = (if paused then ?s\<lparr>sv_db := d2\<rparr> else go_on (?s\<lparr>sv_db := d2\<rparr>))"
        using run False True ap by (simp add: pause_or_def Let_def)
      show ?thesis
      proof (cases paused)
        case True
        then have "db_rollouts (sv_db s') = db_rollouts d1"
          using r
            auto_pause_targets[of "xe_now env" i m ts "''A rollout target failed; Fleet stopped before the next wave''" d1]
          unfolding ap by simp
        then show ?thesis using still by blast
      next
        case False
        then have "rollout_count {TargetPending} ts = 0 \<and> d2 = d1"
          using ap True by (auto simp: auto_pause_def Let_def split: if_splits)
        then show ?thesis using r False go True by auto
      qed
    next
      case no_pause: False
      then have "s' = go_on ?s" using run False by auto
      then show ?thesis using go False no_pause by auto
    qed
  qed
  then show ?thesis using that e by blast
qed

text \<open>C6. A pass of the controller over a policy rollout starts at most one target, and only when it may. If a
  target is running after the pass and was not before, the rollout is not paused or canceling, the target
  was pending, every target that was running before has succeeded, and nothing else is running. Unless it is
  the canary itself, the canary has succeeded (or is no target of the rollout), or an administrator has
  resumed the rollout after a failure.
\<close>

theorem rollout_starts_one:
  assumes "rollouts_ok (sv_db s)" and "decode_rollout_metadata p = Some m"
    and "rollout_status (op_id p) (sv_db (reconcile_rollout cfg env p s)) k = Some TargetRunning"
    and "rollout_status (op_id p) (sv_db s) k \<noteq> Some TargetRunning"
  shows "let before = rollout_status (op_id p) (sv_db s);
             after = rollout_status (op_id p) (sv_db (reconcile_rollout cfg env p s)) in
     md_control_state m = ''RUNNING'' \<and> before k = Some TargetPending
     \<and> (\<forall>j. before j = Some TargetRunning \<longrightarrow> after j = Some TargetSucceeded)
     \<and> (\<forall>j. after j = Some TargetRunning \<longrightarrow> j = k)
     \<and> (k = md_canary m \<or> md_failure_acknowledged m \<or> after (md_canary m) \<in> {None, Some TargetSucceeded})"
proof -
  let ?i = "op_id p"
  let ?d' = "sv_db (reconcile_rollout cfg env p s)"
  obtain f d1 where e: "settles ?i f (sv_db s) d1"
    and o: "(\<forall>k. rollout_status ?i ?d' k = Some TargetRunning \<longrightarrow> rollout_status ?i d1 k = Some TargetRunning)
      \<or> md_control_state m = ''RUNNING'' \<and> \<not> f \<and> (\<forall>k. rollout_status ?i d1 k \<noteq> Some TargetRunning)
        \<and> moves_one ?i m d1 ?d'"
    using reconcile_outcome[OF assms(1,2)] by blast
  have k: "rollout_status ?i d1 k \<noteq> Some TargetRunning"
    using e assms(4) unfolding settles_def by force
  then have run: "md_control_state m = ''RUNNING''" "\<not> f" and none: "\<forall>k. rollout_status ?i d1 k \<noteq> Some TargetRunning"
    and "moves_one ?i m d1 ?d'" using o assms(3) by blast+
  then obtain q where q: "\<forall>j. j \<noteq> q \<longrightarrow> rollout_status ?i ?d' j = rollout_status ?i d1 j"
    "rollout_status ?i d1 q = Some TargetPending"
    "q = md_canary m \<or> md_failure_acknowledged m
       \<or> rollout_status ?i d1 (md_canary m) \<in> {None, Some TargetRunning, Some TargetSucceeded}"
    unfolding moves_one_def using assms(3) k by auto
  have "k = q" using q(1) assms(3) none by metis
  note q = q[folded this]
  have "rollout_status ?i (sv_db s) k = Some TargetPending"
    using e q(2) unfolding settles_def by (metis option.inject target_status.distinct(3,5))
  moreover have "rollout_status ?i ?d' j = Some TargetSucceeded" if "rollout_status ?i (sv_db s) j = Some TargetRunning" for j
  proof -
    have "rollout_status ?i d1 j = Some TargetSucceeded"
      using e none run(2) that unfolding settles_def by metis
    then show ?thesis using q(1,2) by (cases "j = k") auto
  qed
  moreover have "\<forall>j. rollout_status ?i ?d' j = Some TargetRunning \<longrightarrow> j = k" using q(1) none by metis
  moreover have "k = md_canary m \<or> md_failure_acknowledged m
      \<or> rollout_status ?i ?d' (md_canary m) \<in> {None, Some TargetSucceeded}"
    using q(1,3) none by (metis insert_iff)
  ultimately show ?thesis using run(1) by (simp add: Let_def)
qed

section \<open>A rollout with a canary\<close>

definition canary_metadata :: rollout_metadata where
  "canary_metadata = \<lparr>md_policy_id = ''q1'', md_policy_name = ''Baseline'', md_strategy = ''ONE_AT_A_TIME'',
     md_target_count = 1, md_ready_count = 1, md_blocked_count = 0, md_control_state = ''RUNNING'',
     md_control_reason = '''', md_failure_acknowledged = False, md_canary = ''i1'', md_target_version = '''',
     md_target_source = '''', md_target_image = ''''\<rparr>"

definition canary_rollout :: operation where
  "canary_rollout = (sample_operation ''r1'' OpRolloutPolicy 1)\<lparr>op_instance_id := '''',
     op_metadata := Some (encode_rollout_metadata canary_metadata)\<rparr>"

definition canary_row :: rollout_row where
  "canary_row = \<lparr>ro_rollout_id = ''r1'', ro_policy_id = ''q1'', ro_instance_id = ''i1'', ro_child_operation_id = '''',
     ro_status = TargetPending, ro_detail = '''', ro_created_at = 1, ro_updated_at = 1\<rparr>"

definition canary_fleet :: db where
  "canary_fleet = updatable_fleet\<lparr>db_operations := [canary_rollout], db_rollouts := [canary_row]\<rparr>"

definition canary_env :: rollout_env where
  "canary_env = \<lparr>xe_request = update_env, xe_listed = Some (Some sample_releases), xe_describe = (\<lambda>_. '''')\<rparr>"

lemma canary_decoded: "decode_rollout_metadata canary_rollout = Some canary_metadata"
  by code_simp

lemma canary_listed: "list_policy_rollout_targets ''r1'' canary_fleet = [(canary_row, ''nara'')]"
  by (simp add: list_policy_rollout_targets_def canary_fleet_def canary_row_def updatable_fleet_def updatable_instance_def
      sample_instance_def instance_exists_def find_instance_def find_row_def empty_db_def)

lemma canary_ok: "rollouts_ok canary_fleet"
  by (simp add: rollouts_ok_def canary_fleet_def canary_row_def updatable_fleet_def updatable_instance_def
      sample_instance_def instance_exists_def)

lemma canary_views:
  "get_instance ''i1'' canary_fleet = Inr updatable_view" "get_host ''h1'' canary_fleet = Inr sample_host_view"
proof -
  have d: "db_instances canary_fleet = db_instances updatable_fleet" "db_hosts canary_fleet = db_hosts updatable_fleet"
    "db_observations canary_fleet = db_observations updatable_fleet" "db_requests canary_fleet = db_requests updatable_fleet"
    by (simp_all add: canary_fleet_def)
  have w: "view_instance canary_fleet = view_instance updatable_fleet"
    by (rule ext) (simp add: view_instance_def d)
  show "get_instance ''i1'' canary_fleet = Inr updatable_view"
    using updatable_views(1) unfolding get_instance_def find_instance_def d(1) w by blast
  show "get_host ''h1'' canary_fleet = Inr sample_host_view"
    using sample_hosts(1) unfolding get_host_def d(2) .
qed

lemma canary_admitted:
  assumes "op_instance_id op = ''i1''" "op_id op = ''o1''" "j_host_id j = ''h1''" "j_instance_id j = ''i1''" "j_operation_id j = ''o1''"
  shows "\<exists>d'. queue_action InstanceRunning InstanceUpdating op j canary_fleet = Inr d'"
  using assms
  by (simp add: queue_action_def move_instance_def update_instances_def canary_fleet_def canary_rollout_def updatable_fleet_def
      updatable_instance_def sample_operation_def
      sample_instance_def sample_host_def empty_db_def count_where_def require_idle_def guard_def
      active_instance_jobs_def insert_operation_and_job_def host_active_def insert_operation_def insert_job_def
      operation_exists_def host_exists_def instance_exists_def job_operation_row_def
      new_job_row_def job.defs job_queue_max_per_host_def update_where_def Let_def)

lemma canary_queued:
  "\<exists>t' s'. queue_policy_target sample_config canary_env ''r1'' canary_metadata (canary_row, ''nara'')
       \<lparr>sv_db = canary_fleet, sv_points = []\<rparr> = (t', s')
     \<and> rollout_status ''r1'' (sv_db s') ''i1'' = Some TargetRunning"
proof -
  let ?s = "\<lparr>sv_db = canary_fleet, sv_points = []\<rparr>"
  obtain us where us: "pinned_update_status sample_config 1000000000 (Some (Some sample_releases)) canary_metadata updatable_view = us"
    "us_available us" "us_eligible us"
    using sample_update_status by (auto simp: pinned_update_status_def canary_metadata_def)
  obtain op j f g where q: "op_instance_id op = ''i1''" "op_id op = ''o1''" "j_host_id j = ''h1''"
    "j_instance_id j = ''i1''" "j_operation_id j = ''o1''" "queue_hermes_update sample_config sample_env update_env
      updatable_view sample_host_view us InstanceRunning ''r1'' ''POLICY_CONTROLLER'' ?s
    = (case queue_action InstanceRunning InstanceUpdating op j canary_fleet of
         Inl e \<Rightarrow> (Inl (StageQueue e), \<lparr>sv_db = canary_fleet, sv_points = f\<rparr>)
       | Inr d' \<Rightarrow> (Inr op, \<lparr>sv_db = d', sv_points = g\<rparr>))"
    using sample_queue[of "''r1''" us "''POLICY_CONTROLLER''" canary_fleet] by blast
  obtain d' where d': "queue_action InstanceRunning InstanceUpdating op j canary_fleet = Inr d'"
    using canary_admitted[OF q(1-5)] by blast
  have rows: "db_rollouts d' = [canary_row]" using queue_action_targets[OF d'] by (simp add: canary_fleet_def)
  have known: "operation_exists d' ''o1''"
    using d' q(2,5) by (auto simp: queue_action_def dest: insert_operation_and_job_Inr(14))
  have v: "in_status updatable_view = InstanceRunning" "in_host_id updatable_view = ''h1''"
    by (simp_all add: updatable_view_def view_instance_def instance_row.defs updatable_instance_def sample_instance_def)
  have e: "qe_now update_env = 1000000000" "xe_request canary_env = update_env" "xe_listed canary_env = Some (Some sample_releases)"
    "ro_instance_id canary_row = ''i1''" "ac_recovery sample_config = Some sample_env"
    by (simp_all add: update_env_def canary_env_def canary_row_def sample_config_def)
  have "queue_policy_target sample_config canary_env ''r1'' canary_metadata (canary_row, ''nara'') ?s
    = started_rollout_target 1000000000 ''r1'' op (canary_row, ''nara'') \<lparr>sv_db = d', sv_points = g\<rparr>"
    using us q(6) d' canary_views v e sample_hosts(3,4)
    by (simp add: queue_policy_target_def Let_def current_agent_def)
  moreover have "rollout_status ''r1'' (sv_db (snd (started_rollout_target 1000000000 ''r1'' op (canary_row, ''nara'')
      \<lparr>sv_db = d', sv_points = g\<rparr>))) ''i1'' = Some TargetRunning"
    using known q(2) rows
    by (simp add: started_rollout_target_def update_policy_rollout_target_def guard_def or_unchanged_def Let_def
        canary_row_def same_rollout_target_def rollout_status_def)
  ultimately show ?thesis by (metis prod.collapse)
qed

theorem rollout_starts_one_witness:
  "\<exists>s'. reconcile_rollout sample_config canary_env canary_rollout \<lparr>sv_db = canary_fleet, sv_points = []\<rparr> = s'
     \<and> rollout_status ''r1'' canary_fleet ''i1'' = Some TargetPending
     \<and> rollout_status ''r1'' (sv_db s') ''i1'' = Some TargetRunning
     \<and> list_all (\<lambda>j. rollout_status ''r1'' (sv_db s') j \<noteq> Some TargetRunning) [''i0'', ''i2'']"
proof -
  let ?s = "\<lparr>sv_db = canary_fleet, sv_points = []\<rparr>"
  obtain t' s' where q: "queue_policy_target sample_config canary_env ''r1'' canary_metadata (canary_row, ''nara'') ?s = (t', s')"
    "rollout_status ''r1'' (sv_db s') ''i1'' = Some TargetRunning"
    using canary_queued by blast
  have i: "op_id canary_rollout = ''r1''" by (simp add: canary_rollout_def sample_operation_def)
  have c: "ro_instance_id canary_row = ''i1''" "ro_status canary_row = TargetPending" "ro_child_operation_id canary_row = ''''"
    "md_canary canary_metadata = ''i1''" "md_control_state canary_metadata = ''RUNNING''"
    by (simp_all add: canary_row_def canary_metadata_def)
  have r: "reconcile_rollout sample_config canary_env canary_rollout ?s
    = close_on (xe_now canary_env) ''r1'' canary_metadata (replace_target ''i1'' t' [(canary_row, ''nara'')]) s'"
    using q(1) c by (simp add: reconcile_rollout_def i canary_decoded canary_listed settle_target_def Let_def start_wave_def
        rollout_terminal_def target_over_def rollout_count_def count_where_def)
  have after: "rollout_status ''r1'' (sv_db (reconcile_rollout sample_config canary_env canary_rollout ?s)) ''i1'' = Some TargetRunning"
    using q(2) unfolding r rollout_status_frame[OF close_on_targets] .
  have before: "rollout_status ''r1'' canary_fleet ''i1'' = Some TargetPending"
    by (simp add: rollout_status_def canary_fleet_def canary_row_def same_rollout_target_def)
  have "\<forall>j. rollout_status ''r1'' (sv_db (reconcile_rollout sample_config canary_env canary_rollout ?s)) j = Some TargetRunning
      \<longrightarrow> j = ''i1''"
  proof -
    have "rollouts_ok (sv_db ?s)" using canary_ok by (simp only: server_state.select_convs)
    moreover have "rollout_status ''r1'' (sv_db ?s) ''i1'' \<noteq> Some TargetRunning"
      unfolding server_state.select_convs before by simp
    ultimately show ?thesis
      using rollout_starts_one[of ?s canary_rollout canary_metadata sample_config canary_env "''i1''", unfolded i Let_def]
        canary_decoded after by blast
  qed
  then have "rollout_status ''r1'' (sv_db (reconcile_rollout sample_config canary_env canary_rollout ?s)) j \<noteq> Some TargetRunning"
    if "j \<noteq> ''i1''" for j using that by blast
  then show ?thesis using after before by simp
qed

end
