(* ===== verification/Chat_Artifacts.thy ===== *)
theory Chat_Artifacts
  imports Api_Rules Recovery_Points "HOL-Library.AList"
begin

text \<open>
  The storage of chat outputs, \<open>internal/chatartifacts\<close>: manifests and content files in one directory
  per session, the quotas, and the usage that the manager keeps in memory. A path is a session and an
  artifact identity; a manifest is what \<open>json.Unmarshal\<close> reads from the file, \<open>None\<close> when that fails.
  A file whose name begins with \<open>.artifact-\<close> is a stage, whatever it ends with.
  The directories hold regular files only, and a file operation fails only where the code asks for the
  file: disk errors are left out. An operation reads the clock once. A canceled request ends before it
  changes anything.
\<close>

section \<open>Files\<close>

record artifact_meta =
  am_id :: string
  am_instance_id :: string
  am_session_id :: string
  am_operation_id :: string
  am_name :: string
  am_kind :: string
  am_media_type :: string
  am_size :: int
  am_sha256 :: string
  am_status :: string
  am_error :: string
  am_created_at :: timestamp
  am_expires_at :: "timestamp option"
  am_deleted_at :: "timestamp option"

abbreviation ar_ready :: string where "ar_ready \<equiv> ''ready''"
abbreviation ar_preparing :: string where "ar_preparing \<equiv> ''preparing''"
abbreviation ar_rejected :: string where "ar_rejected \<equiv> ''rejected''"
abbreviation ar_missing :: string where "ar_missing \<equiv> ''missing''"
abbreviation ar_expired :: string where "ar_expired \<equiv> ''expired''"
abbreviation ar_failed :: string where "ar_failed \<equiv> ''failed''"
abbreviation ar_deleted :: string where "ar_deleted \<equiv> ''deleted''"

record data_file =
  df_bytes :: string
  df_mtime :: timestamp

type_synonym artifact_path = "string \<times> string"

text \<open>\<open>af_stages\<close> are the temporary files of a session with their modification times.\<close>

record artifact_files =
  af_sessions :: "string list"
  af_manifests :: "(artifact_path \<times> artifact_meta option) list"
  af_data :: "(artifact_path \<times> data_file) list"
  af_stages :: "(string \<times> timestamp) list"

record artifact_usage =
  us_total :: int
  us_sessions :: "string \<Rightarrow> int"
  us_instances :: "string \<Rightarrow> int"

record artifact_store =
  as_files :: artifact_files
  as_usage :: artifact_usage

record artifact_config =
  xc_session_max :: int
  xc_instance_max :: int
  xc_total_max :: int
  xc_retention :: duration

datatype artifact_error =
    ArtifactNotFound | ArtifactInvalid | ArtifactQuota | ArtifactMissing | ArtifactExpired
  | ArtifactLease | ArtifactOther string

definition maximum_bytes :: int where
  "maximum_bytes = 26214400"

definition hours :: "int \<Rightarrow> duration" where
  "hours n = minutes (60 * n)"

definition orphan_grace_period :: duration where
  "orphan_grace_period = hours 1"

definition default_artifact_config :: artifact_config where
  "default_artifact_config = \<lparr>xc_session_max = 268435456, xc_instance_max = 1073741824,
     xc_total_max = 2147483648, xc_retention = hours 720\<rparr>"

definition validate_artifact_config :: "artifact_config \<Rightarrow> bool" where
  "validate_artifact_config c \<longleftrightarrow> \<not> (xc_session_max c < maximum_bytes \<or> xc_instance_max c < xc_session_max c
     \<or> xc_total_max c < xc_instance_max c \<or> xc_retention c < hours 1)"

section \<open>Manifests\<close>

definition valid_artifact_id :: "string \<Rightarrow> bool" where
  "valid_artifact_id s \<longleftrightarrow> has_prefix s ''artifact-'' \<and> length s = 41 \<and> list_all is_lower_hex (drop 9 s)"

definition valid_artifact_status :: "string \<Rightarrow> bool" where
  "valid_artifact_status s \<longleftrightarrow> s \<in> {ar_preparing, ar_ready, ar_rejected, ar_missing, ar_expired, ar_failed, ar_deleted}"

definition valid_artifact_kind :: "string \<Rightarrow> bool" where
  "valid_artifact_kind s \<longleftrightarrow> s \<in> {''file'', ''image'', ''audio'', ''video''}"

definition valid_identity_and_description :: "artifact_meta \<Rightarrow> bool" where
  "valid_identity_and_description m \<longleftrightarrow>
     observation_identity_pattern (am_session_id m) \<and> observation_identity_pattern (am_operation_id m)
     \<and> valid_artifact_id (am_id m)
     \<and> (am_instance_id m = '''' \<or> observation_identity_pattern (am_instance_id m))
     \<and> am_name m \<noteq> '''' \<and> length (am_name m) \<le> 80 \<and> valid_artifact_kind (am_kind m)
     \<and> length (am_media_type m) \<le> 127 \<and> length (am_error m) \<le> 200"

definition valid_put_metadata :: "artifact_meta \<Rightarrow> bool" where
  "valid_put_metadata m \<longleftrightarrow> valid_identity_and_description m
     \<and> observation_identity_pattern (am_instance_id m) \<and> 1 \<le> am_size m \<and> am_size m \<le> maximum_bytes
     \<and> sha256_pattern (am_sha256 m) \<and> am_media_type m \<noteq> ''''
     \<and> (am_status m = '''' \<or> am_status m = ar_preparing)"

definition valid_stored_metadata :: "artifact_meta \<Rightarrow> bool" where
  "valid_stored_metadata m \<longleftrightarrow> valid_identity_and_description m
     \<and> observation_identity_pattern (am_instance_id m) \<and> valid_artifact_status (am_status m)
     \<and> am_created_at m \<noteq> zero_time
     \<and> 0 \<le> am_size m \<and> am_size m \<le> maximum_bytes \<and> (am_size m > 0 \<longrightarrow> sha256_pattern (am_sha256 m))
     \<and> (am_sha256 m \<noteq> '''' \<longrightarrow> sha256_pattern (am_sha256 m))
     \<and> (am_status m = ar_ready \<longrightarrow> 1 \<le> am_size m \<and> am_sha256 m \<noteq> '''' \<and> am_media_type m \<noteq> '''')
     \<and> (am_status m \<in> {ar_rejected, ar_missing, ar_expired, ar_failed} \<longrightarrow> am_error m \<noteq> '''')"

text \<open>The manifest with its defaults, and whether they changed it.\<close>

definition defaulted :: "artifact_config \<Rightarrow> artifact_meta \<Rightarrow> artifact_meta" where
  "defaulted c m =
     (let m = (if am_status m = '''' then m\<lparr>am_status := ar_ready\<rparr> else m)
      in if am_expires_at m = None \<and> am_status m = ar_ready \<and> am_created_at m \<noteq> zero_time
         then m\<lparr>am_expires_at := Some (am_created_at m + xc_retention c)\<rparr> else m)"

definition read_metadata :: "artifact_config \<Rightarrow> artifact_meta option \<Rightarrow> (artifact_meta \<times> bool) option" where
  "read_metadata c file =
     (case file of
        None \<Rightarrow> None
      | Some raw \<Rightarrow>
          let m = defaulted c raw in if valid_stored_metadata m then Some (m, m \<noteq> raw) else None)"

definition compatible_metadata :: "artifact_meta \<Rightarrow> artifact_meta \<Rightarrow> bool" where
  "compatible_metadata l r \<longleftrightarrow>
     am_id l = am_id r \<and> am_instance_id l = am_instance_id r \<and> am_session_id l = am_session_id r
     \<and> am_operation_id l = am_operation_id r \<and> am_name l = am_name r \<and> am_kind l = am_kind r
     \<and> (am_media_type l = '''' \<or> am_media_type r = '''' \<or> am_media_type l = am_media_type r)
     \<and> (am_size l = 0 \<or> am_size r = 0 \<or> am_size l = am_size r)
     \<and> (am_sha256 l = '''' \<or> am_sha256 r = '''' \<or> am_sha256 l = am_sha256 r)"

definition valid_data_file :: "data_file option \<Rightarrow> int \<Rightarrow> bool" where
  "valid_data_file f n \<longleftrightarrow> (case f of None \<Rightarrow> False | Some f \<Rightarrow> int (length (df_bytes f)) = n)"

text \<open>A ready artifact that has expired or whose content is gone.\<close>

definition lapsed :: "timestamp \<Rightarrow> data_file option \<Rightarrow> artifact_meta \<Rightarrow> artifact_meta" where
  "lapsed now f m =
     (if am_status m \<noteq> ar_ready then m
      else if (case am_expires_at m of None \<Rightarrow> False | Some t \<Rightarrow> \<not> now < t)
      then m\<lparr>am_status := ar_expired, am_error := ''This output expired under the Fleet artifact retention policy.''\<rparr>
      else if \<not> valid_data_file f (am_size m)
      then m\<lparr>am_status := ar_missing, am_error := ''The stored output is missing or no longer matches its manifest.''\<rparr>
      else m)"

section \<open>Usage\<close>

definition no_usage :: artifact_usage where
  "no_usage = \<lparr>us_total = 0, us_sessions = (\<lambda>_. 0), us_instances = (\<lambda>_. 0)\<rparr>"

definition add_usage :: "artifact_meta \<Rightarrow> artifact_usage \<Rightarrow> artifact_usage" where
  "add_usage m u =
     \<lparr>us_total = us_total u + am_size m,
      us_sessions = (us_sessions u)(am_session_id m := us_sessions u (am_session_id m) + am_size m),
      us_instances = (us_instances u)(am_instance_id m := us_instances u (am_instance_id m) + am_size m)\<rparr>"

definition remove_usage :: "artifact_meta \<Rightarrow> artifact_usage \<Rightarrow> artifact_usage" where
  "remove_usage m u =
     \<lparr>us_total = max 0 (us_total u - am_size m),
      us_sessions = (us_sessions u)(am_session_id m := max 0 (us_sessions u (am_session_id m) - am_size m)),
      us_instances = (us_instances u)(am_instance_id m := max 0 (us_instances u (am_instance_id m) - am_size m))\<rparr>"

definition within_quota :: "artifact_config \<Rightarrow> artifact_usage \<Rightarrow> artifact_meta \<Rightarrow> bool" where
  "within_quota c u m \<longleftrightarrow> us_sessions u (am_session_id m) + am_size m \<le> xc_session_max c
     \<and> us_instances u (am_instance_id m) + am_size m \<le> xc_instance_max c
     \<and> us_total u + am_size m \<le> xc_total_max c"

section \<open>Reading one artifact\<close>

definition write_metadata :: "artifact_path \<Rightarrow> artifact_meta \<Rightarrow> artifact_store \<Rightarrow> artifact_store" where
  "write_metadata p m s = s\<lparr>as_files := (as_files s)\<lparr>af_manifests := AList.update p (Some m) (af_manifests (as_files s))\<rparr>\<rparr>"

definition remove_data :: "artifact_path \<Rightarrow> artifact_store \<Rightarrow> artifact_store" where
  "remove_data p s = s\<lparr>as_files := (as_files s)\<lparr>af_data := AList.delete p (af_data (as_files s))\<rparr>\<rparr>"

definition write_data :: "artifact_path \<Rightarrow> data_file \<Rightarrow> artifact_store \<Rightarrow> artifact_store" where
  "write_data p f s = s\<lparr>as_files := (as_files s)\<lparr>af_data := AList.update p f (af_data (as_files s))\<rparr>\<rparr>"

definition make_session :: "string \<Rightarrow> artifact_store \<Rightarrow> artifact_store" where
  "make_session i s = s\<lparr>as_files := (as_files s)\<lparr>af_sessions := List.insert i (af_sessions (as_files s))\<rparr>\<rparr>"

definition manifest_at :: "artifact_store \<Rightarrow> artifact_path \<Rightarrow> artifact_meta option option" where
  "manifest_at s p = map_of (af_manifests (as_files s)) p"

definition data_at :: "artifact_store \<Rightarrow> artifact_path \<Rightarrow> data_file option" where
  "data_at s p = map_of (af_data (as_files s)) p"

definition session_directory :: "string \<Rightarrow> artifact_store \<Rightarrow> bool" where
  "session_directory i s \<longleftrightarrow> observation_identity_pattern i \<and> i \<in> set (af_sessions (as_files s))"

text \<open>What \<open>getLocked\<close> does to a manifest it has read: content and usage go with the ready status.\<close>

definition settle_artifact ::
    "artifact_path \<Rightarrow> timestamp \<Rightarrow> artifact_meta \<Rightarrow> bool \<Rightarrow> artifact_store \<Rightarrow> artifact_meta \<times> artifact_store" where
  "settle_artifact p now m changed s =
     (let m' = lapsed now (data_at s p) m in
      if am_status m' \<noteq> am_status m
      then (m', write_metadata p m' (remove_data p (s\<lparr>as_usage := remove_usage m (as_usage s)\<rparr>)))
      else (m', if changed then write_metadata p m' s else s))"

definition get_locked ::
    "artifact_config \<Rightarrow> string \<Rightarrow> string \<Rightarrow> timestamp \<Rightarrow> artifact_store
      \<Rightarrow> (artifact_error + artifact_meta) \<times> artifact_store" where
  "get_locked c session i now s =
     (if \<not> session_directory session s \<or> \<not> valid_artifact_id i then (Inl ArtifactNotFound, s)
      else case manifest_at s (session, i) of
          None \<Rightarrow> (Inl ArtifactNotFound, s)
        | Some file \<Rightarrow>
      case read_metadata c file of
          None \<Rightarrow> (Inl (ArtifactOther ''chat artifact metadata is invalid''), s)
        | Some (m, changed) \<Rightarrow>
            if am_session_id m \<noteq> session \<or> am_id m \<noteq> i
            then (Inl (ArtifactOther ''chat artifact metadata is invalid''), s)
            else (let (m, s) = settle_artifact (session, i) now m changed s in (Inr m, s)))"

definition open_artifact ::
    "artifact_config \<Rightarrow> string \<Rightarrow> string \<Rightarrow> timestamp \<Rightarrow> artifact_store
      \<Rightarrow> (artifact_error + artifact_meta \<times> string) \<times> artifact_store" where
  "open_artifact c session i now s =
     (let (r, s) = get_locked c session i now s in
      (case r of
         Inl e \<Rightarrow> Inl e
       | Inr m \<Rightarrow>
           if am_status m = ar_expired then Inl ArtifactExpired
           else if am_status m = ar_missing then Inl ArtifactMissing
           else if am_status m \<noteq> ar_ready then Inl ArtifactNotFound
           else (case data_at s (session, i) of
               None \<Rightarrow> Inl ArtifactMissing
             | Some f \<Rightarrow>
                 if int (length (df_bytes f)) \<noteq> am_size m then Inl ArtifactMissing
                 else Inr (m, df_bytes f)), s))"

section \<open>Storing an artifact\<close>

text \<open>
  \<open>Put\<close>. \<open>body\<close> is what the source gives, \<open>None\<close> when reading it fails; the code reads one byte past
  the limit at most. \<open>lease_ok\<close> is the answer of \<open>verifyLease\<close>.
\<close>

definition stored_artifact :: "artifact_config \<Rightarrow> timestamp \<Rightarrow> artifact_meta option \<Rightarrow> artifact_meta \<Rightarrow> artifact_meta" where
  "stored_artifact c now existing m =
     (let created = (case existing of Some e \<Rightarrow> am_created_at e | None \<Rightarrow> am_created_at m);
          created = (if created = zero_time then now else created)
      in m\<lparr>am_created_at := created, am_expires_at := Some (created + xc_retention c),
           am_status := ar_ready, am_error := ''''\<rparr>)"

definition body_matches :: "artifact_meta \<Rightarrow> string \<Rightarrow> bool" where
  "body_matches m b \<longleftrightarrow> int (length b) = am_size m \<and> sha256_hex b = am_sha256 m"

definition store_artifact ::
    "artifact_config \<Rightarrow> timestamp \<Rightarrow> artifact_meta option \<Rightarrow> artifact_meta \<Rightarrow> string option \<Rightarrow> bool \<Rightarrow> artifact_store
      \<Rightarrow> (artifact_error + artifact_meta) \<times> artifact_store" where
  "store_artifact c now existing m body lease_ok s =
     (if \<not> within_quota c (as_usage s) m then (Inl ArtifactQuota, s)
      else
        let s = make_session (am_session_id m) s; p = (am_session_id m, am_id m) in
        case body of
          None \<Rightarrow> (Inl (ArtifactOther ''source''), s)
        | Some b \<Rightarrow>
            if int (length b) > maximum_bytes \<or> \<not> body_matches m b then (Inl ArtifactInvalid, s)
            else if \<not> lease_ok then (Inl ArtifactLease, s)
            else
              let m' = stored_artifact c now existing m;
                  s = write_metadata p m' (write_data p \<lparr>df_bytes = b, df_mtime = now\<rparr> s)
              in (Inr m', s\<lparr>as_usage := add_usage m' (as_usage s)\<rparr>))"

definition put_artifact ::
    "artifact_config \<Rightarrow> timestamp \<Rightarrow> artifact_meta \<Rightarrow> string option \<Rightarrow> bool \<Rightarrow> artifact_store
      \<Rightarrow> (artifact_error + artifact_meta) \<times> artifact_store" where
  "put_artifact c now m body lease_ok s =
     (if \<not> valid_put_metadata m then (Inl ArtifactInvalid, s)
      else
        let (r, s) = get_locked c (am_session_id m) (am_id m) now s in
        case r of
          Inl e \<Rightarrow> if e = ArtifactNotFound then store_artifact c now None m body lease_ok s else (Inl e, s)
        | Inr e \<Rightarrow>
            if compatible_metadata e m \<and> am_status e = ar_ready then (Inr e, s)
            else if \<not> compatible_metadata e m \<or> am_status e \<noteq> ar_preparing then (Inl ArtifactInvalid, s)
            else store_artifact c now (Some e) m body lease_ok s)"

text \<open>\<open>Record\<close>: the state of an output as the Host Agent reports it, without content.\<close>

definition reported_artifact :: "timestamp \<Rightarrow> artifact_meta \<Rightarrow> artifact_meta" where
  "reported_artifact now m =
     (let status = to_lower (trim_space (am_status m));
          status = (if status = '''' then ar_preparing else status);
          m = m\<lparr>am_status := status, am_created_at := (if am_created_at m = zero_time then now else am_created_at m)\<rparr>
      in if status = ar_ready
         then m\<lparr>am_status := ar_missing,
                am_error := ''The output was reported ready but its content was not stored by Fleet.''\<rparr>
         else m)"

definition merged_artifact :: "artifact_meta \<Rightarrow> artifact_meta \<Rightarrow> artifact_meta" where
  "merged_artifact e m = m\<lparr>am_created_at := am_created_at e,
     am_media_type := (if am_media_type m = '''' then am_media_type e else am_media_type m),
     am_size := (if am_size m = 0 then am_size e else am_size m),
     am_sha256 := (if am_sha256 m = '''' then am_sha256 e else am_sha256 m)\<rparr>"

definition record_artifact ::
    "artifact_config \<Rightarrow> timestamp \<Rightarrow> artifact_meta \<Rightarrow> artifact_store \<Rightarrow> (artifact_error + artifact_meta) \<times> artifact_store" where
  "record_artifact c now m s =
     (let m' = reported_artifact now m in
      if to_lower (trim_space (am_status m)) = ar_deleted \<or> \<not> valid_artifact_status (am_status m')
        \<or> \<not> valid_stored_metadata m'
      then (Inl ArtifactInvalid, s)
      else
        let p = (am_session_id m', am_id m');
            (r, s) = get_locked c (am_session_id m') (am_id m') now (make_session (am_session_id m') s) in
        case r of
          Inl e \<Rightarrow> if e = ArtifactNotFound then (Inr m', write_metadata p m' s) else (Inl e, s)
        | Inr e \<Rightarrow>
            if \<not> compatible_metadata e m' then (Inl ArtifactInvalid, s)
            else if am_status e = ar_deleted \<or> am_status e = ar_ready
               \<or> am_status m' = ar_preparing \<and> am_status e \<noteq> ar_preparing then (Inr e, s)
            else (Inr (merged_artifact e m'), write_metadata p (merged_artifact e m') s))"

section \<open>Reconciliation\<close>

record reconcile_report =
  xr_ready :: nat
  xr_expired :: nat
  xr_missing :: nat
  xr_failed :: nat
  xr_invalid :: nat
  xr_removed_orphans :: nat
  xr_removed_staging :: nat
  xr_total_bytes :: int

definition old_enough :: "timestamp \<Rightarrow> timestamp \<Rightarrow> bool" where
  "old_enough now mtime \<longleftrightarrow> \<not> mtime > now - orphan_grace_period"

text \<open>An upload that was announced an hour ago.\<close>

definition overdue :: "timestamp \<Rightarrow> artifact_meta \<Rightarrow> artifact_meta" where
  "overdue now m =
     (if am_status m = ar_preparing \<and> old_enough now (am_created_at m)
      then m\<lparr>am_status := ar_failed,
             am_error := ''The output upload did not complete before the Fleet staging deadline.''\<rparr>
      else m)"

text \<open>The entries the loop skips: other directories, and files whose name is not that of a manifest.\<close>

definition visited :: "artifact_path \<Rightarrow> bool" where
  "visited p \<longleftrightarrow> observation_identity_pattern (fst p) \<and> valid_artifact_id (snd p)"

text \<open>A manifest that is read and belongs to its path.\<close>

definition own_manifest :: "artifact_config \<Rightarrow> artifact_path \<Rightarrow> artifact_meta option \<Rightarrow> (artifact_meta \<times> bool) option" where
  "own_manifest c p file =
     (case read_metadata c file of
        None \<Rightarrow> None
      | Some (m, changed) \<Rightarrow>
          if visited p \<and> am_id m = snd p \<and> am_session_id m = fst p then Some (m, changed) else None)"

definition reconciled :: "artifact_store \<Rightarrow> timestamp \<Rightarrow> artifact_path \<Rightarrow> artifact_meta \<Rightarrow> artifact_meta" where
  "reconciled s now p m = lapsed now (data_at s p) (overdue now m)"

definition reconciled_file ::
    "artifact_config \<Rightarrow> timestamp \<Rightarrow> artifact_store \<Rightarrow> artifact_path \<Rightarrow> artifact_meta option \<Rightarrow> artifact_meta option" where
  "reconciled_file c now s p file =
     (case own_manifest c p file of
        None \<Rightarrow> file
      | Some (m, changed) \<Rightarrow>
          if changed \<or> reconciled s now p m \<noteq> m then Some (reconciled s now p m) else file)"

definition reconciled_usage ::
    "artifact_config \<Rightarrow> timestamp \<Rightarrow> artifact_store \<Rightarrow> artifact_path \<times> artifact_meta option \<Rightarrow> artifact_usage
      \<Rightarrow> artifact_usage" where
  "reconciled_usage c now s e u =
     (case own_manifest c (fst e) (snd e) of
        None \<Rightarrow> u
      | Some (m, _) \<Rightarrow>
          if am_status (reconciled s now (fst e) m) = ar_ready then add_usage (reconciled s now (fst e) m) u else u)"

text \<open>The content files that are removed: of a manifest that is not ready, and old ones of no manifest.\<close>

definition dropped_data :: "artifact_config \<Rightarrow> timestamp \<Rightarrow> artifact_store \<Rightarrow> artifact_path \<Rightarrow> data_file \<Rightarrow> bool" where
  "dropped_data c now s p f \<longleftrightarrow> observation_identity_pattern (fst p)
     \<and> (case (if valid_artifact_id (snd p) then manifest_at s p else None) of
          None \<Rightarrow> old_enough now (df_mtime f)
        | Some file \<Rightarrow> (case own_manifest c p file of
              None \<Rightarrow> False
            | Some (m, _) \<Rightarrow> am_status (reconciled s now p m) \<noteq> ar_ready))"

definition stale_stage :: "timestamp \<Rightarrow> string \<times> timestamp \<Rightarrow> bool" where
  "stale_stage now e \<longleftrightarrow> observation_identity_pattern (fst e) \<and> old_enough now (snd e)"

definition status_changes ::
    "artifact_config \<Rightarrow> timestamp \<Rightarrow> artifact_store \<Rightarrow> string \<Rightarrow> nat" where
  "status_changes c now s status = count_where (\<lambda>(p, file). case own_manifest c p file of
       None \<Rightarrow> False
     | Some (m, _) \<Rightarrow> am_status (reconciled s now p m) = status \<and> am_status m \<noteq> status) (af_manifests (as_files s))"

definition reconcile_artifacts ::
    "artifact_config \<Rightarrow> timestamp \<Rightarrow> artifact_store \<Rightarrow> reconcile_report \<times> artifact_store" where
  "reconcile_artifacts c now s =
     (let files = as_files s;
          usage = fold (reconciled_usage c now s) (af_manifests files) no_usage;
          orphan = (\<lambda>(p, f). dropped_data c now s p f
            \<and> (\<not> valid_artifact_id (snd p) \<or> manifest_at s p = None))
      in (\<lparr>xr_ready = count_where (\<lambda>(p, file). case own_manifest c p file of
               None \<Rightarrow> False
             | Some (m, _) \<Rightarrow> am_status (reconciled s now p m) = ar_ready) (af_manifests files),
           xr_expired = status_changes c now s ar_expired, xr_missing = status_changes c now s ar_missing,
           xr_failed = status_changes c now s ar_failed,
           xr_invalid = count_where (\<lambda>(p, file). observation_identity_pattern (fst p) \<and> own_manifest c p file = None)
             (af_manifests files),
           xr_removed_orphans = count_where orphan (af_data files),
           xr_removed_staging = count_where (stale_stage now) (af_stages files), xr_total_bytes = us_total usage\<rparr>,
          \<lparr>as_files = files
             \<lparr>af_manifests := map (\<lambda>(p, file). (p, reconciled_file c now s p file)) (af_manifests files),
              af_data := filter (\<lambda>(p, f). \<not> dropped_data c now s p f) (af_data files),
              af_stages := filter (\<lambda>e. \<not> stale_stage now e) (af_stages files)\<rparr>,
           as_usage = usage\<rparr>))"

definition new_artifact_store ::
    "artifact_config \<Rightarrow> timestamp \<Rightarrow> artifact_files \<Rightarrow> artifact_store option" where
  "new_artifact_store c now files =
     (if validate_artifact_config c then Some (snd (reconcile_artifacts c now \<lparr>as_files = files, as_usage = no_usage\<rparr>))
      else None)"

definition delete_session :: "artifact_config \<Rightarrow> timestamp \<Rightarrow> string \<Rightarrow> artifact_store \<Rightarrow> artifact_store" where
  "delete_session c now i s =
     (if \<not> session_directory i s then s
      else snd (reconcile_artifacts c now (s\<lparr>as_files := (as_files s)
        \<lparr>af_sessions := filter (\<lambda>j. j \<noteq> i) (af_sessions (as_files s)),
         af_manifests := filter (\<lambda>(p, _). fst p \<noteq> i) (af_manifests (as_files s)),
         af_data := filter (\<lambda>(p, _). fst p \<noteq> i) (af_data (as_files s)),
         af_stages := filter (\<lambda>(j, _). j \<noteq> i) (af_stages (as_files s))\<rparr>\<rparr>)))"

section \<open>The registry\<close>

definition all_metadata :: "artifact_config \<Rightarrow> artifact_store \<Rightarrow> artifact_meta list" where
  "all_metadata c s = List.map_filter (\<lambda>(p, file).
     case read_metadata c file of
       None \<Rightarrow> None
     | Some (m, _) \<Rightarrow>
         if observation_identity_pattern (fst p) \<and> am_session_id m = fst p \<and> am_id m = snd p then Some m else None)
     (af_manifests (as_files s))"

record artifact_cursor =
  ak_created_at :: timestamp
  ak_session_id :: string
  ak_id :: string

record list_options =
  lo_limit :: int
  lo_cursor :: "artifact_cursor option"
  lo_query :: string
  lo_instance_id :: string
  lo_session_id :: string
  lo_status :: string
  lo_kind :: string
  lo_created_after :: "timestamp option"

definition cursor_of :: "artifact_meta \<Rightarrow> artifact_cursor" where
  "cursor_of m = \<lparr>ak_created_at = am_created_at m, ak_session_id = am_session_id m, ak_id = am_id m\<rparr>"

definition list_options_ok :: "list_options \<Rightarrow> bool" where
  "list_options_ok q \<longleftrightarrow> 1 \<le> lo_limit q \<and> lo_limit q \<le> 100
     \<and> (lo_instance_id q = '''' \<or> observation_identity_pattern (lo_instance_id q))
     \<and> (lo_session_id q = '''' \<or> observation_identity_pattern (lo_session_id q))
     \<and> (lo_status q = '''' \<or> valid_artifact_status (lo_status q))
     \<and> (lo_kind q = '''' \<or> valid_artifact_kind (lo_kind q))"

definition option_match :: "string \<Rightarrow> string \<Rightarrow> bool" where
  "option_match wanted value \<longleftrightarrow> wanted = '''' \<or> value = wanted"

definition selected_artifact :: "list_options \<Rightarrow> artifact_meta \<Rightarrow> bool" where
  "selected_artifact q m \<longleftrightarrow>
     option_match (lo_instance_id q) (am_instance_id m) \<and> option_match (lo_session_id q) (am_session_id m)
     \<and> option_match (lo_status q) (am_status m) \<and> option_match (lo_kind q) (am_kind m)
     \<and> (case lo_created_after q of None \<Rightarrow> True | Some t \<Rightarrow> \<not> am_created_at m < t)
     \<and> (let text = to_lower (trim_space (lo_query q)) in
        text = '''' \<or> contains (to_lower (join '' '' [am_name m, am_media_type m, am_id m, am_operation_id m, am_error m])) text)"

text \<open>Newest first.\<close>

definition artifact_order :: "artifact_meta list \<Rightarrow> artifact_meta list" where
  "artifact_order ms = rev (sort_key am_created_at (sort_key am_session_id (sort_key am_id ms)))"

fun after_cursor :: "artifact_cursor \<Rightarrow> artifact_meta list \<Rightarrow> artifact_meta list option" where
  "after_cursor k [] = None"
| "after_cursor k (m # ms) = (if cursor_of m = k then Some ms else after_cursor k ms)"

definition list_artifacts ::
    "artifact_config \<Rightarrow> timestamp \<Rightarrow> list_options \<Rightarrow> artifact_store
      \<Rightarrow> (artifact_error + artifact_meta list \<times> artifact_cursor option) \<times> artifact_store" where
  "list_artifacts c now q s =
     (if \<not> list_options_ok q then (Inl ArtifactInvalid, s)
      else
        let s = snd (reconcile_artifacts c now s);
            ms = artifact_order (filter (selected_artifact q) (all_metadata c s)) in
        (case (case lo_cursor q of None \<Rightarrow> Some ms | Some k \<Rightarrow> after_cursor k ms) of
           None \<Rightarrow> Inl ArtifactInvalid
         | Some rest \<Rightarrow>
             let items = take (nat (lo_limit q)) rest
             in Inr (items, if length items < length rest \<and> items \<noteq> [] then Some (cursor_of (last items)) else None), s))"

record usage_snapshot =
  un_total_bytes :: int
  un_total_max :: int
  un_session_max :: int
  un_instance_max :: int
  un_retention_hours :: int
  un_status_count :: "string \<Rightarrow> nat"
  un_instances :: "string \<Rightarrow> int"
  un_sessions :: "string \<Rightarrow> int"

definition artifact_usage_snapshot ::
    "artifact_config \<Rightarrow> timestamp \<Rightarrow> artifact_store \<Rightarrow> usage_snapshot \<times> artifact_store" where
  "artifact_usage_snapshot c now s =
     (let s = snd (reconcile_artifacts c now s)
      in (\<lparr>un_total_bytes = us_total (as_usage s), un_total_max = xc_total_max c, un_session_max = xc_session_max c,
           un_instance_max = xc_instance_max c, un_retention_hours = xc_retention c div hours 1,
           un_status_count = (\<lambda>st. count_where (\<lambda>m. am_status m = st) (all_metadata c s)),
           un_instances = us_instances (as_usage s), un_sessions = us_sessions (as_usage s)\<rparr>, s))"

definition delete_artifact ::
    "artifact_config \<Rightarrow> timestamp \<Rightarrow> string \<Rightarrow> artifact_store \<Rightarrow> (artifact_error + artifact_meta) \<times> artifact_store" where
  "delete_artifact c now i s =
     (if \<not> valid_artifact_id i then (Inl ArtifactNotFound, s)
      else
        let s = snd (reconcile_artifacts c now s) in
        case filter (\<lambda>m. am_id m = i) (all_metadata c s) of
          [] \<Rightarrow> (Inl ArtifactNotFound, s)
        | m # [] \<Rightarrow>
            if am_status m = ar_deleted then (Inr m, s)
            else
              let p = (am_session_id m, am_id m);
                  s = (if am_status m = ar_ready then s\<lparr>as_usage := remove_usage m (as_usage s)\<rparr> else s);
                  m' = m\<lparr>am_status := ar_deleted, am_error := '''', am_deleted_at := Some now\<rparr>
              in (Inr m', write_metadata p m' (remove_data p s))
        | _ \<Rightarrow> (Inl (ArtifactOther ''chat artifact identity is ambiguous''), s))"

end
