(* ===== verification/Properties_Artifacts.thy ===== *)
theory Properties_Artifacts
  imports Chat_Artifacts
begin

text \<open>
  What the storage of chat outputs keeps over every run of its operations, restarts, interrupted
  uploads and lost content files: the usage in memory is that of the manifests, the quotas hold, and an
  output that can be opened is the one that was uploaded.
\<close>

section \<open>Bytes in store\<close>

definition weight :: "artifact_config \<Rightarrow> (artifact_meta \<Rightarrow> bool) \<Rightarrow> artifact_path \<Rightarrow> artifact_meta option \<Rightarrow> int" where
  "weight c P p file =
     (case own_manifest c p file of
        None \<Rightarrow> 0
      | Some (m, _) \<Rightarrow> if am_status m = ar_ready \<and> P m then am_size m else 0)"

text \<open>The bytes that the manifests with property \<open>P\<close> hold ready.\<close>

definition stored_bytes :: "artifact_config \<Rightarrow> (artifact_meta \<Rightarrow> bool) \<Rightarrow> artifact_store \<Rightarrow> int" where
  "stored_bytes c P s = sum_list (map (\<lambda>(p, file). weight c P p file) (af_manifests (as_files s)))"

definition bytes_at :: "artifact_config \<Rightarrow> (artifact_meta \<Rightarrow> bool) \<Rightarrow> artifact_store \<Rightarrow> artifact_path \<Rightarrow> int" where
  "bytes_at c P s p = (case manifest_at s p of None \<Rightarrow> 0 | Some file \<Rightarrow> weight c P p file)"

definition keys_ok :: "artifact_store \<Rightarrow> bool" where
  "keys_ok s \<longleftrightarrow> distinct (map fst (af_manifests (as_files s))) \<and> distinct (map fst (af_data (as_files s)))
     \<and> (\<forall>p \<in> fst ` set (af_manifests (as_files s)). fst p \<in> set (af_sessions (as_files s)))"

lemma valid_stored_read: "read_metadata c file = Some (m, b) \<Longrightarrow> valid_stored_metadata m"
  by (auto simp: read_metadata_def Let_def split: option.splits if_splits)

lemma own_manifest_SomeD:
  assumes "own_manifest c p file = Some (m, b)"
  shows "valid_stored_metadata m" "am_id m = snd p" "am_session_id m = fst p" "visited p"
    "read_metadata c file = Some (m, b)"
  using assms valid_stored_read by (auto simp: own_manifest_def split: option.splits if_splits)

lemma weight_nonneg: "0 \<le> weight c P p file"
  by (auto simp: weight_def valid_stored_metadata_def dest: own_manifest_SomeD(1) split: option.splits)

lemma sum_list_nonneg': "(\<And>x. x \<in> set xs \<Longrightarrow> 0 \<le> f x) \<Longrightarrow> 0 \<le> sum_list (map f xs)" for f :: "'a \<Rightarrow> int"
  by (induction xs) auto

lemma sum_update:
  fixes w :: "'k \<Rightarrow> 'v \<Rightarrow> int"
  assumes "distinct (map fst xs)"
  shows "sum_list (map (\<lambda>(k, v). w k v) (AList.update k v xs))
    = sum_list (map (\<lambda>(k, v). w k v) xs) - (case map_of xs k of None \<Rightarrow> 0 | Some o' \<Rightarrow> w k o') + w k v"
  using assms
proof (induction xs)
  case (Cons x xs)
  obtain k' v' where x: "x = (k', v')" by (cases x)
  have "map_of xs k = None" if "k' = k" using Cons.prems that x by (auto simp: map_of_eq_None_iff)
  then show ?case using Cons x by auto
qed simp

lemma stored_bytes_write:
  "keys_ok s \<Longrightarrow> stored_bytes c P (write_metadata p m s) = stored_bytes c P s - bytes_at c P s p + weight c P p (Some m)"
  by (simp add: stored_bytes_def write_metadata_def keys_ok_def sum_update bytes_at_def manifest_at_def)

definition has_session :: "artifact_store \<Rightarrow> artifact_path \<Rightarrow> bool" where
  "has_session s p \<longleftrightarrow> fst p \<in> set (af_sessions (as_files s))"

lemma keys_write: "keys_ok s \<Longrightarrow> has_session s p \<Longrightarrow> keys_ok (write_metadata p m s)"
  by (auto simp: keys_ok_def has_session_def write_metadata_def distinct_update dom_update)

lemma present_session: "keys_ok s \<Longrightarrow> manifest_at s p = Some x \<Longrightarrow> has_session s p"
  by (force simp: keys_ok_def has_session_def manifest_at_def dest: map_of_SomeD)

lemma has_session_sel [simp]:
  "has_session (write_metadata q m s) p = has_session s p" "has_session (write_data q f s) p = has_session s p"
  "has_session (remove_data q s) p = has_session s p" "has_session (s\<lparr>as_usage := u\<rparr>) p = has_session s p"
  "has_session (make_session i s) p \<longleftrightarrow> fst p = i \<or> has_session s p"
  by (simp_all add: has_session_def write_metadata_def write_data_def remove_data_def make_session_def)

lemma stored_bytes_frame:
  "af_manifests (as_files s') = af_manifests (as_files s) \<Longrightarrow> stored_bytes c P s' = stored_bytes c P s"
  by (simp add: stored_bytes_def)

lemma bytes_at_le: "bytes_at c P s p \<le> stored_bytes c P s"
proof (cases "manifest_at s p")
  case None
  then show ?thesis using sum_list_nonneg'[of "af_manifests (as_files s)" "\<lambda>(p, file). weight c P p file"] weight_nonneg
    by (auto simp: bytes_at_def stored_bytes_def)
next
  case (Some x)
  then have m: "(p, x) \<in> set (af_manifests (as_files s))" by (auto simp: manifest_at_def dest: map_of_SomeD)
  have "weight c P p x \<le> sum_list (map (\<lambda>(p, file). weight c P p file) xs)" if "(p, x) \<in> set xs" for xs
    using that
  proof (induction xs)
    case (Cons y xs)
    have "0 \<le> sum_list (map (\<lambda>(p, file). weight c P p file) xs)"
      by (rule sum_list_nonneg') (auto simp: weight_nonneg)
    then show ?case using Cons weight_nonneg[of c P "fst y" "snd y"] by (cases y) auto
  qed simp
  then show ?thesis using m Some by (simp add: bytes_at_def stored_bytes_def)
qed

section \<open>Gauges\<close>

text \<open>A counter of the usage, the manifests it counts and its limit.\<close>

definition gauge ::
    "artifact_config \<Rightarrow> (artifact_usage \<Rightarrow> int) \<Rightarrow> (artifact_meta \<Rightarrow> bool) \<Rightarrow> int \<Rightarrow> bool" where
  "gauge c g P n \<longleftrightarrow> g = us_total \<and> P = (\<lambda>_. True) \<and> n = xc_total_max c
     \<or> (\<exists>i. g = (\<lambda>u. us_sessions u i) \<and> P = (\<lambda>m. am_session_id m = i) \<and> n = xc_session_max c)
     \<or> (\<exists>i. g = (\<lambda>u. us_instances u i) \<and> P = (\<lambda>m. am_instance_id m = i) \<and> n = xc_instance_max c)"

lemma gauges:
  "gauge c us_total (\<lambda>_. True) (xc_total_max c)"
  "gauge c (\<lambda>u. us_sessions u i) (\<lambda>m. am_session_id m = i) (xc_session_max c)"
  "gauge c (\<lambda>u. us_instances u i) (\<lambda>m. am_instance_id m = i) (xc_instance_max c)"
  unfolding gauge_def by blast+

lemma gauge_add:
  "gauge c g P n \<Longrightarrow> g (add_usage m u) = g u + (if P m then am_size m else 0)"
  by (auto simp: gauge_def add_usage_def)

lemma gauge_remove: "gauge c g P n \<Longrightarrow> g (remove_usage m u) = (if P m then max 0 (g u - am_size m) else g u)"
  by (auto simp: gauge_def remove_usage_def)

lemma gauge_none: "gauge c g P n \<Longrightarrow> g no_usage = 0"
  by (auto simp: gauge_def no_usage_def)

lemma gauge_quota: "gauge c g P n \<Longrightarrow> within_quota c u m \<Longrightarrow> P m \<Longrightarrow> g u + am_size m \<le> n"
  by (auto simp: gauge_def within_quota_def)

lemma gauge_same: "gauge c g P n \<Longrightarrow> am_session_id m' = am_session_id m \<Longrightarrow> am_instance_id m' = am_instance_id m \<Longrightarrow> P m' = P m"
  by (auto simp: gauge_def)

section \<open>The invariant\<close>

text \<open>The content of a ready manifest, where it is there, is what the manifest says.\<close>

definition whole :: "artifact_config \<Rightarrow> artifact_store \<Rightarrow> bool" where
  "whole c s \<longleftrightarrow> (\<forall>p file m b f. manifest_at s p = Some file \<and> own_manifest c p file = Some (m, b)
     \<and> am_status m = ar_ready \<and> data_at s p = Some f \<and> int (length (df_bytes f)) = am_size m
     \<longrightarrow> body_matches m (df_bytes f))"

definition artifacts_ok :: "artifact_config \<Rightarrow> artifact_store \<Rightarrow> bool" where
  "artifacts_ok c s \<longleftrightarrow> keys_ok s \<and> whole c s \<and> (\<forall>g P n. gauge c g P n \<longrightarrow>
     g (as_usage s) = stored_bytes c P s \<and> g (as_usage s) \<le> n)"

lemma defaulted_idem [simp]: "defaulted c (defaulted c m) = defaulted c m"
  by (simp add: defaulted_def Let_def)

lemma own_settled:
  assumes "own_manifest c p file = Some (m, b)"
  shows "own_manifest c p (Some m) = Some (m, False)"
  using assms
  by (auto simp: own_manifest_def read_metadata_def Let_def split: option.splits if_splits)

lemma unready_weight:
  assumes "am_status m \<noteq> ar_ready" "am_status m \<noteq> ''''"
  shows "weight c P p (Some m) = 0"
  using assms by (auto simp: weight_def own_manifest_def read_metadata_def defaulted_def Let_def split: option.splits if_splits)

lemma unready_own:
  assumes "am_status m \<noteq> ar_ready" "am_status m \<noteq> ''''" "own_manifest c p (Some m) = Some (m', b)"
  shows "am_status m' \<noteq> ar_ready"
  using assms by (auto simp: own_manifest_def read_metadata_def defaulted_def Let_def split: option.splits if_splits)

section \<open>Single steps\<close>

definition accounts :: "artifact_config \<Rightarrow> artifact_store \<Rightarrow> bool" where
  "accounts c s \<longleftrightarrow> keys_ok s \<and> (\<forall>g P n. gauge c g P n \<longrightarrow> g (as_usage s) = stored_bytes c P s \<and> g (as_usage s) \<le> n)"

lemma artifacts_ok_split: "artifacts_ok c s \<longleftrightarrow> accounts c s \<and> whole c s"
  by (auto simp: artifacts_ok_def accounts_def)

lemma store_sel [simp]:
  "data_at (write_metadata p m s) = data_at s" "as_usage (write_metadata p m s) = as_usage s"
  "manifest_at (write_metadata p m s) = (manifest_at s)(p \<mapsto> Some m)"
  "manifest_at (remove_data p s) = manifest_at s" "as_usage (remove_data p s) = as_usage s"
  "data_at (remove_data p s) = (data_at s)(p := None)"
  "manifest_at (write_data p f s) = manifest_at s" "as_usage (write_data p f s) = as_usage s"
  "data_at (write_data p f s) = (data_at s)(p \<mapsto> f)"
  "manifest_at (make_session i s) = manifest_at s" "as_usage (make_session i s) = as_usage s"
  "data_at (make_session i s) = data_at s"
  "manifest_at (s\<lparr>as_usage := u\<rparr>) = manifest_at s" "data_at (s\<lparr>as_usage := u\<rparr>) = data_at s"
  by (auto simp: data_at_def manifest_at_def write_metadata_def remove_data_def write_data_def make_session_def
      update_conv' delete_conv' fun_eq_iff)

lemma write_remove: "write_metadata p m (remove_data q s) = remove_data q (write_metadata p m s)"
  by (rule artifact_store.equality) (simp_all add: write_metadata_def remove_data_def)

lemma stored_bytes_sel [simp]:
  "stored_bytes c P (remove_data p s) = stored_bytes c P s" "stored_bytes c P (write_data p f s) = stored_bytes c P s"
  "stored_bytes c P (make_session i s) = stored_bytes c P s" "stored_bytes c P (s\<lparr>as_usage := u\<rparr>) = stored_bytes c P s"
  by (simp_all add: stored_bytes_def remove_data_def write_data_def make_session_def)

lemma keys_ok_sel [simp]:
  "keys_ok s \<Longrightarrow> keys_ok (remove_data p s)" "keys_ok s \<Longrightarrow> keys_ok (write_data p f s)"
  "keys_ok (s\<lparr>as_usage := u\<rparr>) = keys_ok s"
  by (simp_all add: keys_ok_def remove_data_def write_data_def distinct_update distinct_delete)

lemma keys_make: "keys_ok s \<Longrightarrow> keys_ok (make_session i s)"
  by (simp add: keys_ok_def make_session_def)

lemma accounts_same:
  "accounts c s \<Longrightarrow> accounts c (remove_data p s)" "accounts c s \<Longrightarrow> accounts c (write_data p f s)"
  "accounts c s \<Longrightarrow> accounts c (make_session i s)"
  by (simp_all add: accounts_def keys_make)

lemma accounts_write:
  assumes "accounts c s" "has_session s p"
    and "\<And>g P n. gauge c g P n \<Longrightarrow> g u = g (as_usage s) - bytes_at c P s p + weight c P p (Some m) \<and> g u \<le> n"
  shows "accounts c (write_metadata p m (s\<lparr>as_usage := u\<rparr>))"
proof -
  have k: "keys_ok s" using assms(1) by (simp add: accounts_def)
  have "bytes_at c P (s\<lparr>as_usage := u\<rparr>) p = bytes_at c P s p" for P by (simp add: bytes_at_def)
  then show ?thesis
    using assms k keys_write[of "s\<lparr>as_usage := u\<rparr>" p m] by (auto simp: accounts_def stored_bytes_write keys_write)
qed

lemma accounts_unready:
  assumes "accounts c s" "has_session s p" "\<And>P. bytes_at c P s p = 0" "am_status m \<noteq> ar_ready" "am_status m \<noteq> ''''"
  shows "accounts c (write_metadata p m s)"
proof -
  have "accounts c (write_metadata p m (s\<lparr>as_usage := as_usage s\<rparr>))"
    using assms by (intro accounts_write) (auto simp: unready_weight accounts_def)
  then show ?thesis by simp
qed

lemma whole_sel:
  "whole c s \<Longrightarrow> whole c (remove_data p s)" "whole c (s\<lparr>as_usage := u\<rparr>) = whole c s" "whole c (make_session i s) = whole c s"
  by (auto simp: whole_def)

lemma whole_write:
  assumes "whole c s"
    and "\<And>m' b f. own_manifest c p (Some m) = Some (m', b) \<Longrightarrow> am_status m' = ar_ready \<Longrightarrow> data_at s p = Some f
      \<Longrightarrow> int (length (df_bytes f)) = am_size m' \<Longrightarrow> body_matches m' (df_bytes f)"
  shows "whole c (write_metadata p m s)"
  using assms by (auto simp: whole_def)

lemma whole_unready:
  "whole c s \<Longrightarrow> am_status m \<noteq> ar_ready \<Longrightarrow> am_status m \<noteq> '''' \<Longrightarrow> whole c (write_metadata p m s)"
  by (rule whole_write) (auto dest: unready_own)

definition no_content :: "artifact_config \<Rightarrow> artifact_store \<Rightarrow> artifact_path \<Rightarrow> bool" where
  "no_content c s p \<longleftrightarrow> (\<forall>file m b. manifest_at s p = Some file \<and> own_manifest c p file = Some (m, b) \<longrightarrow> am_status m \<noteq> ar_ready)"

lemma no_content_bytes: "no_content c s p \<Longrightarrow> bytes_at c P s p = 0"
  by (auto simp: no_content_def bytes_at_def weight_def split: option.splits)

lemma whole_data: "whole c s \<Longrightarrow> no_content c s p \<Longrightarrow> whole c (write_data p f s)"
  by (auto simp: whole_def no_content_def)

lemma lapsed_fields [simp]:
  "am_session_id (lapsed now f m) = am_session_id m" "am_id (lapsed now f m) = am_id m"
  "am_instance_id (lapsed now f m) = am_instance_id m" "am_size (lapsed now f m) = am_size m"
  by (simp_all add: lapsed_def)

lemma lapsed_valid: "valid_stored_metadata m \<Longrightarrow> valid_stored_metadata (lapsed now f m)"
  by (auto simp: lapsed_def valid_stored_metadata_def valid_identity_and_description_def valid_artifact_status_def)

lemma lapsed_cases:
  "lapsed now f m = m \<and> (am_status m = ar_ready \<longrightarrow> valid_data_file f (am_size m)
      \<and> (case am_expires_at m of None \<Rightarrow> True | Some t \<Rightarrow> now < t))
   \<or> am_status m = ar_ready \<and> (am_status (lapsed now f m) = ar_expired \<or> am_status (lapsed now f m) = ar_missing)"
  by (auto simp: lapsed_def split: option.splits)

lemma own_unready:
  assumes "valid_stored_metadata m" "am_status m \<noteq> ar_ready" "visited p" "am_id m = snd p" "am_session_id m = fst p"
  shows "own_manifest c p (Some m) = Some (m, False)"
proof -
  have "am_status m \<noteq> ''''" using assms(1) by (auto simp: valid_stored_metadata_def valid_artifact_status_def)
  then show ?thesis using assms by (simp add: own_manifest_def read_metadata_def defaulted_def Let_def)
qed

lemma settle_ok:
  assumes "settle_artifact p now m b s = (m', s')" "artifacts_ok c s"
    and "manifest_at s p = Some file" "own_manifest c p file = Some (m, b)"
  shows "artifacts_ok c s' \<and> (\<exists>file' b'. manifest_at s' p = Some file' \<and> own_manifest c p file' = Some (m', b'))
     \<and> (am_status m' = ar_ready \<longrightarrow> m' = m \<and> data_at s' = data_at s \<and> valid_data_file (data_at s p) (am_size m)
          \<and> (case am_expires_at m of None \<Rightarrow> True | Some t \<Rightarrow> now < t))"
proof -
  note own = own_manifest_SomeD[OF assms(4)]
  have acc: "accounts c s" "whole c s" using assms(2) by (simp_all add: artifacts_ok_split)
  have dir: "has_session s p" using acc(1) assms(3) by (auto simp: accounts_def intro: present_session)
  have bytes: "bytes_at c P s p = (if am_status m = ar_ready \<and> P m then am_size m else 0)" for P
    using assms(3,4) by (simp add: bytes_at_def weight_def)
  show ?thesis
  proof (cases "lapsed now (data_at s p) m = m")
    case True
    have w: "weight c P p (Some m) = bytes_at c P s p" for P
      unfolding bytes using own_settled[OF assms(4)] by (simp add: weight_def)
    have "accounts c (write_metadata p m (s\<lparr>as_usage := as_usage s\<rparr>))"
      using acc(1) w dir by (intro accounts_write) (auto simp: accounts_def)
    then have "accounts c (write_metadata p m s)" by simp
    moreover have "whole c (write_metadata p m s)"
    proof (rule whole_write[OF acc(2)])
      fix m' b' f
      assume "own_manifest c p (Some m) = Some (m', b')" "am_status m' = ar_ready" "data_at s p = Some f"
        "int (length (df_bytes f)) = am_size m'"
      then show "body_matches m' (df_bytes f)"
        using acc(2)[unfolded whole_def, rule_format, of p "file" m b f] assms(3,4) own_settled[OF assms(4)] by simp
    qed
    ultimately have "artifacts_ok c s'" "m' = m" "data_at s' = data_at s"
      using assms(1,2) True by (auto simp: settle_artifact_def artifacts_ok_split Let_def)
    moreover have "\<exists>file' b'. manifest_at s' p = Some file' \<and> own_manifest c p file' = Some (m, b')"
      using assms(1,3,4) True own_settled[OF assms(4)] by (auto simp: settle_artifact_def Let_def split: if_splits)
    ultimately show ?thesis using lapsed_cases[of now "data_at s p" m] True by auto
  next
    case False
    let ?m = "lapsed now (data_at s p) m"
    have st: "am_status m = ar_ready" "am_status ?m = ar_expired \<or> am_status ?m = ar_missing"
      using lapsed_cases[of now "data_at s p" m] False by auto
    then have un: "am_status ?m \<noteq> ar_ready" "am_status ?m \<noteq> ''''" by auto
    let ?u = "remove_usage m (as_usage s)"
    have g: "g ?u = g (as_usage s) - bytes_at c P s p + weight c P p (Some ?m) \<and> g ?u \<le> n" if "gauge c g P n" for g P n
    proof -
      have "g (as_usage s) = stored_bytes c P s" "g (as_usage s) \<le> n" using acc(1) that by (auto simp: accounts_def)
      then show ?thesis
        using gauge_remove[OF that, of m "as_usage s"] bytes_at_le[of c P s p] bytes[of P] st(1) weight_nonneg[of c P p "file"]
          assms(3) by (auto simp: unready_weight[OF un] bytes_at_def)
    qed
    have s': "s' = write_metadata p ?m (remove_data p (s\<lparr>as_usage := ?u\<rparr>))" "m' = ?m"
      using assms(1) st by (auto simp: settle_artifact_def Let_def)
    have "accounts c (write_metadata p ?m (s\<lparr>as_usage := ?u\<rparr>))" using g by (intro accounts_write[OF acc(1) dir]) blast
    then have "accounts c (remove_data p (write_metadata p ?m (s\<lparr>as_usage := ?u\<rparr>)))" by (rule accounts_same)
    then have "accounts c s'" unfolding s' write_remove .
    moreover have "whole c s'" unfolding s' by (intro whole_unready un whole_sel) (simp add: whole_sel acc)
    moreover have "own_manifest c p (Some ?m) = Some (?m, False)"
      using own un(1) by (intro own_unready lapsed_valid) simp_all
    ultimately show ?thesis using s' un by (auto simp: artifacts_ok_split)
  qed
qed

section \<open>Operations\<close>

lemma own_at:
  assumes "session_directory i s" "valid_artifact_id a" "read_metadata c file = Some (m, b)" "am_session_id m = i" "am_id m = a"
  shows "own_manifest c (i, a) file = Some (m, b)"
  using assms by (simp add: own_manifest_def visited_def session_directory_def)

lemma get_locked_ok:
  assumes "get_locked c i a now s = (r, s')" "artifacts_ok c s"
  shows "artifacts_ok c s'"
    and "r = Inr m \<Longrightarrow> visited (i, a) \<and> (\<exists>file b. manifest_at s' (i, a) = Some file \<and> own_manifest c (i, a) file = Some (m, b))"
    and "r = Inr m \<Longrightarrow> am_status m = ar_ready \<Longrightarrow> valid_data_file (data_at s' (i, a)) (am_size m)
      \<and> (case am_expires_at m of None \<Rightarrow> True | Some t \<Rightarrow> now < t)"
    and "r = Inl ArtifactNotFound \<Longrightarrow> observation_identity_pattern i \<Longrightarrow> valid_artifact_id a
      \<Longrightarrow> s' = s \<and> (i \<in> set (af_sessions (as_files s)) \<longrightarrow> manifest_at s (i, a) = None)"
proof -
  consider "r = Inl ArtifactNotFound" "s' = s" "\<not> session_directory i s \<or> \<not> valid_artifact_id a \<or> manifest_at s (i, a) = None"
    | e where "r = Inl e" "e \<noteq> ArtifactNotFound" "s' = s"
    | x m b m' where "session_directory i s" "valid_artifact_id a" "manifest_at s (i, a) = Some x"
      "own_manifest c (i, a) x = Some (m, b)" "settle_artifact (i, a) now m b s = (m', s')" "r = Inr m'"
    using assms(1) own_at[of i s a c]
    by (auto simp: get_locked_def split: if_splits option.splits prod.splits)
  note cs = this
  show "artifacts_ok c s'" using assms(2) by (cases rule: cs) (auto dest: settle_ok)
  show "visited (i, a) \<and> (\<exists>file b. manifest_at s' (i, a) = Some file \<and> own_manifest c (i, a) file = Some (m, b))"
    if "r = Inr m"
    using that assms(2) by (cases rule: cs) (auto dest!: settle_ok simp: visited_def session_directory_def)
  show "valid_data_file (data_at s' (i, a)) (am_size m) \<and> (case am_expires_at m of None \<Rightarrow> True | Some t \<Rightarrow> now < t)"
    if "r = Inr m" "am_status m = ar_ready"
    using that assms(2) by (cases rule: cs) (auto dest!: settle_ok)
  show "s' = s \<and> (i \<in> set (af_sessions (as_files s)) \<longrightarrow> manifest_at s (i, a) = None)"
    if "r = Inl ArtifactNotFound" "observation_identity_pattern i" "valid_artifact_id a"
    using that assms(2) by (cases rule: cs) (auto simp: session_directory_def)
qed

lemma open_artifact_store: "snd (open_artifact c i a now s) = snd (get_locked c i a now s)"
  by (simp add: open_artifact_def split: prod.splits)

lemma artifacts_ok_frame:
  "artifacts_ok c s \<Longrightarrow> artifacts_ok c (make_session i s)" "artifacts_ok c s \<Longrightarrow> artifacts_ok c (remove_data p s)"
  by (simp_all add: artifacts_ok_split whole_sel accounts_same)

lemma put_fields: "valid_put_metadata m \<Longrightarrow> visited (am_session_id m, am_id m)"
  by (simp add: valid_put_metadata_def valid_identity_and_description_def visited_def)

text \<open>A manifest without content can be given content.\<close>

lemma stored_own:
  assumes "valid_put_metadata m" "m' = stored_artifact c now ex m"
    and "\<And>e. ex = Some e \<Longrightarrow> am_created_at e \<noteq> zero_time" "now \<noteq> zero_time"
  shows "own_manifest c (am_session_id m, am_id m) (Some m') = Some (m', False)"
proof -
  let ?z = "am_created_at m'"
  have f: "am_status m' = ar_ready" "am_error m' = ''''" "am_expires_at m' \<noteq> None" "?z \<noteq> zero_time"
    "am_session_id m' = am_session_id m" "am_id m' = am_id m" "am_operation_id m' = am_operation_id m"
    "am_instance_id m' = am_instance_id m" "am_name m' = am_name m" "am_kind m' = am_kind m" "am_size m' = am_size m"
    "am_media_type m' = am_media_type m" "am_sha256 m' = am_sha256 m"
    using assms(2-4) by (auto simp: stored_artifact_def Let_def split: option.splits)
  have "\<not> sha256_pattern ''''" by (simp add: sha256_pattern_def)
  then have "valid_stored_metadata m'"
    using assms(1) f
    by (auto simp: valid_stored_metadata_def valid_put_metadata_def valid_identity_and_description_def valid_artifact_status_def)
  moreover have "defaulted c m' = m'" using f by (simp add: defaulted_def)
  ultimately show ?thesis using f put_fields[OF assms(1)] by (simp add: own_manifest_def read_metadata_def)
qed

lemma store_artifact_ok:
  assumes "store_artifact c now ex m body lease_ok s = (r, s')" "artifacts_ok c s" "valid_put_metadata m"
    and "no_content c s (am_session_id m, am_id m)"
    and "\<And>e. ex = Some e \<Longrightarrow> am_created_at e \<noteq> zero_time" "now \<noteq> zero_time"
  shows "artifacts_ok c s' \<and> (\<forall>m'. r = Inr m' \<longrightarrow> (\<exists>b f. body = Some b \<and> body_matches m b \<and> m' = stored_artifact c now ex m
     \<and> session_directory (am_session_id m) s' \<and> manifest_at s' (am_session_id m, am_id m) = Some (Some m')
     \<and> data_at s' (am_session_id m, am_id m) = Some f \<and> df_bytes f = b))"
proof -
  let ?p = "(am_session_id m, am_id m)" and ?m = "stored_artifact c now ex m"
  consider "s' = s \<or> s' = make_session (am_session_id m) s" "\<forall>m'. r \<noteq> Inr m'"
    | b where "body = Some b" "body_matches m b" "within_quota c (as_usage s) m" "r = Inr ?m"
      "s' = write_metadata ?p ?m (write_data ?p \<lparr>df_bytes = b, df_mtime = now\<rparr> (make_session (am_session_id m) s))
         \<lparr>as_usage := add_usage ?m (as_usage s)\<rparr>"
    using assms(1) by (auto simp: store_artifact_def Let_def split: if_splits option.splits)
  then show ?thesis
  proof cases
    case 1
    then show ?thesis using assms(2) by (auto simp: artifacts_ok_frame)
  next
    case (2 b)
    let ?s = "write_data ?p \<lparr>df_bytes = b, df_mtime = now\<rparr> (make_session (am_session_id m) s)"
    let ?u = "add_usage ?m (as_usage s)"
    have own: "own_manifest c ?p (Some ?m) = Some (?m, False)" by (rule stored_own[OF assms(3) refl assms(5,6)])
    have f: "am_session_id ?m = am_session_id m" "am_instance_id ?m = am_instance_id m" "am_size ?m = am_size m"
      "am_sha256 ?m = am_sha256 m" "am_status ?m = ar_ready"
      by (simp_all add: stored_artifact_def Let_def)
    have nc: "no_content c ?s ?p" using assms(4) by (simp add: no_content_def)
    have acc: "accounts c ?s" "whole c ?s"
      using assms(2,4) by (simp_all add: artifacts_ok_split accounts_same whole_data whole_sel no_content_def)
    have "g ?u = g (as_usage ?s) - bytes_at c P ?s ?p + weight c P ?p (Some ?m) \<and> g ?u \<le> n" if "gauge c g P n" for g P n
    proof -
      have "P ?m = P m" using gauge_same[OF that] f by blast
      moreover have "g (as_usage s) \<le> n" using acc(1) that by (auto simp: accounts_def)
      ultimately show ?thesis
        using gauge_add[OF that, of ?m "as_usage s"] gauge_quota[OF that 2(3)] no_content_bytes[OF nc] f own
        by (auto simp: weight_def)
    qed
    then have "accounts c (write_metadata ?p ?m (?s\<lparr>as_usage := ?u\<rparr>))" by (intro accounts_write[OF acc(1)]) auto
    moreover have "whole c (write_metadata ?p ?m (?s\<lparr>as_usage := ?u\<rparr>))"
      using acc(2) own 2(2) f by (intro whole_write) (auto simp: whole_sel body_matches_def)
    moreover have "s' = write_metadata ?p ?m (?s\<lparr>as_usage := ?u\<rparr>)" using 2(5) by (simp add: write_metadata_def)
    ultimately have "artifacts_ok c s'" by (simp add: artifacts_ok_split)
    moreover have "observation_identity_pattern (am_session_id m)"
      using put_fields[OF assms(3)] by (simp add: visited_def)
    ultimately show ?thesis
      using 2 by (auto simp: session_directory_def write_metadata_def write_data_def make_session_def manifest_at_def data_at_def
          update_conv')
  qed
qed

lemma not_found_empty:
  assumes "get_locked c i a now s = (Inl ArtifactNotFound, s')" "artifacts_ok c s" "visited (i, a)"
  shows "s' = s \<and> manifest_at s (i, a) = None"
  using get_locked_ok(4)[OF assms(1,2) refl] assms(2,3) present_session[of s "(i, a)"]
  by (cases "manifest_at s (i, a)") (auto simp: visited_def artifacts_ok_def has_session_def)

lemma put_artifact_ok:
  assumes "put_artifact c now m body lease_ok s = (r, s')" "artifacts_ok c s" "now \<noteq> zero_time"
  shows "artifacts_ok c s'"
proof (cases "valid_put_metadata m")
  case True
  let ?p = "(am_session_id m, am_id m)"
  obtain q s1 where g: "get_locked c (am_session_id m) (am_id m) now s = (q, s1)" by (metis surj_pair)
  have ok: "artifacts_ok c s1" by (rule get_locked_ok(1)[OF g assms(2)])
  show ?thesis
  proof (cases q)
    case (Inl e)
    show ?thesis
    proof (cases "e = ArtifactNotFound")
      case nf: True
      then have "s1 = s \<and> manifest_at s ?p = None"
        using not_found_empty[OF g[unfolded Inl nf] assms(2) put_fields[OF True]] by simp
      then have "no_content c s1 ?p" by (simp add: no_content_def)
      moreover have "store_artifact c now None m body lease_ok s1 = (r, s')"
        using assms(1) True g Inl nf by (simp add: put_artifact_def)
      ultimately show ?thesis using store_artifact_ok[OF _ ok True] assms(3) by blast
    next
      case False
      then show ?thesis using assms(1) True g Inl ok by (simp add: put_artifact_def)
    qed
  next
    case (Inr e)
    obtain x b where x: "manifest_at s1 ?p = Some x" "own_manifest c ?p x = Some (e, b)"
      using get_locked_ok(2)[OF g assms(2)] Inr by blast
    have z: "am_created_at e \<noteq> zero_time" using own_manifest_SomeD(1)[OF x(2)] by (simp add: valid_stored_metadata_def)
    consider "s' = s1" | "am_status e = ar_preparing" "store_artifact c now (Some e) m body lease_ok s1 = (r, s')"
      using assms(1) True g Inr by (auto simp: put_artifact_def split: if_splits)
    then show ?thesis
    proof cases
      case 2
      have "no_content c s1 ?p" using x 2(1) by (auto simp: no_content_def)
      then show ?thesis using store_artifact_ok[OF 2(2) ok True _ _ assms(3)] z by simp
    qed (use ok in simp)
  qed
qed (use assms in \<open>simp add: put_artifact_def\<close>)

lemma reported_status:
  "valid_stored_metadata (reported_artifact now m) \<Longrightarrow> am_status (reported_artifact now m) \<noteq> ar_ready
     \<and> am_status (reported_artifact now m) \<noteq> ''''"
  by (auto simp: reported_artifact_def Let_def valid_stored_metadata_def valid_artifact_status_def)

lemma write_unready_ok:
  assumes "artifacts_ok c s" "has_session s p" "no_content c s p" "am_status m \<noteq> ar_ready" "am_status m \<noteq> ''''"
  shows "artifacts_ok c (write_metadata p m s)"
  using assms by (simp add: artifacts_ok_split accounts_unready whole_unready no_content_bytes)

lemma record_artifact_ok:
  assumes "record_artifact c now m s = (r, s')" "artifacts_ok c s"
  shows "artifacts_ok c s'"
proof -
  let ?m = "reported_artifact now m"
  let ?p = "(am_session_id ?m, am_id ?m)"
  obtain q s1 where g: "get_locked c (am_session_id ?m) (am_id ?m) now (make_session (am_session_id ?m) s) = (q, s1)"
    by (metis surj_pair)
  have s0: "artifacts_ok c (make_session (am_session_id ?m) s)" by (rule artifacts_ok_frame(1)[OF assms(2)])
  have ok: "artifacts_ok c s1" by (rule get_locked_ok(1)[OF g s0])
  consider "s' = s" | "s' = s1"
    | "q = Inl ArtifactNotFound" "valid_stored_metadata ?m" "s' = write_metadata ?p ?m s1"
    | e where "q = Inr e" "valid_stored_metadata ?m" "am_status e \<noteq> ar_ready" "s' = write_metadata ?p (merged_artifact e ?m) s1"
    using assms(1) g by (auto simp: record_artifact_def Let_def split: if_splits sum.splits)
  then show ?thesis
  proof cases
    case 3
    have v: "visited ?p" using 3(2) by (simp add: valid_stored_metadata_def valid_identity_and_description_def visited_def)
    then have "s1 = make_session (am_session_id ?m) s" "manifest_at s1 ?p = None"
      using not_found_empty[OF g[unfolded 3(1)] s0 v] by auto
    then show ?thesis
      unfolding 3(3) using ok reported_status[OF 3(2)] by (intro write_unready_ok) (auto simp: no_content_def)
  next
    case (4 e)
    obtain x b where x: "manifest_at s1 ?p = Some x" "own_manifest c ?p x = Some (e, b)"
      using get_locked_ok(2)[OF g s0] 4(1) by blast
    have "has_session s1 ?p" using ok x(1) by (auto simp: artifacts_ok_def intro: present_session)
    then show ?thesis
      unfolding 4(4) using ok reported_status[OF 4(2)] x 4(3)
      by (intro write_unready_ok) (auto simp: no_content_def merged_artifact_def)
  qed (use ok assms in auto)
qed

section \<open>Reconciliation\<close>

lemma reconciled_weight:
  "weight c P p (reconciled_file c now s p file) =
     (case own_manifest c p file of
        None \<Rightarrow> 0
      | Some (m, b) \<Rightarrow> if am_status (reconciled s now p m) = ar_ready \<and> P m then am_size m else 0)"
proof (cases "own_manifest c p file")
  case None
  then show ?thesis by (simp add: weight_def reconciled_file_def)
next
  case (Some mb)
  obtain m b where own: "own_manifest c p file = Some (m, b)" using Some by (cases mb) auto
  let ?m = "reconciled s now p m"
  have st: "am_status m \<noteq> ''''"
    using own_manifest_SomeD(1)[OF own] by (auto simp: valid_stored_metadata_def valid_artifact_status_def)
  have "?m = m \<or> am_status ?m \<noteq> ar_ready \<and> am_status ?m \<noteq> ''''"
    using lapsed_cases[of now "data_at s p" "overdue now m"] by (auto simp: reconciled_def overdue_def split: if_splits)
  then show ?thesis
  proof
    assume "?m = m"
    then show ?thesis using own own_settled[OF own] by (simp add: weight_def reconciled_file_def)
  next
    assume u: "am_status ?m \<noteq> ar_ready \<and> am_status ?m \<noteq> ''''"
    then have "weight c P p (Some ?m) = 0" by (simp add: unready_weight)
    moreover have "weight c P p file = 0" if "?m = m" using own u that by (simp add: weight_def)
    ultimately show ?thesis using own u by (simp add: reconciled_file_def)
  qed
qed

lemma reconciled_weight_le: "weight c P p (reconciled_file c now s p file) \<le> weight c P p file"
proof (cases "own_manifest c p file")
  case (Some mb)
  obtain m b where own: "own_manifest c p file = Some (m, b)" using Some by (cases mb) auto
  have "am_status (reconciled s now p m) = ar_ready \<Longrightarrow> am_status m = ar_ready"
    using lapsed_cases[of now "data_at s p" "overdue now m"] by (auto simp: reconciled_def overdue_def split: if_splits)
  moreover have "0 \<le> am_size m" using own_manifest_SomeD(1)[OF own] by (simp add: valid_stored_metadata_def)
  ultimately show ?thesis unfolding reconciled_weight using own by (auto simp: weight_def)
qed (simp add: reconciled_weight weight_nonneg)

lemma reconciled_size [simp]: "am_size (reconciled s now p m) = am_size m"
  by (simp add: reconciled_def overdue_def)

lemma reconciled_usage_gauge:
  assumes "gauge c g P n"
  shows "g (fold (reconciled_usage c now s) es u) = g u
    + sum_list (map (\<lambda>(p, file). weight c P p (reconciled_file c now s p file)) es)"
proof (induction es arbitrary: u)
  case (Cons e es)
  obtain p x where e: "e = (p, x)" by (cases e)
  have same: "P (reconciled s now p m) = P m" for m
    by (rule gauge_same[OF assms]) (simp_all add: reconciled_def overdue_def)
  have "g (reconciled_usage c now s e u) = g u + weight c P p (reconciled_file c now s p x)"
    unfolding reconciled_weight reconciled_usage_def e
    by (auto simp: gauge_add[OF assms] same split: option.splits)
  then show ?case using Cons.IH e by simp
qed simp

lemma map_of_map_values: "map_of (map (\<lambda>(k, v). (k, f k v)) xs) k = map_option (f k) (map_of xs k)"
  by (induction xs) auto

lemma map_of_filter_values:
  "distinct (map fst xs) \<Longrightarrow> map_of (filter (\<lambda>(k, v). Q k v) xs) k
     = (case map_of xs k of None \<Rightarrow> None | Some v \<Rightarrow> if Q k v then Some v else None)"
  by (induction xs) (auto simp: map_of_eq_None_iff rev_image_eqI split: option.splits)

lemma stored_bytes_reconciled:
  "stored_bytes c P (snd (reconcile_artifacts c now s))
     = sum_list (map (\<lambda>(p, file). weight c P p (reconciled_file c now s p file)) (af_manifests (as_files s)))"
  by (simp add: stored_bytes_def reconcile_artifacts_def Let_def o_def case_prod_unfold)

lemma sum_list_le: "(\<And>x. x \<in> set xs \<Longrightarrow> f x \<le> g x) \<Longrightarrow> sum_list (map f xs) \<le> sum_list (map g xs)" for f :: "'a \<Rightarrow> int"
  by (induction xs) (auto intro: add_mono)

lemma reconciled_whole:
  assumes "keys_ok s" "whole c s"
  shows "whole c (snd (reconcile_artifacts c now s))"
  unfolding whole_def
proof (intro allI impI, elim conjE)
  let ?s = "snd (reconcile_artifacts c now s)"
  fix p y m b f
  assume a: "manifest_at ?s p = Some y" "own_manifest c p y = Some (m, b)" "am_status m = ar_ready"
    "data_at ?s p = Some f" "int (length (df_bytes f)) = am_size m"
  obtain x where x: "manifest_at s p = Some x" "y = reconciled_file c now s p x"
    using a(1) by (auto simp: manifest_at_def reconcile_artifacts_def Let_def map_of_map_values)
  have f: "data_at s p = Some f"
    using a(4) assms(1) by (auto simp: data_at_def reconcile_artifacts_def Let_def keys_ok_def map_of_filter_values
        split: option.splits if_splits)
  obtain m0 b0 where own: "own_manifest c p x = Some (m0, b0)"
    using a(2) x(2) by (cases "own_manifest c p x") (auto simp: reconciled_file_def)
  have "am_status (reconciled s now p m0) = ar_ready \<and> am_size m \<noteq> 0 \<or> weight c (\<lambda>_. True) p y = 0"
    using reconciled_weight[of c "\<lambda>_. True" p now s x] own x(2) a(2,3) by (auto simp: weight_def split: if_splits)
  moreover have "weight c (\<lambda>_. True) p y = am_size m" using a(2,3) by (simp add: weight_def)
  moreover have "am_size m \<ge> 1" using own_manifest_SomeD(1)[OF a(2)] a(3) by (simp add: valid_stored_metadata_def)
  ultimately have "am_status (reconciled s now p m0) = ar_ready" by auto
  then have "reconciled s now p m0 = m0"
    using lapsed_cases[of now "data_at s p" "overdue now m0"] by (auto simp: reconciled_def overdue_def split: if_splits)
  then have "m = m0" using a(2) x(2) own own_settled[OF own] by (auto simp: reconciled_file_def split: if_splits)
  then show "body_matches m (df_bytes f)"
    using assms(2)[unfolded whole_def, rule_format, of p x m b0 f] x(1) own a(3,5) f by simp
qed

lemma reconcile_ok:
  assumes "keys_ok s" "whole c s" "\<And>g P n. gauge c g P n \<Longrightarrow> stored_bytes c P s \<le> n"
  shows "artifacts_ok c (snd (reconcile_artifacts c now s))"
proof -
  let ?s = "snd (reconcile_artifacts c now s)"
  have "keys_ok ?s"
    using assms(1) by (auto simp: keys_ok_def reconcile_artifacts_def Let_def o_def split_beta distinct_map_filter)
  moreover have "g (as_usage ?s) = stored_bytes c P ?s" if "gauge c g P n" for g P n
  proof -
    have "as_usage ?s = fold (reconciled_usage c now s) (af_manifests (as_files s)) no_usage"
      by (simp add: reconcile_artifacts_def Let_def)
    then show ?thesis
      unfolding stored_bytes_reconciled using reconciled_usage_gauge[OF that, of now s _ no_usage] gauge_none[OF that] by simp
  qed
  moreover have "stored_bytes c P ?s \<le> stored_bytes c P s" for P
    unfolding stored_bytes_reconciled unfolding stored_bytes_def by (rule sum_list_le) (auto intro: reconciled_weight_le)
  ultimately show ?thesis
    using assms(3) reconciled_whole[OF assms(1,2)] unfolding artifacts_ok_split accounts_def by (metis order_trans)
qed

lemma reconcile_artifacts_ok: "artifacts_ok c s \<Longrightarrow> artifacts_ok c (snd (reconcile_artifacts c now s))"
  by (rule reconcile_ok) (auto simp: artifacts_ok_def)

lemma map_of_filter_session:
  "map_of (filter (\<lambda>(p, _). fst p \<noteq> i) xs) p = (if fst p = i then None else map_of xs p)"
  by (induction xs) auto

lemma delete_session_ok: "artifacts_ok c s \<Longrightarrow> artifacts_ok c (delete_session c now i s)"
proof -
  assume ok: "artifacts_ok c s"
  let ?f = "(as_files s)\<lparr>af_sessions := filter (\<lambda>j. j \<noteq> i) (af_sessions (as_files s)),
         af_manifests := filter (\<lambda>(p, _). fst p \<noteq> i) (af_manifests (as_files s)),
         af_data := filter (\<lambda>(p, _). fst p \<noteq> i) (af_data (as_files s)),
         af_stages := filter (\<lambda>(j, _). j \<noteq> i) (af_stages (as_files s))\<rparr>"
  let ?s = "s\<lparr>as_files := ?f\<rparr>"
  have k: "keys_ok s" "whole c s" using ok by (simp_all add: artifacts_ok_def)
  have keys: "keys_ok ?s" using k(1) by (auto simp: keys_ok_def distinct_map_filter)
  have m: "manifest_at ?s p = (if fst p = i then None else manifest_at s p)"
    "data_at ?s p = (if fst p = i then None else data_at s p)" for p
    by (simp_all add: manifest_at_def data_at_def map_of_filter_session)
  have "whole c ?s" using k(2) unfolding whole_def m by auto
  moreover have "stored_bytes c P ?s \<le> stored_bytes c P s" for P
  proof -
    have "sum_list (map w (filter Q xs)) \<le> sum_list (map w xs)" if "\<And>x. 0 \<le> w x" for w :: "artifact_path \<times> artifact_meta option \<Rightarrow> int" and Q xs
      using that by (induction xs) (auto intro: add_increasing)
    from this[of "\<lambda>(p, file). weight c P p file"] show ?thesis
      by (simp add: stored_bytes_def weight_nonneg split_beta)
  qed
  moreover have "stored_bytes c P s \<le> n" if "gauge c g P n" for g P n
    using ok that unfolding artifacts_ok_def by force
  ultimately have "artifacts_ok c (snd (reconcile_artifacts c now ?s))"
    by (intro reconcile_ok keys) (blast intro: order_trans)+
  then show ?thesis using ok by (simp add: delete_session_def)
qed

lemma all_metadata_member:
  assumes "m \<in> set (all_metadata c s)"
  shows "\<exists>x b. ((am_session_id m, am_id m), x) \<in> set (af_manifests (as_files s)) \<and> read_metadata c x = Some (m, b)
     \<and> observation_identity_pattern (am_session_id m)"
proof -
  have some: "y \<in> set (List.map_filter f xs) \<Longrightarrow> \<exists>x \<in> set xs. f x = Some y" for y f and xs :: "(artifact_path \<times> artifact_meta option) list"
    by (induction xs) (auto simp: map_filter_simps split: option.splits)
  obtain e where e: "e \<in> set (af_manifests (as_files s))"
    "(case e of (p, file) \<Rightarrow> case read_metadata c file of None \<Rightarrow> None | Some (m, _) \<Rightarrow>
       if observation_identity_pattern (fst p) \<and> am_session_id m = fst p \<and> am_id m = snd p then Some m else None) = Some m"
    using some[OF assms[unfolded all_metadata_def]] by blast
  obtain p x where "e = (p, x)" by (cases e)
  with e show ?thesis by (cases p) (auto split: option.splits if_splits)
qed

lemma delete_artifact_ok:
  assumes "artifacts_ok c s" "now \<noteq> zero_time"
  shows "artifacts_ok c (snd (delete_artifact c now i s))"
proof -
  let ?s = "snd (reconcile_artifacts c now s)"
  have ok: "artifacts_ok c ?s" by (rule reconcile_artifacts_ok[OF assms(1)])
  have "snd (delete_artifact c now i s) = s \<or> snd (delete_artifact c now i s) = ?s
    \<or> (\<exists>m \<in> set (all_metadata c ?s). am_status m \<noteq> ar_deleted
        \<and> snd (delete_artifact c now i s) = write_metadata (am_session_id m, am_id m)
            (m\<lparr>am_status := ar_deleted, am_error := '''', am_deleted_at := Some now\<rparr>)
            (remove_data (am_session_id m, am_id m)
              (if am_status m = ar_ready then ?s\<lparr>as_usage := remove_usage m (as_usage ?s)\<rparr> else ?s)))"
  proof (cases "filter (\<lambda>m. am_id m = i) (all_metadata c ?s)")
    case Nil
    then show ?thesis by (simp add: delete_artifact_def Let_def)
  next
    case (Cons m ms)
    have "m \<in> set (filter (\<lambda>m. am_id m = i) (all_metadata c ?s))" using Cons by simp
    then have m: "m \<in> set (all_metadata c ?s)" by simp
    show ?thesis
    proof (cases "\<not> valid_artifact_id i \<or> ms \<noteq> [] \<or> am_status m = ar_deleted")
      case True
      then show ?thesis using Cons by (cases ms) (auto simp: delete_artifact_def Let_def)
    next
      case False
      then show ?thesis using Cons by (intro disjI2 bexI[OF _ m]) (simp add: delete_artifact_def Let_def)
    qed
  qed
  then consider
    "snd (delete_artifact c now i s) = s \<or> snd (delete_artifact c now i s) = ?s"
    | m where "m \<in> set (all_metadata c ?s)"
      "snd (delete_artifact c now i s) = write_metadata (am_session_id m, am_id m)
            (m\<lparr>am_status := ar_deleted, am_error := '''', am_deleted_at := Some now\<rparr>)
            (remove_data (am_session_id m, am_id m)
              (if am_status m = ar_ready then ?s\<lparr>as_usage := remove_usage m (as_usage ?s)\<rparr> else ?s))"
    by blast
  then show ?thesis
  proof cases
    case (2 m)
    let ?p = "(am_session_id m, am_id m)"
    let ?m = "m\<lparr>am_status := ar_deleted, am_error := '''', am_deleted_at := Some now\<rparr>"
    let ?u = "if am_status m = ar_ready then remove_usage m (as_usage ?s) else as_usage ?s"
    obtain x b where "(?p, x) \<in> set (af_manifests (as_files ?s))" "read_metadata c x = Some (m, b)"
      "observation_identity_pattern (am_session_id m)"
      using all_metadata_member[OF 2(1)] by blast
    then have x: "manifest_at ?s ?p = Some x" "own_manifest c ?p x = Some (m, b)"
      using ok valid_stored_read[of c x m b]
      by (auto simp: artifacts_ok_def keys_ok_def manifest_at_def own_manifest_def visited_def valid_stored_metadata_def
          valid_identity_and_description_def)
    have acc: "accounts c ?s" "whole c ?s" "has_session ?s ?p"
      using ok x(1) by (auto simp: artifacts_ok_split accounts_def intro: present_session)
    have un: "am_status ?m \<noteq> ar_ready" "am_status ?m \<noteq> ''''" by simp_all
    have "g ?u = g (as_usage ?s) - bytes_at c P ?s ?p + weight c P ?p (Some ?m) \<and> g ?u \<le> n" if "gauge c g P n" for g P n
    proof -
      have "g (as_usage ?s) = stored_bytes c P ?s" "g (as_usage ?s) \<le> n" using acc(1) that by (auto simp: accounts_def)
      moreover have "bytes_at c P ?s ?p = (if am_status m = ar_ready \<and> P m then am_size m else 0)"
        using x by (simp add: bytes_at_def weight_def)
      moreover have "0 \<le> am_size m" using own_manifest_SomeD(1)[OF x(2)] by (simp add: valid_stored_metadata_def)
      ultimately show ?thesis
        using gauge_remove[OF that, of m "as_usage ?s"] bytes_at_le[of c P ?s ?p] unready_weight[OF un, of c P ?p] by auto
    qed
    then have "accounts c (write_metadata ?p ?m (?s\<lparr>as_usage := ?u\<rparr>))" by (intro accounts_write[OF acc(1,3)]) blast
    moreover have e: "snd (delete_artifact c now i s) = remove_data ?p (write_metadata ?p ?m (?s\<lparr>as_usage := ?u\<rparr>))"
      unfolding 2(2) write_remove by (simp add: if_distrib)
    ultimately have "accounts c (snd (delete_artifact c now i s))" using accounts_same(1) by metis
    moreover have "whole c (snd (delete_artifact c now i s))"
      unfolding e by (intro whole_sel whole_unready un) (simp add: whole_sel acc)
    ultimately show ?thesis by (simp add: artifacts_ok_split)
  qed (use assms ok in auto)
qed

section \<open>Runs\<close>

text \<open>
  The operations in any order, with restarts; an end of the process inside \<open>Put\<close> leaves a temporary file
  or content without a ready manifest, and content files may get lost.
\<close>

inductive artifact_run :: "artifact_config \<Rightarrow> artifact_store \<Rightarrow> bool" for c where
  Begun: "new_artifact_store c now \<lparr>af_sessions = [], af_manifests = [], af_data = [], af_stages = []\<rparr> = Some s
    \<Longrightarrow> artifact_run c s"
| Put: "artifact_run c s \<Longrightarrow> now \<noteq> zero_time \<Longrightarrow> artifact_run c (snd (put_artifact c now m body lease_ok s))"
| Opened: "artifact_run c s \<Longrightarrow> artifact_run c (snd (open_artifact c i a now s))"
| Got: "artifact_run c s \<Longrightarrow> artifact_run c (snd (get_locked c i a now s))"
| Recorded: "artifact_run c s \<Longrightarrow> artifact_run c (snd (record_artifact c now m s))"
| Listed: "artifact_run c s \<Longrightarrow> artifact_run c (snd (list_artifacts c now q s))"
| Counted: "artifact_run c s \<Longrightarrow> artifact_run c (snd (artifact_usage_snapshot c now s))"
| Reconciled: "artifact_run c s \<Longrightarrow> artifact_run c (snd (reconcile_artifacts c now s))"
| Deleted: "artifact_run c s \<Longrightarrow> now \<noteq> zero_time \<Longrightarrow> artifact_run c (snd (delete_artifact c now a s))"
| SessionDeleted: "artifact_run c s \<Longrightarrow> artifact_run c (delete_session c now i s)"
| Restarted: "artifact_run c s \<Longrightarrow> new_artifact_store c now (as_files s) = Some s' \<Longrightarrow> artifact_run c s'"
| Staged: "artifact_run c s \<Longrightarrow> artifact_run c (s\<lparr>as_files := (as_files s)\<lparr>af_stages := e # af_stages (as_files s)\<rparr>\<rparr>)"
| Interrupted: "artifact_run c s \<Longrightarrow> no_content c s p \<Longrightarrow> artifact_run c (write_data p f (make_session (fst p) s))"
| Lost: "artifact_run c s \<Longrightarrow> artifact_run c (remove_data p s)"

lemma whole_frame: "manifest_at s' = manifest_at s \<Longrightarrow> data_at s' = data_at s \<Longrightarrow> whole c s' = whole c s"
  by (simp add: whole_def)

lemma stage_ok:
  assumes "artifacts_ok c s"
  shows "artifacts_ok c (s\<lparr>as_files := (as_files s)\<lparr>af_stages := e\<rparr>\<rparr>)"
proof -
  let ?s = "s\<lparr>as_files := (as_files s)\<lparr>af_stages := e\<rparr>\<rparr>"
  have "whole c ?s = whole c s" by (rule whole_frame) (simp_all add: manifest_at_def data_at_def fun_eq_iff)
  moreover have "stored_bytes c P ?s = stored_bytes c P s" for P by (simp add: stored_bytes_def)
  moreover have "keys_ok ?s = keys_ok s" by (simp add: keys_ok_def)
  ultimately show ?thesis using assms by (simp add: artifacts_ok_def)
qed

lemma restart_ok:
  assumes "artifacts_ok c s" "new_artifact_store c now (as_files s) = Some s'"
  shows "artifacts_ok c s'"
proof -
  let ?s = "\<lparr>as_files = as_files s, as_usage = no_usage\<rparr>"
  have s': "s' = snd (reconcile_artifacts c now ?s)" using assms(2) by (simp add: new_artifact_store_def split: if_splits)
  have "whole c ?s = whole c s" by (rule whole_frame) (simp_all add: manifest_at_def data_at_def fun_eq_iff)
  then have "keys_ok ?s" "whole c ?s" using assms(1) by (simp_all add: artifacts_ok_def keys_ok_def)
  moreover have "stored_bytes c P ?s \<le> n" if "gauge c g P n" for g P n
    using assms(1) that by (auto simp: artifacts_ok_def stored_bytes_def)
  ultimately show ?thesis unfolding s' by (rule reconcile_ok)
qed

lemma begun_ok:
  assumes "new_artifact_store c now \<lparr>af_sessions = [], af_manifests = [], af_data = [], af_stages = []\<rparr> = Some s"
  shows "artifacts_ok c s"
proof -
  let ?f = "\<lparr>af_sessions = [], af_manifests = [], af_data = [], af_stages = []\<rparr>"
  have "validate_artifact_config c" using assms by (simp add: new_artifact_store_def split: if_splits)
  then have "0 \<le> xc_session_max c" "0 \<le> xc_instance_max c" "0 \<le> xc_total_max c"
    by (auto simp: validate_artifact_config_def maximum_bytes_def)
  then have "artifacts_ok c \<lparr>as_files = ?f, as_usage = no_usage\<rparr>"
    by (auto simp: artifacts_ok_def keys_ok_def whole_def stored_bytes_def manifest_at_def gauge_def no_usage_def)
  then show ?thesis using restart_ok[of c "\<lparr>as_files = ?f, as_usage = no_usage\<rparr>"] assms by simp
qed

lemma run_ok: "artifact_run c s \<Longrightarrow> artifacts_ok c s"
proof (induction rule: artifact_run.induct)
  case (Put s now m body lease_ok)
  then show ?case by (metis put_artifact_ok prod.collapse)
next
  case (Opened s i a now)
  then show ?case unfolding open_artifact_store by (metis get_locked_ok(1) prod.collapse)
next
  case (Got s i a now)
  then show ?case by (metis get_locked_ok(1) prod.collapse)
next
  case (Recorded s now m)
  then show ?case by (metis record_artifact_ok prod.collapse)
next
  case (Interrupted s p f)
  then show ?case by (simp add: artifacts_ok_split accounts_same whole_data whole_sel no_content_def)
qed (auto simp: begun_ok reconcile_artifacts_ok delete_artifact_ok delete_session_ok restart_ok stage_ok artifacts_ok_frame
    list_artifacts_def artifact_usage_snapshot_def Let_def)

text \<open>C32. Over every run of the artifact storage, with restarts, interrupted uploads and lost files, the usage in
  memory is the sum of the sizes of the ready manifests, in total and for every session and instance, and
  no session, no instance and not the storage as a whole exceeds its quota.\<close>

theorem artifact_quotas_hold:
  assumes "artifact_run c s"
  shows "stored_bytes c (\<lambda>_. True) s = us_total (as_usage s) \<and> us_total (as_usage s) \<le> xc_total_max c
    \<and> stored_bytes c (\<lambda>m. am_session_id m = i) s = us_sessions (as_usage s) i \<and> us_sessions (as_usage s) i \<le> xc_session_max c
    \<and> stored_bytes c (\<lambda>m. am_instance_id m = i) s = us_instances (as_usage s) i
    \<and> us_instances (as_usage s) i \<le> xc_instance_max c"
proof -
  have "g (as_usage s) = stored_bytes c P s \<and> g (as_usage s) \<le> n" if "gauge c g P n" for g P n
    using run_ok[OF assms] that by (simp add: artifacts_ok_def)
  from this[OF gauges(1)] this[OF gauges(2), of i] this[OF gauges(3), of i] show ?thesis by simp
qed

lemma ready_expiry:
  assumes "own_manifest c p x = Some (m, b)" "am_status m = ar_ready"
  shows "\<exists>t. am_expires_at m = Some t"
proof -
  have "own_manifest c p (Some m) = Some (m, False)" by (rule own_settled[OF assms(1)])
  then have "defaulted c m = m"
    by (auto simp: own_manifest_def read_metadata_def Let_def split: if_splits)
  moreover have "am_created_at m \<noteq> zero_time" using own_manifest_SomeD(1)[OF assms(1)] by (simp add: valid_stored_metadata_def)
  ultimately show ?thesis
    using assms(2) by (cases "am_expires_at m") (auto simp: defaulted_def Let_def dest: arg_cong[where f = am_expires_at])
qed

lemma open_whole:
  assumes "artifact_run c s" and "fst (open_artifact c i a now s) = Inr (m, b)"
  shows "am_session_id m = i \<and> am_id m = a \<and> am_status m = ar_ready \<and> (\<exists>t. am_expires_at m = Some t \<and> now < t)
     \<and> int (length b) = am_size m \<and> sha256_hex b = am_sha256 m"
proof -
  note ok = run_ok[OF assms(1)]
  obtain r s' where g: "get_locked c i a now s = (r, s')" by (metis surj_pair)
  obtain f where r: "r = Inr m" "am_status m = ar_ready" "data_at s' (i, a) = Some f" "int (length (df_bytes f)) = am_size m"
    "b = df_bytes f"
  proof -
    obtain m0 where r0: "r = Inr m0" using assms(2) g by (cases r) (simp_all add: open_artifact_def)
    have st: "am_status m0 = ar_ready"
      by (rule ccontr) (use assms(2) g r0 in \<open>simp add: open_artifact_def split: if_splits\<close>)
    obtain f where f: "data_at s' (i, a) = Some f"
      using assms(2) g r0 st by (cases "data_at s' (i, a)") (simp_all add: open_artifact_def)
    have "int (length (df_bytes f)) = am_size m0" "m = m0" "b = df_bytes f"
      using assms(2) g r0 st f by (simp_all add: open_artifact_def split: if_splits)
    with that r0 st f show ?thesis by blast
  qed
  obtain x d where x: "manifest_at s' (i, a) = Some x" "own_manifest c (i, a) x = Some (m, d)"
    using get_locked_ok(2)[OF g ok r(1)] by blast
  have "whole c s'" using get_locked_ok(1)[OF g ok] by (simp add: artifacts_ok_def)
  then have "body_matches m b"
    using x r(2-5) unfolding whole_def by blast
  moreover have "\<exists>t. am_expires_at m = Some t \<and> now < t"
    using get_locked_ok(3)[OF g ok r(1,2)] ready_expiry[OF x(2) r(2)] by auto
  ultimately show ?thesis using own_manifest_SomeD(2,3)[OF x(2)] r(2) by (simp add: body_matches_def)
qed

text \<open>In every run, what the storage opens is a ready output of this session and identity that has not
  expired, and its content has the recorded size and SHA-256 digest.\<close>

theorem opened_artifact_is_whole:
  assumes "artifact_run c s" and "fst (open_artifact c i a now s) = Inr (m, b)"
  shows "am_session_id m = i \<and> am_id m = a \<and> am_status m = ar_ready \<and> (\<exists>t. am_expires_at m = Some t \<and> now < t)
     \<and> int (length b) = am_size m \<and> sha256_hex b = am_sha256 m"
  by (rule open_whole[OF assms])

lemma get_ready:
  assumes "session_directory i s" "manifest_at s (i, a) = Some x" "own_manifest c (i, a) x = Some (m, b)"
    "am_status m = ar_ready" "valid_data_file (data_at s (i, a)) (am_size m)" "am_expires_at m = Some t" "now < t"
  shows "\<exists>s'. get_locked c i a now s = (Inr m, s') \<and> data_at s' = data_at s"
proof -
  have "lapsed now (data_at s (i, a)) m = m" using assms(4-7) by (simp add: lapsed_def)
  then have "\<exists>s'. settle_artifact (i, a) now m b s = (m, s') \<and> data_at s' = data_at s"
    by (simp add: settle_artifact_def Let_def)
  then show ?thesis
    using assms(1,2) own_manifest_SomeD[OF assms(3)] by (auto simp: get_locked_def visited_def)
qed

text \<open>The two ways in which an upload is accepted: it was stored before, or it is stored now.\<close>

lemma put_stored:
  assumes "artifacts_ok c s" "valid_put_metadata m" and "put_artifact c now m body lease_ok s = (Inr m', s')"
    and "get_locked c (am_session_id m) (am_id m) now s = (q, s1)"
    and "\<not> (q = Inr m' \<and> am_status m' = ar_ready \<and> compatible_metadata m' m \<and> s' = s1)"
  shows "\<exists>ex. store_artifact c now ex m body lease_ok s1 = (Inr m', s') \<and> no_content c s1 (am_session_id m, am_id m)
     \<and> (\<forall>e. ex = Some e \<longrightarrow> am_created_at e \<noteq> zero_time)"
proof (cases q)
  case (Inl e)
  then have e: "e = ArtifactNotFound" "store_artifact c now None m body lease_ok s1 = (Inr m', s')"
    using assms(2-4) by (auto simp: put_artifact_def split: if_splits)
  then have "manifest_at s1 (am_session_id m, am_id m) = None"
    using not_found_empty[OF assms(4)[unfolded Inl e(1)] assms(1) put_fields[OF assms(2)]] by simp
  then show ?thesis using e(2) by (auto simp: no_content_def)
next
  case (Inr e)
  have e: "am_status e = ar_preparing" "store_artifact c now (Some e) m body lease_ok s1 = (Inr m', s')"
    using assms(2-5) Inr by (auto simp: put_artifact_def split: if_splits)
  obtain x b where x: "manifest_at s1 (am_session_id m, am_id m) = Some x"
    "own_manifest c (am_session_id m, am_id m) x = Some (e, b)"
    using get_locked_ok(2)[OF assms(4,1)] Inr by blast
  have "no_content c s1 (am_session_id m, am_id m)" using x e(1) by (auto simp: no_content_def)
  moreover have "am_created_at e \<noteq> zero_time" using own_manifest_SomeD(1)[OF x(2)] by (simp add: valid_stored_metadata_def)
  ultimately show ?thesis using e(2) by blast
qed

lemma put_accepted:
  assumes "artifacts_ok c s" "artifacts_ok c s'" "now \<noteq> zero_time"
    and "put_artifact c now m body lease_ok s = (Inr m', s')"
  shows "session_directory (am_session_id m) s'
     \<and> (\<exists>x b. manifest_at s' (am_session_id m, am_id m) = Some x \<and> own_manifest c (am_session_id m, am_id m) x = Some (m', b))
     \<and> am_status m' = ar_ready \<and> valid_data_file (data_at s' (am_session_id m, am_id m)) (am_size m')
     \<and> compatible_metadata m' m"
proof -
  let ?p = "(am_session_id m, am_id m)"
  note ok = assms(1)
  have v: "valid_put_metadata m" using assms(4) by (auto simp: put_artifact_def split: if_splits)
  obtain q s1 where g: "get_locked c (am_session_id m) (am_id m) now s = (q, s1)" by (metis surj_pair)
  show ?thesis
  proof (cases "q = Inr m' \<and> am_status m' = ar_ready \<and> compatible_metadata m' m \<and> s' = s1")
    case True
    obtain x b where x: "manifest_at s1 ?p = Some x" "own_manifest c ?p x = Some (m', b)"
      using get_locked_ok(2)[OF g ok] True by blast
    have "has_session s1 ?p" using assms(2) True x(1) by (auto simp: artifacts_ok_def intro: present_session)
    then have "session_directory (am_session_id m) s1"
      using put_fields[OF v] by (simp add: session_directory_def has_session_def visited_def)
    then show ?thesis using get_locked_ok(3)[OF g ok, of m'] True x by auto
  next
    case False
    obtain ex where ex: "store_artifact c now ex m body lease_ok s1 = (Inr m', s')" "no_content c s1 ?p"
      "\<And>e. ex = Some e \<Longrightarrow> am_created_at e \<noteq> zero_time"
      using put_stored[OF ok v assms(4) g False] by blast
    obtain b f where s: "body_matches m b" "m' = stored_artifact c now ex m" "session_directory (am_session_id m) s'"
      "manifest_at s' ?p = Some (Some m')" "data_at s' ?p = Some f" "df_bytes f = b"
      using store_artifact_ok[OF ex(1) get_locked_ok(1)[OF g ok] v ex(2,3) assms(3)] by blast
    have "own_manifest c ?p (Some m') = Some (m', False)" by (rule stored_own[OF v s(2) ex(3) assms(3)])
    then show ?thesis
      using s by (auto simp: stored_artifact_def Let_def valid_data_file_def body_matches_def compatible_metadata_def)
  qed
qed

text \<open>C33. An upload that the storage accepts can be opened until it expires: the content then has the size and
  the digest that the upload declared, also when an earlier upload had already stored it.\<close>

theorem accepted_upload_opens:
  assumes "artifact_run c s" "now \<noteq> zero_time" and "put_artifact c now m body lease_ok s = (Inr m', s')"
    and "am_expires_at m' = Some t" "later < t"
  shows "\<exists>b. fst (open_artifact c (am_session_id m) (am_id m) later s') = Inr (m', b)
     \<and> int (length b) = am_size m' \<and> sha256_hex b = am_sha256 m' \<and> compatible_metadata m' m"
proof -
  let ?p = "(am_session_id m, am_id m)"
  have run: "artifact_run c s'" using Put[OF assms(1,2), of m body lease_ok] assms(3) by simp
  note put = put_accepted[OF run_ok[OF assms(1)] run_ok[OF run] assms(2,3)]
  then obtain x b where x: "manifest_at s' ?p = Some x" "own_manifest c ?p x = Some (m', b)" by blast
  obtain s2 where s2: "get_locked c (am_session_id m) (am_id m) later s' = (Inr m', s2)" "data_at s2 = data_at s'"
    using get_ready[OF _ x _ _ assms(4,5)] put by blast
  obtain f where f: "data_at s' ?p = Some f" "int (length (df_bytes f)) = am_size m'"
    using put by (auto simp: valid_data_file_def split: option.splits)
  have o: "fst (open_artifact c (am_session_id m) (am_id m) later s') = Inr (m', df_bytes f)"
    using s2 f put by (simp add: open_artifact_def)
  then show ?thesis using open_whole[OF run o] put by blast
qed

section \<open>A run\<close>

definition sample_artifact :: artifact_meta where
  "sample_artifact = \<lparr>am_id = ''artifact-00000000000000000000000000000001'',
     am_instance_id = ''11111111-1111-4111-8111-111111111111'', am_session_id = ''22222222-2222-4222-8222-222222222222'',
     am_operation_id = ''33333333-3333-4333-8333-333333333333'', am_name = ''notes.txt'', am_kind = ''file'',
     am_media_type = ''text/plain'', am_size = 3, am_sha256 = sha256_hex ''abc'', am_status = '''', am_error = '''',
     am_created_at = 5, am_expires_at = None, am_deleted_at = None\<rparr>"

definition empty_artifacts :: artifact_store where
  "empty_artifacts = \<lparr>as_files = \<lparr>af_sessions = [], af_manifests = [], af_data = [], af_stages = []\<rparr>, as_usage = no_usage\<rparr>"

definition sample_artifact_store :: artifact_store where
  "sample_artifact_store = snd (put_artifact default_artifact_config 5 sample_artifact (Some ''abc'') True empty_artifacts)"

lemma empty_run: "artifact_run default_artifact_config empty_artifacts"
  by (rule Begun[where now = 1])
    (simp add: new_artifact_store_def validate_artifact_config_def default_artifact_config_def maximum_bytes_def
      reconcile_artifacts_def empty_artifacts_def hours_def minutes_def seconds_def Let_def)

lemma sample_identities:
  "observation_identity_pattern (am_session_id sample_artifact)" "observation_identity_pattern (am_instance_id sample_artifact)"
  "observation_identity_pattern (am_operation_id sample_artifact)" "valid_artifact_id (am_id sample_artifact)"
  unfolding sample_artifact_def artifact_meta.simps by code_simp+

lemma sample_valid: "valid_put_metadata sample_artifact"
  using sample_identities
  by (simp add: valid_put_metadata_def valid_identity_and_description_def sha256_pattern_def sha256_hex_digits
      valid_artifact_kind_def)
    (simp add: sample_artifact_def maximum_bytes_def sha256_pattern_def sha256_hex_digits)

lemma sample_fields [simp]:
  "am_size sample_artifact = 3" "am_sha256 sample_artifact = sha256_hex ''abc''" "am_status sample_artifact = ''''"
  "am_created_at sample_artifact = 5"
  by (simp_all add: sample_artifact_def)

abbreviation sample_path :: artifact_path where
  "sample_path \<equiv> (am_session_id sample_artifact, am_id sample_artifact)"

abbreviation sample_ready :: artifact_meta where
  "sample_ready \<equiv> stored_artifact default_artifact_config 5 None sample_artifact"

lemma sample_stored_fields [simp]:
  "am_size sample_ready = 3" "am_sha256 sample_ready = sha256_hex ''abc''" "am_status sample_ready = ar_ready"
  "am_id sample_ready = am_id sample_artifact" "am_session_id sample_ready = am_session_id sample_artifact"
  "am_expires_at sample_ready = Some (5 + hours 720)" "am_created_at sample_ready = 5"
  by (simp_all add: stored_artifact_def zero_time_def Let_def default_artifact_config_def)

lemma sample_put:
  "put_artifact default_artifact_config 5 sample_artifact (Some ''abc'') True empty_artifacts
     = (Inr sample_ready,
        \<lparr>as_files = \<lparr>af_sessions = [am_session_id sample_artifact], af_manifests = [(sample_path, Some sample_ready)],
           af_data = [(sample_path, \<lparr>df_bytes = ''abc'', df_mtime = 5\<rparr>)], af_stages = []\<rparr>,
         as_usage = add_usage sample_ready no_usage\<rparr>)"
proof -
  have g: "get_locked default_artifact_config (am_session_id sample_artifact) (am_id sample_artifact) 5 empty_artifacts
      = (Inl ArtifactNotFound, empty_artifacts)"
    by (simp add: get_locked_def session_directory_def empty_artifacts_def)
  have q: "within_quota default_artifact_config (as_usage empty_artifacts) sample_artifact"
    by (simp add: within_quota_def empty_artifacts_def no_usage_def default_artifact_config_def)
  have b: "body_matches sample_artifact ''abc''" by (simp add: body_matches_def)
  have n: "\<not> int (length ''abc'') > maximum_bytes" by (simp add: maximum_bytes_def)
  show ?thesis
    unfolding put_artifact_def
    using g q b n
    by (simp add: sample_valid store_artifact_def)
      (simp add: Let_def write_metadata_def write_data_def make_session_def empty_artifacts_def)
qed

lemma sample_stored:
  "put_artifact default_artifact_config 5 sample_artifact (Some ''abc'') True empty_artifacts
     = (Inr sample_ready, sample_artifact_store)"
  by (simp add: sample_put sample_artifact_store_def)

lemma sample_artifact_store_is:
  "sample_artifact_store = \<lparr>as_files = \<lparr>af_sessions = [am_session_id sample_artifact],
     af_manifests = [(sample_path, Some sample_ready)], af_data = [(sample_path, \<lparr>df_bytes = ''abc'', df_mtime = 5\<rparr>)],
     af_stages = []\<rparr>, as_usage = add_usage sample_ready no_usage\<rparr>"
  by (simp add: sample_artifact_store_def sample_put)

lemma sample_usage: "us_total (as_usage sample_artifact_store) = 3"
  by (simp add: sample_artifact_store_is add_usage_def no_usage_def)

lemma sample_read: "read_metadata default_artifact_config (Some sample_ready) = Some (sample_ready, False)"
proof -
  have d: "defaulted default_artifact_config sample_ready = sample_ready" by (simp add: defaulted_def)
  have v: "valid_stored_metadata sample_ready"
    using sample_valid
    by (simp add: valid_put_metadata_def valid_stored_metadata_def valid_identity_and_description_def
        valid_artifact_status_def zero_time_def stored_artifact_def Let_def)
  show ?thesis by (simp add: read_metadata_def d v)
qed

lemma sample_opens:
  "fst (open_artifact default_artifact_config (am_session_id sample_artifact) (am_id sample_artifact) 6 sample_artifact_store)
     = Inr (sample_ready, ''abc'')"
proof -
  have m: "manifest_at sample_artifact_store sample_path = Some (Some sample_ready)"
    and d: "data_at sample_artifact_store sample_path = Some \<lparr>df_bytes = ''abc'', df_mtime = 5\<rparr>"
    and s: "session_directory (am_session_id sample_artifact) sample_artifact_store"
    using sample_identities by (simp_all add: sample_artifact_store_is manifest_at_def data_at_def session_directory_def)
  have l: "lapsed 6 (Some \<lparr>df_bytes = ''abc'', df_mtime = 5\<rparr>) sample_ready = sample_ready"
    by (simp add: lapsed_def valid_data_file_def hours_def minutes_def seconds_def)
  show ?thesis
    by (simp add: open_artifact_def get_locked_def s m d sample_identities sample_read settle_artifact_def l)
qed

lemma sample_run: "artifact_run default_artifact_config sample_artifact_store"
  unfolding sample_artifact_store_def by (rule Put[OF empty_run]) (simp add: zero_time_def)

theorem artifact_quotas_hold_witness:
  "stored_bytes default_artifact_config (\<lambda>_. True) sample_artifact_store = 3"
  using artifact_quotas_hold[OF sample_run] sample_usage by simp

theorem opened_artifact_is_whole_witness:
  "int (length ''abc'') = am_size sample_ready \<and> sha256_hex ''abc'' = am_sha256 sample_ready"
  using opened_artifact_is_whole[OF sample_run sample_opens] by blast

theorem accepted_upload_opens_witness:
  "\<exists>b. fst (open_artifact default_artifact_config (am_session_id sample_artifact) (am_id sample_artifact) 6
       sample_artifact_store) = Inr (sample_ready, b) \<and> sha256_hex b = sha256_hex ''abc''"
proof -
  have "5 \<noteq> zero_time" "6 < 5 + hours 720" by (simp_all add: zero_time_def hours_def minutes_def seconds_def)
  then show ?thesis
    using accepted_upload_opens[OF empty_run _ sample_stored sample_stored_fields(6), of 6] by fastforce
qed

end
