(* ===== verification/Api_Recovery.thy ===== *)
theory Api_Recovery
  imports Api_Jobs
begin

text \<open>
  The recovery point handlers of \<open>internal/api/server.go\<close>: upload, verification and download under
  the lease of a job, and the administrator's list, creation, verification, restore, download and
  deletion. The lock per recovery point of restore and deletion makes each of them one step. The
  creation time of a payload is compared as the text the server wrote into it.
\<close>

section \<open>Payloads against metadata\<close>

definition payload_created :: "recovery_point \<Rightarrow> string option \<Rightarrow> bool" where
  "payload_created m t \<longleftrightarrow> t = Some (format_rfc3339_nano (pt_created_at m))"

definition restore_payload_matches :: "recovery_restore_payload \<Rightarrow> string option \<Rightarrow> recovery_point \<Rightarrow> bool" where
  "restore_payload_matches p created m \<longleftrightarrow> rt_recovery_point_id p = pt_id m
     \<and> rt_instance_id p = pt_instance_id m \<and> rt_name p = pt_instance_name m \<and> rt_image p = pt_image m
     \<and> rt_image_id p = pt_image_id m \<and> rt_provider p = pt_provider m \<and> rt_model p = pt_model m
     \<and> rt_reasoning p = pt_reasoning m \<and> rt_service_tier p = pt_service_tier m
     \<and> rt_codex_configured p = pt_codex_configured m \<and> rt_project_name p = pt_project_name m
     \<and> rt_data_volume p = pt_data_volume m \<and> rt_managed_path p = pt_managed_path m
     \<and> rt_agent_version p = pt_agent_version m \<and> payload_created m created
     \<and> rt_recovery_sha256 p = pt_sha256 m \<and> rt_recovery_size_bytes p = pt_size_bytes m"

definition point_payload_matches :: "recovery_point_payload \<Rightarrow> string option \<Rightarrow> recovery_point \<Rightarrow> bool" where
  "point_payload_matches p created m \<longleftrightarrow> rp_recovery_point_id p = pt_id m
     \<and> rp_instance_id p = pt_instance_id m \<and> rp_name p = pt_instance_name m \<and> rp_image p = pt_image m
     \<and> rp_image_id p = pt_image_id m \<and> rp_provider p = pt_provider m \<and> rp_model p = pt_model m
     \<and> rp_reasoning p = pt_reasoning m \<and> rp_service_tier p = pt_service_tier m
     \<and> rp_codex_configured p = pt_codex_configured m \<and> rp_project_name p = pt_project_name m
     \<and> rp_data_volume p = pt_data_volume m \<and> rp_managed_path p = pt_managed_path m
     \<and> rp_agent_version p = pt_agent_version m \<and> payload_created m created"

definition created_text :: "raw_json \<Rightarrow> string option" where
  "created_text p = unmarshal (get_string ''created_at'') p"

definition created_in :: "string \<Rightarrow> raw_json \<Rightarrow> string option" where
  "created_in field p = unmarshal (\<lambda>kvs. Option.bind (get_object field kvs) (get_string ''created_at'')) p"

section \<open>Under the lease of a job\<close>

definition lease_fence :: "string \<Rightarrow> string \<Rightarrow> string \<Rightarrow> timestamp \<Rightarrow> db \<Rightarrow> store_error option" where
  "lease_fence host job token later d =
     (case job_metadata host job token later d of
        Inl e \<Rightarrow> Some e
      | Inr (_, t) \<Rightarrow> if keeps_recovery_point t then None else Some ErrLeaseLost)"

record upload_request =
  ur_point_id :: string
  ur_digest :: string
  ur_content_length :: int
  ur_body :: bytes
  ur_canceled :: "w32 \<Rightarrow> bool"
  ur_salt :: bytes

text \<open>\<open>later\<close> is the time of the fence, after the body was received.\<close>

definition upload_recovery_point ::
    "api_config \<Rightarrow> timestamp \<Rightarrow> timestamp \<Rightarrow> string \<Rightarrow> string \<Rightarrow> string \<Rightarrow> string \<Rightarrow> upload_request
      \<Rightarrow> server_state \<Rightarrow> unit reply \<times> server_state" where
  "upload_recovery_point cfg now later tmp host job token q s =
     (case ac_recovery cfg of
        None \<Rightarrow> (Refused 503 ''instance backup storage is not configured'', s)
      | Some pe \<Rightarrow>
          if (case job_metadata host job token now (sv_db s) of Inl _ \<Rightarrow> True
              | Inr (_, t) \<Rightarrow> \<not> keeps_recovery_point t)
          then (Refused 409 ''instance backup upload does not match an active job'', s)
          else if ur_content_length q < 1 \<or> ur_content_length q > ac_max_point_bytes cfg
          then (Refused 413 ''instance backup exceeds the configured size limit'', s)
          else (case upload_point (pe_seal pe) (ur_canceled q) (ur_salt q) (pe_key pe) (pe_max_bytes pe) later tmp
                  (ur_point_id q) host job (to_lower (trim_space (ur_digest q))) (ur_content_length q) (ur_body q)
                  (lease_fence host job token later (sv_db s)) (sv_points s) of
              (Inl _, as) \<Rightarrow> (Refused 409 ''instance backup upload was rejected'', s\<lparr>sv_points := acts as (sv_points s)\<rparr>)
            | (Inr _, as) \<Rightarrow> (Reply 204 (), s\<lparr>sv_points := acts as (sv_points s)\<rparr>)))"

definition verify_or_fail ::
    "point_env \<Rightarrow> timestamp \<Rightarrow> string \<Rightarrow> string \<Rightarrow> string \<Rightarrow> string \<Rightarrow> string \<Rightarrow> int \<Rightarrow> point_dir
      \<Rightarrow> unit reply \<times> point_dir" where
  "verify_or_fail pe now tmp i host job digest bytes f =
     (case verify_uploaded (pe_unseal pe) (pe_untar pe) (pe_key pe) (pe_max_bytes pe) now tmp i host job digest bytes f of
        (Inr _, as) \<Rightarrow> (Reply 204 (), acts as f)
      | (Inl e, as) \<Rightarrow>
          let f = acts as f in (Refused 409 ''instance backup could not be verified'',
            if integrity_error e then acts (snd (fail_point tmp i host job rejected_text f)) f else f))"

definition already_verified :: "string \<Rightarrow> string \<Rightarrow> string \<Rightarrow> int \<Rightarrow> (point_error + recovery_point) \<Rightarrow> bool" where
  "already_verified host job digest bytes r \<longleftrightarrow>
     (case settled_as PointReady host job r of
        None \<Rightarrow> False | Some m \<Rightarrow> pt_sha256 m = digest \<and> pt_size_bytes m = bytes)"

definition verify_recovery_point_for_update ::
    "api_config \<Rightarrow> timestamp \<Rightarrow> string \<Rightarrow> string \<Rightarrow> string \<Rightarrow> string \<Rightarrow> string \<Rightarrow> string \<Rightarrow> int
      \<Rightarrow> server_state \<Rightarrow> unit reply \<times> server_state" where
  "verify_recovery_point_for_update cfg now tmp host job token i digest bytes s =
     (case ac_recovery cfg of
        None \<Rightarrow> (Refused 503 ''instance backup storage is not configured'', s)
      | Some pe \<Rightarrow>
          if (case job_metadata host job token now (sv_db s) of Inl _ \<Rightarrow> True | Inr (_, t) \<Rightarrow> t \<noteq> JobHermesUpdate)
          then (Refused 409 ''instance backup verification does not match an active Hermes update'', s)
          else case active_job_payload JobHermesUpdate host job token now (sv_db s) of
              Inl _ \<Rightarrow> (Refused 409 ''Hermes update lease is no longer active'', s)
            | Inr payload \<Rightarrow>
          case decode_hermes_update payload of
              None \<Rightarrow> (Refused 409 ''Hermes update backup payload is invalid'', s)
            | Some u \<Rightarrow>
                if i \<noteq> rp_recovery_point_id (hp_backup u)
                then (Refused 409 ''instance backup does not belong to this Hermes update'', s)
                else if already_verified host job digest bytes (get_point i (sv_points s)) then (Reply 204 (), s)
                else let (r, f) = verify_or_fail pe now tmp i host job digest bytes (sv_points s)
                  in (r, s\<lparr>sv_points := f\<rparr>))"

section \<open>Download for a restore\<close>

text \<open>What a job may download: a point with its exact payload, or the backup of an update.\<close>

datatype download_claim =
    RestoreOf recovery_restore_payload "string option"
  | BackupOf recovery_point_payload "string option"

definition download_claim_of :: "job_type \<Rightarrow> raw_json \<Rightarrow> string + download_claim" where
  "download_claim_of t p =
     (if t = JobHermesUpdate then
        (case decode_hermes_update p of
           None \<Rightarrow> Inl ''Hermes update backup payload is invalid''
         | Some u \<Rightarrow> Inr (BackupOf (hp_backup u) (created_in ''backup'' p)))
      else if t = JobHermesUpgrade then
        (case decode_hermes_upgrade p of
           None \<Rightarrow> Inl ''Hermes update rollback payload is invalid''
         | Some u \<Rightarrow> if \<not> rt_require_image_id (hu_rollback u) then Inl ''Hermes update rollback payload is invalid''
             else Inr (RestoreOf (hu_rollback u) (created_in ''rollback'' p)))
      else case decode_recovery_restore p of
          None \<Rightarrow> Inl ''instance backup restore payload is invalid''
        | Some r \<Rightarrow> Inr (RestoreOf r (created_text p)))"

fun claimed_point :: "download_claim \<Rightarrow> string" where
  "claimed_point (RestoreOf p c) = rt_recovery_point_id p"
| "claimed_point (BackupOf p c) = rp_recovery_point_id p"

definition downloads_point :: "job_type \<Rightarrow> bool" where
  "downloads_point t \<longleftrightarrow> t \<in> {JobRecoveryRestore, JobHermesUpgrade, JobHermesUpdate}"

text \<open>The point in the state to be verified, or the refusal; an uploaded update backup is verified here.\<close>

definition prepare_download ::
    "point_env \<Rightarrow> timestamp \<Rightarrow> string \<Rightarrow> string \<Rightarrow> string \<Rightarrow> download_claim \<Rightarrow> recovery_point \<Rightarrow> point_dir
      \<Rightarrow> ((nat \<times> string) + (point_error + recovery_point)) \<times> point_dir" where
  "prepare_download pe now tmp host job c m f =
     (case c of
        BackupOf p created \<Rightarrow>
          if pt_job_id m \<noteq> job then (Inl (409, ''instance backup does not belong to this Hermes update''), f)
          else if \<not> point_payload_matches p created m
          then (Inl (409, ''instance backup does not match the active Hermes update''), f)
          else if pt_status m = PointCreating
          then (Inl (404, ''verified update backup is not available yet''), f)
          else if pt_status m = PointUploaded then
            (let (r, as) = verify_uploaded (pe_unseal pe) (pe_untar pe) (pe_key pe) (pe_max_bytes pe) now tmp
                 (pt_id m) host job (pt_sha256 m) (pt_size_bytes m) f
             in (Inr r, acts as f))
          else (Inr (Inr m), f)
      | RestoreOf p created \<Rightarrow>
          if \<not> restore_payload_matches p created m \<or> pt_status m \<noteq> PointReady
          then (Inl (409, ''instance backup does not match the active restore job''), f)
          else (Inr (Inr m), f))"

definition verified_stream ::
    "point_env \<Rightarrow> timestamp \<Rightarrow> string \<Rightarrow> recovery_point \<Rightarrow> point_dir \<Rightarrow> bytes reply \<times> point_dir" where
  "verified_stream pe now tmp m f =
     (if pt_status m \<noteq> PointReady then (Refused 409 ''verified instance backup is not available'', f)
      else case verify_point (pe_unseal pe) (pe_untar pe) (pe_key pe) (pe_max_bytes pe) now tmp (pt_id m) f of
          (Inl e, as) \<Rightarrow> (write_recovery_error e, acts as f)
        | (Inr m, as) \<Rightarrow>
            let f = acts as f in (Reply 200 (fst (stream_point (pe_unseal pe) (pe_key pe) (pt_id m) f)), f))"

definition download_claimed ::
    "point_env \<Rightarrow> timestamp \<Rightarrow> string \<Rightarrow> string \<Rightarrow> string \<Rightarrow> download_claim \<Rightarrow> point_dir \<Rightarrow> bytes reply \<times> point_dir" where
  "download_claimed pe now tmp host job c f =
     (case get_point (claimed_point c) f of
        Inl _ \<Rightarrow> (Refused 409 ''instance backup does not match the active restore job'', f)
      | Inr m \<Rightarrow>
          if pt_host_id m \<noteq> host then (Refused 409 ''instance backup does not match the active restore job'', f)
          else (case prepare_download pe now tmp host job c m f of
              (Inl (code, e), f) \<Rightarrow> (Refused code e, f)
            | (Inr (Inl e), f) \<Rightarrow> (write_recovery_error e, f)
            | (Inr (Inr m), f) \<Rightarrow> verified_stream pe now tmp m f))"

definition download_recovery_point_for_restore ::
    "api_config \<Rightarrow> timestamp \<Rightarrow> string \<Rightarrow> string \<Rightarrow> string \<Rightarrow> string \<Rightarrow> server_state \<Rightarrow> bytes reply \<times> server_state" where
  "download_recovery_point_for_restore cfg now tmp host job token s =
     (case ac_recovery cfg of
        None \<Rightarrow> (Refused 503 ''instance backup storage is not configured'', s)
      | Some pe \<Rightarrow>
     case job_metadata host job token now (sv_db s) of
        Inl _ \<Rightarrow> (Refused 409 ''instance backup download lease is no longer active'', s)
      | Inr (_, t) \<Rightarrow>
     if \<not> downloads_point t then (Refused 409 ''instance backup download lease is no longer active'', s)
     else case active_job_payload t host job token now (sv_db s) of
        Inl _ \<Rightarrow> (Refused 409 ''instance backup download lease is no longer active'', s)
      | Inr payload \<Rightarrow>
     case download_claim_of t payload of
        Inl e \<Rightarrow> (Refused 409 e, s)
      | Inr c \<Rightarrow>
          let (r, f) = download_claimed pe now tmp host job c (sv_points s) in (r, s\<lparr>sv_points := f\<rparr>))"

section \<open>The administrator's handlers\<close>

definition list_recovery_points :: "api_config \<Rightarrow> string \<Rightarrow> server_state \<Rightarrow> recovery_point list reply" where
  "list_recovery_points cfg i s =
     (case ac_recovery cfg of
        None \<Rightarrow> Refused 503 ''instance backup storage is not configured''
      | Some _ \<Rightarrow>
     case get_instance i (sv_db s) of
        Inl _ \<Rightarrow> Refused 404 ''instance not found''
      | Inr _ \<Rightarrow> (case list_points i (sv_points s) of
            Inl _ \<Rightarrow> Refused 500 ''instance backups could not be listed'' | Inr ms \<Rightarrow> Reply 200 ms))"

definition backup_reservation :: "request_env \<Rightarrow> instance_view \<Rightarrow> host \<Rightarrow> reservation" where
  "backup_reservation env v h = (update_reservation env v h '''')\<lparr>rv_automated := False\<rparr>"

definition backup_operation :: "request_env \<Rightarrow> instance_view \<Rightarrow> string \<Rightarrow> recovery_point \<Rightarrow> operation" where
  "backup_operation env v workflow m = pending_operation env (in_id v) workflow ''FLEET_ADMIN''
     (OpOther ''RECOVERY_POINT'') (''Create backup '' @ in_name v)
     (operation_metadata [(''workflow_step'', JString ''backup''), (''backup_id'', JString (pt_id m))])"

definition queue_backup ::
    "api_config \<Rightarrow> point_env \<Rightarrow> request_env \<Rightarrow> instance_view \<Rightarrow> host \<Rightarrow> string \<Rightarrow> server_state
      \<Rightarrow> recovery_point reply \<times> server_state" where
  "queue_backup cfg pe env v h workflow s =
     (let (r, as) = reserve_point (pe_limit pe) (qe_now env) (qe_random env) (qe_tmp env)
            (backup_reservation env v h) (sv_points s);
          s = s\<lparr>sv_points := acts as (sv_points s)\<rparr>
      in case r of
          Inl e \<Rightarrow> (write_recovery_error e, s)
        | Inr m \<Rightarrow>
            let op = backup_operation env v workflow m;
                j = pending_job env op (in_host_id v) JobRecoveryCreate
                  (encode_recovery_point (format_rfc3339_nano (pt_created_at m))
                    (update_backup_payload (ac_max_point_bytes cfg) v h m))
            in case queue_action InstanceStopped InstanceBackingUp op j (sv_db s) of
                Inl e \<Rightarrow> (write_queue_error ''instance state changed before the backup was queued'' e,
                  s\<lparr>sv_points := acts (snd (abort_point (pt_id m) (j_id j) (sv_points s))) (sv_points s)\<rparr>)
              | Inr d \<Rightarrow> (Reply 202 m, s\<lparr>sv_db := d\<rparr>))"

definition create_recovery_point ::
    "api_config \<Rightarrow> bool \<Rightarrow> request_env \<Rightarrow> string \<Rightarrow> string \<Rightarrow> server_state \<Rightarrow> recovery_point reply \<times> server_state" where
  "create_recovery_point cfg capacity_ok env i workflow s = require_operation_capacity capacity_ok s
     (case ac_recovery cfg of
        None \<Rightarrow> (Refused 503 ''instance backup storage is not configured'', s)
      | Some pe \<Rightarrow>
     case get_instance i (sv_db s) of
        Inl _ \<Rightarrow> (Refused 404 ''instance not found'', s)
      | Inr v \<Rightarrow>
     if \<not> valid_workflow_id workflow then (Refused 400 ''workflow identity is invalid'', s)
     else if in_status v \<noteq> InstanceStopped
     then (Refused 409 ''instance backups can only be created while the instance is stopped'', s)
     else if \<not> has_runtime_metadata v then (Refused 409 ''instance runtime metadata is incomplete'', s)
     else case current_agent cfg (qe_now env) (in_host_id v) (sv_db s)
            ''the instance Host Agent is offline'' (''instance backups require Host Agent '' @ agent_version) of
          Inl e \<Rightarrow> (Refused 409 e, s)
        | Inr h \<Rightarrow> queue_backup cfg pe env v h workflow s)"

definition verify_recovery_point ::
    "point_env \<Rightarrow> timestamp \<Rightarrow> string \<Rightarrow> string \<Rightarrow> server_state \<Rightarrow> recovery_point reply \<times> server_state" where
  "verify_recovery_point pe now tmp i s =
     (let (r, as) = verify_point (pe_unseal pe) (pe_untar pe) (pe_key pe) (pe_max_bytes pe) now tmp i (sv_points s)
      in (case r of Inl e \<Rightarrow> write_recovery_error e | Inr m \<Rightarrow> Reply 200 m,
          s\<lparr>sv_points := acts as (sv_points s)\<rparr>))"

definition owned_by_instance :: "recovery_point \<Rightarrow> instance_view \<Rightarrow> bool" where
  "owned_by_instance m v \<longleftrightarrow> pt_instance_name m = in_name v \<and> pt_host_id m = in_host_id v
     \<and> pt_project_name m = in_project_name v \<and> pt_data_volume m = in_data_volume v
     \<and> pt_managed_path m = in_managed_path v"

definition restore_payload :: "int \<Rightarrow> recovery_point \<Rightarrow> recovery_restore_payload" where
  "restore_payload max_bytes m =
     \<lparr>rt_recovery_point_id = pt_id m, rt_instance_id = pt_instance_id m, rt_name = pt_instance_name m,
      rt_image = pt_image m, rt_image_id = pt_image_id m, rt_require_image_id = False,
      rt_provider = pt_provider m, rt_model = pt_model m, rt_reasoning = pt_reasoning m,
      rt_service_tier = pt_service_tier m, rt_codex_configured = pt_codex_configured m,
      rt_project_name = pt_project_name m, rt_data_volume = pt_data_volume m,
      rt_managed_path = pt_managed_path m, rt_agent_version = pt_agent_version m,
      rt_recovery_sha256 = pt_sha256 m, rt_recovery_size_bytes = pt_size_bytes m,
      rt_max_bytes = max_bytes\<rparr>"

definition restore_operation :: "request_env \<Rightarrow> instance_view \<Rightarrow> recovery_point \<Rightarrow> operation" where
  "restore_operation env v m = pending_operation env (in_id v) '''' '''' (OpOther ''RESTORE'')
     (''Restore '' @ pt_filename m @ '' to '' @ in_name v)
     (operation_metadata [(''backup_id'', JString (pt_id m))])"

definition queue_restore ::
    "api_config \<Rightarrow> request_env \<Rightarrow> instance_view \<Rightarrow> recovery_point \<Rightarrow> server_state \<Rightarrow> operation reply \<times> server_state" where
  "queue_restore cfg env v m s =
     (let op = restore_operation env v m;
          j = pending_job env op (in_host_id v) JobRecoveryRestore
            (encode_recovery_restore (format_rfc3339_nano (pt_created_at m))
              (restore_payload (ac_max_point_bytes cfg) m))
      in case queue_action InstanceStopped InstanceRestoring op j (sv_db s) of
          Inl e \<Rightarrow> (write_queue_error ''instance state changed before the backup restore was queued'' e, s)
        | Inr d \<Rightarrow> (Reply 202 op, s\<lparr>sv_db := d\<rparr>))"

definition restore_recovery_point ::
    "api_config \<Rightarrow> bool \<Rightarrow> request_env \<Rightarrow> string \<Rightarrow> string \<Rightarrow> server_state \<Rightarrow> operation reply \<times> server_state" where
  "restore_recovery_point cfg capacity_ok env i confirm s = require_operation_capacity capacity_ok s
     (case ac_recovery cfg of
        None \<Rightarrow> (Refused 503 ''instance backup storage is not configured'', s)
      | Some _ \<Rightarrow>
     case get_point i (sv_points s) of
        Inl e \<Rightarrow> (write_recovery_error e, s)
      | Inr m \<Rightarrow>
     if pt_status m \<noteq> PointReady then (Refused 409 ''only a verified instance backup can be restored'', s)
     else case get_instance (pt_instance_id m) (sv_db s) of
        Inl _ \<Rightarrow> (Refused 404 ''instance backup owner was not found'', s)
      | Inr v \<Rightarrow>
     if confirm \<noteq> in_name v then (Refused 400 ''instance name confirmation does not match'', s)
     else if in_status v \<noteq> InstanceStopped
     then (Refused 409 ''stop the instance before restoring a backup'', s)
     else if \<not> owned_by_instance m v
     then (Refused 409 ''backup ownership does not match the exact Fleet instance'', s)
     else case current_agent cfg (qe_now env) (in_host_id v) (sv_db s)
            ''the instance Host Agent is offline'' (''instance backup restore requires Host Agent '' @ agent_version) of
          Inl e \<Rightarrow> (Refused 409 e, s)
        | Inr _ \<Rightarrow> queue_restore cfg env v m s)"

definition download_recovery_point :: "point_env \<Rightarrow> string \<Rightarrow> server_state \<Rightarrow> bytes reply" where
  "download_recovery_point pe i s =
     (case get_point i (sv_points s) of
        Inl e \<Rightarrow> write_recovery_error e
      | Inr m \<Rightarrow>
          if pt_status m \<noteq> PointReady then Refused 409 ''instance backup is not ready for download''
          else Reply 200 (fst (stream_point (pe_unseal pe) (pe_key pe) i (sv_points s))))"

definition delete_recovery_point ::
    "api_config \<Rightarrow> bool \<Rightarrow> string \<Rightarrow> string \<Rightarrow> server_state \<Rightarrow> unit reply \<times> server_state" where
  "delete_recovery_point cfg canceled i confirm s =
     (case ac_recovery cfg of
        None \<Rightarrow> (Refused 503 ''instance backup storage is not configured'', s)
      | Some _ \<Rightarrow>
     case has_active_recovery_point_reference i (sv_db s) of
        Inl _ \<Rightarrow> (Refused 500 ''could not verify whether the instance backup is in use'', s)
      | Inr True \<Rightarrow> (Refused 409 ''instance backup is used by an active operation'', s)
      | Inr False \<Rightarrow>
          let (r, as) = delete_point canceled i confirm (sv_points s)
          in (case r of Inl e \<Rightarrow> write_recovery_error e | Inr _ \<Rightarrow> Reply 204 (),
              s\<lparr>sv_points := acts as (sv_points s)\<rparr>))"

end
