(* ===== verification/Api_Access.thy ===== *)
theory Api_Access
  imports Api_Jobs Api_Actions
begin

text \<open>
  Who may call and what is revealed, in \<open>internal/api/server.go\<close> and \<open>internal/security/token.go\<close>:
  the two authentication wrappers, enrolment, rotation and heartbeat of a host, the sign-in of a
  provider and the runtime configuration it allows, and the one-time reveal of credentials. A
  generated token and the sealer are arguments.
\<close>

section \<open>Authentication\<close>

definition hash_token :: "string \<Rightarrow> string" where
  "hash_token t = hex_encode (sha256 (map byte_of t))"

text \<open>\<open>security.Equal\<close> compares in constant time.\<close>

definition bearer_token :: "string \<Rightarrow> string" where
  "bearer_token header = (if has_prefix header ''Bearer '' then drop 7 header else '''')"

definition require_admin :: "string \<Rightarrow> string \<Rightarrow> 'a reply \<times> 's \<Rightarrow> 's \<Rightarrow> 'a reply \<times> 's" where
  "require_admin admin_token header r s =
     (if bearer_token header \<noteq> admin_token then (Refused 401 ''admin authentication required'', s) else r)"

definition agent_authentic :: "string \<Rightarrow> string \<Rightarrow> db \<Rightarrow> bool" where
  "agent_authentic host header d \<longleftrightarrow>
     (case host_token_hash host d of Inl _ \<Rightarrow> False | Inr h \<Rightarrow> hash_token (bearer_token header) = h)"

definition require_agent :: "string \<Rightarrow> string \<Rightarrow> db \<Rightarrow> 'a reply \<times> 's \<Rightarrow> 's \<Rightarrow> 'a reply \<times> 's" where
  "require_agent host header d r s =
     (if host = '''' then (Refused 401 ''host identity required'', s)
      else if \<not> agent_authentic host header d then (Refused 401 ''invalid host credential'', s)
      else r)"

section \<open>Hosts\<close>

record enroll_request =
  eq_token :: string
  eq_name :: string
  eq_hostname :: string
  eq_os :: string
  eq_arch :: string
  eq_agent_version :: string

definition host_name_text :: string where
  "host_name_text = ''host name must match ^[a-z][a-z0-9-]{2,31}$''"

text \<open>The reply is the id of the host with its token.\<close>

definition enroll_agent ::
    "string \<Rightarrow> timestamp \<Rightarrow> string \<Rightarrow> string \<Rightarrow> enroll_request \<Rightarrow> db \<Rightarrow> (string \<times> string) reply \<times> db" where
  "enroll_agent enrollment_token now host_id host_token q d =
     (if eq_token q \<noteq> enrollment_token then (Refused 401 ''invalid enrollment token'', d)
      else if \<not> instance_name_pattern (eq_name q) then (Refused 400 host_name_text, d)
      else case enroll_host \<lparr>h_id = host_id, h_name = eq_name q, h_hostname = eq_hostname q, h_os = eq_os q,
             h_arch = eq_arch q, h_agent_version = eq_agent_version q, h_last_seen_at = now,
             h_created_at = now\<rparr> (hash_token host_token) d of
          Inl _ \<Rightarrow> (Refused 409 ''host name is already enrolled'', d)
        | Inr d' \<Rightarrow> (Reply 201 (host_id, host_token), d'))"

record rotate_request =
  tq_confirm_name :: string
  tq_hostname :: string
  tq_os :: string
  tq_arch :: string
  tq_agent_version :: string

definition rotation_fields_ok :: "rotate_request \<Rightarrow> bool" where
  "rotation_fields_ok q \<longleftrightarrow> tq_hostname q \<noteq> '''' \<and> tq_os q \<noteq> '''' \<and> tq_arch q \<noteq> '''' \<and> tq_agent_version q \<noteq> ''''
     \<and> length (tq_hostname q) \<le> 255 \<and> length (tq_os q) \<le> 64 \<and> length (tq_arch q) \<le> 64
     \<and> length (tq_agent_version q) \<le> 64"

definition rotation_failure :: "store_error \<Rightarrow> 'a reply" where
  "rotation_failure e =
     (if e = ErrNotFound then Refused 404 ''host not found''
      else if e = ErrHostIdentityMismatch then Refused 409 ''host identity confirmation does not match''
      else if e = ErrHostBusy \<or> e = ErrStateChanged
      then Refused 409 ''host credential cannot be rotated while the host has active jobs''
      else Refused 500 ''host credential could not be rotated'')"

definition rotate_host_credential_handler ::
    "string \<Rightarrow> string \<Rightarrow> rotate_request \<Rightarrow> db \<Rightarrow> (string \<times> string) reply \<times> db" where
  "rotate_host_credential_handler host_id host_token q d =
     (if \<not> observation_identity_pattern host_id then (Refused 400 ''host identity is invalid'', d)
      else if \<not> instance_name_pattern (tq_confirm_name q) then (Refused 400 host_name_text, d)
      else if \<not> rotation_fields_ok q
      then (Refused 400 ''hostname, os, arch, and agent_version are required'', d)
      else if tq_agent_version q \<noteq> agent_version
      then (Refused 409 ''Host Agent version must match Hermes Fleet Manager'', d)
      else case rotate_host_credential host_id (tq_confirm_name q) (tq_hostname q) (tq_os q) (tq_arch q)
              (hash_token host_token) d of
          Inl e \<Rightarrow> (rotation_failure e, d)
        | Inr d' \<Rightarrow> (Reply 200 (host_id, host_token), d'))"

definition agent_heartbeat ::
    "string \<Rightarrow> string \<Rightarrow> string \<Rightarrow> string \<Rightarrow> string \<Rightarrow> timestamp \<Rightarrow> db \<Rightarrow> unit reply \<times> db" where
  "agent_heartbeat host hostname os arch version now d =
     (case heartbeat host hostname os arch version now d of
        Inl _ \<Rightarrow> (Refused 500 ''heartbeat could not be recorded'', d)
      | Inr d' \<Rightarrow> (Reply 204 (), d'))"

section \<open>Sign-in of a provider\<close>

definition provider_label :: "string \<Rightarrow> string" where
  "provider_label p = (case lookup_provider p of Some e \<Rightarrow> pe_label e | None \<Rightarrow> p)"

definition or_provider :: "string \<Rightarrow> instance_view \<Rightarrow> string" where
  "or_provider p v = (let p = trim_space p in if p = '''' then in_provider v else p)"

definition auth_operation :: "request_env \<Rightarrow> instance_view \<Rightarrow> string \<Rightarrow> operation" where
  "auth_operation env v provider = pending_operation env (in_id v) '''' '''' OpCodexAuth
     (''Authenticate '' @ provider_label provider @ '' '' @ in_name v) None"

definition auth_payload :: "instance_view \<Rightarrow> string \<Rightarrow> codex_auth_payload" where
  "auth_payload v provider = \<lparr>cx_instance_id = in_id v, cx_name = in_name v,
     cx_project_name = in_project_name v, cx_managed_path = in_managed_path v, cx_provider = provider\<rparr>"

definition new_auth_session :: "request_env \<Rightarrow> instance_view \<Rightarrow> string \<Rightarrow> codex_auth_session" where
  "new_auth_session env v provider =
     \<lparr>ca_operation_id = qe_operation_id env, ca_session_instance_id = in_id v,
      ca_session_provider = provider, ca_session_status = OperationPending, ca_stage = '''',
      ca_verification_uri = '''', ca_user_code = '''', ca_expires_at = None, ca_error = '''',
      ca_created_at = qe_now env, ca_updated_at = qe_now env\<rparr>"

text \<open>When the instance is busy with a sign-in of the same provider, that one is the reply.\<close>

definition queue_sign_in ::
    "request_env \<Rightarrow> instance_view \<Rightarrow> string \<Rightarrow> db \<Rightarrow> codex_auth_session reply \<times> db" where
  "queue_sign_in env v provider d =
     (let op = auth_operation env v provider in
      case queue_codex_auth op
          (pending_job env op (in_host_id v) JobAuthCodex (encode_codex_auth (auth_payload v provider))) d of
        Inr d' \<Rightarrow> (Reply 202 (new_auth_session env v provider), d')
      | Inl e \<Rightarrow>
          (case (if e = ErrStateChanged \<or> e = ErrInstanceBusy
                 then get_active_codex_auth_session (in_id v) provider d else Inl ErrNotFound) of
             Inr active \<Rightarrow> (Reply 202 active, d)
           | Inl _ \<Rightarrow> (write_queue_error ''Codex authentication could not be queued'' e, d)))"

definition start_codex_auth ::
    "api_config \<Rightarrow> request_env \<Rightarrow> string \<Rightarrow> string \<Rightarrow> db \<Rightarrow> codex_auth_session reply \<times> db" where
  "start_codex_auth cfg env i requested d =
     (case get_instance i d of
        Inl _ \<Rightarrow> (Refused 404 ''instance not found'', d)
      | Inr v \<Rightarrow>
          let provider = or_provider requested v in
          if \<not> is_instance_oauth provider
          then (Refused 409 ''provider authentication is only available for an instance OAuth configuration'', d)
          else if in_status v \<noteq> InstanceRunning
          then (Refused 409 ''start the instance before authenticating the provider'', d)
          else if in_project_name v = '''' \<or> in_managed_path v = '''' \<or> in_image_id v = ''''
          then (Refused 409 ''instance runtime metadata is incomplete'', d)
          else (case current_agent cfg (qe_now env) (in_host_id v) d ''the instance Host Agent is offline''
              (''provider authentication requires Host Agent '' @ agent_version) of
             Inl e \<Rightarrow> (Refused 409 e, d)
           | Inr _ \<Rightarrow> queue_sign_in env v provider d))"

definition get_codex_auth :: "string \<Rightarrow> string \<Rightarrow> db \<Rightarrow> codex_auth_session reply" where
  "get_codex_auth i op d =
     (case get_codex_auth_session i op d of
        Inl _ \<Rightarrow> Refused 404 ''Codex authentication session not found'' | Inr s \<Rightarrow> Reply 200 s)"

definition cancel_codex_auth_handler :: "string \<Rightarrow> string \<Rightarrow> timestamp \<Rightarrow> db \<Rightarrow> unit reply \<times> db" where
  "cancel_codex_auth_handler i op now d =
     (case cancel_codex_auth i op ''Codex authentication canceled by administrator'' now d of
        Inr d' \<Rightarrow> (Reply 204 (), d')
      | Inl e \<Rightarrow>
          (if e = ErrNotFound then Refused 404 ''Codex authentication session not found''
           else if e = ErrStateChanged then Refused 409 ''Codex authentication is no longer active''
           else Refused 500 ''Codex authentication could not be canceled'', d))"

section \<open>The runtime of a provider\<close>

record codex_request =
  dq_provider :: string
  dq_model :: string
  dq_reasoning :: string
  dq_service_tier :: string

definition cleaned_codex_request :: "codex_request \<Rightarrow> instance_view \<Rightarrow> codex_request" where
  "cleaned_codex_request q v = \<lparr>dq_provider = or_provider (dq_provider q) v,
     dq_model = trim_space (dq_model q), dq_reasoning = trim_space (dq_reasoning q),
     dq_service_tier = trim_space (dq_service_tier q)\<rparr>"

text \<open>The models that the last observation lists for the provider; none without an observation.\<close>

definition offered_models :: "string \<Rightarrow> string \<Rightarrow> db \<Rightarrow> string list" where
  "offered_models i provider d =
     (case get_instance_provider_model_catalog i provider d of Inl _ \<Rightarrow> [] | Inr (models, _) \<Rightarrow> models)"

definition codex_refusal ::
    "api_config \<Rightarrow> timestamp \<Rightarrow> release_catalog option option \<Rightarrow> codex_request \<Rightarrow> instance_view \<Rightarrow> db
      \<Rightarrow> (nat \<times> string) option" where
  "codex_refusal cfg now listed q v d =
     (if \<not> is_instance_oauth (dq_provider q)
      then Some (409, ''provider configuration is only available for an instance OAuth provider'')
      else case validate_runtime (dq_provider q) (dq_model q) (dq_reasoning q) (dq_service_tier q) of
          Some e \<Rightarrow> Some (400, e)
        | None \<Rightarrow>
      case validate_runtime_capabilities (dq_provider q) (dq_model q) (dq_reasoning q) (dq_service_tier q) of
          Some e \<Rightarrow> Some (400, e)
        | None \<Rightarrow>
      let models = offered_models (in_id v) (dq_provider q) d in
      if models = [] then Some (409, ''refresh diagnostics before choosing a provider model'')
      else if dq_model q \<notin> set models
      then Some (400, ''the selected model is not supported by this Hermes version'')
      else if \<not> has_fresh_observation_check (in_id v) (observation_auth_check_name (dq_provider q)) CheckOK
          (now - ac_stale_after cfg) d
      then Some (409, ''authenticate the provider before choosing its model'')
      else if refresh_required_for cfg now listed v
      then Some (409, ''refresh the managed runtime before applying provider configuration'')
      else if \<not> has_runtime_metadata v then Some (409, ''instance runtime metadata is incomplete'')
      else case current_agent cfg now (in_host_id v) d
          (''the instance requires an online Host Agent '' @ agent_version)
          (''the instance requires an online Host Agent '' @ agent_version) of
        Inl e \<Rightarrow> Some (409, e) | Inr _ \<Rightarrow> None)"

definition configure_payload :: "codex_request \<Rightarrow> instance_view \<Rightarrow> runtime_sync_payload" where
  "configure_payload q v = (sync_payload_of v)\<lparr>rs_provider := dq_provider q, rs_model := dq_model q,
     rs_reasoning := dq_reasoning q, rs_service_tier := dq_service_tier q\<rparr>"

definition configure_operation :: "request_env \<Rightarrow> codex_request \<Rightarrow> instance_view \<Rightarrow> operation" where
  "configure_operation env q v = pending_operation env (in_id v) '''' '''' (OpOther ''CONFIGURE_CODEX'')
     (''Configure '' @ provider_label (dq_provider q) @ '' '' @ in_name v) None"

definition configure_codex ::
    "api_config \<Rightarrow> release_catalog option option \<Rightarrow> request_env \<Rightarrow> string \<Rightarrow> codex_request \<Rightarrow> db
      \<Rightarrow> operation reply \<times> db" where
  "configure_codex cfg listed env i q d =
     (case get_instance i d of
        Inl _ \<Rightarrow> (Refused 404 ''instance not found'', d)
      | Inr v \<Rightarrow>
          if \<not> stable v then (Refused 409 ''wait for the current instance operation to finish'', d)
          else let q = cleaned_codex_request q v in
            (case codex_refusal cfg (qe_now env) listed q v d of
               Some (code, e) \<Rightarrow> (Refused code e, d)
             | None \<Rightarrow>
                 let op = configure_operation env q v in
                 (case queue_action (in_status v) InstanceUpdating op
                    (pending_job env op (in_host_id v) JobRuntimeConfigure
                      (encode_runtime_sync (configure_payload q v))) d of
                    Inl e \<Rightarrow> (write_queue_error ''Codex configuration could not be queued'' e, d)
                  | Inr d' \<Rightarrow> (Reply 202 op, d'))))"

section \<open>Credentials\<close>

definition reveal_type :: operation_type where
  "reveal_type = OpOther ''CREDENTIAL_REVEAL''"

definition reveal_operation :: "request_env \<Rightarrow> instance_view \<Rightarrow> operation" where
  "reveal_operation env v = pending_operation env (in_id v) '''' '''' reveal_type
     (''Reveal credentials '' @ in_name v) None"

definition reveal_payload :: "instance_view \<Rightarrow> action_payload" where
  "reveal_payload v =
     \<lparr>ap_instance_id = in_id v, ap_name = in_name v, ap_image = '''', ap_project_name = in_project_name v,
      ap_managed_path = in_managed_path v, ap_image_id = '''', ap_provider = '''', ap_model = '''',
      ap_reasoning = '''', ap_service_tier = '''', ap_api_port = in_api_port v, ap_dashboard_port = 0,
      ap_preserve_data = True\<rparr>"

definition queue_reveal :: "request_env \<Rightarrow> instance_view \<Rightarrow> db \<Rightarrow> operation reply \<times> db" where
  "queue_reveal env v d =
     (let op = reveal_operation env v in
      case queue_inspection None op
          (pending_job env op (in_host_id v) JobInspectCredentials (encode_action (reveal_payload v))) d of
        Inr d' \<Rightarrow> (Reply 202 op, d')
      | Inl e \<Rightarrow> (write_queue_error
          (if e = ErrInstanceBusy
           then ''the instance is busy with another operation; wait for it to finish, then retry''
           else ''credential inspection could not be queued'') e, d))"

definition request_credentials ::
    "api_config \<Rightarrow> request_env \<Rightarrow> string \<Rightarrow> db \<Rightarrow> operation reply \<times> db" where
  "request_credentials cfg env i d =
     (case get_instance i d of
        Inl _ \<Rightarrow> (Refused 404 ''instance not found'', d)
      | Inr v \<Rightarrow>
          if in_managed_path v = '''' \<or> \<not> stable v
          then (Refused 409 ''credentials are only available for a provisioned running or stopped instance'', d)
          else (case current_agent cfg (qe_now env) (in_host_id v) d ''the instance Host Agent is offline''
              (''credential inspection requires Host Agent '' @ agent_version) of
             Inl e \<Rightarrow> (Refused 409 e, d)
           | Inr _ \<Rightarrow> queue_reveal env v d))"

text \<open>\<open>Left\<close> the operation while it is open, \<open>Right\<close> the credentials and until when.\<close>

type_synonym credentials = "string \<times> string \<times> string"

definition open_reveal ::
    "(string \<Rightarrow> string \<Rightarrow> credentials option) \<Rightarrow> string \<Rightarrow> timestamp \<Rightarrow> db
      \<Rightarrow> (operation + credentials \<times> timestamp) reply \<times> db" where
  "open_reveal open_sealed op now d =
     (case get_credential_reveal op now d of
        (Inl _, d) \<Rightarrow> (Refused 410 ''credential reveal expired'', d)
      | (Inr (ciphertext, until), d) \<Rightarrow>
          (case open_sealed ciphertext op of
             None \<Rightarrow> (Refused 500 ''credential reveal could not be decrypted'', d)
           | Some c \<Rightarrow> (Reply 200 (Inr (c, until)), d)))"

definition get_credential_reveal_handler ::
    "(string \<Rightarrow> string \<Rightarrow> credentials option) \<Rightarrow> string \<Rightarrow> timestamp \<Rightarrow> db
      \<Rightarrow> (operation + credentials \<times> timestamp) reply \<times> db" where
  "get_credential_reveal_handler open_sealed i now d =
     (case get_operation i d of
        Inl _ \<Rightarrow> (Refused 404 ''credential reveal not found'', d)
      | Inr op \<Rightarrow>
          if op_type op \<noteq> reveal_type then (Refused 404 ''credential reveal not found'', d)
          else if op_status op = OperationFailed then (Refused 409 (op_error op), d)
          else if op_status op \<noteq> OperationSucceeded then (Reply 202 (Inl op), d)
          else open_reveal open_sealed i now d)"

end
