(* ===== verification/Api_Configs.thy ===== *)
theory Api_Configs
  imports Api_Access
begin

text \<open>
  The messaging and MCP configurations of an instance in \<open>internal/api/server.go\<close>: what an
  administrator reads (tokens only as hints), what a new configuration keeps of the stored one, the
  job that applies it, and what the Host Agent downloads for that job. A configuration is sealed with
  its instance as the context; sealing, opening and the digest that becomes the revision are an
  argument, one for each kind. The masks of the hints are bullets outside ASCII; they are one
  constant text here.
\<close>

record 'c config_sealer =
  sc_seal :: "'c \<Rightarrow> string \<Rightarrow> string option"
  sc_open :: "string \<Rightarrow> string \<Rightarrow> 'c option"
  sc_digest :: "'c \<Rightarrow> string"

definition mask :: string where
  "mask = ''********''"

definition get_messaging_config :: "string \<Rightarrow> db \<Rightarrow> config_row result" where
  "get_messaging_config i d =
     (case find_row cf_instance_id i (db_messaging d) of None \<Rightarrow> Inl ErrNotFound | Some r \<Rightarrow> Inr r)"

definition get_mcp_config :: "string \<Rightarrow> db \<Rightarrow> config_row result" where
  "get_mcp_config i d =
     (case find_row cf_instance_id i (db_mcp d) of None \<Rightarrow> Inl ErrNotFound | Some r \<Rightarrow> Inr r)"

section \<open>Opening\<close>

text \<open>An opened configuration is normalized again; \<open>None\<close> is any failure.\<close>

definition opened :: "'c config_sealer option \<Rightarrow> ('c \<Rightarrow> string + 'c) \<Rightarrow> string \<Rightarrow> config_row \<Rightarrow> 'c option" where
  "opened sealer norm_form prefix r =
     (case sealer of
        None \<Rightarrow> None
      | Some sl \<Rightarrow>
          (case sc_open sl (cf_ciphertext r) (prefix @ cf_instance_id r) of
             None \<Rightarrow> None
           | Some c \<Rightarrow> (case norm_form c of Inl _ \<Rightarrow> None | Inr c \<Rightarrow> Some c)))"

definition messaging_context :: string where "messaging_context = ''instance-messaging:''"
definition mcp_context :: string where "mcp_context = ''instance-mcp:''"

definition open_messaging_configuration ::
    "messaging_configuration config_sealer option \<Rightarrow> url_parser \<Rightarrow> config_row \<Rightarrow> messaging_configuration option" where
  "open_messaging_configuration sealer parse = opened sealer (normalize_messaging parse) messaging_context"

definition open_mcp_configuration ::
    "mcp_configuration config_sealer option \<Rightarrow> url_parser \<Rightarrow> config_row \<Rightarrow> mcp_configuration option" where
  "open_mcp_configuration sealer parse = opened sealer (normalize_mcp parse) mcp_context"

section \<open>Views\<close>

definition telegram_token_hint :: "string \<Rightarrow> string" where
  "telegram_token_hint token =
     (let t = trim_space token; bot = takeWhile (\<lambda>c. c \<noteq> CHR '':'') t in
      if CHR '':'' \<notin> set t \<or> bot = '''' \<or> \<not> list_all is_digit bot
      then (if t = '''' then '''' else mask)
      else bot @ '':'' @ mask)"

text \<open>What is shown: the configuration without its token, and the row that stores it.\<close>

record messaging_view =
  mv_configuration :: messaging_configuration
  mv_token_configured :: bool
  mv_token_hint :: string
  mv_row :: "config_row option"

definition messaging_view_of :: "messaging_configuration \<Rightarrow> config_row option \<Rightarrow> messaging_view" where
  "messaging_view_of c r =
     \<lparr>mv_configuration = c\<lparr>mg_telegram := (mg_telegram c)\<lparr>tg_bot_token := ''''\<rparr>\<rparr>,
      mv_token_configured = (tg_bot_token (mg_telegram c) \<noteq> ''''),
      mv_token_hint = telegram_token_hint (tg_bot_token (mg_telegram c)), mv_row = r\<rparr>"

record mcp_server_view =
  xv_server :: mcp_server
  xv_token_configured :: bool
  xv_token_hint :: string

definition mcp_server_view_of :: "mcp_server \<Rightarrow> mcp_server_view" where
  "mcp_server_view_of s = \<lparr>xv_server = s\<lparr>ms_bearer_token := ''''\<rparr>,
     xv_token_configured = (ms_bearer_token s \<noteq> ''''),
     xv_token_hint = (if ms_bearer_token s \<noteq> '''' then mask else '''')\<rparr>"

definition mcp_view :: "mcp_configuration \<Rightarrow> config_row option \<Rightarrow> mcp_server_view list \<times> config_row option" where
  "mcp_view c r = (map mcp_server_view_of c, r)"

text \<open>\<open>prefix\<close> is the default reply prefix, a text outside ASCII.\<close>

definition default_messaging_configuration :: "string \<Rightarrow> messaging_configuration" where
  "default_messaging_configuration reply_prefix =
     \<lparr>mg_telegram = \<lparr>tg_enabled = False, tg_bot_token = '''', tg_allowed_users = [],
        tg_group_allowed_users = [], tg_group_allowed_chats = [], tg_require_mention = True,
        tg_proxy_url = ''''\<rparr>,
      mg_whatsapp = \<lparr>wa_enabled = False, wa_mode = ''bot'', wa_allowed_users = [],
        wa_unauthorized_behavior = ''ignore'', wa_reply_prefix = reply_prefix\<rparr>\<rparr>"

definition get_messaging_configuration ::
    "messaging_configuration config_sealer option \<Rightarrow> url_parser \<Rightarrow> string \<Rightarrow> string \<Rightarrow> db \<Rightarrow> messaging_view reply" where
  "get_messaging_configuration sealer parse reply_prefix i d =
     (case get_instance i d of
        Inl _ \<Rightarrow> Refused 404 ''instance not found''
      | Inr _ \<Rightarrow>
     case get_messaging_config i d of
        Inl _ \<Rightarrow> Reply 200 (messaging_view_of (default_messaging_configuration reply_prefix) None)
      | Inr r \<Rightarrow>
          (case open_messaging_configuration sealer parse r of
             None \<Rightarrow> Refused 500 ''messaging configuration could not be decrypted''
           | Some c \<Rightarrow> Reply 200 (messaging_view_of c (Some r))))"

definition get_mcp_configuration ::
    "mcp_configuration config_sealer option \<Rightarrow> url_parser \<Rightarrow> string \<Rightarrow> db
      \<Rightarrow> (mcp_server_view list \<times> config_row option) reply" where
  "get_mcp_configuration sealer parse i d =
     (case get_instance i d of
        Inl _ \<Rightarrow> Refused 404 ''instance not found''
      | Inr _ \<Rightarrow>
     case get_mcp_config i d of
        Inl _ \<Rightarrow> Reply 200 (mcp_view [] None)
      | Inr r \<Rightarrow>
          (case open_mcp_configuration sealer parse r of
             None \<Rightarrow> Refused 500 ''MCP configuration could not be decrypted''
           | Some c \<Rightarrow> Reply 200 (mcp_view c (Some r))))"

section \<open>Applying a configuration\<close>

definition apply_payload :: "instance_view \<Rightarrow> string \<Rightarrow> config_apply_payload" where
  "apply_payload v revision =
     \<lparr>ca_instance_id = in_id v, ca_name = in_name v, ca_image = in_image v, ca_image_id = in_image_id v,
      ca_provider = in_provider v, ca_model = in_model v, ca_reasoning = in_reasoning v,
      ca_service_tier = in_service_tier v, ca_project_name = in_project_name v,
      ca_data_volume = in_data_volume v, ca_managed_path = in_managed_path v,
      ca_desired_status = in_status v, ca_api_port = in_api_port v,
      ca_dashboard_port = in_dashboard_port v, ca_revision = revision\<rparr>"

definition pending_config :: "timestamp \<Rightarrow> string \<Rightarrow> string \<Rightarrow> string \<Rightarrow> config_row" where
  "pending_config now i ciphertext revision =
     \<lparr>cf_instance_id = i, cf_ciphertext = ciphertext, cf_desired_revision = revision,
      cf_applied_revision = '''', cf_status = ConfigPending, cf_last_error = '''', cf_updated_at = now,
      cf_applied_at = None\<rparr>"

text \<open>The checks both configurations begin with.\<close>

definition configurable :: "api_config \<Rightarrow> timestamp \<Rightarrow> string \<Rightarrow> instance_view \<Rightarrow> db \<Rightarrow> (nat \<times> string) option" where
  "configurable cfg now what v d =
     (if \<not> stable v then Some (409, ''wait for the current instance operation to finish'')
      else if \<not> has_runtime_metadata v then Some (409, ''instance runtime metadata is incomplete'')
      else case current_agent cfg now (in_host_id v) d
          (what @ '' configuration requires an online Host Agent '' @ agent_version)
          (what @ '' configuration requires an online Host Agent '' @ agent_version) of
        Inl e \<Rightarrow> Some (409, e) | Inr _ \<Rightarrow> None)"

definition config_queue_failure :: "string \<Rightarrow> store_error \<Rightarrow> 'a reply" where
  "config_queue_failure what e =
     (if e = ErrQueueCapacity
      then Refused 429 ''the Host Agent work queue is full; retry after active work completes''
      else if e = ErrInstanceBusy \<or> e = ErrStateChanged
      then Refused 409 (what @ '' configuration could not be queued while the instance is busy'')
      else Refused 500 (what @ '' configuration could not be queued''))"

record messaging_request =
  gq_configuration :: messaging_configuration
  gq_clear_token :: bool

text \<open>A blank token keeps the stored one, unless it is to be cleared.\<close>

definition retained_token ::
    "messaging_configuration config_sealer option \<Rightarrow> url_parser \<Rightarrow> string \<Rightarrow> messaging_request \<Rightarrow> db
      \<Rightarrow> (nat \<times> string) + messaging_configuration" where
  "retained_token sealer parse i q d =
     (let c = gq_configuration q in
      if trim_space (tg_bot_token (mg_telegram c)) \<noteq> '''' \<or> gq_clear_token q then Inr c
      else case get_messaging_config i d of
          Inl _ \<Rightarrow> Inr c
        | Inr r \<Rightarrow>
            (case open_messaging_configuration sealer parse r of
               None \<Rightarrow> Inl (500, ''existing Telegram token could not be retained'')
             | Some p \<Rightarrow> Inr (c\<lparr>mg_telegram := (mg_telegram c)
                 \<lparr>tg_bot_token := tg_bot_token (mg_telegram p)\<rparr>\<rparr>)))"

definition messaging_operation :: "request_env \<Rightarrow> instance_view \<Rightarrow> string \<Rightarrow> messaging_configuration \<Rightarrow> operation" where
  "messaging_operation env v revision c = pending_operation env (in_id v) '''' ''''
     (OpOther ''CONFIGURE_MESSAGING'') (''Apply messaging configuration '' @ in_name v)
     (operation_metadata [(''revision'', JString revision),
        (''telegram_enabled'', JBool (tg_enabled (mg_telegram c))),
        (''whatsapp_enabled'', JBool (wa_enabled (mg_whatsapp c)))])"

definition queue_messaging ::
    "messaging_configuration config_sealer \<Rightarrow> request_env \<Rightarrow> instance_view \<Rightarrow> messaging_configuration \<Rightarrow> db
      \<Rightarrow> operation reply \<times> db" where
  "queue_messaging sl env v c d =
     (let revision = sc_digest sl c in
      case sc_seal sl c (messaging_context @ in_id v) of
        None \<Rightarrow> (Refused 500 ''messaging configuration could not be encrypted'', d)
      | Some ciphertext \<Rightarrow>
          let op = messaging_operation env v revision c in
          (case queue_messaging_configuration (in_status v) (pending_config (qe_now env) (in_id v) ciphertext revision)
              op (pending_job env op (in_host_id v) JobConfigureMessaging
                   (encode_config_apply (apply_payload v revision))) d of
             Inl e \<Rightarrow> (config_queue_failure ''messaging'' e, d)
           | Inr d' \<Rightarrow> (Reply 202 op, d')))"

definition configure_messaging ::
    "api_config \<Rightarrow> messaging_configuration config_sealer option \<Rightarrow> url_parser \<Rightarrow> request_env \<Rightarrow> string
      \<Rightarrow> messaging_request \<Rightarrow> db \<Rightarrow> operation reply \<times> db" where
  "configure_messaging cfg sealer parse env i q d =
     (case get_instance i d of
        Inl _ \<Rightarrow> (Refused 404 ''instance not found'', d)
      | Inr v \<Rightarrow>
     case configurable cfg (qe_now env) ''messaging'' v d of
        Some (code, e) \<Rightarrow> (Refused code e, d)
      | None \<Rightarrow>
     case sealer of
        None \<Rightarrow> (Refused 503 ''messaging encryption is unavailable'', d)
      | Some sl \<Rightarrow>
     case retained_token sealer parse (in_id v) q d of
        Inl (code, e) \<Rightarrow> (Refused code e, d)
      | Inr c \<Rightarrow>
     case normalize_messaging parse c of
        Inl e \<Rightarrow> (Refused 400 e, d)
      | Inr c \<Rightarrow> queue_messaging sl env v c d)"

record mcp_candidate = mcp_server +
  mq_clear_token :: bool

definition retained_bearer :: "mcp_configuration \<Rightarrow> mcp_candidate \<Rightarrow> mcp_server" where
  "retained_bearer previous q =
     (let token = trim_space (ms_bearer_token q);
          stored = (case find (\<lambda>s. ms_name s = to_lower (trim_space (ms_name q))) (rev previous) of
             None \<Rightarrow> '''' | Some s \<Rightarrow> ms_bearer_token s)
      in (mcp_server.truncate q)\<lparr>ms_bearer_token := (if token = '''' \<and> \<not> mq_clear_token q then stored else token)\<rparr>)"

definition previous_mcp ::
    "mcp_configuration config_sealer option \<Rightarrow> url_parser \<Rightarrow> string \<Rightarrow> db \<Rightarrow> (nat \<times> string) + mcp_configuration" where
  "previous_mcp sealer parse i d =
     (case get_mcp_config i d of
        Inl _ \<Rightarrow> Inr []
      | Inr r \<Rightarrow>
          (case open_mcp_configuration sealer parse r of
             None \<Rightarrow> Inl (500, ''existing MCP secrets could not be retained'') | Some c \<Rightarrow> Inr c))"

definition mcp_operation :: "request_env \<Rightarrow> instance_view \<Rightarrow> string \<Rightarrow> mcp_configuration \<Rightarrow> operation" where
  "mcp_operation env v revision c = pending_operation env (in_id v) '''' ''''
     (OpOther ''CONFIGURE_MCP'') (''Apply MCP configuration '' @ in_name v)
     (operation_metadata [(''revision'', JString revision),
        (''servers'', JArray (map (JString \<circ> ms_name) c)), (''server_count'', JInt (int (length c)))])"

definition queue_mcp ::
    "mcp_configuration config_sealer \<Rightarrow> request_env \<Rightarrow> instance_view \<Rightarrow> mcp_configuration \<Rightarrow> db
      \<Rightarrow> operation reply \<times> db" where
  "queue_mcp sl env v c d =
     (let revision = sc_digest sl c in
      case sc_seal sl c (mcp_context @ in_id v) of
        None \<Rightarrow> (Refused 500 ''MCP configuration could not be encrypted'', d)
      | Some ciphertext \<Rightarrow>
          let op = mcp_operation env v revision c in
          (case queue_mcp_configuration (in_status v) (pending_config (qe_now env) (in_id v) ciphertext revision)
              op (pending_job env op (in_host_id v) JobConfigureMcp
                   (encode_config_apply (apply_payload v revision))) d of
             Inl e \<Rightarrow> (config_queue_failure ''MCP'' e, d)
           | Inr d' \<Rightarrow> (Reply 202 op, d')))"

definition configure_mcp ::
    "api_config \<Rightarrow> mcp_configuration config_sealer option \<Rightarrow> url_parser \<Rightarrow> request_env \<Rightarrow> string
      \<Rightarrow> mcp_candidate list \<Rightarrow> db \<Rightarrow> operation reply \<times> db" where
  "configure_mcp cfg sealer parse env i q d =
     (case get_instance i d of
        Inl _ \<Rightarrow> (Refused 404 ''instance not found'', d)
      | Inr v \<Rightarrow>
     case configurable cfg (qe_now env) ''MCP'' v d of
        Some (code, e) \<Rightarrow> (Refused code e, d)
      | None \<Rightarrow>
     case sealer of
        None \<Rightarrow> (Refused 503 ''MCP encryption is unavailable'', d)
      | Some sl \<Rightarrow>
     case previous_mcp sealer parse (in_id v) d of
        Inl (code, e) \<Rightarrow> (Refused code e, d)
      | Inr previous \<Rightarrow>
     case normalize_mcp parse (map (retained_bearer previous) q) of
        Inl e \<Rightarrow> (Refused 400 e, d)
      | Inr c \<Rightarrow> queue_mcp sl env v c d)"

section \<open>What the Host Agent downloads\<close>

text \<open>The configuration of the job's own revision; a newer one makes the download conflict.\<close>

definition download_config ::
    "string \<Rightarrow> job_type \<Rightarrow> (string \<Rightarrow> db \<Rightarrow> config_row result) \<Rightarrow> (config_row \<Rightarrow> 'c option)
      \<Rightarrow> string \<Rightarrow> string \<Rightarrow> string \<Rightarrow> timestamp \<Rightarrow> db \<Rightarrow> 'c reply" where
  "download_config what t stored open_row host job token now d =
     (case active_job_payload t host job token now d of
        Inl _ \<Rightarrow> Refused 409 (what @ '' configuration lease is no longer active'')
      | Inr payload \<Rightarrow>
     case decode_config_apply payload of
        None \<Rightarrow> Refused 409 (what @ '' configuration job payload is invalid'')
      | Some p \<Rightarrow>
     if ca_instance_id p = '''' \<or> ca_revision p = ''''
     then Refused 409 (what @ '' configuration job payload is invalid'')
     else case stored (ca_instance_id p) d of
        Inl _ \<Rightarrow> Refused 409 (what @ '' configuration revision is no longer current'')
      | Inr r \<Rightarrow>
          if cf_desired_revision r \<noteq> ca_revision p
          then Refused 409 (what @ '' configuration revision is no longer current'')
          else (case open_row r of
              None \<Rightarrow> Refused 500 (what @ '' configuration could not be decrypted'')
            | Some c \<Rightarrow> Reply 200 c))"

definition download_messaging_configuration ::
    "messaging_configuration config_sealer option \<Rightarrow> url_parser \<Rightarrow> string \<Rightarrow> string \<Rightarrow> string \<Rightarrow> timestamp \<Rightarrow> db
      \<Rightarrow> messaging_configuration reply" where
  "download_messaging_configuration sealer parse =
     download_config ''messaging'' JobConfigureMessaging get_messaging_config (open_messaging_configuration sealer parse)"

definition download_mcp_configuration ::
    "mcp_configuration config_sealer option \<Rightarrow> url_parser \<Rightarrow> string \<Rightarrow> string \<Rightarrow> string \<Rightarrow> timestamp \<Rightarrow> db
      \<Rightarrow> mcp_configuration reply" where
  "download_mcp_configuration sealer parse =
     download_config ''MCP'' JobConfigureMcp get_mcp_config (open_mcp_configuration sealer parse)"

end
