(* ===== verification/Spec2Isabelle.thy ===== *)
theory Spec2Isabelle
  imports Properties_Completion Properties_Queue Properties_Chat Properties_Claims
    Properties_Observations Properties_Operations Properties_Fleet Properties_Recovery
    Properties_Services Properties_Storage Properties_Backups Properties_Updates Properties_Reports
    Properties_Rollouts Properties_Artifacts Api_Recovery Api_Access Api_Configs
begin

text \<open>
  The control plane of Hermes Fleet Manager: a verification development.

  \<^bold>\<open>The program.\<close> A control plane (\<open>cmd/control-plane\<close>, \<open>internal/api\<close>) keeps a fleet of Hermes
  instances in a SQLite database (\<open>internal/store\<close>). On every host a Host Agent polls it over
  HTTP: it claims jobs under a lease, acknowledges and renews them, reports progress, results and
  observations, and streams the events of chat turns. Administrators and background loops put
  work into the queue: lifecycle actions, configurations, backups, Hermes updates, policy
  rollouts and diagnostics campaigns. Beside the database the control plane owns a directory of
  encrypted recovery points (\<open>internal/recovery\<close>, \<open>internal/recoverycodec\<close>), a storage of chat
  outputs (\<open>internal/chatartifacts\<close>), a hub that wakes the event streams (\<open>internal/events\<close>), a
  rotating log (\<open>internal/rotatinglog\<close>) and a cache of the official release feed
  (\<open>internal/releases\<close>).

  \<^bold>\<open>How the code is modelled.\<close> A store operation is a pure function from its arguments and the
  database to a \<open>result\<close>: \<open>Inr\<close> is the committed database (with what the call returns), \<open>Inl\<close> an
  error with the transaction rolled back. The database is the record \<open>db\<close> with one list of rows per
  table, in insertion order; the constraints of the schema, its triggers, foreign keys and
  cascades are checks of the insert, update and delete functions. A nullable text column is the
  empty string where the code reads it with \<open>COALESCE\<close>, an \<open>option\<close> otherwise. Times and durations
  are integers, in nanoseconds. The clock, new identities, random bytes, lease tokens and the answers
  of external systems are arguments; a new lease token is never empty. An HTTP handler is a
  function from the request and the state \<open>server_state\<close> (the database and the recovery points) to
  the reply and the state after it; it reads the clock once. Published events and log lines are
  not part of the state, and a failure that is only logged leaves the state as it is.

  \<^bold>\<open>The theories.\<close>

  \<^item> Shared: \<open>Fleet_Prelude\<close> (tables, results, the collections of rewrite rules), \<open>Go_Std\<close>,
    \<open>Go_Sha256\<close>, \<open>Go_Json\<close> (what the code uses of the Go standard library).
  \<^item> Data: \<open>Domain_Types\<close>, \<open>Domain_Payloads\<close>, \<open>Domain_Hermes\<close> (\<open>internal/domain\<close>: resources,
    statuses, job payloads and inventories with their validators), \<open>Providers\<close>
    (\<open>internal/providers/catalog.go\<close>), \<open>Store_Tables\<close> (the schema).
  \<^item> Store, \<open>internal/store/store.go\<close> unless another file is named: \<open>Store_Sql\<close> (statements and
    constraints), \<open>Store_Hosts\<close>, \<open>Store_Queue\<close> (admission), \<open>Store_Leases\<close> (\<open>ClaimJob\<close>,
    \<open>ReconcileExpiredJobs\<close>, the closing of a lost lease), \<open>Store_Agents\<close> (acknowledge, renew,
    progress), \<open>Store_Completion\<close> and \<open>Store_Complete\<close> (\<open>CompleteJobWithHash\<close>, arm by arm),
    \<open>Store_Chat\<close> (\<open>chat.go\<close>), \<open>Store_Operations\<close> (operations, publishing, deletion, recovery
    onto a clean host), \<open>Store_Observations\<close> (reports, automatic repair and synchronisation),
    \<open>Store_Campaigns\<close> (\<open>policies.go\<close>, \<open>campaigns.go\<close>, \<open>health_history.go\<close>).
  \<^item> The store as a system: \<open>Job_Lifecycle\<close> is the abstract life of a job, a step relation on job
    rows and tables; \<open>Store_Runs\<close> has one constructor per store call, \<open>apply_call\<close>, and the
    \<open>reachable\<close> databases; \<open>Lease_Facts\<close>, \<open>Lease_Closing\<close>, \<open>Repair_Runs\<close> and \<open>Campaign_Runs\<close>
    are the invariants and frames that single properties need.
  \<^item> Handlers, \<open>internal/api\<close>: \<open>Api_Rules\<close> and \<open>Api_Payloads\<close> (validators and encoders),
    \<open>Api_Server\<close> (replies, state), \<open>Api_Access\<close> (authentication, enrolment, sign-in,
    credentials), \<open>Api_Actions\<close>, \<open>Api_Configs\<close>, \<open>Api_Jobs\<close> (the Host Agent's side),
    \<open>Api_Observations\<close>, \<open>Api_Recovery\<close>, \<open>Api_Updates\<close> (\<open>hermes_update_queue.go\<close>),
    \<open>Api_Policies\<close> and \<open>Api_Rollouts\<close> (\<open>policies.go\<close>), \<open>Api_Campaigns\<close> (\<open>campaigns.go\<close>).
  \<^item> Storage and services: \<open>Recovery_Codec\<close>, \<open>Recovery_Points\<close> with \<open>Recovery_Facts\<close>,
    \<open>Chat_Artifacts\<close>, \<open>Event_Hub\<close>, \<open>Rotating_Log\<close>, \<open>Config_Forms\<close> (\<open>internal/mcpconfig\<close>,
    \<open>internal/messaging\<close>), \<open>Hermes_Releases\<close> (with \<open>runtime/assets.go\<close>).
  \<^item> \<open>Sample_Fleet\<close>, \<open>Sample_Runs\<close>, \<open>Sample_Chat\<close>: concrete databases and runs, on which the
    witnesses evaluate the code.

  \<^bold>\<open>Interfaces.\<close> The locales state contracts that several operations share, and each is
  interpreted on the model of the code: \<open>lease_fenced\<close> and \<open>live_lease_fenced\<close> (every call of a Host
  Agent needs the current token of the job, and most need its lease to run; interpreted for all of
  these calls) and \<open>store_call\<close> (what a call keeps of the job and instance tables; interpreted for
  \<open>apply_call\<close>, so the invariants hold of every reachable database).

  \<^bold>\<open>What is shown.\<close> Each property is a theorem with its claim number in front of it.

  \<^item> Jobs and leases (\<open>Properties_Queue\<close>, \<open>Properties_Claims\<close>, \<open>Properties_Completion\<close>): over all
    runs the queue of a host is bounded, an instance has one action at a time, attempts are
    bounded, names and ports are exclusive, a replaced token is refused for good and an ended job is
    not touched; a claim hands out the first job of the order and never idles, reconciliation
    fails exactly the leases that are lost for good, a completion is recorded once, and every
    call of the store is a step of the abstract life cycle.
  \<^item> Chat (\<open>Properties_Chat\<close>): the turns of a session run in order, the event log is idempotent
    and can be resumed, a cancelled run is fenced off.
  \<^item> Observations (\<open>Properties_Observations\<close>, \<open>Properties_Reports\<close>): reports supersede each
    other by generation, repairs and synchronisations are bounded and need evidence, and automatic
    work never competes with an active job.
  \<^item> Operations and the fleet (\<open>Properties_Operations\<close>, \<open>Properties_Fleet\<close>, \<open>Properties_Rollouts\<close>):
    paging is complete, recovery onto a clean host stops all old work, campaigns exclude each
    other in every reachable database, a rollout starts one target at a time behind its canary.
  \<^item> Recovery (\<open>Properties_Recovery\<close>, \<open>Properties_Storage\<close>, \<open>Properties_Backups\<close>,
    \<open>Properties_Updates\<close>): streams round-trip, a cut, spliced or reordered stream is refused, the
    storage survives a crash between any two file actions, a \<open>READY\<close> point can be restored, a
    backup that was recorded is ready, and a Hermes update is either backed by its own recovery
    point or leaves no trace.
  \<^item> Services (\<open>Properties_Services\<close>, \<open>Properties_Artifacts\<close>): the newest event is delivered, the
    log keeps the newest generations, a configuration form is in normal form, releases are always
    served, quotas of chat outputs hold and an accepted output opens.

  \<^bold>\<open>Bounds.\<close> Every loop of the code is a total function. Recursion is on the list that the loop reads,
  or its measure is proved: \<open>claim_loop\<close> by the number of leased rows, the stream loops by the rest of the
  input. Fuel is an explicit number only where the code has one or where the input gives one: five
  attempts at free ports in \<open>create_attempts\<close>, the length of the text for \<open>trim_runes\<close>, the value of the
  number for \<open>digits_of\<close>. Chunk counters are 32-bit words, so the streams are shown for every
  source that they can number.

  \<^bold>\<open>Arguments that stand for other code.\<close> The AES-GCM seal and open functions, with the laws that opening
  undoes sealing and that only sealed text opens; \<open>net/url\<close>; \<open>archive/tar\<close>; the texts of driver
  errors; the answers of the release feed and of the free-space check; whether a file operation of the
  log or of the release cache succeeds.

  \<^bold>\<open>Simplifications.\<close> \<open>sort.Slice\<close> keeps ties in order here. Stored JSON is its parse, or \<open>None\<close> when
  it is malformed. The directory of the recovery points is a map from names to files, and an
  operation is the list of its file actions, so that a crash is a prefix of it; the storage of chat
  outputs has no disk errors. The release cache holds the text that was encoded, whose size the next
  start checks, and the catalog it encodes.

  \<^bold>\<open>Not modelled.\<close> Opening and migrating the database, plain listings, routing, cookies and static pages;
  the agent's loop, the provisioner, Cloudflare and Tailscale, whose steps are external commands
  and services; backups of the database file, the reliability drills, previews of documents, the
  MCP discovery client and the metrics.
\<close>

end
